(* ===== verification/Go_Prelude.thy ===== *)
theory Go_Prelude
  imports Main "HOL-Library.AList" "HOL-Library.Multiset"
begin

text \<open>
  What the Go programs share: error values, clock readings and durations, 64-bit wrap-around,
  maps as association lists with their iteration order made explicit, and the lemma
  collections the component theories use.
\<close>

section \<open>Lemma collections\<close>

named_theorems gomap_simps \<open>reading and sizing association-list maps\<close>
named_theorems limiter_defs \<open>definitions of the admission components\<close>

section \<open>Error values\<close>

text \<open>
  An \<open>error\<close> of the Go code is the format string of its \<open>fmt.Errorf\<close> call with the
  arguments of the call (a string, an integer, or a wrapped error), or a package-level
  sentinel made by \<open>errors.New\<close>. Nothing of the text is lost, and two different messages are
  different values. A function \<open>func(..) error\<close> returns \<open>go_error option\<close>, a function
  \<open>func(..) (T, error)\<close> returns \<open>go_error + T\<close>.
\<close>

datatype farg = FS string | FI int | FE go_error
  and go_error = Errorf string "farg list" | Sentinel string

type_synonym 'a res = "go_error + 'a"

definition first_error :: "go_error option list \<Rightarrow> go_error option" where
  "first_error es = (case filter (\<lambda>e. e \<noteq> None) es of [] \<Rightarrow> None | e # _ \<Rightarrow> e)"

lemma first_error_None [simp]: "first_error es = None \<longleftrightarrow> (\<forall>e \<in> set es. e = None)"
proof (cases "filter (\<lambda>e. e \<noteq> None) es")
  case Nil
  then show ?thesis by (auto simp: first_error_def filter_empty_conv)
next
  case (Cons a as)
  then have "a \<in> set es" and "a \<noteq> None"
    by (auto dest: filter_eq_ConsD)
  with Cons show ?thesis by (auto simp: first_error_def)
qed

lemma first_error_Nil [simp, code]: "first_error [] = None"
  by (simp add: first_error_def)

lemma first_error_Cons [simp, code]:
  "first_error (e # es) = (case e of None \<Rightarrow> first_error es | Some x \<Rightarrow> Some x)"
  by (simp add: first_error_def split: option.splits)

section \<open>Machine integers, clock readings, durations\<close>

text \<open>
  \<open>int64\<close> wraps an integer to a signed 64-bit value. A \<open>time.Time\<close> is its number of
  nanoseconds since the zero time (1 January of year 1), so \<open>IsZero\<close> is \<open>t = 0\<close>,
  \<open>Before\<close> and \<open>After\<close> are \<open><\<close> and \<open>>\<close>; a \<open>time.Duration\<close> is a number of nanoseconds.
\<close>

type_synonym time = int
type_synonym duration = int

definition int64 :: "int \<Rightarrow> int" where
  "int64 x = (x + 2 ^ 63) mod 2 ^ 64 - 2 ^ 63"

lemma int64_id: "- (2 ^ 63) \<le> x \<Longrightarrow> x < 2 ^ 63 \<Longrightarrow> int64 x = x"
  by (simp add: int64_def)

lemma int64_range: "- (2 ^ 63) \<le> int64 x \<and> int64 x < 2 ^ 63"
  by (simp add: int64_def)

definition second :: duration where
  "second = 1000000000"

definition minute :: duration where
  "minute = 60 * second"

definition seconds :: "int \<Rightarrow> duration" where
  \<comment> \<open>\<open>time.Duration(n) * time.Second\<close>\<close>
  "seconds n = int64 (n * second)"

lemma seconds_small: "- 9000000000 \<le> n \<Longrightarrow> n \<le> 9000000000 \<Longrightarrow> seconds n = n * second"
  by (simp add: seconds_def second_def int64_id)

section \<open>Maps\<close>

text \<open>
  A Go map is an association list with distinct keys (\<open>gmap_ok\<close>): \<open>map_of\<close> looks a key
  up, \<open>AList.update\<close> stores, \<open>AList.delete\<close> deletes, \<open>length\<close> is \<open>len\<close>. The order in
  which \<open>range\<close> visits the entries is unspecified in Go: an operation that depends on it takes
  the order as an argument, a function \<open>rng\<close> that permutes the list of entries
  (\<open>perm_fn\<close>), and its properties hold for every such function.
\<close>

type_synonym ('k, 'v) gomap = "('k \<times> 'v) list"

definition gmap_ok :: "('k, 'v) gomap \<Rightarrow> bool" where
  "gmap_ok m \<longleftrightarrow> distinct (map fst m)"

definition perm_fn :: "('a list \<Rightarrow> 'a list) \<Rightarrow> bool" where
  "perm_fn rng \<longleftrightarrow> (\<forall>xs. mset (rng xs) = mset xs)"

lemma perm_fn_id [simp]: "perm_fn (\<lambda>xs. xs)"
  by (simp add: perm_fn_def)

lemma perm_fn_rev [simp]: "perm_fn rev"
  by (simp add: perm_fn_def)

lemma perm_fn_set: "perm_fn rng \<Longrightarrow> set (rng xs) = set xs"
  unfolding perm_fn_def by (metis set_mset_mset)

lemma gmap_ok_Nil [simp, intro]: "gmap_ok []"
  by (simp add: gmap_ok_def)

lemma gmap_ok_update [simp, intro]: "gmap_ok m \<Longrightarrow> gmap_ok (AList.update k v m)"
  by (simp add: gmap_ok_def distinct_update)

lemma gmap_ok_delete [simp, intro]: "gmap_ok m \<Longrightarrow> gmap_ok (AList.delete k m)"
  by (simp add: gmap_ok_def distinct_delete)

lemma gmap_ok_filter [simp, intro]: "gmap_ok m \<Longrightarrow> gmap_ok (filter P m)"
  by (auto simp: gmap_ok_def distinct_map_filter)

lemma map_of_update [gomap_simps]: "map_of (AList.update k v m) = (map_of m)(k \<mapsto> v)"
  by (rule update_conv')

lemma map_of_delete [gomap_simps]: "map_of (AList.delete k m) = (map_of m)(k := None)"
  by (rule delete_conv')

lemma length_update_AList [gomap_simps]:
  "length (AList.update k v m) = (if map_of m k = None then Suc (length m) else length m)"
  by (induction m) auto

lemma length_delete_AList [gomap_simps]:
  "gmap_ok m \<Longrightarrow> length (AList.delete k m) = (if map_of m k = None then length m else length m - 1)"
proof (induction m)
  case (Cons kv m)
  obtain a b where kv: "kv = (a, b)" by (cases kv)
  from Cons.prems have ok: "gmap_ok m" and a: "a \<notin> fst ` set m"
    by (auto simp: gmap_ok_def kv)
  show ?case
  proof (cases "a = k")
    case True
    with a show ?thesis by (simp add: kv delete_id)
  next
    case False
    have "m \<noteq> []" if "map_of m k \<noteq> None"
      using that by auto
    with False Cons.IH [OF ok] show ?thesis
      by (cases m) (auto simp: kv)
  qed
qed simp

lemma length_delete_le_AList: "length (AList.delete k m) \<le> length m"
  by (rule length_delete_le)

section \<open>Sums over the values of a map\<close>

definition msum :: "('v \<Rightarrow> nat) \<Rightarrow> ('k, 'v) gomap \<Rightarrow> nat" where
  "msum f m = sum_list (map (\<lambda>kv. f (snd kv)) m)"

lemma msum_Nil [simp]: "msum f [] = 0"
  by (simp add: msum_def)

lemma msum_Cons [simp]: "msum f (kv # m) = f (snd kv) + msum f m"
  by (simp add: msum_def)

lemma msum_update:
  "msum f (AList.update k v m) + (case map_of m k of None \<Rightarrow> 0 | Some w \<Rightarrow> f w) = msum f m + f v"
  by (induction m) (auto split: option.splits)

lemma msum_delete:
  "gmap_ok m \<Longrightarrow>
   msum f (AList.delete k m) + (case map_of m k of None \<Rightarrow> 0 | Some w \<Rightarrow> f w) = msum f m"
proof (induction m)
  case (Cons kv m)
  then have ok: "gmap_ok m" by (simp add: gmap_ok_def)
  from Cons.prems have "map_of m (fst kv) = None"
    by (simp add: gmap_ok_def map_of_eq_None_iff)
  with Cons.IH [OF ok] show ?case
    by (cases "fst kv = k") (auto split: option.splits)
qed simp

lemma msum_update_None:
  "map_of m k = None \<Longrightarrow> msum f (AList.update k v m) = msum f m + f v"
  using msum_update [of f k v m] by simp

lemma msum_update_Some:
  "map_of m k = Some w \<Longrightarrow> msum f (AList.update k v m) + f w = msum f m + f v"
  using msum_update [of f k v m] by simp

lemma msum_delete_Some:
  "gmap_ok m \<Longrightarrow> map_of m k = Some w \<Longrightarrow> msum f (AList.delete k m) + f w = msum f m"
  using msum_delete [of m f k] by simp

lemma msum_ge: "map_of m k = Some w \<Longrightarrow> f w \<le> msum f m"
  by (induction m) (auto split: if_splits)

lemma map_of_map_filter:
  assumes "gmap_ok m"
  shows "map_of (filter (\<lambda>(k, v). P v) (map (\<lambda>(k, v). (k, g v)) m)) k =
    (case map_of m k of None \<Rightarrow> None | Some v \<Rightarrow> if P (g v) then Some (g v) else None)"
  using assms
proof (induction m)
  case (Cons kv m)
  then have ok: "gmap_ok m" by (simp add: gmap_ok_def)
  from Cons.prems have "map_of m (fst kv) = None"
    by (simp add: gmap_ok_def map_of_eq_None_iff)
  with Cons.IH [OF ok] show ?case
    by (cases kv) (auto split: option.splits)
qed simp

lemma gmap_ok_map_filter [simp, intro]:
  "gmap_ok m \<Longrightarrow> gmap_ok (filter P (map (\<lambda>(k, v). (k, g v)) m))"
  by (rule gmap_ok_filter) (simp add: gmap_ok_def comp_def case_prod_unfold)

lemma length_map_filter_le: "length (filter P (map g m)) \<le> length m"
  by (metis length_filter_le length_map)

section \<open>The weight of a counting function\<close>

text \<open>The sum of a counting function with finite support: how many places are held in all.\<close>

definition weight :: "('k \<Rightarrow> nat) \<Rightarrow> nat" where
  "weight h = (\<Sum>k | h k \<noteq> 0. h k)"

lemma weight_superset: "finite A \<Longrightarrow> {k. h k \<noteq> 0} \<subseteq> A \<Longrightarrow> weight h = sum h A"
  unfolding weight_def by (rule sum.mono_neutral_left) auto

lemma weight_zero [simp]: "weight (\<lambda>_. 0) = 0"
  by (simp add: weight_def)

lemma weight_Suc:
  assumes "finite {k. h k \<noteq> 0}"
  shows "weight (h(k := Suc (h k))) = Suc (weight h)"
proof -
  let ?A = "insert k {k. h k \<noteq> 0}"
  have fin: "finite ?A" using assms by simp
  have "weight (h(k := Suc (h k))) = sum (h(k := Suc (h k))) ?A"
    by (rule weight_superset [OF fin]) auto
  also have "\<dots> = Suc (h k) + sum (h(k := Suc (h k))) (?A - {k})"
    by (subst sum.remove [OF fin, of k]) simp_all
  also have "sum (h(k := Suc (h k))) (?A - {k}) = sum h (?A - {k})"
    by (rule sum.cong) auto
  also have "Suc (h k) + sum h (?A - {k}) = Suc (sum h ?A)"
    using sum.remove [OF fin, of k h] by simp
  also have "sum h ?A = weight h"
    by (rule weight_superset [OF fin, symmetric]) auto
  finally show ?thesis .
qed

lemma weight_pred:
  assumes fin: "finite {k. h k \<noteq> 0}" and pos: "0 < h k"
  shows "Suc (weight (h(k := h k - 1))) = weight h"
proof -
  let ?g = "h(k := h k - 1)"
  have "finite {k. ?g k \<noteq> 0}"
    by (rule finite_subset [OF _ fin]) (auto split: if_splits)
  from weight_Suc [OF this, of k] have "weight (?g(k := Suc (?g k))) = Suc (weight ?g)" .
  moreover have "?g(k := Suc (?g k)) = h" using pos by (simp add: fun_eq_iff)
  ultimately show ?thesis by (simp only:)
qed

lemma weight_ge: "finite {k. h k \<noteq> 0} \<Longrightarrow> h k \<le> weight h"
  by (cases "h k = 0") (auto simp: weight_def intro: member_le_sum)

section \<open>The scan for the least recently seen entry\<close>

text \<open>
  Two components evict the entry seen longest ago with the same loop over a map:
  \<open>oldest\<close> and \<open>oldestKey\<close> are updated when the candidate may be evicted and either no
  candidate was chosen yet (the empty key is the marker) or it was seen earlier.
\<close>

fun scan_oldest ::
    "('v \<Rightarrow> bool) \<Rightarrow> ('v \<Rightarrow> time) \<Rightarrow> (string \<times> 'v) list \<Rightarrow> string \<times> time \<Rightarrow> string \<times> time" where
  "scan_oldest skip seen [] acc = acc"
| "scan_oldest skip seen ((k, v) # rest) (oldestKey, oldest) =
     (if skip v then scan_oldest skip seen rest (oldestKey, oldest)
      else if oldestKey = [] \<or> seen v < oldest then scan_oldest skip seen rest (k, seen v)
      else scan_oldest skip seen rest (oldestKey, oldest))"

lemma scan_oldest_origin:
  "scan_oldest skip seen es acc = (k, t) \<Longrightarrow>
   (k, t) = acc \<or> (\<exists>v. (k, v) \<in> set es \<and> \<not> skip v \<and> seen v = t)"
  by (induction skip seen es acc rule: scan_oldest.induct) (auto split: if_splits)

lemma scan_oldest_le_start:
  "scan_oldest skip seen es (k0, t0) = (k, t) \<Longrightarrow> k0 \<noteq> [] \<Longrightarrow> \<forall>e \<in> set es. fst e \<noteq> [] \<Longrightarrow>
   k \<noteq> [] \<and> t \<le> t0"
proof (induction es arbitrary: k0 t0)
  case (Cons e es)
  obtain a b where e: "e = (a, b)" by (cases e)
  from Cons.prems(3) have a: "a \<noteq> []" and es: "\<forall>e \<in> set es. fst e \<noteq> []"
    by (auto simp: e)
  show ?case
  proof (cases "skip b \<or> \<not> seen b < t0")
    case True
    with Cons.prems(1,2) have "scan_oldest skip seen es (k0, t0) = (k, t)"
      by (cases "skip b") (simp_all add: e)
    then show ?thesis using Cons.prems(2) es by (rule Cons.IH)
  next
    case False
    with Cons.prems(1) have "scan_oldest skip seen es (a, seen b) = (k, t)"
      by (simp add: e)
    then have "k \<noteq> [] \<and> t \<le> seen b" using a es by (rule Cons.IH)
    with False show ?thesis by simp
  qed
qed simp

lemma scan_oldest_least:
  "scan_oldest skip seen es (k0, t0) = (k, t) \<Longrightarrow> \<forall>e \<in> set es. fst e \<noteq> [] \<Longrightarrow>
   (k', v') \<in> set es \<Longrightarrow> \<not> skip v' \<Longrightarrow> k \<noteq> [] \<and> t \<le> seen v'"
proof (induction es arbitrary: k0 t0)
  case (Cons e es)
  obtain a b where e: "e = (a, b)" by (cases e)
  show ?case
  proof (cases "(k', v') = e")
    case True
    with Cons.prems show ?thesis
      by (auto simp: e split: if_splits dest!: scan_oldest_le_start)
  next
    case False
    with Cons.prems Cons.IH show ?thesis
      by (auto simp: e split: if_splits)
  qed
qed simp

lemma scan_oldest_none:
  assumes scan: "scan_oldest skip seen es (k0, t0) = ([], t)"
    and keys: "\<forall>e \<in> set es. fst e \<noteq> []" and mem: "(k', v') \<in> set es"
  shows "skip v'"
proof (rule ccontr)
  assume "\<not> skip v'"
  from scan_oldest_least [OF scan keys mem this] show False by simp
qed

end
