(* ===== verification/Event_Ring.thy ===== *)
theory Event_Ring
  imports Go_Prelude
begin

text \<open>
  The in-memory window of recent runtime events: \<open>RuntimeEvent\<close> of
  \<open>src/server/tunnel/runtime_events.go\<close> and the ring buffer of
  \<open>src/server/tunnel/runtime_event_ring.go\<close>. The interface \<open>recent_log\<close> says what a window of
  recent entries promises; the ring is shown to provide it.
\<close>

section \<open>Runtime events\<close>

record runtimeEvent =
  ev_Time :: string
  ev_RequestID :: string
  ev_Kind :: string
  ev_Result :: string
  ev_RemoteIP :: string
  ev_Username :: string
  ev_ClientID :: string
  ev_ForwardName :: string
  ev_Direction :: string
  ev_Target :: string
  ev_ListenAddr :: string
  ev_Code :: string
  ev_Message :: string
  ev_DurationMS :: int
  ev_BytesUp :: int
  ev_BytesDown :: int

definition zeroEvent :: runtimeEvent where
  "zeroEvent = \<lparr>ev_Time = [], ev_RequestID = [], ev_Kind = [], ev_Result = [], ev_RemoteIP = [],
     ev_Username = [], ev_ClientID = [], ev_ForwardName = [], ev_Direction = [], ev_Target = [],
     ev_ListenAddr = [], ev_Code = [], ev_Message = [], ev_DurationMS = 0, ev_BytesUp = 0,
     ev_BytesDown = 0\<rparr>"

definition defaultRecentEvents :: int where
  "defaultRecentEvents = 500"

section \<open>The ring buffer\<close>

text \<open>A method of the ring takes the pointer it is called on, \<open>None\<close> for \<open>nil\<close>.\<close>

record runtimeEventRing =
  ring_items :: "runtimeEvent list"
  ring_start :: nat
  ring_length :: nat

definition newRuntimeEventRing :: "int \<Rightarrow> runtimeEventRing" where
  "newRuntimeEventRing capacity =
     (let capacity = (if capacity \<le> 0 then defaultRecentEvents else capacity)
      in \<lparr>ring_items = replicate (nat capacity) zeroEvent, ring_start = 0, ring_length = 0\<rparr>)"

fun ringAppend :: "runtimeEventRing option \<Rightarrow> runtimeEvent \<Rightarrow> runtimeEventRing option" where
  "ringAppend None event = None"
| "ringAppend (Some r) event =
     (if length (ring_items r) = 0 then Some r
      else if ring_length r < length (ring_items r)
      then (let index = (ring_start r + ring_length r) mod length (ring_items r)
            in Some (r\<lparr>ring_items := (ring_items r)[index := event],
                       ring_length := ring_length r + 1\<rparr>))
      else Some (r\<lparr>ring_items := (ring_items r)[ring_start r := event],
                   ring_start := (ring_start r + 1) mod length (ring_items r)\<rparr>))"

fun ringSnapshot :: "runtimeEventRing option \<Rightarrow> runtimeEvent list" where
  "ringSnapshot None = []"
| "ringSnapshot (Some r) =
     map (\<lambda>i. ring_items r ! ((ring_start r + i) mod length (ring_items r))) [0..<ring_length r]"

section \<open>The contract of a window of recent entries\<close>

text \<open>The last \<open>n\<close> elements of a list, in order.\<close>

definition take_last :: "nat \<Rightarrow> 'a list \<Rightarrow> 'a list" where
  "take_last n xs = drop (length xs - n) xs"

lemma take_last_short: "length xs \<le> n \<Longrightarrow> take_last n xs = xs"
  by (simp add: take_last_def)

lemma length_take_last [simp]: "length (take_last n xs) = min n (length xs)"
  by (simp add: take_last_def)

lemma take_last_full: "xs \<noteq> [] \<Longrightarrow> take_last (length xs) (xs @ [e]) = tl xs @ [e]"
  by (cases xs) (simp_all add: take_last_def)

lemma take_last_append_take_last: "take_last n (take_last n xs @ ys) = take_last n (xs @ ys)"
proof (cases "length xs \<le> n")
  case False
  have "drop (length xs - n) xs @ ys = drop (length xs - n) (xs @ ys)"
    by simp
  with False show ?thesis
    by (simp only: take_last_def) (simp add: add.commute)
qed (simp add: take_last_short)

locale recent_log =
  fixes add :: "'r \<Rightarrow> 'e \<Rightarrow> 'r"
    and contents :: "'r \<Rightarrow> 'e list"
    and capacity :: "'r \<Rightarrow> nat"
    and invar :: "'r \<Rightarrow> bool"
  assumes contents_add: "invar r \<Longrightarrow> contents (add r e) = take_last (capacity r) (contents r @ [e])"
    and capacity_add: "invar r \<Longrightarrow> capacity (add r e) = capacity r"
    and invar_add: "invar r \<Longrightarrow> invar (add r e)"
begin

lemma invar_foldl: "invar r \<Longrightarrow> invar (foldl add r es)"
  by (induction es arbitrary: r) (auto intro: invar_add)

lemma capacity_foldl: "invar r \<Longrightarrow> capacity (foldl add r es) = capacity r"
  by (induction es arbitrary: r) (auto simp: capacity_add invar_add)

lemma contents_foldl:
  "invar r \<Longrightarrow> length (contents r) \<le> capacity r \<Longrightarrow>
   contents (foldl add r es) = take_last (capacity r) (contents r @ es)"
proof (induction es arbitrary: r)
  case Nil
  then show ?case by (simp add: take_last_short)
next
  case (Cons e es)
  have len: "length (contents (add r e)) \<le> capacity (add r e)"
    using Cons.prems(1) by (simp add: contents_add capacity_add)
  have "contents (foldl add (add r e) es) = take_last (capacity (add r e)) (contents (add r e) @ es)"
    by (rule Cons.IH [OF invar_add [OF Cons.prems(1)] len])
  also have "\<dots> = take_last (capacity r) ((contents r @ [e]) @ es)"
    using Cons.prems(1) by (simp only: contents_add capacity_add take_last_append_take_last)
  finally show ?case by simp
qed

end

section \<open>The ring provides the contract\<close>

definition ring_ok :: "runtimeEventRing option \<Rightarrow> bool" where
  "ring_ok ro \<longleftrightarrow> (case ro of None \<Rightarrow> False
     | Some r \<Rightarrow> ring_start r < length (ring_items r) \<and> ring_length r \<le> length (ring_items r))"

definition ring_capacity :: "runtimeEventRing option \<Rightarrow> nat" where
  "ring_capacity ro = (case ro of None \<Rightarrow> 0 | Some r \<Rightarrow> length (ring_items r))"

lemma wrap_index: "(s::nat) < n \<Longrightarrow> i < n \<Longrightarrow> (s + i) mod n = (if s + i < n then s + i else s + i - n)"
  by (simp add: mod_if)

lemma wrap_index_inj:
  "(s::nat) < n \<Longrightarrow> i < n \<Longrightarrow> j < n \<Longrightarrow> (s + i) mod n = (s + j) mod n \<longleftrightarrow> i = j"
  by (auto simp: wrap_index split: if_splits)

lemma wrap_index_Suc: "(s::nat) < n \<Longrightarrow> ((s + 1) mod n + i) mod n = (s + Suc i) mod n"
  by (simp add: mod_add_left_eq)

lemma length_ringSnapshot: "length (ringSnapshot (Some r)) = ring_length r"
  by simp

lemma ringAppend_room:
  assumes ok: "ring_ok (Some r)" and room: "ring_length r < length (ring_items r)"
  shows "ringSnapshot (ringAppend (Some r) e) = ringSnapshot (Some r) @ [e]"
proof -
  let ?n = "length (ring_items r)" and ?s = "ring_start r" and ?l = "ring_length r"
  have s: "?s < ?n" using ok by (simp add: ring_ok_def)
  have old: "(ring_items r)[(?s + ?l) mod ?n := e] ! ((?s + i) mod ?n) = ring_items r ! ((?s + i) mod ?n)"
    if "i < ?l" for i
    using that room s wrap_index_inj [of ?s ?n ?l i] by (simp add: nth_list_update)
  have new: "(ring_items r)[(?s + ?l) mod ?n := e] ! ((?s + ?l) mod ?n) = e"
    using s by (intro nth_list_update_eq mod_less_divisor) linarith
  have "ring_items r \<noteq> []" using s by auto
  then show ?thesis
    using room old new by (simp add: Let_def)
qed

lemma ringAppend_full:
  assumes ok: "ring_ok (Some r)" and full: "\<not> ring_length r < length (ring_items r)"
  shows "ringSnapshot (ringAppend (Some r) e) = tl (ringSnapshot (Some r)) @ [e]"
proof -
  let ?n = "length (ring_items r)" and ?s = "ring_start r"
  have s: "?s < ?n" and len: "ring_length r = ?n" using ok full by (auto simp: ring_ok_def)
  have ne: "ring_items r \<noteq> []" using s by auto
  have at: "(ring_items r)[?s := e] ! (((?s + 1) mod ?n + i) mod ?n)
      = (ringSnapshot (Some r) @ [e]) ! Suc i" if i: "i < ?n" for i
  proof (cases "Suc i < ?n")
    case True
    have "(?s + Suc i) mod ?n \<noteq> ?s"
      using True s by (simp only: wrap_index) auto
    with True s len show ?thesis
      by (simp only: wrap_index_Suc) (simp add: nth_append nth_list_update)
  next
    case False
    with i have "Suc i = ?n" by simp
    with s len show ?thesis
      by (simp only: wrap_index_Suc) (simp add: nth_append)
  qed
  show ?thesis
  proof (rule nth_equalityI)
    show "length (ringSnapshot (ringAppend (Some r) e)) = length (tl (ringSnapshot (Some r)) @ [e])"
      using ne len by simp
  next
    fix i
    assume "i < length (ringSnapshot (ringAppend (Some r) e))"
    then have i: "i < ?n" using ne len by simp
    have "ringSnapshot (ringAppend (Some r) e) ! i
        = (ring_items r)[?s := e] ! (((?s + 1) mod ?n + i) mod ?n)"
      using i ne len by simp
    also have "\<dots> = (ringSnapshot (Some r) @ [e]) ! Suc i" by (rule at [OF i])
    also have "\<dots> = (tl (ringSnapshot (Some r)) @ [e]) ! i"
    proof -
      have "ringSnapshot (Some r) \<noteq> []"
        using ne len by simp
      then show ?thesis
        by (metis nth_Cons_Suc append_Cons list.collapse)
    qed
    finally show "ringSnapshot (ringAppend (Some r) e) ! i = (tl (ringSnapshot (Some r)) @ [e]) ! i" .
  qed
qed

lemma ring_ok_Append: "ring_ok ro \<Longrightarrow> ring_ok (ringAppend ro e)"
  by (cases ro) (auto simp: ring_ok_def Let_def)

lemma ring_capacity_Append: "ring_ok ro \<Longrightarrow> ring_capacity (ringAppend ro e) = ring_capacity ro"
  by (cases ro) (auto simp: ring_ok_def ring_capacity_def Let_def)

lemma ringSnapshot_Append:
  assumes "ring_ok ro"
  shows "ringSnapshot (ringAppend ro e) = take_last (ring_capacity ro) (ringSnapshot ro @ [e])"
proof (cases ro)
  case None
  with assms show ?thesis by (simp add: ring_ok_def)
next
  case (Some r)
  have ok: "ring_ok (Some r)" using assms Some by simp
  show ?thesis
  proof (cases "ring_length r < length (ring_items r)")
    case True
    then have "length (ringSnapshot (Some r) @ [e]) \<le> ring_capacity ro"
      by (simp add: ring_capacity_def Some)
    then show ?thesis
      unfolding Some by (metis True ok ringAppend_room Some take_last_short)
  next
    case False
    with ok have len: "ring_length r = length (ring_items r)" and "ring_length r > 0"
      by (auto simp: ring_ok_def)
    then have "ringSnapshot (Some r) \<noteq> []" by simp
    then have "tl (ringSnapshot (Some r)) @ [e] = take_last (ring_capacity ro) (ringSnapshot ro @ [e])"
      using len take_last_full [of "ringSnapshot (Some r)" e] by (simp add: Some ring_capacity_def)
    then show ?thesis using ringAppend_full [OF ok False, of e] by (simp only: Some)
  qed
qed

interpretation ring: recent_log ringAppend ringSnapshot ring_capacity ring_ok
  by unfold_locales (auto simp: ringSnapshot_Append ring_capacity_Append ring_ok_Append)

lemma newRuntimeEventRing_ok:
  "ring_ok (Some (newRuntimeEventRing n))"
  "ringSnapshot (Some (newRuntimeEventRing n)) = []"
  "ring_capacity (Some (newRuntimeEventRing n)) = nat (if n \<le> 0 then defaultRecentEvents else n)"
  by (auto simp: ring_ok_def ring_capacity_def newRuntimeEventRing_def defaultRecentEvents_def Let_def)

section \<open>The window of recent events\<close>

text \<open>A ring created with any capacity argument (a non-positive one means 500) shows, after any
  number of appends, exactly the last appended events up to its capacity, oldest first: the
  index arithmetic never loses, repeats or reorders an event.\<close>

theorem ring_keeps_last_events:
  "ringSnapshot (foldl ringAppend (Some (newRuntimeEventRing n)) es)
     = take_last (nat (if n \<le> 0 then 500 else n)) es"
  using ring.contents_foldl [of "Some (newRuntimeEventRing n)" es]
  by (simp add: newRuntimeEventRing_ok defaultRecentEvents_def del: ringSnapshot.simps ringAppend.simps)

end
