(* ===== verification/Leases.thy ===== *)
theory Leases
  imports Go_Prelude
begin

text \<open>
  The interface the connection limiter and the user stream limiter share. Both hand out, with a
  granted request, a closure that gives the place back and that a \<open>sync.Once\<close> keeps from acting
  twice; the server may call a closure any number of times, in any order. \<open>lease_table\<close> states
  what a limiter promises about one call; its lemmas give what holds over every sequence of
  calls: the places held under a key are exactly the granted leases not yet given back.
\<close>

section \<open>Release closures\<close>

text \<open>
  The closure an \<open>acquire\<close> returns: the package-level no-op function, or
  \<open>func() { once.Do(func() { l.release(key) }) }\<close> for the captured key.
\<close>

datatype release_fn = NoopRelease | ReleaseOf string

datatype 'e lease_event = Acquire 'e string | Release 'e nat | Sweep 'e

text \<open>
  The closures handed out so far, each with its key and the flag of its \<open>sync.Once\<close>. Calling
  closure number \<open>i\<close> releases its key the first time and does nothing afterwards.
\<close>

type_synonym lease_book = "(string \<times> bool) list"

fun lease_step ::
    "('e \<Rightarrow> string \<Rightarrow> 's \<Rightarrow> 's \<times> release_fn \<times> bool) \<Rightarrow> ('e \<Rightarrow> string \<Rightarrow> 's \<Rightarrow> 's) \<Rightarrow>
     ('e \<Rightarrow> 's \<Rightarrow> 's) \<Rightarrow> 's \<times> lease_book \<Rightarrow> 'e lease_event \<Rightarrow> 's \<times> lease_book" where
  "lease_step acq rel swp (s, book) (Acquire e k) =
     (case acq e k s of
        (s', ReleaseOf k', _) \<Rightarrow> (s', book @ [(k', False)])
      | (s', NoopRelease, _) \<Rightarrow> (s', book))"
| "lease_step acq rel swp (s, book) (Release e i) =
     (if i < length book \<and> \<not> snd (book ! i)
      then (rel e (fst (book ! i)) s, book[i := (fst (book ! i), True)])
      else (s, book))"
| "lease_step acq rel swp (s, book) (Sweep e) = (swp e s, book)"

definition event_env :: "'e lease_event \<Rightarrow> 'e" where
  "event_env ev = (case ev of Acquire e _ \<Rightarrow> e | Release e _ \<Rightarrow> e | Sweep e \<Rightarrow> e)"

text \<open>The granted leases of a key, and all granted leases, that were not given back yet.\<close>

definition live :: "lease_book \<Rightarrow> string \<Rightarrow> nat" where
  "live book k = length (filter (\<lambda>(k', done). k' = k \<and> \<not> done) book)"

definition all_live :: "lease_book \<Rightarrow> nat" where
  "all_live book = length (filter (\<lambda>(_, done). \<not> done) book)"

lemma live_Nil [simp]: "live [] k = 0"
  by (simp add: live_def)

lemma live_snoc [simp]: "live (book @ [(k', False)]) k = live book k + (if k' = k then 1 else 0)"
  by (simp add: live_def)

lemma live_mark:
  assumes "i < length book" and "\<not> snd (book ! i)"
  shows "live (book[i := (fst (book ! i), True)]) k + (if fst (book ! i) = k then 1 else 0) = live book k"
  using assms
proof (induction book arbitrary: i)
  case (Cons b book)
  show ?case
  proof (cases i)
    case 0
    with Cons.prems show ?thesis by (cases b) (auto simp: live_def)
  next
    case (Suc j)
    with Cons.prems Cons.IH [of j] show ?thesis
      by (cases b) (auto simp: live_def split: if_splits)
  qed
qed simp

lemma live_unmarked_pos: "i < length book \<Longrightarrow> \<not> snd (book ! i) \<Longrightarrow> 0 < live book (fst (book ! i))"
  using live_mark [of i book "fst (book ! i)"] by simp

lemma live_snoc_done [simp]: "live (book @ [(k', True)]) k = live book k"
  by (simp add: live_def)

lemma finite_live: "finite {k. live book k \<noteq> 0}"
proof (rule finite_subset)
  show "{k. live book k \<noteq> 0} \<subseteq> fst ` set book"
    by (auto simp: live_def filter_empty_conv) (metis fst_conv image_eqI)
qed simp

lemma weight_live: "weight (live book) = all_live book"
proof (induction book rule: rev_induct)
  case (snoc b book)
  obtain k d where b: "b = (k, d)" by (cases b)
  show ?case
  proof (cases d)
    case True
    then have "live (book @ [b]) = live book" by (simp add: b fun_eq_iff)
    with snoc True show ?thesis by (simp add: b all_live_def)
  next
    case False
    then have "live (book @ [b]) = (live book)(k := Suc (live book k))"
      by (simp add: b fun_eq_iff)
    then have "weight (live (book @ [b])) = Suc (weight (live book))"
      by (simp only: weight_Suc [OF finite_live])
    moreover have "all_live (book @ [b]) = Suc (all_live book)"
      using False by (simp add: b all_live_def)
    ultimately show ?thesis using snoc by (simp only:)
  qed
qed (simp add: all_live_def weight_def)

section \<open>The contract of a limiter\<close>

locale lease_table =
  fixes acquire :: "'e \<Rightarrow> string \<Rightarrow> 's \<Rightarrow> 's \<times> release_fn \<times> bool"
    and release :: "'e \<Rightarrow> string \<Rightarrow> 's \<Rightarrow> 's"
    and sweep :: "'e \<Rightarrow> 's \<Rightarrow> 's"
    and held :: "'s \<Rightarrow> string \<Rightarrow> nat"
    and invar :: "'s \<Rightarrow> bool"
    and env_ok :: "'e \<Rightarrow> bool"
  assumes acquire_law: "invar s \<Longrightarrow> env_ok e \<Longrightarrow> acquire e k s = (s', f, ok) \<Longrightarrow>
      invar s' \<and> held s' = (case f of NoopRelease \<Rightarrow> held s
                              | ReleaseOf k' \<Rightarrow> (held s)(k' := Suc (held s k')))"
    and release_law: "invar s \<Longrightarrow> env_ok e \<Longrightarrow> 0 < held s k \<Longrightarrow>
      invar (release e k s) \<and> held (release e k s) = (held s)(k := held s k - 1)"
    and sweep_law: "invar s \<Longrightarrow> env_ok e \<Longrightarrow> invar (sweep e s) \<and> held (sweep e s) = held s"
begin

lemma step_agrees:
  assumes inv: "invar s" and agree: "held s = live book" and ev: "env_ok (event_env ev)"
    and step: "lease_step acquire release sweep (s, book) ev = (s', book')"
  shows "invar s' \<and> held s' = live book'"
proof (cases ev)
  case (Acquire e k)
  obtain t f ok where acq: "acquire e k s = (t, f, ok)" by (cases "acquire e k s")
  have "invar t" and "held t = (case f of NoopRelease \<Rightarrow> held s
      | ReleaseOf k' \<Rightarrow> (held s)(k' := Suc (held s k')))"
    using acquire_law [OF inv _ acq] ev by (auto simp: Acquire event_env_def)
  then show ?thesis
    using step agree by (cases f) (auto simp: Acquire acq)
next
  case (Release e i)
  show ?thesis
  proof (cases "i < length book \<and> \<not> snd (book ! i)")
    case True
    let ?k = "fst (book ! i)"
    have pos: "0 < held s ?k" using True agree live_unmarked_pos by simp
    have "held (release e ?k s) = (held s)(?k := held s ?k - 1)" and inv': "invar (release e ?k s)"
      using release_law [OF inv _ pos, of e] ev by (auto simp: Release event_env_def)
    moreover have "((live book)(?k := live book ?k - 1)) k = live (book[i := (?k, True)]) k" for k
      using live_mark [of i book k] True by (cases "k = ?k") simp_all
    then have "(live book)(?k := live book ?k - 1) = live (book[i := (?k, True)])" by (rule ext)
    with calculation inv' show ?thesis
      using step True agree by (auto simp: Release)
  next
    case False
    with step inv agree show ?thesis by (auto simp: Release)
  qed
next
  case (Sweep e)
  with step inv agree ev sweep_law show ?thesis by (auto simp: event_env_def)
qed

theorem run_agrees:
  "invar s \<Longrightarrow> held s = live book \<Longrightarrow> \<forall>ev \<in> set evs. env_ok (event_env ev) \<Longrightarrow>
   foldl (lease_step acquire release sweep) (s, book) evs = (s', book') \<Longrightarrow>
   invar s' \<and> held s' = live book'"
proof (induction evs arbitrary: s book)
  case (Cons ev evs)
  obtain t b where st: "lease_step acquire release sweep (s, book) ev = (t, b)"
    by (cases "lease_step acquire release sweep (s, book) ev")
  have "invar t \<and> held t = live b"
    using step_agrees [OF Cons.prems(1,2) _ st] Cons.prems(3) by simp
  then show ?case
    using Cons.IH [of t b] Cons.prems(3,4) by (simp add: st)
qed simp

end

end
