(* ===== verification/Stream_Limiter.thy ===== *)
theory Stream_Limiter
  imports Leases
begin

text \<open>
  The per-account limit on concurrent business streams:
  \<open>src/server/tunnel/user_stream_limiter.go\<close>.
\<close>

section \<open>State and operations\<close>

record userStreamLimiter =
  usl_maxPerUser :: int
  usl_active :: "(string, int) gomap"

text \<open>Reading \<open>l.active[username]\<close> gives 0 for a missing key.\<close>

definition active_of :: "(string, int) gomap \<Rightarrow> string \<Rightarrow> int" where
  "active_of m k = (case map_of m k of None \<Rightarrow> 0 | Some n \<Rightarrow> n)"

definition newUserStreamLimiter :: "int \<Rightarrow> userStreamLimiter" where
  "newUserStreamLimiter maxConcurrentStreamsPerUser =
     \<lparr>usl_maxPerUser = maxConcurrentStreamsPerUser, usl_active = []\<rparr>"

definition known_user :: "string \<Rightarrow> string" where
  "known_user username = (if username = [] then ''unknown'' else username)"

fun streamAcquire ::
    "userStreamLimiter option \<Rightarrow> string \<Rightarrow> userStreamLimiter option \<times> release_fn \<times> bool" where
  "streamAcquire None username = (None, NoopRelease, True)"
| "streamAcquire (Some l) username =
     (if usl_maxPerUser l \<le> 0 then (Some l, NoopRelease, True)
      else (let username = known_user username in
        if active_of (usl_active l) username \<ge> usl_maxPerUser l then (Some l, NoopRelease, False)
        else (Some (l\<lparr>usl_active :=
                        AList.update username (active_of (usl_active l) username + 1) (usl_active l)\<rparr>),
              ReleaseOf username, True)))"

fun streamRelease :: "userStreamLimiter option \<Rightarrow> string \<Rightarrow> userStreamLimiter option" where
  "streamRelease None username = None"
| "streamRelease (Some l) username =
     (if usl_maxPerUser l \<le> 0 then Some l
      else (let username = known_user username in
        if active_of (usl_active l) username \<le> 1
        then Some (l\<lparr>usl_active := AList.delete username (usl_active l)\<rparr>)
        else Some (l\<lparr>usl_active :=
                       AList.update username (active_of (usl_active l) username - 1) (usl_active l)\<rparr>)))"

record userStreamLimitSnapshot =
  snap_Active :: int
  snap_TrackedUsers :: int
  snap_MaxPerUser :: int
  snap_ActiveByUser :: "(string, int) gomap"

fun streamSnapshot :: "userStreamLimiter option \<Rightarrow> userStreamLimitSnapshot" where
  "streamSnapshot None =
     \<lparr>snap_Active = 0, snap_TrackedUsers = 0, snap_MaxPerUser = 0, snap_ActiveByUser = []\<rparr>"
| "streamSnapshot (Some l) =
     (let activeByUser = filter (\<lambda>(username, active). \<not> active \<le> 0) (usl_active l);
          total = sum_list (map snd activeByUser)
      in \<lparr>snap_Active = total, snap_TrackedUsers = int (length activeByUser),
          snap_MaxPerUser = usl_maxPerUser l, snap_ActiveByUser = activeByUser\<rparr>)"

lemmas [limiter_defs] = active_of_def known_user_def

section \<open>Invariant\<close>

text \<open>
  Every stored count is positive and, with a positive limit, at most the limit; the empty name is
  never stored.
\<close>

definition stream_ok :: "userStreamLimiter option \<Rightarrow> bool" where
  "stream_ok lo \<longleftrightarrow> (case lo of None \<Rightarrow> True | Some l \<Rightarrow>
     gmap_ok (usl_active l) \<and> map_of (usl_active l) [] = None \<and>
     (\<forall>u n. map_of (usl_active l) u = Some n \<longrightarrow> 1 \<le> n \<and> n \<le> usl_maxPerUser l))"

definition stream_held :: "userStreamLimiter option \<Rightarrow> string \<Rightarrow> nat" where
  "stream_held lo u = (case lo of None \<Rightarrow> 0 | Some l \<Rightarrow> nat (active_of (usl_active l) u))"

lemma stream_ok_new: "stream_ok (Some (newUserStreamLimiter n))"
  by (simp add: stream_ok_def newUserStreamLimiter_def)

lemma stream_held_new: "stream_held (Some (newUserStreamLimiter n)) = live []"
  by (simp add: stream_held_def newUserStreamLimiter_def active_of_def fun_eq_iff)

lemma streamAcquire_law:
  assumes ok: "stream_ok lo" and acq: "streamAcquire lo u = (lo', f, granted)"
  shows "stream_ok lo' \<and> stream_held lo' = (case f of NoopRelease \<Rightarrow> stream_held lo
     | ReleaseOf k \<Rightarrow> (stream_held lo)(k := Suc (stream_held lo k)))"
proof (cases lo)
  case None
  with acq show ?thesis by (auto simp: stream_ok_def)
next
  case (Some l)
  have pos: "0 \<le> n" "nat (n + 1) = Suc (nat n)" if "map_of (usl_active l) u = Some n" for u n
    using ok that by (force simp: Some stream_ok_def)+
  have "known_user u \<noteq> []" by (simp add: known_user_def)
  then show ?thesis
    using ok acq
    by (auto simp: Some stream_ok_def stream_held_def fun_eq_iff gomap_simps Let_def active_of_def pos
        split: if_splits option.splits)
qed

lemma streamRelease_law:
  assumes ok: "stream_ok lo" and pos: "0 < stream_held lo u"
  shows "stream_ok (streamRelease lo u) \<and>
    stream_held (streamRelease lo u) = (stream_held lo)(u := stream_held lo u - 1)"
proof (cases lo)
  case None
  with pos show ?thesis by (simp add: stream_held_def)
next
  case (Some l)
  from pos obtain n where n: "map_of (usl_active l) u = Some n" and "0 < n"
    by (auto simp: Some stream_held_def active_of_def split: option.splits)
  with ok have u: "u \<noteq> []" and max: "n \<le> usl_maxPerUser l"
    by (auto simp: Some stream_ok_def)
  with \<open>0 < n\<close> have lim: "(usl_maxPerUser l \<le> 0) = False" "n - 1 \<le> usl_maxPerUser l"
    by simp_all
  have ku: "known_user u = u" using u by (simp add: known_user_def)
  show ?thesis
    using ok n \<open>0 < n\<close> lim u
    by (auto simp: Some ku stream_ok_def stream_held_def fun_eq_iff gomap_simps active_of_def
        nat_diff_distrib split: option.splits)
qed

section \<open>The limiter is a lease table\<close>

definition stream_max :: "userStreamLimiter option \<Rightarrow> int" where
  "stream_max lo = (case lo of None \<Rightarrow> 0 | Some l \<Rightarrow> usl_maxPerUser l)"

definition stream_acquire :: "unit \<Rightarrow> string \<Rightarrow> userStreamLimiter option \<Rightarrow>
    userStreamLimiter option \<times> release_fn \<times> bool" where
  "stream_acquire e u lo = streamAcquire lo u"

definition stream_release :: "unit \<Rightarrow> string \<Rightarrow> userStreamLimiter option \<Rightarrow> userStreamLimiter option" where
  "stream_release e u lo = streamRelease lo u"

lemma stream_max_acquire: "streamAcquire lo u = (lo', f, g) \<Longrightarrow> stream_max lo' = stream_max lo"
  by (cases lo) (auto simp: stream_max_def Let_def split: if_splits)

lemma stream_max_release: "stream_max (streamRelease lo u) = stream_max lo"
  by (cases lo) (auto simp: stream_max_def Let_def)

interpretation streams: lease_table stream_acquire stream_release "\<lambda>_ l. l"
  stream_held "\<lambda>lo. stream_ok lo \<and> stream_max lo = cap \<and> lo \<noteq> None" "\<lambda>_. True" for cap
proof
  show "(stream_ok s' \<and> stream_max s' = cap \<and> s' \<noteq> None) \<and>
      stream_held s' = (case f of NoopRelease \<Rightarrow> stream_held s
        | ReleaseOf k' \<Rightarrow> (stream_held s)(k' := Suc (stream_held s k')))"
    if "stream_ok s \<and> stream_max s = cap \<and> s \<noteq> None" "stream_acquire e k s = (s', f, g)" for s e k s' f g
    using that streamAcquire_law [of s k s' f g] stream_max_acquire [of s k s' f g]
    by (cases s) (auto simp: stream_acquire_def Let_def split: if_splits)
  show "(stream_ok (stream_release e k s) \<and> stream_max (stream_release e k s) = cap \<and> stream_release e k s \<noteq> None) \<and>
      stream_held (stream_release e k s) = (stream_held s)(k := stream_held s k - 1)"
    if "stream_ok s \<and> stream_max s = cap \<and> s \<noteq> None" "0 < stream_held s k" for s e k
    using that streamRelease_law [of s k] stream_max_release [of s k]
    by (cases s) (auto simp: stream_release_def Let_def)
qed simp_all

section \<open>Properties\<close>

text \<open>Over every sequence of stream requests and release closures (called any number of times,
  in any order), with a positive \<open>max_concurrent_streams_per_user\<close>: no account ever has more open
  streams than the limit, and a further request of an account is granted exactly when the account
  has fewer open streams than the limit.\<close>

theorem stream_leases_exact:
  assumes "foldl (lease_step stream_acquire stream_release (\<lambda>_ l. l)) (Some (newUserStreamLimiter cap), []) evs
      = (lo, book)" and "0 < cap"
  shows "int (live book user) \<le> cap \<and>
    snd (snd (streamAcquire lo user)) = (int (live book (known_user user)) < cap)"
proof -
  have new: "stream_ok (Some (newUserStreamLimiter cap)) \<and> stream_max (Some (newUserStreamLimiter cap)) = cap \<and>
      Some (newUserStreamLimiter cap) \<noteq> None"
    using stream_ok_new [of cap] by (simp add: stream_max_def newUserStreamLimiter_def)
  have agrees: "(stream_ok lo \<and> stream_max lo = cap \<and> lo \<noteq> None) \<and> stream_held lo = live book"
    by (rule streams.run_agrees [OF new stream_held_new _ assms(1)]) simp
  then obtain l where lo: "lo = Some l" by auto
  with agrees have l: "lo = Some l" "stream_ok (Some l)" "usl_maxPerUser l = cap" and
    held: "live book = stream_held (Some l)"
    by (simp_all add: stream_max_def)
  have "int (stream_held (Some l) u) = active_of (usl_active l) u \<and> active_of (usl_active l) u \<le> cap" for u
  proof (cases "map_of (usl_active l) u")
    case None
    then show ?thesis using \<open>0 < cap\<close> by (simp add: stream_held_def active_of_def)
  next
    case (Some n)
    with l(2,3) have "1 \<le> n" and "n \<le> cap" by (auto simp: stream_ok_def)
    with Some show ?thesis by (simp add: stream_held_def active_of_def)
  qed
  then show ?thesis
    using l(1,3) \<open>0 < cap\<close> by (simp add: held Let_def not_le)
qed

lemma stream_leases_exact_witness:
  "snd (snd (streamAcquire (fst (foldl (lease_step stream_acquire stream_release (\<lambda>_ l. l))
     (Some (newUserStreamLimiter 1), []) [Acquire () ''alice'', Release () 0, Release () 0])) ''alice''))"
proof -
  obtain lo book where run: "foldl (lease_step stream_acquire stream_release (\<lambda>_ l. l))
     (Some (newUserStreamLimiter 1), []) [Acquire () ''alice'', Release () 0, Release () 0] = (lo, book)"
    by fastforce
  then have "book = [(''alice'', True)]"
    by (auto simp: stream_acquire_def newUserStreamLimiter_def known_user_def active_of_def Let_def)
  then show ?thesis
    using stream_leases_exact [OF run, of "''alice''"] run by (simp add: known_user_def live_def)
qed

end
