(* ===== verification/Connection_Limiter.thy ===== *)
theory Connection_Limiter
  imports Leases
begin

text \<open>
  The limiter in front of the TLS entry: \<open>src/server/tunnel/connection_limiter.go\<close>. It bounds
  the concurrent connections in total and per source address, the new connections of an address
  in a sliding window, and the number of addresses it keeps state for. The clock \<open>l.now()\<close> is an
  argument of the operations that read it; the order in which the map is ranged over is the
  argument \<open>rng\<close>.
\<close>

section \<open>State\<close>

record connectionLimitState =
  cls_active :: int
  cls_attempts :: "time list"
  cls_lastSeen :: time

record connectionLimiter =
  cl_maxActive :: int
  cl_maxPerIP :: int
  cl_maxRate :: int
  cl_rateWindow :: duration
  cl_maxItems :: int
  cl_cleanupEvery :: duration
  cl_activeTotal :: int
  cl_items :: "(string, connectionLimitState) gomap"
  cl_evictedIPs :: nat
  cl_capacityRejected :: nat

definition newConnectionLimiter :: "int \<Rightarrow> int \<Rightarrow> int \<Rightarrow> int \<Rightarrow> int \<Rightarrow> int \<Rightarrow> connectionLimiter" where
  "newConnectionLimiter maxConcurrent maxConcurrentPerIP windowSec maxNewPerWindow maxTracked cleanupSec =
     (let window = (if seconds windowSec \<le> 0 then second else seconds windowSec);
          maxItems = (if maxTracked \<le> 0 then 8192 else maxTracked);
          cleanupEvery = (if seconds cleanupSec \<le> 0 then minute else seconds cleanupSec)
      in \<lparr>cl_maxActive = maxConcurrent, cl_maxPerIP = maxConcurrentPerIP, cl_maxRate = maxNewPerWindow,
          cl_rateWindow = window, cl_maxItems = maxItems, cl_cleanupEvery = cleanupEvery,
          cl_activeTotal = 0, cl_items = [], cl_evictedIPs = 0, cl_capacityRejected = 0\<rparr>)"

definition known_ip :: "string \<Rightarrow> string" where
  "known_ip ip = (if ip = [] then ''unknown'' else ip)"

lemma known_ip_nonempty [simp]: "known_ip ip \<noteq> []"
  by (simp add: known_ip_def)

lemma known_ip_idem [simp]: "known_ip (known_ip ip) = known_ip ip"
  by (simp add: known_ip_def)

section \<open>Operations\<close>

definition pruneLocked :: "connectionLimiter \<Rightarrow> connectionLimitState \<Rightarrow> time \<Rightarrow> connectionLimitState" where
  "pruneLocked l st now =
     (if cl_maxRate l \<le> 0 \<or> cls_attempts st = [] then st\<lparr>cls_attempts := []\<rparr>
      else (let cutoff = now - cl_rateWindow l
            in st\<lparr>cls_attempts := filter (\<lambda>ts. ts > cutoff) (cls_attempts st)\<rparr>))"

text \<open>An entry with nothing left to remember.\<close>

definition stale :: "connectionLimitState \<Rightarrow> bool" where
  "stale st \<longleftrightarrow> cls_active st = 0 \<and> cls_attempts st = []"

definition cleanupLocked ::
    "string \<Rightarrow> connectionLimitState \<Rightarrow> (string, connectionLimitState) gomap \<Rightarrow>
     (string, connectionLimitState) gomap" where
  "cleanupLocked ip st items = (if stale st then AList.delete ip items else items)"

text \<open>
  The loop visits every entry once, prunes it and deletes it if it is stale; each visit touches
  its own entry only.
\<close>

definition cleanupAllLocked :: "connectionLimiter \<Rightarrow> time \<Rightarrow> connectionLimiter" where
  "cleanupAllLocked l now =
     l\<lparr>cl_items := filter (\<lambda>(ip, st). \<not> stale st)
                     (map (\<lambda>(ip, st). (ip, pruneLocked l st now)) (cl_items l))\<rparr>"

text \<open>\<open>trackStateLocked\<close>: \<open>None\<close> in place of the state is its \<open>(nil, false)\<close>.\<close>

definition trackStateLocked ::
    "((string \<times> connectionLimitState) list \<Rightarrow> (string \<times> connectionLimitState) list) \<Rightarrow>
     connectionLimiter \<Rightarrow> string \<Rightarrow> time \<Rightarrow> connectionLimiter \<times> connectionLimitState option" where
  "trackStateLocked rng l ip now =
     (case map_of (cl_items l) ip of
        Some state \<Rightarrow> (l, Some state)
      | None \<Rightarrow>
         (let l = (if int (length (cl_items l)) \<ge> cl_maxItems l then cleanupAllLocked l now else l);
              fresh = \<lparr>cls_active = 0, cls_attempts = [], cls_lastSeen = now\<rparr>
          in if int (length (cl_items l)) \<ge> cl_maxItems l
             then (let (oldestIP, oldest) =
                         scan_oldest (\<lambda>state. cls_active state > 0) cls_lastSeen (rng (cl_items l)) ([], 0)
                   in if oldestIP = [] then (l\<lparr>cl_capacityRejected := cl_capacityRejected l + 1\<rparr>, None)
                      else (l\<lparr>cl_items := AList.update ip fresh (AList.delete oldestIP (cl_items l)),
                             cl_evictedIPs := cl_evictedIPs l + 1\<rparr>, Some fresh))
             else (l\<lparr>cl_items := AList.update ip fresh (cl_items l)\<rparr>, Some fresh)))"

text \<open>The first step of \<open>acquire\<close>: a tracked address is pruned and forgotten if stale.\<close>

definition refreshLocked :: "connectionLimiter \<Rightarrow> string \<Rightarrow> time \<Rightarrow> connectionLimiter" where
  "refreshLocked l ip now =
     (case map_of (cl_items l) ip of
        None \<Rightarrow> l
      | Some st \<Rightarrow> (let st = pruneLocked l st now
                    in l\<lparr>cl_items := cleanupLocked ip st (AList.update ip st (cl_items l))\<rparr>))"

text \<open>The tail of \<open>acquire\<close>, once the state of the address is at hand.\<close>

definition admitLocked ::
    "connectionLimiter \<Rightarrow> string \<Rightarrow> connectionLimitState \<Rightarrow> time \<Rightarrow>
     connectionLimiter \<times> release_fn \<times> bool \<times> string" where
  "admitLocked l ip st now =
     (let st = st\<lparr>cls_lastSeen := now\<rparr>;
          l = l\<lparr>cl_items := AList.update ip st (cl_items l)\<rparr>
      in if cl_maxPerIP l > 0 \<and> cls_active st \<ge> cl_maxPerIP l
         then (l\<lparr>cl_items := cleanupLocked ip st (cl_items l)\<rparr>, NoopRelease, False,
               ''per_ip_concurrent_connections'')
         else if cl_maxRate l > 0 \<and> int (length (cls_attempts st)) \<ge> cl_maxRate l
         then (l\<lparr>cl_items := cleanupLocked ip st (cl_items l)\<rparr>, NoopRelease, False,
               ''per_ip_new_connection_rate'')
         else (let st = st\<lparr>cls_active := cls_active st + 1,
                           cls_attempts := (if cl_maxRate l > 0 then cls_attempts st @ [now]
                                            else cls_attempts st)\<rparr>
               in (l\<lparr>cl_activeTotal := cl_activeTotal l + 1,
                     cl_items := AList.update ip st (cl_items l)\<rparr>, ReleaseOf ip, True, [])))"

fun connAcquire ::
    "((string \<times> connectionLimitState) list \<Rightarrow> (string \<times> connectionLimitState) list) \<Rightarrow> time \<Rightarrow>
     connectionLimiter option \<Rightarrow> string \<Rightarrow> connectionLimiter option \<times> release_fn \<times> bool \<times> string" where
  "connAcquire rng now None ip = (None, NoopRelease, True, [])"
| "connAcquire rng now (Some l) ip =
     (let ip = known_ip ip;
          l = refreshLocked l ip now
      in if cl_maxActive l > 0 \<and> cl_activeTotal l \<ge> cl_maxActive l
         then (Some l, NoopRelease, False, ''global_concurrent_connections'')
         else (case trackStateLocked rng l ip now of
                 (l, None) \<Rightarrow> (Some l, NoopRelease, False, ''tracked_remote_ip_capacity'')
               | (l, Some st) \<Rightarrow>
                  (let (l, f, ok, reason) = admitLocked l ip st now in (Some l, f, ok, reason))))"

fun connRelease :: "time \<Rightarrow> connectionLimiter option \<Rightarrow> string \<Rightarrow> connectionLimiter option" where
  "connRelease now None ip = None"
| "connRelease now (Some l) ip =
     (let ip = known_ip ip
      in case map_of (cl_items l) ip of
           None \<Rightarrow> Some l
         | Some st \<Rightarrow>
            (let st = (if cls_active st > 0 then st\<lparr>cls_active := cls_active st - 1\<rparr> else st);
                 total = (if cl_activeTotal l > 0 then cl_activeTotal l - 1 else cl_activeTotal l);
                 st = (pruneLocked l st now)\<lparr>cls_lastSeen := now\<rparr>
             in Some (l\<lparr>cl_activeTotal := total,
                        cl_items := cleanupLocked ip st (AList.update ip st (cl_items l))\<rparr>)))"

fun connCleanup :: "time \<Rightarrow> connectionLimiter option \<Rightarrow> connectionLimiter option" where
  "connCleanup now None = None"
| "connCleanup now (Some l) = Some (cleanupAllLocked l now)"

fun connSnapshot :: "connectionLimiter option \<Rightarrow> (string, int) gomap" where
  "connSnapshot None =
     [(''active'', 0), (''tracked_ips'', 0), (''max_tracked_ips'', 0), (''evicted_ips'', 0),
      (''capacity_rejected'', 0)]"
| "connSnapshot (Some l) =
     [(''active'', cl_activeTotal l), (''tracked_ips'', int (length (cl_items l))),
      (''max_tracked_ips'', cl_maxItems l), (''evicted_ips'', int (cl_evictedIPs l)),
      (''capacity_rejected'', int (cl_capacityRejected l))]"

section \<open>Invariant\<close>

definition st_ok :: "connectionLimiter \<Rightarrow> connectionLimitState \<Rightarrow> bool" where
  "st_ok l st \<longleftrightarrow> 0 \<le> cls_active st \<and> (0 < cl_maxPerIP l \<longrightarrow> cls_active st \<le> cl_maxPerIP l) \<and>
     (0 < cl_maxRate l \<longrightarrow> int (length (cls_attempts st)) \<le> cl_maxRate l)"

definition items_ok :: "connectionLimiter \<Rightarrow> bool" where
  "items_ok l \<longleftrightarrow> gmap_ok (cl_items l) \<and> map_of (cl_items l) [] = None \<and>
     (\<forall>ip st. map_of (cl_items l) ip = Some st \<longrightarrow> st_ok l st)"

text \<open>The connections of an address that the limiter counts.\<close>

definition held_in :: "(string, connectionLimitState) gomap \<Rightarrow> string \<Rightarrow> nat" where
  "held_in m ip = (case map_of m ip of None \<Rightarrow> 0 | Some st \<Rightarrow> nat (cls_active st))"

text \<open>
  The table has well-formed entries and at most \<open>maxItems\<close> of them, the total is the sum of the
  per-address counts, and the configured limits are respected.
\<close>

definition conn_inv :: "connectionLimiter \<Rightarrow> bool" where
  "conn_inv l \<longleftrightarrow> items_ok l \<and> 1 \<le> cl_maxItems l \<and> int (length (cl_items l)) \<le> cl_maxItems l \<and>
     cl_activeTotal l = int (weight (held_in (cl_items l))) \<and>
     (0 < cl_maxActive l \<longrightarrow> cl_activeTotal l \<le> cl_maxActive l)"

text \<open>Everything but the entries, the total and the counters of the status page.\<close>

definition conn_cfg :: "connectionLimiter \<Rightarrow> int \<times> int \<times> int \<times> duration \<times> int" where
  "conn_cfg l = (cl_maxActive l, cl_maxPerIP l, cl_maxRate l, cl_rateWindow l, cl_maxItems l)"

lemma finite_held_in: "finite {ip. held_in m ip \<noteq> 0}"
  by (rule finite_subset [OF _ finite_dom_map_of [of m]])
    (auto simp: held_in_def split: option.splits)

lemma pruneLocked_active [simp]: "cls_active (pruneLocked l st now) = cls_active st"
  by (simp add: pruneLocked_def Let_def)

lemma length_pruneLocked: "length (cls_attempts (pruneLocked l st now)) \<le> length (cls_attempts st)"
  by (simp add: pruneLocked_def Let_def)

lemma st_ok_prune: "st_ok l st \<Longrightarrow> st_ok l (pruneLocked l' st now)"
  using length_pruneLocked [of l' st now] by (auto simp: st_ok_def)

lemma new_conn_inv: "conn_inv (newConnectionLimiter a b c d e f)"
  by (simp add: conn_inv_def items_ok_def newConnectionLimiter_def Let_def held_in_def weight_def)

text \<open>A step that keeps the counts of all addresses and does not grow the table too far.\<close>

lemma conn_inv_quiet:
  assumes inv: "conn_inv l" and cfg: "conn_cfg l' = conn_cfg l" and total: "cl_activeTotal l' = cl_activeTotal l"
    and items: "items_ok l'" and len: "int (length (cl_items l')) \<le> cl_maxItems l"
    and held: "held_in (cl_items l') = held_in (cl_items l)"
  shows "conn_inv l'"
  using inv cfg total items len held by (auto simp: conn_inv_def conn_cfg_def)

section \<open>The steps keep the invariant\<close>

lemma refreshLocked_quiet:
  assumes inv: "conn_inv l"
  shows "conn_inv (refreshLocked l ip now) \<and> conn_cfg (refreshLocked l ip now) = conn_cfg l \<and>
    held_in (cl_items (refreshLocked l ip now)) = held_in (cl_items l) \<and>
    cl_activeTotal (refreshLocked l ip now) = cl_activeTotal l"
proof (cases "map_of (cl_items l) ip")
  case None
  with inv show ?thesis by (simp add: refreshLocked_def)
next
  case (Some st)
  let ?st = "pruneLocked l st now" and ?l = "refreshLocked l ip now"
  from inv Some have st: "st_ok l st" and ip: "ip \<noteq> []"
    and items: "items_ok l" and len: "int (length (cl_items l)) \<le> cl_maxItems l"
    by (auto simp: conn_inv_def items_ok_def)
  have eq: "?l = l\<lparr>cl_items := cleanupLocked ip ?st (AList.update ip ?st (cl_items l))\<rparr>"
    by (simp add: refreshLocked_def Some Let_def)
  have cfg: "conn_cfg ?l = conn_cfg l" and total: "cl_activeTotal ?l = cl_activeTotal l"
    by (simp_all add: eq conn_cfg_def)
  have held: "held_in (cl_items ?l) = held_in (cl_items l)"
    using Some by (auto simp: eq cleanupLocked_def held_in_def fun_eq_iff gomap_simps stale_def)
  have "st_ok l ?st" using st by (rule st_ok_prune)
  then have "items_ok ?l"
    using items ip by (auto simp: eq items_ok_def cleanupLocked_def gomap_simps st_ok_def split: if_splits)
  moreover have "length (cl_items ?l) \<le> length (cl_items l)"
    using Some length_delete_le [of ip "AList.update ip ?st (cl_items l)"]
    by (simp add: eq cleanupLocked_def length_update_AList)
  ultimately show ?thesis
    using conn_inv_quiet [OF inv cfg total] held cfg total len by auto
qed

lemma cleanupAllLocked_quiet:
  assumes inv: "conn_inv l"
  shows "conn_inv (cleanupAllLocked l now) \<and> conn_cfg (cleanupAllLocked l now) = conn_cfg l \<and>
    held_in (cl_items (cleanupAllLocked l now)) = held_in (cl_items l) \<and>
    cl_activeTotal (cleanupAllLocked l now) = cl_activeTotal l"
proof -
  let ?l = "cleanupAllLocked l now"
  from inv have ok: "gmap_ok (cl_items l)" and items: "items_ok l"
    and len: "int (length (cl_items l)) \<le> cl_maxItems l"
    by (auto simp: conn_inv_def items_ok_def)
  have get: "map_of (cl_items ?l) ip = (case map_of (cl_items l) ip of None \<Rightarrow> None
      | Some st \<Rightarrow> if \<not> stale (pruneLocked l st now) then Some (pruneLocked l st now) else None)" for ip
    by (simp add: cleanupAllLocked_def map_of_map_filter [OF ok])
  have cfg: "conn_cfg ?l = conn_cfg l" and total: "cl_activeTotal ?l = cl_activeTotal l"
    by (simp_all add: cleanupAllLocked_def conn_cfg_def)
  have held: "held_in (cl_items ?l) = held_in (cl_items l)"
    by (auto simp: held_in_def fun_eq_iff get stale_def split: option.splits)
  have "st_ok ?l = st_ok l" by (simp add: st_ok_def cleanupAllLocked_def fun_eq_iff)
  moreover have "gmap_ok (cl_items ?l)" using ok by (auto simp: cleanupAllLocked_def)
  ultimately have "items_ok ?l"
    using items by (auto simp: items_ok_def get st_ok_prune split: option.splits if_splits)
  moreover have "length (cl_items ?l) \<le> length (cl_items l)"
    by (simp add: cleanupAllLocked_def length_map_filter_le)
  ultimately show ?thesis
    using conn_inv_quiet [OF inv cfg total] held cfg total len by auto
qed

text \<open>
  Tracking an address fails exactly when all the room is taken by addresses with open
  connections; otherwise the entry of the address is there, and no count has changed.
\<close>

definition busy :: "(string, connectionLimitState) gomap \<Rightarrow> nat" where
  "busy m = length (filter (\<lambda>(ip, st). 0 < cls_active st) m)"

definition fresh_state :: "time \<Rightarrow> connectionLimitState" where
  "fresh_state now = \<lparr>cls_active = 0, cls_attempts = [], cls_lastSeen = now\<rparr>"

lemma st_ok_fresh: "st_ok l (fresh_state now)"
  by (simp add: st_ok_def fresh_state_def)

lemma add_fresh_inv:
  assumes inv: "conn_inv l" and none: "map_of (cl_items l) ip = None" and ip: "ip \<noteq> []"
    and len: "int (length (cl_items l)) < cl_maxItems l"
  shows "conn_inv (l\<lparr>cl_items := AList.update ip (fresh_state now) (cl_items l)\<rparr>) \<and>
    held_in (AList.update ip (fresh_state now) (cl_items l)) = held_in (cl_items l)"
proof -
  let ?l = "l\<lparr>cl_items := AList.update ip (fresh_state now) (cl_items l)\<rparr>"
  have held: "held_in (cl_items ?l) = held_in (cl_items l)"
    using none by (simp add: held_in_def fun_eq_iff gomap_simps fresh_state_def)
  have "items_ok ?l"
    using inv ip st_ok_fresh [of l now]
    by (auto simp: conn_inv_def items_ok_def gomap_simps st_ok_def split: if_splits)
  moreover have "int (length (cl_items ?l)) \<le> cl_maxItems l"
    using len none by (simp add: length_update_AList)
  ultimately show ?thesis
    using conn_inv_quiet [OF inv, of ?l] held by (simp add: conn_cfg_def)
qed

lemma delete_idle_inv:
  assumes inv: "conn_inv l" and some: "map_of (cl_items l) k = Some v" and idle: "\<not> 0 < cls_active v"
  shows "conn_inv (l\<lparr>cl_items := AList.delete k (cl_items l)\<rparr>) \<and>
    held_in (AList.delete k (cl_items l)) = held_in (cl_items l) \<and>
    Suc (length (AList.delete k (cl_items l))) = length (cl_items l)"
proof -
  let ?l = "l\<lparr>cl_items := AList.delete k (cl_items l)\<rparr>"
  have held: "held_in (cl_items ?l) = held_in (cl_items l)"
    using some idle by (simp add: held_in_def fun_eq_iff gomap_simps)
  have items: "items_ok ?l"
    using inv by (auto simp: conn_inv_def items_ok_def gomap_simps st_ok_def split: if_splits)
  have ok: "gmap_ok (cl_items l)" using inv by (simp add: conn_inv_def items_ok_def)
  have "cl_items l \<noteq> []" using some by auto
  then have len: "Suc (length (AList.delete k (cl_items l))) = length (cl_items l)"
    using some by (simp add: length_delete_AList [OF ok])
  then have "int (length (cl_items ?l)) \<le> cl_maxItems l"
    using inv by (simp add: conn_inv_def)
  then show ?thesis
    using conn_inv_quiet [OF inv, of ?l] held items len by (simp add: conn_cfg_def)
qed

lemma conn_inv_counters:
  "conn_inv l \<Longrightarrow> conn_inv (l\<lparr>cl_evictedIPs := a\<rparr>)"
  "conn_inv l \<Longrightarrow> conn_inv (l\<lparr>cl_capacityRejected := a\<rparr>)"
  by (auto simp: conn_inv_def items_ok_def st_ok_def)

lemma keys_nonempty: "items_ok l \<Longrightarrow> perm_fn rng \<Longrightarrow> \<forall>e \<in> set (rng (cl_items l)). fst e \<noteq> []"
  using map_of_eq_None_iff [of "cl_items l" "[]"] by (force simp: items_ok_def perm_fn_set)

text \<open>The scan over a table with an idle entry returns such an entry.\<close>

lemma eviction_candidate:
  assumes inv: "conn_inv l" and rng: "perm_fn rng"
    and scan: "scan_oldest (\<lambda>st. cls_active st > 0) cls_lastSeen (rng (cl_items l)) ([], 0) = (k, t)"
  shows "k \<noteq> [] \<Longrightarrow> \<exists>v. map_of (cl_items l) k = Some v \<and> \<not> 0 < cls_active v"
    and "k = [] \<Longrightarrow> \<forall>(ip, st) \<in> set (cl_items l). 0 < cls_active st"
proof -
  have items: "items_ok l" and ok: "gmap_ok (cl_items l)"
    using inv by (auto simp: conn_inv_def items_ok_def)
  show "\<exists>v. map_of (cl_items l) k = Some v \<and> \<not> 0 < cls_active v" if "k \<noteq> []"
  proof -
    from scan_oldest_origin [OF scan] that obtain v
      where "(k, v) \<in> set (cl_items l)" and "\<not> 0 < cls_active v"
      using perm_fn_set [OF rng, of "cl_items l"] by auto
    then show ?thesis using ok by (auto simp: gmap_ok_def map_of_is_SomeI)
  qed
  show "\<forall>(ip, st) \<in> set (cl_items l). 0 < cls_active st" if "k = []"
    using scan_oldest_none [of _ _ _ "[]" 0 t, OF scan [unfolded that] keys_nonempty [OF items rng]]
      perm_fn_set [OF rng, of "cl_items l"] by auto
qed

lemma busy_filter_le: "busy (filter P (map (\<lambda>(ip, st). (ip, pruneLocked l st now)) m)) \<le> busy m"
  by (induction m) (auto simp: busy_def)

lemma busy_cleanup: "busy (cl_items (cleanupAllLocked l now)) = busy (cl_items l)"
proof -
  have "busy (filter (\<lambda>(ip, st). \<not> stale st) (map (\<lambda>(ip, st). (ip, pruneLocked l st now)) m)) = busy m" for m
    by (induction m) (auto simp: busy_def stale_def)
  then show ?thesis by (simp add: cleanupAllLocked_def)
qed

lemma busy_le: "busy m \<le> length m"
  by (simp add: busy_def)

lemma busy_all: "\<forall>(ip, st) \<in> set m. 0 < cls_active st \<Longrightarrow> busy m = length m"
  unfolding busy_def by (metis (no_types, lifting) filter_True)

lemma busy_not_all: "(ip, st) \<in> set m \<Longrightarrow> \<not> 0 < cls_active st \<Longrightarrow> busy m < length m"
  unfolding busy_def by (rule length_filter_less) auto

lemma trackStateLocked_Some [simp]:
  "map_of (cl_items l) ip = Some st \<Longrightarrow> trackStateLocked rng l ip now = (l, Some st)"
  by (simp add: trackStateLocked_def)

lemma trackStateLocked_new:
  assumes inv: "conn_inv l" and rng: "perm_fn rng" and none: "map_of (cl_items l) ip = None"
    and ip: "ip \<noteq> []" and track: "trackStateLocked rng l ip now = (l', so)"
  shows "conn_inv l' \<and> conn_cfg l' = conn_cfg l \<and> held_in (cl_items l') = held_in (cl_items l) \<and>
    cl_activeTotal l' = cl_activeTotal l \<and>
    (case so of None \<Rightarrow> int (busy (cl_items l)) = cl_maxItems l
      | Some st \<Rightarrow> st = fresh_state now \<and> map_of (cl_items l') ip = Some st \<and>
          int (busy (cl_items l)) < cl_maxItems l)"
proof -
  define m where "m = (if int (length (cl_items l)) \<ge> cl_maxItems l then cleanupAllLocked l now else l)"
  have m: "conn_inv m" "conn_cfg m = conn_cfg l" "held_in (cl_items m) = held_in (cl_items l)"
    "cl_activeTotal m = cl_activeTotal l" "busy (cl_items m) = busy (cl_items l)"
    using inv cleanupAllLocked_quiet [OF inv, of now] busy_cleanup [of l now] by (auto simp: m_def)
  have max: "cl_maxItems m = cl_maxItems l" using m(2) by (simp add: conn_cfg_def)
  have mnone: "map_of (cl_items m) ip = None"
    using none inv by (auto simp: m_def cleanupAllLocked_def map_of_map_filter conn_inv_def items_ok_def)
  show ?thesis
  proof (cases "int (length (cl_items m)) \<ge> cl_maxItems m")
    case False
    then have res: "l' = m\<lparr>cl_items := AList.update ip (fresh_state now) (cl_items m)\<rparr>" "so = Some (fresh_state now)"
      using track none by (simp_all add: trackStateLocked_def m_def [symmetric] fresh_state_def Let_def)
    have "int (busy (cl_items l)) < cl_maxItems l"
      using False busy_le [of "cl_items m"] m(5) max by linarith
    then show ?thesis
      using add_fresh_inv [OF m(1) mnone ip, of now] False m
      by (simp add: res conn_cfg_def gomap_simps)
  next
    case True
    obtain k t where scan:
      "scan_oldest (\<lambda>st. cls_active st > 0) cls_lastSeen (rng (cl_items m)) ([], 0) = (k, t)"
      by fastforce
    note cand = eviction_candidate [OF m(1) rng scan]
    show ?thesis
    proof (cases "k = []")
      case nil: True
      then have res: "l' = m\<lparr>cl_capacityRejected := cl_capacityRejected m + 1\<rparr>" "so = None"
        using track none True scan by (simp_all add: trackStateLocked_def m_def [symmetric] Let_def)
      have "busy (cl_items m) = length (cl_items m)"
        by (rule busy_all [OF cand(2) [OF nil]])
      moreover have "int (length (cl_items m)) = cl_maxItems m"
        using True m(1) by (simp add: conn_inv_def)
      ultimately show ?thesis
        using m max conn_inv_counters(2) [OF m(1)] by (simp add: res conn_cfg_def)
    next
      case k: False
      then obtain v where v: "map_of (cl_items m) k = Some v" "\<not> 0 < cls_active v"
        using cand(1) by blast
      let ?d = "m\<lparr>cl_items := AList.delete k (cl_items m)\<rparr>"
      have res: "l' = ?d\<lparr>cl_items := AList.update ip (fresh_state now) (cl_items ?d),
          cl_evictedIPs := cl_evictedIPs m + 1\<rparr>" "so = Some (fresh_state now)"
        using track none True scan k
        by (simp_all add: trackStateLocked_def m_def [symmetric] fresh_state_def Let_def)
      note del = delete_idle_inv [OF m(1) v]
      have dnone: "map_of (cl_items ?d) ip = None" using mnone by (simp add: gomap_simps)
      have dlen: "int (length (cl_items ?d)) < cl_maxItems ?d"
        using del m(1) by (simp add: conn_inv_def)
      have "busy (cl_items m) < length (cl_items m)"
        by (rule busy_not_all [OF map_of_SomeD [OF v(1)] v(2)])
      moreover have "int (length (cl_items m)) \<le> cl_maxItems m"
        using m(1) by (simp add: conn_inv_def)
      ultimately show ?thesis
        using add_fresh_inv [OF conjunct1 [OF del] dnone ip dlen, of now] del m max
          conn_inv_counters(1) [of "?d\<lparr>cl_items := AList.update ip (fresh_state now) (cl_items ?d)\<rparr>"]
        by (simp add: res conn_cfg_def gomap_simps)
    qed
  qed
qed

section \<open>Admission\<close>

text \<open>The attempts of an address that are still inside the window.\<close>

definition recent :: "connectionLimiter \<Rightarrow> string \<Rightarrow> time \<Rightarrow> time list" where
  "recent l ip now = (case map_of (cl_items l) ip of None \<Rightarrow> []
     | Some st \<Rightarrow> cls_attempts (pruneLocked l st now))"

lemma refreshed_entry:
  assumes inv: "conn_inv l"
  shows "map_of (cl_items (refreshLocked l ip now)) ip =
    (case map_of (cl_items l) ip of None \<Rightarrow> None
     | Some st \<Rightarrow> if stale (pruneLocked l st now) then None else Some (pruneLocked l st now))"
  by (auto simp: refreshLocked_def cleanupLocked_def Let_def gomap_simps split: option.splits)

lemma busy_update_same:
  "map_of m ip = Some st \<Longrightarrow> (0 < cls_active st') = (0 < cls_active st) \<Longrightarrow> busy (AList.update ip st' m) = busy m"
  by (induction m) (auto simp: busy_def split: if_splits)

lemma busy_delete_idle:
  "gmap_ok m \<Longrightarrow> map_of m ip = Some st \<Longrightarrow> \<not> 0 < cls_active st \<Longrightarrow> busy (AList.delete ip m) = busy m"
proof (induction m)
  case (Cons kv m)
  then have ok: "gmap_ok m" and "fst kv \<notin> fst ` set m" by (auto simp: gmap_ok_def)
  with Cons show ?case
    by (cases kv) (auto simp: busy_def delete_id split: if_splits)
qed simp

lemma busy_refresh:
  assumes inv: "conn_inv l"
  shows "busy (cl_items (refreshLocked l ip now)) = busy (cl_items l)"
proof (cases "map_of (cl_items l) ip")
  case None
  then show ?thesis by (simp add: refreshLocked_def)
next
  case (Some st)
  let ?m = "AList.update ip (pruneLocked l st now) (cl_items l)"
  have ok: "gmap_ok ?m" using inv by (simp add: conn_inv_def items_ok_def)
  have "busy ?m = busy (cl_items l)"
    using Some by (rule busy_update_same) simp
  moreover have "busy (AList.delete ip ?m) = busy ?m" if "stale (pruneLocked l st now)"
    using that by (intro busy_delete_idle [OF ok]) (auto simp: gomap_simps stale_def)
  ultimately show ?thesis
    by (simp add: refreshLocked_def Some cleanupLocked_def Let_def)
qed

text \<open>
  The tail of \<open>acquire\<close>: granted exactly when both per-address limits leave room; a grant adds one
  to the count of the address and to the total.
\<close>

lemma admitLocked_law:
  assumes inv: "conn_inv l" and entry: "map_of (cl_items l) ip = Some st"
    and room: "\<not> (0 < cl_maxActive l \<and> cl_maxActive l \<le> cl_activeTotal l)"
    and adm: "admitLocked l ip st now = (l', f, granted, reason)"
  shows "conn_inv l' \<and> conn_cfg l' = conn_cfg l \<and>
    (granted \<longleftrightarrow> \<not> (0 < cl_maxPerIP l \<and> cl_maxPerIP l \<le> cls_active st) \<and>
       \<not> (0 < cl_maxRate l \<and> cl_maxRate l \<le> int (length (cls_attempts st)))) \<and>
    (if granted then f = ReleaseOf ip \<and> reason = [] \<and>
        held_in (cl_items l') = (held_in (cl_items l))(ip := Suc (held_in (cl_items l) ip))
     else f = NoopRelease \<and> held_in (cl_items l') = held_in (cl_items l))"
proof -
  let ?st = "st\<lparr>cls_lastSeen := now\<rparr>"
  let ?l = "l\<lparr>cl_items := AList.update ip ?st (cl_items l)\<rparr>"
  have st: "st_ok l st" and ip: "ip \<noteq> []" and items: "items_ok l"
    using inv entry by (auto simp: conn_inv_def items_ok_def)
  have held: "held_in (cl_items ?l) = held_in (cl_items l)"
    using entry by (simp add: held_in_def fun_eq_iff gomap_simps)
  have "items_ok ?l"
    using items ip st by (auto simp: items_ok_def gomap_simps st_ok_def split: if_splits)
  moreover have "length (cl_items ?l) = length (cl_items l)"
    using entry by (simp add: length_update_AList)
  ultimately have inv1: "conn_inv ?l"
    using conn_inv_quiet [OF inv, of ?l] held inv by (simp add: conn_cfg_def conn_inv_def)
  let ?p = "0 < cl_maxPerIP l \<and> cl_maxPerIP l \<le> cls_active st"
  let ?r = "0 < cl_maxRate l \<and> cl_maxRate l \<le> int (length (cls_attempts st))"
  show ?thesis
  proof (cases "?p \<or> ?r")
    case True
    then have "\<not> stale ?st" by (auto simp: stale_def)
    with True adm have "l' = ?l \<and> f = NoopRelease \<and> \<not> granted"
      by (auto simp: admitLocked_def cleanupLocked_def Let_def split: if_splits)
    with True inv1 held show ?thesis by (auto simp: conn_cfg_def)
  next
    case False
    let ?st' = "?st\<lparr>cls_active := cls_active st + 1,
        cls_attempts := (if cl_maxRate l > 0 then cls_attempts st @ [now] else cls_attempts st)\<rparr>"
    have res: "l' = l\<lparr>cl_activeTotal := cl_activeTotal l + 1,
        cl_items := AList.update ip ?st' (AList.update ip ?st (cl_items l))\<rparr>"
      "f = ReleaseOf ip" "granted" "reason = []"
      using False adm by (auto simp: admitLocked_def Let_def)
    have "nat (cls_active st + 1) = Suc (nat (cls_active st))"
      using st by (auto simp: st_ok_def nat_add_distrib)
    then have held': "held_in (cl_items l') = (held_in (cl_items l))(ip := Suc (held_in (cl_items l) ip))"
      using entry by (simp add: res held_in_def fun_eq_iff gomap_simps)
    have "weight (held_in (cl_items l')) = Suc (weight (held_in (cl_items l)))"
      unfolding held' by (rule weight_Suc [OF finite_held_in])
    moreover have "items_ok l'"
      using items ip st False
      by (auto simp: res items_ok_def gomap_simps st_ok_def split: if_splits)
    moreover have "length (cl_items l') = length (cl_items l)"
      using entry by (simp add: res length_update_AList gomap_simps)
    ultimately have "conn_inv l'"
      using inv room by (auto simp: conn_inv_def res)
    with res held' False show ?thesis by (auto simp: conn_cfg_def)
  qed
qed

lemma connAcquire_law:
  assumes inv: "conn_inv l" and rng: "perm_fn rng"
    and acq: "connAcquire rng now (Some l) ip = (lo', f, granted, reason)"
  shows "\<exists>l'. lo' = Some l' \<and> conn_inv l' \<and> conn_cfg l' = conn_cfg l \<and>
    (granted \<longleftrightarrow> \<not> (0 < cl_maxActive l \<and> cl_maxActive l \<le> cl_activeTotal l) \<and>
       (held_in (cl_items l) (known_ip ip) \<noteq> 0 \<or> recent l (known_ip ip) now \<noteq> [] \<or>
          int (busy (cl_items l)) < cl_maxItems l) \<and>
       \<not> (0 < cl_maxPerIP l \<and> cl_maxPerIP l \<le> int (held_in (cl_items l) (known_ip ip))) \<and>
       \<not> (0 < cl_maxRate l \<and> cl_maxRate l \<le> int (length (recent l (known_ip ip) now)))) \<and>
    (if granted then f = ReleaseOf (known_ip ip) \<and> reason = [] \<and>
        held_in (cl_items l') = (held_in (cl_items l))(known_ip ip := Suc (held_in (cl_items l) (known_ip ip)))
     else f = NoopRelease \<and> held_in (cl_items l') = held_in (cl_items l))"
proof -
  let ?ip = "known_ip ip"
  define r where "r = refreshLocked l ?ip now"
  have r: "conn_inv r" "conn_cfg r = conn_cfg l" "held_in (cl_items r) = held_in (cl_items l)"
    "cl_activeTotal r = cl_activeTotal l" "busy (cl_items r) = busy (cl_items l)"
    using refreshLocked_quiet [OF inv, of ?ip now] busy_refresh [OF inv] by (auto simp: r_def)
  have cfg: "cl_maxActive r = cl_maxActive l" "cl_maxPerIP r = cl_maxPerIP l"
    "cl_maxRate r = cl_maxRate l" "cl_maxItems r = cl_maxItems l"
    using r(2) by (auto simp: conn_cfg_def)
  have entry: "map_of (cl_items r) ?ip = (case map_of (cl_items l) ?ip of None \<Rightarrow> None
     | Some st \<Rightarrow> if stale (pruneLocked l st now) then None else Some (pruneLocked l st now))"
    unfolding r_def by (rule refreshed_entry [OF inv])
  have pos: "0 \<le> cls_active st" if "map_of (cl_items l) ?ip = Some st" for st
    using inv that by (auto simp: conn_inv_def items_ok_def st_ok_def)
  show ?thesis
  proof (cases "0 < cl_maxActive l \<and> cl_maxActive l \<le> cl_activeTotal l")
    case True
    with acq have "lo' = Some r \<and> f = NoopRelease \<and> \<not> granted"
      by (simp add: r_def [symmetric] Let_def cfg r)
    with True r show ?thesis by auto
  next
    case room: False
    obtain t so where track: "trackStateLocked rng r ?ip now = (t, so)" by fastforce
    show ?thesis
    proof (cases "map_of (cl_items r) ?ip")
      case None
      note new = trackStateLocked_new [OF r(1) rng None known_ip_nonempty track]
      have zero: "held_in (cl_items l) ?ip = 0" "recent l ?ip now = []"
        using None entry by (auto simp: held_in_def recent_def stale_def split: option.splits if_splits)
      show ?thesis
      proof (cases so)
        case None
        with acq room track have "lo' = Some t \<and> f = NoopRelease \<and> \<not> granted"
          by (simp add: r_def [symmetric] Let_def cfg r)
        with new None zero r cfg show ?thesis by auto
      next
        case (Some st)
        obtain a where adm: "admitLocked t ?ip st now = (a, f, granted, reason)" and lo': "lo' = Some a"
          using acq room track Some
          by (auto simp: r_def [symmetric] Let_def cfg r split: prod.splits)
        have st: "st = fresh_state now" "map_of (cl_items t) ?ip = Some st" and inv_t: "conn_inv t"
          and cfg_t: "conn_cfg t = conn_cfg l" and tot: "cl_activeTotal t = cl_activeTotal l"
          and held_t: "held_in (cl_items t) = held_in (cl_items l)"
          using new Some r by auto
        have "\<not> (0 < cl_maxActive t \<and> cl_maxActive t \<le> cl_activeTotal t)"
          using room cfg_t tot by (simp add: conn_cfg_def)
        from admitLocked_law [OF inv_t st(2) this adm]
        show ?thesis using new Some r room cfg_t tot held_t st(1) zero lo' cfg
          by (auto simp: conn_cfg_def fresh_state_def)
      qed
    next
      case (Some st)
      then obtain st0 where st0: "map_of (cl_items l) ?ip = Some st0" "st = pruneLocked l st0 now" "\<not> stale st"
        using entry by (auto split: option.splits if_splits)
      obtain a where adm: "admitLocked r ?ip st now = (a, f, granted, reason)" and lo': "lo' = Some a"
        using acq room Some
        by (auto simp: r_def [symmetric] Let_def cfg r split: prod.splits)
      have "\<not> (0 < cl_maxActive r \<and> cl_maxActive r \<le> cl_activeTotal r)"
        using room cfg r by simp
      note law = admitLocked_law [OF r(1) Some this adm]
      have vals: "held_in (cl_items l) ?ip = nat (cls_active st)" "recent l ?ip now = cls_attempts st"
        using st0 by (simp_all add: held_in_def recent_def)
      have "nat (cls_active st) \<noteq> 0 \<or> cls_attempts st \<noteq> []" and "int (nat (cls_active st)) = cls_active st"
        using st0 pos [OF st0(1)] by (auto simp: stale_def)
      then show ?thesis using law r cfg room lo' by (auto simp: vals)
    qed
  qed
qed

lemma connRelease_law:
  assumes inv: "conn_inv l" and pos: "0 < held_in (cl_items l) ip"
  shows "\<exists>l'. connRelease now (Some l) ip = Some l' \<and> conn_inv l' \<and> conn_cfg l' = conn_cfg l \<and>
    held_in (cl_items l') = (held_in (cl_items l))(ip := held_in (cl_items l) ip - 1)"
proof -
  obtain st where st: "map_of (cl_items l) ip = Some st" and act: "0 < cls_active st"
    using pos by (auto simp: held_in_def split: option.splits)
  have ip: "known_ip ip = ip" and ok: "st_ok l st" and items: "items_ok l"
    using inv st by (auto simp: conn_inv_def items_ok_def known_ip_def)
  have tot: "0 < cl_activeTotal l"
    using inv pos weight_ge [OF finite_held_in, of "cl_items l" ip] by (simp add: conn_inv_def)
  let ?st = "(pruneLocked l (st\<lparr>cls_active := cls_active st - 1\<rparr>) now)\<lparr>cls_lastSeen := now\<rparr>"
  let ?l = "l\<lparr>cl_activeTotal := cl_activeTotal l - 1,
      cl_items := cleanupLocked ip ?st (AList.update ip ?st (cl_items l))\<rparr>"
  have res: "connRelease now (Some l) ip = Some ?l"
    using st act tot by (simp add: ip Let_def)
  have held: "held_in (cl_items ?l) = (held_in (cl_items l))(ip := held_in (cl_items l) ip - 1)"
    using st act by (auto simp: cleanupLocked_def stale_def held_in_def fun_eq_iff gomap_simps)
  have "st_ok l (st\<lparr>cls_active := cls_active st - 1\<rparr>)"
    using ok act by (auto simp: st_ok_def)
  then have "st_ok l ?st"
    using st_ok_prune [of l _ l now] by (fastforce simp: st_ok_def)
  then have it: "items_ok ?l"
    using items ip by (auto simp: items_ok_def cleanupLocked_def gomap_simps st_ok_def known_ip_def split: if_splits)
  have "length (cl_items ?l) \<le> length (cl_items l)"
    using st length_delete_le [of ip "AList.update ip ?st (cl_items l)"]
    by (simp add: cleanupLocked_def length_update_AList)
  moreover have "Suc (weight (held_in (cl_items ?l))) = weight (held_in (cl_items l))"
    unfolding held by (rule weight_pred [where h = "held_in (cl_items l)", OF finite_held_in pos])
  ultimately have "conn_inv ?l"
    using inv it by (auto simp: conn_inv_def)
  then show ?thesis using res held by (auto simp: conn_cfg_def)
qed

section \<open>The limiter is a lease table\<close>

text \<open>
  The environment of one call: the order of the map range and the clock. A \<open>nil\<close> limiter admits
  everything and counts nothing.
\<close>

type_synonym conn_env =
  "((string \<times> connectionLimitState) list \<Rightarrow> (string \<times> connectionLimitState) list) \<times> time"

definition conn_acquire :: "conn_env \<Rightarrow> string \<Rightarrow> connectionLimiter option \<Rightarrow>
    connectionLimiter option \<times> release_fn \<times> bool" where
  "conn_acquire env ip lo = (let (lo, f, granted, reason) = connAcquire (fst env) (snd env) lo ip in (lo, f, granted))"

definition conn_held :: "connectionLimiter option \<Rightarrow> string \<Rightarrow> nat" where
  "conn_held lo = (case lo of None \<Rightarrow> (\<lambda>_. 0) | Some l \<Rightarrow> held_in (cl_items l))"

definition conn_ok :: "int \<times> int \<times> int \<times> duration \<times> int \<Rightarrow> connectionLimiter option \<Rightarrow> bool" where
  "conn_ok cfg lo \<longleftrightarrow> (\<exists>l. lo = Some l \<and> conn_inv l \<and> conn_cfg l = cfg)"

lemma conn_acquire_law:
  assumes ok: "conn_ok cfg lo" and rng: "perm_fn (fst e)" and acq: "conn_acquire e ip lo = (lo', f, granted)"
  shows "conn_ok cfg lo' \<and> conn_held lo' = (case f of NoopRelease \<Rightarrow> conn_held lo
     | ReleaseOf k \<Rightarrow> (conn_held lo)(k := Suc (conn_held lo k)))"
proof -
  obtain l where l: "lo = Some l" "conn_inv l" "conn_cfg l = cfg" using ok by (auto simp: conn_ok_def)
  obtain reason where "connAcquire (fst e) (snd e) (Some l) ip = (lo', f, granted, reason)"
    using acq by (auto simp: conn_acquire_def l(1) split: prod.splits)
  from connAcquire_law [OF l(2) rng this] l show ?thesis
    by (auto simp: conn_ok_def conn_held_def split: if_splits)
qed

lemma conn_release_law:
  assumes ok: "conn_ok cfg lo" and pos: "0 < conn_held lo ip"
  shows "conn_ok cfg (connRelease now lo ip) \<and>
    conn_held (connRelease now lo ip) = (conn_held lo)(ip := conn_held lo ip - 1)"
proof -
  obtain l where l: "lo = Some l" "conn_inv l" "conn_cfg l = cfg" using ok by (auto simp: conn_ok_def)
  from connRelease_law [OF l(2), of ip now] pos l show ?thesis
    by (auto simp: conn_ok_def conn_held_def simp del: connRelease.simps)
qed

lemma conn_cleanup_law: "conn_ok cfg lo \<Longrightarrow> conn_ok cfg (connCleanup now lo) \<and> conn_held (connCleanup now lo) = conn_held lo"
  using cleanupAllLocked_quiet [of _ now] by (auto simp: conn_ok_def conn_held_def)

definition conn_release :: "conn_env \<Rightarrow> string \<Rightarrow> connectionLimiter option \<Rightarrow> connectionLimiter option" where
  "conn_release env ip lo = connRelease (snd env) lo ip"

definition conn_sweep :: "conn_env \<Rightarrow> connectionLimiter option \<Rightarrow> connectionLimiter option" where
  "conn_sweep env lo = connCleanup (snd env) lo"

interpretation conns: lease_table conn_acquire conn_release conn_sweep conn_held "conn_ok cfg" "\<lambda>env. perm_fn (fst env)"
  for cfg
  by unfold_locales
    (use conn_acquire_law conn_release_law conn_cleanup_law in \<open>auto simp: conn_release_def conn_sweep_def\<close>)

lemma conn_ok_bounds:
  assumes "conn_ok (maxActive, maxPerIP, maxRate, window, maxItems) lo"
  shows "\<exists>l. lo = Some l \<and> cl_activeTotal l = int (weight (conn_held lo)) \<and>
    (0 < maxActive \<longrightarrow> int (weight (conn_held lo)) \<le> maxActive) \<and>
    (0 < maxPerIP \<longrightarrow> (\<forall>ip. int (conn_held lo ip) \<le> maxPerIP)) \<and>
    int (length (cl_items l)) \<le> maxItems"
  using assms
  by (auto simp: conn_ok_def conn_inv_def conn_cfg_def conn_held_def held_in_def items_ok_def st_ok_def
      split: option.splits)

section \<open>Properties\<close>



text \<open>The admission rule: a connection is granted exactly when the global limit leaves room,
  the address is already known or fewer than \<open>maxItems\<close> addresses have open connections, the
  address is below its concurrency limit, and its admissions inside the sliding window are below
  the rate limit. A grant adds one connection to this address and to nothing else; a refusal
  changes no count.\<close>

theorem connection_admission:
  assumes "conn_inv l" and "perm_fn rng"
    and "connAcquire rng now (Some l) ip = (lo', f, granted, reason)"
  shows "granted = (\<not> (0 < cl_maxActive l \<and> cl_maxActive l \<le> cl_activeTotal l) \<and>
       (held_in (cl_items l) (known_ip ip) \<noteq> 0 \<or> recent l (known_ip ip) now \<noteq> [] \<or>
          int (busy (cl_items l)) < cl_maxItems l) \<and>
       \<not> (0 < cl_maxPerIP l \<and> cl_maxPerIP l \<le> int (held_in (cl_items l) (known_ip ip))) \<and>
       \<not> (0 < cl_maxRate l \<and> cl_maxRate l \<le> int (length (recent l (known_ip ip) now)))) \<and>
    conn_held lo' = (if granted then (held_in (cl_items l))(known_ip ip := Suc (held_in (cl_items l) (known_ip ip)))
                     else held_in (cl_items l))"
proof -
  from connAcquire_law [OF assms] obtain l' where lo': "lo' = Some l'" and
    "granted = (\<not> (0 < cl_maxActive l \<and> cl_maxActive l \<le> cl_activeTotal l) \<and>
       (held_in (cl_items l) (known_ip ip) \<noteq> 0 \<or> recent l (known_ip ip) now \<noteq> [] \<or>
          int (busy (cl_items l)) < cl_maxItems l) \<and>
       \<not> (0 < cl_maxPerIP l \<and> cl_maxPerIP l \<le> int (held_in (cl_items l) (known_ip ip))) \<and>
       \<not> (0 < cl_maxRate l \<and> cl_maxRate l \<le> int (length (recent l (known_ip ip) now))))"
    and "conn_held lo' = (if granted then (held_in (cl_items l))(known_ip ip := Suc (held_in (cl_items l) (known_ip ip)))
                     else held_in (cl_items l))"
    by (elim exE conjE) (simp add: conn_held_def split: if_splits)
  then show ?thesis by blast
qed

lemma connection_admission_witness:
  "\<exists>lo' f reason. connAcquire rev 100 (Some (newConnectionLimiter 2 1 1 5 10 60)) ''10.0.0.1''
      = (lo', f, True, reason) \<and> conn_held lo' ''10.0.0.1'' = 1"
proof -
  obtain lo' f g reason where eq:
    "connAcquire rev 100 (Some (newConnectionLimiter 2 1 1 5 10 60)) ''10.0.0.1'' = (lo', f, g, reason)"
    by (rule prod_cases4)
  from connection_admission [OF new_conn_inv perm_fn_rev eq]
  have "g" and "conn_held lo' ''10.0.0.1'' = 1"
    by (simp_all add: newConnectionLimiter_def held_in_def recent_def busy_def known_ip_def Let_def)
  with eq show ?thesis by simp
qed

end
