(* ===== verification/Go_Strings.thy ===== *)
theory Go_Strings
  imports Go_Prelude
begin

text \<open>
  What the code uses of the Go standard library on strings: \<open>strings.TrimSpace\<close>, \<open>Trim\<close>,
  \<open>ToLower\<close>, \<open>HasPrefix\<close>, \<open>HasSuffix\<close>, \<open>TrimPrefix\<close>, \<open>TrimSuffix\<close>, \<open>Contains\<close>, \<open>Split\<close>,
  \<open>Fields\<close>, \<open>strconv.Atoi\<close> and \<open>Itoa\<close>, \<open>net.SplitHostPort\<close> and \<open>net.JoinHostPort\<close>. A Go
  string is a list of bytes, here a list of characters. White space includes the multi-byte UTF-8
  encodings of the Unicode spaces; changing case is modelled on ASCII letters, other bytes are
  left alone.
\<close>

definition byte_of :: "char \<Rightarrow> nat" where
  "byte_of c = of_char c"

section \<open>Prefixes, suffixes, trimming\<close>

definition HasPrefix :: "string \<Rightarrow> string \<Rightarrow> bool" where
  "HasPrefix s p \<longleftrightarrow> take (length p) s = p"

definition HasSuffix :: "string \<Rightarrow> string \<Rightarrow> bool" where
  "HasSuffix s p \<longleftrightarrow> length p \<le> length s \<and> drop (length s - length p) s = p"

definition TrimPrefix :: "string \<Rightarrow> string \<Rightarrow> string" where
  "TrimPrefix s p = (if HasPrefix s p then drop (length p) s else s)"

definition TrimSuffix :: "string \<Rightarrow> string \<Rightarrow> string" where
  "TrimSuffix s p = (if HasSuffix s p then take (length s - length p) s else s)"

fun ContainsStr :: "string \<Rightarrow> string \<Rightarrow> bool" where
  "ContainsStr [] p = (p = [])"
| "ContainsStr (c # s) p = (HasPrefix (c # s) p \<or> ContainsStr s p)"

lemma HasPrefix_append: "HasPrefix s p \<Longrightarrow> HasPrefix (s @ t) p"
proof -
  assume h: "HasPrefix s p"
  then have "length p \<le> length s"
    by (metis HasPrefix_def length_take min.cobounded1)
  with h show ?thesis by (simp add: HasPrefix_def)
qed

text \<open>Strip, from the front, as many of the given byte sequences as possible.\<close>

function strip_seqs :: "string list \<Rightarrow> string \<Rightarrow> string" where
  "strip_seqs seqs s =
     (case find (\<lambda>q. q \<noteq> [] \<and> HasPrefix s q) seqs of
        None \<Rightarrow> s
      | Some q \<Rightarrow> strip_seqs seqs (drop (length q) s))"
  by pat_completeness auto
termination
proof (relation "measure (\<lambda>(seqs, s). length s)")
  fix seqs s q
  assume "find (\<lambda>q. q \<noteq> [] \<and> HasPrefix s q) seqs = Some q"
  then have q: "q \<noteq> []" "take (length q) s = q"
    by (auto simp: find_Some_iff HasPrefix_def)
  then have "s \<noteq> []" by auto
  with q show "((seqs, drop (length q) s), seqs, s) \<in> measure (\<lambda>(seqs, s). length s)"
    by (cases q) auto
qed simp

declare strip_seqs.simps [simp del]

text \<open>The white space of \<open>unicode.IsSpace\<close>, each rune in UTF-8.\<close>

definition space_seqs :: "string list" where
  "space_seqs =
     [[CHR 0x09], [CHR 0x0A], [CHR 0x0B], [CHR 0x0C], [CHR 0x0D], [CHR 0x20],
      [CHR 0xC2, CHR 0x85], [CHR 0xC2, CHR 0xA0], [CHR 0xE1, CHR 0x9A, CHR 0x80],
      [CHR 0xE2, CHR 0x80, CHR 0x80], [CHR 0xE2, CHR 0x80, CHR 0x81], [CHR 0xE2, CHR 0x80, CHR 0x82],
      [CHR 0xE2, CHR 0x80, CHR 0x83], [CHR 0xE2, CHR 0x80, CHR 0x84], [CHR 0xE2, CHR 0x80, CHR 0x85],
      [CHR 0xE2, CHR 0x80, CHR 0x86], [CHR 0xE2, CHR 0x80, CHR 0x87], [CHR 0xE2, CHR 0x80, CHR 0x88],
      [CHR 0xE2, CHR 0x80, CHR 0x89], [CHR 0xE2, CHR 0x80, CHR 0x8A], [CHR 0xE2, CHR 0x80, CHR 0xA8],
      [CHR 0xE2, CHR 0x80, CHR 0xA9], [CHR 0xE2, CHR 0x80, CHR 0xAF], [CHR 0xE2, CHR 0x81, CHR 0x9F],
      [CHR 0xE3, CHR 0x80, CHR 0x80]]"

definition TrimSpace :: "string \<Rightarrow> string" where
  "TrimSpace s = rev (strip_seqs (map rev space_seqs) (rev (strip_seqs space_seqs s)))"

definition TrimSet :: "string \<Rightarrow> string \<Rightarrow> string" where
  "TrimSet s cutset = rev (dropWhile (\<lambda>c. c \<in> set cutset) (rev (dropWhile (\<lambda>c. c \<in> set cutset) s)))"

definition TrimRight :: "string \<Rightarrow> string \<Rightarrow> string" where
  "TrimRight s cutset = rev (dropWhile (\<lambda>c. c \<in> set cutset) (rev s))"

lemma strip_seqs_stuck: "find (\<lambda>q. q \<noteq> [] \<and> HasPrefix s q) seqs = None \<Longrightarrow> strip_seqs seqs s = s"
  by (simp add: strip_seqs.simps)

lemma strip_seqs_result: "find (\<lambda>q. q \<noteq> [] \<and> HasPrefix (strip_seqs seqs s) q) seqs = None"
proof (induction seqs s rule: strip_seqs.induct)
  case (1 seqs s)
  then show ?case
    by (cases "find (\<lambda>q. q \<noteq> [] \<and> HasPrefix s q) seqs") (auto simp: strip_seqs.simps [of seqs s])
qed

lemma strip_seqs_suffix: "\<exists>p. s = p @ strip_seqs seqs s"
proof (induction seqs s rule: strip_seqs.induct)
  case (1 seqs s)
  show ?case
  proof (cases "find (\<lambda>q. q \<noteq> [] \<and> HasPrefix s q) seqs")
    case None
    then show ?thesis by (simp add: strip_seqs.simps [of seqs s])
  next
    case (Some q)
    from 1 [OF Some] obtain p where "drop (length q) s = p @ strip_seqs seqs (drop (length q) s)" by blast
    then have "s = (take (length q) s @ p) @ strip_seqs seqs s"
      using Some by (simp add: strip_seqs.simps [of seqs s])
    then show ?thesis by blast
  qed
qed

lemma strip_seqs_Nil [simp]: "strip_seqs seqs [] = []"
  using strip_seqs_suffix [of "[]" seqs] by simp

lemma TrimSpace_idem [simp]: "TrimSpace (TrimSpace s) = TrimSpace s"
proof -
  let ?l = "strip_seqs space_seqs s"
  let ?r = "strip_seqs (map rev space_seqs) (rev ?l)"
  obtain p where p: "rev ?l = p @ ?r" using strip_seqs_suffix by blast
  then have l: "?l = rev ?r @ rev p" by (metis rev_append rev_rev_ident)
  have "find (\<lambda>q. q \<noteq> [] \<and> HasPrefix (rev ?r) q) space_seqs = None"
    using strip_seqs_result [of space_seqs s] HasPrefix_append [of "rev ?r" _ "rev p"] l
    by (auto simp: find_None_iff)
  then have "strip_seqs space_seqs (rev ?r) = rev ?r" by (rule strip_seqs_stuck)
  moreover have "strip_seqs (map rev space_seqs) ?r = ?r"
    by (rule strip_seqs_stuck, rule strip_seqs_result)
  ultimately show ?thesis by (simp add: TrimSpace_def)
qed

lemma TrimSpace_Nil [simp]: "TrimSpace [] = []"
  by (simp add: TrimSpace_def)

text \<open>Nothing is trimmed between two visible ASCII characters.\<close>

definition visible :: "char \<Rightarrow> bool" where
  "visible c \<longleftrightarrow> 33 \<le> byte_of c \<and> byte_of c \<le> 126"

lemma space_seqs_not_visible:
  "q \<in> set space_seqs \<Longrightarrow> q \<noteq> [] \<and> \<not> visible (hd q) \<and> \<not> visible (last q)"
  by (auto simp: space_seqs_def visible_def byte_of_def)

lemma strip_seqs_visible:
  assumes seqs: "\<forall>q \<in> set seqs. q \<noteq> [] \<and> \<not> visible (hd q)" and s: "s = [] \<or> visible (hd s)"
  shows "strip_seqs seqs s = s"
proof (rule strip_seqs_stuck)
  have "\<not> HasPrefix s q" if "q \<in> set seqs" for q
  proof
    assume "HasPrefix s q"
    then have "take (length q) s = q" by (simp add: HasPrefix_def)
    moreover have "q \<noteq> []" "\<not> visible (hd q)" using seqs that by auto
    ultimately have "s \<noteq> []" and "hd s = hd q"
      by (metis take_Nil) (metis \<open>q \<noteq> []\<close> \<open>take (length q) s = q\<close> hd_take length_greater_0_conv)
    with s \<open>\<not> visible (hd q)\<close> show False by simp
  qed
  then show "find (\<lambda>q. q \<noteq> [] \<and> HasPrefix s q) seqs = None" by (auto simp: find_None_iff)
qed

lemma TrimSpace_visible:
  assumes "s = [] \<or> visible (hd s) \<and> visible (last s)"
  shows "TrimSpace s = s"
proof -
  have "strip_seqs space_seqs s = s"
    using assms by (intro strip_seqs_visible) (auto dest: space_seqs_not_visible)
  moreover have "strip_seqs (map rev space_seqs) (rev s) = rev s"
    using assms by (intro strip_seqs_visible) (auto dest: space_seqs_not_visible simp: hd_rev)
  ultimately show ?thesis by (simp add: TrimSpace_def)
qed

section \<open>Case, fields, splitting\<close>

definition lower_char :: "char \<Rightarrow> char" where
  "lower_char c = (if 65 \<le> byte_of c \<and> byte_of c \<le> 90 then char_of (byte_of c + 32) else c)"

lemma lower_char_code [code]: "lower_char (Char b0 b1 b2 b3 b4 b5 b6 b7) =
  (if \<not> b7 \<and> b6 \<and> \<not> b5 \<and> (b0 \<or> b1 \<or> b2 \<or> b3 \<or> b4) \<and> \<not> (b3 \<and> b4 \<and> (b2 \<or> b0 \<and> b1))
   then Char b0 b1 b2 b3 b4 True b6 b7 else Char b0 b1 b2 b3 b4 b5 b6 b7)"
  by (cases b0; cases b1; cases b2; cases b3; cases b4; cases b5; cases b6; cases b7)
     (simp_all add: lower_char_def byte_of_def char_of_def bit_0)

definition ToLower :: "string \<Rightarrow> string" where
  "ToLower s = map lower_char s"

definition upper_char :: "char \<Rightarrow> char" where
  "upper_char c = (if 97 \<le> byte_of c \<and> byte_of c \<le> 122 then char_of (byte_of c - 32) else c)"

definition ToUpper :: "string \<Rightarrow> string" where
  "ToUpper s = map upper_char s"

lemma lower_char_idem [simp]: "lower_char (lower_char c) = lower_char c"
proof (cases "65 \<le> byte_of c \<and> byte_of c \<le> 90")
  case True
  then have "byte_of (char_of (byte_of c + 32)) = byte_of c + 32"
    by (simp add: byte_of_def)
  with True show ?thesis by (simp add: lower_char_def)
qed (auto simp: lower_char_def)

lemma ToLower_idem [simp]: "ToLower (ToLower s) = ToLower s"
  by (simp add: ToLower_def comp_def)

lemma ToLower_append: "ToLower (s @ t) = ToLower s @ ToLower t"
  by (simp add: ToLower_def)

text \<open>\<open>strings.Split\<close> for a separator of one byte.\<close>

fun SplitChar :: "char \<Rightarrow> string \<Rightarrow> string list" where
  "SplitChar sep [] = [[]]"
| "SplitChar sep (c # s) =
     (if c = sep then [] # SplitChar sep s
      else (case SplitChar sep s of [] \<Rightarrow> [[c]] | p # ps \<Rightarrow> (c # p) # ps))"

lemma SplitChar_nonempty: "SplitChar sep s \<noteq> []"
  by (induction s) (auto split: list.splits)

lemma SplitChar_single: "sep \<notin> set s \<Longrightarrow> SplitChar sep s = [s]"
  by (induction s) auto

lemma SplitChar_append: "sep \<notin> set s \<Longrightarrow> SplitChar sep (s @ sep # t) = s # SplitChar sep t"
  by (induction s) auto

fun join_char :: "char \<Rightarrow> string list \<Rightarrow> string" where
  "join_char sep [] = []"
| "join_char sep [p] = p"
| "join_char sep (p # ps) = p @ sep # join_char sep ps"

section \<open>Decimal numbers\<close>

definition is_digit :: "char \<Rightarrow> bool" where
  "is_digit c \<longleftrightarrow> 48 \<le> byte_of c \<and> byte_of c \<le> 57"

definition digit_val :: "char \<Rightarrow> nat" where
  "digit_val c = byte_of c - 48"

definition dec_val :: "string \<Rightarrow> nat" where
  "dec_val s = foldl (\<lambda>n c. 10 * n + digit_val c) 0 s"

text \<open>Evaluation works on the bits of a character and on integers.\<close>

lemma visible_code [code]: "visible (Char b0 b1 b2 b3 b4 b5 b6 b7) =
  (\<not> b7 \<and> (b5 \<or> b6) \<and> (b6 \<or> b0 \<or> b1 \<or> b2 \<or> b3 \<or> b4) \<and> \<not> (b0 \<and> b1 \<and> b2 \<and> b3 \<and> b4 \<and> b5 \<and> b6))"
  by (cases b0; cases b1; cases b2; cases b3; cases b4; cases b5; cases b6; cases b7)
     (simp_all add: visible_def byte_of_def)

lemma is_digit_code [code]: "is_digit (Char b0 b1 b2 b3 b4 b5 b6 b7) =
  (\<not> b7 \<and> \<not> b6 \<and> b5 \<and> b4 \<and> (\<not> b3 \<or> \<not> b2 \<and> \<not> b1))"
  by (cases b0; cases b1; cases b2; cases b3; cases b4; cases b5; cases b6; cases b7)
     (simp_all add: is_digit_def byte_of_def)

lemma digit_val_code [code]: "digit_val (Char b0 b1 b2 b3 b4 b5 b6 b7) =
  (if \<not> b7 \<and> \<not> b6 \<and> b5 \<and> b4 then of_bool b0 + 2 * of_bool b1 + 4 * of_bool b2 + 8 * of_bool b3
   else byte_of (Char b0 b1 b2 b3 b4 b5 b6 b7) - 48)"
  by (simp add: digit_val_def byte_of_def of_char_def)

definition dec_int :: "string \<Rightarrow> int" where
  "dec_int s = int (dec_val s)"

lemma dec_int_foldl: "foldl (\<lambda>n c. 10 * n + int (digit_val c)) (int k) s = int (foldl (\<lambda>n c. 10 * n + digit_val c) k s)"
proof (induction s arbitrary: k)
  case (Cons c s)
  have "10 * int k + int (digit_val c) = int (10 * k + digit_val c)" by simp
  with Cons.IH [of "10 * k + digit_val c"] show ?case by (simp only: foldl_Cons)
qed simp

lemma dec_int_code [code]: "dec_int s = foldl (\<lambda>n c. 10 * n + int (digit_val c)) 0 s"
  using dec_int_foldl [of 0 s] by (simp add: dec_int_def dec_val_def)

text \<open>\<open>strconv.Atoi\<close>: an optional sign, decimal digits, a value of 64 bits; \<open>None\<close> is an error.\<close>

definition Atoi :: "string \<Rightarrow> int option" where
  "Atoi s =
     (let (neg, ds) = (case s of [] \<Rightarrow> (False, [])
           | c # cs \<Rightarrow> if c = CHR ''-'' then (True, cs) else if c = CHR ''+'' then (False, cs) else (False, s))
      in if ds = [] \<or> \<not> list_all is_digit ds then None
         else let n = (if neg then - dec_int ds else dec_int ds)
              in if - 9223372036854775808 \<le> n \<and> n < 9223372036854775808 then Some n else None)"

fun nat_digits :: "nat \<Rightarrow> string" where
  "nat_digits n = (if n < 10 then [''0123456789'' ! n] else nat_digits (n div 10) @ [''0123456789'' ! (n mod 10)])"

declare nat_digits.simps [simp del]

definition Itoa :: "int \<Rightarrow> string" where
  "Itoa n = (if n < 0 then CHR ''-'' # nat_digits (nat (- n)) else nat_digits (nat n))"

function int_digits :: "int \<Rightarrow> string" where
  "int_digits n = (if n < 10 then [''0123456789'' ! nat n] else int_digits (n div 10) @ [''0123456789'' ! nat (n mod 10)])"
  by pat_completeness auto
termination by (relation "measure nat") auto

declare int_digits.simps [simp del, code del]

lemma int_digits_code [code]:
  "int_digits n = (case n < 10 of True \<Rightarrow> [''0123456789'' ! nat n]
     | False \<Rightarrow> int_digits (n div 10) @ [''0123456789'' ! nat (n mod 10)])"
  by (subst int_digits.simps) (simp split: bool.split)

lemma int_digits_nat: "int_digits (int n) = nat_digits n"
proof (induction n rule: nat_digits.induct)
  case (1 n)
  then show ?case
    by (cases "n < 10") (simp_all add: int_digits.simps [of "int n"] nat_digits.simps [of n] nat_mod_distrib zdiv_int)
qed

lemma nat_digits_code [code]: "nat_digits n = int_digits (int n)"
  by (simp add: int_digits_nat)

lemma Itoa_code [code]: "Itoa n = (if n < 0 then CHR ''-'' # int_digits (- n) else int_digits n)"
  by (cases "n < 0") (simp_all add: Itoa_def flip: int_digits_nat)

lemma digit_nth:
  assumes "d < 10"
  shows "is_digit (''0123456789'' ! d) \<and> digit_val (''0123456789'' ! d) = d"
proof -
  have "d \<in> {0, 1, 2, 3, 4, 5, 6, 7, 8, 9}" using assms by auto
  then show ?thesis by (auto simp: is_digit_def digit_val_def byte_of_def)
qed

lemma nat_digits_digits: "list_all is_digit (nat_digits n)"
proof (induction n rule: nat_digits.induct)
  case (1 n)
  then show ?case
    by (cases "n < 10") (simp_all add: nat_digits.simps [of n] digit_nth)
qed

lemma nat_digits_nonempty: "nat_digits n \<noteq> []"
  by (subst nat_digits.simps) simp

lemma dec_val_snoc: "dec_val (s @ [c]) = 10 * dec_val s + digit_val c"
  by (simp add: dec_val_def)

lemma dec_val_nat_digits: "dec_val (nat_digits n) = n"
proof (induction n rule: nat_digits.induct)
  case (1 n)
  then show ?case
    by (cases "n < 10") (simp_all add: nat_digits.simps [of n] digit_nth dec_val_snoc dec_val_def [of "[_]"])
qed

lemma digit_not: "is_digit c \<Longrightarrow> c \<noteq> CHR ''-'' \<and> c \<noteq> CHR ''+'' \<and> c \<noteq> CHR '':'' \<and> c \<noteq> CHR ''['' \<and> c \<noteq> CHR '']''"
  by (auto simp: is_digit_def byte_of_def)

lemma Atoi_nat_digits:
  assumes "int n < 2 ^ 63"
  shows "Atoi (nat_digits n) = Some (int n)"
proof (cases "nat_digits n")
  case Nil
  then show ?thesis using nat_digits_nonempty [of n] by simp
next
  case (Cons c cs)
  then have "is_digit c" using nat_digits_digits [of n] by simp
  then show ?thesis
    using assms nat_digits_digits [of n] dec_val_nat_digits [of n] digit_not [of c]
    by (simp add: Atoi_def dec_int_def Cons Let_def)
qed

lemma Atoi_Itoa: "0 \<le> n \<Longrightarrow> n < 2 ^ 63 \<Longrightarrow> Atoi (Itoa n) = Some n"
  using Atoi_nat_digits [of "nat n"] by (simp add: Itoa_def)

section \<open>Host and port\<close>

fun index_of :: "char \<Rightarrow> string \<Rightarrow> nat option" where
  "index_of c [] = None"
| "index_of c (x # xs) = (if x = c then Some 0 else map_option Suc (index_of c xs))"

definition last_index :: "char \<Rightarrow> string \<Rightarrow> nat option" where
  "last_index c s = map_option (\<lambda>i. length s - Suc i) (index_of c (rev s))"

definition addr_err :: "string \<Rightarrow> string \<Rightarrow> go_error" where
  "addr_err addr why = Errorf ''address %s: %s'' [FS addr, FS why]"

text \<open>
  \<open>net.SplitHostPort\<close>: the port starts after the last colon, the host may be bracketed and must
  be if it contains a colon.
\<close>

definition SplitHostPort :: "string \<Rightarrow> (string \<times> string) res" where
  "SplitHostPort hp =
     (case last_index (CHR '':'') hp of
        None \<Rightarrow> Inl (addr_err hp ''missing port in address'')
      | Some i \<Rightarrow>
         (let check = (\<lambda>host j k.
                if CHR ''['' \<in> set (drop j hp) then Inl (addr_err hp ''unexpected '[' in address'')
                else if CHR '']'' \<in> set (drop k hp) then Inl (addr_err hp ''unexpected ']' in address'')
                else Inr (host, drop (i + 1) hp))
          in if hp ! 0 = CHR ''[''
             then (case index_of (CHR '']'') hp of
                     None \<Rightarrow> Inl (addr_err hp ''missing ']' in address'')
                   | Some e \<Rightarrow>
                      if e + 1 = length hp then Inl (addr_err hp ''missing port in address'')
                      else if e + 1 = i then check (take (e - 1) (drop 1 hp)) 1 (e + 1)
                      else if hp ! (e + 1) = CHR '':'' then Inl (addr_err hp ''too many colons in address'')
                      else Inl (addr_err hp ''missing port in address''))
             else if CHR '':'' \<in> set (take i hp) then Inl (addr_err hp ''too many colons in address'')
             else check (take i hp) 0 0))"

definition JoinHostPort :: "string \<Rightarrow> string \<Rightarrow> string" where
  "JoinHostPort host port =
     (if CHR '':'' \<in> set host then CHR ''['' # host @ '']:'' @ port else host @ CHR '':'' # port)"

lemma index_of_append: "c \<notin> set s \<Longrightarrow> index_of c (s @ c # t) = Some (length s)"
  by (induction s) auto

lemma last_index_append: "c \<notin> set t \<Longrightarrow> last_index c (s @ c # t) = Some (length s)"
  using index_of_append [of c "rev t" "rev s"] by (simp add: last_index_def)

text \<open>Splitting what \<open>JoinHostPort\<close> makes gives host and port back.\<close>

lemma Split_JoinHostPort:
  assumes host: "CHR ''['' \<notin> set host" "CHR '']'' \<notin> set host"
    and port: "CHR '':'' \<notin> set port" "CHR ''['' \<notin> set port" "CHR '']'' \<notin> set port"
  shows "SplitHostPort (JoinHostPort host port) = Inr (host, port)"
proof (cases "CHR '':'' \<in> set host")
  case True
  let ?hp = "CHR ''['' # host @ '']:'' @ port"
  have "last_index (CHR '':'') ((CHR ''['' # host @ '']'') @ CHR '':'' # port) = Some (length host + 2)"
    using last_index_append [OF port(1), of "CHR ''['' # host @ '']''"] by simp
  moreover have "index_of (CHR '']'') ((CHR ''['' # host) @ CHR '']'' # '':'' @ port) = Some (Suc (length host))"
    using index_of_append [of "CHR '']''" "CHR ''['' # host"] host by simp
  ultimately show ?thesis
    using True host port by (simp add: JoinHostPort_def SplitHostPort_def Let_def)
next
  case False
  let ?hp = "host @ CHR '':'' # port"
  have last: "last_index (CHR '':'') ?hp = Some (length host)"
    by (rule last_index_append [OF port(1)])
  have "?hp ! 0 \<noteq> CHR ''[''"
    using host by (cases host) auto
  with last show ?thesis
    using False host port by (simp add: JoinHostPort_def SplitHostPort_def Let_def)
qed

end
