(* ===== verification/Go_Time.thy ===== *)
theory Go_Time
  imports Go_Strings
begin

text \<open>
  What the code uses of \<open>time\<close> and \<open>path/filepath\<close> (the slash-separated form): calendar dates,
  \<open>time.Parse(time.RFC3339, ..)\<close>, \<open>Time.Format\<close>, \<open>Time.AddDate\<close>, and the lexical path
  functions. The zone data of \<open>time.Local\<close> comes from the operating system: it is an argument
  \<open>tz\<close>, the offset in seconds east of UTC that holds at an instant.
\<close>

section \<open>Calendar\<close>

definition leap :: "int \<Rightarrow> bool" where
  "leap y \<longleftrightarrow> y mod 4 = 0 \<and> (y mod 100 \<noteq> 0 \<or> y mod 400 = 0)"

definition month_lengths :: "int \<Rightarrow> int list" where
  "month_lengths y = [31, if leap y then 29 else 28, 31, 30, 31, 30, 31, 31, 30, 31, 30, 31]"

definition days_in :: "int \<Rightarrow> int \<Rightarrow> int" where
  "days_in y m = month_lengths y ! nat (m - 1)"

text \<open>Days from 1 January of year 1; \<open>date_days\<close> normalizes months and days as \<open>time.Date\<close> does.\<close>

definition year_days :: "int \<Rightarrow> int" where
  "year_days y = 365 * (y - 1) + (y - 1) div 4 - (y - 1) div 100 + (y - 1) div 400"

definition date_days :: "int \<Rightarrow> int \<Rightarrow> int \<Rightarrow> int" where
  "date_days y m d =
     (let y = y + (m - 1) div 12; m = (m - 1) mod 12
      in year_days y + sum_list (take (nat m) (month_lengths y)) + d - 1)"

fun find_month :: "int list \<Rightarrow> int \<Rightarrow> int \<Rightarrow> int \<times> int" where
  "find_month [] m n = (m, n + 1)"
| "find_month (l # ls) m n = (if n < l \<or> ls = [] then (m, n + 1) else find_month ls (m + 1) (n - l))"

definition civil :: "int \<Rightarrow> int \<times> int \<times> int" where
  "civil n =
     (let n400 = n div 146097; r = n mod 146097;
          n100 = min 3 (r div 36524); r = r - 36524 * n100;
          n4 = r div 1461; r = r - 1461 * n4;
          n1 = min 3 (r div 365); r = r - 365 * n1;
          y = 400 * n400 + 100 * n100 + 4 * n4 + n1 + 1;
          (m, d) = find_month (month_lengths y) 1 r
      in (y, m, d))"

definition day_secs :: int where
  "day_secs = 86400"

text \<open>The wall clock of an instant at an offset: days, and seconds in the day.\<close>

definition wall_secs :: "int \<Rightarrow> time \<Rightarrow> int" where
  "wall_secs off t = t div second + off"

section \<open>Formatting\<close>

definition pad :: "nat \<Rightarrow> int \<Rightarrow> string" where
  "pad w n = (let s = Itoa n in replicate (w - length s) (CHR ''0'') @ s)"

text \<open>The layouts \<open>2006-01-02\<close>, \<open>2006-01\<close>, \<open>RFC3339\<close> and \<open>20060102T150405\<close>.\<close>

definition date_text :: "int \<Rightarrow> time \<Rightarrow> string" where
  "date_text off t = (case civil (wall_secs off t div day_secs) of (y, m, d) \<Rightarrow>
     pad 4 y @ ''-'' @ pad 2 m @ ''-'' @ pad 2 d)"

definition month_text :: "int \<Rightarrow> time \<Rightarrow> string" where
  "month_text off t = (case civil (wall_secs off t div day_secs) of (y, m, d) \<Rightarrow> pad 4 y @ ''-'' @ pad 2 m)"

definition zone_text :: "int \<Rightarrow> string" where
  "zone_text off =
     (if off = 0 then ''Z''
      else let mins = \<bar>off\<bar> div 60
           in (if off < 0 then ''-'' else ''+'') @ pad 2 (mins div 60) @ '':'' @ pad 2 (mins mod 60))"

definition format_rfc3339 :: "int \<Rightarrow> time \<Rightarrow> string" where
  "format_rfc3339 off t =
     (let s = wall_secs off t mod day_secs
      in date_text off t @ ''T'' @ pad 2 (s div 3600) @ '':'' @ pad 2 (s div 60 mod 60) @ '':'' @ pad 2 (s mod 60)
         @ zone_text off)"

definition compact_text :: "int \<Rightarrow> time \<Rightarrow> string" where
  "compact_text off t = (let s = wall_secs off t mod day_secs in
     (case civil (wall_secs off t div day_secs) of (y, m, d) \<Rightarrow>
       pad 4 y @ pad 2 m @ pad 2 d @ ''T'' @ pad 2 (s div 3600) @ pad 2 (s div 60 mod 60) @ pad 2 (s mod 60)))"

section \<open>Parsing RFC 3339\<close>

text \<open>\<open>num_n n s\<close>: exactly \<open>n\<close> decimal digits and the rest of the text.\<close>

definition num_n :: "nat \<Rightarrow> string \<Rightarrow> (int \<times> string) option" where
  "num_n n s = (if n \<le> length s \<and> list_all is_digit (take n s) then Some (dec_int (take n s), drop n s) else None)"

definition lit :: "char \<Rightarrow> string \<Rightarrow> string option" where
  "lit c s = (case s of [] \<Rightarrow> None | x # xs \<Rightarrow> if x = c then Some xs else None)"

text \<open>The hour of the layout \<open>15\<close> may have one digit.\<close>

definition num_hour :: "string \<Rightarrow> (int \<times> string) option" where
  "num_hour s = (case num_n 2 s of Some r \<Rightarrow> Some r | None \<Rightarrow> num_n 1 s)"

definition frac_secs :: "string \<Rightarrow> int \<times> string" where
  "frac_secs s =
     (case s of
        c # d # r \<Rightarrow>
          if (c = CHR ''.'' \<or> c = CHR '','') \<and> is_digit d
          then let ds = takeWhile is_digit (d # r); used = take 9 ds
               in (dec_int used * 10 ^ (9 - length used), drop (length ds) (d # r))
          else (0, s)
      | _ \<Rightarrow> (0, s))"

text \<open>The offset in seconds; the whole rest of the text must be the zone.\<close>

definition zone_secs :: "string \<Rightarrow> int option" where
  "zone_secs s =
     (if s = ''Z'' then Some 0
      else (case s of [] \<Rightarrow> None
        | sign # r \<Rightarrow>
           (case num_n 2 r of None \<Rightarrow> None | Some (hr, r) \<Rightarrow>
           (case lit (CHR '':'') r of None \<Rightarrow> None | Some r \<Rightarrow>
           (case num_n 2 r of None \<Rightarrow> None | Some (mm, r) \<Rightarrow>
              if r \<noteq> [] \<or> hr > 24 \<or> mm > 60 then None
              else if sign = CHR ''+'' then Some ((hr * 60 + mm) * 60)
              else if sign = CHR ''-'' then Some (- ((hr * 60 + mm) * 60))
              else None)))))"

definition parse_rfc3339 :: "string \<Rightarrow> time option" where
  "parse_rfc3339 s =
     (case num_n 4 s of None \<Rightarrow> None | Some (year, s) \<Rightarrow>
     (case lit (CHR ''-'') s of None \<Rightarrow> None | Some s \<Rightarrow>
     (case num_n 2 s of None \<Rightarrow> None | Some (month, s) \<Rightarrow>
     (case lit (CHR ''-'') s of None \<Rightarrow> None | Some s \<Rightarrow>
     (case num_n 2 s of None \<Rightarrow> None | Some (day, s) \<Rightarrow>
     (case lit (CHR ''T'') s of None \<Rightarrow> None | Some s \<Rightarrow>
     (case num_hour s of None \<Rightarrow> None | Some (hour, s) \<Rightarrow>
     (case lit (CHR '':'') s of None \<Rightarrow> None | Some s \<Rightarrow>
     (case num_n 2 s of None \<Rightarrow> None | Some (mins, s) \<Rightarrow>
     (case lit (CHR '':'') s of None \<Rightarrow> None | Some s \<Rightarrow>
     (case num_n 2 s of None \<Rightarrow> None | Some (sec, s) \<Rightarrow>
     (let (nsec, s) = frac_secs s in
     (case zone_secs s of None \<Rightarrow> None | Some off \<Rightarrow>
        if month < 1 \<or> 12 < month \<or> day < 1 \<or> days_in year month < day \<or> hour \<ge> 24 \<or> mins \<ge> 60 \<or> sec \<ge> 60
        then None
        else Some ((date_days year month day * day_secs + hour * 3600 + mins * 60 + sec - off) * second + nsec))))))))))))))"

section \<open>Dates in the local zone\<close>

text \<open>\<open>time.Date(.., time.Local)\<close>: the wall-clock seconds are turned into an instant.\<close>

definition local_instant :: "(time \<Rightarrow> int) \<Rightarrow> int \<Rightarrow> time" where
  "local_instant tz secs =
     (let off = tz (secs * second)
      in (secs - (if off = 0 then 0 else tz ((secs - off) * second))) * second)"

definition AddDate :: "(time \<Rightarrow> int) \<Rightarrow> time \<Rightarrow> int \<Rightarrow> int \<Rightarrow> int \<Rightarrow> time" where
  "AddDate tz t years months days =
     (let w = wall_secs (tz t) t; (y, m, d) = civil (w div day_secs)
      in local_instant tz (date_days (y + years) (m + months) (d + days) * day_secs + w mod day_secs) + t mod second)"

definition local_midnight :: "(time \<Rightarrow> int) \<Rightarrow> time \<Rightarrow> time" where
  "local_midnight tz t =
     (let (y, m, d) = civil (wall_secs (tz t) t div day_secs)
      in local_instant tz (date_days y m d * day_secs))"

section \<open>Paths\<close>

fun clean_parts :: "bool \<Rightarrow> string list \<Rightarrow> string list \<Rightarrow> string list" where
  "clean_parts rooted [] out = rev out"
| "clean_parts rooted (p # ps) out =
     (if p = [] \<or> p = ''.'' then clean_parts rooted ps out
      else if p = ''..''
      then (if out \<noteq> [] \<and> hd out \<noteq> ''..'' then clean_parts rooted ps (tl out)
            else if rooted then clean_parts rooted ps out
            else clean_parts rooted ps (p # out))
      else clean_parts rooted ps (p # out))"

definition IsAbs :: "string \<Rightarrow> bool" where
  "IsAbs p = HasPrefix p ''/''"

definition Clean :: "string \<Rightarrow> string" where
  "Clean p =
     (let s = join_char (CHR ''/'') (clean_parts (IsAbs p) (SplitChar (CHR ''/'') p) [])
      in if IsAbs p then CHR ''/'' # s else if s = [] then ''.'' else s)"

definition JoinPath :: "string list \<Rightarrow> string" where
  "JoinPath elems = (case dropWhile (\<lambda>e. e = []) elems of [] \<Rightarrow> [] | es \<Rightarrow> Clean (join_char (CHR ''/'') es))"

definition DirPath :: "string \<Rightarrow> string" where
  "DirPath p = Clean (case last_index (CHR ''/'') p of None \<Rightarrow> [] | Some i \<Rightarrow> take (i + 1) p)"

definition BasePath :: "string \<Rightarrow> string" where
  "BasePath p =
     (if p = [] then ''.''
      else let q = TrimRight p ''/''
           in if q = [] then ''/''
              else (case last_index (CHR ''/'') q of None \<Rightarrow> q | Some i \<Rightarrow> drop (i + 1) q))"

definition ExtPath :: "string \<Rightarrow> string" where
  "ExtPath p = (case last_index (CHR ''.'') p of None \<Rightarrow> []
     | Some i \<Rightarrow> if CHR ''/'' \<in> set (drop i p) then [] else drop i p)"

definition EqualFold :: "string \<Rightarrow> string \<Rightarrow> bool" where
  "EqualFold a b = (ToLower a = ToLower b)"

end
