(* ===== verification/Go_Files.thy ===== *)
theory Go_Files
  imports Go_Time
begin

text \<open>
  What the code uses of \<open>os\<close> on files: \<open>ReadFile\<close>, \<open>WriteFile\<close>, appending with \<open>OpenFile\<close>,
  \<open>MkdirAll\<close>. The state is the contents of the files by path. Which calls fail, and what a failed
  write leaves behind, is up to the operating system and is an argument, the record \<open>os_env\<close>.
\<close>

type_synonym files = "(string, string) gomap"

record os_env =
  os_read_fault :: "string \<Rightarrow> go_error option"
  os_mkdir_fault :: "string \<Rightarrow> go_error option"
  os_write_fault :: "string \<Rightarrow> (go_error \<times> string) option"

definition no_faults :: os_env where
  "no_faults = \<lparr>os_read_fault = (\<lambda>_. None), os_mkdir_fault = (\<lambda>_. None), os_write_fault = (\<lambda>_. None)\<rparr>"

definition ErrNotExist :: go_error where
  "ErrNotExist = Sentinel ''file does not exist''"

definition IsNotExist :: "go_error \<Rightarrow> bool" where
  "IsNotExist e \<longleftrightarrow> e = ErrNotExist"

definition ReadFile :: "os_env \<Rightarrow> files \<Rightarrow> string \<Rightarrow> string res" where
  "ReadFile env fs path =
     (case os_read_fault env path of
        Some e \<Rightarrow> Inl e
      | None \<Rightarrow> (case map_of fs path of None \<Rightarrow> Inl ErrNotExist | Some d \<Rightarrow> Inr d))"

text \<open>A write that fails leaves the contents the fault says.\<close>

definition WriteFile :: "os_env \<Rightarrow> files \<Rightarrow> string \<Rightarrow> string \<Rightarrow> files \<times> go_error option" where
  "WriteFile env fs path data =
     (case os_write_fault env path of
        Some (e, left_over) \<Rightarrow> (AList.update path left_over fs, Some e)
      | None \<Rightarrow> (AList.update path data fs, None))"

definition MkdirAll :: "os_env \<Rightarrow> string \<Rightarrow> go_error option" where
  "MkdirAll env dir = os_mkdir_fault env dir"

definition AppendFile :: "os_env \<Rightarrow> files \<Rightarrow> string \<Rightarrow> string \<Rightarrow> files \<times> go_error option" where
  "AppendFile env fs path data =
     (let old = (case map_of fs path of None \<Rightarrow> [] | Some d \<Rightarrow> d)
      in case os_write_fault env path of
        Some (e, part) \<Rightarrow> (AList.update path (old @ part) fs, Some e)
      | None \<Rightarrow> (AList.update path (old @ data) fs, None))"

lemma ReadFile_ok [simp]: "os_read_fault env path = None \<Longrightarrow> map_of fs path = Some d \<Longrightarrow> ReadFile env fs path = Inr d"
  by (simp add: ReadFile_def)

lemma WriteFile_None: "WriteFile env fs path data = (fs', None) \<Longrightarrow> fs' = AList.update path data fs"
  by (auto simp: WriteFile_def split: option.splits)

lemma AppendFile_None:
  "AppendFile env fs path data = (fs', None) \<Longrightarrow>
   map_of fs' path = Some ((case map_of fs path of None \<Rightarrow> [] | Some d \<Rightarrow> d) @ data)"
  by (auto simp: AppendFile_def Let_def gomap_simps split: option.splits)

text \<open>The working directory is \<open>None\<close> when \<open>os.Getwd\<close> fails.\<close>

definition AbsPath :: "string option \<Rightarrow> string \<Rightarrow> string option" where
  "AbsPath wd path = (if IsAbs path then Some (Clean path)
     else (case wd of None \<Rightarrow> None | Some w \<Rightarrow> Some (JoinPath [w, path])))"

end
