(* ===== verification/Go_IP.thy ===== *)
theory Go_IP
  imports Go_Strings "HOL-Library.Word"
begin

unbundle bit_operations_syntax

text \<open>
  The part of \<open>net\<close> and \<open>net/netip\<close> the address policy rests on: \<open>netip.ParseAddr\<close>,
  \<open>net.ParseIP\<close>, \<open>IP.To4\<close>, \<open>IP.IsLoopback\<close>, \<open>IP.IsPrivate\<close> and \<open>IP.String\<close>. An address is
  its 16 bytes, an IPv4 address in the IPv4-mapped form \<open>::ffff:a.b.c.d\<close>, as \<open>net.IP\<close> has it.
\<close>

type_synonym ip_bytes = "8 word list"

section \<open>Parsing\<close>

text \<open>
  \<open>parseIPv4Fields\<close>: the value and the number of digits of the octet being read, and the octets
  already complete. An octet has no leading zero and is at most 255; there are four of them.
\<close>

fun v4_fields :: "string \<Rightarrow> int \<Rightarrow> int \<Rightarrow> 8 word list \<Rightarrow> 8 word list option" where
  "v4_fields [] val digLen fields =
     (if length fields < 3 then None else Some (fields @ [of_int val]))"
| "v4_fields (c # cs) val digLen fields =
     (if is_digit c
      then (if digLen = 1 \<and> val = 0 then None
            else let val = val * 10 + int (digit_val c)
                 in if val > 255 then None else v4_fields cs val (digLen + 1) fields)
      else if c = CHR ''.''
      then (if digLen = 0 \<or> cs = [] then None
            else if length fields = 3 then None
            else v4_fields cs 0 0 (fields @ [of_int val]))
      else None)"

definition v4_prefix :: ip_bytes where
  "v4_prefix = replicate 10 0 @ [255, 255]"

definition parseIPv4 :: "string \<Rightarrow> ip_bytes option" where
  "parseIPv4 s = map_option (\<lambda>q. v4_prefix @ q) (v4_fields s 0 0 [])"

definition hex_digit :: "char \<Rightarrow> nat option" where
  "hex_digit c =
     (if is_digit c then Some (digit_val c)
      else if 97 \<le> byte_of c \<and> byte_of c \<le> 102 then Some (byte_of c - 87)
      else if 65 \<le> byte_of c \<and> byte_of c \<le> 70 then Some (byte_of c - 55)
      else None)"

lemma hex_digit_code [code]: "hex_digit (Char b0 b1 b2 b3 b4 b5 b6 b7) =
  (if \<not> b7 \<and> \<not> b6 \<and> b5 \<and> b4 \<and> (\<not> b3 \<or> \<not> b2 \<and> \<not> b1)
   then Some (of_bool b0 + 2 * of_bool b1 + 4 * of_bool b2 + 8 * of_bool b3)
   else if \<not> b7 \<and> b6 \<and> \<not> b4 \<and> \<not> b3 \<and> (b0 \<or> b1 \<or> b2) \<and> \<not> (b0 \<and> b1 \<and> b2)
   then Some (9 + (of_bool b0 + 2 * of_bool b1 + 4 * of_bool b2)) else None)"
  by (cases b0; cases b1; cases b2; cases b3; cases b4; cases b5; cases b6; cases b7)
     (simp_all add: hex_digit_def is_digit_def digit_val_def byte_of_def)

definition hex_val :: "string \<Rightarrow> int" where
  "hex_val s = foldl (\<lambda>n c. 16 * n + (case hex_digit c of None \<Rightarrow> 0 | Some d \<Rightarrow> int d)) 0 s"

text \<open>The end of \<open>parseIPv6\<close>: the whole string is used and the ellipsis, if any, is expanded.\<close>

definition v6_finish :: "string \<Rightarrow> ip_bytes \<Rightarrow> nat option \<Rightarrow> ip_bytes option" where
  "v6_finish s ip ellipsis =
     (if s \<noteq> [] then None
      else if length ip < 16
      then (case ellipsis of None \<Rightarrow> None
            | Some e \<Rightarrow> Some (take e ip @ replicate (16 - length ip) 0 @ drop e ip))
      else if ellipsis \<noteq> None then None
      else Some ip)"

text \<open>The loop over the groups: \<open>s\<close> is the rest of the text, \<open>ip\<close> the bytes already read.\<close>

function v6_loop :: "string \<Rightarrow> ip_bytes \<Rightarrow> nat option \<Rightarrow> ip_bytes option" where
  "v6_loop s ip ellipsis =
     (if length ip \<ge> 16 then v6_finish s ip ellipsis
      else let ds = takeWhile (\<lambda>c. hex_digit c \<noteq> None) s;
               rest = drop (length ds) s;
               ip' = ip @ [of_int (hex_val ds div 256), of_int (hex_val ds)]
      in if length ds > 4 \<or> ds = [] then None
         else if rest \<noteq> [] \<and> hd rest = CHR ''.''
         then (if ellipsis = None \<and> length ip \<noteq> 12 then None
               else if length ip + 4 > 16 then None
               else (case v4_fields s 0 0 [] of None \<Rightarrow> None | Some q \<Rightarrow> v6_finish [] (ip @ q) ellipsis))
         else if rest = [] then v6_finish [] ip' ellipsis
         else if hd rest \<noteq> CHR '':'' \<or> length rest = 1 then None
         else let s = tl rest
         in if hd s = CHR '':''
            then (if ellipsis \<noteq> None then None
                  else if tl s = [] then v6_finish [] ip' (Some (length ip'))
                  else v6_loop (tl s) ip' (Some (length ip')))
            else v6_loop s ip' ellipsis)"
  by pat_completeness auto
termination
  by (relation "measure (\<lambda>(s, ip, e). length s)") (auto simp: drop_eq_Nil neq_Nil_conv)

declare v6_loop.simps [simp del]

definition parseIPv6 :: "string \<Rightarrow> (ip_bytes \<times> string) option" where
  "parseIPv6 inp =
     (let (s, zone, bad) = (case index_of (CHR ''%'') inp of
             None \<Rightarrow> (inp, [], False)
           | Some i \<Rightarrow> (take i inp, drop (i + 1) inp, drop (i + 1) inp = []))
      in if bad then None
         else if take 2 s = ''::''
         then (if drop 2 s = [] then Some (replicate 16 0, zone)
               else map_option (\<lambda>ip. (ip, zone)) (v6_loop (drop 2 s) [] (Some 0)))
         else map_option (\<lambda>ip. (ip, zone)) (v6_loop s [] None))"

text \<open>\<open>netip.ParseAddr\<close>: the first of \<open>.\<close>, \<open>:\<close> and \<open>%\<close> decides; the result has the zone.\<close>

definition ParseAddr :: "string \<Rightarrow> (ip_bytes \<times> string) option" where
  "ParseAddr s =
     (case find (\<lambda>c. c \<in> set ''.:%'') s of
        None \<Rightarrow> None
      | Some c \<Rightarrow> if c = CHR ''.'' then map_option (\<lambda>ip. (ip, [])) (parseIPv4 s)
                  else if c = CHR '':'' then parseIPv6 s
                  else None)"

definition ParseIP :: "string \<Rightarrow> ip_bytes option" where
  "ParseIP s = (case ParseAddr s of Some (ip, zone) \<Rightarrow> (if zone = [] then Some ip else None) | None \<Rightarrow> None)"

section \<open>Classification\<close>

definition To4 :: "ip_bytes \<Rightarrow> ip_bytes option" where
  "To4 ip = (if length ip = 16 \<and> take 12 ip = v4_prefix then Some (drop 12 ip) else None)"

definition IsLoopback :: "ip_bytes \<Rightarrow> bool" where
  "IsLoopback ip = (case To4 ip of Some q \<Rightarrow> q ! 0 = 127 | None \<Rightarrow> ip = replicate 15 0 @ [1])"

definition IsPrivate :: "ip_bytes \<Rightarrow> bool" where
  "IsPrivate ip = (case To4 ip of
       Some q \<Rightarrow> q ! 0 = 10 \<or> (q ! 0 = 172 \<and> q ! 1 AND 0xF0 = 16) \<or> (q ! 0 = 192 \<and> q ! 1 = 168)
     | None \<Rightarrow> length ip = 16 \<and> ip ! 0 AND 0xFE = 0xFC)"

section \<open>Printing\<close>

definition v4_string :: "8 word list \<Rightarrow> string" where
  "v4_string q = join_char (CHR ''.'') (map (\<lambda>b. nat_digits (unat b)) q)"

fun hex_digits :: "nat \<Rightarrow> string" where
  "hex_digits n = (if n < 16 then [''0123456789abcdef'' ! n] else hex_digits (n div 16) @ [''0123456789abcdef'' ! (n mod 16)])"

declare hex_digits.simps [simp del]

lemma hex_digits_code [code]:
  "hex_digits n = (case n < 16 of True \<Rightarrow> [''0123456789abcdef'' ! n]
     | False \<Rightarrow> hex_digits (n div 16) @ [''0123456789abcdef'' ! (n mod 16)])"
  by (subst hex_digits.simps) (simp split: bool.split)

definition v6_groups :: "ip_bytes \<Rightarrow> nat list" where
  "v6_groups ip = map (\<lambda>i. 256 * unat (ip ! (2 * i)) + unat (ip ! (2 * i + 1))) [0..<8]"

text \<open>The first longest run of at least two zero groups: its start and its end.\<close>

definition zero_run :: "nat list \<Rightarrow> (nat \<times> nat) option" where
  "zero_run gs = foldl (\<lambda>best i.
       (let l = length (takeWhile (\<lambda>g. g = 0) (drop i gs))
        in if l \<ge> 2 \<and> l > (case best of None \<Rightarrow> 0 | Some (a, b) \<Rightarrow> b - a) then Some (i, i + l) else best))
     None [0..<length gs]"

definition v6_string :: "ip_bytes \<Rightarrow> string" where
  "v6_string ip =
     (let gs = v6_groups ip; text = (\<lambda>gs. join_char (CHR '':'') (map hex_digits gs))
      in case zero_run gs of
           None \<Rightarrow> text gs
         | Some (a, b) \<Rightarrow> text (take a gs) @ ''::'' @ text (drop b gs))"

definition IPString :: "ip_bytes \<Rightarrow> string" where
  "IPString ip = (case To4 ip of Some q \<Rightarrow> v4_string q | None \<Rightarrow> v6_string ip)"

end
