(* ===== verification/Addresses.thy ===== *)
theory Addresses
  imports Go_IP
begin

text \<open>
  Address spelling rules: \<open>src/internal/netaddr/forward.go\<close>, \<open>src/internal/netaddr/loopback.go\<close>
  and \<open>src/server/tunnel/address.go\<close>. A \<open>net.Addr\<close> is its text, \<open>None\<close> for \<open>nil\<close>.
\<close>

section \<open>Definitions\<close>

definition LoopbackIPv4 :: string where
  "LoopbackIPv4 = ''127.0.0.1''"

definition IsForwardTargetHost :: "string \<Rightarrow> bool" where
  "IsForwardTargetHost host =
     (if host = LoopbackIPv4 then True
      else (case ParseIP host of None \<Rightarrow> False | Some ip \<Rightarrow> IsPrivate ip))"

definition CheckLoopbackHost :: "string \<Rightarrow> go_error option" where
  "CheckLoopbackHost host =
     (let host = TrimSpace host
      in if host = LoopbackIPv4 then None
         else let name = TrimSuffix (ToLower host) ''.''; parsed = ParseAddr (TrimSet host ''[]'')
         in if name = ''localhost'' \<or> HasSuffix name ''.localhost'' \<or>
               (case parsed of None \<Rightarrow> False | Some (ip, zone) \<Rightarrow> IsLoopback ip)
            then Some (Errorf ''loopback host %q is not supported; use 127.0.0.1'' [FS host])
            else None)"

definition CheckLoopbackEndpoint :: "string \<Rightarrow> go_error option" where
  "CheckLoopbackEndpoint addr =
     (case SplitHostPort (TrimSpace addr) of
        Inl err \<Rightarrow> CheckLoopbackHost addr
      | Inr (host, port) \<Rightarrow> CheckLoopbackHost host)"

definition split_host_port :: "string \<Rightarrow> (string \<times> int) res" where
  "split_host_port target =
     (case SplitHostPort (TrimSpace target) of
        Inl err \<Rightarrow> Inl err
      | Inr (host, portText) \<Rightarrow>
         (case Atoi portText of
            None \<Rightarrow> Inl (Errorf ''invalid port'' [])
          | Some port \<Rightarrow>
             if port \<le> 0 \<or> port > 65535 then Inl (Errorf ''invalid port'' [])
             else Inr (TrimSet host ''[]'', port)))"

definition normalizeTarget :: "string \<Rightarrow> string" where
  "normalizeTarget target =
     (case SplitHostPort (TrimSpace target) of
        Inl err \<Rightarrow> ToLower (TrimSpace target)
      | Inr (host, port) \<Rightarrow> JoinHostPort (ToLower (TrimSet host ''[]'')) port)"

definition isLoopbackName :: "string \<Rightarrow> bool" where
  "isLoopbackName host =
     (let host = ToLower (TrimSet host ''[]'')
      in if host = ''localhost'' then True
         else (case ParseIP host of None \<Rightarrow> False | Some ip \<Rightarrow> IsLoopback ip))"

definition remoteHost :: "string option \<Rightarrow> string" where
  "remoteHost addr = (case addr of None \<Rightarrow> ''unknown''
     | Some a \<Rightarrow> (case SplitHostPort a of Inl err \<Rightarrow> a | Inr (host, port) \<Rightarrow> host))"

definition addrString :: "string option \<Rightarrow> string" where
  "addrString addr = (case addr of None \<Rightarrow> [] | Some a \<Rightarrow> a)"

section \<open>Splitting and normal forms\<close>

lemma index_of_SomeD: "index_of c s = Some i \<Longrightarrow> i < length s \<and> s ! i = c \<and> c \<notin> set (take i s)"
  by (induction s arbitrary: i) (auto split: if_splits)

lemma last_index_SomeD:
  assumes "last_index c s = Some i"
  shows "i < length s \<and> s = take i s @ c # drop (i + 1) s \<and> c \<notin> set (drop (i + 1) s)"
proof -
  obtain j where j: "index_of c (rev s) = Some j" and i: "i = length s - Suc j"
    using assms by (auto simp: last_index_def)
  have *: "j < length s" "rev s ! j = c" "c \<notin> set (take j (rev s))"
    using index_of_SomeD [OF j] by auto
  have "i < length s" using i *(1) by linarith
  moreover have "s ! i = c" using i *(1,2) by (simp add: rev_nth)
  moreover have "length s - j = i + 1" using i *(1) by linarith
  then have "set (take j (rev s)) = set (drop (i + 1) s)"
    by (simp only: take_rev set_rev)
  ultimately show ?thesis using *(3) id_take_nth_drop [of i s] by simp
qed

lemma SplitHostPort_port:
  assumes "SplitHostPort hp = Inr (host, port)"
  shows "CHR '':'' \<notin> set port"
proof -
  obtain i where i: "last_index (CHR '':'') hp = Some i"
    using assms by (auto simp: SplitHostPort_def split: option.splits)
  have "port = drop (i + 1) hp"
    using assms i by (auto simp: SplitHostPort_def Let_def split: if_splits option.splits)
  with last_index_SomeD [OF i] show ?thesis by simp
qed

lemma JoinHostPort_inj:
  assumes "CHR '':'' \<notin> set p" and "CHR '':'' \<notin> set q" and eq: "JoinHostPort a p = JoinHostPort b q"
  shows "a = b \<and> p = q"
proof -
  define wrap where "wrap h = (if CHR '':'' \<in> set h then CHR ''['' # h @ '']'' else h)" for h :: string
  have join: "JoinHostPort h r = wrap h @ CHR '':'' # r" for h r
    by (simp add: JoinHostPort_def wrap_def)
  have "last_index (CHR '':'') (wrap a @ CHR '':'' # p) = Some (length (wrap a))"
    "last_index (CHR '':'') (wrap b @ CHR '':'' # q) = Some (length (wrap b))"
    using assms by (simp_all add: last_index_append)
  with eq have "length (wrap a) = length (wrap b)" by (simp add: join)
  with eq have w: "wrap a = wrap b" and "p = q" by (simp_all add: join)
  moreover have "CHR '':'' \<in> set (wrap h) \<longleftrightarrow> CHR '':'' \<in> set h" for h
    by (simp add: wrap_def)
  then have "CHR '':'' \<in> set a \<longleftrightarrow> CHR '':'' \<in> set b" using w by metis
  then have "a = b" using w by (auto simp: wrap_def split: if_splits)
  ultimately show ?thesis by simp
qed

lemma split_host_port_InrD:
  "split_host_port t = Inr (h, p) \<Longrightarrow>
   \<exists>host pt. SplitHostPort (TrimSpace t) = Inr (host, pt) \<and> Atoi pt = Some p \<and> h = TrimSet host ''[]''
     \<and> 1 \<le> p \<and> p \<le> 65535"
  by (auto simp: split_host_port_def split: sum.splits option.splits if_splits)

text \<open>Two addresses that split and have the same normal form are the same host, up to case, and
  the same port.\<close>

lemma normalizeTarget_same:
  assumes "split_host_port t = Inr (h, p)" and "split_host_port u = Inr (k, q)"
    and "normalizeTarget t = normalizeTarget u"
  shows "ToLower h = ToLower k \<and> p = q"
proof -
  obtain h0 pt where t: "SplitHostPort (TrimSpace t) = Inr (h0, pt)" "Atoi pt = Some p" "h = TrimSet h0 ''[]''"
    using split_host_port_InrD [OF assms(1)] by blast
  obtain k0 qt where u: "SplitHostPort (TrimSpace u) = Inr (k0, qt)" "Atoi qt = Some q" "k = TrimSet k0 ''[]''"
    using split_host_port_InrD [OF assms(2)] by blast
  have "JoinHostPort (ToLower h) pt = JoinHostPort (ToLower k) qt"
    using assms(3) t u by (simp add: normalizeTarget_def)
  then have "ToLower h = ToLower k \<and> pt = qt"
    by (rule JoinHostPort_inj [OF SplitHostPort_port [OF t(1)] SplitHostPort_port [OF u(1)]])
  with t u show ?thesis by simp
qed

section \<open>The characters of an IP address\<close>

definition addr_char :: "char \<Rightarrow> bool" where
  "addr_char c \<longleftrightarrow> hex_digit c \<noteq> None \<or> c = CHR '':'' \<or> c = CHR ''.''"

lemma digit_addr_char: "is_digit c \<Longrightarrow> addr_char c"
  by (simp add: addr_char_def hex_digit_def)

lemma addr_char_sep [simp]: "addr_char (CHR '':'')" "addr_char (CHR ''.'')"
  by (simp_all add: addr_char_def)

lemma v4_fields_chars: "v4_fields s val n fs = Some q \<Longrightarrow> list_all addr_char s"
  by (induction s val n fs rule: v4_fields.induct)
     (auto simp: addr_char_def Let_def hex_digit_def split: if_splits)

lemma v6_finish_Nil: "v6_finish s ip e = Some r \<Longrightarrow> s = []"
  by (auto simp: v6_finish_def split: if_splits)

lemma v6_loop_chars: "v6_loop s ip e = Some r \<Longrightarrow> list_all addr_char s"
proof (induction s ip e rule: v6_loop.induct)
  case (1 s ip e)
  let ?ds = "takeWhile (\<lambda>c. hex_digit c \<noteq> None) s"
  let ?rest = "drop (length ?ds) s"
  have s: "s = ?ds @ ?rest" by (simp add: dropWhile_eq_drop [symmetric])
  have ds: "list_all addr_char ?ds"
    by (auto simp: list_all_iff addr_char_def dest: set_takeWhileD)
  show ?case
  proof (cases "length ip \<ge> 16")
    case True
    then have "v6_finish s ip e = Some r" using "1.prems" by (simp add: v6_loop.simps [of s])
    then have "s = []" by (rule v6_finish_Nil)
    then show ?thesis by simp
  next
    case False
    have "list_all addr_char s \<or> list_all addr_char ?rest"
    proof (cases ?rest)
      case (Cons c cs)
      then show ?thesis
        using "1.prems" "1.IH" False
        by (cases cs) (auto simp: v6_loop.simps [of s] Let_def split: if_splits option.splits
            dest: v4_fields_chars v6_finish_Nil)
    qed simp
    then show ?thesis using ds s by (metis list_all_append)
  qed
qed

lemma ParseIP_chars:
  assumes "ParseIP s = Some ip"
  shows "list_all addr_char s \<and> s \<noteq> []"
proof -
  obtain zone where addr: "ParseAddr s = Some (ip, zone)" and zone: "zone = []"
    using assms by (auto simp: ParseIP_def split: option.splits if_splits)
  have ne: "s \<noteq> []" using addr by (auto simp: ParseAddr_def)
  obtain c where c: "find (\<lambda>c. c \<in> set ''.:%'') s = Some c"
    using addr by (auto simp: ParseAddr_def split: option.splits)
  show ?thesis
  proof (cases "c = CHR ''.''")
    case True
    then have "parseIPv4 s = Some ip" using addr c by (auto simp: ParseAddr_def)
    then show ?thesis using ne by (auto simp: parseIPv4_def dest: v4_fields_chars)
  next
    case False
    then have six: "parseIPv6 s = Some (ip, [])" using addr c zone
      by (auto simp: ParseAddr_def split: if_splits)
    then have nozone: "index_of (CHR ''%'') s = None"
      by (auto simp: parseIPv6_def Let_def split: option.splits if_splits)
    have dc: "list_all addr_char ''::''" by (simp add: addr_char_def)
    show ?thesis
    proof (cases "take 2 s = ''::''")
      case True
      then have "s = ''::'' @ drop 2 s" by (metis append_take_drop_id)
      moreover have "list_all addr_char (drop 2 s)"
        using six nozone True by (auto simp: parseIPv6_def split: if_splits dest: v6_loop_chars)
      ultimately show ?thesis using ne dc by (metis list_all_append)
    next
      case False
      then show ?thesis using six nozone ne by (auto simp: parseIPv6_def dest: v6_loop_chars)
    qed
  qed
qed

lemma addr_char_hex: "addr_char c \<Longrightarrow> (48 \<le> byte_of c \<and> byte_of c \<le> 58) \<or> byte_of c = 46 \<or>
    (65 \<le> byte_of c \<and> byte_of c \<le> 70) \<or> (97 \<le> byte_of c \<and> byte_of c \<le> 102)"
  by (auto simp: addr_char_def hex_digit_def is_digit_def byte_of_def split: if_splits)

lemma addr_char_visible: "addr_char c \<Longrightarrow> visible c"
  by (drule addr_char_hex) (auto simp: visible_def)

lemma addr_char_not: "addr_char c \<Longrightarrow> c \<noteq> CHR ''['' \<and> c \<noteq> CHR '']'' \<and> lower_char c \<noteq> CHR ''t'' \<and> c \<noteq> CHR ''%''"
proof -
  assume a: "addr_char c"
  have "byte_of (lower_char c) \<noteq> 116"
  proof (cases "65 \<le> byte_of c \<and> byte_of c \<le> 90")
    case True
    then have "byte_of (lower_char c) = byte_of c + 32" by (simp add: lower_char_def byte_of_def)
    then show ?thesis using addr_char_hex [OF a] True by auto
  next
    case False
    then show ?thesis using addr_char_hex [OF a] by (auto simp: lower_char_def)
  qed
  then have "lower_char c \<noteq> CHR ''t''" by (auto simp: byte_of_def)
  then show ?thesis using addr_char_hex [OF a] by (auto simp: byte_of_def)
qed

lemma TrimSet_none: "s = [] \<or> hd s \<notin> set cs \<and> last s \<notin> set cs \<Longrightarrow> TrimSet s cs = s"
proof -
  assume a: "s = [] \<or> hd s \<notin> set cs \<and> last s \<notin> set cs"
  have "dropWhile (\<lambda>c. c \<in> set cs) s = s" using a by (cases s) auto
  moreover have "dropWhile (\<lambda>c. c \<in> set cs) (rev s) = rev s"
    using a by (cases "rev s") (auto simp: hd_rev [symmetric])
  ultimately show ?thesis by (simp add: TrimSet_def)
qed

lemma TrimSuffix_subset: "set (TrimSuffix s p) \<subseteq> set s"
  by (auto simp: TrimSuffix_def dest: in_set_takeD)

lemma HasSuffix_last: "HasSuffix s p \<Longrightarrow> p \<noteq> [] \<Longrightarrow> last p \<in> set s"
  by (metis HasSuffix_def in_mono last_in_set set_drop_subset)

lemma ParseIP_ParseAddr: "ParseIP s = Some ip \<Longrightarrow> ParseAddr s = Some (ip, [])"
  by (auto simp: ParseIP_def split: option.splits if_splits)

lemma private_not_loopback: "IsPrivate ip \<Longrightarrow> \<not> IsLoopback ip"
proof (cases "To4 ip")
  case None
  assume "IsPrivate ip"
  then have "ip ! 0 AND 0xFE = 0xFC" using None by (simp add: IsPrivate_def)
  moreover have "(replicate 15 0 @ [1]) ! 0 AND 0xFE \<noteq> (0xFC :: 8 word)"
    by (simp add: nth_append)
  ultimately show ?thesis using None by (auto simp: IsLoopback_def)
next
  case (Some q)
  assume "IsPrivate ip"
  then show ?thesis using Some by (auto simp: IsPrivate_def IsLoopback_def)
qed

section \<open>The two address policies agree\<close>

text \<open>Every host the forward-target policy accepts (the literal 127.0.0.1 or a private IP
  literal) passes the loopback spelling check of the configuration reader, in any of the
  spellings the parser reads; and none of them is empty or a name that needs resolving.\<close>

theorem forward_target_not_alias:
  assumes "IsForwardTargetHost host"
  shows "CheckLoopbackHost host = None \<and> host \<noteq> [] \<and> ParseIP host \<noteq> None"
proof (cases "host = LoopbackIPv4")
  case True
  have "TrimSpace LoopbackIPv4 = LoopbackIPv4" by code_simp
  moreover have "ParseIP LoopbackIPv4 \<noteq> None" by code_simp
  ultimately show ?thesis using True by (simp add: CheckLoopbackHost_def) (simp add: LoopbackIPv4_def)
next
  case False
  then obtain ip where ip: "ParseIP host = Some ip" "IsPrivate ip"
    using assms by (auto simp: IsForwardTargetHost_def split: option.splits)
  have chars: "list_all addr_char host" and ne: "host \<noteq> []" using ParseIP_chars [OF ip(1)] by auto
  have ends: "addr_char (hd host)" "addr_char (last host)"
    using chars ne by (auto simp: list_all_iff)
  have trim: "TrimSpace host = host"
    using ends by (intro TrimSpace_visible) (simp add: addr_char_visible)
  have cut: "TrimSet host ''[]'' = host"
    using ends addr_char_not by (intro TrimSet_none) auto
  let ?name = "TrimSuffix (ToLower host) ''.''"
  have t: "CHR ''t'' \<notin> set ?name"
  proof
    assume "CHR ''t'' \<in> set ?name"
    then have "CHR ''t'' \<in> set (ToLower host)" using TrimSuffix_subset by blast
    then show False using chars addr_char_not by (fastforce simp: ToLower_def list_all_iff)
  qed
  then have "?name \<noteq> ''localhost''" by auto
  moreover have "\<not> HasSuffix ?name ''.localhost''" using t HasSuffix_last by fastforce
  ultimately show ?thesis
    using trim cut ne ip ParseIP_ParseAddr [OF ip(1)] private_not_loopback [OF ip(2)]
    by (simp add: CheckLoopbackHost_def Let_def)
qed

theorem forward_target_not_alias_witness:
  "CheckLoopbackHost ''10.1.2.3'' = None \<and> ''10.1.2.3'' \<noteq> [] \<and> ParseIP ''10.1.2.3'' \<noteq> None"
  by (rule forward_target_not_alias) code_simp

end
