(* ===== verification/Versions.thy ===== *)
theory Versions
  imports Go_Strings
begin

text \<open>
  Release versions: \<open>src/internal/version/version.go\<close>. The three numbers of a version are a list
  of length 3, a parse error is the value of the \<open>fmt.Errorf\<close> call that makes it.
\<close>

section \<open>Constants and operations\<close>

definition AppVersion :: string where "AppVersion = ''3.1.1''"
definition LegacyClientVersion :: string where "LegacyClientVersion = ''1.1.0''"
definition ClientConfigVersion :: int where "ClientConfigVersion = 2"
definition ClientConfigRequiresClientVersion :: string where "ClientConfigRequiresClientVersion = ''2.1.0''"
definition ServerConfigVersion :: int where "ServerConfigVersion = 1"
definition ServerConfigRequiresServerVersion :: string where "ServerConfigRequiresServerVersion = ''2.0.0''"
definition ProtocolVersion :: int where "ProtocolVersion = 3"
definition LegacyProtocolVersion :: int where "LegacyProtocolVersion = 1"
definition MinCompatibleClientVersion :: string where "MinCompatibleClientVersion = ''3.0.0''"

text \<open>The loop over the parts: \<open>i\<close> is the index, \<open>out\<close> what is filled in so far.\<close>

fun parse_parts :: "string list \<Rightarrow> int \<Rightarrow> int list \<Rightarrow> int list res" where
  "parse_parts [] i out = Inr out"
| "parse_parts (part # parts) i out =
     (if part = [] then Inl (Errorf ''version part %d is empty'' [FI (i + 1)])
      else (case Atoi part of
              None \<Rightarrow> Inl (Errorf ''version part %d is invalid'' [FI (i + 1)])
            | Some n \<Rightarrow>
                if n < 0 then Inl (Errorf ''version part %d is invalid'' [FI (i + 1)])
                else parse_parts parts (i + 1) (out @ [n])))"

definition parse_version :: "string \<Rightarrow> int list res" where
  "parse_version v =
     (let parts = SplitChar (CHR ''.'') (TrimSpace (TrimPrefix v ''v''))
      in if length parts \<noteq> 3 then Inl (Errorf ''version must have three parts'' [])
         else parse_parts parts 0 [])"

fun compare_parts :: "int list \<Rightarrow> int list \<Rightarrow> int" where
  "compare_parts (l # left) (r # right) =
     (if l < r then -1 else if l > r then 1 else compare_parts left right)"
| "compare_parts _ _ = 0"

definition Compare :: "string \<Rightarrow> string \<Rightarrow> int res" where
  "Compare a b =
     (case parse_version a of
        Inl err \<Rightarrow> Inl err
      | Inr left \<Rightarrow>
         (case parse_version b of
            Inl err \<Rightarrow> Inl err
          | Inr right \<Rightarrow> Inr (compare_parts left right)))"

definition Less :: "string \<Rightarrow> string \<Rightarrow> bool res" where
  "Less a b = (case Compare a b of Inl err \<Rightarrow> Inl err | Inr cmp \<Rightarrow> Inr (cmp < 0))"

definition Greater :: "string \<Rightarrow> string \<Rightarrow> bool res" where
  "Greater a b = (case Compare a b of Inl err \<Rightarrow> Inl err | Inr cmp \<Rightarrow> Inr (cmp > 0))"

definition Validate :: "string \<Rightarrow> go_error option" where
  "Validate v = (case parse_version v of Inl err \<Rightarrow> Some err | Inr _ \<Rightarrow> None)"

definition CheckMin :: "string \<Rightarrow> string \<Rightarrow> string \<Rightarrow> go_error option" where
  "CheckMin current minimum subject =
     (let minimum = TrimSpace minimum
      in if minimum = [] then None
         else (case Less current minimum of
                 Inl err \<Rightarrow> Some (Errorf ''%s requires invalid minimum version %q: %w'' [FS subject, FS minimum, FE err])
               | Inr lt \<Rightarrow>
                   if lt then Some (Errorf ''%s requires version >= %s, current version is %s''
                                       [FS subject, FS minimum, FS current])
                   else None))"

definition CheckMax :: "string \<Rightarrow> string \<Rightarrow> string \<Rightarrow> go_error option" where
  "CheckMax current maximum subject =
     (let maximum = TrimSpace maximum
      in if maximum = [] then None
         else (case Greater current maximum of
                 Inl err \<Rightarrow> Some (Errorf ''%s requires invalid maximum version %q: %w'' [FS subject, FS maximum, FE err])
               | Inr gt \<Rightarrow>
                   if gt then Some (Errorf ''%s requires version <= %s, current version is %s''
                                          [FS subject, FS maximum, FS current])
                   else None))"

section \<open>Parsed versions\<close>

lemma parse_parts_shape:
  "parse_parts ps i out = Inr vs \<Longrightarrow> length vs = length out + length ps \<and> (list_all (\<lambda>n. 0 \<le> n) out \<longrightarrow> list_all (\<lambda>n. 0 \<le> n) vs)"
  by (induction ps i out rule: parse_parts.induct) (auto split: if_splits option.splits)

lemma parse_version_shape:
  "parse_version v = Inr vs \<Longrightarrow> length vs = 3 \<and> list_all (\<lambda>n. 0 \<le> n) vs"
  by (auto simp: parse_version_def Let_def split: if_splits dest: parse_parts_shape)

lemma Validate_None: "Validate v = None \<longleftrightarrow> (\<exists>vs. parse_version v = Inr vs)"
  by (auto simp: Validate_def split: sum.splits)

section \<open>The order on versions\<close>

text \<open>The release order: the first differing number decides.\<close>

definition lex3 :: "int list \<Rightarrow> int list \<Rightarrow> bool" where
  "lex3 xs ys \<longleftrightarrow> xs ! 0 < ys ! 0 \<or> xs ! 0 = ys ! 0 \<and> (xs ! 1 < ys ! 1 \<or> xs ! 1 = ys ! 1 \<and> xs ! 2 < ys ! 2)"

lemma length3: "length xs = 3 \<longleftrightarrow> (\<exists>a b c. xs = [a, b, c])"
  by (auto simp: numeral_3_eq_3 length_Suc_conv)

lemma compare_parts_lex3:
  assumes "length xs = 3" and "length ys = 3"
  shows "compare_parts xs ys < 0 \<longleftrightarrow> lex3 xs ys"
    and "compare_parts xs ys > 0 \<longleftrightarrow> lex3 ys xs"
    and "compare_parts xs ys = 0 \<longleftrightarrow> xs = ys"
  using assms by (auto simp: length3 lex3_def split: if_splits)

lemma Less_lex3:
  assumes "parse_version a = Inr va" and "parse_version b = Inr vb"
  shows "Less a b = Inr (lex3 va vb)" and "Greater a b = Inr (lex3 vb va)"
  using assms parse_version_shape [OF assms(1)] parse_version_shape [OF assms(2)]
  by (simp_all add: Less_def Greater_def Compare_def compare_parts_lex3)

lemma CheckMin_iff:
  assumes cur: "parse_version current = Inr vc" and m: "TrimSpace minimum \<noteq> []"
  shows "CheckMin current minimum subject = None \<longleftrightarrow>
    (\<exists>vm. parse_version (TrimSpace minimum) = Inr vm \<and> \<not> lex3 vc vm)"
proof (cases "parse_version (TrimSpace minimum)")
  case (Inl e)
  then show ?thesis using cur m by (simp add: CheckMin_def Less_def Compare_def Let_def)
next
  case (Inr vm)
  then show ?thesis using m Less_lex3(1) [OF cur Inr] by (simp add: CheckMin_def Let_def)
qed

lemma CheckMax_iff:
  assumes cur: "parse_version current = Inr vc" and m: "TrimSpace maximum \<noteq> []"
  shows "CheckMax current maximum subject = None \<longleftrightarrow>
    (\<exists>vm. parse_version (TrimSpace maximum) = Inr vm \<and> \<not> lex3 vm vc)"
proof (cases "parse_version (TrimSpace maximum)")
  case (Inl e)
  then show ?thesis using cur m by (simp add: CheckMax_def Greater_def Compare_def Let_def)
next
  case (Inr vm)
  then show ?thesis using m Less_lex3(2) [OF cur Inr] by (simp add: CheckMax_def Let_def)
qed

text \<open>Writing three numbers and reading them back.\<close>

definition version_text :: "nat \<Rightarrow> nat \<Rightarrow> nat \<Rightarrow> string" where
  "version_text a b c = nat_digits a @ CHR ''.'' # nat_digits b @ CHR ''.'' # nat_digits c"

lemma digits_no_dot: "CHR ''.'' \<notin> set (nat_digits n)"
proof
  assume "CHR ''.'' \<in> set (nat_digits n)"
  then have "is_digit (CHR ''.'')" using nat_digits_digits [of n] by (auto simp: list_all_iff)
  then show False by (simp add: is_digit_def byte_of_def)
qed

lemma digit_visible: "is_digit c \<Longrightarrow> visible c"
  by (simp add: is_digit_def visible_def)

lemma nat_digits_ends: "is_digit (hd (nat_digits n))" "is_digit (last (nat_digits n))"
  using nat_digits_digits [of n] nat_digits_nonempty [of n] by (auto simp: list_all_iff)

lemma parse_version_text:
  assumes "int a < 2 ^ 63" "int b < 2 ^ 63" "int c < 2 ^ 63"
  shows "parse_version (version_text a b c) = Inr [int a, int b, int c]"
proof -
  let ?v = "version_text a b c"
  have hd: "is_digit (hd ?v)" and last: "is_digit (last ?v)" and ne: "?v \<noteq> []"
    using nat_digits_ends nat_digits_nonempty by (auto simp: version_text_def)
  have "hd ?v \<noteq> CHR ''v''" using hd by (auto simp: is_digit_def byte_of_def)
  then have "TrimPrefix ?v ''v'' = ?v" using ne by (cases ?v) (auto simp: TrimPrefix_def HasPrefix_def)
  moreover have "TrimSpace ?v = ?v"
    using hd last by (intro TrimSpace_visible) (simp add: digit_visible)
  moreover have "SplitChar (CHR ''.'') ?v = [nat_digits a, nat_digits b, nat_digits c]"
    by (simp add: version_text_def SplitChar_append SplitChar_single digits_no_dot)
  ultimately show ?thesis
    using assms by (simp add: parse_version_def Atoi_nat_digits nat_digits_nonempty)
qed

section \<open>The version gate\<close>

text \<open>Comparing versions is comparing their numbers, not their texts: for version texts
  written in decimal with numbers below 2^63, \<open>Compare\<close> never fails and returns -1, 0 or 1 as
  the first triple is lexicographically below, equal to or above the second. So 2.10.0 is above 2.9.9.\<close>

theorem Compare_numeric:
  assumes "int a < 2 ^ 63" "int b < 2 ^ 63" "int c < 2 ^ 63"
    and "int a' < 2 ^ 63" "int b' < 2 ^ 63" "int c' < 2 ^ 63"
  shows "Compare (version_text a b c) (version_text a' b' c') =
    Inr (if (a, b, c) = (a', b', c') then 0
         else if a < a' \<or> a = a' \<and> (b < b' \<or> b = b' \<and> c < c') then -1 else 1)"
  using assms by (auto simp: Compare_def parse_version_text)

theorem Compare_numeric_witness:
  "Compare (version_text 2 10 0) (version_text 2 9 9) = Inr 1"
  using Compare_numeric [of 2 10 0 2 9 9] by simp

text \<open>On every text that parses, the comparison is a total order: exactly one of less, equal
  and greater holds, swapping the arguments negates the result, and \<open>CheckMin\<close> and \<open>CheckMax\<close>
  with the same (already trimmed) bound both accept exactly when the versions are equal.\<close>

theorem version_gate_total:
  assumes "Validate a = None" and "Validate b = None" and "TrimSpace b = b" and "b \<noteq> []"
  shows "\<exists>r. Compare a b = Inr r \<and> Compare b a = Inr (- r) \<and> r \<in> {-1, 0, 1}
    \<and> Less a b = Inr (r = -1) \<and> Greater a b = Inr (r = 1)
    \<and> (CheckMin a b s = None \<longleftrightarrow> r \<ge> 0) \<and> (CheckMax a b s = None \<longleftrightarrow> r \<le> 0)"
proof -
  obtain va vb where va: "parse_version a = Inr va" and vb: "parse_version b = Inr vb"
    using assms by (auto simp: Validate_None)
  obtain x y z where x: "va = [x, y, z]" using parse_version_shape [OF va] by (auto simp: length3)
  obtain x' y' z' where x': "vb = [x', y', z']" using parse_version_shape [OF vb] by (auto simp: length3)
  show ?thesis
    using CheckMin_iff [OF va, of b s] CheckMax_iff [OF va, of b s] Less_lex3 [OF va vb] assms(3,4) va vb
    by (auto simp: Compare_def x x' lex3_def)
qed

theorem version_gate_total_witness:
  "\<exists>r. Compare AppVersion ''3.0.0'' = Inr r \<and> Compare ''3.0.0'' AppVersion = Inr (- r) \<and> r \<in> {-1, 0, 1}
    \<and> Less AppVersion ''3.0.0'' = Inr (r = -1) \<and> Greater AppVersion ''3.0.0'' = Inr (r = 1)
    \<and> (CheckMin AppVersion ''3.0.0'' ''x'' = None \<longleftrightarrow> r \<ge> 0)
    \<and> (CheckMax AppVersion ''3.0.0'' ''x'' = None \<longleftrightarrow> r \<le> 0)"
  by (rule version_gate_total) code_simp+

end
