(* ===== verification/Server_Config.thy ===== *)
theory Server_Config
  imports Go_Files Addresses Versions
begin

text \<open>
  The server configuration: \<open>src/server/tunnel/config.go\<close> and
  \<open>src/server/tunnel/config_addresses.go\<close>. The YAML decoder and encoder
  (\<open>gopkg.in/yaml.v3\<close>) are arguments of the operations that call them.
\<close>

section \<open>Data\<close>

record securityConfig =
  sec_HandshakeTimeoutSec :: int
  sec_DialTimeoutSec :: int
  sec_MaxHandshakeBytes :: int
  sec_MaxConcurrentConnections :: int
  sec_MaxConcurrentConnectionsPerIP :: int
  sec_ConnectionRateWindowSec :: int
  sec_MaxNewConnectionsPerIPWindow :: int
  sec_MaxConnectionsPerIPPerWindow :: int
  sec_MaxTrackedConnectionIPs :: int
  sec_ConnectionLimiterCleanupSec :: int
  sec_MaxTrackedFailureIPs :: int
  sec_FailureTrackerCleanupSec :: int
  sec_EntryTrafficLogQueueSize :: int
  sec_MaxConcurrentStreamsPerUser :: int
  sec_StreamRateLimitBytesPerSec :: int
  sec_AuthFailWindowSec :: int
  sec_AuthFailThreshold :: int
  sec_AuthFailBlockSec :: int

record compatibilityConfig =
  compat_MinClientVersion :: string
  compat_MaxClientVersion :: string
  compat_ProtocolVersion :: int

record tlsConfig =
  tls_CertFile :: string
  tls_KeyFile :: string
  tls_MinVersion :: string

record credentialSealKeyConfig =
  key_KeyID :: string
  key_PrivateKeyFile :: string
  key_PublicKeyFile :: string
  key_ExpiresAt :: string
  key_Active :: bool

record runtimeConfig =
  rt_StateFile :: string
  rt_PermanentBlockFile :: string
  rt_RequestLogFile :: string
  rt_BusinessLogFile :: string
  rt_EntryTrafficLogFile :: string
  rt_FlowTrafficLogFile :: string
  rt_RecentEvents :: int

record forwardConfig =
  fwd_Name :: string
  fwd_Direction :: string
  fwd_ListenPort :: int
  fwd_ListenAddr :: string
  fwd_ServerTarget :: string
  fwd_AllowedUsers :: "string list"

record userConfig =
  usr_Username :: string
  usr_PasswordHash :: string
  usr_Disabled :: bool

text \<open>\<open>requires\<close>, \<open>auth\<close> and \<open>credential_seal\<close> have one field each.\<close>

record config =
  cfg_ConfigPath :: string
  cfg_ConfigVersion :: int
  cfg_MinServerVersion :: string
  cfg_Compatibility :: compatibilityConfig
  cfg_ListenAddr :: string
  cfg_MonitorAddr :: string
  cfg_LogLevel :: string
  cfg_TLS :: tlsConfig
  cfg_Users :: "userConfig list"
  cfg_Forwards :: "forwardConfig list"
  cfg_Security :: securityConfig
  cfg_SealKeys :: "credentialSealKeyConfig list"
  cfg_Runtime :: runtimeConfig

definition DirectionClientToServer :: string where
  "DirectionClientToServer = ''client_to_server''"

definition DirectionServerToClient :: string where
  "DirectionServerToClient = ''server_to_client''"

definition DefaultListenAddr :: string where
  "DefaultListenAddr = ''0.0.0.0:3443''"

section \<open>Address rules of the configuration\<close>

definition wrap_err :: "string \<Rightarrow> farg list \<Rightarrow> go_error option \<Rightarrow> go_error option" where
  \<comment> \<open>\<open>if err != nil { return fmt.Errorf(format, args, err) }\<close>\<close>
  "wrap_err fmt args e = map_option (\<lambda>e. Errorf fmt (args @ [FE e])) e"

definition forward_address_checks :: "forwardConfig \<Rightarrow> go_error option list" where
  "forward_address_checks fwd =
     [wrap_err ''forward %q listen_addr: %w'' [FS (fwd_Name fwd)] (CheckLoopbackEndpoint (fwd_ListenAddr fwd)),
      wrap_err ''forward %q server_target: %w'' [FS (fwd_Name fwd)] (CheckLoopbackEndpoint (fwd_ServerTarget fwd))]"

definition validateLoopbackAddresses :: "config \<Rightarrow> go_error option" where
  "validateLoopbackAddresses cfg =
     first_error
       ([wrap_err ''listen_addr: %w'' [] (CheckLoopbackEndpoint (cfg_ListenAddr cfg)),
         wrap_err ''monitor_addr: %w'' [] (CheckLoopbackEndpoint (cfg_MonitorAddr cfg))] @
        concat (map forward_address_checks (cfg_Forwards cfg)))"

definition validateReverseListenFields :: "forwardConfig \<Rightarrow> go_error option" where
  "validateReverseListenFields fwd =
     (if TrimSpace (fwd_Direction fwd) \<noteq> DirectionServerToClient then None
      else if fwd_ListenPort fwd < 0 \<or> fwd_ListenPort fwd > 65535
      then Some (Errorf ''forward %q listen_port must be between 1 and 65535'' [FS (fwd_Name fwd)])
      else if TrimSpace (fwd_ListenAddr fwd) = [] then None
      else (case split_host_port (fwd_ListenAddr fwd) of
              Inl err \<Rightarrow> Some (Errorf ''forward %q listen_addr must be a loopback address (127.0.0.1:port)'' [FS (fwd_Name fwd)])
            | Inr (host, port) \<Rightarrow>
                if host \<noteq> LoopbackIPv4
                then Some (Errorf ''forward %q listen_addr must be a loopback address (127.0.0.1:port)'' [FS (fwd_Name fwd)])
                else if fwd_ListenPort fwd \<noteq> 0 \<and> fwd_ListenPort fwd \<noteq> port
                then Some (Errorf ''forward %q listen_port conflicts with legacy listen_addr; keep only listen_port or use the same port'' [FS (fwd_Name fwd)])
                else None))"

section \<open>Defaults\<close>

definition normalizeReverseListenPort :: "forwardConfig option \<Rightarrow> forwardConfig option" where
  "normalizeReverseListenPort fo =
     (case fo of None \<Rightarrow> None
      | Some forward \<Rightarrow> Some (
         if fwd_Direction forward \<noteq> DirectionServerToClient then forward
         else if validateReverseListenFields forward \<noteq> None then forward
         else let forward = (if fwd_ListenPort forward = 0 \<and> TrimSpace (fwd_ListenAddr forward) \<noteq> []
                then forward\<lparr>fwd_ListenPort := (case split_host_port (fwd_ListenAddr forward) of Inl err \<Rightarrow> 0 | Inr (host, port) \<Rightarrow> port)\<rparr>
                else forward)
              in if fwd_ListenPort forward > 0 \<and> fwd_ListenPort forward \<le> 65535
                 then forward\<lparr>fwd_ListenAddr := JoinHostPort ''127.0.0.1'' (Itoa (fwd_ListenPort forward))\<rparr>
                 else forward))"

definition default_forward :: "forwardConfig \<Rightarrow> forwardConfig" where
  "default_forward fwd =
     (let fwd = fwd\<lparr>fwd_Direction := TrimSpace (fwd_Direction fwd)\<rparr>;
          fwd = (if fwd_Direction fwd = [] then fwd\<lparr>fwd_Direction := DirectionClientToServer\<rparr> else fwd)
      in the (normalizeReverseListenPort (Some fwd)))"

definition or_default :: "int \<Rightarrow> int \<Rightarrow> int" where
  \<comment> \<open>\<open>if x <= 0 { x = d }\<close>\<close>
  "or_default x d = (if x \<le> 0 then d else x)"

definition default_security :: "securityConfig \<Rightarrow> securityConfig" where
  "default_security s =
     (let w = (if sec_MaxNewConnectionsPerIPWindow s \<le> 0 \<and> sec_MaxConnectionsPerIPPerWindow s > 0
               then sec_MaxConnectionsPerIPPerWindow s else sec_MaxNewConnectionsPerIPWindow s)
      in s\<lparr>sec_HandshakeTimeoutSec := or_default (sec_HandshakeTimeoutSec s) 8,
           sec_DialTimeoutSec := or_default (sec_DialTimeoutSec s) 5,
           sec_MaxHandshakeBytes := or_default (sec_MaxHandshakeBytes s) 32768,
           sec_MaxConcurrentConnections := or_default (sec_MaxConcurrentConnections s) 2048,
           sec_MaxConcurrentConnectionsPerIP := or_default (sec_MaxConcurrentConnectionsPerIP s) 128,
           sec_ConnectionRateWindowSec := or_default (sec_ConnectionRateWindowSec s) 1,
           sec_MaxNewConnectionsPerIPWindow := or_default w 120,
           sec_MaxConnectionsPerIPPerWindow := 0,
           sec_MaxTrackedConnectionIPs := or_default (sec_MaxTrackedConnectionIPs s) 8192,
           sec_ConnectionLimiterCleanupSec := or_default (sec_ConnectionLimiterCleanupSec s) 60,
           sec_MaxTrackedFailureIPs := or_default (sec_MaxTrackedFailureIPs s) 8192,
           sec_FailureTrackerCleanupSec := or_default (sec_FailureTrackerCleanupSec s) 60,
           sec_EntryTrafficLogQueueSize := or_default (sec_EntryTrafficLogQueueSize s) 2048,
           sec_AuthFailWindowSec := or_default (sec_AuthFailWindowSec s) 300,
           sec_AuthFailThreshold := or_default (sec_AuthFailThreshold s) 8,
           sec_AuthFailBlockSec := or_default (sec_AuthFailBlockSec s) 1800\<rparr>)"

definition default_compatibility :: "compatibilityConfig \<Rightarrow> compatibilityConfig" where
  "default_compatibility c =
     c\<lparr>compat_ProtocolVersion := (if compat_ProtocolVersion c = 0 then ProtocolVersion else compat_ProtocolVersion c),
       compat_MinClientVersion := (if TrimSpace (compat_MinClientVersion c) = [] then MinCompatibleClientVersion
                                   else compat_MinClientVersion c)\<rparr>"

definition ApplyDefaults :: "config \<Rightarrow> config" where
  "ApplyDefaults cfg =
     cfg\<lparr>cfg_ConfigVersion := (if cfg_ConfigVersion cfg = 0 then ServerConfigVersion else cfg_ConfigVersion cfg),
         cfg_MinServerVersion := (if TrimSpace (cfg_MinServerVersion cfg) = [] then ServerConfigRequiresServerVersion
                                  else cfg_MinServerVersion cfg),
         cfg_Compatibility := default_compatibility (cfg_Compatibility cfg),
         cfg_ListenAddr := (if cfg_ListenAddr cfg = [] then DefaultListenAddr else cfg_ListenAddr cfg),
         cfg_TLS := (let t = cfg_TLS cfg in if tls_MinVersion t = [] then t\<lparr>tls_MinVersion := ''1.3''\<rparr> else t),
         cfg_Forwards := map default_forward (cfg_Forwards cfg),
         cfg_Security := default_security (cfg_Security cfg),
         cfg_Runtime := (let r = cfg_Runtime cfg in r\<lparr>rt_RecentEvents := or_default (rt_RecentEvents r) 500\<rparr>)\<rparr>"

definition configForSave :: "config \<Rightarrow> config" where
  "configForSave cfg =
     cfg\<lparr>cfg_Forwards := map (\<lambda>fwd.
           if fwd_Direction fwd = DirectionServerToClient \<and> fwd_ListenPort fwd > 0
           then fwd\<lparr>fwd_ListenAddr := []\<rparr> else fwd) (cfg_Forwards cfg)\<rparr>"

section \<open>Validation\<close>

definition ValidateConfigVersion :: "config \<Rightarrow> go_error option" where
  "ValidateConfigVersion cfg =
     (let compat = cfg_Compatibility cfg;
          protocolVersion = (if compat_ProtocolVersion compat = 0 then ProtocolVersion else compat_ProtocolVersion compat);
          minv = compat_MinClientVersion compat; maxv = compat_MaxClientVersion compat
      in if cfg_ConfigVersion cfg < 0 then Some (Errorf ''server config_version must be >= 0'' [])
         else if cfg_ConfigVersion cfg > ServerConfigVersion
         then Some (Errorf ''server config_version %d requires a newer server; current server supports config_version %d''
                      [FI (cfg_ConfigVersion cfg), FI ServerConfigVersion])
         else (case CheckMin AppVersion (cfg_MinServerVersion cfg) ''server config'' of
           Some err \<Rightarrow> Some err
         | None \<Rightarrow>
            if protocolVersion < 0 then Some (Errorf ''server compatibility.protocol_version must be >= 0'' [])
            else if protocolVersion \<noteq> ProtocolVersion
            then Some (Errorf ''server compatibility.protocol_version %d is not supported by this server; current protocol_version is %d''
                         [FI protocolVersion, FI ProtocolVersion])
            else first_error
              [if TrimSpace minv = [] then None
               else wrap_err ''server compatibility.min_client_version is invalid: %w'' [] (Validate minv),
               if TrimSpace maxv = [] then None
               else wrap_err ''server compatibility.max_client_version is invalid: %w'' [] (Validate maxv),
               if TrimSpace minv = [] \<or> TrimSpace maxv = [] then None
               else (case Greater minv maxv of
                 Inl err \<Rightarrow> Some (Errorf ''server compatibility client version range is invalid: %w'' [FE err])
               | Inr gt \<Rightarrow>
                   if gt then Some (Errorf ''server compatibility min_client_version must be <= max_client_version'' [])
                   else None)]))"

text \<open>The loop over \<open>auth.users\<close>, with the names seen so far.\<close>

fun validate_users :: "userConfig list \<Rightarrow> string list \<Rightarrow> string list res" where
  "validate_users [] knownUsers = Inr knownUsers"
| "validate_users (user # users) knownUsers =
     (let name = TrimSpace (usr_Username user)
      in if name = [] then Inl (Errorf ''auth user username is required'' [])
         else if name \<in> set knownUsers then Inl (Errorf ''duplicate auth user: %s'' [FS name])
         else if \<not> usr_Disabled user \<and> TrimSpace (usr_PasswordHash user) = []
         then Inl (Errorf ''password_hash is required for user %s'' [FS name])
         else validate_users users (name # knownUsers))"

text \<open>The loop over the allowed users of the forward called \<open>fname\<close>.\<close>

fun validate_allowed :: "string \<Rightarrow> string list \<Rightarrow> string list \<Rightarrow> string list \<Rightarrow> string list res" where
  "validate_allowed fname knownUsers [] allowedUsers = Inr allowedUsers"
| "validate_allowed fname knownUsers (username # names) allowedUsers =
     (let username = TrimSpace username
      in if username = [] then Inl (Errorf ''forward %q allowed_users contains an empty username'' [FS fname])
         else if username \<in> set allowedUsers
         then Inl (Errorf ''forward %q has duplicate allowed user %s'' [FS fname, FS username])
         else if username \<notin> set knownUsers
         then Inl (Errorf ''forward %q allowed user %s does not exist'' [FS fname, FS username])
         else validate_allowed fname knownUsers names (username # allowedUsers))"

definition effective_direction :: "string \<Rightarrow> string" where
  "effective_direction d = (let direction = TrimSpace d in if direction = [] then DirectionClientToServer else direction)"

text \<open>The \<open>switch\<close> on the direction: an error, or the reverse port (0 for the other direction).\<close>

definition validate_direction :: "forwardConfig \<Rightarrow> int res" where
  "validate_direction forward =
     (let direction = effective_direction (fwd_Direction forward); nm = FS (fwd_Name forward)
      in if direction = DirectionClientToServer
         then (case split_host_port (fwd_ServerTarget forward) of
                 Inl err \<Rightarrow> Inl (Errorf ''forward %q server_target is invalid'' [nm])
               | Inr (host, _) \<Rightarrow>
                   if \<not> IsForwardTargetHost host
                   then Inl (Errorf ''forward %q server_target must be a loopback or private IP (127.0.0.1 or private IP)'' [nm])
                   else Inr 0)
         else if direction = DirectionServerToClient
         then (case validateReverseListenFields forward of
                 Some err \<Rightarrow> Inl err
               | None \<Rightarrow>
                 (case (if fwd_ListenPort forward \<le> 0
                        then (case split_host_port (fwd_ListenAddr forward) of
                                Inl err \<Rightarrow> None
                              | Inr (host, legacyPort) \<Rightarrow> if host \<noteq> ''127.0.0.1'' then None else Some legacyPort)
                        else Some (fwd_ListenPort forward)) of
                    None \<Rightarrow> Inl (Errorf ''forward %q listen_port is required and legacy listen_addr must be a loopback address (127.0.0.1)'' [nm])
                  | Some port \<Rightarrow>
                      if port < 1 \<or> port > 65535
                      then Inl (Errorf ''forward %q listen_port must be between 1 and 65535'' [nm])
                      else if TrimSpace (fwd_ListenAddr forward) \<noteq> [] \<and>
                              (case split_host_port (fwd_ListenAddr forward) of
                                 Inl err \<Rightarrow> True | Inr (host, _) \<Rightarrow> host \<noteq> ''127.0.0.1'')
                      then Inl (Errorf ''forward %q listen_addr must be a loopback address (127.0.0.1)'' [nm])
                      else Inr port))
         else Inl (Errorf ''forward %q has unsupported direction'' [nm]))"

fun validate_forwards :: "string list \<Rightarrow> forwardConfig list \<Rightarrow> (int, string) gomap \<Rightarrow> go_error option" where
  "validate_forwards knownUsers [] seenReversePorts = None"
| "validate_forwards knownUsers (forward # forwards) seenReversePorts =
     (case validate_direction forward of
        Inl err \<Rightarrow> Some err
      | Inr reversePort \<Rightarrow>
        (case validate_allowed (fwd_Name forward) knownUsers (fwd_AllowedUsers forward) [] of
           Inl err \<Rightarrow> Some err
         | Inr allowedUsers \<Rightarrow>
            if length allowedUsers = 0
            then Some (Errorf ''forward %q requires at least one allowed user'' [FS (fwd_Name forward)])
            else if effective_direction (fwd_Direction forward) = DirectionServerToClient
            then (if length allowedUsers \<noteq> 1
                  then Some (Errorf ''forward %q reverse port must belong to exactly one allowed user'' [FS (fwd_Name forward)])
                  else (case map_of seenReversePorts reversePort of
                          Some existing \<Rightarrow> Some (Errorf ''forward %q reverse listen_port %d duplicates forward %q''
                                             [FS (fwd_Name forward), FI reversePort, FS existing])
                        | None \<Rightarrow> validate_forwards knownUsers forwards
                                    (AList.update reversePort (fwd_Name forward) seenReversePorts)))
            else validate_forwards knownUsers forwards seenReversePorts))"

fun validate_keys :: "credentialSealKeyConfig list \<Rightarrow> string list \<Rightarrow> int \<Rightarrow> int res" where
  "validate_keys [] keyIDs activeKeys = Inr activeKeys"
| "validate_keys (key # keys) keyIDs activeKeys =
     (let id = TrimSpace (key_KeyID key)
      in if id = [] then Inl (Errorf ''credential seal key_id is required'' [])
         else if id \<in> set keyIDs then Inl (Errorf ''duplicate credential seal key: %s'' [FS id])
         else if TrimSpace (key_PrivateKeyFile key) = [] \<or> TrimSpace (key_PublicKeyFile key) = []
         then Inl (Errorf ''credential seal key %s requires private_key_file and public_key_file'' [FS id])
         else if TrimSpace (key_ExpiresAt key) = []
         then Inl (Errorf ''credential seal key %s requires expires_at'' [FS id])
         else if parse_rfc3339 (TrimSpace (key_ExpiresAt key)) = None
         then Inl (Errorf ''credential seal key %s expires_at must be RFC3339'' [FS id])
         else validate_keys keys (id # keyIDs) (if key_Active key then activeKeys + 1 else activeKeys))"

definition validate_monitor :: "string \<Rightarrow> go_error option" where
  "validate_monitor addr =
     (let monitorAddr = TrimSpace addr
      in if monitorAddr = [] then None
         else (case split_host_port monitorAddr of
                 Inl err \<Rightarrow> Some (Errorf ''monitor_addr must use a loopback address (127.0.0.1)'' [])
               | Inr (host, _) \<Rightarrow>
                   if host \<noteq> ''127.0.0.1'' then Some (Errorf ''monitor_addr must use a loopback address (127.0.0.1)'' [])
                   else None))"

definition ValidateConfig :: "config \<Rightarrow> go_error option" where
  "ValidateConfig cfg =
     (case ValidateConfigVersion cfg of Some err \<Rightarrow> Some err | None \<Rightarrow>
     (case validateLoopbackAddresses cfg of Some err \<Rightarrow> Some err | None \<Rightarrow>
     (if TrimSpace (tls_CertFile (cfg_TLS cfg)) = [] \<or> TrimSpace (tls_KeyFile (cfg_TLS cfg)) = []
      then Some (Errorf ''server TLS identity cert_file and key_file are required'' [])
      else (case validate_monitor (cfg_MonitorAddr cfg) of Some err \<Rightarrow> Some err | None \<Rightarrow>
           (case validate_users (cfg_Users cfg) [] of Inl err \<Rightarrow> Some err | Inr knownUsers \<Rightarrow>
           (case validate_forwards knownUsers (cfg_Forwards cfg) [] of Some err \<Rightarrow> Some err | None \<Rightarrow>
           (case validate_keys (cfg_SealKeys cfg) [] 0 of Inl err \<Rightarrow> Some err | Inr activeKeys \<Rightarrow>
              if activeKeys > 1 then Some (Errorf ''only one credential seal key can be active'' []) else None)))))))"

section \<open>Loading and saving\<close>

definition resolveConfigPath :: "string \<Rightarrow> string \<Rightarrow> string" where
  "resolveConfigPath base p =
     (let p = TrimSpace p in if p = [] \<or> IsAbs p then p else Clean (JoinPath [base, p]))"

definition isSourceServerConfigDir :: "string \<Rightarrow> bool" where
  "isSourceServerConfigDir configDir =
     (let configDir = Clean configDir
      in EqualFold (BasePath configDir) ''conf'' \<and>
         EqualFold (BasePath (DirPath configDir)) ''server'' \<and>
         EqualFold (BasePath (DirPath (DirPath configDir))) ''src'')"

definition defaultRuntimePath :: "string \<Rightarrow> string \<Rightarrow> string \<Rightarrow> string" where
  "defaultRuntimePath configDir category name =
     (let configDir = Clean configDir
      in if isSourceServerConfigDir configDir
         then JoinPath [DirPath (DirPath (DirPath configDir)), ''runtime'', category, name]
         else JoinPath [configDir, ''..'', category, name])"

definition runtime_path :: "string \<Rightarrow> string \<Rightarrow> string \<Rightarrow> string \<Rightarrow> string" where
  \<comment> \<open>the six \<open>if/else\<close> blocks of \<open>LoadConfig\<close>: a default for a blank path, else resolve it\<close>
  "runtime_path base p category name =
     (if TrimSpace p = [] then defaultRuntimePath base category name else resolveConfigPath base p)"

definition resolve_paths :: "string \<Rightarrow> config \<Rightarrow> config" where
  "resolve_paths base cfg =
     cfg\<lparr>cfg_Runtime := (let r = cfg_Runtime cfg in r\<lparr>
            rt_StateFile := runtime_path base (rt_StateFile r) ''data'' ''server-state.json'',
            rt_PermanentBlockFile := runtime_path base (rt_PermanentBlockFile r) ''data'' ''server-permanent-block.txt'',
            rt_RequestLogFile := runtime_path base (rt_RequestLogFile r) ''logs'' (JoinPath [''request'', ''request.jsonl'']),
            rt_BusinessLogFile := runtime_path base (rt_BusinessLogFile r) ''logs'' (JoinPath [''business'', ''business.jsonl'']),
            rt_EntryTrafficLogFile := runtime_path base (rt_EntryTrafficLogFile r) ''logs'' (JoinPath [''entry-traffic'', ''entry-traffic.jsonl'']),
            rt_FlowTrafficLogFile := runtime_path base (rt_FlowTrafficLogFile r) ''logs'' (JoinPath [''flow-traffic'', ''flow-traffic.jsonl''])\<rparr>),
         cfg_TLS := (let t = cfg_TLS cfg in t\<lparr>tls_CertFile := resolveConfigPath base (tls_CertFile t),
                                              tls_KeyFile := resolveConfigPath base (tls_KeyFile t)\<rparr>),
         cfg_SealKeys := map (\<lambda>k. k\<lparr>key_PrivateKeyFile := resolveConfigPath base (key_PrivateKeyFile k),
                                     key_PublicKeyFile := resolveConfigPath base (key_PublicKeyFile k)\<rparr>) (cfg_SealKeys cfg)\<rparr>"

text \<open>\<open>LoadConfig\<close> returns the configuration even when validation fails; both are in the result.\<close>

definition LoadConfig ::
    "os_env \<Rightarrow> string option \<Rightarrow> (string \<Rightarrow> config res) \<Rightarrow> files \<Rightarrow> string \<Rightarrow> (config \<times> go_error option) res" where
  "LoadConfig env wd yaml fs path =
     (case ReadFile env fs path of
        Inl err \<Rightarrow> Inl err
      | Inr data \<Rightarrow>
        (case yaml data of
           Inl err \<Rightarrow> Inl err
         | Inr cfg \<Rightarrow>
            (let cfg = cfg\<lparr>cfg_ConfigPath := (case AbsPath wd path of Some full \<Rightarrow> full | None \<Rightarrow> path)\<rparr>;
                 cfg = resolve_paths (DirPath path) (ApplyDefaults cfg)
             in Inr (cfg, ValidateConfig cfg))))"

definition SaveConfig :: "os_env \<Rightarrow> (config \<Rightarrow> string res) \<Rightarrow> files \<Rightarrow> string \<Rightarrow> config \<Rightarrow> files \<times> go_error option" where
  "SaveConfig env marshal fs path cfg =
     (case validateLoopbackAddresses cfg of Some err \<Rightarrow> (fs, Some err) | None \<Rightarrow>
     (case first_error (map validateReverseListenFields (cfg_Forwards cfg)) of Some err \<Rightarrow> (fs, Some err) | None \<Rightarrow>
     (case marshal (configForSave (ApplyDefaults cfg)) of Inl err \<Rightarrow> (fs, Some err) | Inr data \<Rightarrow>
     (case MkdirAll env (DirPath path) of Some err \<Rightarrow> (fs, Some err) | None \<Rightarrow>
        WriteFile env fs path data))))"

text \<open>The key whose paths a rotation imitates (\<open>rawCredentialPathTemplate\<close> of
  \<open>credential_seal.go\<close>): the first active one, else the last, else an empty one.\<close>

definition zero_key :: credentialSealKeyConfig where
  "zero_key = \<lparr>key_KeyID = [], key_PrivateKeyFile = [], key_PublicKeyFile = [], key_ExpiresAt = [], key_Active = False\<rparr>"

definition rawCredentialPathTemplate :: "credentialSealKeyConfig list \<Rightarrow> credentialSealKeyConfig" where
  "rawCredentialPathTemplate keys =
     (case find key_Active keys of Some key \<Rightarrow> key | None \<Rightarrow> if keys = [] then zero_key else last keys)"

definition PrepareFreshInstallConfig ::
    "os_env \<Rightarrow> (time \<Rightarrow> int) \<Rightarrow> (string \<Rightarrow> config res) \<Rightarrow> (config \<Rightarrow> string res) \<Rightarrow> files \<Rightarrow> string \<Rightarrow> time
     \<Rightarrow> files \<times> go_error option" where
  "PrepareFreshInstallConfig env tz yaml marshal fs path now =
     (case ReadFile env fs path of Inl err \<Rightarrow> (fs, Some err) | Inr data \<Rightarrow>
     (case yaml data of Inl err \<Rightarrow> (fs, Some err) | Inr cfg \<Rightarrow>
       (let cfg = ApplyDefaults cfg;
            template = rawCredentialPathTemplate (cfg_SealKeys cfg);
            privateDir = DirPath (TrimSpace (key_PrivateKeyFile template));
            publicDir = DirPath (TrimSpace (key_PublicKeyFile template));
            privateDir = (if privateDir = [] \<or> privateDir = ''.'' then ''../certs'' else privateDir);
            publicDir = (if publicDir = [] \<or> publicDir = ''.'' then privateDir else publicDir);
            keyID = ''login-key-'' @ month_text (tz now) now;
            expiry = AddDate tz now 0 3 0;
            cfg = cfg\<lparr>cfg_SealKeys := [\<lparr>key_KeyID = keyID,
               key_PrivateKeyFile = JoinPath [privateDir, keyID @ ''.key''],
               key_PublicKeyFile = JoinPath [publicDir, keyID @ ''.pub''],
               key_ExpiresAt = format_rfc3339 (tz expiry) expiry, key_Active = True\<rparr>]\<rparr>
        in case ValidateConfig cfg of Some err \<Rightarrow> (fs, Some err) | None \<Rightarrow> SaveConfig env marshal fs path cfg)))"

section \<open>What validation guarantees\<close>

lemma validate_users_sound:
  "validate_users us known = Inr known' \<Longrightarrow> distinct known \<Longrightarrow>
   known' = rev (map (\<lambda>u. TrimSpace (usr_Username u)) us) @ known \<and> distinct known' \<and>
   (\<forall>u \<in> set us. TrimSpace (usr_Username u) \<noteq> [] \<and> (usr_Disabled u \<or> TrimSpace (usr_PasswordHash u) \<noteq> []))"
  by (induction us known rule: validate_users.induct) (auto simp: Let_def disjoint_iff split: if_splits)

lemma validate_allowed_sound:
  "validate_allowed nm known names acc = Inr acc' \<Longrightarrow> distinct acc \<Longrightarrow>
   acc' = rev (map TrimSpace names) @ acc \<and> distinct acc' \<and> TrimSpace ` set names \<subseteq> set known"
  by (induction nm known names acc rule: validate_allowed.induct) (auto simp: Let_def disjoint_iff split: if_splits)

lemma validate_keys_sound:
  "validate_keys keys ids n = Inr n' \<Longrightarrow> n' = n + int (length (filter key_Active keys)) \<and>
   (\<forall>k \<in> set keys. parse_rfc3339 (TrimSpace (key_ExpiresAt k)) \<noteq> None)"
  by (induction keys ids n rule: validate_keys.induct) (auto simp: Let_def split: if_splits)

definition is_reverse :: "forwardConfig \<Rightarrow> bool" where
  "is_reverse f \<longleftrightarrow> effective_direction (fwd_Direction f) = DirectionServerToClient"

text \<open>The port of a reverse forward: \<open>listen_port\<close>, or the one of the legacy address.\<close>

definition reverse_port :: "forwardConfig \<Rightarrow> int" where
  "reverse_port f = (if fwd_ListenPort f \<le> 0
     then (case split_host_port (fwd_ListenAddr f) of Inl err \<Rightarrow> 0 | Inr (h, p) \<Rightarrow> p) else fwd_ListenPort f)"

definition private_target :: "forwardConfig \<Rightarrow> bool" where
  "private_target f \<longleftrightarrow> (case split_host_port (fwd_ServerTarget f) of Inl err \<Rightarrow> False
     | Inr (h, p) \<Rightarrow> IsForwardTargetHost h \<and> 1 \<le> p \<and> p \<le> 65535)"

lemma directions_differ [simp]: "DirectionClientToServer \<noteq> DirectionServerToClient"
  "DirectionServerToClient \<noteq> DirectionClientToServer" "DirectionClientToServer \<noteq> []"
  "DirectionServerToClient \<noteq> []"
  by (simp_all add: DirectionClientToServer_def DirectionServerToClient_def)

lemma split_host_port_range: "split_host_port t = Inr (h, p) \<Longrightarrow> 1 \<le> p \<and> p \<le> 65535"
  by (auto dest: split_host_port_InrD)

lemma validate_direction_reverse:
  "validate_direction f = Inr p \<Longrightarrow> is_reverse f \<Longrightarrow> p = reverse_port f \<and> 1 \<le> p \<and> p \<le> 65535"
  by (auto simp: validate_direction_def is_reverse_def reverse_port_def Let_def
      split: if_splits sum.splits option.splits)

lemma validate_direction_target:
  "validate_direction f = Inr p \<Longrightarrow> \<not> is_reverse f \<Longrightarrow>
   effective_direction (fwd_Direction f) = DirectionClientToServer \<and> private_target f"
  by (auto simp: validate_direction_def is_reverse_def private_target_def Let_def
      split: if_splits sum.splits option.splits dest: split_host_port_range)

definition forward_ok :: "string list \<Rightarrow> forwardConfig \<Rightarrow> bool" where
  "forward_ok users f \<longleftrightarrow>
     fwd_AllowedUsers f \<noteq> [] \<and> TrimSpace ` set (fwd_AllowedUsers f) \<subseteq> set users \<and>
     (if is_reverse f then length (fwd_AllowedUsers f) = 1 \<and> 1 \<le> reverse_port f \<and> reverse_port f \<le> 65535
      else effective_direction (fwd_Direction f) = DirectionClientToServer \<and> private_target f)"

lemma validate_forwards_sound:
  "validate_forwards known fs seen = None \<Longrightarrow>
   (\<forall>f \<in> set fs. forward_ok known f) \<and> distinct (map reverse_port (filter is_reverse fs)) \<and>
   (\<forall>f \<in> set fs. is_reverse f \<longrightarrow> map_of seen (reverse_port f) = None)"
proof (induction known fs seen rule: validate_forwards.induct)
  case (2 known f fs seen)
  obtain p where p: "validate_direction f = Inr p" using "2.prems" by (auto split: sum.splits)
  obtain a where a: "validate_allowed (fwd_Name f) known (fwd_AllowedUsers f) [] = Inr a"
    using "2.prems" p by (auto split: sum.splits)
  have users: "a = rev (map TrimSpace (fwd_AllowedUsers f))" "TrimSpace ` set (fwd_AllowedUsers f) \<subseteq> set known"
    using validate_allowed_sound [OF a] by simp_all
  have ne: "a \<noteq> []" using "2.prems" p a by (auto split: if_splits)
  show ?case
  proof (cases "is_reverse f")
    case True
    then have dir: "effective_direction (fwd_Direction f) = DirectionServerToClient" by (simp add: is_reverse_def)
    have one: "length a = 1" and free: "map_of seen p = None"
      and rest: "validate_forwards known fs (AList.update p (fwd_Name f) seen) = None"
      using "2.prems" p a ne dir by (auto split: if_splits option.splits)
    have IH: "(\<forall>f \<in> set fs. forward_ok known f) \<and> distinct (map reverse_port (filter is_reverse fs)) \<and>
      (\<forall>f' \<in> set fs. is_reverse f' \<longrightarrow> map_of (AList.update p (fwd_Name f) seen) (reverse_port f') = None)"
      using "2.IH"(1) [OF p a _ dir _ free rest] one by simp
    then have new: "reverse_port f' \<noteq> p \<and> map_of seen (reverse_port f') = None" if "f' \<in> set fs" "is_reverse f'" for f'
      using that by (auto simp: gomap_simps split: if_splits)
    moreover have "forward_ok known f"
      using True one users validate_direction_reverse [OF p True] by (auto simp: forward_ok_def)
    ultimately show ?thesis
      using IH True free validate_direction_reverse [OF p True] by fastforce
  next
    case False
    then have dir: "effective_direction (fwd_Direction f) \<noteq> DirectionServerToClient" by (simp add: is_reverse_def)
    have rest: "validate_forwards known fs seen = None"
      using "2.prems" p a ne dir by (auto split: if_splits)
    have "forward_ok known f"
      using False ne users validate_direction_target [OF p False] by (auto simp: forward_ok_def)
    then show ?thesis using "2.IH"(2) [OF p a _ dir rest] ne False by auto
  qed
qed simp

text \<open>C27. A configuration that passes validation grants nothing beyond loopback and private
  addresses and is unambiguous: users have distinct non-empty names, every enabled user has a
  password hash; every forward lists only existing users, at least one; a client-to-server
  forward targets the literal 127.0.0.1 or a private IP with a port in 1..65535; a
  server-to-client forward has exactly one user and a port in 1..65535, and no two of
  them share a port; the monitor is on 127.0.0.1; at most one sealing key is active.\<close>

theorem validated_config_safe:
  assumes "ValidateConfig cfg = None"
  defines "names \<equiv> map (\<lambda>u. TrimSpace (usr_Username u)) (cfg_Users cfg)"
  shows "distinct names \<and> [] \<notin> set names
    \<and> (\<forall>u \<in> set (cfg_Users cfg). usr_Disabled u \<or> TrimSpace (usr_PasswordHash u) \<noteq> [])
    \<and> (\<forall>f \<in> set (cfg_Forwards cfg). forward_ok names f)
    \<and> distinct (map reverse_port (filter is_reverse (cfg_Forwards cfg)))
    \<and> (TrimSpace (cfg_MonitorAddr cfg) \<noteq> [] \<longrightarrow> (\<exists>p. split_host_port (TrimSpace (cfg_MonitorAddr cfg)) = Inr (LoopbackIPv4, p)))
    \<and> length (filter key_Active (cfg_SealKeys cfg)) \<le> 1"
proof -
  from assms obtain known n where
    u: "validate_users (cfg_Users cfg) [] = Inr known" and
    f: "validate_forwards known (cfg_Forwards cfg) [] = None" and
    m: "validate_monitor (cfg_MonitorAddr cfg) = None" and
    k: "validate_keys (cfg_SealKeys cfg) [] 0 = Inr n" "n \<le> 1"
    by (auto simp: ValidateConfig_def split: option.splits sum.splits if_splits)
  have known: "known = rev names" "distinct known" "[] \<notin> set names"
    using validate_users_sound [OF u] by (auto simp: names_def)
  have "\<forall>f \<in> set (cfg_Forwards cfg). forward_ok names f"
    using validate_forwards_sound [OF f] known by (simp add: forward_ok_def)
  moreover have "TrimSpace (cfg_MonitorAddr cfg) \<noteq> [] \<longrightarrow>
      (\<exists>p. split_host_port (TrimSpace (cfg_MonitorAddr cfg)) = Inr (LoopbackIPv4, p))"
    using m by (auto simp: validate_monitor_def LoopbackIPv4_def Let_def split: sum.splits if_splits)
  ultimately show ?thesis
    using validate_users_sound [OF u] validate_forwards_sound [OF f] validate_keys_sound [OF k(1)] k(2) known
    by auto
qed

section \<open>A sample configuration\<close>

definition sample_config :: config where
  "sample_config = \<lparr>cfg_ConfigPath = [], cfg_ConfigVersion = 1, cfg_MinServerVersion = ''2.0.0'',
     cfg_Compatibility = \<lparr>compat_MinClientVersion = ''3.0.0'', compat_MaxClientVersion = [], compat_ProtocolVersion = 3\<rparr>,
     cfg_ListenAddr = ''0.0.0.0:3443'', cfg_MonitorAddr = ''127.0.0.1:9100'', cfg_LogLevel = ''info'',
     cfg_TLS = \<lparr>tls_CertFile = ''server.crt'', tls_KeyFile = ''server.key'', tls_MinVersion = ''1.3''\<rparr>,
     cfg_Users = [\<lparr>usr_Username = ''alice'', usr_PasswordHash = ''x'', usr_Disabled = False\<rparr>],
     cfg_Forwards =
       [\<lparr>fwd_Name = ''db'', fwd_Direction = ''client_to_server'', fwd_ListenPort = 0, fwd_ListenAddr = [],
         fwd_ServerTarget = ''192.168.1.7:3306'', fwd_AllowedUsers = [''alice'']\<rparr>,
        \<lparr>fwd_Name = ''ssh'', fwd_Direction = ''server_to_client'', fwd_ListenPort = 9022, fwd_ListenAddr = [],
         fwd_ServerTarget = [], fwd_AllowedUsers = [''alice'']\<rparr>],
     cfg_Security = \<lparr>sec_HandshakeTimeoutSec = 0, sec_DialTimeoutSec = 0, sec_MaxHandshakeBytes = 0,
       sec_MaxConcurrentConnections = 0, sec_MaxConcurrentConnectionsPerIP = 0, sec_ConnectionRateWindowSec = 0,
       sec_MaxNewConnectionsPerIPWindow = 0, sec_MaxConnectionsPerIPPerWindow = 0, sec_MaxTrackedConnectionIPs = 0,
       sec_ConnectionLimiterCleanupSec = 0, sec_MaxTrackedFailureIPs = 0, sec_FailureTrackerCleanupSec = 0,
       sec_EntryTrafficLogQueueSize = 0, sec_MaxConcurrentStreamsPerUser = 0, sec_StreamRateLimitBytesPerSec = 0,
       sec_AuthFailWindowSec = 0, sec_AuthFailThreshold = 0, sec_AuthFailBlockSec = 0\<rparr>,
     cfg_SealKeys = [\<lparr>key_KeyID = ''k1'', key_PrivateKeyFile = ''a.key'', key_PublicKeyFile = ''a.pub'',
       key_ExpiresAt = ''2026-07-05T10:11:12Z'', key_Active = True\<rparr>],
     cfg_Runtime = \<lparr>rt_StateFile = [], rt_PermanentBlockFile = [], rt_RequestLogFile = [], rt_BusinessLogFile = [],
       rt_EntryTrafficLogFile = [], rt_FlowTrafficLogFile = [], rt_RecentEvents = 0\<rparr>\<rparr>"

lemma sample_valid: "ValidateConfig sample_config = None"
  by code_simp

theorem validated_config_safe_witness:
  "distinct [''alice''] \<and> list_all (forward_ok [''alice'']) (cfg_Forwards sample_config)"
proof -
  have "map (\<lambda>u. TrimSpace (usr_Username u)) (cfg_Users sample_config) = [''alice'']"
    by (simp add: sample_config_def TrimSpace_visible visible_def byte_of_def)
  with validated_config_safe [OF sample_valid] show ?thesis by (simp add: list_all_iff)
qed

section \<open>Defaults\<close>

lemma digits_no_sep: "c \<in> set (nat_digits n) \<Longrightarrow> is_digit c"
  using nat_digits_digits [of n] by (simp add: list_all_iff)

lemma split_join_loopback:
  assumes "1 \<le> p" "p \<le> 65535"
  shows "split_host_port (JoinHostPort ''127.0.0.1'' (Itoa p)) = Inr (LoopbackIPv4, p)"
proof -
  have port: "Itoa p = nat_digits (nat p)" using assms by (simp add: Itoa_def)
  have sep: "CHR '':'' \<notin> set (Itoa p)" "CHR ''['' \<notin> set (Itoa p)" "CHR '']'' \<notin> set (Itoa p)"
    using digits_no_sep [of _ "nat p"] digit_not by (auto simp: port)
  let ?a = "JoinHostPort ''127.0.0.1'' (Itoa p)"
  have a: "?a = ''127.0.0.1:'' @ Itoa p" by (simp add: JoinHostPort_def)
  have "visible (hd ?a)" by (simp add: a visible_def byte_of_def)
  moreover have "visible (last ?a)"
    using nat_digits_ends(2) [of "nat p"] nat_digits_nonempty [of "nat p"]
    by (subst a) (simp add: port digit_visible)
  ultimately have trim: "TrimSpace ?a = ?a" by (simp add: TrimSpace_visible)
  have "SplitHostPort ?a = Inr (''127.0.0.1'', Itoa p)"
    using sep by (intro Split_JoinHostPort) auto
  moreover have "Atoi (Itoa p) = Some p" using assms by (intro Atoi_Itoa) auto
  moreover have "TrimSet ''127.0.0.1'' ''[]'' = ''127.0.0.1''" by (simp add: TrimSet_def)
  ultimately show ?thesis using assms trim by (simp add: split_host_port_def LoopbackIPv4_def)
qed

lemma join_not_blank: "1 \<le> p \<Longrightarrow> p \<le> 65535 \<Longrightarrow> TrimSpace (JoinHostPort ''127.0.0.1'' (Itoa p)) \<noteq> []"
proof
  assume p: "1 \<le> p" "p \<le> 65535" and e: "TrimSpace (JoinHostPort ''127.0.0.1'' (Itoa p)) = []"
  then have "split_host_port (JoinHostPort ''127.0.0.1'' (Itoa p)) = split_host_port []"
    by (simp add: split_host_port_def)
  with split_join_loopback [OF p] show False
    by (simp add: split_host_port_def SplitHostPort_def last_index_def)
qed

text \<open>A reverse forward in normal form: its port says it all.\<close>

definition reverse_normal :: "forwardConfig \<Rightarrow> bool" where
  "reverse_normal f \<longleftrightarrow> 1 \<le> fwd_ListenPort f \<and> fwd_ListenPort f \<le> 65535 \<and>
     fwd_ListenAddr f = JoinHostPort ''127.0.0.1'' (Itoa (fwd_ListenPort f))"

lemma trim_server_to_client: "TrimSpace DirectionServerToClient = DirectionServerToClient"
  by (rule TrimSpace_visible) (simp add: DirectionServerToClient_def visible_def byte_of_def)

lemma trim_client_to_server: "TrimSpace DirectionClientToServer = DirectionClientToServer"
  by (rule TrimSpace_visible) (simp add: DirectionClientToServer_def visible_def byte_of_def)

lemma reverse_normal_valid:
  "reverse_normal f \<Longrightarrow> validateReverseListenFields f = None"
  using split_join_loopback [of "fwd_ListenPort f"]
  by (auto simp: reverse_normal_def validateReverseListenFields_def)

lemma normalize_reverse_normal:
  assumes "fwd_Direction f = DirectionServerToClient" and "reverse_normal f"
  shows "normalizeReverseListenPort (Some f) = Some f"
  using assms reverse_normal_valid [OF assms(2)]
  by (simp add: normalizeReverseListenPort_def reverse_normal_def Let_def)

lemma normalize_cases:
  assumes "normalizeReverseListenPort (Some f) = Some g"
  shows "g = f \<and> (fwd_Direction f \<noteq> DirectionServerToClient \<or> validateReverseListenFields f \<noteq> None \<or>
           fwd_ListenPort f = 0 \<and> TrimSpace (fwd_ListenAddr f) = []) \<or>
         reverse_normal g \<and> fwd_Direction f = DirectionServerToClient \<and> validateReverseListenFields f = None \<and>
           (\<exists>p a. g = f\<lparr>fwd_ListenPort := p, fwd_ListenAddr := a\<rparr>)"
proof (cases "fwd_Direction f \<noteq> DirectionServerToClient \<or> validateReverseListenFields f \<noteq> None")
  case True
  then show ?thesis using assms by (auto simp: normalizeReverseListenPort_def)
next
  case False
  then have v: "validateReverseListenFields f = None" and d: "fwd_Direction f = DirectionServerToClient" by auto
  have range: "0 \<le> fwd_ListenPort f" "fwd_ListenPort f \<le> 65535"
    using v d by (auto simp: validateReverseListenFields_def trim_server_to_client split: if_splits)
  show ?thesis
  proof (cases "fwd_ListenPort f = 0")
    case True
    show ?thesis
    proof (cases "TrimSpace (fwd_ListenAddr f) = []")
      case blank: True
      then show ?thesis using assms v d True by (simp add: normalizeReverseListenPort_def)
    next
      case addr: False
      obtain p where p: "split_host_port (fwd_ListenAddr f) = Inr (LoopbackIPv4, p)"
        using v d True addr by (auto simp: validateReverseListenFields_def trim_server_to_client split: if_splits sum.splits)
      then have "1 \<le> p \<and> p \<le> 65535" by (rule split_host_port_range)
      then have g: "g = f\<lparr>fwd_ListenPort := p, fwd_ListenAddr := JoinHostPort ''127.0.0.1'' (Itoa p)\<rparr>" and "reverse_normal g"
        using assms v d True addr p by (auto simp: normalizeReverseListenPort_def reverse_normal_def)
      then show ?thesis using v d by blast
    qed
  next
    case False
    then have g: "g = f\<lparr>fwd_ListenAddr := JoinHostPort ''127.0.0.1'' (Itoa (fwd_ListenPort f))\<rparr>"
      using assms v d range by (auto simp: normalizeReverseListenPort_def)
    then have "reverse_normal g" "g = f\<lparr>fwd_ListenPort := fwd_ListenPort f, fwd_ListenAddr := fwd_ListenAddr g\<rparr>"
      using False range by (auto simp: reverse_normal_def)
    then show ?thesis using v d by blast
  qed
qed

lemma normalize_Some: "\<exists>g. normalizeReverseListenPort (Some f) = Some g"
  by (simp add: normalizeReverseListenPort_def)

lemma normalize_idem:
  assumes "normalizeReverseListenPort (Some f) = Some g"
  shows "normalizeReverseListenPort (Some g) = Some g"
  using normalize_cases [OF assms]
proof
  assume "reverse_normal g \<and> fwd_Direction f = DirectionServerToClient \<and> validateReverseListenFields f = None \<and>
           (\<exists>p a. g = f\<lparr>fwd_ListenPort := p, fwd_ListenAddr := a\<rparr>)"
  then have "reverse_normal g" "fwd_Direction g = DirectionServerToClient" by auto
  then show ?thesis by (intro normalize_reverse_normal)
next
  assume "g = f \<and> (fwd_Direction f \<noteq> DirectionServerToClient \<or> validateReverseListenFields f \<noteq> None \<or>
           fwd_ListenPort f = 0 \<and> TrimSpace (fwd_ListenAddr f) = [])"
  with assms show ?thesis by simp
qed

definition trimmed_direction :: "forwardConfig \<Rightarrow> forwardConfig" where
  "trimmed_direction f = f\<lparr>fwd_Direction := effective_direction (fwd_Direction f)\<rparr>"

lemma default_forward_normalize: "Some (default_forward f) = normalizeReverseListenPort (Some (trimmed_direction f))"
  using normalize_Some [of "trimmed_direction f"]
  by (auto simp: default_forward_def trimmed_direction_def effective_direction_def Let_def)

lemma effective_direction_idem [simp]: "effective_direction (effective_direction d) = effective_direction d"
  by (simp add: effective_direction_def Let_def trim_client_to_server)

lemma normalize_direction: "normalizeReverseListenPort (Some f) = Some g \<Longrightarrow> fwd_Direction g = fwd_Direction f"
  by (drule normalize_cases) auto

lemma default_forward_direction: "fwd_Direction (default_forward f) = effective_direction (fwd_Direction f)"
  using normalize_direction [OF default_forward_normalize [symmetric]] by (simp add: trimmed_direction_def)

lemma trimmed_direction_id: "fwd_Direction f = effective_direction d \<Longrightarrow> trimmed_direction f = f"
  by (simp add: trimmed_direction_def)

lemma default_forward_idem [simp]: "default_forward (default_forward f) = default_forward f"
proof -
  have "Some (default_forward (default_forward f)) = normalizeReverseListenPort (Some (trimmed_direction (default_forward f)))"
    by (rule default_forward_normalize)
  also have "trimmed_direction (default_forward f) = default_forward f"
    by (rule trimmed_direction_id [OF default_forward_direction])
  also have "normalizeReverseListenPort (Some (default_forward f)) = Some (default_forward f)"
    by (rule normalize_idem [OF default_forward_normalize [symmetric]])
  finally show ?thesis by simp
qed

lemma default_security_idem [simp]: "default_security (default_security s) = default_security s"
  by (simp add: default_security_def or_default_def Let_def)

lemma TrimSpace_consts: "TrimSpace ServerConfigRequiresServerVersion \<noteq> []" "TrimSpace MinCompatibleClientVersion \<noteq> []"
  by (simp_all add: TrimSpace_visible ServerConfigRequiresServerVersion_def MinCompatibleClientVersion_def visible_def byte_of_def)

lemma ApplyDefaults_idem: "ApplyDefaults (ApplyDefaults cfg) = ApplyDefaults cfg"
  by (simp add: ApplyDefaults_def default_compatibility_def TrimSpace_consts ServerConfigVersion_def ProtocolVersion_def
      DefaultListenAddr_def or_default_def Let_def comp_def)

lemma default_security_positive:
  "s' = default_security s \<Longrightarrow> 0 < sec_MaxConcurrentConnections s' \<and> 0 < sec_MaxConcurrentConnectionsPerIP s'
   \<and> 0 < sec_MaxNewConnectionsPerIPWindow s' \<and> 0 < sec_ConnectionRateWindowSec s' \<and> 0 < sec_MaxTrackedConnectionIPs s'
   \<and> 0 < sec_MaxTrackedFailureIPs s' \<and> 0 < sec_AuthFailThreshold s' \<and> 0 < sec_AuthFailWindowSec s'
   \<and> 0 < sec_AuthFailBlockSec s' \<and> 0 < sec_MaxHandshakeBytes s' \<and> 0 < sec_HandshakeTimeoutSec s'
   \<and> 0 < sec_DialTimeoutSec s' \<and> 0 < sec_EntryTrafficLogQueueSize s' \<and> sec_MaxConnectionsPerIPPerWindow s' = 0"
  by (simp add: default_security_def or_default_def Let_def)

lemma default_forward_result:
  "fwd_Direction (default_forward f) = effective_direction (fwd_Direction f) \<and>
   (is_reverse (default_forward f) \<and> validateReverseListenFields (default_forward f) = None \<and>
      (0 < fwd_ListenPort f \<or> TrimSpace (fwd_ListenAddr f) \<noteq> [])
    \<longrightarrow> 1 \<le> fwd_ListenPort (default_forward f) \<and> fwd_ListenPort (default_forward f) \<le> 65535 \<and>
       split_host_port (fwd_ListenAddr (default_forward f)) = Inr (LoopbackIPv4, fwd_ListenPort (default_forward f)))"
proof (intro conjI impI)
  assume a: "is_reverse (default_forward f) \<and> validateReverseListenFields (default_forward f) = None \<and>
      (0 < fwd_ListenPort f \<or> TrimSpace (fwd_ListenAddr f) \<noteq> [])"
  then have "effective_direction (fwd_Direction f) = DirectionServerToClient"
    by (simp add: is_reverse_def default_forward_direction)
  then have g: "reverse_normal (default_forward f)"
    using a normalize_cases [OF default_forward_normalize [symmetric, of f]] by (auto simp: trimmed_direction_def)
  then show "1 \<le> fwd_ListenPort (default_forward f)" "fwd_ListenPort (default_forward f) \<le> 65535"
    "split_host_port (fwd_ListenAddr (default_forward f)) = Inr (LoopbackIPv4, fwd_ListenPort (default_forward f))"
    using split_join_loopback by (simp_all add: reverse_normal_def)
qed (rule default_forward_direction)

text \<open>Filling in defaults is a normal form: doing it twice is doing it once, the result leaves no
  security limit at zero or below (the deprecated rate field is folded in and cleared), and every
  reverse forward either keeps the fields that validation will report or has a port in 1..65535
  and the loopback address with exactly that port.\<close>

theorem defaults_normal_form:
  "ApplyDefaults (ApplyDefaults cfg) = ApplyDefaults cfg
   \<and> (let s = cfg_Security (ApplyDefaults cfg)
      in 0 < sec_MaxConcurrentConnections s \<and> 0 < sec_MaxConcurrentConnectionsPerIP s
       \<and> 0 < sec_MaxNewConnectionsPerIPWindow s \<and> 0 < sec_ConnectionRateWindowSec s \<and> 0 < sec_MaxTrackedConnectionIPs s
       \<and> 0 < sec_MaxTrackedFailureIPs s \<and> 0 < sec_AuthFailThreshold s \<and> 0 < sec_AuthFailWindowSec s
       \<and> 0 < sec_AuthFailBlockSec s \<and> 0 < sec_MaxHandshakeBytes s \<and> 0 < sec_HandshakeTimeoutSec s
       \<and> 0 < sec_DialTimeoutSec s \<and> 0 < sec_EntryTrafficLogQueueSize s \<and> sec_MaxConnectionsPerIPPerWindow s = 0)
   \<and> list_all2 (\<lambda>f g. fwd_Direction g = effective_direction (fwd_Direction f) \<and>
        (is_reverse g \<and> validateReverseListenFields g = None \<and> (0 < fwd_ListenPort f \<or> TrimSpace (fwd_ListenAddr f) \<noteq> [])
          \<longrightarrow> 1 \<le> fwd_ListenPort g \<and> fwd_ListenPort g \<le> 65535 \<and>
              split_host_port (fwd_ListenAddr g) = Inr (LoopbackIPv4, fwd_ListenPort g)))
       (cfg_Forwards cfg) (cfg_Forwards (ApplyDefaults cfg))"
proof (intro conjI)
  show "ApplyDefaults (ApplyDefaults cfg) = ApplyDefaults cfg" by (rule ApplyDefaults_idem)
  show "let s = cfg_Security (ApplyDefaults cfg)
      in 0 < sec_MaxConcurrentConnections s \<and> 0 < sec_MaxConcurrentConnectionsPerIP s
       \<and> 0 < sec_MaxNewConnectionsPerIPWindow s \<and> 0 < sec_ConnectionRateWindowSec s \<and> 0 < sec_MaxTrackedConnectionIPs s
       \<and> 0 < sec_MaxTrackedFailureIPs s \<and> 0 < sec_AuthFailThreshold s \<and> 0 < sec_AuthFailWindowSec s
       \<and> 0 < sec_AuthFailBlockSec s \<and> 0 < sec_MaxHandshakeBytes s \<and> 0 < sec_HandshakeTimeoutSec s
       \<and> 0 < sec_DialTimeoutSec s \<and> 0 < sec_EntryTrafficLogQueueSize s \<and> sec_MaxConnectionsPerIPPerWindow s = 0"
    unfolding Let_def by (rule default_security_positive) (simp add: ApplyDefaults_def)
  have fw: "cfg_Forwards (ApplyDefaults cfg) = map default_forward (cfg_Forwards cfg)"
    by (simp add: ApplyDefaults_def)
  show "list_all2 (\<lambda>f g. fwd_Direction g = effective_direction (fwd_Direction f) \<and>
        (is_reverse g \<and> validateReverseListenFields g = None \<and> (0 < fwd_ListenPort f \<or> TrimSpace (fwd_ListenAddr f) \<noteq> [])
          \<longrightarrow> 1 \<le> fwd_ListenPort g \<and> fwd_ListenPort g \<le> 65535 \<and>
              split_host_port (fwd_ListenAddr g) = Inr (LoopbackIPv4, fwd_ListenPort g)))
       (cfg_Forwards cfg) (cfg_Forwards (ApplyDefaults cfg))"
    unfolding fw list.rel_map by (intro list.rel_refl_strong default_forward_result)
qed

theorem defaults_normal_form_witness:
  "split_host_port (fwd_ListenAddr (default_forward (cfg_Forwards sample_config ! 1))) = Inr (LoopbackIPv4, 9022)"
proof -
  let ?f = "cfg_Forwards sample_config ! 1" let ?g = "default_forward ?f"
  have fw: "cfg_Forwards (ApplyDefaults sample_config) = map default_forward (cfg_Forwards sample_config)"
    by (simp add: ApplyDefaults_def)
  have "list_all2 (\<lambda>f g. fwd_Direction g = effective_direction (fwd_Direction f) \<and>
        (is_reverse g \<and> validateReverseListenFields g = None \<and> (0 < fwd_ListenPort f \<or> TrimSpace (fwd_ListenAddr f) \<noteq> [])
          \<longrightarrow> 1 \<le> fwd_ListenPort g \<and> fwd_ListenPort g \<le> 65535 \<and>
              split_host_port (fwd_ListenAddr g) = Inr (LoopbackIPv4, fwd_ListenPort g)))
       (cfg_Forwards sample_config) (map default_forward (cfg_Forwards sample_config))"
    using defaults_normal_form [of sample_config, THEN conjunct2, THEN conjunct2] unfolding fw .
  from list_all2_nthD [OF this, of 1]
  have "is_reverse ?g \<and> validateReverseListenFields ?g = None \<and> 0 < fwd_ListenPort ?f \<Longrightarrow>
      split_host_port (fwd_ListenAddr ?g) = Inr (LoopbackIPv4, fwd_ListenPort ?g)"
    by (simp add: sample_config_def)
  moreover have "is_reverse ?g \<and> validateReverseListenFields ?g = None \<and> 0 < fwd_ListenPort ?f \<and> fwd_ListenPort ?g = 9022"
    by code_simp
  ultimately show ?thesis by simp
qed

section \<open>Saving\<close>

definition drop_listen_addr :: "forwardConfig \<Rightarrow> forwardConfig" where
  "drop_listen_addr f = (if fwd_Direction f = DirectionServerToClient \<and> fwd_ListenPort f > 0 then f\<lparr>fwd_ListenAddr := []\<rparr> else f)"

lemma configForSave_alt: "configForSave cfg = cfg\<lparr>cfg_Forwards := map drop_listen_addr (cfg_Forwards cfg)\<rparr>"
  by (simp add: configForSave_def drop_listen_addr_def)

lemma restore_listen_addr:
  assumes "validateReverseListenFields f = None"
  shows "default_forward (drop_listen_addr (default_forward f)) = default_forward f"
proof -
  let ?g = "default_forward f"
  have nz: "normalizeReverseListenPort (Some (trimmed_direction f)) = Some ?g"
    by (rule default_forward_normalize [symmetric])
  show ?thesis
  proof (cases "fwd_Direction ?g = DirectionServerToClient \<and> fwd_ListenPort ?g > 0")
    case True
    have dir: "effective_direction (fwd_Direction f) = DirectionServerToClient"
      using True by (simp add: default_forward_direction)
    then have "TrimSpace (fwd_Direction f) = DirectionServerToClient"
      by (simp add: effective_direction_def Let_def split: if_splits)
    then have "validateReverseListenFields (trimmed_direction f) = validateReverseListenFields f"
      by (simp add: validateReverseListenFields_def trimmed_direction_def effective_direction_def trim_server_to_client
          split: sum.split)
    then have g: "reverse_normal ?g"
      using normalize_cases [OF nz] True assms dir by (auto simp: trimmed_direction_def)
    define h where "h = ?g\<lparr>fwd_ListenAddr := []\<rparr>"
    have "trimmed_direction h = h"
      using True by (intro trimmed_direction_id [of _ "fwd_Direction f"]) (simp add: h_def default_forward_direction)
    moreover have "validateReverseListenFields h = None"
      using g by (simp add: h_def validateReverseListenFields_def reverse_normal_def)
    then have "normalizeReverseListenPort (Some h) = Some ?g"
      using True g by (simp add: normalizeReverseListenPort_def h_def reverse_normal_def)
    ultimately have "default_forward h = ?g" using default_forward_normalize [of h] by simp
    then show ?thesis using True by (simp add: drop_listen_addr_def h_def)
  next
    case False
    then have "drop_listen_addr ?g = ?g" by (auto simp: drop_listen_addr_def)
    then show ?thesis by simp
  qed
qed

lemma SaveConfig_okD:
  assumes "SaveConfig env marshal fs path cfg = (fs', None)"
  obtains data where "marshal (configForSave (ApplyDefaults cfg)) = Inr data" "fs' = AList.update path data fs"
    "\<forall>f \<in> set (cfg_Forwards cfg). validateReverseListenFields f = None" "validateLoopbackAddresses cfg = None"
  using assms by (auto simp: SaveConfig_def split: option.splits sum.splits dest: WriteFile_None)

lemma ApplyDefaults_forwards: 
  "ApplyDefaults (cfg\<lparr>cfg_Forwards := fs\<rparr>) = (ApplyDefaults cfg)\<lparr>cfg_Forwards := map default_forward fs\<rparr>"
  by (simp add: ApplyDefaults_def)

text \<open>Saving loses nothing: when \<open>SaveConfig\<close> succeeds, the file holds the encoding of a
  configuration whose defaults are the defaults of the one given, although the listen address of
  every reverse forward with a port has been left out of the file; no other file changes.\<close>

theorem save_keeps_config:
  assumes "SaveConfig env marshal fs path cfg = (fs', None)"
  shows "\<exists>saved data. marshal saved = Inr data \<and> map_of fs' path = Some data
     \<and> ApplyDefaults saved = ApplyDefaults cfg
     \<and> (\<forall>f \<in> set (cfg_Forwards saved). is_reverse f \<and> 0 < fwd_ListenPort f \<longrightarrow> fwd_ListenAddr f = [])
     \<and> (\<forall>p. p \<noteq> path \<longrightarrow> map_of fs' p = map_of fs p)"
proof -
  obtain data where d: "marshal (configForSave (ApplyDefaults cfg)) = Inr data" "fs' = AList.update path data fs"
    and ok: "\<forall>f \<in> set (cfg_Forwards cfg). validateReverseListenFields f = None"
    using SaveConfig_okD [OF assms] by metis
  let ?saved = "configForSave (ApplyDefaults cfg)"
  have fw: "cfg_Forwards (ApplyDefaults cfg) = map default_forward (cfg_Forwards cfg)"
    by (simp add: ApplyDefaults_def)
  have "ApplyDefaults ?saved = (ApplyDefaults (ApplyDefaults cfg))
      \<lparr>cfg_Forwards := map (\<lambda>f. default_forward (drop_listen_addr (default_forward f))) (cfg_Forwards cfg)\<rparr>"
    by (simp add: configForSave_alt ApplyDefaults_forwards fw comp_def)
  also have "map (\<lambda>f. default_forward (drop_listen_addr (default_forward f))) (cfg_Forwards cfg) = cfg_Forwards (ApplyDefaults cfg)"
    using ok by (simp add: fw restore_listen_addr)
  finally have same: "ApplyDefaults ?saved = ApplyDefaults cfg" by (simp add: ApplyDefaults_idem)
  have "fwd_ListenAddr f = []" if "f \<in> set (cfg_Forwards ?saved)" "is_reverse f" "0 < fwd_ListenPort f" for f
    using that by (auto simp: configForSave_alt fw drop_listen_addr_def is_reverse_def default_forward_direction split: if_splits)
  then show ?thesis
    using d same by (intro exI [of _ ?saved] exI [of _ data]) (auto simp: gomap_simps)
qed

theorem save_keeps_config_witness:
  "\<exists>saved data. map_of (fst (SaveConfig no_faults (\<lambda>c. Inr (cfg_ListenAddr c)) [] ''c.yaml'' sample_config)) ''c.yaml'' = Some data
     \<and> ApplyDefaults saved = ApplyDefaults sample_config"
proof -
  have "SaveConfig no_faults (\<lambda>c. Inr (cfg_ListenAddr c)) [] ''c.yaml'' sample_config = ([(''c.yaml'', ''0.0.0.0:3443'')], None)"
    by code_simp
  with save_keeps_config [OF this] show ?thesis by auto
qed

end
