(* ===== verification/Authorization.thy ===== *)
theory Authorization
  imports Server_Config Event_Ring
begin

text \<open>
  Who may reach what: \<open>src/server/tunnel/authorization.go\<close> and
  \<open>src/server/tunnel/configured_forwards.go\<close>. The methods read the configured forwards and the
  set \<open>configuredReverse\<close> of the server; that set is a map from normalized addresses to \<open>bool\<close>
  and is threaded through the operations that change it. Log lines are left out; the runtime
  events an operation records are returned.
\<close>

section \<open>Configured forwards\<close>

definition allowedUser :: "string list \<Rightarrow> string \<Rightarrow> bool" where
  "allowedUser users username = (\<exists>user \<in> set users. TrimSpace user = username)"

definition configuredReverseListenAddr :: "forwardConfig \<Rightarrow> string" where
  "configuredReverseListenAddr fwd =
     (let addr = TrimSpace (fwd_ListenAddr fwd)
      in if addr \<noteq> [] then addr
         else if fwd_ListenPort fwd > 0 \<and> fwd_ListenPort fwd \<le> 65535
         then JoinHostPort ''127.0.0.1'' (Itoa (fwd_ListenPort fwd))
         else [])"

definition allowedConfiguredForward :: "forwardConfig list \<Rightarrow> string \<Rightarrow> string \<Rightarrow> forwardConfig option" where
  "allowedConfiguredForward forwards username target =
     (let username = TrimSpace username
      in if username = [] then None
         else let normalizedTarget = normalizeTarget target
         in find (\<lambda>fwd.
              effective_direction (fwd_Direction fwd) = DirectionClientToServer \<and>
              allowedUser (fwd_AllowedUsers fwd) username \<and>
              TrimSpace (fwd_ServerTarget fwd) \<noteq> [] \<and>
              normalizeTarget (TrimSpace (fwd_ServerTarget fwd)) = normalizedTarget) forwards)"

definition authorizeTarget :: "forwardConfig list \<Rightarrow> string \<Rightarrow> string \<Rightarrow> go_error option" where
  "authorizeTarget forwards username target =
     (case split_host_port target of
        Inl err \<Rightarrow> Some (Errorf ''target address is invalid'' [])
      | Inr (host, _) \<Rightarrow>
          (case allowedConfiguredForward forwards username target of
             None \<Rightarrow> Some (Errorf ''user is not allowed to access this target'' [])
           | Some forward \<Rightarrow>
               if IsForwardTargetHost host then None
               else Some (Errorf ''target is not allowed'' [])))"

definition authorizeOpen :: "forwardConfig list \<Rightarrow> string \<Rightarrow> string \<Rightarrow> string \<Rightarrow> go_error option" where
  "authorizeOpen forwards username req_direction req_target =
     (let direction = TrimSpace req_direction
      in if direction \<noteq> [] \<and> direction \<noteq> DirectionClientToServer
         then Some (Errorf ''request direction is invalid'' [])
         else authorizeTarget forwards username req_target)"

text \<open>The first reverse forward with the address decides, even if it does not list the user.\<close>

definition authorizeReverse :: "forwardConfig list \<Rightarrow> string \<Rightarrow> string \<Rightarrow> go_error option" where
  "authorizeReverse forwards user_name listenAddr =
     (let username = TrimSpace user_name; normalizedListenAddr = normalizeTarget listenAddr
      in case find (\<lambda>fwd.
                TrimSpace (fwd_Direction fwd) = DirectionServerToClient \<and>
                configuredReverseListenAddr fwd \<noteq> [] \<and>
                normalizeTarget (configuredReverseListenAddr fwd) = normalizedListenAddr) forwards of
           Some fwd \<Rightarrow> if allowedUser (fwd_AllowedUsers fwd) username then None
                       else Some (Errorf ''user is not allowed to activate this reverse listen address'' [])
         | None \<Rightarrow> Some (Errorf ''user is not allowed to activate this reverse listen address'' []))"

definition markConfiguredReverseListener :: "(string, bool) gomap \<Rightarrow> string \<Rightarrow> (string, bool) gomap" where
  "markConfiguredReverseListener configuredReverse addr = AList.update (normalizeTarget addr) True configuredReverse"

definition isConfiguredReverseListener :: "(string, bool) gomap \<Rightarrow> string \<Rightarrow> bool" where
  "isConfiguredReverseListener configuredReverse addr =
     (map_of configuredReverse (normalizeTarget addr) = Some True)"

definition authorizeForwardCheck ::
    "forwardConfig list \<Rightarrow> (string, bool) gomap \<Rightarrow> string \<Rightarrow> string \<Rightarrow> string \<Rightarrow> string \<Rightarrow> go_error option" where
  "authorizeForwardCheck forwards configuredReverse username req_direction req_target req_listenAddr =
     (let direction = effective_direction req_direction
      in if direction = DirectionClientToServer then authorizeTarget forwards username req_target
         else if direction = DirectionServerToClient
         then (let listenAddr = TrimSpace req_listenAddr
               in if listenAddr = [] then Some (Errorf ''reverse listen address is required'' [])
                  else if \<not> isConfiguredReverseListener configuredReverse listenAddr
                  then Some (Errorf ''reverse listen address is not configured on server'' [])
                  else authorizeReverse forwards username listenAddr)
         else Some (Errorf ''request direction is invalid'' []))"

text \<open>The start-up pass that registers the reverse listeners; it never fails.\<close>

definition prepare_forward :: "forwardConfig \<Rightarrow> (string, bool) gomap \<Rightarrow> (string, bool) gomap" where
  "prepare_forward fwd configuredReverse =
     (if TrimSpace (fwd_Direction fwd) = DirectionServerToClient
      then (let listenAddr = TrimSpace (fwd_ListenAddr fwd)
            in if listenAddr = [] then configuredReverse
               else (case split_host_port listenAddr of
                       Inl err \<Rightarrow> configuredReverse
                     | Inr (host, _) \<Rightarrow>
                         if host \<noteq> ''127.0.0.1'' then configuredReverse
                         else markConfiguredReverseListener configuredReverse listenAddr))
      else configuredReverse)"

definition prepareConfiguredForwards :: "forwardConfig list \<Rightarrow> (string, bool) gomap \<Rightarrow> (string, bool) gomap" where
  "prepareConfiguredForwards forwards configuredReverse = fold prepare_forward forwards configuredReverse"

definition forwardDisplayName :: "forwardConfig \<Rightarrow> string" where
  "forwardDisplayName fwd =
     (let name = TrimSpace (fwd_Name fwd); addr = TrimSpace (fwd_ListenAddr fwd)
      in if name \<noteq> [] then name else if addr \<noteq> [] then addr else TrimSpace (fwd_ServerTarget fwd))"

section \<open>The availability audit\<close>

text \<open>
  The audit probes every configured forward and records an event for each that cannot work. What
  the probes find is the network's choice: \<open>dial\<close> and \<open>listen\<close> say with which error connecting
  to a target or listening on an address fails; \<open>active\<close> says whether a reverse listener is
  registered for an address before and after the attempt to listen; \<open>err_text\<close> is the text of
  an error. The result is the list of recorded events.
\<close>

definition check_event :: "string \<Rightarrow> string \<Rightarrow> runtimeEvent" where
  "check_event name direction = zeroEvent\<lparr>ev_Kind := ''forward_check'', ev_Result := ''failed'',
     ev_ForwardName := name, ev_Direction := direction\<rparr>"

definition auditClientToServerForward ::
    "(go_error \<Rightarrow> string) \<Rightarrow> (string \<Rightarrow> go_error option) \<Rightarrow> string \<Rightarrow> forwardConfig \<Rightarrow> runtimeEvent list" where
  "auditClientToServerForward err_text dial name fwd =
     (let target = TrimSpace (fwd_ServerTarget fwd); ev = check_event name DirectionClientToServer
      in if target = [] then [ev\<lparr>ev_Code := ''empty_target'', ev_Message := ''forward target is empty''\<rparr>]
         else (case split_host_port target of
                 Inl err \<Rightarrow> [ev\<lparr>ev_Target := target, ev_Code := ''invalid_target'', ev_Message := err_text err\<rparr>]
               | Inr _ \<Rightarrow>
                   (case dial target of
                      Some err \<Rightarrow> [ev\<lparr>ev_Target := target, ev_Code := ''target_unreachable'', ev_Message := err_text err\<rparr>]
                    | None \<Rightarrow> [])))"

definition auditServerToClientForward ::
    "(go_error \<Rightarrow> string) \<Rightarrow> (string \<Rightarrow> bool) \<Rightarrow> (string \<Rightarrow> go_error option) \<Rightarrow> (string \<Rightarrow> bool)
     \<Rightarrow> string \<Rightarrow> forwardConfig \<Rightarrow> runtimeEvent list" where
  "auditServerToClientForward err_text active_before listen active_after name fwd =
     (let listenAddr = TrimSpace (fwd_ListenAddr fwd); ev = check_event name DirectionServerToClient
      in if listenAddr = [] then [ev\<lparr>ev_Code := ''empty_listen'', ev_Message := ''reverse listen address is empty''\<rparr>]
         else let ev = ev\<lparr>ev_ListenAddr := listenAddr\<rparr>
         in (case split_host_port listenAddr of
               Inl err \<Rightarrow> [ev\<lparr>ev_Code := ''invalid_listen'', ev_Message := err_text err\<rparr>]
             | Inr (host, _) \<Rightarrow>
                 if host \<noteq> ''127.0.0.1''
                 then [ev\<lparr>ev_Code := ''non_loopback_listen'', ev_Message := ''reverse listen address must use 127.0.0.1''\<rparr>]
                 else if active_before listenAddr then []
                 else (case listen listenAddr of
                         Some err \<Rightarrow>
                           if active_after listenAddr then []
                           else [ev\<lparr>ev_Code := ''passive_port_unavailable'', ev_Message := err_text err\<rparr>]
                       | None \<Rightarrow> [])))"

text \<open>\<open>live\<close> says for each forward, by position, whether the context is still alive.\<close>

fun auditConfiguredForwardAvailability ::
    "(go_error \<Rightarrow> string) \<Rightarrow> (string \<Rightarrow> go_error option) \<Rightarrow> (string \<Rightarrow> bool) \<Rightarrow> (string \<Rightarrow> go_error option) \<Rightarrow> (string \<Rightarrow> bool)
     \<Rightarrow> forwardConfig list \<Rightarrow> bool list \<Rightarrow> runtimeEvent list" where
  "auditConfiguredForwardAvailability err_text dial before listen after (fwd # fwds) (True # live) =
     (let name = forwardDisplayName fwd; direction = TrimSpace (fwd_Direction fwd)
      in (if direction = DirectionClientToServer then auditClientToServerForward err_text dial name fwd
          else if direction = DirectionServerToClient
          then auditServerToClientForward err_text before listen after name fwd
          else [])
         @ auditConfiguredForwardAvailability err_text dial before listen after fwds live)"
| "auditConfiguredForwardAvailability err_text dial before listen after _ _ = []"

section \<open>Lemmas\<close>

lemma find_SomeD: "find P xs = Some x \<Longrightarrow> x \<in> set xs \<and> P x"
  by (auto simp: find_Some_iff)

lemma allowedUser_iff: "allowedUser users u \<longleftrightarrow> u \<in> TrimSpace ` set users"
  by (auto simp: allowedUser_def image_iff)

lemma split_TrimSpace: "split_host_port (TrimSpace t) = split_host_port t"
  by (simp add: split_host_port_def)

lemma normalizeTarget_TrimSpace [simp]: "normalizeTarget (TrimSpace t) = normalizeTarget t"
  by (simp add: normalizeTarget_def split: sum.split)

lemma allowedConfiguredForward_SomeD:
  "allowedConfiguredForward forwards u t = Some f \<Longrightarrow>
   f \<in> set forwards \<and> TrimSpace u \<noteq> [] \<and> effective_direction (fwd_Direction f) = DirectionClientToServer \<and>
   TrimSpace u \<in> TrimSpace ` set (fwd_AllowedUsers f) \<and> TrimSpace (fwd_ServerTarget f) \<noteq> [] \<and>
   normalizeTarget (fwd_ServerTarget f) = normalizeTarget t"
  by (simp add: allowedConfiguredForward_def Let_def allowedUser_iff split: if_splits) (drule find_SomeD, simp)

lemma allowedConfiguredForward_ex:
  "f \<in> set forwards \<Longrightarrow> TrimSpace u \<noteq> [] \<Longrightarrow> effective_direction (fwd_Direction f) = DirectionClientToServer \<Longrightarrow>
   TrimSpace u \<in> TrimSpace ` set (fwd_AllowedUsers f) \<Longrightarrow> TrimSpace (fwd_ServerTarget f) \<noteq> [] \<Longrightarrow>
   normalizeTarget (fwd_ServerTarget f) = normalizeTarget t \<Longrightarrow> allowedConfiguredForward forwards u t \<noteq> None"
  by (auto simp: allowedConfiguredForward_def Let_def find_None_iff allowedUser_iff)

lemma split_nonblank: "split_host_port t = Inr r \<Longrightarrow> TrimSpace t \<noteq> []"
  by (auto simp: split_host_port_def SplitHostPort_def last_index_def)

lemma validate_direction_listen:
  "validate_direction f = Inr p \<Longrightarrow> is_reverse f \<Longrightarrow> validateReverseListenFields f = None"
  by (simp add: validate_direction_def is_reverse_def Let_def split: option.splits)

lemma validate_forwards_direction:
  "validate_forwards k fs s = None \<Longrightarrow> f \<in> set fs \<Longrightarrow> \<exists>p. validate_direction f = Inr p"
proof (induction k fs s rule: validate_forwards.induct)
  case (2 k g fs s)
  then show ?case by (auto split: sum.splits if_splits option.splits)
qed simp

text \<open>What validation says of the forwards, in one place.\<close>

lemma validated_forwards:
  assumes "ValidateConfig cfg = None"
  defines "names \<equiv> map (\<lambda>u. TrimSpace (usr_Username u)) (cfg_Users cfg)"
  shows "\<forall>f \<in> set (cfg_Forwards cfg). forward_ok names f"
    and "distinct (map reverse_port (filter is_reverse (cfg_Forwards cfg)))"
    and "\<forall>f \<in> set (cfg_Forwards cfg). is_reverse f \<longrightarrow> validateReverseListenFields f = None"
proof -
  from assms(1) obtain known where
    u: "validate_users (cfg_Users cfg) [] = Inr known" and
    f: "validate_forwards known (cfg_Forwards cfg) [] = None"
    by (auto simp: ValidateConfig_def split: option.splits sum.splits if_splits)
  have "known = rev names" using validate_users_sound [OF u] by (simp add: names_def)
  with validate_forwards_sound [OF f] show "\<forall>f \<in> set (cfg_Forwards cfg). forward_ok names f"
    and "distinct (map reverse_port (filter is_reverse (cfg_Forwards cfg)))"
    by (simp_all add: forward_ok_def)
  show "\<forall>f \<in> set (cfg_Forwards cfg). is_reverse f \<longrightarrow> validateReverseListenFields f = None"
    using validate_forwards_direction [OF f] validate_direction_listen by blast
qed

section \<open>Authorization of targets\<close>

text \<open>C2. Under a validated configuration, opening a target is authorized only if some
  client-to-server forward lists the user, and the target is that forward's host (up to the case
  of its letters) and exactly its port; the host is the literal 127.0.0.1 or a private IP
  literal, the user is a configured one, and the request did not ask for another direction.
  Nothing outside the configured targets can be reached.\<close>

theorem authorizeOpen_sound:
  assumes valid: "ValidateConfig cfg = None"
    and ok: "authorizeOpen (cfg_Forwards cfg) username direction target = None"
  shows "\<exists>f \<in> set (cfg_Forwards cfg). \<exists>h h' p.
     split_host_port target = Inr (h, p) \<and> split_host_port (fwd_ServerTarget f) = Inr (h', p)
     \<and> ToLower h = ToLower h' \<and> IsForwardTargetHost h \<and> IsForwardTargetHost h'
     \<and> TrimSpace username \<in> TrimSpace ` set (fwd_AllowedUsers f)
     \<and> (\<exists>u \<in> set (cfg_Users cfg). TrimSpace (usr_Username u) = TrimSpace username)
     \<and> effective_direction (fwd_Direction f) = DirectionClientToServer
     \<and> (TrimSpace direction = [] \<or> TrimSpace direction = DirectionClientToServer)"
proof -
  have auth: "authorizeTarget (cfg_Forwards cfg) username target = None"
    and dir: "TrimSpace direction = [] \<or> TrimSpace direction = DirectionClientToServer"
    using ok by (auto simp: authorizeOpen_def Let_def split: if_splits)
  obtain h p f where t: "split_host_port target = Inr (h, p)" and host: "IsForwardTargetHost h"
    and f: "allowedConfiguredForward (cfg_Forwards cfg) username target = Some f"
    using auth by (auto simp: authorizeTarget_def split: sum.splits option.splits if_splits)
  note F = allowedConfiguredForward_SomeD [OF f]
  let ?names = "map (\<lambda>u. TrimSpace (usr_Username u)) (cfg_Users cfg)"
  have "forward_ok ?names f"
    using validated_forwards(1) [OF valid] F by blast
  then have priv: "private_target f" and users: "TrimSpace ` set (fwd_AllowedUsers f) \<subseteq> set ?names"
    using F by (auto simp: forward_ok_def is_reverse_def)
  obtain h' p' where t': "split_host_port (fwd_ServerTarget f) = Inr (h', p')" and host': "IsForwardTargetHost h'"
    using priv by (auto simp: private_target_def split: sum.splits)
  have "ToLower h = ToLower h' \<and> p = p'"
    using normalizeTarget_same [OF t t'] F by simp
  then show ?thesis using F t t' host host' users dir by fastforce
qed

theorem authorizeOpen_sound_witness:
  "\<exists>f \<in> set (cfg_Forwards sample_config). \<exists>h h' p.
     split_host_port ''192.168.1.7:3306'' = Inr (h, p) \<and> split_host_port (fwd_ServerTarget f) = Inr (h', p)
     \<and> ToLower h = ToLower h' \<and> IsForwardTargetHost h \<and> IsForwardTargetHost h'
     \<and> TrimSpace ''alice'' \<in> TrimSpace ` set (fwd_AllowedUsers f)
     \<and> (\<exists>u \<in> set (cfg_Users sample_config). TrimSpace (usr_Username u) = TrimSpace ''alice'')
     \<and> effective_direction (fwd_Direction f) = DirectionClientToServer
     \<and> (TrimSpace [] = [] \<or> TrimSpace [] = DirectionClientToServer)"
proof -
  have "authorizeOpen (cfg_Forwards sample_config) ''alice'' [] ''192.168.1.7:3306'' = None"
    by code_simp
  then show ?thesis by (rule authorizeOpen_sound [OF sample_valid])
qed

section \<open>Authorization of reverse listeners\<close>

definition lower_letter :: "char \<Rightarrow> bool" where
  "lower_letter c \<longleftrightarrow> 97 \<le> byte_of c \<and> byte_of c \<le> 122"

lemma lower_char_fixed: "\<not> lower_letter c \<Longrightarrow> lower_char d = c \<Longrightarrow> d = c"
proof (cases "65 \<le> byte_of d \<and> byte_of d \<le> 90")
  case True
  then have "byte_of (lower_char d) = byte_of d + 32" by (simp add: lower_char_def byte_of_def)
  moreover assume "\<not> lower_letter c" and "lower_char d = c"
  ultimately show ?thesis using True by (simp add: lower_letter_def)
qed (auto simp: lower_char_def)

lemma ToLower_fixed:
  "list_all (\<lambda>c. \<not> lower_letter c) t \<Longrightarrow> ToLower s = t \<Longrightarrow> s = t"
  by (induction s arbitrary: t) (auto simp: ToLower_def lower_char_fixed)

definition port_char :: "char \<Rightarrow> bool" where
  "port_char c \<longleftrightarrow> is_digit c \<or> c = CHR ''+'' \<or> c = CHR ''-''"

lemma Atoi_chars: "Atoi s = Some n \<Longrightarrow> list_all port_char s"
  by (auto simp: Atoi_def Let_def port_char_def list_all_iff split: list.splits if_splits)

lemma port_char_not: "port_char c \<Longrightarrow> \<not> lower_letter c \<and> c \<noteq> CHR '':'' \<and> c \<noteq> CHR ''['' \<and> c \<noteq> CHR '']''"
  by (auto simp: port_char_def is_digit_def byte_of_def lower_letter_def)

lemma ToLower_loopback: "ToLower LoopbackIPv4 = LoopbackIPv4"
  by (simp add: ToLower_def LoopbackIPv4_def lower_char_def byte_of_def)

lemma lower_is_loopback: "ToLower h = LoopbackIPv4 \<Longrightarrow> h = LoopbackIPv4"
  by (rule ToLower_fixed) (simp_all add: LoopbackIPv4_def byte_of_def lower_letter_def)

text \<open>An address with the normal form of a loopback address is that loopback address.\<close>

lemma normalizeTarget_loopback:
  assumes cfgd: "split_host_port a = Inr (LoopbackIPv4, p)" and same: "normalizeTarget t = normalizeTarget a"
  shows "split_host_port t = Inr (LoopbackIPv4, p)"
proof -
  obtain h0 pt where a: "SplitHostPort (TrimSpace a) = Inr (h0, pt)" "Atoi pt = Some p" "LoopbackIPv4 = TrimSet h0 ''[]''"
    "1 \<le> p" "p \<le> 65535"
    using split_host_port_InrD [OF cfgd] by blast
  have pt: "list_all port_char pt" by (rule Atoi_chars [OF a(2)])
  have na: "normalizeTarget a = JoinHostPort LoopbackIPv4 pt"
    using a(1) by (simp add: normalizeTarget_def a(3) [symmetric] ToLower_loopback)
  show ?thesis
  proof (cases "SplitHostPort (TrimSpace t)")
    case (Inl e)
    then have "ToLower (TrimSpace t) = LoopbackIPv4 @ CHR '':'' # pt"
      using same na by (simp add: normalizeTarget_def JoinHostPort_def LoopbackIPv4_def)
    moreover have "list_all (\<lambda>c. \<not> lower_letter c) (LoopbackIPv4 @ CHR '':'' # pt)"
      using pt port_char_not by (auto simp: list_all_iff LoopbackIPv4_def byte_of_def lower_letter_def)
    ultimately have "TrimSpace t = LoopbackIPv4 @ CHR '':'' # pt" by (rule ToLower_fixed [rotated])
    then have "TrimSpace t = JoinHostPort LoopbackIPv4 pt" by (simp add: JoinHostPort_def LoopbackIPv4_def)
    moreover have "SplitHostPort (JoinHostPort LoopbackIPv4 pt) = Inr (LoopbackIPv4, pt)"
      using pt port_char_not by (intro Split_JoinHostPort) (auto simp: LoopbackIPv4_def list_all_iff)
    ultimately show ?thesis using Inl by simp
  next
    case (Inr hp)
    obtain h pt' where hp: "hp = (h, pt')" by (cases hp)
    have "JoinHostPort (ToLower (TrimSet h ''[]'')) pt' = JoinHostPort LoopbackIPv4 pt"
      using same na Inr by (simp add: normalizeTarget_def hp)
    then have "ToLower (TrimSet h ''[]'') = LoopbackIPv4 \<and> pt' = pt"
      by (rule JoinHostPort_inj [rotated 2]) (use Inr hp a(1) in \<open>auto dest: SplitHostPort_port\<close>)
    then show ?thesis using Inr hp a(2,4,5) lower_is_loopback by (simp add: split_host_port_def)
  qed
qed

lemma filter_unique_key: "distinct (map k xs) \<Longrightarrow> x \<in> set xs \<Longrightarrow> filter (\<lambda>y. k y = k x) xs = [x]"
proof (induction xs)
  case (Cons a xs)
  show ?case
  proof (cases "x \<in> set xs")
    case True
    then have "k a \<noteq> k x" using Cons.prems by auto
    then show ?thesis using Cons True by simp
  next
    case False
    then have x: "x = a" using Cons.prems by simp
    have "k a \<notin> k ` set xs" using Cons.prems by simp
    then have "k y \<noteq> k a" if "y \<in> set xs" for y using that by (metis imageI)
    then have "filter (\<lambda>y. k y = k a) xs = []" by (simp add: filter_empty_conv)
    then show ?thesis using x by simp
  qed
qed simp

text \<open>The address a validated reverse forward listens on.\<close>

lemma configured_addr_split:
  assumes "is_reverse f" and "validateReverseListenFields f = None" and "1 \<le> reverse_port f \<and> reverse_port f \<le> 65535"
  shows "split_host_port (configuredReverseListenAddr f) = Inr (LoopbackIPv4, reverse_port f)"
proof (cases "TrimSpace (fwd_ListenAddr f) = []")
  case True
  then have "split_host_port (fwd_ListenAddr f) = split_host_port []" by (simp add: split_host_port_def)
  moreover obtain e where "split_host_port [] = Inl e"
    by (simp add: split_host_port_def SplitHostPort_def last_index_def)
  ultimately have "0 < fwd_ListenPort f" "reverse_port f = fwd_ListenPort f"
    using assms(3) by (auto simp: reverse_port_def split: if_splits)
  then show ?thesis
    using True assms(3) split_join_loopback [of "fwd_ListenPort f"] by (simp add: configuredReverseListenAddr_def)
next
  case False
  have dir: "TrimSpace (fwd_Direction f) = DirectionServerToClient"
    using assms(1) by (auto simp: is_reverse_def effective_direction_def Let_def split: if_splits)
  obtain p where p: "split_host_port (fwd_ListenAddr f) = Inr (LoopbackIPv4, p)"
    and eq: "fwd_ListenPort f = 0 \<or> fwd_ListenPort f = p" and "0 \<le> fwd_ListenPort f"
    using assms(2) dir False by (auto simp: validateReverseListenFields_def split: if_splits sum.splits)
  then have "reverse_port f = p" by (auto simp: reverse_port_def)
  then show ?thesis using p False by (simp add: configuredReverseListenAddr_def split_TrimSpace)
qed

text \<open>C3. Under a validated configuration, a reverse listener is granted only on 127.0.0.1, on the port
  of a configured reverse forward, to the single user that forward belongs to; no other reverse
  forward has the port, so the address has exactly one owner.\<close>

theorem authorizeReverse_sound:
  assumes valid: "ValidateConfig cfg = None"
    and ok: "authorizeReverse (cfg_Forwards cfg) username listenAddr = None"
  shows "\<exists>f \<in> set (cfg_Forwards cfg). is_reverse f
     \<and> split_host_port listenAddr = Inr (LoopbackIPv4, reverse_port f)
     \<and> TrimSpace ` set (fwd_AllowedUsers f) = {TrimSpace username}
     \<and> filter (\<lambda>g. is_reverse g \<and> reverse_port g = reverse_port f) (cfg_Forwards cfg) = [f]"
proof -
  obtain f where f: "f \<in> set (cfg_Forwards cfg)" "TrimSpace (fwd_Direction f) = DirectionServerToClient"
    "normalizeTarget (configuredReverseListenAddr f) = normalizeTarget listenAddr"
    "TrimSpace username \<in> TrimSpace ` set (fwd_AllowedUsers f)"
    using ok by (auto simp: authorizeReverse_def Let_def allowedUser_iff split: option.splits if_splits dest!: find_SomeD)
  have rev: "is_reverse f" using f(2) by (simp add: is_reverse_def effective_direction_def)
  note V = validated_forwards [OF valid]
  have len: "length (fwd_AllowedUsers f) = 1" and port: "1 \<le> reverse_port f \<and> reverse_port f \<le> 65535"
    using V(1) f(1) rev by (auto simp: forward_ok_def)
  obtain a where "fwd_AllowedUsers f = [a]" using len by (cases "fwd_AllowedUsers f") auto
  then have owner: "TrimSpace ` set (fwd_AllowedUsers f) = {TrimSpace username}" using f(4) by simp
  have "split_host_port (configuredReverseListenAddr f) = Inr (LoopbackIPv4, reverse_port f)"
    using configured_addr_split rev V(3) f(1) port by blast
  then have addr: "split_host_port listenAddr = Inr (LoopbackIPv4, reverse_port f)"
    by (rule normalizeTarget_loopback [OF _ f(3) [symmetric]])
  have "filter (\<lambda>g. reverse_port g = reverse_port f) (filter is_reverse (cfg_Forwards cfg)) = [f]"
    by (rule filter_unique_key [OF V(2)]) (use f(1) rev in auto)
  then have "filter (\<lambda>g. is_reverse g \<and> reverse_port g = reverse_port f) (cfg_Forwards cfg) = [f]"
    by (simp add: conj_commute)
  then show ?thesis using f(1) rev addr owner by blast
qed

theorem authorizeReverse_sound_witness:
  "\<exists>f \<in> set (cfg_Forwards sample_config). is_reverse f
     \<and> split_host_port ''127.0.0.1:9022'' = Inr (LoopbackIPv4, reverse_port f)
     \<and> TrimSpace ` set (fwd_AllowedUsers f) = {TrimSpace ''alice''}
     \<and> filter (\<lambda>g. is_reverse g \<and> reverse_port g = reverse_port f) (cfg_Forwards sample_config) = [f]"
proof -
  have "authorizeReverse (cfg_Forwards sample_config) ''alice'' ''127.0.0.1:9022'' = None"
    by code_simp
  then show ?thesis by (rule authorizeReverse_sound [OF sample_valid])
qed

section \<open>Registered reverse listeners\<close>

lemma prepare_forward_marks:
  "isConfiguredReverseListener (prepare_forward f m) a \<longleftrightarrow>
   isConfiguredReverseListener m a \<or>
   (TrimSpace (fwd_Direction f) = DirectionServerToClient \<and>
    (\<exists>p. split_host_port (fwd_ListenAddr f) = Inr (LoopbackIPv4, p)) \<and>
    normalizeTarget (fwd_ListenAddr f) = normalizeTarget a)"
  using split_nonblank [of "fwd_ListenAddr f"]
  by (auto simp: prepare_forward_def isConfiguredReverseListener_def markConfiguredReverseListener_def Let_def
      split_TrimSpace LoopbackIPv4_def gomap_simps split: sum.splits)

lemma prepare_marks:
  "isConfiguredReverseListener (prepareConfiguredForwards fs m) a \<longleftrightarrow>
   isConfiguredReverseListener m a \<or>
   (\<exists>f \<in> set fs. TrimSpace (fwd_Direction f) = DirectionServerToClient \<and>
    (\<exists>p. split_host_port (fwd_ListenAddr f) = Inr (LoopbackIPv4, p)) \<and>
    normalizeTarget (fwd_ListenAddr f) = normalizeTarget a)"
  unfolding prepareConfiguredForwards_def
  by (induction fs arbitrary: m) (auto simp: prepare_forward_marks)

text \<open>C32. The forward check agrees with what it announces: after start-up, a check of a
  server-to-client forward succeeds only if listening there would be authorized for the same
  user and the address is one that start-up registered, and a check in the default direction
  succeeds exactly when the open request itself would be authorized.\<close>

theorem forwardCheck_agrees:
  assumes "effective_direction direction = DirectionServerToClient \<longrightarrow> TrimSpace listenAddr \<noteq> []"
  shows "authorizeForwardCheck forwards (prepareConfiguredForwards forwards []) username direction target listenAddr = None
    \<longleftrightarrow> (if effective_direction direction = DirectionClientToServer
         then authorizeOpen forwards username direction target = None
         else effective_direction direction = DirectionServerToClient \<and>
              authorizeReverse forwards username (TrimSpace listenAddr) = None \<and>
              (\<exists>f \<in> set forwards. TrimSpace (fwd_Direction f) = DirectionServerToClient \<and>
                 (\<exists>p. split_host_port (fwd_ListenAddr f) = Inr (LoopbackIPv4, p)) \<and>
                 normalizeTarget (fwd_ListenAddr f) = normalizeTarget listenAddr))"
proof -
  have "\<not> isConfiguredReverseListener [] a" for a by (simp add: isConfiguredReverseListener_def)
  then show ?thesis
    using assms by (auto simp: authorizeForwardCheck_def authorizeOpen_def effective_direction_def Let_def prepare_marks
        split: if_splits)
qed

theorem forwardCheck_agrees_witness:
  "authorizeReverse (cfg_Forwards (ApplyDefaults sample_config)) ''alice'' (TrimSpace ''127.0.0.1:9022'') = None"
proof -
  let ?F = "cfg_Forwards (ApplyDefaults sample_config)"
  have "authorizeForwardCheck ?F (prepareConfiguredForwards ?F []) ''alice'' ''server_to_client'' [] ''127.0.0.1:9022'' = None"
    by code_simp
  moreover have "effective_direction ''server_to_client'' \<noteq> DirectionClientToServer" by code_simp
  moreover have "TrimSpace ''127.0.0.1:9022'' \<noteq> []" by (simp add: TrimSpace_visible visible_def byte_of_def)
  ultimately show ?thesis
    using forwardCheck_agrees [of "''server_to_client''" "''127.0.0.1:9022''" ?F "''alice''" "[]"] by simp
qed

end
