(* ===== verification/Fail_Tracker.thy ===== *)
theory Fail_Tracker
  imports Go_Files Addresses Server_Config
begin

text \<open>
  Failure counting and blocking of addresses: \<open>src/server/tunnel/fail_tracker.go\<close>,
  \<open>fail_persistence.go\<close>, \<open>permanent_blocks.go\<close> and the operations of
  \<open>successful_ip_history.go\<close> on the tracker. Every operation takes an environment: the clock
  reading, the local zone, the file system's faults, the JSON codec of the state file, and the
  order in which the map is visited; it threads the tracker and the files. Methods hold the mutex,
  so each is one step.
\<close>

section \<open>Permanent block list\<close>

text \<open>
  \<open>bufio.Scanner\<close> with its default line splitter: lines end at a newline, a carriage return
  before it is dropped, a line longer than the buffer stops the scan with an error.
\<close>

definition drop_cr :: "string \<Rightarrow> string" where
  "drop_cr l = (if l \<noteq> [] \<and> last l = CHR 0x0D then butlast l else l)"

definition MaxScanTokenSize :: nat where
  "MaxScanTokenSize = 65536"

definition ErrTooLong :: go_error where
  "ErrTooLong = Sentinel ''bufio.Scanner: token too long''"

text \<open>The lines of a scan and the scanner's error: a raw line that does not fit stops it.\<close>

definition scan_buffer :: "nat \<Rightarrow> string \<Rightarrow> string list \<times> go_error option" where
  "scan_buffer limit data =
     (let ls = SplitChar (CHR 0x0A) data; ls = (if last ls = [] then butlast ls else ls)
      in if list_all (\<lambda>l. length l < limit) ls then (map drop_cr ls, None)
         else (map drop_cr (takeWhile (\<lambda>l. length l < limit) ls), Some ErrTooLong))"

definition block_entry :: "string \<Rightarrow> string option" where
  "block_entry line = (let ip = TrimSpace line in if ip = [] \<or> HasPrefix ip ''#'' then None else Some ip)"

definition loadPermanentBlockedIPs :: "os_env \<Rightarrow> files \<Rightarrow> string \<Rightarrow> string list res" where
  "loadPermanentBlockedIPs env fs path =
     (let path = TrimSpace path
      in if path = [] then Inr []
         else (case ReadFile env fs (Clean path) of
                 Inl err \<Rightarrow> if IsNotExist err then Inr [] else Inl err
               | Inr data \<Rightarrow>
                  (case scan_buffer MaxScanTokenSize data of
                     (lines, Some err) \<Rightarrow> Inl err
                   | (lines, None) \<Rightarrow> Inr (List.map_filter block_entry lines))))"

definition newline :: string where
  "newline = [CHR 0x0A]"

definition appendPermanentBlockedIP :: "os_env \<Rightarrow> files \<Rightarrow> string \<Rightarrow> string \<Rightarrow> files \<times> go_error option" where
  "appendPermanentBlockedIP env fs path ip =
     (let path = TrimSpace path; ip = TrimSpace ip
      in if path = [] \<or> ip = [] then (fs, None)
         else let path = Clean path
         in (case MkdirAll env (DirPath path) of
               Some err \<Rightarrow> (fs, Some err)
             | None \<Rightarrow> AppendFile env fs path (ip @ newline)))"

definition permanentBlockIPKey :: "string \<Rightarrow> string" where
  "permanentBlockIPKey val =
     (let val = TrimSpace val
      in if val = [] then [] else (case ParseIP val of Some ip \<Rightarrow> IPString ip | None \<Rightarrow> val))"

text \<open>\<open>strings.ReplaceAll\<close> of CRLF and then of CR by LF.\<close>

fun unify_newlines :: "string \<Rightarrow> string" where
  "unify_newlines [] = []"
| "unify_newlines (c # s) =
     (if c = CHR 0x0D
      then (case s of d # r \<Rightarrow> if d = CHR 0x0A then CHR 0x0A # unify_newlines r else CHR 0x0A # unify_newlines s
                    | [] \<Rightarrow> [CHR 0x0A])
      else c # unify_newlines s)"

definition removePermanentBlockedIPs ::
    "os_env \<Rightarrow> files \<Rightarrow> string \<Rightarrow> string list \<Rightarrow> files \<times> string list res" where
  "removePermanentBlockedIPs env fs path ips =
     (let path = TrimSpace path
      in if path = [] \<or> ips = [] then (fs, Inr [])
         else let path = Clean path; targets = filter (\<lambda>k. k \<noteq> []) (map permanentBlockIPKey ips)
         in if targets = [] then (fs, Inr [])
            else (case ReadFile env fs path of
              Inl err \<Rightarrow> if IsNotExist err then (fs, Inr []) else (fs, Inl err)
            | Inr data \<Rightarrow>
               (let text = unify_newlines data;
                    hasTrailingNewline = HasSuffix text newline;
                    lines = SplitChar (CHR 0x0A) text;
                    lines = (if hasTrailingNewline then butlast lines else lines);
                    removed = filter (\<lambda>k. k \<in> set targets) (map permanentBlockIPKey lines);
                    kept = filter (\<lambda>line. permanentBlockIPKey line \<notin> set targets) lines
                in if removed = [] then (fs, Inr [])
                   else let out = join_char (CHR 0x0A) kept @ (if hasTrailingNewline \<and> kept \<noteq> [] then newline else [])
                   in (case WriteFile env fs path out of
                         (fs, Some err) \<Rightarrow> (fs, Inl err)
                       | (fs, None) \<Rightarrow> (fs, Inr removed)))))"

definition RemovePermanentBlockedIP :: "os_env \<Rightarrow> files \<Rightarrow> string \<Rightarrow> string \<Rightarrow> files \<times> bool res" where
  "RemovePermanentBlockedIP env fs path ip =
     (let key = permanentBlockIPKey ip
      in if key = [] then (fs, Inr False)
         else (case removePermanentBlockedIPs env fs path [key] of
                 (fs, Inl err) \<Rightarrow> (fs, Inl err)
               | (fs, Inr removed) \<Rightarrow> (fs, Inr (key \<in> set removed))))"

section \<open>State of the tracker\<close>

record failState =
  fs_authFailures :: "time list"
  fs_protocolFailures :: "time list"
  fs_blockedUntil :: time
  fs_lastSeen :: time

record failTracker =
  ft_window :: duration
  ft_limit :: int
  ft_blockFor :: duration
  ft_maxItems :: int
  ft_cleanupEvery :: duration
  ft_successfulDate :: string
  ft_successfulIPs :: "string list"
  ft_items :: "(string, failState) gomap"
  ft_permanent :: "string list"
  ft_stateFile :: string
  ft_permanentFile :: string
  ft_evicted :: nat
  ft_capacityDrop :: nat

datatype block_kind = BlockedNone | BlockedTemporary | BlockedPermanent

type_synonym persisted = "(string \<times> time) list"

record fail_env =
  fe_now :: time
  fe_tz :: "time \<Rightarrow> int"
  fe_os :: os_env
  fe_encode :: "persisted \<Rightarrow> string"
  fe_range :: "(string \<times> failState) list \<Rightarrow> (string \<times> failState) list"

definition newFailTracker :: "securityConfig \<Rightarrow> string \<Rightarrow> string \<Rightarrow> failTracker" where
  "newFailTracker cfg stateFile permanentFile =
     (let maxItems = (if sec_MaxTrackedFailureIPs cfg \<le> 0 then 8192 else sec_MaxTrackedFailureIPs cfg);
          cleanupEvery = seconds (sec_FailureTrackerCleanupSec cfg);
          cleanupEvery = (if cleanupEvery \<le> 0 then minute else cleanupEvery)
      in \<lparr>ft_window = seconds (sec_AuthFailWindowSec cfg), ft_limit = sec_AuthFailThreshold cfg,
          ft_blockFor = seconds (sec_AuthFailBlockSec cfg), ft_maxItems = maxItems, ft_cleanupEvery = cleanupEvery,
          ft_successfulDate = [], ft_successfulIPs = [], ft_items = [], ft_permanent = [],
          ft_stateFile = TrimSpace stateFile, ft_permanentFile = TrimSpace permanentFile,
          ft_evicted = 0, ft_capacityDrop = 0\<rparr>)"

section \<open>Persistence of temporary blocks\<close>

definition state_to_save :: "fail_env \<Rightarrow> failTracker \<Rightarrow> persisted" where
  "state_to_save env f =
     map (\<lambda>(ip, item). (ip, fs_blockedUntil item))
       (filter (\<lambda>(ip, item). fs_blockedUntil item > fe_now env) (fe_range env (ft_items f)))"

definition saveLocked :: "fail_env \<Rightarrow> failTracker \<Rightarrow> files \<Rightarrow> files \<times> go_error option" where
  "saveLocked env f fs =
     (if ft_stateFile f = [] then (fs, None)
      else (case MkdirAll (fe_os env) (DirPath (ft_stateFile f)) of
              Some err \<Rightarrow> (fs, Some err)
            | None \<Rightarrow> WriteFile (fe_os env) fs (ft_stateFile f) (fe_encode env (state_to_save env f))))"

section \<open>Tracking\<close>

definition hasPermanent :: "failTracker \<Rightarrow> string \<Rightarrow> bool" where
  "hasPermanent f key = (key \<in> set (ft_permanent f))"

definition appendRecentFailures :: "time list \<Rightarrow> time \<Rightarrow> time list" where
  "appendRecentFailures items cutoff = filter (\<lambda>item. item > cutoff) items"

definition clean_state :: "failTracker \<Rightarrow> time \<Rightarrow> failState \<Rightarrow> failState" where
  "clean_state f now state = state
     \<lparr>fs_authFailures := appendRecentFailures (fs_authFailures state) (now - ft_window f),
      fs_protocolFailures := appendRecentFailures (fs_protocolFailures state) (now - ft_window f),
      fs_blockedUntil := (if fs_blockedUntil state \<noteq> 0 \<and> \<not> fs_blockedUntil state > now then 0 else fs_blockedUntil state)\<rparr>"

definition idle_state :: "failState \<Rightarrow> bool" where
  "idle_state state \<longleftrightarrow> fs_blockedUntil state = 0 \<and> fs_authFailures state = [] \<and> fs_protocolFailures state = []"

definition clean_items :: "failTracker \<Rightarrow> time \<Rightarrow> (string, failState) gomap" where
  "clean_items f now = filter (\<lambda>(k, st). \<not> idle_state st) (map (\<lambda>(k, st). (k, clean_state f now st)) (ft_items f))"

definition cleanupLocked :: "failTracker \<Rightarrow> time \<Rightarrow> failTracker \<times> bool" where
  "cleanupLocked f now =
     (f\<lparr>ft_items := clean_items f now\<rparr>,
      \<exists>(k, st) \<in> set (ft_items f).
         length (fs_authFailures (clean_state f now st)) \<noteq> length (fs_authFailures st) \<or>
         length (fs_protocolFailures (clean_state f now st)) \<noteq> length (fs_protocolFailures st) \<or>
         (fs_blockedUntil st \<noteq> 0 \<and> \<not> fs_blockedUntil st > now) \<or>
         idle_state (clean_state f now st))"

definition blocked_now :: "time \<Rightarrow> failState \<Rightarrow> bool" where
  "blocked_now now st \<longleftrightarrow> fs_blockedUntil st \<noteq> 0 \<and> fs_blockedUntil st > now"

definition fresh_fail :: "time \<Rightarrow> failState" where
  "fresh_fail now = \<lparr>fs_authFailures = [], fs_protocolFailures = [], fs_blockedUntil = 0, fs_lastSeen = now\<rparr>"

text \<open>The result is the tracker and, when the key may be tracked, its trimmed form.\<close>

definition trackStateLocked :: "fail_env \<Rightarrow> failTracker \<Rightarrow> string \<Rightarrow> failTracker \<times> string option" where
  "trackStateLocked env f key =
     (let key = TrimSpace key; now = fe_now env
      in if key = [] \<or> hasPermanent f key then (f, None)
         else (case map_of (ft_items f) key of
           Some state \<Rightarrow> (f\<lparr>ft_items := AList.update key (state\<lparr>fs_lastSeen := now\<rparr>) (ft_items f)\<rparr>, Some key)
         | None \<Rightarrow>
            (let f = (if int (length (ft_items f)) \<ge> ft_maxItems f then fst (cleanupLocked f now) else f)
             in if int (length (ft_items f)) \<ge> ft_maxItems f
                then (case scan_oldest (blocked_now now) fs_lastSeen (fe_range env (ft_items f)) ([], 0) of
                        (oldestKey, oldest) \<Rightarrow>
                          if oldestKey = [] then (f\<lparr>ft_capacityDrop := ft_capacityDrop f + 1\<rparr>, None)
                          else (f\<lparr>ft_items := AList.update key (fresh_fail now) (AList.delete oldestKey (ft_items f)),
                                  ft_evicted := ft_evicted f + 1\<rparr>, Some key))
                else (f\<lparr>ft_items := AList.update key (fresh_fail now) (ft_items f)\<rparr>, Some key))))"

section \<open>Operations\<close>

type_synonym tracked = "failTracker \<times> files"

definition blockKind :: "fail_env \<Rightarrow> tracked \<Rightarrow> string \<Rightarrow> tracked \<times> block_kind" where
  "blockKind env s key =
     (case s of (f, fs) \<Rightarrow>
       if hasPermanent f key then (s, BlockedPermanent)
       else (case map_of (ft_items f) key of
         None \<Rightarrow> (s, BlockedNone)
       | Some state \<Rightarrow>
          if fs_blockedUntil state = 0 then (s, BlockedNone)
          else if fe_now env < fs_blockedUntil state then (s, BlockedTemporary)
          else let f = (if fs_authFailures state = [] \<and> fs_protocolFailures state = []
                        then f\<lparr>ft_items := AList.delete key (ft_items f)\<rparr>
                        else f\<lparr>ft_items := AList.update key (state\<lparr>fs_blockedUntil := 0\<rparr>) (ft_items f)\<rparr>)
               in ((f, fst (saveLocked env f fs)), BlockedNone)))"

definition isBlocked :: "fail_env \<Rightarrow> tracked \<Rightarrow> string \<Rightarrow> tracked \<times> bool" where
  "isBlocked env s key = (case blockKind env s key of (s, k) \<Rightarrow> (s, k \<noteq> BlockedNone))"

definition addFailure :: "fail_env \<Rightarrow> tracked \<Rightarrow> string \<Rightarrow> tracked" where
  "addFailure env s key =
     (case s of (f, fs) \<Rightarrow>
      (case trackStateLocked env f key of
         (f, None) \<Rightarrow> (f, fs)
       | (f, Some k) \<Rightarrow>
          if hasPermanent f key then (f, fs)
          else let now = fe_now env; state = the (map_of (ft_items f) k);
                   auth = appendRecentFailures (fs_authFailures state) (now - ft_window f) @ [now];
                   state = state\<lparr>fs_authFailures := auth, fs_lastSeen := now\<rparr>
          in if int (length auth) \<ge> ft_limit f
             then let f = f\<lparr>ft_items := AList.update k (state\<lparr>fs_blockedUntil := now + ft_blockFor f, fs_authFailures := []\<rparr>)
                                          (ft_items f)\<rparr>
                  in (f, fst (saveLocked env f fs))
             else (f\<lparr>ft_items := AList.update k state (ft_items f)\<rparr>, fs)))"

definition blockPermanentLocked :: "fail_env \<Rightarrow> tracked \<Rightarrow> string \<Rightarrow> tracked \<times> bool" where
  "blockPermanentLocked env s key =
     (case s of (f, fs) \<Rightarrow>
       let key = TrimSpace key
       in if key = [] then (s, False)
          else if hasPermanent f key then (s, False)
          else (case appendPermanentBlockedIP (fe_os env) fs (ft_permanentFile f) key of
                  (fs, Some err) \<Rightarrow> ((f, fs), False)
                | (fs, None) \<Rightarrow>
                    let f = f\<lparr>ft_permanent := key # ft_permanent f, ft_items := AList.delete key (ft_items f)\<rparr>
                    in ((f, fst (saveLocked env f fs)), True)))"

section \<open>Successful addresses\<close>

definition canonicalSuccessfulIP :: "string \<Rightarrow> string option" where
  "canonicalSuccessfulIP val = map_option IPString (ParseIP (TrimSpace val))"

definition local_date :: "fail_env \<Rightarrow> string" where
  "local_date env = date_text (fe_tz env (fe_now env)) (fe_now env)"

definition rotateSuccessfulIPsLocked :: "fail_env \<Rightarrow> failTracker \<Rightarrow> failTracker" where
  "rotateSuccessfulIPsLocked env f =
     (if ft_successfulDate f = local_date env then f
      else f\<lparr>ft_successfulDate := local_date env, ft_successfulIPs := []\<rparr>)"

definition successfulTodayLocked :: "fail_env \<Rightarrow> failTracker \<Rightarrow> string \<Rightarrow> failTracker \<times> bool" where
  "successfulTodayLocked env f key =
     (let f = rotateSuccessfulIPsLocked env f in (f, key \<in> set (ft_successfulIPs f)))"

definition markSuccessful :: "fail_env \<Rightarrow> failTracker \<Rightarrow> string \<Rightarrow> failTracker \<times> bool" where
  "markSuccessful env f key =
     (case canonicalSuccessfulIP key of
        None \<Rightarrow> (f, False)
      | Some key \<Rightarrow>
         (let f = rotateSuccessfulIPsLocked env f
          in if key \<notin> set (ft_successfulIPs f) \<and> int (length (ft_successfulIPs f)) \<ge> ft_maxItems f then (f, False)
             else let f = f\<lparr>ft_successfulIPs := (if key \<in> set (ft_successfulIPs f) then ft_successfulIPs f
                                                 else key # ft_successfulIPs f)\<rparr>
             in (case map_of (ft_items f) key of
                   None \<Rightarrow> (f, True)
                 | Some state \<Rightarrow>
                     (f\<lparr>ft_items := AList.update key (state\<lparr>fs_protocolFailures := []\<rparr>) (ft_items f)\<rparr>, True))))"

definition addProtocolFailure :: "fail_env \<Rightarrow> tracked \<Rightarrow> string \<Rightarrow> tracked \<times> bool" where
  "addProtocolFailure env s key =
     (case s of (f, fs) \<Rightarrow>
       let key = (case canonicalSuccessfulIP key of Some canonical \<Rightarrow> canonical | None \<Rightarrow> key)
       in (case successfulTodayLocked env f key of
             (f, True) \<Rightarrow> ((f, fs), False)
           | (f, False) \<Rightarrow>
              (case trackStateLocked env f key of
                 (f, None) \<Rightarrow> ((f, fs), False)
               | (f, Some k) \<Rightarrow>
                  if hasPermanent f key then ((f, fs), False)
                  else let now = fe_now env; state = the (map_of (ft_items f) k);
                           proto = appendRecentFailures (fs_protocolFailures state) (now - ft_window f) @ [now];
                           state = state\<lparr>fs_protocolFailures := proto, fs_lastSeen := now\<rparr>
                  in if int (length proto) \<ge> ft_limit f
                     then blockPermanentLocked env
                            (f\<lparr>ft_items := AList.update k (state\<lparr>fs_blockedUntil := 0, fs_authFailures := [],
                                 fs_protocolFailures := []\<rparr>) (ft_items f)\<rparr>, fs) key
                     else ((f\<lparr>ft_items := AList.update k state (ft_items f)\<rparr>, fs), False))))"

definition failCleanup :: "fail_env \<Rightarrow> tracked \<Rightarrow> tracked \<times> go_error option" where
  "failCleanup env s =
     (case s of (f, fs) \<Rightarrow>
      (case cleanupLocked f (fe_now env) of
         (f, changed) \<Rightarrow>
           if \<not> changed then ((f, fs), None)
           else (case saveLocked env f fs of (fs, err) \<Rightarrow> ((f, fs), err))))"

record failTrackerStats =
  fts_TrackedIPs :: int
  fts_MaxTrackedIPs :: int
  fts_EvictedIPs :: nat
  fts_CapacityDrops :: nat

definition failStats :: "failTracker option \<Rightarrow> failTrackerStats" where
  "failStats fo = (case fo of
     None \<Rightarrow> \<lparr>fts_TrackedIPs = 0, fts_MaxTrackedIPs = 0, fts_EvictedIPs = 0, fts_CapacityDrops = 0\<rparr>
   | Some f \<Rightarrow> \<lparr>fts_TrackedIPs = int (length (ft_items f)), fts_MaxTrackedIPs = ft_maxItems f,
                fts_EvictedIPs = ft_evicted f, fts_CapacityDrops = ft_capacityDrop f\<rparr>)"

definition unblock :: "fail_env \<Rightarrow> tracked \<Rightarrow> string \<Rightarrow> tracked \<times> bool \<times> go_error option" where
  "unblock env s key =
     (case s of (f, fs) \<Rightarrow>
       let key = TrimSpace key
       in if key = [] then (s, False, None)
          else let removed = (map_of (ft_items f) key \<noteq> None); f = f\<lparr>ft_items := AList.delete key (ft_items f)\<rparr>
          in (case saveLocked env f fs of (fs, err) \<Rightarrow> ((f, fs), removed, err)))"

definition unblockPermanent :: "fail_env \<Rightarrow> tracked \<Rightarrow> string \<Rightarrow> tracked \<times> bool res" where
  "unblockPermanent env s key =
     (case s of (f, fs) \<Rightarrow>
       let key = TrimSpace key
       in if key = [] then (s, Inr False)
          else let memoryKey = permanentBlockIPKey key; inMemory = hasPermanent f memoryKey
          in (case RemovePermanentBlockedIP (fe_os env) fs (ft_permanentFile f) key of
                (fs, Inl err) \<Rightarrow> ((f, fs), Inl err)
              | (fs, Inr removed) \<Rightarrow>
                  if removed \<or> inMemory
                  then ((f\<lparr>ft_permanent := filter (\<lambda>k. k \<noteq> memoryKey) (ft_permanent f)\<rparr>, fs), Inr True)
                  else ((f, fs), Inr False)))"

definition removePermanentSuccessful :: "fail_env \<Rightarrow> tracked \<Rightarrow> string list \<Rightarrow> tracked \<times> int res" where
  "removePermanentSuccessful env s ips =
     (case s of (f, fs) \<Rightarrow>
       if ips = [] then (s, Inr 0)
       else (case removePermanentBlockedIPs (fe_os env) fs (ft_permanentFile f) ips of
               (fs, Inl err) \<Rightarrow> ((f, fs), Inl err)
             | (fs, Inr removed) \<Rightarrow>
                 ((f\<lparr>ft_permanent := filter (\<lambda>k. k \<notin> set removed) (ft_permanent f)\<rparr>, fs),
                  Inr (int (length (remdups removed))))))"

section \<open>Loading and administration\<close>

text \<open>\<open>decode\<close> reads the JSON of the state file; times are instants.\<close>

definition load_blocks :: "time \<Rightarrow> persisted \<Rightarrow> (string, failState) gomap \<Rightarrow> (string, failState) gomap" where
  "load_blocks now saved items =
     fold (\<lambda>(ip, till) items. if ip = [] \<or> \<not> till > now then items
             else AList.update ip ((fresh_fail now)\<lparr>fs_blockedUntil := till\<rparr>) items) saved items"

text \<open>The loop over the loaded permanent entries: the keys kept, and loopback names taken out of the file.\<close>

fun load_permanent_loop ::
    "os_env \<Rightarrow> string \<Rightarrow> string list \<Rightarrow> files \<Rightarrow> string list \<Rightarrow> go_error option \<Rightarrow> files \<times> string list \<times> go_error option" where
  "load_permanent_loop env path [] fs keys cleanupErr = (fs, keys, cleanupErr)"
| "load_permanent_loop env path (ip # ips) fs keys cleanupErr =
     (if \<not> isLoopbackName ip
      then (let key = permanentBlockIPKey ip
            in load_permanent_loop env path ips fs (if key \<noteq> [] then key # keys else keys) cleanupErr)
      else (case RemovePermanentBlockedIP env fs path ip of
              (fs, Inl err) \<Rightarrow> load_permanent_loop env path ips fs keys (if cleanupErr = None then Some err else cleanupErr)
            | (fs, Inr _) \<Rightarrow> load_permanent_loop env path ips fs keys cleanupErr))"

definition load_permanent ::
    "fail_env \<Rightarrow> (string list \<Rightarrow> string list) \<Rightarrow> tracked \<Rightarrow> tracked \<times> go_error option" where
  "load_permanent env rng s =
     (case s of (f, fs) \<Rightarrow>
       (case loadPermanentBlockedIPs (fe_os env) fs (ft_permanentFile f) of
          Inl err \<Rightarrow> (s, Some err)
        | Inr perm \<Rightarrow>
           (case load_permanent_loop (fe_os env) (ft_permanentFile f) (rng (remdups perm)) fs [] None of
              (fs, keys, cleanupErr) \<Rightarrow>
                ((f\<lparr>ft_permanent := remdups (keys @ filter (\<lambda>ip. \<not> isLoopbackName ip) (ft_permanent f)),
                    ft_items := filter (\<lambda>(k, st). k \<notin> set keys) (ft_items f)\<rparr>, fs), cleanupErr))))"

definition load_tracker ::
    "fail_env \<Rightarrow> (string \<Rightarrow> persisted res) \<Rightarrow> (string list \<Rightarrow> string list) \<Rightarrow> tracked \<Rightarrow> tracked \<times> go_error option" where
  "load_tracker env decode rng s =
     (case s of (f, fs) \<Rightarrow>
       if ft_stateFile f = [] then load_permanent env rng s
       else (case ReadFile (fe_os env) fs (ft_stateFile f) of
               Inl err \<Rightarrow> if IsNotExist err then load_permanent env rng s else (s, Some err)
             | Inr data \<Rightarrow>
                (case decode data of
                   Inl err \<Rightarrow> (s, Some err)
                 | Inr saved \<Rightarrow>
                     load_permanent env rng (f\<lparr>ft_items := load_blocks (fe_now env) saved (ft_items f)\<rparr>, fs))))"

record blockedIPState =
  bs_IP :: string
  bs_BlockedUntil :: string
  bs_RemainingSec :: int

definition block_view :: "fail_env \<Rightarrow> string \<Rightarrow> time \<Rightarrow> blockedIPState" where
  "block_view env ip till = \<lparr>bs_IP = ip, bs_BlockedUntil = format_rfc3339 (fe_tz env till) till,
     bs_RemainingSec = (till - fe_now env) div second\<rparr>"

definition snapshotBlocked :: "fail_env \<Rightarrow> failTracker option \<Rightarrow> blockedIPState list" where
  "snapshotBlocked env fo = (case fo of None \<Rightarrow> [] | Some f \<Rightarrow>
     map (\<lambda>(ip, item). block_view env ip (fs_blockedUntil item))
       (filter (\<lambda>(ip, item). blocked_now (fe_now env) item) (fe_range env (ft_items f))))"

definition live_block :: "time \<Rightarrow> string \<times> time \<Rightarrow> bool" where
  "live_block now item \<longleftrightarrow> fst item \<noteq> [] \<and> snd item \<noteq> 0 \<and> snd item > now"

definition blockedIPStates :: "fail_env \<Rightarrow> persisted \<Rightarrow> blockedIPState list" where
  "blockedIPStates env items = map (\<lambda>(ip, till). block_view env ip till) (filter (live_block (fe_now env)) items)"

definition LoadBlockedIPs :: "fail_env \<Rightarrow> (string \<Rightarrow> persisted res) \<Rightarrow> files \<Rightarrow> string \<Rightarrow> blockedIPState list res" where
  "LoadBlockedIPs env decode fs stateFile =
     (let stateFile = TrimSpace stateFile
      in if stateFile = [] then Inr []
         else let stateFile = Clean stateFile
         in if stateFile = ''.'' then Inr []
            else (case ReadFile (fe_os env) fs stateFile of
                    Inl err \<Rightarrow> if IsNotExist err then Inr [] else Inl err
                  | Inr data \<Rightarrow>
                     (case decode data of Inl err \<Rightarrow> Inl err | Inr saved \<Rightarrow> Inr (blockedIPStates env saved))))"

definition UnblockBlockedIP ::
    "fail_env \<Rightarrow> (string \<Rightarrow> persisted res) \<Rightarrow> files \<Rightarrow> string \<Rightarrow> string \<Rightarrow> files \<times> bool \<times> go_error option" where
  "UnblockBlockedIP env decode fs stateFile ip =
     (let stateFile = TrimSpace stateFile; ip = TrimSpace ip
      in if stateFile = [] \<or> ip = [] then (fs, False, None)
         else let stateFile = Clean stateFile
         in if stateFile = ''.'' then (fs, False, None)
            else (case ReadFile (fe_os env) fs stateFile of
                    Inl err \<Rightarrow> if IsNotExist err then (fs, False, None) else (fs, False, Some err)
                  | Inr data \<Rightarrow>
                     (case decode data of
                        Inl err \<Rightarrow> (fs, False, Some err)
                      | Inr saved \<Rightarrow>
                         (let removed = (\<exists>item \<in> set saved. fst item = ip);
                              kept = filter (\<lambda>item. fst item \<noteq> ip \<and> live_block (fe_now env) item) saved
                          in if \<not> removed then (fs, False, None)
                             else (case MkdirAll (fe_os env) (DirPath stateFile) of
                                     Some err \<Rightarrow> (fs, False, Some err)
                                   | None \<Rightarrow>
                                       (case WriteFile (fe_os env) fs stateFile (fe_encode env kept) of
                                          (fs, err) \<Rightarrow> (fs, True, err)))))))"

end
