(* ===== verification/Fail_Files.thy ===== *)
theory Fail_Files
  imports Fail_Laws
begin

text \<open>
  The block lists on disk: the text file of permanent blocks is read, appended to and filtered line
  by line, and the temporary blocks in the state file survive a restart.
\<close>

section \<open>Text made of lines\<close>

definition lines_text :: "string list \<Rightarrow> string" where
  "lines_text ls = concat (map (\<lambda>l. l @ newline) ls)"

definition one_line :: "string \<Rightarrow> bool" where
  "one_line l \<longleftrightarrow> CHR 0x0A \<notin> set l \<and> CHR 0x0D \<notin> set l \<and> length l < MaxScanTokenSize"

lemma lines_text_simps [simp]:
  "lines_text [] = []" "lines_text (l # ls) = l @ newline @ lines_text ls"
  "lines_text (ls @ ks) = lines_text ls @ lines_text ks"
  by (simp_all add: lines_text_def)

lemma Split_lines_text:
  "\<forall>l \<in> set ls. one_line l \<Longrightarrow> SplitChar (CHR 0x0A) (lines_text ls @ r) = ls @ SplitChar (CHR 0x0A) r"
  by (induction ls) (auto simp: newline_def SplitChar_append one_line_def)

lemma Split_lines_text0: "\<forall>l \<in> set ls. one_line l \<Longrightarrow> SplitChar (CHR 0x0A) (lines_text ls) = ls @ [[]]"
  using Split_lines_text [of ls "[]"] by simp

lemma drop_cr_id: "one_line l \<Longrightarrow> drop_cr l = l"
  by (auto simp: drop_cr_def one_line_def dest: last_in_set)

lemma map_drop_cr: "\<forall>l \<in> set ls. one_line l \<Longrightarrow> map drop_cr ls = ls"
  by (simp add: drop_cr_id map_idI)

lemma scan_lines_text:
  "\<forall>l \<in> set ls. one_line l \<Longrightarrow> scan_buffer MaxScanTokenSize (lines_text ls) = (ls, None)"
  by (simp add: scan_buffer_def Split_lines_text0 map_drop_cr Let_def) (auto simp: one_line_def list_all_iff)

text \<open>A file whose last line is not terminated.\<close>

lemma scan_lines_open:
  "\<forall>l \<in> set ls. one_line l \<Longrightarrow> one_line l \<Longrightarrow> l \<noteq> [] \<Longrightarrow>
   scan_buffer MaxScanTokenSize (lines_text ls @ l) = (ls @ [l], None)"
  using Split_lines_text [of ls l] SplitChar_single [of "CHR 0x0A" l]
  by (simp add: scan_buffer_def map_drop_cr drop_cr_id Let_def one_line_def list_all_iff)

lemma unify_newlines_id: "CHR 0x0D \<notin> set s \<Longrightarrow> unify_newlines s = s"
  by (induction s rule: unify_newlines.induct) auto

lemma lines_text_no_cr: "\<forall>l \<in> set ls. one_line l \<Longrightarrow> CHR 0x0D \<notin> set (lines_text ls)"
  by (induction ls) (auto simp: one_line_def newline_def)

lemma lines_text_suffix: "ls \<noteq> [] \<Longrightarrow> HasSuffix (lines_text ls) newline"
  by (induction ls rule: rev_induct) (simp_all add: HasSuffix_def newline_def)

lemma join_lines: "kept \<noteq> [] \<Longrightarrow> join_char (CHR 0x0A) kept @ newline = lines_text kept"
  by (induction "CHR 0x0A" kept rule: join_char.induct) (simp_all add: newline_def)

section \<open>The permanent list\<close>

definition calm :: "os_env \<Rightarrow> bool" where
  "calm env \<longleftrightarrow> os_read_fault env = (\<lambda>_. None) \<and> os_mkdir_fault env = (\<lambda>_. None) \<and> os_write_fault env = (\<lambda>_. None)"

lemma ReadFile_calm: "calm env \<Longrightarrow> ReadFile env fs p = (case map_of fs p of None \<Rightarrow> Inl ErrNotExist | Some d \<Rightarrow> Inr d)"
  by (simp add: ReadFile_def calm_def)

text \<open>The list file at a path, cleaned as the code does, holding these lines (a missing file holds none).\<close>

definition holds_lines :: "files \<Rightarrow> string \<Rightarrow> string list \<Rightarrow> bool" where
  "holds_lines fs path ls \<longleftrightarrow> TrimSpace path \<noteq> [] \<and> (\<forall>l \<in> set ls. one_line l) \<and>
     (map_of fs (Clean (TrimSpace path)) = Some (lines_text ls) \<or>
      ls = [] \<and> map_of fs (Clean (TrimSpace path)) = None)"

definition entries :: "string list \<Rightarrow> string list" where
  "entries ls = List.map_filter block_entry ls"

lemma entries_append [simp]: "entries (ls @ ks) = entries ls @ entries ks"
  by (simp add: entries_def List.map_filter_def)

lemma load_lines:
  assumes "calm env" and "holds_lines fs path ls"
  shows "loadPermanentBlockedIPs env fs path = Inr (entries ls)"
  using assms by (auto simp: loadPermanentBlockedIPs_def holds_lines_def ReadFile_calm entries_def scan_lines_text
      IsNotExist_def List.map_filter_def Let_def)

definition plain_entry :: "string \<Rightarrow> bool" where
  "plain_entry ip \<longleftrightarrow> ip \<noteq> [] \<and> list_all visible ip \<and> hd ip \<noteq> CHR ''#'' \<and> length ip < MaxScanTokenSize"

lemma plain_trim: "plain_entry ip \<Longrightarrow> TrimSpace ip = ip"
  by (rule TrimSpace_visible) (auto simp: plain_entry_def list_all_iff)

lemma plain_line: "plain_entry ip \<Longrightarrow> one_line ip"
  by (auto simp: plain_entry_def one_line_def list_all_iff visible_def byte_of_def)

lemma plain_block_entry: "plain_entry ip \<Longrightarrow> block_entry ip = Some ip"
  by (cases ip) (auto simp: block_entry_def plain_trim plain_entry_def HasPrefix_def)

lemma append_calm:
  assumes "calm env" and "TrimSpace path \<noteq> []" and "plain_entry ip"
  shows "appendPermanentBlockedIP env fs path ip =
    (AList.update (Clean (TrimSpace path)) ((case map_of fs (Clean (TrimSpace path)) of None \<Rightarrow> [] | Some d \<Rightarrow> d) @ ip @ newline) fs, None)"
  using assms plain_trim [OF assms(3)]
  by (simp add: appendPermanentBlockedIP_def plain_entry_def calm_def MkdirAll_def AppendFile_def Let_def)

text \<open>Blocking an address for good is durable: on a list file made of terminated lines (or not yet
  there), appending an address and reading the file back gives the entries it held before,
  followed by that address, and the file is again made of terminated lines.\<close>

theorem append_then_load:
  assumes "calm env" and "holds_lines fs path ls" and "plain_entry ip"
  shows "\<exists>fs'. appendPermanentBlockedIP env fs path ip = (fs', None) \<and> holds_lines fs' path (ls @ [ip])
     \<and> loadPermanentBlockedIPs env fs path = Inr (entries ls)
     \<and> loadPermanentBlockedIPs env fs' path = Inr (entries ls @ [ip])"
proof -
  let ?p = "Clean (TrimSpace path)"
  have path: "TrimSpace path \<noteq> []" using assms(2) by (simp add: holds_lines_def)
  let ?fs' = "fst (appendPermanentBlockedIP env fs path ip)"
  note app = append_calm [OF assms(1) path assms(3), of fs]
  have held: "holds_lines ?fs' path (ls @ [ip])"
    using assms(2) plain_line [OF assms(3)] by (auto simp: app holds_lines_def gomap_simps)
  have "entries [ip] = [ip]" using plain_block_entry [OF assms(3)] by (simp add: entries_def List.map_filter_def)
  then show ?thesis
    using load_lines [OF assms(1,2)] load_lines [OF assms(1) held] held app by auto
qed

theorem append_then_load_witness:
  "loadPermanentBlockedIPs no_faults (fst (appendPermanentBlockedIP no_faults [] ''block.txt'' ''10.0.0.9'')) ''block.txt'' = Inr [''10.0.0.9'']"
proof -
  have "calm no_faults" by (simp add: calm_def no_faults_def)
  moreover have "holds_lines [] ''block.txt'' []"
    by (simp add: holds_lines_def TrimSpace_visible visible_def byte_of_def)
  moreover have "plain_entry ''10.0.0.9''" by (simp add: plain_entry_def visible_def byte_of_def MaxScanTokenSize_def)
  ultimately show ?thesis using append_then_load [of no_faults "[]" "''block.txt''" "[]" "''10.0.0.9''"] by (auto simp: entries_def)
qed

text \<open>C38. The list file is meant to be edited by hand (it has comment lines), but appending relies on
  the last line being terminated: if it is not, the new address is glued to it, and reading the
  file back yields neither the old last entry nor the new one but their concatenation.\<close>

theorem append_glues_open_line:
  assumes "calm env" and "TrimSpace path \<noteq> []" and "\<forall>k \<in> set ls. one_line k" and "plain_entry l" and "plain_entry ip"
    and "length l + length ip < MaxScanTokenSize"
    and "map_of fs (Clean (TrimSpace path)) = Some (lines_text ls @ l)"
  shows "loadPermanentBlockedIPs env fs path = Inr (entries ls @ [l])
     \<and> (\<exists>fs'. appendPermanentBlockedIP env fs path ip = (fs', None)
         \<and> loadPermanentBlockedIPs env fs' path = Inr (entries ls @ [l @ ip]))"
proof -
  have line: "one_line l" "l \<noteq> []" using plain_line [OF assms(4)] assms(4) by (auto simp: plain_entry_def)
  have "loadPermanentBlockedIPs env fs path = Inr (entries (ls @ [l]))"
    using assms(1-3,7) line
    by (simp add: loadPermanentBlockedIPs_def ReadFile_calm scan_lines_open entries_def Let_def del: entries_append)
  moreover have "entries [l] = [l]" using plain_block_entry [OF assms(4)] by (simp add: entries_def List.map_filter_def)
  moreover
  let ?fs' = "fst (appendPermanentBlockedIP env fs path ip)"
  note app = append_calm [OF assms(1,2,5), of fs]
  have glued: "plain_entry (l @ ip)" using assms(4-6) by (auto simp: plain_entry_def)
  have "holds_lines ?fs' path (ls @ [l @ ip])"
    using assms(2,3,7) plain_line [OF glued] by (auto simp: app holds_lines_def gomap_simps)
  from load_lines [OF assms(1) this]
  have "loadPermanentBlockedIPs env ?fs' path = Inr (entries ls @ [l @ ip])"
    using plain_block_entry [OF glued] by (simp add: entries_def List.map_filter_def)
  ultimately show ?thesis using app by auto
qed

theorem append_glues_open_line_witness:
  "loadPermanentBlockedIPs no_faults (fst (appendPermanentBlockedIP no_faults [(''block.txt'', ''10.0.0.1'')] ''block.txt'' ''10.0.0.9'')) ''block.txt''
     = Inr [''10.0.0.110.0.0.9'']"
proof -
  have clean: "Clean (TrimSpace ''block.txt'') = ''block.txt''" by code_simp
  have "calm no_faults" by (simp add: calm_def no_faults_def)
  moreover have "TrimSpace ''block.txt'' \<noteq> []" by (simp add: TrimSpace_visible visible_def byte_of_def)
  moreover have "plain_entry ''10.0.0.1''" "plain_entry ''10.0.0.9''"
    by (simp_all add: plain_entry_def visible_def byte_of_def MaxScanTokenSize_def)
  ultimately show ?thesis
    using append_glues_open_line [of no_faults "''block.txt''" "[]" "''10.0.0.1''" "''10.0.0.9''" "[(''block.txt'', ''10.0.0.1'')]"] clean
    by (auto simp: entries_def MaxScanTokenSize_def)
qed

lemma key_TrimSpace: "permanentBlockIPKey (TrimSpace l) = permanentBlockIPKey l"
  by (simp add: permanentBlockIPKey_def)

lemma entries_filter:
  "entries (filter (\<lambda>l. permanentBlockIPKey l \<notin> T) ls) = filter (\<lambda>e. permanentBlockIPKey e \<notin> T) (entries ls)"
proof (induction ls)
  case (Cons l ls)
  show ?case
  proof (cases "block_entry l")
    case None
    then show ?thesis using Cons by (simp add: entries_def List.map_filter_def)
  next
    case (Some e)
    then have "e = TrimSpace l" by (auto simp: block_entry_def Let_def split: if_splits)
    then have "permanentBlockIPKey e = permanentBlockIPKey l" by (simp add: key_TrimSpace)
    then show ?thesis using Cons Some by (simp add: entries_def List.map_filter_def)
  qed
qed (simp add: entries_def List.map_filter_def)

text \<open>Taking addresses off the permanent list removes exactly them: on a list file of terminated
  lines the operation succeeds, reports the targets it found, and reading the file back gives the
  former entries except those whose canonical address is a target, in the same order, whatever
  spelling the file used; comments and other lines stay.\<close>

theorem remove_then_load:
  fixes ips :: "string list"
  assumes "calm env" and "holds_lines fs path ls"
  defines "targets \<equiv> filter (\<lambda>k. k \<noteq> []) (map permanentBlockIPKey ips)"
  shows "\<exists>fs' removed. removePermanentBlockedIPs env fs path ips = (fs', Inr removed)
     \<and> holds_lines fs' path (filter (\<lambda>l. permanentBlockIPKey l \<notin> set targets) ls)
     \<and> loadPermanentBlockedIPs env fs' path = Inr (filter (\<lambda>e. permanentBlockIPKey e \<notin> set targets) (entries ls))
     \<and> set removed = {k \<in> set targets. \<exists>l \<in> set ls. permanentBlockIPKey l = k}"
proof -
  let ?p = "Clean (TrimSpace path)" and ?kept = "filter (\<lambda>l. permanentBlockIPKey l \<notin> set targets) ls"
  have path: "TrimSpace path \<noteq> []" and lines: "\<forall>l \<in> set ls. one_line l" using assms(2) by (auto simp: holds_lines_def)
  have "\<exists>fs' removed. removePermanentBlockedIPs env fs path ips = (fs', Inr removed) \<and> holds_lines fs' path ?kept
     \<and> set removed = {k \<in> set targets. \<exists>l \<in> set ls. permanentBlockIPKey l = k}"
  proof (cases "targets = [] \<or> ls = []")
    case True
    then have "removePermanentBlockedIPs env fs path ips = (fs, Inr [])"
      using assms(1,2) path by (auto simp: removePermanentBlockedIPs_def targets_def holds_lines_def ReadFile_calm
          IsNotExist_def Let_def HasSuffix_def newline_def permanentBlockIPKey_def)
    then show ?thesis using True assms(2) by auto
  next
    case False
    have listed: "map_of fs ?p = Some (lines_text ls)" using assms(2) False by (auto simp: holds_lines_def)
    have ips: "ips \<noteq> []" using False by (auto simp: targets_def)
    define removed where "removed = filter (\<lambda>k. k \<in> set targets) (map permanentBlockIPKey ls)"
    have out: "join_char (CHR 0x0A) ?kept @ (if ?kept \<noteq> [] then newline else []) = lines_text ?kept"
      using join_lines [of ?kept] by (cases "?kept = []") simp_all
    have res: "removePermanentBlockedIPs env fs path ips =
      (if removed = [] then (fs, Inr []) else (AList.update ?p (lines_text ?kept) fs, Inr removed))"
      using path ips False assms(1) lines_text_suffix [of ls] out listed
      by (simp add: removePermanentBlockedIPs_def ReadFile_calm unify_newlines_id [OF lines_text_no_cr [OF lines]]
          Split_lines_text0 [OF lines] WriteFile_def calm_def Let_def flip: targets_def removed_def)
    have found: "set removed = {k \<in> set targets. \<exists>l \<in> set ls. permanentBlockIPKey l = k}" by (auto simp: removed_def)
    show ?thesis
    proof (cases "removed = []")
      case True
      then have "?kept = ls" by (auto simp: removed_def filter_empty_conv filter_id_conv)
      then show ?thesis using res True assms(2) found by auto
    next
      case False
      have "holds_lines (AList.update ?p (lines_text ?kept) fs) path ?kept"
        using path lines by (auto simp: holds_lines_def gomap_simps)
      then show ?thesis using res False found by auto
    qed
  qed
  then obtain fs' removed where r: "removePermanentBlockedIPs env fs path ips = (fs', Inr removed)" "holds_lines fs' path ?kept"
    "set removed = {k \<in> set targets. \<exists>l \<in> set ls. permanentBlockIPKey l = k}"
    by blast
  have "loadPermanentBlockedIPs env fs' path = Inr (filter (\<lambda>e. permanentBlockIPKey e \<notin> set targets) (entries ls))"
    using load_lines [OF assms(1) r(2)] by (simp only: entries_filter)
  with r show ?thesis by blast
qed

theorem remove_then_load_witness:
  "\<exists>fs' removed. removePermanentBlockedIPs no_faults [(''block.txt'', lines_text [''# hosts'', ''10.0.0.1'', '' 10.0.0.2''])] ''block.txt'' [''10.0.0.2'']
     = (fs', Inr removed)
     \<and> holds_lines fs' ''block.txt'' (filter (\<lambda>l. permanentBlockIPKey l \<notin> {''10.0.0.2''}) [''# hosts'', ''10.0.0.1'', '' 10.0.0.2''])"
proof -
  have clean: "Clean (TrimSpace ''block.txt'') = ''block.txt''" by code_simp
  have key: "permanentBlockIPKey ''10.0.0.2'' = ''10.0.0.2''" by code_simp
  let ?ls = "[''# hosts'', ''10.0.0.1'', '' 10.0.0.2'']"
  let ?fs = "[(''block.txt'', lines_text ?ls)]"
  have T: "filter (\<lambda>k. k \<noteq> []) (map permanentBlockIPKey [''10.0.0.2'']) = [''10.0.0.2'']" by (simp add: key)
  have calm: "calm no_faults" by (simp add: calm_def no_faults_def)
  have path: "TrimSpace ''block.txt'' \<noteq> []" by (simp add: TrimSpace_visible visible_def byte_of_def)
  have lines: "\<forall>l \<in> set ?ls. one_line l" by (simp add: one_line_def MaxScanTokenSize_def)
  have "map_of ?fs (Clean (TrimSpace ''block.txt'')) = Some (lines_text ?ls)"
    by (simp only: clean map_of.simps fst_conv snd_conv fun_upd_same)
  then have held: "holds_lines ?fs ''block.txt'' ?ls"
    using path lines by (simp only: holds_lines_def simp_thms)
  note R = remove_then_load [OF calm held, of "[''10.0.0.2'']", unfolded T list.set]
  show ?thesis using R by (elim exE conjE) (intro exI conjI, assumption+)
qed

section \<open>Temporary blocks across a restart\<close>

lemma map_of_perm:
  assumes "perm_fn rng" and "gmap_ok m"
  shows "map_of (rng m) = map_of m" and "gmap_ok (rng m)"
proof -
  have m: "mset (rng m) = mset m" using assms(1) by (simp add: perm_fn_def)
  then have "mset (map fst (rng m)) = mset (map fst m)" by simp
  then show ok: "gmap_ok (rng m)"
    using assms(2) mset_eq_imp_distinct_iff unfolding gmap_ok_def by blast
  show "map_of (rng m) = map_of m"
  proof
    fix k
    show "map_of (rng m) k = map_of m k"
    proof (cases "map_of m k")
      case None
      then have "map_of (rng m) k = None" using perm_fn_set [OF assms(1), of m] by (simp add: map_of_eq_None_iff)
      with None show ?thesis by simp
    next
      case (Some v)
      then have "(k, v) \<in> set (rng m)" using perm_fn_set [OF assms(1), of m] map_of_SomeD by fastforce
      then show ?thesis using ok Some by (simp add: gmap_ok_def)
    qed
  qed
qed

lemma load_blocks_lookup:
  "gmap_ok saved \<Longrightarrow> map_of (load_blocks now saved items) q =
   (case map_of saved q of
      Some t \<Rightarrow> if q \<noteq> [] \<and> t > now then Some ((fresh_fail now)\<lparr>fs_blockedUntil := t\<rparr>) else map_of items q
    | None \<Rightarrow> map_of items q)"
proof (induction saved arbitrary: items)
  case (Cons it saved)
  obtain ip t where it: "it = (ip, t)" by (cases it)
  have ok: "gmap_ok saved" and new: "map_of saved ip = None"
    using Cons.prems by (auto simp: gmap_ok_def it map_of_eq_None_iff)
  have "load_blocks now (it # saved) items =
      load_blocks now saved (if ip = [] \<or> \<not> t > now then items else AList.update ip ((fresh_fail now)\<lparr>fs_blockedUntil := t\<rparr>) items)"
    by (simp add: load_blocks_def it)
  then show ?case
    using Cons.IH [OF ok] new by (auto simp: it gomap_simps split: option.splits)
qed (simp add: load_blocks_def)

lemma saved_lookup:
  assumes "perm_fn (fe_range env)" and "gmap_ok (ft_items f)"
  shows "gmap_ok (state_to_save env f)"
    and "map_of (state_to_save env f) q = (case map_of (ft_items f) q of None \<Rightarrow> None
         | Some st \<Rightarrow> if fs_blockedUntil st > fe_now env then Some (fs_blockedUntil st) else None)"
proof -
  have filt: "map_of (map (\<lambda>(ip, item). (ip, fs_blockedUntil item)) (filter (\<lambda>(ip, item). fs_blockedUntil item > now) m)) q
     = (case map_of m q of None \<Rightarrow> None | Some st \<Rightarrow> if fs_blockedUntil st > now then Some (fs_blockedUntil st) else None)"
    and keys: "gmap_ok (map (\<lambda>(ip, item). (ip, fs_blockedUntil item)) (filter (\<lambda>(ip, item). fs_blockedUntil item > now) m))"
    if "gmap_ok m" for m now
  proof -
    have "map fst (map (\<lambda>(ip, item). (ip, fs_blockedUntil item)) (filter (\<lambda>(ip, item). fs_blockedUntil item > now) m))
        = map fst (filter (\<lambda>(ip, item). fs_blockedUntil item > now) m)"
      by (simp add: case_prod_unfold)
    then show "gmap_ok (map (\<lambda>(ip, item). (ip, fs_blockedUntil item)) (filter (\<lambda>(ip, item). fs_blockedUntil item > now) m))"
      using that gmap_ok_filter [of m "\<lambda>(ip, item). fs_blockedUntil item > now"] by (simp only: gmap_ok_def)
    show "map_of (map (\<lambda>(ip, item). (ip, fs_blockedUntil item)) (filter (\<lambda>(ip, item). fs_blockedUntil item > now) m)) q
     = (case map_of m q of None \<Rightarrow> None | Some st \<Rightarrow> if fs_blockedUntil st > now then Some (fs_blockedUntil st) else None)"
      using that
    proof (induction m)
      case (Cons kv m)
      then have "gmap_ok m" "map_of m (fst kv) = None" by (auto simp: gmap_ok_def map_of_eq_None_iff)
      with Cons.IH show ?case by (cases kv) (auto split: option.splits)
    qed simp
  qed
  show "gmap_ok (state_to_save env f)"
    unfolding state_to_save_def using keys map_of_perm(2) [OF assms] by blast
  show "map_of (state_to_save env f) q = (case map_of (ft_items f) q of None \<Rightarrow> None
         | Some st \<Rightarrow> if fs_blockedUntil st > fe_now env then Some (fs_blockedUntil st) else None)"
    unfolding state_to_save_def filt [OF map_of_perm(2) [OF assms]] map_of_perm(1) [OF assms] by simp
qed



section \<open>The sliding window\<close>

definition recent_failures :: "duration \<Rightarrow> time list \<Rightarrow> time list" where
  "recent_failures w ts = filter (\<lambda>t. last ts - w < t) ts"

definition fail_at :: "fail_env \<Rightarrow> string \<Rightarrow> time list \<Rightarrow> (fail_env \<times> fail_op) list" where
  "fail_at env key ts = map (\<lambda>t. (env\<lparr>fe_now := t\<rparr>, AddFailure key)) ts"

lemma run_ops_append: "run_ops (xs @ ys) s = run_ops ys (run_ops xs s)"
  by (simp add: run_ops_def)

lemma addFailure_write:
  assumes key: "TrimSpace key = key" "key \<noteq> []" "key \<notin> set (ft_permanent f)"
    and room: "map_of (ft_items f) key = Some st \<or> map_of (ft_items f) key = None \<and> int (length (ft_items f)) < ft_maxItems f \<and> st = fresh_fail (fe_now env)"
  defines "auth \<equiv> appendRecentFailures (fs_authFailures st) (fe_now env - ft_window f) @ [fe_now env]"
  shows "\<exists>f'. fst (addFailure env (f, fs) key) = f' \<and> same_settings f f' \<and> ft_permanent f' = ft_permanent f \<and>
    map_of (ft_items f') key = Some (if int (length auth) \<ge> ft_limit f
        then st\<lparr>fs_lastSeen := fe_now env, fs_blockedUntil := fe_now env + ft_blockFor f, fs_authFailures := []\<rparr>
        else st\<lparr>fs_authFailures := auth, fs_lastSeen := fe_now env\<rparr>)"
proof -
  have track: "\<exists>f1 st1. trackStateLocked env f key = (f1, Some key) \<and> f1 = f\<lparr>ft_items := AList.update key st1 (ft_items f)\<rparr> \<and>
      st1 = st\<lparr>fs_lastSeen := fe_now env\<rparr>"
    using key room by (auto simp: trackStateLocked_def hasPermanent_def fresh_fail_def Let_def)
  then show ?thesis
    using key by (auto simp: addFailure_def hasPermanent_def gomap_simps same_settings_def auth_def Let_def)
qed

lemma recent_snoc:
  assumes "0 < w" and "ts \<noteq> [] \<Longrightarrow> last ts \<le> t"
  shows "appendRecentFailures (recent_failures w ts) (t - w) @ [t] = recent_failures w (ts @ [t])"
  using assms by (cases "ts = []") (auto simp: appendRecentFailures_def recent_failures_def intro!: filter_cong)

text \<open>While the threshold has not been reached, the entry holds exactly the recent failures.\<close>

lemma counts_recent:
  assumes f: "ft_items f = []" "ft_permanent f = []" "1 \<le> ft_maxItems f" "0 < ft_window f"
    and key: "TrimSpace key = key" "key \<noteq> []"
  shows "ts \<noteq> [] \<Longrightarrow> sorted ts \<Longrightarrow>
    \<forall>n. 0 < n \<and> n < length ts \<longrightarrow> int (length (recent_failures (ft_window f) (take n ts))) < ft_limit f \<Longrightarrow>
    \<exists>st. same_settings f (fst (run_ops (fail_at env key ts) (f, fs))) \<and> ft_permanent (fst (run_ops (fail_at env key ts) (f, fs))) = [] \<and>
      map_of (ft_items (fst (run_ops (fail_at env key ts) (f, fs)))) key = Some st \<and>
      (if int (length (recent_failures (ft_window f) ts)) \<ge> ft_limit f
       then fs_blockedUntil st = last ts + ft_blockFor f
       else fs_blockedUntil st = 0 \<and> fs_authFailures st = recent_failures (ft_window f) ts)"
proof (induction ts rule: rev_induct)
  case (snoc t ts)
  let ?s = "run_ops (fail_at env key ts) (f, fs)" and ?e = "env\<lparr>fe_now := t\<rparr>"
  have step: "fst (run_ops (fail_at env key (ts @ [t])) (f, fs)) = fst (addFailure ?e (fst ?s, snd ?s) key)"
    by (simp add: fail_at_def run_ops_append)
  have mono: "ts \<noteq> [] \<Longrightarrow> last ts \<le> t" using snoc.prems(2) by (auto simp: sorted_append)
  have "\<exists>st. same_settings f (fst ?s) \<and> ft_permanent (fst ?s) = [] \<and>
      (map_of (ft_items (fst ?s)) key = Some st \<or> map_of (ft_items (fst ?s)) key = None \<and> int (length (ft_items (fst ?s))) < ft_maxItems (fst ?s) \<and> st = fresh_fail t) \<and>
      fs_blockedUntil st = 0 \<and> fs_authFailures st = recent_failures (ft_window f) ts"
  proof (cases "ts = []")
    case True
    then show ?thesis using f by (intro exI [of _ "fresh_fail t"]) (simp add: fail_at_def fresh_fail_def recent_failures_def)
  next
    case False
    have "int (length (recent_failures (ft_window f) (take (length ts) (ts @ [t])))) < ft_limit f"
      using snoc.prems(3) False by (metis length_append_singleton length_greater_0_conv lessI)
    then have below: "int (length (recent_failures (ft_window f) ts)) < ft_limit f" by simp
    have "\<forall>n. 0 < n \<and> n < length ts \<longrightarrow> int (length (recent_failures (ft_window f) (take n ts))) < ft_limit f"
    proof (intro allI impI)
      fix n
      assume "0 < n \<and> n < length ts"
      then show "int (length (recent_failures (ft_window f) (take n ts))) < ft_limit f"
        using snoc.prems(3) [rule_format, of n] by simp
    qed
    moreover have "sorted ts" using snoc.prems(2) by (simp add: sorted_append)
    ultimately show ?thesis using snoc.IH [OF False] below by auto
  qed
  then obtain st where set: "same_settings f (fst ?s)" and perm: "ft_permanent (fst ?s) = []"
    and room: "map_of (ft_items (fst ?s)) key = Some st \<or> map_of (ft_items (fst ?s)) key = None \<and>
       int (length (ft_items (fst ?s))) < ft_maxItems (fst ?s) \<and> st = fresh_fail (fe_now ?e)"
    and st: "fs_blockedUntil st = 0" "fs_authFailures st = recent_failures (ft_window f) ts"
    by auto
  have auth: "appendRecentFailures (fs_authFailures st) (fe_now ?e - ft_window (fst ?s)) @ [fe_now ?e] = recent_failures (ft_window f) (ts @ [t])"
    using recent_snoc [OF f(4) mono] st(2) set by (simp add: same_settings_def)
  have sets: "ft_limit (fst ?s) = ft_limit f" "ft_blockFor (fst ?s) = ft_blockFor f" using set by (simp_all add: same_settings_def)
  obtain f' where f': "fst (addFailure ?e (fst ?s, snd ?s) key) = f'" "same_settings (fst ?s) f'" "ft_permanent f' = []"
    "map_of (ft_items f') key = Some (if int (length (recent_failures (ft_window f) (ts @ [t]))) \<ge> ft_limit f
        then st\<lparr>fs_lastSeen := t, fs_blockedUntil := t + ft_blockFor f, fs_authFailures := []\<rparr>
        else st\<lparr>fs_authFailures := recent_failures (ft_window f) (ts @ [t]), fs_lastSeen := t\<rparr>)"
    using addFailure_write [OF key _ room, of "snd ?s"] perm unfolding auth sets by auto
  show ?case unfolding step f'(1) using f' same_settings_trans [OF set f'(2)] st(1) by auto
qed simp



end
