(* ===== verification/Go_IO.thy ===== *)
theory Go_IO
  imports Go_Strings "HOL-Library.Word"
begin

text \<open>
  What the code uses of \<open>io\<close>, \<open>net.Conn\<close> and \<open>encoding/binary\<close>: reading exactly \<open>n\<close> bytes,
  writers that may accept only a part of the data or fail, big-endian 32-bit numbers, and the
  interface of a stream of self-delimiting messages.
\<close>

section \<open>Reading\<close>

text \<open>A reader is the list of bytes it still yields before the end of the stream.\<close>

definition io_EOF :: go_error where
  "io_EOF = Sentinel ''EOF''"

definition io_ErrUnexpectedEOF :: go_error where
  "io_ErrUnexpectedEOF = Sentinel ''unexpected EOF''"

definition io_ErrShortWrite :: go_error where
  "io_ErrShortWrite = Sentinel ''short write''"

definition ReadFull :: "string \<Rightarrow> nat \<Rightarrow> string res \<times> string" where
  "ReadFull r n =
     (if n \<le> length r then (Inr (take n r), drop n r)
      else if r = [] then (Inl io_EOF, []) else (Inl io_ErrUnexpectedEOF, []))"

lemma ReadFull_append [simp]: "length s = n \<Longrightarrow> ReadFull (s @ rest) n = (Inr s, rest)"
  by (simp add: ReadFull_def)

lemma ReadFull_Inr: "ReadFull r n = (Inr s, rest) \<Longrightarrow> r = s @ rest \<and> length s = n"
  by (auto simp: ReadFull_def split: if_splits)

lemma ReadFull_Inl: "ReadFull r n = (Inl e, rest) \<Longrightarrow> length r < n \<and> rest = []"
  by (auto simp: ReadFull_def split: if_splits)

section \<open>Writing\<close>

text \<open>
  A writer keeps the bytes that reached the peer and, for its next calls, how each of them ends:
  \<open>Accept k\<close> takes at most \<open>k\<close> bytes and reports no error, \<open>Fail k e\<close> takes at most \<open>k\<close>
  bytes and reports \<open>e\<close>; a call beyond the list takes all its data. The contract of
  \<open>io.Writer\<close> is that a short count comes with an error (\<open>keeps_contract\<close>).
\<close>

datatype write_event = Accept nat | Fail nat go_error

record writer =
  wr_out :: string
  wr_script :: "write_event list"

definition Write :: "writer \<Rightarrow> string \<Rightarrow> writer \<times> nat \<times> go_error option" where
  "Write w data =
     (case wr_script w of
        [] \<Rightarrow> (w\<lparr>wr_out := wr_out w @ data\<rparr>, length data, None)
      | Accept k # rest \<Rightarrow> (\<lparr>wr_out = wr_out w @ take k data, wr_script = rest\<rparr>, min k (length data), None)
      | Fail k e # rest \<Rightarrow> (\<lparr>wr_out = wr_out w @ take k data, wr_script = rest\<rparr>, min k (length data), Some e))"

definition keeps_contract :: "writer \<Rightarrow> bool" where
  "keeps_contract w \<longleftrightarrow> list_all (\<lambda>ev. case ev of Accept k \<Rightarrow> False | Fail k e \<Rightarrow> True) (wr_script w)"

lemma Write_contract:
  "keeps_contract w \<Longrightarrow> Write w data = (w', n, None) \<Longrightarrow>
   wr_out w' = wr_out w @ data \<and> n = length data \<and> keeps_contract w'"
  by (auto simp: Write_def keeps_contract_def split: list.splits write_event.splits)

lemma Write_clean [simp]:
  "wr_script w = [] \<Longrightarrow> Write w data = (w\<lparr>wr_out := wr_out w @ data\<rparr>, length data, None)"
  by (simp add: Write_def)

text \<open>Whatever the writer does, the count it reports is what it took.\<close>

lemma Write_count:
  "Write w data = (w', n, err) \<Longrightarrow>
   wr_out w' = wr_out w @ take n data \<and> n \<le> length data \<and>
   length (wr_script w') = length (wr_script w) - 1"
  by (auto simp: Write_def min_def split: list.splits write_event.splits)

section \<open>Big-endian numbers\<close>

definition byte_char :: "32 word \<Rightarrow> char" where
  "byte_char w = char_of (unat w)"

definition PutUint32 :: "32 word \<Rightarrow> string" where
  "PutUint32 w = [byte_char (drop_bit 24 w), byte_char (drop_bit 16 w), byte_char (drop_bit 8 w), byte_char w]"

fun Uint32 :: "string \<Rightarrow> 32 word" where
  "Uint32 [a, b, c, d] =
     push_bit 24 (of_nat (of_char a)) + push_bit 16 (of_nat (of_char b)) + push_bit 8 (of_nat (of_char c)) + of_nat (of_char d)"
| "Uint32 _ = 0"

lemma length_PutUint32 [simp]: "length (PutUint32 w) = 4"
  by (simp add: PutUint32_def)

lemma of_byte_char: "of_char (byte_char w) = unat w mod 256"
  by (simp add: byte_char_def)


lemma unat_drop: "unat (drop_bit k (w :: 32 word)) = unat w div 2 ^ k"
  unfolding drop_bit_eq_div [symmetric] by (rule unat_drop_bit_eq)

lemma digits256:
  assumes "(n::nat) < 4294967296"
  shows "(n div 16777216 mod 256) * 16777216 + (n div 65536 mod 256) * 65536 + (n div 256 mod 256) * 256 + n mod 256 = n"
proof -
  define q1 q2 q3 where "q1 = n div 256" and "q2 = q1 div 256" and "q3 = q2 div 256"
  have q: "n div 65536 = q2" "n div 16777216 = q3"
    by (simp_all add: q1_def q2_def q3_def flip: div_mult2_eq)
  have "q3 < 256" using assms by (simp flip: q(2))
  have base: "m div 256 * 256 + m mod 256 = m" for m :: nat by (rule div_mult_mod_eq)
  have "q3 * 16777216 + (q2 mod 256) * 65536 + (q1 mod 256) * 256 + n mod 256
      = ((q3 * 256 + q2 mod 256) * 256 + q1 mod 256) * 256 + n mod 256"
    by (simp add: add_mult_distrib)
  also have "\<dots> = n" unfolding q3_def base q2_def q1_def ..
  finally show ?thesis using \<open>q3 < 256\<close> by (simp add: q flip: q1_def)
qed

lemma Uint32_PutUint32 [simp]: "Uint32 (PutUint32 w) = w"
proof -
  have lt: "unat w < 4294967296" using unsigned_less [of w] by simp
  have "Uint32 (PutUint32 w) = of_nat ((unat w div 16777216 mod 256) * 16777216 + (unat w div 65536 mod 256) * 65536
      + (unat w div 256 mod 256) * 256 + unat w mod 256)"
    by (simp add: PutUint32_def of_byte_char unat_drop push_bit_eq_mult)
  also have "\<dots> = of_nat (unat w)" using digits256 [OF lt] by (simp only:)
  finally show ?thesis by simp
qed

lemma of_char_less: "(of_char c :: nat) < 256"
  by (cases c) (simp add: of_char_def horner_sum_simps of_bool_def)

lemma unat_small: "n < 4294967296 \<Longrightarrow> unat (word_of_nat n :: 32 word) = n"
  by (simp add: unat_of_nat take_bit_eq_mod)

lemma unat_Uint32:
  "unat (Uint32 [a, b, c, d]) =
     of_char a * 16777216 + of_char b * 65536 + of_char c * 256 + (of_char d :: nat)"
proof -
  let ?n = "of_char a * 16777216 + of_char b * 65536 + of_char c * 256 + (of_char d :: nat)"
  have "?n < 4294967296"
    using of_char_less [of a] of_char_less [of b] of_char_less [of c] of_char_less [of d] by linarith
  moreover have "Uint32 [a, b, c, d] = word_of_nat ?n"
    by (simp add: push_bit_eq_mult)
  ultimately show ?thesis by (simp only: unat_small)
qed

lemma PutUint32_Uint32:
  assumes "length h = 4"
  shows "PutUint32 (Uint32 h) = h"
proof -
  from assms obtain a b c d where h: "h = [a, b, c, d]"
    by (auto simp: numeral_eq_Suc length_Suc_conv)
  let ?a = "of_char a :: nat" and ?b = "of_char b :: nat" and ?c = "of_char c :: nat" and ?d = "of_char d :: nat"
  let ?n = "?a * 16777216 + ?b * 65536 + ?c * 256 + ?d"
  note lt = of_char_less [of a] of_char_less [of b] of_char_less [of c] of_char_less [of d]
  have split: "(x + 256 * y) mod 256 = x \<and> (x + 256 * y) div 256 = y" if "x < 256" for x y :: nat
    using that by simp
  let ?r2 = "?b + 256 * ?a" let ?r1 = "?c + 256 * ?r2"
  have n: "?n = ?d + 256 * ?r1" by simp
  have "?n mod 256 = ?d" and n1: "?n div 256 = ?r1" unfolding n using split [OF lt(4)] by blast+
  moreover have "?n div 256 mod 256 = ?c" unfolding n1 using split [OF lt(3)] by blast
  moreover have n2: "?n div 65536 = ?r2"
    using div_mult2_eq [of ?n 256 256] split [OF lt(3), of ?r2] unfolding n1 by simp
  moreover have "?n div 65536 mod 256 = ?b" unfolding n2 using split [OF lt(2)] by blast
  moreover have "?n div 16777216 = ?a"
    using div_mult2_eq [of ?n 65536 256] split [OF lt(2), of ?a] unfolding n2 by simp
  ultimately have "?n div 16777216 = ?a" "?n div 65536 mod 256 = ?b" "?n div 256 mod 256 = ?c" "?n mod 256 = ?d"
    by blast+
  moreover have "char_of (m :: nat) = c" if "m mod 256 = of_char c" for m c
    using that by (metis char_of_char char_of_mod_256)
  moreover have "?n div 16777216 mod 256 = ?a" unfolding \<open>?n div 16777216 = ?a\<close> using lt(1) by simp
  ultimately show ?thesis
    unfolding h PutUint32_def byte_char_def unat_drop unat_Uint32 by (simp del: Uint32.simps)
qed

section \<open>Streams of self-delimiting messages\<close>

text \<open>
  The interface of a message framing: reading back one written message from the front of a
  stream leaves what follows it. A sequence of messages is then read back message by message.
\<close>

locale message_stream =
  fixes put :: "'m \<Rightarrow> string"
    and get :: "string \<Rightarrow> 'm res \<times> string"
    and fits :: "'m \<Rightarrow> bool"
  assumes get_put: "fits m \<Longrightarrow> get (put m @ rest) = (Inr m, rest)"
begin

fun get_many :: "nat \<Rightarrow> string \<Rightarrow> 'm list res \<times> string" where
  "get_many 0 s = (Inr [], s)"
| "get_many (Suc n) s =
     (case get s of (Inl e, s') \<Rightarrow> (Inl e, s')
      | (Inr m, s') \<Rightarrow> (case get_many n s' of (Inl e, s'') \<Rightarrow> (Inl e, s'') | (Inr ms, s'') \<Rightarrow> (Inr (m # ms), s'')))"

lemma get_many_put:
  "list_all fits ms \<Longrightarrow> get_many (length ms) (concat (map put ms) @ rest) = (Inr ms, rest)"
  by (induction ms) (simp_all add: get_put)

lemma put_inj: "fits m \<Longrightarrow> fits m' \<Longrightarrow> put m @ rest = put m' @ rest' \<Longrightarrow> m = m' \<and> rest = rest'"
  by (metis get_put Inr_inject Pair_inject)

end

end
