(* ===== verification/Protocol.thy ===== *)
theory Protocol
  imports Go_IO
begin

text \<open>
  \<open>internal/protocol/protocol.go\<close>: the messages of the tunnel handshake and their framing, a
  4-byte big-endian length before the JSON text. The JSON codec is a parameter: \<open>marshal\<close> is
  \<open>json.Marshal\<close> and \<open>unmarshal\<close> is \<open>json.Unmarshal\<close> into a zero value. \<open>int\<close> has 64 bits.
\<close>

section \<open>Messages\<close>

record sealedCredential =
  sc_Type :: string
  sc_KeyID :: string
  sc_ExpiresAt :: string
  sc_Ciphertext :: string

record credentialPublicKey =
  cpk_Type :: string
  cpk_KeyID :: string
  cpk_ExpiresAt :: string
  cpk_PublicKeyPEM :: string

record openRequest =
  req_Type :: string
  req_Username :: string
  req_Password :: string
  req_Credential :: "sealedCredential option"
  req_ClientID :: string
  req_ClientVersion :: string
  req_ProtocolVersion :: int
  req_ForwardName :: string
  req_Direction :: string
  req_ListenAddr :: string
  req_StreamID :: string
  req_Target :: string

record openResponse =
  resp_OK :: bool
  resp_Code :: string
  resp_Message :: string
  resp_ServerVersion :: string
  resp_ListenAddr :: string
  resp_StreamID :: string
  resp_CredentialKey :: "credentialPublicKey option"

text \<open>The zero values, which a Go composite literal leaves in the fields it does not name.\<close>

definition zero_request :: openRequest where
  "zero_request = \<lparr>req_Type = [], req_Username = [], req_Password = [], req_Credential = None, req_ClientID = [],
     req_ClientVersion = [], req_ProtocolVersion = 0, req_ForwardName = [], req_Direction = [], req_ListenAddr = [],
     req_StreamID = [], req_Target = []\<rparr>"

definition zero_response :: openResponse where
  "zero_response = \<lparr>resp_OK = False, resp_Code = [], resp_Message = [], resp_ServerVersion = [], resp_ListenAddr = [],
     resp_StreamID = [], resp_CredentialKey = None\<rparr>"

section \<open>Framing\<close>

definition DefaultMaxHandshakeBytes :: int where
  "DefaultMaxHandshakeBytes = 32 * 1024"

definition WriteJSON :: "('v \<Rightarrow> string res) \<Rightarrow> writer \<Rightarrow> 'v \<Rightarrow> writer \<times> go_error option" where
  "WriteJSON marshal w v =
     (case marshal v of
        Inl err \<Rightarrow> (w, Some err)
      | Inr data \<Rightarrow>
          if int (length data) > DefaultMaxHandshakeBytes
          then (w, Some (Errorf ''handshake too large: %d bytes'' [FI (int (length data))]))
          else (case Write w (PutUint32 (word_of_nat (length data))) of
                  (w, _, Some err) \<Rightarrow> (w, Some err)
                | (w, _, None) \<Rightarrow> (case Write w data of (w, _, err) \<Rightarrow> (w, err))))"

definition effective_max :: "int \<Rightarrow> int" where
  "effective_max maxBytes = (if maxBytes \<le> 0 then DefaultMaxHandshakeBytes else maxBytes)"

definition ReadJSON :: "(string \<Rightarrow> 'v res) \<Rightarrow> string \<Rightarrow> int \<Rightarrow> 'v res \<times> string" where
  "ReadJSON unmarshal r maxBytes =
     (let maxBytes = effective_max maxBytes
      in case ReadFull r 4 of
        (Inl err, r) \<Rightarrow> (Inl err, r)
      | (Inr header, r) \<Rightarrow>
          (let n = Uint32 header
           in if n = 0 then (Inl (Errorf ''empty handshake'' []), r)
              else if uint n > maxBytes then (Inl (Errorf ''handshake too large: %d bytes'' [FI (uint n)]), r)
              else (case ReadFull r (unat n) of
                      (Inl err, r) \<Rightarrow> (Inl err, r)
                    | (Inr data, r) \<Rightarrow> (unmarshal data, r))))"

section \<open>Frames\<close>

text \<open>The bytes of one message, and when the two sides accept them.\<close>

definition frame_bytes :: "string \<Rightarrow> string" where
  "frame_bytes data = PutUint32 (word_of_nat (length data)) @ data"

definition frame_fits :: "int \<Rightarrow> string \<Rightarrow> bool" where
  "frame_fits maxBytes data \<longleftrightarrow> data \<noteq> [] \<and> int (length data) \<le> DefaultMaxHandshakeBytes
     \<and> int (length data) \<le> effective_max maxBytes"

lemma unat_length:
  assumes "int (length data) \<le> DefaultMaxHandshakeBytes"
  shows "unat (word_of_nat (length data) :: 32 word) = length data"
proof -
  have "length data < 2 ^ 32" using assms by (simp add: DefaultMaxHandshakeBytes_def)
  then show ?thesis by (simp add: unat_of_nat take_bit_eq_mod)
qed

lemma ReadJSON_frame:
  assumes "frame_fits maxBytes data"
  shows "ReadJSON unmarshal (frame_bytes data @ rest) maxBytes = (unmarshal data, rest)"
proof -
  let ?n = "word_of_nat (length data) :: 32 word"
  have u: "unat ?n = length data"
    using assms by (intro unat_length) (simp add: frame_fits_def)
  then have "?n \<noteq> 0" using assms by (auto simp: frame_fits_def)
  moreover have "uint ?n = int (length data)" by (subst u [symmetric]) simp
  ultimately show ?thesis
    using assms u by (simp add: ReadJSON_def frame_bytes_def frame_fits_def Let_def)
qed

text \<open>The framing is a stream of self-delimiting messages, with the codec that changes nothing.\<close>

interpretation frames: message_stream frame_bytes "\<lambda>s. ReadJSON Inr s maxBytes" "frame_fits maxBytes" for maxBytes
  by unfold_locales (rule ReadJSON_frame)

text \<open>On a writer that keeps the contract, a call without error wrote exactly one frame.\<close>

lemma WriteJSON_frame:
  assumes "WriteJSON marshal w v = (w', None)" and "keeps_contract w"
  obtains data where "marshal v = Inr data" and "wr_out w' = wr_out w @ frame_bytes data" and "keeps_contract w'"
    and "int (length data) \<le> DefaultMaxHandshakeBytes"
proof -
  from assms(1) obtain data w1 n m where d: "marshal v = Inr data" "int (length data) \<le> DefaultMaxHandshakeBytes"
    and w1: "Write w (PutUint32 (word_of_nat (length data))) = (w1, n, None)" and w2: "Write w1 data = (w', m, None)"
    by (auto simp: WriteJSON_def split: sum.splits if_splits prod.splits option.splits)
  from Write_contract [OF assms(2) w1] have c1: "wr_out w1 = wr_out w @ PutUint32 (word_of_nat (length data))" "keeps_contract w1"
    by auto
  from Write_contract [OF c1(2) w2] c1(1) have "wr_out w' = wr_out w @ frame_bytes data" "keeps_contract w'"
    by (auto simp: frame_bytes_def)
  with d show thesis by (intro that)
qed

fun WriteJSONs :: "('v \<Rightarrow> string res) \<Rightarrow> writer \<Rightarrow> 'v list \<Rightarrow> writer \<times> go_error option" where
  "WriteJSONs marshal w [] = (w, None)"
| "WriteJSONs marshal w (v # vs) =
     (case WriteJSON marshal w v of (w, Some err) \<Rightarrow> (w, Some err) | (w, None) \<Rightarrow> WriteJSONs marshal w vs)"

fun ReadJSONs :: "(string \<Rightarrow> 'v res) \<Rightarrow> nat \<Rightarrow> string \<Rightarrow> int \<Rightarrow> 'v list res \<times> string" where
  "ReadJSONs unmarshal 0 r maxBytes = (Inr [], r)"
| "ReadJSONs unmarshal (Suc n) r maxBytes =
     (case ReadJSON unmarshal r maxBytes of
        (Inl err, r) \<Rightarrow> (Inl err, r)
      | (Inr v, r) \<Rightarrow> (case ReadJSONs unmarshal n r maxBytes of (Inl err, r) \<Rightarrow> (Inl err, r) | (Inr vs, r) \<Rightarrow> (Inr (v # vs), r)))"

lemma ReadJSON_decode:
  "ReadJSON unmarshal r maxBytes =
     (case ReadJSON Inr r maxBytes of (Inl e, r') \<Rightarrow> (Inl e, r') | (Inr data, r') \<Rightarrow> (unmarshal data, r'))"
  by (simp add: ReadJSON_def Let_def split: prod.splits sum.splits)

lemma ReadJSONs_decode:
  "frames.get_many maxBytes n r = (Inr ds, r') \<Longrightarrow> map unmarshal ds = map Inr vs \<Longrightarrow>
   ReadJSONs unmarshal n r maxBytes = (Inr vs, r')"
proof (induction n arbitrary: r ds vs)
  case (Suc n)
  from Suc.prems(1) obtain d r1 ds' where d: "ReadJSON Inr r maxBytes = (Inr d, r1)"
    and ds': "frames.get_many maxBytes n r1 = (Inr ds', r')" and ds: "ds = d # ds'"
    by (auto split: prod.splits sum.splits)
  from Suc.prems(2) ds obtain v vs' where vs: "vs = v # vs'" "unmarshal d = Inr v" "map unmarshal ds' = map Inr vs'"
    by (cases vs) auto
  with Suc.IH [OF ds' vs(3)] d show ?case
    by (simp add: ReadJSON_decode [of unmarshal r])
qed simp

lemma WriteJSONs_frames:
  assumes "WriteJSONs marshal w vs = (w', None)" and "keeps_contract w"
  obtains ds where "map marshal vs = map Inr ds" and "wr_out w' = wr_out w @ concat (map frame_bytes ds)"
    and "list_all (\<lambda>d. int (length d) \<le> DefaultMaxHandshakeBytes) ds"
  using assms
proof (induction vs arbitrary: w thesis)
  case (Cons v vs)
  from Cons.prems(2) obtain w1 where w1: "WriteJSON marshal w v = (w1, None)" and rest: "WriteJSONs marshal w1 vs = (w', None)"
    by (auto split: prod.splits option.splits)
  from WriteJSON_frame [OF w1 Cons.prems(3)] obtain d where d: "marshal v = Inr d"
    "wr_out w1 = wr_out w @ frame_bytes d" "keeps_contract w1" "int (length d) \<le> DefaultMaxHandshakeBytes" .
  from Cons.IH [OF _ rest d(3)] obtain ds where "map marshal vs = map Inr ds"
    "wr_out w' = wr_out w1 @ concat (map frame_bytes ds)" "list_all (\<lambda>d. int (length d) \<le> DefaultMaxHandshakeBytes) ds" .
  with d show ?case by (intro Cons.prems(1) [of "d # ds"]) simp_all
qed simp

lemma codec_decodes:
  "map marshal vs = map Inr ds \<Longrightarrow> (\<And>v d. v \<in> set vs \<Longrightarrow> marshal v = Inr d \<Longrightarrow> d \<noteq> [] \<and> unmarshal d = Inr v) \<Longrightarrow>
   map unmarshal ds = map Inr vs \<and> list_all (\<lambda>d. d \<noteq> []) ds"
proof (induction vs arbitrary: ds)
  case (Cons v vs)
  then obtain d ds' where "ds = d # ds'" "marshal v = Inr d" "map marshal vs = map Inr ds'" by (cases ds) auto
  moreover have "map unmarshal ds' = map Inr vs \<and> list_all (\<lambda>d. d \<noteq> []) ds'"
    by (rule Cons.IH [OF \<open>map marshal vs = map Inr ds'\<close>], rule Cons.prems(2)) simp_all
  ultimately show ?case using Cons.prems(2) [of v d] by simp
qed simp

text \<open>Handshake messages written one after another without error, on any writer that keeps the
  \<open>io.Writer\<close> contract, are read back in order and whole by a reader with the default limit,
  and what follows them on the stream is left untouched.\<close>

theorem handshakes_in_order:
  assumes "WriteJSONs marshal w vs = (w', None)" and "keeps_contract w" and "wr_out w = []"
    and "\<And>v d. v \<in> set vs \<Longrightarrow> marshal v = Inr d \<Longrightarrow> d \<noteq> [] \<and> unmarshal d = Inr v"
  shows "ReadJSONs unmarshal (length vs) (wr_out w' @ rest) 0 = (Inr vs, rest)"
proof -
  from WriteJSONs_frames [OF assms(1,2)] obtain ds where ds: "map marshal vs = map Inr ds"
    "wr_out w' = wr_out w @ concat (map frame_bytes ds)" "list_all (\<lambda>d. int (length d) \<le> DefaultMaxHandshakeBytes) ds" .
  from codec_decodes [of marshal vs ds unmarshal, OF ds(1) assms(4)]
  have dec: "map unmarshal ds = map Inr vs" "list_all (\<lambda>d. d \<noteq> []) ds" by auto
  from dec(2) ds(3) have "list_all (frame_fits 0) ds"
    by (simp add: frame_fits_def effective_max_def list_all_iff)
  from frames.get_many_put [OF this, of rest] ds(2) assms(3)
  have "frames.get_many 0 (length ds) (wr_out w' @ rest) = (Inr ds, rest)" by simp
  moreover have "length ds = length vs" using ds(1) by (metis length_map)
  ultimately show ?thesis using ReadJSONs_decode [OF _ dec(1)] by simp
qed

text \<open>A codec for a witness: one letter for a request, told apart by its type.\<close>

theorem handshakes_in_order_witness:
  "ReadJSONs (\<lambda>d. Inr (zero_request\<lparr>req_Type := d\<rparr>)) 2
     (wr_out (fst (WriteJSONs (\<lambda>v. Inr (req_Type v)) \<lparr>wr_out = [], wr_script = []\<rparr>
        [zero_request\<lparr>req_Type := ''ping''\<rparr>, zero_request\<lparr>req_Type := ''open''\<rparr>])) @ ''tail'') 0
   = (Inr [zero_request\<lparr>req_Type := ''ping''\<rparr>, zero_request\<lparr>req_Type := ''open''\<rparr>], ''tail'')"
proof -
  let ?vs = "[zero_request\<lparr>req_Type := ''ping''\<rparr>, zero_request\<lparr>req_Type := ''open''\<rparr>]"
  let ?m = "\<lambda>v. Inr (req_Type v)" and ?u = "\<lambda>d. Inr (zero_request\<lparr>req_Type := d\<rparr>)"
  let ?w = "\<lparr>wr_out = [], wr_script = []\<rparr>"
  obtain w' err where w': "WriteJSONs ?m ?w ?vs = (w', err)" by (cases "WriteJSONs ?m ?w ?vs")
  then have "err = None" by (auto simp: WriteJSON_def DefaultMaxHandshakeBytes_def)
  with w' have w'': "WriteJSONs ?m ?w ?vs = (w', None)" by simp
  have codec: "d \<noteq> [] \<and> ?u d = Inr v" if "v \<in> set ?vs" "?m v = Inr d" for v d
    using that by (elim set_ConsD [elim_format] disjE) (auto simp: zero_request_def)
  have "keeps_contract ?w" "wr_out ?w = []" by (simp_all add: keeps_contract_def)
  from handshakes_in_order [where rest = "''tail''", OF w'' this codec]
  have "ReadJSONs ?u (length ?vs) (wr_out w' @ ''tail'') 0 = (Inr ?vs, ''tail'')" .
  moreover have "length ?vs = 2" by simp
  ultimately show ?thesis by (simp only: w'' fst_conv)
qed

text \<open>Reading a handshake accepts exactly one frame and consumes nothing else: it never takes more
  than the 4 header bytes and the limit, whatever arrives, and a message is delivered only when the
  bytes consumed are the frame of a non-empty text within the limit, of which it is the decoding.\<close>

theorem ReadJSON_accepts_frames:
  assumes "ReadJSON unmarshal r maxBytes = (res, rest)"
  shows "\<exists>used. r = used @ rest \<and> int (length used) \<le> 4 + effective_max maxBytes
    \<and> (case res of Inl e \<Rightarrow> True
       | Inr v \<Rightarrow> \<exists>data. used = frame_bytes data \<and> data \<noteq> [] \<and> int (length data) \<le> effective_max maxBytes \<and> unmarshal data = Inr v)"
proof -
  have pos: "0 < effective_max maxBytes" by (simp add: effective_max_def DefaultMaxHandshakeBytes_def)
  obtain h r1 where hr: "ReadFull r 4 = (h, r1)" by fastforce
  show ?thesis
  proof (cases h)
    case (Inl e)
    with hr assms have "length r < 4 \<and> rest = [] \<and> res = Inl e"
      by (auto simp: ReadJSON_def dest: ReadFull_Inl)
    with pos show ?thesis by (intro exI [of _ r]) simp
  next
    case (Inr header)
    with hr have r: "r = header @ r1" and len: "length header = 4" by (auto dest: ReadFull_Inr)
    let ?n = "Uint32 header"
    show ?thesis
    proof (cases "?n = 0 \<or> uint ?n > effective_max maxBytes")
      case True
      with hr Inr assms have "rest = r1 \<and> (\<exists>e. res = Inl e)"
        by (auto simp: ReadJSON_def Let_def split: if_splits)
      with r len pos show ?thesis by (intro exI [of _ header]) auto
    next
      case False
      obtain d r2 where dr: "ReadFull r1 (unat ?n) = (d, r2)" by fastforce
      with hr Inr False assms have res: "rest = r2" "res = (case d of Inl e \<Rightarrow> Inl e | Inr data \<Rightarrow> unmarshal data)"
        by (auto simp: ReadJSON_def Let_def split: sum.splits)
      have un: "int (unat ?n) \<le> effective_max maxBytes" using False by simp
      show ?thesis
      proof (cases d)
        case (Inl e)
        with dr res have "length r1 < unat ?n" "rest = []" "res = Inl e" by (auto dest: ReadFull_Inl)
        moreover from this(1) un r len have "int (length r) \<le> 4 + effective_max maxBytes"
          unfolding r length_append by linarith
        ultimately show ?thesis by (intro exI [of _ r]) simp
      next
        case (Inr data)
        with dr have r1: "r1 = data @ r2" and ld: "length data = unat ?n" by (auto dest: ReadFull_Inr)
        have "unat ?n \<noteq> 0" using False by (simp add: unat_eq_zero)
        then have "data \<noteq> []" using ld by auto
        moreover have "frame_bytes data = header @ data" using ld len by (simp add: frame_bytes_def PutUint32_Uint32)
        ultimately show ?thesis using res Inr r r1 len ld un
          by (intro exI [of _ "header @ data"]) (auto split: sum.split intro!: exI [of _ data])
      qed
    qed
  qed
qed

theorem ReadJSON_accepts_frames_witness:
  "\<exists>used. frame_bytes ''ok'' @ ''more'' = used @ ''more'' \<and> int (length used) \<le> 4 + effective_max 16
    \<and> (\<exists>data. used = frame_bytes data \<and> data \<noteq> [] \<and> int (length data) \<le> effective_max 16 \<and> (Inr data :: string res) = Inr ''ok'')"
proof -
  have "ReadJSON Inr (frame_bytes ''ok'' @ ''more'') 16 = (Inr ''ok'', ''more'')"
    by (rule ReadJSON_frame) (simp add: frame_fits_def effective_max_def DefaultMaxHandshakeBytes_def)
  from ReadJSON_accepts_frames [OF this] show ?thesis by simp
qed

end
