(* ===== verification/Certificate_Gate.thy ===== *)
theory Certificate_Gate
  imports Go_IO
begin

text \<open>
  \<open>internal/transport/certificate_gate.go\<close>: the challenge and proof that a client makes before the
  TLS handshake. SHA-256, HMAC-SHA-256, the X.509 and PEM parsers and the TLS handshake are
  parameters; \<open>rand.Read\<close> is the outcome \<open>nonce\<close>, an error or the 32 bytes it yields.
\<close>

section \<open>Constants\<close>

definition certificateGateVersion :: char where
  "certificateGateVersion = CHR 0x01"

definition certificateGateNonceSize :: nat where
  "certificateGateNonceSize = 32"

definition certificateGateChallengeSize :: nat where
  "certificateGateChallengeSize = 8 + 1 + certificateGateNonceSize"

definition certificateGateResponseSize :: nat where
  "certificateGateResponseSize = 8 + 1 + certificateGateNonceSize + 32"

definition certificateGateChallengeMagic :: string where
  "certificateGateChallengeMagic = ''LSYLGATE''"

definition certificateGateResponseMagic :: string where
  "certificateGateResponseMagic = ''LSYLPROF''"

definition certificateGateKeyContext :: string where
  "certificateGateKeyContext = ''LSYL-TUNNEL-CERTIFICATE-GATE-KEY-V1'' @ [CHR 0x00]"

definition certificateGateProofContext :: string where
  "certificateGateProofContext = ''LSYL-TUNNEL-CERTIFICATE-GATE-PROOF-V1'' @ [CHR 0x00]"

definition ErrCertificateGateProtocol :: go_error where
  "ErrCertificateGateProtocol = Sentinel ''invalid certificate possession gate protocol''"

definition ErrCertificateGateProof :: go_error where
  "ErrCertificateGateProof = Sentinel ''certificate possession gate proof rejected''"

lemmas gate_sizes = certificateGateNonceSize_def certificateGateChallengeSize_def certificateGateResponseSize_def
  certificateGateChallengeMagic_def certificateGateResponseMagic_def

section \<open>The key\<close>

definition CertificateGateKeyFromDER ::
    "(string \<Rightarrow> string res) \<Rightarrow> (string \<Rightarrow> string) \<Rightarrow> string \<Rightarrow> string res" where
  "CertificateGateKeyFromDER parseCertificate sha256 der =
     (case parseCertificate der of
        Inl err \<Rightarrow> Inl (Errorf ''parse certificate possession gate certificate: %w'' [FE err])
      | Inr raw \<Rightarrow> Inr (sha256 (certificateGateKeyContext @ raw)))"

text \<open>
  The loop over the PEM blocks. \<open>pem.Decode\<close> yields a block, its type and bytes, with the rest of the
  data, or no block. The fuel bounds the rounds: \<open>None\<close> is running out of it.
\<close>

fun gate_pem_loop ::
    "(string \<Rightarrow> (string \<times> string) option \<times> string) \<Rightarrow> (string \<Rightarrow> string res) \<Rightarrow> (string \<Rightarrow> string) \<Rightarrow> nat \<Rightarrow> string
     \<Rightarrow> string res option" where
  "gate_pem_loop pemDecode parseCertificate sha256 fuel data =
     (if data = [] then Some (Inl (Errorf ''certificate possession gate requires an X.509 certificate'' []))
      else case fuel of 0 \<Rightarrow> None
      | Suc fuel \<Rightarrow>
         (case pemDecode data of
            (None, rest) \<Rightarrow> Some (Inl (Errorf ''certificate possession gate requires an X.509 certificate'' []))
          | (Some (ty, bytes), rest) \<Rightarrow>
              if ty = ''CERTIFICATE'' then Some (CertificateGateKeyFromDER parseCertificate sha256 bytes)
              else gate_pem_loop pemDecode parseCertificate sha256 fuel rest))"

declare gate_pem_loop.simps [simp del]

definition CertificateGateKeyFromPEM ::
    "(string \<Rightarrow> (string \<times> string) option \<times> string) \<Rightarrow> (string \<Rightarrow> string res) \<Rightarrow> (string \<Rightarrow> string) \<Rightarrow> string
     \<Rightarrow> string res option" where
  "CertificateGateKeyFromPEM pemDecode parseCertificate sha256 data =
     gate_pem_loop pemDecode parseCertificate sha256 (length data) data"

section \<open>Writing everything\<close>

function writeAll :: "writer \<Rightarrow> string \<Rightarrow> writer \<times> go_error option" where
  "writeAll w data =
     (if data = [] then (w, None)
      else case Write w data of
             (w, n, Some err) \<Rightarrow> (w, Some err)
           | (w, n, None) \<Rightarrow> if n = 0 then (w, Some io_ErrShortWrite) else writeAll w (drop n data))"
  by pat_completeness auto
termination
  by (relation "measure (\<lambda>(w, data). length data)") auto

declare writeAll.simps [simp del]

section \<open>The exchange\<close>

text \<open>A connection is the bytes still to be read from the peer and the writer to it.\<close>

record net_conn =
  cn_in :: string
  cn_w :: writer

definition certificateGateProof :: "(string \<Rightarrow> string \<Rightarrow> string) \<Rightarrow> string \<Rightarrow> string \<Rightarrow> string \<Rightarrow> string" where
  "certificateGateProof hmac key challenge responseHeader =
     hmac key (certificateGateProofContext @ challenge @ responseHeader)"

definition ServerCertificateGate ::
    "(string \<Rightarrow> string \<Rightarrow> string) \<Rightarrow> string res \<Rightarrow> string \<Rightarrow> net_conn option \<Rightarrow> net_conn option \<times> go_error option" where
  "ServerCertificateGate hmac nonce key conn =
     (case conn of
        None \<Rightarrow> (None, Some (Errorf ''%w: connection is nil'' [FE ErrCertificateGateProtocol]))
      | Some c \<Rightarrow>
         (case nonce of
            Inl err \<Rightarrow> (Some c, Some (Errorf ''generate certificate possession gate challenge: %w'' [FE err]))
          | Inr nonce \<Rightarrow>
             (let challenge = certificateGateChallengeMagic @ [certificateGateVersion] @ nonce
              in case writeAll (cn_w c) challenge of
                (w, Some err) \<Rightarrow> (Some (c\<lparr>cn_w := w\<rparr>), Some (Errorf ''write certificate possession gate challenge: %w'' [FE err]))
              | (w, None) \<Rightarrow>
                 (case ReadFull (cn_in c) certificateGateResponseSize of
                    (Inl err, r) \<Rightarrow> (Some \<lparr>cn_in = r, cn_w = w\<rparr>, Some (Errorf ''read certificate possession gate proof: %w'' [FE err]))
                  | (Inr response, r) \<Rightarrow>
                     (Some \<lparr>cn_in = r, cn_w = w\<rparr>,
                      if take 8 response \<noteq> certificateGateResponseMagic \<or> response ! 8 \<noteq> certificateGateVersion
                      then Some ErrCertificateGateProtocol
                      else if drop (9 + certificateGateNonceSize) response
                                \<noteq> certificateGateProof hmac key challenge (take (9 + certificateGateNonceSize) response)
                      then Some ErrCertificateGateProof
                      else None)))))"

definition ClientCertificateGate ::
    "(string \<Rightarrow> string \<Rightarrow> string) \<Rightarrow> string res \<Rightarrow> string \<Rightarrow> net_conn option \<Rightarrow> net_conn option \<times> go_error option" where
  "ClientCertificateGate hmac nonce key conn =
     (case conn of
        None \<Rightarrow> (None, Some (Errorf ''%w: connection is nil'' [FE ErrCertificateGateProtocol]))
      | Some c \<Rightarrow>
         (case ReadFull (cn_in c) certificateGateChallengeSize of
            (Inl err, r) \<Rightarrow> (Some (c\<lparr>cn_in := r\<rparr>), Some (Errorf ''read certificate possession gate challenge: %w'' [FE err]))
          | (Inr challenge, r) \<Rightarrow>
             if take 8 challenge \<noteq> certificateGateChallengeMagic \<or> challenge ! 8 \<noteq> certificateGateVersion
             then (Some (c\<lparr>cn_in := r\<rparr>), Some ErrCertificateGateProtocol)
             else (case nonce of
                Inl err \<Rightarrow> (Some (c\<lparr>cn_in := r\<rparr>), Some (Errorf ''generate certificate possession gate nonce: %w'' [FE err]))
              | Inr nonce \<Rightarrow>
                 (let header = certificateGateResponseMagic @ [certificateGateVersion] @ nonce;
                      proof = certificateGateProof hmac key challenge header
                  in case writeAll (cn_w c) (header @ proof) of
                    (w, Some err) \<Rightarrow> (Some \<lparr>cn_in = r, cn_w = w\<rparr>, Some (Errorf ''write certificate possession gate proof: %w'' [FE err]))
                  | (w, None) \<Rightarrow> (Some \<lparr>cn_in = r, cn_w = w\<rparr>, None)))))"

section \<open>Dialing\<close>

text \<open>Of \<open>tls.Config\<close> the code reads and sets the server name only.\<close>

record tls_client_config =
  tc_ServerName :: string

definition tlsConfigForAddress :: "tls_client_config option \<Rightarrow> string \<Rightarrow> tls_client_config" where
  "tlsConfigForAddress config address =
     (let config = (case config of None \<Rightarrow> \<lparr>tc_ServerName = []\<rparr> | Some c \<Rightarrow> c)
      in if tc_ServerName config \<noteq> [] then config
         else (let colonPos = (case last_index (CHR '':'') address of None \<Rightarrow> length address | Some i \<Rightarrow> i)
               in config\<lparr>tc_ServerName := take colonPos address\<rparr>))"

text \<open>
  \<open>DialTLSWithCertificateGate\<close> on the outcome of the dial: what it returns, whether it closed the raw
  connection, and the deadline it set. \<open>tlsHandshake\<close> is the outcome of the TLS handshake with
  the configuration on the connection the gate left. A cleared deadline is \<open>None\<close>.
\<close>

record dial_outcome =
  do_conn :: "net_conn res"
  do_closed :: bool
  do_deadline :: "time option"

definition DialTLSWithCertificateGate ::
    "(string \<Rightarrow> string \<Rightarrow> string) \<Rightarrow> string res \<Rightarrow> (tls_client_config \<Rightarrow> net_conn \<Rightarrow> go_error option) \<Rightarrow> net_conn res
     \<Rightarrow> time \<Rightarrow> time option \<Rightarrow> string \<Rightarrow> tls_client_config option \<Rightarrow> string \<Rightarrow> duration \<Rightarrow> dial_outcome" where
  "DialTLSWithCertificateGate hmac nonce tlsHandshake dialed now ctxDeadline address tlsConfig gateKey handshakeTimeout =
     (case dialed of
        Inl err \<Rightarrow> \<lparr>do_conn = Inl err, do_closed = False, do_deadline = None\<rparr>
      | Inr raw \<Rightarrow>
         (let handshakeTimeout = (if handshakeTimeout \<le> 0 then 5 * second else handshakeTimeout);
              deadline = now + handshakeTimeout;
              deadline = (case ctxDeadline of Some d \<Rightarrow> if d < deadline then d else deadline | None \<Rightarrow> deadline)
          in case ClientCertificateGate hmac nonce gateKey (Some raw) of
            (c, Some err) \<Rightarrow> \<lparr>do_conn = Inl err, do_closed = True, do_deadline = Some deadline\<rparr>
          | (c, None) \<Rightarrow>
             (let conn = the c
              in case tlsHandshake (tlsConfigForAddress tlsConfig address) conn of
                Some err \<Rightarrow> \<lparr>do_conn = Inl (Errorf ''TLS handshake after certificate possession gate: %w'' [FE err]),
                             do_closed = True, do_deadline = Some deadline\<rparr>
              | None \<Rightarrow> \<lparr>do_conn = Inr conn, do_closed = False, do_deadline = None\<rparr>)))"

section \<open>Writing everything: what reaches the peer\<close>

lemma writeAll_clean: "wr_script w = [] \<Longrightarrow> writeAll w data = (w\<lparr>wr_out := wr_out w @ data\<rparr>, None)"
  by (subst writeAll.simps, subst writeAll.simps) (auto simp: Write_def)

lemma writeAll_sent:
  assumes "writeAll w data = (w', res)"
  shows "\<exists>sent. wr_out w' = wr_out w @ sent \<and> (\<exists>tl. data = sent @ tl)
    \<and> (case res of None \<Rightarrow> sent = data | Some e \<Rightarrow> data \<noteq> [])
    \<and> length (wr_script w) - length (wr_script w') \<le> length sent + 1"
  using assms
proof (induction w data rule: writeAll.induct)
  case (1 w data)
  show ?case
  proof (cases "data = []")
    case True
    with 1 show ?thesis by (simp add: writeAll.simps)
  next
    case False
    obtain w1 n err where w1: "Write w data = (w1, n, err)" by (cases "Write w data")
    note wc = Write_count [OF w1]
    show ?thesis
    proof (cases "err = None \<and> n \<noteq> 0")
      case True
      with False 1(2) w1 have rec: "writeAll w1 (drop n data) = (w', res)" by (subst (asm) writeAll.simps) simp
      from 1(1) [OF False w1 [symmetric] refl _ _ rec] True obtain sent tl where
        s: "wr_out w' = wr_out w1 @ sent" "drop n data = sent @ tl"
           "case res of None \<Rightarrow> sent = drop n data | Some e \<Rightarrow> drop n data \<noteq> []"
           "length (wr_script w1) - length (wr_script w') \<le> length sent + 1" by auto
      have "wr_out w' = wr_out w @ (take n data @ sent)" using s(1) wc by simp
      moreover have "data = (take n data @ sent) @ tl" using s(2) by (metis append.assoc append_take_drop_id)
      moreover have "case res of None \<Rightarrow> take n data @ sent = data | Some e \<Rightarrow> data \<noteq> []"
        using s(3) False by (auto split: option.splits)
      moreover have "length (wr_script w) - length (wr_script w') \<le> length (take n data @ sent) + 1"
        using s(4) wc True by simp arith
      ultimately show ?thesis by blast
    next
      case stop: False
      with False 1(2) w1 have "w' = w1" "res \<noteq> None"
        by (subst (asm) writeAll.simps, auto split: option.splits)+
      with wc False show ?thesis
        by (intro exI [of _ "take n data"]) (auto split: option.splits intro: append_take_drop_id [symmetric])
    qed
  qed
qed

text \<open>Writing a whole message to a writer that may take it in any number of pieces always ends: either
  every byte arrived, in order, or an error is reported and what arrived is a proper part of the
  message from its beginning. Each call it makes but the last advances by at least one byte.\<close>

theorem writeAll_delivers:
  assumes "writeAll w data = (w', res)"
  shows "\<exists>sent. wr_out w' = wr_out w @ sent \<and> (\<exists>tl. data = sent @ tl)
    \<and> (case res of None \<Rightarrow> sent = data | Some e \<Rightarrow> data \<noteq> [])
    \<and> length (wr_script w) - length (wr_script w') \<le> length sent + 1"
  using assms by (rule writeAll_sent)

theorem writeAll_delivers_witness:
  "\<exists>sent tl. ''abcd'' = sent @ tl
    \<and> wr_out (fst (writeAll \<lparr>wr_out = ''>'', wr_script = [Accept 1, Accept 2]\<rparr> ''abcd'')) = ''>'' @ sent \<and> sent = ''abcd''"
proof -
  have "writeAll \<lparr>wr_out = ''>'', wr_script = [Accept 1, Accept 2]\<rparr> ''abcd'' = (\<lparr>wr_out = ''>abcd'', wr_script = []\<rparr>, None)"
    by code_simp
  from writeAll_delivers [OF this] this show ?thesis by auto
qed

section \<open>The exchange\<close>

definition gate_message :: "string \<Rightarrow> string \<Rightarrow> string" where
  \<comment> \<open>what the proof of an exchange authenticates: the challenge nonce and the response header\<close>
  "gate_message nonce header =
     certificateGateProofContext @ (certificateGateChallengeMagic @ [certificateGateVersion] @ nonce) @ header"

definition gate_header :: "string \<Rightarrow> bool" where
  "gate_header h \<longleftrightarrow> length h = 41 \<and> take 8 h = certificateGateResponseMagic \<and> h ! 8 = certificateGateVersion"

lemma gate_message_inj:
  "length n = length n' \<Longrightarrow> gate_message n h = gate_message n' h' \<longleftrightarrow> n = n' \<and> h = h'"
  by (auto simp: gate_message_def)

lemma gate_accepts_shape:
  assumes "ServerCertificateGate hmac nonce key conn = (conn', None)"
  shows "\<exists>n c c' h. nonce = Inr n \<and> conn = Some c \<and> conn' = Some c'
    \<and> wr_out (cn_w c') = wr_out (cn_w c) @ certificateGateChallengeMagic @ [certificateGateVersion] @ n
    \<and> gate_header h \<and> length (hmac key (gate_message n h)) = 32
    \<and> cn_in c = h @ hmac key (gate_message n h) @ cn_in c'"
proof -
  from assms obtain c n w response r where c: "conn = Some c" "nonce = Inr n"
    and w: "writeAll (cn_w c) (certificateGateChallengeMagic @ [certificateGateVersion] @ n) = (w, None)"
    and r: "ReadFull (cn_in c) certificateGateResponseSize = (Inr response, r)"
    and chk: "take 8 response = certificateGateResponseMagic" "response ! 8 = certificateGateVersion"
      "drop 41 response = hmac key (gate_message n (take 41 response))"
    and conn': "conn' = Some \<lparr>cn_in = r, cn_w = w\<rparr>"
    by (auto simp: ServerCertificateGate_def Let_def certificateGateProof_def gate_message_def certificateGateNonceSize_def
        split: option.splits sum.splits prod.splits if_splits)
  from ReadFull_Inr [OF r] have resp: "cn_in c = response @ r" "length response = 73" by (auto simp: gate_sizes)
  have "response = take 41 response @ hmac key (gate_message n (take 41 response))"
    using chk(3) by (metis append_take_drop_id)
  moreover have "gate_header (take 41 response)" using chk resp(2) by (simp add: gate_header_def)
  moreover have "length (hmac key (gate_message n (take 41 response))) = 32"
    using resp(2) by (simp flip: chk(3))
  moreover have "wr_out w = wr_out (cn_w c) @ certificateGateChallengeMagic @ [certificateGateVersion] @ n"
    using writeAll_sent [OF w] by simp
  ultimately show ?thesis using c conn' resp(1)
    by (intro exI [of _ n] exI [of _ c] exI [of _ "\<lparr>cn_in = r, cn_w = w\<rparr>"] exI [of _ "take 41 response"]) simp
qed

text \<open>C4. The server lets a connection through only after it has written its whole challenge and has
  read a response whose proof is the MAC, under its own key, of exactly that challenge and the
  response's own header; it consumes nothing after the response, so the TLS handshake that follows
  sees all of its bytes.\<close>

theorem gate_accepts_only_proof:
  assumes "ServerCertificateGate hmac nonce key conn = (conn', None)"
  shows "\<exists>n c c' h. nonce = Inr n \<and> conn = Some c \<and> conn' = Some c'
    \<and> wr_out (cn_w c') = wr_out (cn_w c) @ certificateGateChallengeMagic @ [certificateGateVersion] @ n
    \<and> gate_header h \<and> length (hmac key (gate_message n h)) = 32
    \<and> cn_in c = h @ hmac key (gate_message n h) @ cn_in c'"
  using assms by (rule gate_accepts_shape)

text \<open>A concrete MAC for the witnesses: the first 32 bytes of the key and the message.\<close>

definition sample_mac :: "string \<Rightarrow> string \<Rightarrow> string" where
  "sample_mac key m = take 32 (key @ m @ replicate 32 (CHR ''.''))"

definition clean_conn :: "string \<Rightarrow> net_conn" where
  "clean_conn s = \<lparr>cn_in = s, cn_w = \<lparr>wr_out = [], wr_script = []\<rparr>\<rparr>"

definition sample_header :: string where
  "sample_header = certificateGateResponseMagic @ [certificateGateVersion] @ replicate 32 (CHR ''r'')"

theorem gate_accepts_only_proof_witness:
  "\<exists>h. gate_header h \<and> length (sample_mac ''k'' (gate_message (replicate 32 (CHR ''n'')) h)) = 32
    \<and> sample_header @ sample_mac ''k'' (gate_message (replicate 32 (CHR ''n'')) sample_header) @ ''TLS''
        = h @ sample_mac ''k'' (gate_message (replicate 32 (CHR ''n'')) h) @ ''TLS''"
proof -
  let ?n = "replicate 32 (CHR ''n'')"
  let ?c = "clean_conn (sample_header @ sample_mac ''k'' (gate_message ?n sample_header) @ ''TLS'')"
  have "snd (ServerCertificateGate sample_mac (Inr ?n) ''k'' (Some ?c)) = None"
    and "map_option cn_in (fst (ServerCertificateGate sample_mac (Inr ?n) ''k'' (Some ?c))) = Some ''TLS''"
    by code_simp+
  then obtain c' where "ServerCertificateGate sample_mac (Inr ?n) ''k'' (Some ?c) = (Some c', None)" "cn_in c' = ''TLS''"
    by (cases "ServerCertificateGate sample_mac (Inr ?n) ''k'' (Some ?c)") auto
  from gate_accepts_only_proof [OF this(1)] this(2) show ?thesis by (auto simp: clean_conn_def)
qed

text \<open>A recorded response is worth nothing in another session: if the server accepts the same incoming
  bytes under two different challenge nonces, two different messages have the same MAC under its
  key.\<close>

theorem gate_replay_needs_collision:
  assumes "ServerCertificateGate hmac (Inr n1) key (Some c1) = (c1', None)"
    and "ServerCertificateGate hmac (Inr n2) key (Some c2) = (c2', None)"
    and "cn_in c1 = cn_in c2" and "length n1 = 32" and "length n2 = 32" and "n1 \<noteq> n2"
  shows "\<exists>m1 m2. m1 \<noteq> m2 \<and> hmac key m1 = hmac key m2"
proof -
  from gate_accepts_shape [OF assms(1)] obtain h1 r1 where
    1: "gate_header h1" "length (hmac key (gate_message n1 h1)) = 32" "cn_in c1 = h1 @ hmac key (gate_message n1 h1) @ r1"
    by auto
  from gate_accepts_shape [OF assms(2)] obtain h2 r2 where
    2: "gate_header h2" "length (hmac key (gate_message n2 h2)) = 32" "cn_in c2 = h2 @ hmac key (gate_message n2 h2) @ r2"
    by auto
  have "h1 = h2" using 1(1,3) 2(1,3) assms(3) by (simp add: gate_header_def append_eq_append_conv)
  with 1 2 assms(3) have "hmac key (gate_message n1 h1) = hmac key (gate_message n2 h1)"
    by (simp add: append_eq_append_conv)
  moreover have "gate_message n1 h1 \<noteq> gate_message n2 h1" using assms(4-6) by (simp add: gate_message_inj)
  ultimately show ?thesis by blast
qed

theorem gate_replay_needs_collision_witness:
  "\<exists>m1 m2. m1 \<noteq> m2 \<and> (\<lambda>k m. replicate 32 (CHR ''z'')) ''k'' m1 = (\<lambda>k (m :: string). replicate 32 (CHR ''z'')) ''k'' m2"
proof -
  let ?mac = "\<lambda>(k :: string) (m :: string). replicate 32 (CHR ''z'')"
  let ?c = "clean_conn (sample_header @ replicate 32 (CHR ''z''))"
  have "snd (ServerCertificateGate ?mac (Inr (replicate 32 (CHR ''a''))) ''k'' (Some ?c)) = None"
    and "snd (ServerCertificateGate ?mac (Inr (replicate 32 (CHR ''b''))) ''k'' (Some ?c)) = None"
    by code_simp+
  then obtain c1 c2 where "ServerCertificateGate ?mac (Inr (replicate 32 (CHR ''a''))) ''k'' (Some ?c) = (c1, None)"
    "ServerCertificateGate ?mac (Inr (replicate 32 (CHR ''b''))) ''k'' (Some ?c) = (c2, None)"
    by (metis prod.collapse)
  from gate_replay_needs_collision [OF this refl] show ?thesis by (simp add: replicate_eq_replicate)
qed

section \<open>The two sides together\<close>

text \<open>
  One run over a connection that delivers everything: the client reads what the server wrote, the server
  what the client wrote. The results are the server's and the client's.
\<close>

definition gate_exchange ::
    "(string \<Rightarrow> string \<Rightarrow> string) \<Rightarrow> string \<Rightarrow> string \<Rightarrow> string \<Rightarrow> string \<Rightarrow> go_error option \<times> go_error option" where
  "gate_exchange hmac serverNonce clientNonce serverKey clientKey =
     (let challenge = (case fst (ServerCertificateGate hmac (Inr serverNonce) serverKey (Some (clean_conn []))) of
                         None \<Rightarrow> [] | Some c \<Rightarrow> wr_out (cn_w c));
          (cc, clientResult) = ClientCertificateGate hmac (Inr clientNonce) clientKey (Some (clean_conn challenge));
          response = (case cc of None \<Rightarrow> [] | Some c \<Rightarrow> wr_out (cn_w c));
          (sc, serverResult) = ServerCertificateGate hmac (Inr serverNonce) serverKey (Some (clean_conn response))
      in (serverResult, clientResult))"

lemma server_challenge:
  "(case fst (ServerCertificateGate hmac (Inr n) key (Some (clean_conn s))) of None \<Rightarrow> []
     | Some c \<Rightarrow> wr_out (cn_w c)) = certificateGateChallengeMagic @ [certificateGateVersion] @ n"
  by (simp add: ServerCertificateGate_def clean_conn_def writeAll_clean Let_def split: prod.split sum.split)

text \<open>When both sides hold the same certificate, the exchange succeeds on both; with different keys the
  client still completes and the server refuses the proof, unless the two MACs coincide.\<close>

theorem gate_exchange_decides:
  assumes "length serverNonce = 32" and "length clientNonce = 32" and "\<And>k m. length (hmac k m) = 32"
  shows "\<exists>m. gate_exchange hmac serverNonce clientNonce serverKey clientKey
     = (if hmac serverKey m = hmac clientKey m then None else Some ErrCertificateGateProof, None)"
proof -
  let ?ch = "certificateGateChallengeMagic @ [certificateGateVersion] @ serverNonce"
  let ?h = "certificateGateResponseMagic @ [certificateGateVersion] @ clientNonce"
  let ?m = "certificateGateProofContext @ ?ch @ ?h"
  have client: "ClientCertificateGate hmac (Inr clientNonce) clientKey (Some (clean_conn ?ch))
      = (Some \<lparr>cn_in = [], cn_w = \<lparr>wr_out = ?h @ hmac clientKey ?m, wr_script = []\<rparr>\<rparr>, None)"
    using assms by (simp add: ClientCertificateGate_def clean_conn_def ReadFull_def writeAll_clean gate_sizes Let_def
        certificateGateProof_def)
  have server: "snd (ServerCertificateGate hmac (Inr serverNonce) serverKey (Some (clean_conn (?h @ hmac clientKey ?m))))
      = (if hmac serverKey ?m = hmac clientKey ?m then None else Some ErrCertificateGateProof)"
    using assms by (simp add: ServerCertificateGate_def clean_conn_def ReadFull_def writeAll_clean gate_sizes Let_def
        certificateGateProof_def)
  show ?thesis unfolding gate_exchange_def Let_def server_challenge client
    using server by (intro exI [of _ ?m]) (auto split: prod.split)
qed

theorem gate_exchange_decides_witness:
  "gate_exchange sample_mac (replicate 32 (CHR ''n'')) (replicate 32 (CHR ''r'')) ''key-a'' ''key-a'' = (None, None)
   \<and> gate_exchange sample_mac (replicate 32 (CHR ''n'')) (replicate 32 (CHR ''r'')) ''key-a'' ''key-b''
       = (Some ErrCertificateGateProof, None)"
proof -
  have len: "length (sample_mac k m) = 32" for k m by (simp add: sample_mac_def)
  have ne: "sample_mac ''key-a'' m \<noteq> sample_mac ''key-b'' m" for m by (simp add: sample_mac_def numeral_eq_Suc)
  let ?run = "\<lambda>k. gate_exchange sample_mac (replicate 32 (CHR ''n'')) (replicate 32 (CHR ''r'')) ''key-a'' k"
  have run: "\<exists>m. ?run k = (if sample_mac ''key-a'' m = sample_mac k m then None else Some ErrCertificateGateProof, None)" for k
    by (rule gate_exchange_decides [OF _ _ len]) simp_all
  from run [of "''key-a''"] have "?run ''key-a'' = (None, None)" by (simp only: simp_thms if_True)
  moreover from run [of "''key-b''"] have "?run ''key-b'' = (Some ErrCertificateGateProof, None)"
    by (simp only: ne if_False simp_thms)
  ultimately show ?thesis by (rule conjI)
qed

section \<open>Reading the key from PEM data\<close>

lemma gate_pem_loop_Some:
  assumes "\<And>d b rest. pemDecode d = (Some b, rest) \<Longrightarrow> length rest < length d"
    and "length data \<le> fuel"
  shows "\<exists>res. gate_pem_loop pemDecode parseCertificate sha fuel data = Some res
    \<and> (\<forall>key. res = Inr key \<longrightarrow> (\<exists>d bytes rest. pemDecode d = (Some (''CERTIFICATE'', bytes), rest)
          \<and> CertificateGateKeyFromDER parseCertificate sha bytes = Inr key))"
  using assms(2)
proof (induction fuel arbitrary: data)
  case 0
  then show ?case by (simp add: gate_pem_loop.simps)
next
  case (Suc fuel)
  consider "data = []" | "data \<noteq> []" "fst (pemDecode data) = None"
    | ty bytes rest where "data \<noteq> []" "pemDecode data = (Some (ty, bytes), rest)"
    by (cases "pemDecode data"; cases "fst (pemDecode data)") auto
  then show ?case
  proof cases
    case 3
    with assms(1) Suc.prems have "length rest \<le> fuel" by fastforce
    from Suc.IH [OF this] 3 show ?thesis
      by (cases "ty = ''CERTIFICATE''") (auto simp: gate_pem_loop.simps [of _ _ _ "Suc fuel"])
  qed (auto simp: gate_pem_loop.simps [of _ _ _ "Suc fuel"] split: prod.split)
qed

text \<open>Looking for the certificate in PEM data always ends, given that the PEM decoder consumes at
  least a byte with every block, and a key is only ever derived from the bytes of a block of type
  CERTIFICATE that parsed.\<close>

theorem gate_key_from_PEM_ends:
  assumes "\<And>d b rest. pemDecode d = (Some b, rest) \<Longrightarrow> length rest < length d"
  shows "\<exists>res. CertificateGateKeyFromPEM pemDecode parseCertificate sha data = Some res
    \<and> (\<forall>key. res = Inr key \<longrightarrow> (\<exists>d bytes rest. pemDecode d = (Some (''CERTIFICATE'', bytes), rest)
          \<and> CertificateGateKeyFromDER parseCertificate sha bytes = Inr key))"
  unfolding CertificateGateKeyFromPEM_def using assms by (rule gate_pem_loop_Some) simp_all

text \<open>A decoder for the witness: every byte is a block, a private key for \<open>k\<close> and a certificate otherwise.\<close>

definition sample_pem :: "string \<Rightarrow> (string \<times> string) option \<times> string" where
  "sample_pem d = (case d of [] \<Rightarrow> (None, [])
     | c # rest \<Rightarrow> (Some (if c = CHR ''k'' then ''PRIVATE KEY'' else ''CERTIFICATE'', [c]), rest))"

theorem gate_key_from_PEM_ends_witness:
  "\<exists>key. CertificateGateKeyFromPEM sample_pem Inr (\<lambda>s. s) ''kc'' = Some (Inr key)
    \<and> (\<exists>d bytes rest. sample_pem d = (Some (''CERTIFICATE'', bytes), rest) \<and> certificateGateKeyContext @ bytes = key)"
proof -
  have dec: "length rest < length d" if "sample_pem d = (Some b, rest)" for d b rest
    using that by (auto simp: sample_pem_def split: list.splits)
  have "\<exists>res. CertificateGateKeyFromPEM sample_pem Inr (\<lambda>s. s) ''kc'' = Some res
    \<and> (\<forall>key. res = Inr key \<longrightarrow> (\<exists>d bytes rest. sample_pem d = (Some (''CERTIFICATE'', bytes), rest)
          \<and> CertificateGateKeyFromDER Inr (\<lambda>s. s) bytes = Inr key))"
    by (rule gate_key_from_PEM_ends, erule dec)
  then obtain res where res: "CertificateGateKeyFromPEM sample_pem Inr (\<lambda>s. s) ''kc'' = Some res"
    and keys: "\<forall>key. res = Inr key \<longrightarrow> (\<exists>d bytes rest. sample_pem d = (Some (''CERTIFICATE'', bytes), rest)
        \<and> CertificateGateKeyFromDER Inr (\<lambda>s. s) bytes = Inr key)"
    by blast
  have "CertificateGateKeyFromPEM sample_pem Inr (\<lambda>s. s) ''kc'' = Some (Inr (certificateGateKeyContext @ ''c''))"
    by code_simp
  with res keys show ?thesis by (auto simp: CertificateGateKeyFromDER_def)
qed

section \<open>Dialing\<close>

lemma ClientCertificateGate_keeps: "fst (ClientCertificateGate hmac nonce key (Some raw)) \<noteq> None"
  by (simp add: ClientCertificateGate_def Let_def split: prod.split sum.split option.split)

text \<open>A dialed connection is handed out only after the gate completed on it and then the TLS handshake
  succeeded with a configuration whose server name is the one configured or the host of the
  address; on any failure after the dial it is closed, and while it is open the deadline is never
  later than the handshake timeout (5 seconds by default) or the context's deadline.\<close>

theorem dial_hands_out_only_verified:
  assumes "DialTLSWithCertificateGate hmac nonce tlsHandshake (Inr raw) now ctxDeadline address cfg key timeout = out"
  shows "(case do_conn out of
       Inr conn \<Rightarrow> ClientCertificateGate hmac nonce key (Some raw) = (Some conn, None)
         \<and> tlsHandshake (tlsConfigForAddress cfg address) conn = None \<and> \<not> do_closed out \<and> do_deadline out = None
     | Inl e \<Rightarrow> do_closed out \<and> (\<exists>d. do_deadline out = Some d \<and> d \<le> now + (if timeout \<le> 0 then 5 * second else timeout)
         \<and> (\<forall>cd. ctxDeadline = Some cd \<longrightarrow> d \<le> cd)))
    \<and> (\<forall>host port. address = host @ CHR '':'' # port \<and> CHR '':'' \<notin> set port \<longrightarrow>
        tc_ServerName (tlsConfigForAddress cfg address) =
          (case cfg of None \<Rightarrow> host | Some c \<Rightarrow> if tc_ServerName c = [] then host else tc_ServerName c))"
proof
  show "case do_conn out of
       Inr conn \<Rightarrow> ClientCertificateGate hmac nonce key (Some raw) = (Some conn, None)
         \<and> tlsHandshake (tlsConfigForAddress cfg address) conn = None \<and> \<not> do_closed out \<and> do_deadline out = None
     | Inl e \<Rightarrow> do_closed out \<and> (\<exists>d. do_deadline out = Some d \<and> d \<le> now + (if timeout \<le> 0 then 5 * second else timeout)
         \<and> (\<forall>cd. ctxDeadline = Some cd \<longrightarrow> d \<le> cd))"
    using assms ClientCertificateGate_keeps [of hmac nonce key raw]
    by (auto simp: DialTLSWithCertificateGate_def Let_def split: prod.splits option.splits)
  show "\<forall>host port. address = host @ CHR '':'' # port \<and> CHR '':'' \<notin> set port \<longrightarrow>
        tc_ServerName (tlsConfigForAddress cfg address) =
          (case cfg of None \<Rightarrow> host | Some c \<Rightarrow> if tc_ServerName c = [] then host else tc_ServerName c)"
    by (auto simp: tlsConfigForAddress_def last_index_append Let_def split: option.splits)
qed

theorem dial_hands_out_only_verified_witness:
  "\<exists>conn. ClientCertificateGate sample_mac (Inr (replicate 32 (CHR ''r''))) ''k''
      (Some (clean_conn (certificateGateChallengeMagic @ [certificateGateVersion] @ replicate 32 (CHR ''n'')))) = (Some conn, None)
    \<and> tc_ServerName (tlsConfigForAddress None ''vpn.example:3443'') = ''vpn.example''"
proof -
  let ?raw = "clean_conn (certificateGateChallengeMagic @ [certificateGateVersion] @ replicate 32 (CHR ''n''))"
  let ?o = "DialTLSWithCertificateGate sample_mac (Inr (replicate 32 (CHR ''r''))) (\<lambda>cfg conn. None) (Inr ?raw) 10 None
     ''vpn.example:3443'' None ''k'' 0"
  have "case do_conn ?o of Inl e \<Rightarrow> False | Inr conn \<Rightarrow> True" by code_simp
  then obtain conn where "do_conn ?o = Inr conn" by (auto split: sum.splits)
  note dial = dial_hands_out_only_verified [OF refl, of sample_mac "Inr (replicate 32 (CHR ''r''))" "\<lambda>cfg conn. None" ?raw 10 None "''vpn.example:3443''" None "''k''" 0]
  from dial [THEN conjunct2, rule_format, of "''vpn.example''" "''3443''"]
  have "tc_ServerName (tlsConfigForAddress None ''vpn.example:3443'') = ''vpn.example''" by simp
  with dial [THEN conjunct1] \<open>do_conn ?o = Inr conn\<close> show ?thesis by (simp only: sum.case simp_thms) blast
qed

end
