(* ===== verification/Transport.thy ===== *)
theory Transport
  imports Go_Strings
begin

text \<open>
  \<open>internal/transport/transport.go\<close>: the TLS version setting, the byte rate limiter shared by the two
  directions of a proxied stream, the accounting of the copied bytes, and TCP keep-alive. The duration
  of a chunk is computed in \<open>float64\<close>; that computation is the argument \<open>dur\<close>, the number of
  nanoseconds of \<open>time.Duration(float64(n) / rate * float64(time.Second))\<close>.
\<close>

section \<open>TLS version\<close>

definition VersionTLS12 :: int where
  "VersionTLS12 = 0x0303"

definition VersionTLS13 :: int where
  "VersionTLS13 = 0x0304"

definition TLSMinVersion :: "string \<Rightarrow> int" where
  "TLSMinVersion version = (if TrimSpace version \<in> {''1.2'', ''TLS1.2'', ''tls1.2''} then VersionTLS12 else VersionTLS13)"

section \<open>Rate limiter\<close>

type_synonym chunk_dur = "int \<Rightarrow> int \<Rightarrow> duration"

record byteRateLimiter =
  rl_rate :: int
  rl_chunk :: int
  rl_next :: time

definition newByteRateLimiter :: "chunk_dur \<Rightarrow> time \<Rightarrow> int \<Rightarrow> byteRateLimiter" where
  "newByteRateLimiter dur now rateBytesPerSec =
     (let chunk = rateBytesPerSec div 10;
          chunk = (if chunk < 1 then 1 else chunk);
          chunk = (if chunk > 32 * 1024 then 32 * 1024 else chunk)
      in \<lparr>rl_rate = rateBytesPerSec, rl_chunk = chunk, rl_next = now - dur chunk rateBytesPerSec\<rparr>)"

definition maxChunk :: "byteRateLimiter option \<Rightarrow> int" where
  "maxChunk l = (case l of None \<Rightarrow> 0 | Some l \<Rightarrow> if rl_chunk l < 1 then 1 else rl_chunk l)"

text \<open>One chunk: the new state, and how long the caller sleeps.\<close>

definition waitChunk :: "chunk_dur \<Rightarrow> time \<Rightarrow> int \<Rightarrow> byteRateLimiter \<Rightarrow> byteRateLimiter \<times> duration" where
  "waitChunk dur now n l =
     (let available = (if rl_next l < now then now else rl_next l)
      in (l\<lparr>rl_next := available + dur n (rl_rate l)\<rparr>, max 0 (available - now)))"

text \<open>
  The loop of \<open>wait\<close>: it takes a clock reading for each chunk, here from the stream \<open>clock\<close>, and
  yields the state with the sizes of the chunks and the moments they were released. The fuel bounds
  its rounds; \<open>None\<close> is running out of it.
\<close>

fun wait_loop ::
    "chunk_dur \<Rightarrow> nat \<Rightarrow> (nat \<Rightarrow> time) \<Rightarrow> int \<Rightarrow> byteRateLimiter \<Rightarrow> (byteRateLimiter \<times> (int \<times> time) list) option" where
  "wait_loop dur fuel clock remaining l =
     (if remaining \<le> 0 then Some (l, [])
      else case fuel of 0 \<Rightarrow> None
      | Suc fuel \<Rightarrow>
         (let chunk = (if remaining > rl_chunk l then rl_chunk l else remaining);
              (l', slept) = waitChunk dur (clock 0) chunk l
          in case wait_loop dur fuel (\<lambda>i. clock (Suc i)) (remaining - chunk) l' of
               None \<Rightarrow> None
             | Some (l'', out) \<Rightarrow> Some (l'', (chunk, clock 0 + slept) # out)))"

declare wait_loop.simps [simp del]

definition limiter_wait ::
    "chunk_dur \<Rightarrow> (nat \<Rightarrow> time) \<Rightarrow> int \<Rightarrow> byteRateLimiter option \<Rightarrow> (byteRateLimiter option \<times> (int \<times> time) list) option" where
  "limiter_wait dur clock n l =
     (case l of
        None \<Rightarrow> Some (None, [])
      | Some l \<Rightarrow>
          if rl_rate l \<le> 0 \<or> n \<le> 0 then Some (Some l, [])
          else map_option (\<lambda>(l, out). (Some l, out)) (wait_loop dur (nat n) clock n l))"

text \<open>
  \<open>rateLimitedReader.Read\<close> with a buffer of \<open>len\<close> bytes. \<open>read k\<close> is the inner reader's answer to a
  buffer of \<open>k\<close> bytes: the count and the error. A nil limiter does not occur here; it would
  leave the buffer as it is.
\<close>

definition rateLimitedRead ::
    "chunk_dur \<Rightarrow> (nat \<Rightarrow> time) \<Rightarrow> (int \<Rightarrow> int \<times> go_error option) \<Rightarrow> int \<Rightarrow> byteRateLimiter option
     \<Rightarrow> (byteRateLimiter option \<times> (int \<times> time) list \<times> int \<times> go_error option) option" where
  "rateLimitedRead dur clock read len l =
     (let mx = maxChunk l;
          len = (if mx > 0 \<and> len > mx then mx else len);
          (n, err) = read len
      in if n > 0 then map_option (\<lambda>(l, out). (l, out, n, err)) (limiter_wait dur clock n l)
         else Some (l, [], n, err))"

section \<open>Proxying\<close>

text \<open>
  \<open>copyAndClose\<close> reports its direction and the bytes copied, and adds them to its counter, if there is
  one. \<open>ProxyPair\<close> takes the two reports in the order they arrive.
\<close>

definition copyAndClose :: "string \<Rightarrow> int \<Rightarrow> int option \<Rightarrow> int option \<times> (string \<times> int)" where
  "copyAndClose direction n counter = (map_option (\<lambda>c. int64 (c + n)) counter, (direction, n))"

fun collect_results :: "(string \<times> int) list \<Rightarrow> int \<times> int \<Rightarrow> int \<times> int" where
  "collect_results [] acc = acc"
| "collect_results ((direction, n) # rest) (leftToRight, rightToLeft) =
     (if direction = ''left_to_right'' then collect_results rest (n, rightToLeft)
      else collect_results rest (leftToRight, n))"

definition ProxyPairWithOptions ::
    "bool \<Rightarrow> int \<Rightarrow> int \<Rightarrow> int option \<Rightarrow> int option \<Rightarrow> (int \<times> int) \<times> int option \<times> int option" where
  "ProxyPairWithOptions leftFirst copiedLR copiedRL leftToRightBytes rightToLeftBytes =
     (let (lr, first) = copyAndClose ''left_to_right'' copiedLR leftToRightBytes;
          (rl, second) = copyAndClose ''right_to_left'' copiedRL rightToLeftBytes;
          results = (if leftFirst then [first, second] else [second, first])
      in (collect_results results (0, 0), lr, rl))"

lemma ProxyPair_order: "ProxyPairWithOptions b m n c d = ProxyPairWithOptions (\<not> b) m n c d"
  by (simp add: ProxyPairWithOptions_def copyAndClose_def)

text \<open>The limiter of a pair, nil when no limit is set.\<close>

definition proxy_limiter :: "chunk_dur \<Rightarrow> time \<Rightarrow> int \<Rightarrow> byteRateLimiter option" where
  "proxy_limiter dur now rateLimitBytesPerSec =
     (if rateLimitBytesPerSec > 0 then Some (newByteRateLimiter dur now rateLimitBytesPerSec) else None)"

section \<open>Keep-alive\<close>

text \<open>A connection, as far as keep-alive looks at it: nil, TCP, a wrapper with \<open>NetConn\<close>, or another one.
  The result is the period set on the TCP connection, if any.\<close>

datatype keepalive_conn = NilConn | TCPConn | Wrapped keepalive_conn | OtherConn

fun EnableTCPKeepAlive :: "keepalive_conn \<Rightarrow> duration \<Rightarrow> duration option" where
  "EnableTCPKeepAlive NilConn period = None"
| "EnableTCPKeepAlive TCPConn period = Some (if period \<le> 0 then 30 * second else period)"
| "EnableTCPKeepAlive (Wrapped c) period = EnableTCPKeepAlive c (if period \<le> 0 then 30 * second else period)"
| "EnableTCPKeepAlive OtherConn period = None"

section \<open>The rate that is kept\<close>

text \<open>What the computation of a chunk's duration keeps: it is not negative, and short of the exact
  quotient by less than two nanoseconds (rounding and truncation).\<close>

definition dur_ok :: "chunk_dur \<Rightarrow> int \<Rightarrow> bool" where
  "dur_ok dur rate \<longleftrightarrow> (\<forall>n. 0 \<le> dur n rate \<and> n * second \<le> (dur n rate + 2) * rate)"

lemma wait_loop_terminates:
  "1 \<le> rl_chunk l \<Longrightarrow> remaining \<le> int fuel \<Longrightarrow> wait_loop dur fuel clock remaining l \<noteq> None"
proof (induction fuel arbitrary: clock remaining l)
  case (Suc fuel)
  define chunk where "chunk = (if remaining > rl_chunk l then rl_chunk l else remaining)"
  show ?case
  proof (cases "remaining \<le> 0")
    case False
    obtain l1 s where w: "waitChunk dur (clock 0) chunk l = (l1, s)" by fastforce
    have "1 \<le> chunk" using Suc.prems False by (simp add: chunk_def)
    then have "remaining - chunk \<le> int fuel" using Suc.prems by simp
    moreover have "1 \<le> rl_chunk l1" using w Suc.prems by (auto simp: waitChunk_def Let_def)
    ultimately obtain r where "wait_loop dur fuel (\<lambda>i. clock (Suc i)) (remaining - chunk) l1 = Some r"
      using Suc.IH by blast
    with False w show ?thesis
      by (subst wait_loop.simps) (simp add: chunk_def [symmetric] split: prod.split)
  qed (simp add: wait_loop.simps)
qed (simp add: wait_loop.simps)

text \<open>The schedule of a run: each release waits for the durations of everything released before it.\<close>

fun on_schedule :: "chunk_dur \<Rightarrow> int \<Rightarrow> time \<Rightarrow> (int \<times> time) list \<Rightarrow> bool" where
  "on_schedule dur rate t [] = True"
| "on_schedule dur rate t ((n, released) # rest) \<longleftrightarrow> t \<le> released \<and> on_schedule dur rate (released + dur n rate) rest"

lemma wait_loop_schedule:
  "wait_loop dur fuel clock remaining l = Some (l', out) \<Longrightarrow> 1 \<le> rl_chunk l \<Longrightarrow>
   on_schedule dur (rl_rate l) (rl_next l) out \<and> sum_list (map fst out) = max 0 remaining
   \<and> (\<forall>e \<in> set out. 1 \<le> fst e \<and> fst e \<le> rl_chunk l) \<and> rl_rate l' = rl_rate l \<and> rl_chunk l' = rl_chunk l
   \<and> (out \<noteq> [] \<longrightarrow> rl_next l' = snd (last out) + dur (fst (last out)) (rl_rate l)) \<and> (out = [] \<longrightarrow> l' = l)"
proof (induction fuel arbitrary: clock remaining l out)
  case 0
  then show ?case by (auto simp: wait_loop.simps split: if_splits)
next
  case (Suc fuel)
  define chunk where "chunk = (if remaining > rl_chunk l then rl_chunk l else remaining)"
  show ?case
  proof (cases "remaining \<le> 0")
    case True
    with Suc.prems show ?thesis by (simp add: wait_loop.simps)
  next
    case False
    obtain l1 s where w: "waitChunk dur (clock 0) chunk l = (l1, s)" by fastforce
    from Suc.prems(1) False w obtain out1 where rec: "wait_loop dur fuel (\<lambda>i. clock (Suc i)) (remaining - chunk) l1 = Some (l', out1)"
      and out: "out = (chunk, clock 0 + s) # out1"
      by (subst (asm) wait_loop.simps) (auto simp: Let_def chunk_def [symmetric] split: option.splits)
    have l1: "rl_chunk l1 = rl_chunk l" "rl_rate l1 = rl_rate l" "rl_next l1 = clock 0 + s + dur chunk (rl_rate l)" "rl_next l \<le> clock 0 + s"
      using w by (auto simp: waitChunk_def Let_def split: if_splits)
    have "1 \<le> chunk" "chunk \<le> rl_chunk l" using False Suc.prems(2) by (auto simp: chunk_def)
    with Suc.IH [OF rec] Suc.prems(2) l1 False show ?thesis
      by (auto simp: out chunk_def)
  qed
qed

lemma schedule_rate:
  assumes "dur_ok dur rate" and "0 < rate" and "on_schedule dur rate t out" and "out = pre @ (n, released) # post"
  shows "sum_list (map fst pre) * second \<le> (released - t + 2 * int (length pre)) * rate"
  using assms(3,4)
proof (induction pre arbitrary: t out)
  case Nil
  with assms(2) show ?case by simp
next
  case (Cons e pre)
  obtain m r where e: "e = (m, r)" by (cases e)
  from Cons.prems have "t \<le> r" and rest: "on_schedule dur rate (r + dur m rate) (pre @ (n, released) # post)"
    by (auto simp: e)
  from Cons.IH [OF rest refl]
  have "sum_list (map fst pre) * second \<le> (released - (r + dur m rate) + 2 * int (length pre)) * rate" .
  moreover have "m * second \<le> (dur m rate + 2) * rate" using assms(1) by (simp add: dur_ok_def)
  moreover have "t * rate \<le> r * rate" using \<open>t \<le> r\<close> assms(2) by (simp add: mult_right_mono)
  ultimately show ?case by (simp add: e algebra_simps)
qed

lemma newByteRateLimiter_chunk:
  "1 \<le> rl_chunk (newByteRateLimiter dur now rate) \<and> rl_chunk (newByteRateLimiter dur now rate) \<le> 32 * 1024
   \<and> rl_rate (newByteRateLimiter dur now rate) = rate
   \<and> (10 \<le> rate \<longrightarrow> 10 * rl_chunk (newByteRateLimiter dur now rate) \<le> rate)"
  by (auto simp: newByteRateLimiter_def Let_def)

text \<open>Waiting for bytes with a limiter made for a positive rate always returns; it lets the bytes through
  in chunks of at most a tenth of the rate (and 32 KiB), all of them, and at the moment any chunk is
  released the bytes released before it are within the rate since the limiter's start, up to two
  nanoseconds of rounding for each chunk.\<close>

theorem limiter_keeps_rate:
  assumes "0 < rate" and "0 < n" and "dur_ok dur rate"
  shows "\<exists>l' out. limiter_wait dur clock n (Some (newByteRateLimiter dur now rate)) = Some (Some l', out)
    \<and> sum_list (map fst out) = n
    \<and> list_all (\<lambda>e. 1 \<le> fst e \<and> fst e \<le> 32 * 1024 \<and> (10 \<le> rate \<longrightarrow> 10 * fst e \<le> rate)) out
    \<and> (\<forall>pre m released post. out = pre @ (m, released) # post \<longrightarrow>
         sum_list (map fst pre) * second \<le> (released - rl_next (newByteRateLimiter dur now rate) + 2 * int (length pre)) * rate)"
proof -
  let ?l = "newByteRateLimiter dur now rate"
  note new = newByteRateLimiter_chunk [of dur now rate]
  from new have "1 \<le> rl_chunk ?l" by blast
  from wait_loop_terminates [OF this, of n "nat n" dur clock] assms(2) obtain l' out where
    run: "wait_loop dur (nat n) clock n ?l = Some (l', out)" by auto
  from wait_loop_schedule [OF run \<open>1 \<le> rl_chunk ?l\<close>] have
    sched: "on_schedule dur rate (rl_next ?l) out" and sum: "sum_list (map fst out) = n"
    and sizes: "\<forall>e \<in> set out. 1 \<le> fst e \<and> fst e \<le> rl_chunk ?l"
    using new assms(2) by auto
  have "limiter_wait dur clock n (Some ?l) = Some (Some l', out)"
    using assms new run by (simp add: limiter_wait_def)
  moreover have "list_all (\<lambda>e. 1 \<le> fst e \<and> fst e \<le> 32 * 1024 \<and> (10 \<le> rate \<longrightarrow> 10 * fst e \<le> rate)) out"
    using sizes new by (fastforce simp: list_all_iff)
  ultimately show ?thesis using sum schedule_rate [OF assms(3,1) sched] by blast
qed

theorem limiter_keeps_rate_witness:
  "\<exists>l' out. limiter_wait (\<lambda>n r. max 0 (n * second div r)) (\<lambda>i. 0) 250 (Some (newByteRateLimiter (\<lambda>n r. max 0 (n * second div r)) 0 1000))
       = Some (Some l', out)
    \<and> sum_list (map fst out) = 250"
proof -
  have "dur_ok (\<lambda>n r. max 0 (n * second div r)) 1000"
    by (auto simp: dur_ok_def second_def)
  from limiter_keeps_rate [OF _ _ this, of 250 "\<lambda>i. 0" 0] show ?thesis by auto
qed

end
