(* ===== verification/Go_Encoding.thy ===== *)
theory Go_Encoding
  imports Go_Strings
begin

text \<open>
  What the code uses of \<open>encoding/base64\<close> (\<open>RawStdEncoding\<close>) and \<open>encoding/hex\<close>, as functions on the
  bits of the data.
\<close>

section \<open>Bits\<close>

text \<open>The bits of a byte, the most significant first.\<close>

fun byte_bits :: "char \<Rightarrow> bool list" where
  "byte_bits (Char b0 b1 b2 b3 b4 b5 b6 b7) = [b7, b6, b5, b4, b3, b2, b1, b0]"

fun bits_byte :: "bool list \<Rightarrow> char" where
  "bits_byte [b7, b6, b5, b4, b3, b2, b1, b0] = Char b0 b1 b2 b3 b4 b5 b6 b7"
| "bits_byte _ = CHR 0x00"

lemma length_byte_bits [simp]: "length (byte_bits c) = 8"
  by (cases c) simp

lemma bits_byte_bits [simp]: "bits_byte (byte_bits c) = c"
  by (cases c) simp

fun sextets :: "bool list \<Rightarrow> bool list list" where
  "sextets (a # b # c # d # e # f # rest) = [a, b, c, d, e, f] # sextets rest"
| "sextets [] = []"
| "sextets bs = [take 6 (bs @ replicate 5 False)]"

fun octets :: "bool list \<Rightarrow> string" where
  "octets (a # b # c # d # e # f # g # h # rest) = bits_byte [a, b, c, d, e, f, g, h] # octets rest"
| "octets _ = []"

section \<open>base64.RawStdEncoding\<close>

definition base64_alphabet :: string where
  "base64_alphabet = ''ABCDEFGHIJKLMNOPQRSTUVWXYZabcdefghijklmnopqrstuvwxyz0123456789+/''"

definition bits_nat :: "bool list \<Rightarrow> nat" where
  "bits_nat bs = foldl (\<lambda>n b. 2 * n + (if b then 1 else 0)) 0 bs"

definition nat_sextet :: "nat \<Rightarrow> bool list" where
  "nat_sextet n = [n div 32 mod 2 = 1, n div 16 mod 2 = 1, n div 8 mod 2 = 1, n div 4 mod 2 = 1, n div 2 mod 2 = 1, n mod 2 = 1]"

definition sextet_char :: "bool list \<Rightarrow> char" where
  "sextet_char bs = base64_alphabet ! bits_nat bs"

definition char_sextet :: "char \<Rightarrow> bool list option" where
  "char_sextet c = map_option nat_sextet (index_of c base64_alphabet)"

definition Base64_Encode :: "string \<Rightarrow> string" where
  "Base64_Encode s = map sextet_char (sextets (concat (map byte_bits s)))"

definition CorruptInputError :: go_error where
  "CorruptInputError = Sentinel ''illegal base64 data''"

text \<open>The decoder skips line breaks, refuses any other byte outside the alphabet and a single character
  left over, and ignores the bits left over of a partial group.\<close>

definition Base64_Decode :: "string \<Rightarrow> string res" where
  "Base64_Decode s =
     (let s = filter (\<lambda>c. c \<noteq> CHR 0x0A \<and> c \<noteq> CHR 0x0D) s; ds = map char_sextet s
      in if None \<in> set ds \<or> length s mod 4 = 1 then Inl CorruptInputError
         else Inr (octets (concat (map the ds))))"

lemma sextet_codes: "list_all (\<lambda>bs. char_sextet (sextet_char bs) = Some bs \<and> visible (sextet_char bs)
    \<and> sextet_char bs \<noteq> CHR '':'') (List.n_lists 6 [True, False])"
  by code_simp

lemma sextet_char_6:
  assumes "length bs = 6"
  shows "char_sextet (sextet_char bs) = Some bs" and "visible (sextet_char bs)" and "sextet_char bs \<noteq> CHR '':''"
proof -
  have "bs \<in> set (List.n_lists 6 [True, False])" using assms by (auto simp: set_n_lists)
  with sextet_codes show "char_sextet (sextet_char bs) = Some bs" "visible (sextet_char bs)" "sextet_char bs \<noteq> CHR '':''"
    by (auto simp: list_all_iff)
qed

lemma sextets_length: "x \<in> set (sextets bs) \<Longrightarrow> length x = 6"
  by (induction bs rule: sextets.induct) auto

lemma concat_sextets: "\<exists>pad. concat (sextets bs) = bs @ pad \<and> length pad < 6"
  by (induction bs rule: sextets.induct) (simp_all add: numeral_eq_Suc)

lemma length_sextets: "length (sextets bs) = (length bs + 5) div 6"
  by (induction bs rule: sextets.induct) auto

lemma octets_bytes: "length pad < 8 \<Longrightarrow> octets (concat (map byte_bits s) @ pad) = s"
proof (induction s)
  case Nil
  then show ?case by (cases pad rule: octets.cases) auto
next
  case (Cons c s)
  then show ?case by (cases c) simp
qed

lemma length_bits: "length (concat (map byte_bits s)) = 8 * length s"
  by (induction s) auto

lemma length_Base64_Encode: "length (Base64_Encode s) = (4 * length s + 2) div 3"
  unfolding Base64_Encode_def length_map length_sextets length_bits by presburger

lemma Base64_chars: "c \<in> set (Base64_Encode s) \<Longrightarrow> visible c \<and> c \<noteq> CHR '':''"
  using sextet_char_6(2,3) by (auto simp: Base64_Encode_def dest!: sextets_length)

lemma Base64_Decode_Encode [simp]: "Base64_Decode (Base64_Encode s) = Inr s"
proof -
  let ?e = "Base64_Encode s" and ?b = "concat (map byte_bits s)"
  have "c \<noteq> CHR 0x0A \<and> c \<noteq> CHR 0x0D" if "c \<in> set ?e" for c
    using Base64_chars [OF that] by (auto simp: visible_def byte_of_def)
  then have "filter (\<lambda>c. c \<noteq> CHR 0x0A \<and> c \<noteq> CHR 0x0D) ?e = ?e" by (simp add: filter_id_conv)
  moreover have ds: "map char_sextet ?e = map Some (sextets ?b)"
    by (auto simp: Base64_Encode_def dest!: sextets_length sextet_char_6(1))
  moreover have "length ?e mod 4 \<noteq> 1"
    unfolding length_Base64_Encode by presburger
  moreover obtain pad where "concat (sextets ?b) = ?b @ pad" "length pad < 6" using concat_sextets by blast
  then have "octets (concat (sextets ?b)) = s" by (simp add: octets_bytes)
  moreover have "map the (map Some (sextets ?b)) = sextets ?b" by (simp add: comp_def)
  moreover have "None \<notin> set (map Some (sextets ?b))" by auto
  ultimately show ?thesis by (simp only: Base64_Decode_def Let_def if_False simp_thms)
qed

lemma Base64_Decode_Nil [simp]: "Base64_Decode [] = Inr []"
  by (simp add: Base64_Decode_def)

lemma TrimSpace_Base64: "TrimSpace (Base64_Encode s) = Base64_Encode s"
proof (rule TrimSpace_visible, cases "Base64_Encode s = []")
  case False
  then show "Base64_Encode s = [] \<or> visible (hd (Base64_Encode s)) \<and> visible (last (Base64_Encode s))"
    using Base64_chars [OF hd_in_set] Base64_chars [OF last_in_set] by blast
qed simp

lemma Base64_Encode_eq_Nil [simp]: "Base64_Encode s = [] \<longleftrightarrow> s = []"
proof
  assume "Base64_Encode s = []"
  then have "Base64_Decode [] = Inr s" by (metis Base64_Decode_Encode)
  then show "s = []" by (simp add: Base64_Decode_def)
qed (simp add: Base64_Encode_def)

section \<open>hex\<close>

definition hex_alphabet :: string where
  "hex_alphabet = ''0123456789abcdef''"

fun nibble :: "bool \<Rightarrow> bool \<Rightarrow> bool \<Rightarrow> bool \<Rightarrow> char" where
  "nibble b3 b2 b1 b0 = hex_alphabet ! bits_nat [b3, b2, b1, b0]"

fun hex_byte :: "char \<Rightarrow> string" where
  "hex_byte (Char b0 b1 b2 b3 b4 b5 b6 b7) = [nibble b7 b6 b5 b4, nibble b3 b2 b1 b0]"

definition Hex_Encode :: "string \<Rightarrow> string" where
  "Hex_Encode s = concat (map hex_byte s)"

definition hex_nibble :: "char \<Rightarrow> bool list option" where
  "hex_nibble c = map_option (\<lambda>n. drop 2 (nat_sextet n)) (index_of (lower_char c) hex_alphabet)"

definition InvalidHexError :: go_error where
  "InvalidHexError = Sentinel ''encoding/hex: invalid input''"

fun Hex_Decode :: "string \<Rightarrow> string res" where
  "Hex_Decode [] = Inr []"
| "Hex_Decode (a # b # s) =
     (case (hex_nibble a, hex_nibble b) of
        (Some x, Some y) \<Rightarrow> map_sum id ((#) (bits_byte (x @ y))) (Hex_Decode s)
      | _ \<Rightarrow> Inl InvalidHexError)"
| "Hex_Decode [a] = Inl InvalidHexError"

lemma hex_nibble_nibble [simp]: "hex_nibble (nibble a b c d) = Some [a, b, c, d]"
proof -
  have "list_all (\<lambda>a. list_all (\<lambda>b. list_all (\<lambda>c. list_all (\<lambda>d. hex_nibble (nibble a b c d) = Some [a, b, c, d])
      [True, False]) [True, False]) [True, False]) [True, False]" by code_simp
  then show ?thesis by (cases a; cases b; cases c; cases d) (simp_all del: nibble.simps)
qed

lemma length_Hex_Encode: "length (Hex_Encode s) = 2 * length s"
proof -
  have "length (hex_byte c) = 2" for c by (cases c) simp
  then show ?thesis by (induction s) (simp_all add: Hex_Encode_def)
qed

lemma Hex_Decode_Encode [simp]: "Hex_Decode (Hex_Encode s) = Inr s"
proof (induction s)
  case (Cons c s)
  then show ?case by (cases c) (simp add: Hex_Encode_def del: nibble.simps)
qed (simp add: Hex_Encode_def)

end
