(* ===== verification/Passwords.thy ===== *)
theory Passwords
  imports Go_Encoding
begin

text \<open>
  \<open>internal/passutil/passutil.go\<close>: the encoded password hashes of the configuration. SHA-256 and
  PBKDF2-HMAC-SHA-256 (\<open>pbkdf2 password salt iterations keyLen\<close>) are parameters, the random salt is
  the outcome \<open>salt\<close> of \<open>rand.Read\<close>.
\<close>

definition DefaultIterations :: int where
  "DefaultIterations = 210000"

definition DefaultKeyBytes :: int where
  "DefaultKeyBytes = 32"

type_synonym kdf = "string \<Rightarrow> string \<Rightarrow> int \<Rightarrow> int \<Rightarrow> string res"

definition pbkdf2SHA256 :: "kdf \<Rightarrow> string \<Rightarrow> string \<Rightarrow> int \<Rightarrow> int \<Rightarrow> string res" where
  "pbkdf2SHA256 pbkdf2 password salt iterations keyLen =
     (if iterations \<le> 0 \<or> keyLen \<le> 0 then Inl (Errorf ''PBKDF2 iterations and key length must be positive'' [])
      else pbkdf2 password salt iterations keyLen)"

definition HashPassword :: "kdf \<Rightarrow> string res \<Rightarrow> string \<Rightarrow> string res" where
  "HashPassword pbkdf2 salt password =
     (case salt of
        Inl err \<Rightarrow> Inl err
      | Inr salt \<Rightarrow>
         (case pbkdf2SHA256 pbkdf2 password salt DefaultIterations DefaultKeyBytes of
            Inl err \<Rightarrow> Inl err
          | Inr key \<Rightarrow> Inr (''pbkdf2-sha256:'' @ Itoa DefaultIterations @ '':'' @ Base64_Encode salt @ '':'' @ Base64_Encode key)))"

definition VerifyPassword :: "kdf \<Rightarrow> (string \<Rightarrow> string) \<Rightarrow> string \<Rightarrow> string \<Rightarrow> bool" where
  "VerifyPassword pbkdf2 sha256 password encoded =
     (let encoded = TrimSpace encoded
      in if HasPrefix encoded ''plain:'' then password = TrimPrefix encoded ''plain:''
         else if HasPrefix encoded ''sha256:''
         then (case Hex_Decode (TrimPrefix encoded ''sha256:'') of
                 Inl err \<Rightarrow> False
               | Inr want \<Rightarrow> sha256 password = want)
         else (case SplitChar (CHR '':'') encoded of
             [p0, p1, p2, p3] \<Rightarrow>
               if p0 \<noteq> ''pbkdf2-sha256'' then False
               else (case Atoi p1 of
                   None \<Rightarrow> False
                 | Some iterations \<Rightarrow>
                     if iterations < 10000 \<or> iterations > 2000000 then False
                     else (case Base64_Decode p2 of
                         Inl err \<Rightarrow> False
                       | Inr salt \<Rightarrow>
                           if length salt < 8 then False
                           else (case Base64_Decode p3 of
                               Inl err \<Rightarrow> False
                             | Inr want \<Rightarrow>
                                 if length want = 0 \<or> length want > 128 then False
                                 else (case pbkdf2SHA256 pbkdf2 password salt iterations (int (length want)) of
                                     Inl err \<Rightarrow> False
                                   | Inr got \<Rightarrow> got = want))))
           | _ \<Rightarrow> False))"

section \<open>What an encoded hash accepts\<close>

text \<open>The meaning of an encoded hash: the passwords it accepts, as a set.\<close>

definition accepts :: "kdf \<Rightarrow> (string \<Rightarrow> string) \<Rightarrow> string \<Rightarrow> string set" where
  "accepts pbkdf2 sha256 encoded = {pw. VerifyPassword pbkdf2 sha256 pw encoded}"

lemma hash_text:
  assumes "s = ''pbkdf2-sha256:'' @ Itoa DefaultIterations @ '':'' @ Base64_Encode salt @ '':'' @ Base64_Encode key"
    and "key \<noteq> []"
  shows "TrimSpace s = s" and "SplitChar (CHR '':'') s = [''pbkdf2-sha256'', ''210000'', Base64_Encode salt, Base64_Encode key]"
    and "\<not> HasPrefix s ''plain:''" and "\<not> HasPrefix s ''sha256:''"
proof -
  have it: "Itoa DefaultIterations = ''210000''" by code_simp
  have "list_all visible s"
    using Base64_chars by (auto simp: assms(1) it list_all_iff visible_def byte_of_def)
  then show "TrimSpace s = s" by (intro TrimSpace_visible) (cases "s = []"; simp add: list_all_iff)
  have n: "CHR '':'' \<notin> set (Base64_Encode t)" for t using Base64_chars by blast
  have s: "s = ''pbkdf2-sha256'' @ CHR '':'' # ''210000'' @ CHR '':'' # Base64_Encode salt @ CHR '':'' # Base64_Encode key"
    by (simp add: assms(1) it)
  show "SplitChar (CHR '':'') s = [''pbkdf2-sha256'', ''210000'', Base64_Encode salt, Base64_Encode key]"
    unfolding s by (subst SplitChar_append, simp)+ (simp add: n SplitChar_append SplitChar_single)
  show "\<not> HasPrefix s ''plain:''" "\<not> HasPrefix s ''sha256:''" by (simp_all add: assms(1) HasPrefix_def)
qed

text \<open>The hash made from a password and a 16-byte salt accepts that password, and another password exactly
  when the key derivation maps both to the same key.\<close>

theorem hash_accepts_its_password:
  assumes "HashPassword pbkdf2 (Inr salt) password = Inr encoded" and "length salt = 16"
    and "\<And>p s i k key. pbkdf2 p s i k = Inr key \<Longrightarrow> 0 < k \<Longrightarrow> int (length key) = k"
  shows "password \<in> accepts pbkdf2 sha encoded
    \<and> (other \<in> accepts pbkdf2 sha encoded \<longleftrightarrow> pbkdf2 other salt DefaultIterations DefaultKeyBytes = pbkdf2 password salt DefaultIterations DefaultKeyBytes)"
proof -
  have pos: "pbkdf2SHA256 pbkdf2 p salt DefaultIterations DefaultKeyBytes = pbkdf2 p salt DefaultIterations DefaultKeyBytes" for p
    by (simp add: pbkdf2SHA256_def DefaultIterations_def DefaultKeyBytes_def)
  from assms(1) pos obtain key where key: "pbkdf2 password salt DefaultIterations DefaultKeyBytes = Inr key"
    and enc: "encoded = ''pbkdf2-sha256:'' @ Itoa DefaultIterations @ '':'' @ Base64_Encode salt @ '':'' @ Base64_Encode key"
    by (auto simp: HashPassword_def split: sum.splits)
  from assms(3) [OF key] have len: "length key = 32" by (simp add: DefaultKeyBytes_def)
  then have "key \<noteq> []" by auto
  note shape = hash_text [OF enc this]
  have "Atoi ''210000'' = Some DefaultIterations" by code_simp
  then have "VerifyPassword pbkdf2 sha p encoded = (pbkdf2 p salt DefaultIterations DefaultKeyBytes = Inr key)" for p
    using assms(2) len pos [of p]
    by (auto simp: VerifyPassword_def Let_def shape DefaultIterations_def DefaultKeyBytes_def split: sum.splits)
  with key show ?thesis by (auto simp: accepts_def)
qed

text \<open>A key derivation for the witnesses: the password and the salt, cut to the length.\<close>

definition sample_kdf :: kdf where
  "sample_kdf p s i k = Inr (take (nat k) (p @ s @ replicate (nat k) (CHR ''.'')))"

theorem hash_accepts_its_password_witness:
  "VerifyPassword sample_kdf (\<lambda>s. s) ''secret''
     (''pbkdf2-sha256:210000:'' @ Base64_Encode ''0123456789abcdef'' @ '':'' @ Base64_Encode ''secret0123456789abcdef..........'')
   \<and> \<not> VerifyPassword sample_kdf (\<lambda>s. s) ''Secret''
     (''pbkdf2-sha256:210000:'' @ Base64_Encode ''0123456789abcdef'' @ '':'' @ Base64_Encode ''secret0123456789abcdef..........'')"
proof -
  let ?enc = "''pbkdf2-sha256:210000:'' @ Base64_Encode ''0123456789abcdef'' @ '':'' @ Base64_Encode ''secret0123456789abcdef..........''"
  have "HashPassword sample_kdf (Inr ''0123456789abcdef'') ''secret'' = Inr ?enc" by code_simp
  moreover have "length ''0123456789abcdef'' = 16" by simp
  moreover have "int (length key) = k" if "sample_kdf p s i k = Inr key" "0 < k" for p s i k key
    using that by (auto simp: sample_kdf_def)
  ultimately have "''secret'' \<in> accepts sample_kdf (\<lambda>s. s) ?enc
    \<and> (''Secret'' \<in> accepts sample_kdf (\<lambda>s. s) ?enc \<longleftrightarrow>
       sample_kdf ''Secret'' ''0123456789abcdef'' DefaultIterations DefaultKeyBytes = sample_kdf ''secret'' ''0123456789abcdef'' DefaultIterations DefaultKeyBytes)"
    by (rule hash_accepts_its_password)
  moreover have "sample_kdf ''Secret'' ''0123456789abcdef'' DefaultIterations DefaultKeyBytes
      \<noteq> sample_kdf ''secret'' ''0123456789abcdef'' DefaultIterations DefaultKeyBytes" by code_simp
  ultimately show ?thesis by (simp add: accepts_def)
qed

text \<open>Whatever the configuration holds, a password is only ever checked against the three known encodings,
  and a PBKDF2 hash is only used with 10,000 to 2,000,000 iterations, a salt of at least 8 bytes and a
  key of 1 to 128 bytes, the length asked of the key derivation: nothing in a hash can make the
  server derive a key outside these bounds.\<close>

theorem password_check_bounds:
  assumes "VerifyPassword pbkdf2 sha password encoded"
  shows "TrimSpace encoded = ''plain:'' @ password
    \<or> (\<exists>h. TrimSpace encoded = ''sha256:'' @ h \<and> Hex_Decode h = Inr (sha password))
    \<or> (\<exists>p1 p2 p3 iterations salt key. SplitChar (CHR '':'') (TrimSpace encoded) = [''pbkdf2-sha256'', p1, p2, p3]
        \<and> Atoi p1 = Some iterations \<and> 10000 \<le> iterations \<and> iterations \<le> 2000000
        \<and> Base64_Decode p2 = Inr salt \<and> 8 \<le> length salt
        \<and> Base64_Decode p3 = Inr key \<and> 1 \<le> length key \<and> length key \<le> 128
        \<and> pbkdf2 password salt iterations (int (length key)) = Inr key)"
proof -
  have prefix: "HasPrefix s p \<Longrightarrow> s = p @ TrimPrefix s p" for s p
    by (metis HasPrefix_def TrimPrefix_def append_take_drop_id)
  consider "HasPrefix (TrimSpace encoded) ''plain:''"
    | "\<not> HasPrefix (TrimSpace encoded) ''plain:''" "HasPrefix (TrimSpace encoded) ''sha256:''"
    | "\<not> HasPrefix (TrimSpace encoded) ''plain:''" "\<not> HasPrefix (TrimSpace encoded) ''sha256:''" by blast
  then show ?thesis
  proof cases
    case 1
    with assms have "password = TrimPrefix (TrimSpace encoded) ''plain:''" by (simp add: VerifyPassword_def)
    with prefix [OF 1] show ?thesis by metis
  next
    case 2
    with assms have "Hex_Decode (TrimPrefix (TrimSpace encoded) ''sha256:'') = Inr (sha password)"
      by (simp add: VerifyPassword_def split: sum.splits)
    with prefix [OF 2(2)] show ?thesis by metis
  next
    case 3
    with assms show ?thesis
      by (auto simp: VerifyPassword_def Let_def pbkdf2SHA256_def Suc_le_eq split: list.splits if_splits option.splits sum.splits)
  qed
qed

theorem password_check_bounds_witness:
  "\<exists>salt key. Base64_Decode ''MDEyMzQ1Njc'' = Inr salt \<and> 8 \<le> length salt
     \<and> Base64_Decode ''YQ'' = Inr key \<and> 1 \<le> length key \<and> length key \<le> 128"
proof -
  let ?e = "'' pbkdf2-sha256:10000:MDEyMzQ1Njc:YQ''"
  have sp: "SplitChar (CHR '':'') (TrimSpace ?e) = [''pbkdf2-sha256'', ''10000'', ''MDEyMzQ1Njc'', ''YQ'']" by code_simp
  have tr: "TrimSpace ?e = ''pbkdf2-sha256:10000:MDEyMzQ1Njc:YQ''" by code_simp
  have "VerifyPassword sample_kdf (\<lambda>s. s) ''a'' ?e" by code_simp
  from password_check_bounds [OF this] show ?thesis
    unfolding sp by (elim disjE exE conjE) (auto simp: tr)
qed

end
