(* ===== verification/Seal_Crypto.thy ===== *)
theory Seal_Crypto
  imports Protocol Go_Encoding Go_Files
begin

text \<open>
  \<open>internal/credseal/credseal.go\<close>: sealing a credential to the server's public key, opening it, and the
  key files. RSA-OAEP, AES-GCM, the ASN.1 and PEM codecs and the JSON codec are the parameters
  gathered in \<open>crypto\<close>; \<open>'k\<close> is the type of RSA private keys, \<open>'p\<close> that of public keys.
  \<open>cipher.AEAD.Open\<close> and \<open>Seal\<close> panic when the nonce does not have the length of the cipher (12 bytes),
  so opening has an outcome \<open>Panicked\<close>; a nil private key (\<open>None\<close>) makes it panic as well.
\<close>

section \<open>Data\<close>

record plainCredential =
  pc_Username :: string
  pc_Password :: string
  pc_ClientID :: string
  pc_IssuedAt :: string
  pc_ExpiresAt :: string
  pc_Nonce :: string

record encryptedEnvelope =
  env_Alg :: string
  env_EK :: string
  env_Nonce :: string
  env_CT :: string

definition TypeServerSealed :: string where
  "TypeServerSealed = ''server_sealed''"

definition EnvelopeAlg :: string where
  "EnvelopeAlg = ''rsa-oaep-sha256+a256gcm''"

record ('k, 'p) crypto =
  cr_pemDecode :: "string \<Rightarrow> string option"
  cr_pemEncode :: "string \<Rightarrow> string \<Rightarrow> string"
  cr_parsePKIX :: "string \<Rightarrow> 'p option res"
  cr_parsePKCS1 :: "string \<Rightarrow> 'k res"
  cr_parsePKCS8 :: "string \<Rightarrow> 'k option res"
  cr_marshalPKIX :: "'p \<Rightarrow> string res"
  cr_marshalPKCS1 :: "'k \<Rightarrow> string"
  cr_public :: "'k \<Rightarrow> 'p"
  cr_encryptOAEP :: "'p \<Rightarrow> string \<Rightarrow> string \<Rightarrow> string \<Rightarrow> string res" \<comment> \<open>key, random seed, message, label\<close>
  cr_decryptOAEP :: "'k \<Rightarrow> string \<Rightarrow> string \<Rightarrow> string res"
  cr_gcmSeal :: "string \<Rightarrow> string \<Rightarrow> string \<Rightarrow> string \<Rightarrow> string" \<comment> \<open>key, nonce, plaintext, additional data\<close>
  cr_gcmOpen :: "string \<Rightarrow> string \<Rightarrow> string \<Rightarrow> string \<Rightarrow> string res"
  cr_marshalPlain :: "plainCredential \<Rightarrow> string res"
  cr_unmarshalPlain :: "string \<Rightarrow> plainCredential res"
  cr_marshalEnvelope :: "encryptedEnvelope \<Rightarrow> string res"
  cr_unmarshalEnvelope :: "string \<Rightarrow> encryptedEnvelope res"

text \<open>\<open>aes.NewCipher\<close> accepts keys of 16, 24 or 32 bytes; the nonce of its GCM mode has 12 bytes.\<close>

definition aes_NewCipher :: "string \<Rightarrow> go_error option" where
  "aes_NewCipher key = (if length key \<in> {16, 24, 32} then None
     else Some (Errorf ''crypto/aes: invalid key size %d'' [FI (int (length key))]))"

definition gcm_NonceSize :: nat where
  "gcm_NonceSize = 12"

section \<open>Keys\<close>

definition ParsePublicKeyPEM :: "('k, 'p) crypto \<Rightarrow> string \<Rightarrow> 'p res" where
  "ParsePublicKeyPEM cr data =
     (case cr_pemDecode cr data of
        None \<Rightarrow> Inl (Errorf ''public key PEM not found'' [])
      | Some bytes \<Rightarrow> (case cr_parsePKIX cr bytes of
            Inl err \<Rightarrow> Inl err
          | Inr None \<Rightarrow> Inl (Errorf ''public key is not RSA'' [])
          | Inr (Some pub) \<Rightarrow> Inr pub))"

definition ParsePrivateKeyPEM :: "('k, 'p) crypto \<Rightarrow> string \<Rightarrow> 'k res" where
  "ParsePrivateKeyPEM cr data =
     (case cr_pemDecode cr data of
        None \<Rightarrow> Inl (Errorf ''private key PEM not found'' [])
      | Some bytes \<Rightarrow> (case cr_parsePKCS1 cr bytes of
            Inr key \<Rightarrow> Inr key
          | Inl _ \<Rightarrow> (case cr_parsePKCS8 cr bytes of
                Inl err \<Rightarrow> Inl err
              | Inr None \<Rightarrow> Inl (Errorf ''private key is not RSA'' [])
              | Inr (Some key) \<Rightarrow> Inr key)))"

text \<open>\<open>rsaGenerate bits\<close> is the outcome of \<open>rsa.GenerateKey\<close>.\<close>

definition GenerateKeyPair :: "('k, 'p) crypto \<Rightarrow> (int \<Rightarrow> 'k res) \<Rightarrow> int \<Rightarrow> ('k \<times> string \<times> string) res" where
  "GenerateKeyPair cr rsaGenerate bits =
     (let bits = (if bits < 2048 then 3072 else bits)
      in case rsaGenerate bits of
        Inl err \<Rightarrow> Inl err
      | Inr key \<Rightarrow> (case cr_marshalPKIX cr (cr_public cr key) of
            Inl err \<Rightarrow> Inl err
          | Inr publicDER \<Rightarrow> Inr (key, cr_pemEncode cr ''RSA PRIVATE KEY'' (cr_marshalPKCS1 cr key), cr_pemEncode cr ''PUBLIC KEY'' publicDER)))"

definition writeFileSecure :: "os_env \<Rightarrow> files \<Rightarrow> string \<Rightarrow> string \<Rightarrow> files \<times> go_error option" where
  "writeFileSecure env fs path data =
     (case MkdirAll env (DirPath path) of Some err \<Rightarrow> (fs, Some err) | None \<Rightarrow> WriteFile env fs path data)"

definition EnsureKeyFiles ::
    "('k, 'p) crypto \<Rightarrow> os_env \<Rightarrow> (int \<Rightarrow> 'k res) \<Rightarrow> files \<Rightarrow> string \<Rightarrow> string \<Rightarrow> int \<Rightarrow> files \<times> ('k \<times> string) res" where
  "EnsureKeyFiles cr env rsaGenerate fs privatePath publicPath bits =
     (case ReadFile env fs privatePath of
        Inr privateData \<Rightarrow>
          (case ParsePrivateKeyPEM cr privateData of
             Inl err \<Rightarrow> (fs, Inl err)
           | Inr key \<Rightarrow>
              (let current = (case ReadFile env fs publicPath of
                     Inl err \<Rightarrow> None
                   | Inr publicData \<Rightarrow> (case ParsePublicKeyPEM cr publicData of
                         Inl err \<Rightarrow> None
                       | Inr pub \<Rightarrow> if pub = cr_public cr key then Some publicData else None))
               in case current of
                 Some publicData \<Rightarrow> (fs, Inr (key, publicData))
               | None \<Rightarrow> (case cr_marshalPKIX cr (cr_public cr key) of
                     Inl err \<Rightarrow> (fs, Inl err)
                   | Inr publicDER \<Rightarrow>
                      (let publicData = cr_pemEncode cr ''PUBLIC KEY'' publicDER
                       in case writeFileSecure env fs publicPath publicData of
                         (fs, Some err) \<Rightarrow> (fs, Inl err)
                       | (fs, None) \<Rightarrow> (fs, Inr (key, publicData))))))
      | Inl _ \<Rightarrow>
          (case GenerateKeyPair cr rsaGenerate bits of
             Inl err \<Rightarrow> (fs, Inl err)
           | Inr (key, privatePEM, publicPEM) \<Rightarrow>
              (case writeFileSecure env fs privatePath privatePEM of
                 (fs, Some err) \<Rightarrow> (fs, Inl err)
               | (fs, None) \<Rightarrow> (case writeFileSecure env fs publicPath publicPEM of
                     (fs, Some err) \<Rightarrow> (fs, Inl err)
                   | (fs, None) \<Rightarrow> (fs, Inr (key, publicPEM))))))"

section \<open>Sealing and opening\<close>

text \<open>The outcomes of the random reads of \<open>Seal\<close>, in their order, and its clock reading as text.\<close>

record seal_random =
  sr_nonce :: "string res"
  sr_contentKey :: "string res"
  sr_gcmNonce :: "string res"
  sr_oaep :: string

definition fill_plain :: "string \<Rightarrow> seal_random \<Rightarrow> credentialPublicKey \<Rightarrow> plainCredential \<Rightarrow> plainCredential res" where
  "fill_plain now rnd key plain =
     (let plain = (if pc_IssuedAt plain = [] then plain\<lparr>pc_IssuedAt := now\<rparr> else plain);
          plain = (if pc_ExpiresAt plain = [] then plain\<lparr>pc_ExpiresAt := cpk_ExpiresAt key\<rparr> else plain)
      in if pc_Nonce plain = []
         then (case sr_nonce rnd of Inl err \<Rightarrow> Inl err | Inr n \<Rightarrow> Inr (plain\<lparr>pc_Nonce := Base64_Encode n\<rparr>))
         else Inr plain)"

definition Seal ::
    "('k, 'p) crypto \<Rightarrow> string \<Rightarrow> seal_random \<Rightarrow> credentialPublicKey \<Rightarrow> plainCredential \<Rightarrow> sealedCredential res" where
  "Seal cr now rnd key plain =
     (case ParsePublicKeyPEM cr (cpk_PublicKeyPEM key) of Inl err \<Rightarrow> Inl err | Inr pub \<Rightarrow>
     (case fill_plain now rnd key plain of Inl err \<Rightarrow> Inl err | Inr plain \<Rightarrow>
     (case cr_marshalPlain cr plain of Inl err \<Rightarrow> Inl err | Inr payload \<Rightarrow>
     (case sr_contentKey rnd of Inl err \<Rightarrow> Inl err | Inr contentKey \<Rightarrow>
     (case aes_NewCipher contentKey of Some err \<Rightarrow> Inl err | None \<Rightarrow>
     (case sr_gcmNonce rnd of Inl err \<Rightarrow> Inl err | Inr nonce \<Rightarrow>
     (let ct = cr_gcmSeal cr contentKey nonce payload (cpk_KeyID key)
      in case cr_encryptOAEP cr pub (sr_oaep rnd) contentKey (cpk_KeyID key) of Inl err \<Rightarrow> Inl err | Inr ek \<Rightarrow>
     (case cr_marshalEnvelope cr \<lparr>env_Alg = EnvelopeAlg, env_EK = Base64_Encode ek, env_Nonce = Base64_Encode nonce,
              env_CT = Base64_Encode ct\<rparr> of Inl err \<Rightarrow> Inl err | Inr env \<Rightarrow>
       Inr \<lparr>sc_Type = TypeServerSealed, sc_KeyID = cpk_KeyID key, sc_ExpiresAt = cpk_ExpiresAt key,
            sc_Ciphertext = Base64_Encode env\<rparr>))))))))"

datatype 'a outcome = Returned 'a | Panicked string

definition gcm_nonce_panic :: string where
  "gcm_nonce_panic = ''crypto/cipher: incorrect nonce length given to GCM''"

definition nil_panic :: string where
  "nil_panic = ''runtime error: invalid memory address or nil pointer dereference''"

definition Open :: "('k, 'p) crypto \<Rightarrow> sealedCredential \<Rightarrow> 'k option \<Rightarrow> plainCredential res outcome" where
  "Open cr sealed privateKey =
     (if sc_Type sealed \<noteq> TypeServerSealed then Returned (Inl (Errorf ''unsupported credential type'' []))
      else case Base64_Decode (sc_Ciphertext sealed) of
        Inl err \<Rightarrow> Returned (Inl (Errorf ''decode credential envelope: %w'' [FE err]))
      | Inr envJSON \<Rightarrow> (case cr_unmarshalEnvelope cr envJSON of
        Inl err \<Rightarrow> Returned (Inl (Errorf ''parse credential envelope: %w'' [FE err]))
      | Inr env \<Rightarrow>
        if env_Alg env \<noteq> EnvelopeAlg then Returned (Inl (Errorf ''unsupported credential envelope'' []))
        else case Base64_Decode (env_EK env) of
        Inl err \<Rightarrow> Returned (Inl (Errorf ''decode credential key: %w'' [FE err]))
      | Inr ek \<Rightarrow> (case Base64_Decode (env_Nonce env) of
        Inl err \<Rightarrow> Returned (Inl (Errorf ''decode credential nonce: %w'' [FE err]))
      | Inr nonce \<Rightarrow> (case Base64_Decode (env_CT env) of
        Inl err \<Rightarrow> Returned (Inl (Errorf ''decode credential ciphertext: %w'' [FE err]))
      | Inr ct \<Rightarrow> (case privateKey of None \<Rightarrow> Panicked nil_panic | Some privateKey \<Rightarrow>
        (case cr_decryptOAEP cr privateKey ek (sc_KeyID sealed) of
        Inl err \<Rightarrow> Returned (Inl (Errorf ''open credential key: %w'' [FE err]))
      | Inr contentKey \<Rightarrow> (case aes_NewCipher contentKey of
        Some err \<Rightarrow> Returned (Inl err)
      | None \<Rightarrow>
        if length nonce \<noteq> gcm_NonceSize then Panicked gcm_nonce_panic
        else case cr_gcmOpen cr contentKey nonce ct (sc_KeyID sealed) of
        Inl err \<Rightarrow> Returned (Inl (Errorf ''open credential payload: %w'' [FE err]))
      | Inr payload \<Rightarrow> (case cr_unmarshalPlain cr payload of
        Inl err \<Rightarrow> Returned (Inl (Errorf ''parse credential payload: %w'' [FE err]))
      | Inr plain \<Rightarrow> Returned (Inr plain)))))))))"

section \<open>The contract of the primitives\<close>

text \<open>What is documented of the primitives: decryption with the private key undoes encryption with its public
  key under the same label, GCM opens what it sealed, and the codecs read back what they wrote.\<close>

definition crypto_ok :: "('k, 'p) crypto \<Rightarrow> bool" where
  "crypto_ok cr \<longleftrightarrow>
     (\<forall>k seed m l c. cr_encryptOAEP cr (cr_public cr k) seed m l = Inr c \<longrightarrow> cr_decryptOAEP cr k c l = Inr m)
   \<and> (\<forall>k n p ad. cr_gcmOpen cr k n (cr_gcmSeal cr k n p ad) ad = Inr p)
   \<and> (\<forall>v d. cr_marshalPlain cr v = Inr d \<longrightarrow> cr_unmarshalPlain cr d = Inr v)
   \<and> (\<forall>v d. cr_marshalEnvelope cr v = Inr d \<longrightarrow> cr_unmarshalEnvelope cr d = Inr v \<and> d \<noteq> [])"

text \<open>The contract of the key codecs: a key that was written is read back.\<close>

definition key_codec_ok :: "('k, 'p) crypto \<Rightarrow> bool" where
  "key_codec_ok cr \<longleftrightarrow>
     (\<forall>t b. cr_pemDecode cr (cr_pemEncode cr t b) = Some b)
   \<and> (\<forall>p d. cr_marshalPKIX cr p = Inr d \<longrightarrow> cr_parsePKIX cr d = Inr (Some p))
   \<and> (\<forall>k. cr_parsePKCS1 cr (cr_marshalPKCS1 cr k) = Inr k)"

text \<open>What a sealed credential says: the plain one with the fields that \<open>Seal\<close> fills in.\<close>

definition sealed_plain :: "string \<Rightarrow> string \<Rightarrow> credentialPublicKey \<Rightarrow> plainCredential \<Rightarrow> plainCredential" where
  "sealed_plain now nonce key plain =
     plain\<lparr>pc_IssuedAt := (if pc_IssuedAt plain = [] then now else pc_IssuedAt plain),
           pc_ExpiresAt := (if pc_ExpiresAt plain = [] then cpk_ExpiresAt key else pc_ExpiresAt plain),
           pc_Nonce := (if pc_Nonce plain = [] then Base64_Encode nonce else pc_Nonce plain)\<rparr>"

lemma fill_plain_result:
  "fill_plain now rnd key plain = Inr plain' \<Longrightarrow>
   \<exists>nonce. (pc_Nonce plain = [] \<longrightarrow> sr_nonce rnd = Inr nonce) \<and> plain' = sealed_plain now nonce key plain"
  by (cases plain) (auto simp: fill_plain_def sealed_plain_def Let_def split: if_splits sum.splits)

lemma Seal_result:
  assumes "Seal cr now rnd key plain = Inr sealed"
  obtains pub nonce payload contentKey n ek env where
    "ParsePublicKeyPEM cr (cpk_PublicKeyPEM key) = Inr pub"
    "pc_Nonce plain = [] \<longrightarrow> sr_nonce rnd = Inr nonce"
    "cr_marshalPlain cr (sealed_plain now nonce key plain) = Inr payload"
    "sr_contentKey rnd = Inr contentKey" "aes_NewCipher contentKey = None" "sr_gcmNonce rnd = Inr n"
    "cr_encryptOAEP cr pub (sr_oaep rnd) contentKey (cpk_KeyID key) = Inr ek"
    "cr_marshalEnvelope cr \<lparr>env_Alg = EnvelopeAlg, env_EK = Base64_Encode ek, env_Nonce = Base64_Encode n,
       env_CT = Base64_Encode (cr_gcmSeal cr contentKey n payload (cpk_KeyID key))\<rparr> = Inr env"
    "sealed = \<lparr>sc_Type = TypeServerSealed, sc_KeyID = cpk_KeyID key, sc_ExpiresAt = cpk_ExpiresAt key, sc_Ciphertext = Base64_Encode env\<rparr>"
proof -
  from assms obtain pub plain' payload contentKey n ek env where *:
    "ParsePublicKeyPEM cr (cpk_PublicKeyPEM key) = Inr pub" "fill_plain now rnd key plain = Inr plain'"
    "cr_marshalPlain cr plain' = Inr payload"
    "sr_contentKey rnd = Inr contentKey" "aes_NewCipher contentKey = None" "sr_gcmNonce rnd = Inr n"
    "cr_encryptOAEP cr pub (sr_oaep rnd) contentKey (cpk_KeyID key) = Inr ek"
    "cr_marshalEnvelope cr \<lparr>env_Alg = EnvelopeAlg, env_EK = Base64_Encode ek, env_Nonce = Base64_Encode n,
       env_CT = Base64_Encode (cr_gcmSeal cr contentKey n payload (cpk_KeyID key))\<rparr> = Inr env"
    "sealed = \<lparr>sc_Type = TypeServerSealed, sc_KeyID = cpk_KeyID key, sc_ExpiresAt = cpk_ExpiresAt key, sc_Ciphertext = Base64_Encode env\<rparr>"
    by (auto simp: Seal_def Let_def split: sum.splits option.splits)
  from fill_plain_result [OF *(2)] obtain nonce where "pc_Nonce plain = [] \<longrightarrow> sr_nonce rnd = Inr nonce"
    "plain' = sealed_plain now nonce key plain" by blast
  with * show thesis by (intro that) simp_all
qed

lemma Open_sealed:
  assumes "crypto_ok cr" and "Seal cr now rnd key plain = Inr sealed"
    and "ParsePublicKeyPEM cr (cpk_PublicKeyPEM key) = Inr (cr_public cr priv)" and "\<And>n. sr_gcmNonce rnd = Inr n \<Longrightarrow> length n = gcm_NonceSize"
  shows "\<exists>nonce. (pc_Nonce plain = [] \<longrightarrow> sr_nonce rnd = Inr nonce) \<and> Open cr sealed (Some priv) = Returned (Inr (sealed_plain now nonce key plain))"
proof -
  from Seal_result [OF assms(2)] obtain pub nonce payload contentKey n ek env where s:
    "ParsePublicKeyPEM cr (cpk_PublicKeyPEM key) = Inr pub"
    "pc_Nonce plain = [] \<longrightarrow> sr_nonce rnd = Inr nonce"
    "cr_marshalPlain cr (sealed_plain now nonce key plain) = Inr payload"
    "sr_contentKey rnd = Inr contentKey" "aes_NewCipher contentKey = None" "sr_gcmNonce rnd = Inr n"
    "cr_encryptOAEP cr pub (sr_oaep rnd) contentKey (cpk_KeyID key) = Inr ek"
    "cr_marshalEnvelope cr \<lparr>env_Alg = EnvelopeAlg, env_EK = Base64_Encode ek, env_Nonce = Base64_Encode n,
       env_CT = Base64_Encode (cr_gcmSeal cr contentKey n payload (cpk_KeyID key))\<rparr> = Inr env"
    "sealed = \<lparr>sc_Type = TypeServerSealed, sc_KeyID = cpk_KeyID key, sc_ExpiresAt = cpk_ExpiresAt key, sc_Ciphertext = Base64_Encode env\<rparr>" .
  from s(1) assms(3) have "pub = cr_public cr priv" by simp
  with s(3,7,8) assms(1) have "cr_decryptOAEP cr priv ek (cpk_KeyID key) = Inr contentKey"
    "cr_unmarshalPlain cr payload = Inr (sealed_plain now nonce key plain)"
    "cr_unmarshalEnvelope cr env = Inr \<lparr>env_Alg = EnvelopeAlg, env_EK = Base64_Encode ek, env_Nonce = Base64_Encode n,
       env_CT = Base64_Encode (cr_gcmSeal cr contentKey n payload (cpk_KeyID key))\<rparr>"
    "cr_gcmOpen cr contentKey n (cr_gcmSeal cr contentKey n payload (cpk_KeyID key)) (cpk_KeyID key) = Inr payload"
    by (auto simp: crypto_ok_def)
  with s(2,5,9) assms(4) [OF s(6)] show ?thesis
    by (intro exI [of _ nonce]) (simp add: Open_def)
qed

text \<open>A credential sealed to a server's public key opens, with the server's private key, to exactly the
  plain credential with the fields the sealing filled in; username and password are never changed.\<close>

theorem sealed_credential_opens:
  assumes "crypto_ok cr" and "Seal cr now rnd key plain = Inr sealed"
    and "ParsePublicKeyPEM cr (cpk_PublicKeyPEM key) = Inr (cr_public cr priv)" and "\<And>n. sr_gcmNonce rnd = Inr n \<Longrightarrow> length n = gcm_NonceSize"
  shows "\<exists>nonce. Open cr sealed (Some priv) = Returned (Inr (sealed_plain now nonce key plain))
    \<and> pc_Username (sealed_plain now nonce key plain) = pc_Username plain \<and> pc_Password (sealed_plain now nonce key plain) = pc_Password plain
    \<and> sc_KeyID sealed = cpk_KeyID key \<and> sc_ExpiresAt sealed = cpk_ExpiresAt key \<and> sc_Type sealed = TypeServerSealed"
proof -
  from Seal_result [OF assms(2)] have "sc_KeyID sealed = cpk_KeyID key \<and> sc_ExpiresAt sealed = cpk_ExpiresAt key \<and> sc_Type sealed = TypeServerSealed"
    by (metis sealedCredential.select_convs(1-3))
  moreover from Open_sealed [OF assms] obtain nonce where "Open cr sealed (Some priv) = Returned (Inr (sealed_plain now nonce key plain))"
    by blast
  ultimately show ?thesis by (auto simp: sealed_plain_def)
qed

text \<open>C37. Opening a credential panics instead of failing when its envelope carries a content key that decrypts
  and a nonce that does not have 12 bytes. Such a credential takes no secret to make: the public key
  the server hands out is enough.\<close>

theorem open_panics_on_nonce:
  assumes "crypto_ok cr" and "cr_encryptOAEP cr (cr_public cr priv) seed contentKey keyID = Inr ek" and "length contentKey = 32"
    and "length nonce \<noteq> gcm_NonceSize"
    and "cr_marshalEnvelope cr \<lparr>env_Alg = EnvelopeAlg, env_EK = Base64_Encode ek, env_Nonce = Base64_Encode nonce,
       env_CT = Base64_Encode ct\<rparr> = Inr env"
  shows "Open cr \<lparr>sc_Type = TypeServerSealed, sc_KeyID = keyID, sc_ExpiresAt = exp, sc_Ciphertext = Base64_Encode env\<rparr> (Some priv)
    = Panicked gcm_nonce_panic"
proof -
  from assms have "cr_decryptOAEP cr priv ek keyID = Inr contentKey"
    "cr_unmarshalEnvelope cr env = Inr \<lparr>env_Alg = EnvelopeAlg, env_EK = Base64_Encode ek, env_Nonce = Base64_Encode nonce,
       env_CT = Base64_Encode ct\<rparr>"
    by (auto simp: crypto_ok_def)
  with assms(3,4) show ?thesis by (simp add: Open_def aes_NewCipher_def)
qed

section \<open>A sample of the primitives\<close>

text \<open>
  Primitives that satisfy the contract, for the witnesses: keys are texts, encryption changes
  nothing, and a record is coded as its fields in base64, separated by colons.
\<close>

fun enc_fields :: "string list \<Rightarrow> string" where
  "enc_fields [] = []"
| "enc_fields (f # fs) = Base64_Encode f @ CHR '':'' # enc_fields fs"

fun dec_texts :: "string list \<Rightarrow> string list res" where
  "dec_texts [] = Inr []"
| "dec_texts (t # ts) = (case (Base64_Decode t, dec_texts ts) of (Inr f, Inr fs) \<Rightarrow> Inr (f # fs) | _ \<Rightarrow> Inl CorruptInputError)"

definition dec_fields :: "string \<Rightarrow> string list res" where
  "dec_fields s = dec_texts (butlast (SplitChar (CHR '':'') s))"

lemma split_enc_fields: "SplitChar (CHR '':'') (enc_fields fs) = map Base64_Encode fs @ [[]]"
proof (induction fs)
  case (Cons f fs)
  have "CHR '':'' \<notin> set (Base64_Encode f)" using Base64_chars by blast
  with Cons show ?case by (simp add: SplitChar_append)
qed simp

lemma dec_enc_fields [simp]: "dec_fields (enc_fields fs) = Inr fs"
  unfolding dec_fields_def split_enc_fields by (induction fs) simp_all

definition sample_crypto :: "(string, string) crypto" where
  "sample_crypto = \<lparr>cr_pemDecode = Some, cr_pemEncode = (\<lambda>t b. b), cr_parsePKIX = (\<lambda>b. Inr (Some b)),
     cr_parsePKCS1 = Inr, cr_parsePKCS8 = (\<lambda>b. Inr (Some b)), cr_marshalPKIX = Inr, cr_marshalPKCS1 = (\<lambda>k. k),
     cr_public = (\<lambda>k. k), cr_encryptOAEP = (\<lambda>p seed m l. Inr m), cr_decryptOAEP = (\<lambda>k c l. Inr c),
     cr_gcmSeal = (\<lambda>k n p ad. p), cr_gcmOpen = (\<lambda>k n c ad. Inr c),
     cr_marshalPlain = (\<lambda>v. Inr (enc_fields [pc_Username v, pc_Password v, pc_ClientID v, pc_IssuedAt v, pc_ExpiresAt v, pc_Nonce v])),
     cr_unmarshalPlain = (\<lambda>d. case dec_fields d of
        Inr [u, p, c, i, e, n] \<Rightarrow> Inr \<lparr>pc_Username = u, pc_Password = p, pc_ClientID = c, pc_IssuedAt = i, pc_ExpiresAt = e, pc_Nonce = n\<rparr>
      | _ \<Rightarrow> Inl CorruptInputError),
     cr_marshalEnvelope = (\<lambda>v. Inr (enc_fields [env_Alg v, env_EK v, env_Nonce v, env_CT v])),
     cr_unmarshalEnvelope = (\<lambda>d. case dec_fields d of
        Inr [a, k, n, c] \<Rightarrow> Inr \<lparr>env_Alg = a, env_EK = k, env_Nonce = n, env_CT = c\<rparr>
      | _ \<Rightarrow> Inl CorruptInputError)\<rparr>"

lemma enc_fields_nonempty: "enc_fields (f # fs) \<noteq> []"
  by simp

lemma sample_crypto_ok: "crypto_ok sample_crypto" "key_codec_ok sample_crypto"
  by (auto simp: crypto_ok_def key_codec_ok_def sample_crypto_def enc_fields_nonempty simp del: enc_fields.simps)

definition sample_public :: credentialPublicKey where
  "sample_public = \<lparr>cpk_Type = TypeServerSealed, cpk_KeyID = ''k1'', cpk_ExpiresAt = ''2026-07-05T10:11:12Z'', cpk_PublicKeyPEM = ''RSA''\<rparr>"

definition sample_plain :: plainCredential where
  "sample_plain = \<lparr>pc_Username = ''alice'', pc_Password = ''secret'', pc_ClientID = ''c1'', pc_IssuedAt = [], pc_ExpiresAt = [], pc_Nonce = []\<rparr>"

definition sample_random :: seal_random where
  "sample_random = \<lparr>sr_nonce = Inr (replicate 16 (CHR ''n'')), sr_contentKey = Inr (replicate 32 (CHR ''k'')),
     sr_gcmNonce = Inr (replicate 12 (CHR ''g'')), sr_oaep = []\<rparr>"

lemma sample_seals: "\<exists>sealed. Seal sample_crypto ''2026-07-01T00:00:00Z'' sample_random sample_public sample_plain = Inr sealed"
  by (simp add: Seal_def fill_plain_def ParsePublicKeyPEM_def aes_NewCipher_def sample_crypto_def sample_public_def sample_random_def
      sample_plain_def)

theorem sealed_credential_opens_witness:
  "\<exists>sealed plain. Seal sample_crypto ''2026-07-01T00:00:00Z'' sample_random sample_public sample_plain = Inr sealed
    \<and> Open sample_crypto sealed (Some ''RSA'') = Returned (Inr plain) \<and> pc_Password plain = ''secret''"
proof -
  from sample_seals obtain sealed where s: "Seal sample_crypto ''2026-07-01T00:00:00Z'' sample_random sample_public sample_plain = Inr sealed"
    by blast
  have "ParsePublicKeyPEM sample_crypto (cpk_PublicKeyPEM sample_public) = Inr (cr_public sample_crypto ''RSA'')"
    by (simp add: ParsePublicKeyPEM_def sample_crypto_def sample_public_def)
  from sealed_credential_opens [OF sample_crypto_ok(1) s this] show ?thesis
    using s by (auto simp: sample_random_def gcm_NonceSize_def sample_plain_def)
qed

theorem open_panics_on_nonce_witness:
  "\<exists>sealed. Open sample_crypto sealed (Some ''RSA'') = Panicked gcm_nonce_panic"
proof -
  have "cr_encryptOAEP sample_crypto (cr_public sample_crypto ''RSA'') [] (replicate 32 (CHR ''k'')) ''k1'' = Inr (replicate 32 (CHR ''k''))"
    by (simp add: sample_crypto_def)
  from open_panics_on_nonce [OF sample_crypto_ok(1) this, of "''short''" "[]"] show ?thesis
    by (auto simp: sample_crypto_def gcm_NonceSize_def)
qed

section \<open>Key files\<close>

lemma writeFileSecure_None:
  "writeFileSecure env fs path data = (fs', None) \<Longrightarrow> fs' = AList.update path data fs"
  by (auto simp: writeFileSecure_def split: option.splits dest: WriteFile_None)

lemma ensured_public:
  assumes "key_codec_ok cr" and "EnsureKeyFiles cr env gen fs priv pub bits = (fs', Inr (key, pem))"
  shows "ParsePublicKeyPEM cr pem = Inr (cr_public cr key)"
proof -
  have pubPEM: "ParsePublicKeyPEM cr (cr_pemEncode cr t d) = Inr p" if "cr_marshalPKIX cr p = Inr d" for t d p
    using assms(1) that by (simp add: key_codec_ok_def ParsePublicKeyPEM_def)
  from assms(2) show ?thesis
    by (auto simp: EnsureKeyFiles_def GenerateKeyPair_def Let_def pubPEM split: sum.splits prod.splits option.splits if_splits)
qed

lemma ensure_key_again:
  assumes "key_codec_ok cr" and "EnsureKeyFiles cr env gen fs priv pub bits = (fs', Inr (key, pem))"
    and "priv \<noteq> pub" and "os_read_fault env priv = None" and "os_read_fault env pub = None"
  shows "EnsureKeyFiles cr env gen' fs' priv pub bits' = (fs', Inr (key, pem)) \<and> ParsePublicKeyPEM cr pem = Inr (cr_public cr key)"
proof -
  have pubPEM: "ParsePublicKeyPEM cr (cr_pemEncode cr t d) = Inr p" if "cr_marshalPKIX cr p = Inr d" for t d p
    using assms(1) that by (simp add: key_codec_ok_def ParsePublicKeyPEM_def)
  have privPEM: "ParsePrivateKeyPEM cr (cr_pemEncode cr t (cr_marshalPKCS1 cr k)) = Inr k" for t k
    using assms(1) by (simp add: key_codec_ok_def ParsePrivateKeyPEM_def)
  show ?thesis
  proof (cases "map_of fs priv")
    case None
    then have "ReadFile env fs priv = Inl ErrNotExist" using assms(4) by (simp add: ReadFile_def)
    with assms(2) obtain der fs1 where der: "cr_marshalPKIX cr (cr_public cr key) = Inr der" "pem = cr_pemEncode cr ''PUBLIC KEY'' der"
      and w: "writeFileSecure env fs priv (cr_pemEncode cr ''RSA PRIVATE KEY'' (cr_marshalPKCS1 cr key)) = (fs1, None)"
        "writeFileSecure env fs1 pub pem = (fs', None)"
      by (auto simp: EnsureKeyFiles_def GenerateKeyPair_def Let_def split: sum.splits prod.splits option.splits)
    from w [THEN writeFileSecure_None] assms(3)
    have "map_of fs' priv = Some (cr_pemEncode cr ''RSA PRIVATE KEY'' (cr_marshalPKCS1 cr key))" "map_of fs' pub = Some pem"
      by (simp_all add: gomap_simps)
    then show ?thesis using assms(4,5) pubPEM [OF der(1)] privPEM by (simp add: EnsureKeyFiles_def ReadFile_def der(2))
  next
    case (Some data)
    then have r: "ReadFile env fs priv = Inr data" using assms(4) by (simp add: ReadFile_def)
    with assms(2) have k: "ParsePrivateKeyPEM cr data = Inr key"
      by (auto simp: EnsureKeyFiles_def Let_def split: sum.splits prod.splits option.splits if_splits)
    show ?thesis
    proof (cases "\<exists>pd. ReadFile env fs pub = Inr pd \<and> ParsePublicKeyPEM cr pd = Inr (cr_public cr key)")
      case True
      with assms(2) r k show ?thesis by (auto simp: EnsureKeyFiles_def)
    next
      case False
      with assms(2) r k obtain der where der: "cr_marshalPKIX cr (cr_public cr key) = Inr der" "pem = cr_pemEncode cr ''PUBLIC KEY'' der"
        and w: "writeFileSecure env fs pub pem = (fs', None)"
        by (auto simp: EnsureKeyFiles_def Let_def split: sum.splits prod.splits option.splits if_splits)
      from writeFileSecure_None [OF w] assms(3) Some
      have "map_of fs' priv = Some data" "map_of fs' pub = Some pem" by (simp_all add: gomap_simps)
      then show ?thesis using assms(4,5) pubPEM [OF der(1)] k by (simp add: EnsureKeyFiles_def ReadFile_def der(2))
    qed
  qed
qed

text \<open>Ensuring the key files is stable: once it has succeeded, doing it again, at any later start and
  whatever a key generation would yield, gives the same private key and the same public key text,
  changes no file, and that text is the public half of the private key.\<close>

theorem ensured_keys_stay:
  assumes "key_codec_ok cr" and "EnsureKeyFiles cr env gen fs priv pub bits = (fs', Inr (key, pem))"
    and "priv \<noteq> pub" and "os_read_fault env priv = None" and "os_read_fault env pub = None"
  shows "EnsureKeyFiles cr env gen' fs' priv pub bits' = (fs', Inr (key, pem)) \<and> ParsePublicKeyPEM cr pem = Inr (cr_public cr key)"
  using assms by (rule ensure_key_again)

theorem ensured_keys_stay_witness:
  "\<exists>fs'. EnsureKeyFiles sample_crypto no_faults (\<lambda>b. Inr ''K'') [] ''a.key'' ''a.pub'' 3072 = (fs', Inr (''K'', ''K''))
     \<and> EnsureKeyFiles sample_crypto no_faults (\<lambda>b. Inl CorruptInputError) fs' ''a.key'' ''a.pub'' 0 = (fs', Inr (''K'', ''K''))"
proof -
  have "EnsureKeyFiles sample_crypto no_faults (\<lambda>b. Inr ''K'') [] ''a.key'' ''a.pub'' 3072
      = ([(''a.key'', ''K''), (''a.pub'', ''K'')], Inr (''K'', ''K''))"
    by (simp add: EnsureKeyFiles_def GenerateKeyPair_def sample_crypto_def no_faults_def ReadFile_def writeFileSecure_def MkdirAll_def WriteFile_def)
  from ensured_keys_stay [OF sample_crypto_ok(2) this] this show ?thesis by (auto simp: no_faults_def)
qed

text \<open>A private key file that exists but cannot be read at the moment is not left alone: the key in it is
  replaced by a newly generated one, so every credential sealed to the old key is lost.\<close>

theorem unreadable_key_replaced:
  assumes "map_of fs priv = Some oldPEM" and "os_read_fault env priv = Some err" and "GenerateKeyPair cr gen bits = Inr (key, newPEM, pubPEM)"
    and "os_mkdir_fault env (DirPath priv) = None" and "os_write_fault env priv = None" and "priv \<noteq> pub"
  shows "map_of (fst (EnsureKeyFiles cr env gen fs priv pub bits)) priv = Some newPEM"
proof -
  have w: "writeFileSecure env fs priv newPEM = (AList.update priv newPEM fs, None)"
    using assms by (simp add: writeFileSecure_def MkdirAll_def WriteFile_def)
  have "map_of (fst (writeFileSecure env fs1 pub pubPEM)) priv = map_of fs1 priv" for fs1
    using assms(6) by (auto simp: writeFileSecure_def WriteFile_def MkdirAll_def gomap_simps split: option.split)
  then show ?thesis using assms w
    by (auto simp: EnsureKeyFiles_def ReadFile_def gomap_simps split: prod.split option.split) (metis fst_conv fun_upd_same map_of_update)+
qed

theorem unreadable_key_replaced_witness:
  "map_of (fst (EnsureKeyFiles sample_crypto (no_faults\<lparr>os_read_fault := (\<lambda>p. Some ErrNotExist)\<rparr>) (\<lambda>b. Inr ''NEW'') [(''a.key'', ''OLD'')] ''a.key'' ''a.pub'' 3072)) ''a.key''
     = Some ''NEW''"
  by (rule unreadable_key_replaced [of _ _ "''OLD''" _ ErrNotExist _ _ _ "''NEW''" _ "''NEW''"])
    (simp_all add: no_faults_def GenerateKeyPair_def sample_crypto_def)

end
