(* ===== verification/Credential_Keys.thy ===== *)
theory Credential_Keys
  imports Seal_Crypto Server_Config
begin

text \<open>
  \<open>server/tunnel/credential_seal.go\<close>: the login keys of the server, their loading and rotation, and how
  the password of a request is obtained. The state of the server that this part owns is
  \<open>credState\<close>; every operation runs under \<open>credentialMu\<close> and is one step on it and the files. Clock
  readings are arguments in the order the code takes them; log lines are left out.
\<close>

section \<open>State\<close>

record 'k sealKey =
  sk_id :: string
  sk_expiresAt :: time
  sk_private :: "'k option"
  sk_publicPEM :: string
  sk_active :: bool

record 'k credState =
  cs_configPath :: string
  cs_cfgKeys :: "credentialSealKeyConfig list"
  cs_keys :: "(string, 'k sealKey) gomap"
  cs_current :: "'k sealKey option"

text \<open>What the operations take from outside: the primitives, the operating system, the outcome of key
  generation, the offset of the local zone, the YAML codec.\<close>

record ('k, 'p) cred_env =
  ce_crypto :: "('k, 'p) crypto"
  ce_os :: os_env
  ce_generate :: "int \<Rightarrow> 'k res"
  ce_tz :: "time \<Rightarrow> int"
  ce_unmarshal :: "string \<Rightarrow> config res"
  ce_marshal :: "config \<Rightarrow> string res"

definition time_parse_error :: "string \<Rightarrow> go_error" where
  "time_parse_error s = Errorf ''parsing time %q'' [FS s]"

definition mustParseRFC3339 :: "string \<Rightarrow> time" where
  "mustParseRFC3339 s = (case parse_rfc3339 s of None \<Rightarrow> 0 | Some t \<Rightarrow> t)"

section \<open>Paths\<close>

text \<open>\<open>filepath.Rel\<close>.\<close>

fun drop_common :: "string list \<Rightarrow> string list \<Rightarrow> string list \<times> string list" where
  "drop_common (x # xs) (y # ys) = (if x = y then drop_common xs ys else (x # xs, y # ys))"
| "drop_common xs ys = (xs, ys)"

definition RelPath :: "string \<Rightarrow> string \<Rightarrow> string option" where
  "RelPath basepath targpath =
     (let base = Clean basepath; targ = Clean targpath
      in if targ = base then Some ''.''
         else (let base = (if base = ''.'' then [] else base)
               in if IsAbs base \<noteq> IsAbs targ then None
                  else (let parts = (\<lambda>p. filter (\<lambda>e. e \<noteq> []) (SplitChar (CHR ''/'') p));
                            (bs, ts) = drop_common (parts base) (parts targ)
                        in if bs \<noteq> [] \<and> hd bs = ''..'' then None
                           else Some (join_char (CHR ''/'') (replicate (length bs) ''..'' @ ts)))))"

definition relativeCredentialPath :: "string \<Rightarrow> string \<Rightarrow> string" where
  "relativeCredentialPath configPath target =
     (if TrimSpace target = [] then target
      else case RelPath (DirPath configPath) target of
        None \<Rightarrow> target
      | Some rel \<Rightarrow> if HasPrefix rel ''../..'' then target else rel)"

definition joinConfigPath :: "string \<Rightarrow> string \<Rightarrow> string" where
  "joinConfigPath dir name =
     (let dir = TrimRight (TrimSpace dir) [CHR ''/'', CHR 0x5C]
      in if dir = [] \<or> dir = ''.'' then name
         else if ContainsStr dir ''/'' then dir @ ''/'' @ name
         else dir @ [CHR 0x5C] @ name)"

section \<open>The next key\<close>

text \<open>A configured key that the rotation may take over: named, not the current one, not expired.\<close>

definition usable_expiry :: "time \<Rightarrow> string \<Rightarrow> credentialSealKeyConfig \<Rightarrow> time option" where
  "usable_expiry now currentID key =
     (if TrimSpace (key_KeyID key) = [] \<or> TrimSpace (key_KeyID key) = currentID then None
      else case parse_rfc3339 (TrimSpace (key_ExpiresAt key)) of
        None \<Rightarrow> None
      | Some expiresAt \<Rightarrow> if expiresAt > now then Some expiresAt else None)"

fun best_key ::
    "time \<Rightarrow> string \<Rightarrow> nat \<Rightarrow> credentialSealKeyConfig list \<Rightarrow> (nat \<times> time) option \<Rightarrow> (nat \<times> time) option" where
  "best_key now currentID i [] best = best"
| "best_key now currentID i (key # keys) best =
     (case usable_expiry now currentID key of
        None \<Rightarrow> best_key now currentID (Suc i) keys best
      | Some expiresAt \<Rightarrow>
          best_key now currentID (Suc i) keys
            (case best of None \<Rightarrow> Some (i, expiresAt)
             | Some (j, bestExpiry) \<Rightarrow> if expiresAt < bestExpiry then Some (i, expiresAt) else best))"

text \<open>The loop that numbers the new key: the fuel bounds its rounds.\<close>

fun fresh_key_id :: "nat \<Rightarrow> string list \<Rightarrow> string \<Rightarrow> int \<Rightarrow> string \<Rightarrow> string option" where
  "fresh_key_id fuel existing baseID i keyID =
     (if keyID \<notin> set existing then Some keyID
      else case fuel of 0 \<Rightarrow> None
      | Suc fuel \<Rightarrow> fresh_key_id fuel existing baseID (i + 1) (baseID @ ''-'' @ pad 2 i))"

declare fresh_key_id.simps [simp del]

text \<open>\<open>None\<close> is the case that the numbering does not end, which cannot happen
  (\<open>next_key_defined\<close>). The index is that of a configured key, if one is taken over.\<close>

definition nextCredentialSealKeyConfigLocked ::
    "(time \<Rightarrow> int) \<Rightarrow> time \<Rightarrow> credentialSealKeyConfig list \<Rightarrow> 'k sealKey \<Rightarrow> (credentialSealKeyConfig \<times> nat option) option" where
  "nextCredentialSealKeyConfigLocked tz now keys current =
     (case best_key now (sk_id current) 0 keys None of
        Some (i, _) \<Rightarrow> Some (keys ! i, Some i)
      | None \<Rightarrow>
         (let expiry = AddDate tz now 0 3 0;
              existing = map (\<lambda>key. TrimSpace (key_KeyID key)) keys;
              baseID = ''login-key-'' @ month_text (tz now) now
          in case fresh_key_id (length keys) existing baseID 2 baseID of
               None \<Rightarrow> None
             | Some keyID \<Rightarrow>
                (let (privateDir, publicDir) =
                       (case find (\<lambda>key. TrimSpace (key_KeyID key) = sk_id current) keys of
                          None \<Rightarrow> ([], [])
                        | Some key \<Rightarrow> (DirPath (key_PrivateKeyFile key), DirPath (key_PublicKeyFile key)));
                     privateDir = (if privateDir = [] \<or> privateDir = ''.'' then ''certs'' else privateDir);
                     publicDir = (if publicDir = [] \<or> publicDir = ''.'' then privateDir else publicDir)
                 in Some (\<lparr>key_KeyID = keyID, key_PrivateKeyFile = JoinPath [privateDir, keyID @ ''.key''],
                      key_PublicKeyFile = JoinPath [publicDir, keyID @ ''.pub''],
                      key_ExpiresAt = format_rfc3339 (tz expiry) expiry, key_Active = True\<rparr>, None))))"

section \<open>Writing the rotation back\<close>

definition same_key_id :: "credentialSealKeyConfig \<Rightarrow> credentialSealKeyConfig \<Rightarrow> bool" where
  "same_key_id a b \<longleftrightarrow> TrimSpace (key_KeyID a) = TrimSpace (key_KeyID b)"

definition rotated_keys :: "credentialSealKeyConfig \<Rightarrow> credentialSealKeyConfig \<Rightarrow> credentialSealKeyConfig list \<Rightarrow> credentialSealKeyConfig list" where
  \<comment> \<open>the loop that marks the new key active in the file's list, and the append when it is not there\<close>
  "rotated_keys newCfg rawNew keys =
     map (\<lambda>key. key\<lparr>key_Active := same_key_id key newCfg\<rparr>) keys
     @ (if list_ex (\<lambda>key. same_key_id key newCfg) keys then [] else [rawNew])"

definition persistCredentialSealRotationLocked ::
    "('k, 'p) cred_env \<Rightarrow> files \<Rightarrow> string \<Rightarrow> credentialSealKeyConfig \<Rightarrow> files \<times> go_error option" where
  "persistCredentialSealRotationLocked ce fs path newCfg =
     (let configPath = TrimSpace path
      in if configPath = [] then (fs, None)
         else case ReadFile (ce_os ce) fs configPath of Inl err \<Rightarrow> (fs, Some err) | Inr data \<Rightarrow>
         (case ce_unmarshal ce data of Inl err \<Rightarrow> (fs, Some err) | Inr raw \<Rightarrow>
           (let rawNew = newCfg\<lparr>key_PrivateKeyFile := relativeCredentialPath configPath (key_PrivateKeyFile newCfg),
                  key_PublicKeyFile := relativeCredentialPath configPath (key_PublicKeyFile newCfg)\<rparr>;
                previous = rawCredentialPathTemplate (cfg_SealKeys raw);
                rawNew = (if key_KeyID previous \<noteq> []
                  then rawNew\<lparr>key_PrivateKeyFile := joinConfigPath (DirPath (key_PrivateKeyFile previous)) (key_KeyID newCfg @ ''.key''),
                    key_PublicKeyFile := joinConfigPath (DirPath (key_PublicKeyFile previous)) (key_KeyID newCfg @ ''.pub'')\<rparr>
                  else rawNew);
                raw = raw\<lparr>cfg_SealKeys := rotated_keys newCfg rawNew (cfg_SealKeys raw)\<rparr>
            in case ce_marshal ce raw of Inl err \<Rightarrow> (fs, Some err)
             | Inr out \<Rightarrow> WriteFile (ce_os ce) fs configPath out)))"

section \<open>Rotation and loading\<close>

type_synonym 'k cred = "'k credState \<times> files"

definition installed_keys :: "credentialSealKeyConfig list \<Rightarrow> credentialSealKeyConfig \<Rightarrow> nat option \<Rightarrow> credentialSealKeyConfig list" where
  "installed_keys keys newCfg existingIndex =
     (let keys = map (\<lambda>key. key\<lparr>key_Active := False\<rparr>) keys
      in case existingIndex of
        Some i \<Rightarrow> keys[i := (keys ! i)\<lparr>key_Active := True\<rparr>]
      | None \<Rightarrow> keys @ [newCfg])"

definition rotateExpiredCredentialSealKeyLocked :: "('k, 'p) cred_env \<Rightarrow> time \<Rightarrow> 'k cred \<Rightarrow> 'k cred \<times> go_error option" where
  "rotateExpiredCredentialSealKeyLocked ce now c =
     (case c of (st, fs) \<Rightarrow>
      (case cs_current st of
         None \<Rightarrow> ((st, fs), None)
       | Some current \<Rightarrow>
          if sk_expiresAt current > now then ((st, fs), None)
          else case nextCredentialSealKeyConfigLocked (ce_tz ce) now (cs_cfgKeys st) current of
            None \<Rightarrow> ((st, fs), None)
          | Some (newCfg, existingIndex) \<Rightarrow>
             (case EnsureKeyFiles (ce_crypto ce) (ce_os ce) (ce_generate ce) fs (key_PrivateKeyFile newCfg) (key_PublicKeyFile newCfg) 3072 of
                (fs, Inl err) \<Rightarrow> ((st, fs), Some (Errorf ''rotate credential seal key %s: %w'' [FS (key_KeyID newCfg), FE err]))
              | (fs, Inr (privateKey, publicPEM)) \<Rightarrow>
                 (let key = \<lparr>sk_id = key_KeyID newCfg, sk_expiresAt = mustParseRFC3339 (key_ExpiresAt newCfg),
                             sk_private = Some privateKey, sk_publicPEM = publicPEM, sk_active = True\<rparr>;
                      st = st\<lparr>cs_cfgKeys := installed_keys (cs_cfgKeys st) newCfg existingIndex,
                             cs_keys := AList.update (sk_id key) key (cs_keys st), cs_current := Some key\<rparr>;
                      (fs, err) = persistCredentialSealRotationLocked ce fs (cs_configPath st) newCfg
                  in ((st, fs), None)))))"

fun load_keys_loop :: "('k, 'p) cred_env \<Rightarrow> time \<Rightarrow> credentialSealKeyConfig list \<Rightarrow> 'k cred \<Rightarrow> 'k cred \<times> go_error option" where
  "load_keys_loop ce now [] c = (c, None)"
| "load_keys_loop ce now (item # items) (st, fs) =
     (case parse_rfc3339 (TrimSpace (key_ExpiresAt item)) of
        None \<Rightarrow> ((st, fs), Some (Errorf ''parse credential seal key %s expires_at: %w''
                   [FS (key_KeyID item), FE (time_parse_error (TrimSpace (key_ExpiresAt item)))]))
      | Some expiresAt \<Rightarrow>
         (case (if expiresAt > now
                then (case EnsureKeyFiles (ce_crypto ce) (ce_os ce) (ce_generate ce) fs (key_PrivateKeyFile item) (key_PublicKeyFile item) 3072 of
                        (fs, Inl err) \<Rightarrow> (fs, Inl err) | (fs, Inr (k, pem)) \<Rightarrow> (fs, Inr (Some k, pem)))
                else (fs, Inr (None, []))) of
            (fs, Inl err) \<Rightarrow> ((st, fs), Some (Errorf ''load credential seal key %s: %w'' [FS (key_KeyID item), FE err]))
          | (fs, Inr (privateKey, publicPEM)) \<Rightarrow>
             (let key = \<lparr>sk_id = TrimSpace (key_KeyID item), sk_expiresAt = expiresAt, sk_private = privateKey,
                         sk_publicPEM = publicPEM, sk_active = key_Active item\<rparr>;
                  st = st\<lparr>cs_keys := AList.update (sk_id key) key (cs_keys st),
                         cs_current := (if key_Active item then Some key else cs_current st)\<rparr>
              in load_keys_loop ce now items (st, fs))))"

definition loadCredentialSealKeys :: "('k, 'p) cred_env \<Rightarrow> time \<Rightarrow> 'k cred \<Rightarrow> 'k cred \<times> go_error option" where
  "loadCredentialSealKeys ce now c =
     (case c of (st, fs) \<Rightarrow>
      (case load_keys_loop ce now (cs_cfgKeys st) (st\<lparr>cs_keys := []\<rparr>, fs) of
         (c, Some err) \<Rightarrow> (c, Some err)
       | (c, None) \<Rightarrow> rotateExpiredCredentialSealKeyLocked ce now c))"

section \<open>The public key handed out\<close>

definition activeCredentialPublicKey :: "('k, 'p) cred_env \<Rightarrow> time \<Rightarrow> time \<Rightarrow> 'k cred \<Rightarrow> 'k cred \<times> credentialPublicKey option" where
  "activeCredentialPublicKey ce now1 now2 c =
     (case rotateExpiredCredentialSealKeyLocked ce now1 c of
        (c, Some err) \<Rightarrow> (c, None)
      | (c, None) \<Rightarrow>
         (c, case cs_current (fst c) of
               None \<Rightarrow> None
             | Some key \<Rightarrow>
                 if sk_expiresAt key > now2
                 then Some \<lparr>cpk_Type = TypeServerSealed, cpk_KeyID = sk_id key,
                        cpk_ExpiresAt = format_rfc3339 (ce_tz ce (sk_expiresAt key)) (sk_expiresAt key),
                        cpk_PublicKeyPEM = sk_publicPEM key\<rparr>
                 else None))"

section \<open>The password of a request\<close>

text \<open>The result is the password, the error code and its message.\<close>

type_synonym password_result = "(string \<times> string \<times> string) outcome"

definition auth_refused :: password_result where
  "auth_refused = Returned ([], ''auth_failed'', ''username or password is incorrect'')"

definition credential_expired :: password_result where
  "credential_expired = Returned ([], ''credential_expired'', ''saved login has expired, please enter password again'')"

definition passwordFromRequest ::
    "('k, 'p) cred_env \<Rightarrow> time \<Rightarrow> time \<Rightarrow> time \<Rightarrow> openRequest \<Rightarrow> 'k cred \<Rightarrow> 'k cred \<times> password_result" where
  "passwordFromRequest ce now1 now2 now3 req c =
     (if req_Password req \<noteq> [] then (c, Returned (req_Password req, [], []))
      else case req_Credential req of
        None \<Rightarrow> (c, auth_refused)
      | Some cred \<Rightarrow>
         if TrimSpace (sc_Ciphertext cred) = [] then (c, auth_refused)
         else if sc_Type cred \<noteq> TypeServerSealed then (c, auth_refused)
         else (let c = fst (rotateExpiredCredentialSealKeyLocked ce now1 c)
          in (c,
              case map_of (cs_keys (fst c)) (TrimSpace (sc_KeyID cred)) of
                None \<Rightarrow> credential_expired
              | Some key \<Rightarrow>
                 if \<not> sk_expiresAt key > now2 then credential_expired
                 else (case Open (ce_crypto ce) cred (sk_private key) of
                        Panicked p \<Rightarrow> Panicked p
                      | Returned (Inl err) \<Rightarrow> auth_refused
                      | Returned (Inr plain) \<Rightarrow>
                          if pc_Username plain \<noteq> req_Username req then auth_refused
                          else if pc_ExpiresAt plain = [] then credential_expired
                          else (case parse_rfc3339 (pc_ExpiresAt plain) of
                              None \<Rightarrow> credential_expired
                            | Some plainExpiresAt \<Rightarrow>
                                if \<not> plainExpiresAt > now3 then credential_expired
                                else Returned (pc_Password plain, [], []))))))"

section \<open>Choosing the next key\<close>

lemma best_key_Some:
  "best_key now cur i keys best = Some (j, t) \<Longrightarrow>
   (best = Some (j, t) \<or> (i \<le> j \<and> j < i + length keys \<and> usable_expiry now cur (keys ! (j - i)) = Some t))
   \<and> (\<forall>b u. best = Some (b, u) \<longrightarrow> t \<le> u) \<and> (\<forall>k \<in> set keys. \<forall>u. usable_expiry now cur k = Some u \<longrightarrow> t \<le> u)"
proof (induction now cur i keys best rule: best_key.induct)
  case (2 now cur i key keys best)
  show ?case
  proof (cases "usable_expiry now cur key")
    case None
    with 2 show ?thesis by (fastforce simp: Suc_le_eq nth_Cons' Suc_diff_Suc)
  next
    case (Some e)
    let ?b = "case best of None \<Rightarrow> Some (i, e) | Some (j, u) \<Rightarrow> if e < u then Some (i, e) else best"
    from Some 2(3) have rec: "best_key now cur (Suc i) keys ?b = Some (j, t)" by simp
    note IH = 2(2) [OF Some rec]
    from IH have le: "\<forall>b u. ?b = Some (b, u) \<longrightarrow> t \<le> u" and rest: "\<forall>k \<in> set keys. \<forall>u. usable_expiry now cur k = Some u \<longrightarrow> t \<le> u" by auto
    have "t \<le> e" and "\<forall>b u. best = Some (b, u) \<longrightarrow> t \<le> u" using le by (auto split: option.splits if_splits)
    moreover have "best = Some (j, t) \<or> (i \<le> j \<and> j < i + length (key # keys) \<and> usable_expiry now cur ((key # keys) ! (j - i)) = Some t)"
    proof -
      from IH consider "?b = Some (j, t)" | "Suc i \<le> j" "j < Suc i + length keys" "usable_expiry now cur (keys ! (j - Suc i)) = Some t" by auto
      then show ?thesis
        by cases (use Some in \<open>auto simp: nth_Cons' Suc_diff_Suc split: option.splits if_splits\<close>)
    qed
    ultimately show ?thesis using rest Some by auto
  qed
qed simp

lemma best_key_None:
  "best_key now cur i keys best = None \<longleftrightarrow> best = None \<and> (\<forall>k \<in> set keys. usable_expiry now cur k = None)"
  by (induction now cur i keys best rule: best_key.induct) (auto split: option.splits)

lemma dec_val_zeros: "dec_val (replicate n (CHR ''0'') @ s) = dec_val s"
proof -
  have "foldl (\<lambda>n c. 10 * n + digit_val c) 0 (replicate n (CHR ''0'') @ s) = foldl (\<lambda>n c. 10 * n + digit_val c) 0 s"
    by (induction n) (simp_all add: digit_val_def byte_of_def)
  then show ?thesis by (simp add: dec_val_def)
qed

lemma pad_inj: "0 \<le> a \<Longrightarrow> 0 \<le> b \<Longrightarrow> pad w a = pad w b \<Longrightarrow> a = b"
proof -
  assume ab: "0 \<le> a" "0 \<le> b" and eq: "pad w a = pad w b"
  have "dec_val (pad w n) = nat n" if "0 \<le> n" for n
    using that by (simp add: pad_def Let_def dec_val_zeros Itoa_def dec_val_nat_digits)
  from this [OF ab(1)] this [OF ab(2)] eq ab show "a = b" by (metis nat_eq_iff2)
qed

lemma fresh_key_id_None:
  "fresh_key_id fuel existing baseID i k = None \<Longrightarrow>
   k \<in> set existing \<and> (\<forall>j < fuel. baseID @ ''-'' @ pad 2 (i + int j) \<in> set existing)"
proof (induction fuel arbitrary: i k)
  case 0
  then show ?case by (simp add: fresh_key_id.simps split: if_splits)
next
  case (Suc fuel)
  from Suc.prems have k: "k \<in> set existing" and rec: "fresh_key_id fuel existing baseID (i + 1) (baseID @ ''-'' @ pad 2 i) = None"
    by (auto simp: fresh_key_id.simps [of "Suc fuel"] split: if_splits)
  from Suc.IH [OF rec] have "baseID @ ''-'' @ pad 2 i \<in> set existing"
    and "\<forall>j < fuel. baseID @ ''-'' @ pad 2 (i + 1 + int j) \<in> set existing" by auto
  then have "baseID @ ''-'' @ pad 2 (i + int j) \<in> set existing" if "j < Suc fuel" for j
    using that by (cases j) (auto simp: add.assoc)
  with k show ?case by blast
qed

lemma fresh_key_id_Some: "fresh_key_id fuel existing baseID i k = Some r \<Longrightarrow>
   r \<notin> set existing \<and> (r = k \<or> (\<exists>n. r = baseID @ ''-'' @ pad 2 n))"
proof (induction fuel arbitrary: i k)
  case (Suc fuel)
  then show ?case by (subst (asm) (2) fresh_key_id.simps) (fastforce split: if_splits)
qed (simp add: fresh_key_id.simps split: if_splits)

lemma fresh_key_id_ends:
  assumes "length existing \<le> fuel" and "0 \<le> i"
  shows "\<exists>r. fresh_key_id fuel existing baseID i baseID = Some r"
proof (rule ccontr)
  assume "\<not> ?thesis"
  then have none: "fresh_key_id fuel existing baseID i baseID = None" by auto
  let ?f = "\<lambda>j. baseID @ ''-'' @ pad 2 (i + int j)"
  from fresh_key_id_None [OF none] have sub: "insert baseID (?f ` {..<fuel}) \<subseteq> set existing" by auto
  have "inj_on ?f {..<fuel}" using assms(2) by (auto simp: inj_on_def dest!: pad_inj [rotated 2])
  then have "card (insert baseID (?f ` {..<fuel})) = Suc fuel"
    by (simp add: card_image card_insert_if image_iff)
  with card_mono [OF _ sub] card_length [of existing] assms(1) show False by simp
qed

lemma next_key_defined: "nextCredentialSealKeyConfigLocked tz now keys current \<noteq> None"
proof -
  have "\<exists>r. fresh_key_id (length keys) (map (\<lambda>key. TrimSpace (key_KeyID key)) keys) b 2 b = Some r" for b
    by (rule fresh_key_id_ends) simp_all
  then show ?thesis
    by (auto simp: nextCredentialSealKeyConfigLocked_def Let_def split: option.split prod.split) (metis option.distinct(1))+
qed

text \<open>The choice of the next login key always ends. It takes over the usable configured key that expires
  first: named, not the current one, not expired, and no usable key expires earlier. Only when there
  is none it makes a new key, with an identifier that no configured key has.\<close>

theorem next_key_choice:
  "\<exists>newCfg idx. nextCredentialSealKeyConfigLocked tz now keys current = Some (newCfg, idx)
    \<and> (case idx of
         Some i \<Rightarrow> i < length keys \<and> newCfg = keys ! i
           \<and> (\<exists>t. usable_expiry now (sk_id current) newCfg = Some t \<and> now < t
               \<and> list_all (\<lambda>k. case usable_expiry now (sk_id current) k of None \<Rightarrow> True | Some u \<Rightarrow> t \<le> u) keys)
       | None \<Rightarrow> list_all (\<lambda>k. usable_expiry now (sk_id current) k = None) keys
           \<and> key_KeyID newCfg \<notin> set (map (\<lambda>k. TrimSpace (key_KeyID k)) keys) \<and> key_Active newCfg)"
proof -
  from next_key_defined obtain newCfg idx where n: "nextCredentialSealKeyConfigLocked tz now keys current = Some (newCfg, idx)" by fastforce
  show ?thesis
  proof (cases "best_key now (sk_id current) 0 keys None")
    case None
    with n have "idx = None" "key_KeyID newCfg \<notin> set (map (\<lambda>k. TrimSpace (key_KeyID k)) keys)" "key_Active newCfg"
      by (auto simp: nextCredentialSealKeyConfigLocked_def Let_def split: option.splits prod.splits dest!: fresh_key_id_Some)
    with n None show ?thesis by (simp add: best_key_None list_all_iff)
  next
    case (Some r)
    obtain i t where r: "r = (i, t)" by fastforce
    from best_key_Some [OF Some [unfolded r]] have "i < length keys" "usable_expiry now (sk_id current) (keys ! i) = Some t"
      "\<forall>k \<in> set keys. \<forall>u. usable_expiry now (sk_id current) k = Some u \<longrightarrow> t \<le> u" by auto
    moreover from this(2) have "now < t" by (auto simp: usable_expiry_def split: if_splits option.splits)
    moreover from n Some r have "newCfg = keys ! i" "idx = Some i" by (auto simp: nextCredentialSealKeyConfigLocked_def)
    ultimately show ?thesis using n by (auto simp: list_all_iff split: option.split)
  qed
qed

section \<open>Rotation\<close>

lemma rotate_cases:
  assumes "rotateExpiredCredentialSealKeyLocked ce now (st, fs) = ((st', fs'), err)"
  obtains (keep) "st' = st" "cs_current st = None \<or> err \<noteq> None \<or> (\<exists>a. cs_current st = Some a \<and> now < sk_expiresAt a)"
  | (rotate) current newCfg idx fs1 priv pem key where
      "cs_current st = Some current" "sk_expiresAt current \<le> now" "err = None"
      "nextCredentialSealKeyConfigLocked (ce_tz ce) now (cs_cfgKeys st) current = Some (newCfg, idx)"
      "EnsureKeyFiles (ce_crypto ce) (ce_os ce) (ce_generate ce) fs (key_PrivateKeyFile newCfg) (key_PublicKeyFile newCfg) 3072
        = (fs1, Inr (priv, pem))"
      "key = \<lparr>sk_id = key_KeyID newCfg, sk_expiresAt = mustParseRFC3339 (key_ExpiresAt newCfg), sk_private = Some priv,
              sk_publicPEM = pem, sk_active = True\<rparr>"
      "st' = st\<lparr>cs_cfgKeys := installed_keys (cs_cfgKeys st) newCfg idx, cs_keys := AList.update (key_KeyID newCfg) key (cs_keys st),
                cs_current := Some key\<rparr>"
proof (cases "cs_current st")
  case None
  with assms show thesis by (intro keep) (auto simp: rotateExpiredCredentialSealKeyLocked_def)
next
  case (Some current)
  show thesis
  proof (cases "now < sk_expiresAt current")
    case True
    with assms Some show thesis by (intro keep) (auto simp: rotateExpiredCredentialSealKeyLocked_def)
  next
    case False
    obtain newCfg idx where n: "nextCredentialSealKeyConfigLocked (ce_tz ce) now (cs_cfgKeys st) current = Some (newCfg, idx)"
      using next_key_defined by fastforce
    obtain fs1 r where e: "EnsureKeyFiles (ce_crypto ce) (ce_os ce) (ce_generate ce) fs (key_PrivateKeyFile newCfg) (key_PublicKeyFile newCfg) 3072
        = (fs1, r)" by fastforce
    show thesis
    proof (cases r)
      case (Inl x)
      with assms Some False n e show thesis by (intro keep) (auto simp: rotateExpiredCredentialSealKeyLocked_def)
    next
      case (Inr b)
      obtain priv pem where "b = (priv, pem)" by fastforce
      with assms Some False n e Inr show thesis
        by (intro rotate [where current = current and newCfg = newCfg and idx = idx and priv = priv and pem = pem, OF _ _ _ _ _ refl])
          (auto simp: rotateExpiredCredentialSealKeyLocked_def Let_def split: prod.splits)
    qed
  qed
qed

text \<open>
  The invariant of the keys, from the load at time \<open>t0\<close> on: the entries are filed under their
  identifiers, the current one is filed, and every key that had not expired at the load has its
  private key, with its public half in PEM.
\<close>

definition key_ready :: "('k, 'p) crypto \<Rightarrow> 'k sealKey \<Rightarrow> bool" where
  "key_ready cr key \<longleftrightarrow> (\<exists>k. sk_private key = Some k \<and> ParsePublicKeyPEM cr (sk_publicPEM key) = Inr (cr_public cr k))"

definition cred_ok :: "('k, 'p) crypto \<Rightarrow> time \<Rightarrow> 'k credState \<Rightarrow> bool" where
  "cred_ok cr t0 st \<longleftrightarrow>
     (\<forall>id key. map_of (cs_keys st) id = Some key \<longrightarrow> sk_id key = id \<and> (t0 < sk_expiresAt key \<longrightarrow> key_ready cr key))
   \<and> (\<forall>a. cs_current st = Some a \<longrightarrow> map_of (cs_keys st) (sk_id a) = Some a)"

lemma rotate_ok:
  assumes "cred_ok (ce_crypto ce) t0 st" and "key_codec_ok (ce_crypto ce)"
    and rot: "rotateExpiredCredentialSealKeyLocked ce now (st, fs) = ((st', fs'), err)"
  shows "cred_ok (ce_crypto ce) t0 st'"
  using rot
proof (cases rule: rotate_cases)
  case keep
  with assms(1) show ?thesis by simp
next
  case (rotate current newCfg idx fs1 priv pem key)
  from ensured_public [OF assms(2) rotate(5)] have "key_ready (ce_crypto ce) key"
    by (simp add: key_ready_def rotate(6))
  with assms(1) rotate(6,7) show ?thesis by (auto simp: cred_ok_def gomap_simps split: if_splits)
qed

lemma load_loop_ok:
  assumes "key_codec_ok (ce_crypto ce)"
  shows "load_keys_loop ce now items (st, fs) = ((st', fs'), None) \<Longrightarrow> cred_ok (ce_crypto ce) now st
    \<Longrightarrow> distinct (map (\<lambda>k. TrimSpace (key_KeyID k)) items)
    \<Longrightarrow> (\<forall>k \<in> set items. map_of (cs_keys st) (TrimSpace (key_KeyID k)) = None) \<Longrightarrow> cred_ok (ce_crypto ce) now st'"
proof (induction items arbitrary: st fs)
  case (Cons item items)
  from Cons.prems(1) obtain exp fs1 priv pem where p: "parse_rfc3339 (TrimSpace (key_ExpiresAt item)) = Some exp"
    and e: "(if exp > now
                then (case EnsureKeyFiles (ce_crypto ce) (ce_os ce) (ce_generate ce) fs (key_PrivateKeyFile item) (key_PublicKeyFile item) 3072 of
                        (fs, Inl err) \<Rightarrow> (fs, Inl err) | (fs, Inr (k, pem)) \<Rightarrow> (fs, Inr (Some k, pem)))
                else (fs, Inr (None, []))) = (fs1, Inr (priv, pem))"
    by (auto split: option.splits prod.splits sum.splits if_splits)
  define key where "key = \<lparr>sk_id = TrimSpace (key_KeyID item), sk_expiresAt = exp, sk_private = priv, sk_publicPEM = pem, sk_active = key_Active item\<rparr>"
  define st1 where "st1 = st\<lparr>cs_keys := AList.update (sk_id key) key (cs_keys st),
                         cs_current := (if key_Active item then Some key else cs_current st)\<rparr>"
  from Cons.prems(1) p e have rec: "load_keys_loop ce now items (st1, fs1) = ((st', fs'), None)"
    by (simp only: load_keys_loop.simps option.case sum.case prod.case Let_def st1_def key_def)
  have "key_ready (ce_crypto ce) key" if "now < exp"
    using e that ensured_public [OF assms] by (auto simp: key_ready_def key_def split: prod.splits sum.splits)
  then have "cred_ok (ce_crypto ce) now st1"
    using Cons.prems(2,4) by (auto simp: cred_ok_def st1_def key_def gomap_simps split: if_splits)
  moreover have "\<forall>k \<in> set items. map_of (cs_keys st1) (TrimSpace (key_KeyID k)) = None"
    using Cons.prems(3,4) by (auto simp: st1_def key_def gomap_simps) (metis image_eqI)
  ultimately show ?case using Cons.IH [OF rec] Cons.prems(3) by simp
qed simp

text \<open>Configured keys that passed validation have distinct identifiers.\<close>

lemma validate_keys_distinct:
  "validate_keys keys ids n = Inr m \<Longrightarrow> distinct (map (\<lambda>k. TrimSpace (key_KeyID k)) keys) \<and> set ids \<inter> set (map (\<lambda>k. TrimSpace (key_KeyID k)) keys) = {}"
  by (induction keys ids n rule: validate_keys.induct) (auto simp: Let_def split: if_splits)

lemma load_ok:
  assumes "key_codec_ok (ce_crypto ce)" and "validate_keys (cs_cfgKeys st) [] 0 = Inr n" and "cs_current st = None"
    and "loadCredentialSealKeys ce now (st, fs) = ((st', fs'), None)"
  shows "cred_ok (ce_crypto ce) now st'"
proof -
  from assms(4) obtain st1 fs1 where l: "load_keys_loop ce now (cs_cfgKeys st) (st\<lparr>cs_keys := []\<rparr>, fs) = ((st1, fs1), None)"
    and r: "rotateExpiredCredentialSealKeyLocked ce now (st1, fs1) = ((st', fs'), None)"
    by (auto simp: loadCredentialSealKeys_def split: prod.splits option.splits)
  have "cred_ok (ce_crypto ce) now (st\<lparr>cs_keys := []\<rparr>)" using assms(3) by (simp add: cred_ok_def)
  from load_loop_ok [OF assms(1) l this] validate_keys_distinct [OF assms(2)] have "cred_ok (ce_crypto ce) now st1" by simp
  from rotate_ok [OF this assms(1) r] show ?thesis .
qed

section \<open>Saved logins\<close>

definition saved_login :: "string \<Rightarrow> sealedCredential \<Rightarrow> openRequest" where
  "saved_login user sealed = zero_request\<lparr>req_Type := ''login'', req_Username := user, req_Credential := Some sealed\<rparr>"

definition login_credential :: "string \<Rightarrow> string \<Rightarrow> plainCredential" where
  "login_credential user password = \<lparr>pc_Username = user, pc_Password = password, pc_ClientID = [], pc_IssuedAt = [],
     pc_ExpiresAt = [], pc_Nonce = []\<rparr>"

lemma parse_rfc3339_Nil: "parse_rfc3339 [] = None"
  by (simp add: parse_rfc3339_def num_n_def)

lemma rotate_keeps_unexpired:
  assumes "rotateExpiredCredentialSealKeyLocked ce now (st, fs) = ((st', fs'), err)" and "cs_current st = Some a" and "now < sk_expiresAt a"
  shows "st' = st"
  using assms by (auto simp: rotateExpiredCredentialSealKeyLocked_def)

lemma public_key_current:
  assumes "activeCredentialPublicKey ce n1 n2 (st, fs) = ((st', fs'), Some pub)"
  obtains a where "cs_current st' = Some a" "n2 < sk_expiresAt a" "cpk_KeyID pub = sk_id a" "cpk_PublicKeyPEM pub = sk_publicPEM a"
    "rotateExpiredCredentialSealKeyLocked ce n1 (st, fs) = ((st', fs'), None)"
  using assms by (auto simp: activeCredentialPublicKey_def split: prod.splits option.splits if_splits)

lemma saved_login_opens:
  assumes st: "cred_ok (ce_crypto ce) t0 st" and codec: "key_codec_ok (ce_crypto ce)" and crypto: "crypto_ok (ce_crypto ce)"
    and pub: "activeCredentialPublicKey ce n1 n2 (st, fs) = ((st1, fs1), Some pub)"
    and seal: "Seal (ce_crypto ce) sealTime rnd pub (login_credential user password) = Inr sealed"
    and nonce: "\<And>n. sr_gcmNonce rnd = Inr n \<Longrightarrow> length n = gcm_NonceSize"
    and id: "TrimSpace (cpk_KeyID pub) = cpk_KeyID pub"
    and exp: "parse_rfc3339 (cpk_ExpiresAt pub) = Some e" "m3 < e"
    and times: "t0 \<le> n2" "\<And>a. cs_current st1 = Some a \<Longrightarrow> m1 < sk_expiresAt a \<and> m2 < sk_expiresAt a"
  shows "passwordFromRequest ce m1 m2 m3 (saved_login user sealed) (st1, fs1) = ((st1, fs1), Returned (password, [], []))"
proof -
  from public_key_current [OF pub] obtain a where a: "cs_current st1 = Some a" "n2 < sk_expiresAt a" "cpk_KeyID pub = sk_id a"
    "cpk_PublicKeyPEM pub = sk_publicPEM a" "rotateExpiredCredentialSealKeyLocked ce n1 (st, fs) = ((st1, fs1), None)" .
  from rotate_ok [OF st codec a(5)] have ok: "cred_ok (ce_crypto ce) t0 st1" .
  with a(1,2) times(1) have filed: "map_of (cs_keys st1) (sk_id a) = Some a" and "key_ready (ce_crypto ce) a"
    by (auto simp: cred_ok_def)
  then obtain k where k: "sk_private a = Some k" "ParsePublicKeyPEM (ce_crypto ce) (cpk_PublicKeyPEM pub) = Inr (cr_public (ce_crypto ce) k)"
    by (auto simp: key_ready_def a(4))
  from Open_sealed [OF crypto seal k(2) nonce] obtain nn where
    op: "Open (ce_crypto ce) sealed (Some k) = Returned (Inr (sealed_plain sealTime nn pub (login_credential user password)))" by auto
  from Seal_result [OF seal] obtain env where "sealed = \<lparr>sc_Type = TypeServerSealed, sc_KeyID = cpk_KeyID pub, sc_ExpiresAt = cpk_ExpiresAt pub, sc_Ciphertext = Base64_Encode env\<rparr>"
    and "env \<noteq> []" using crypto by (metis crypto_ok_def)
  then have sealed: "sc_Type sealed = TypeServerSealed" "sc_KeyID sealed = cpk_KeyID pub" "TrimSpace (sc_Ciphertext sealed) \<noteq> []"
    by (simp_all add: TrimSpace_Base64)
  have rot: "rotateExpiredCredentialSealKeyLocked ce m1 (st1, fs1) = ((st1, fs1), None)"
    using a(1) times(2) by (simp add: rotateExpiredCredentialSealKeyLocked_def)
  have plain: "pc_ExpiresAt (sealed_plain sealTime nn pub (login_credential user password)) = cpk_ExpiresAt pub"
    "pc_Username (sealed_plain sealTime nn pub (login_credential user password)) = user"
    "pc_Password (sealed_plain sealTime nn pub (login_credential user password)) = password"
    by (simp_all add: sealed_plain_def login_credential_def)
  have "cpk_ExpiresAt pub \<noteq> []" using exp(1) by (cases "cpk_ExpiresAt pub") (auto simp: parse_rfc3339_Nil)
  with sealed op filed a(1,3) k(1) times(2) exp plain id show ?thesis
    by (simp add: passwordFromRequest_def saved_login_def zero_request_def rot Let_def)
qed


definition sample_cred_env :: "(string, string) cred_env" where
  "sample_cred_env = \<lparr>ce_crypto = sample_crypto, ce_os = no_faults, ce_generate = (\<lambda>b. Inr ''NEW''), ce_tz = (\<lambda>t. 0),
     ce_unmarshal = (\<lambda>d. Inl CorruptInputError), ce_marshal = (\<lambda>c. Inl CorruptInputError)\<rparr>"

definition sample_expiry :: time where
  \<comment> \<open>2026-07-05T10:11:12Z\<close>
  "sample_expiry = 63918843072 * 1000000000"

definition sample_key :: "string sealKey" where
  "sample_key = \<lparr>sk_id = ''k1'', sk_expiresAt = sample_expiry, sk_private = Some ''RSA'', sk_publicPEM = ''RSA'', sk_active = True\<rparr>"

definition sample_cred :: "string credState" where
  "sample_cred = \<lparr>cs_configPath = [],
     cs_cfgKeys = [\<lparr>key_KeyID = ''k1'', key_PrivateKeyFile = ''a.key'', key_PublicKeyFile = ''a.pub'',
       key_ExpiresAt = ''2026-07-05T10:11:12Z'', key_Active = True\<rparr>],
     cs_keys = [(''k1'', sample_key)], cs_current = Some sample_key\<rparr>"

lemma sample_expiry_text: "format_rfc3339 0 sample_expiry = ''2026-07-05T10:11:12Z''"
  by code_simp

lemma sample_expiry_parsed: "parse_rfc3339 ''2026-07-05T10:11:12Z'' = Some sample_expiry"
  by code_simp

lemma sample_cred_ok: "cred_ok sample_crypto t0 sample_cred"
  by (simp add: cred_ok_def sample_cred_def sample_key_def key_ready_def sample_crypto_def ParsePublicKeyPEM_def)

lemma sample_cred_public:
  "n1 < sample_expiry \<Longrightarrow> n2 < sample_expiry \<Longrightarrow>
   activeCredentialPublicKey sample_cred_env n1 n2 (sample_cred, []) = ((sample_cred, []), Some sample_public)"
  by (simp add: activeCredentialPublicKey_def rotateExpiredCredentialSealKeyLocked_def sample_cred_def sample_key_def
      sample_cred_env_def sample_expiry_text sample_public_def)




text \<open>While the clock does not run behind the moment the keys were loaded, taking a password from a request
  never dereferences a missing private key: the only panic left is the one of the cipher on a nonce
  of the wrong length.\<close>

theorem password_panics_only_on_nonce:
  assumes "cred_ok (ce_crypto ce) t0 (fst c)" and "key_codec_ok (ce_crypto ce)" and "t0 \<le> n2"
    and "snd (passwordFromRequest ce n1 n2 n3 req c) = Panicked p"
  shows "p = gcm_nonce_panic"
proof -
  obtain st fs where c: "c = (st, fs)" by fastforce
  obtain st1 fs1 err where r: "rotateExpiredCredentialSealKeyLocked ce n1 (st, fs) = ((st1, fs1), err)" by (metis prod.exhaust)
  from rotate_ok [OF _ assms(2) r] assms(1) c have ok: "cred_ok (ce_crypto ce) t0 st1" by simp
  from assms(4) r c obtain cred key where "map_of (cs_keys st1) (TrimSpace (sc_KeyID cred)) = Some key" "n2 < sk_expiresAt key"
    and p: "Open (ce_crypto ce) cred (sk_private key) = Panicked p"
    by (auto simp: passwordFromRequest_def Let_def auth_refused_def credential_expired_def
        split: option.splits if_splits outcome.splits sum.splits)
  moreover from this(2) assms(3) have "t0 < sk_expiresAt key" by simp
  ultimately have "key_ready (ce_crypto ce) key" using ok unfolding cred_ok_def by blast
  then obtain k where "sk_private key = Some k" by (auto simp: key_ready_def)
  with p show ?thesis
    by (auto simp: Open_def split: option.splits if_splits sum.splits)
qed

theorem password_panics_only_on_nonce_witness:
  "\<exists>req. snd (passwordFromRequest sample_cred_env 5 5 5 req (sample_cred, [])) = Panicked gcm_nonce_panic"
proof -
  let ?env = "enc_fields [EnvelopeAlg, Base64_Encode (replicate 32 (CHR ''k'')), Base64_Encode ''short'', []]"
  let ?cred = "\<lparr>sc_Type = TypeServerSealed, sc_KeyID = ''k1'', sc_ExpiresAt = [], sc_Ciphertext = Base64_Encode ?env\<rparr>"
  let ?req = "zero_request\<lparr>req_Credential := Some ?cred\<rparr>"
  have late: "5 < sample_expiry" by (simp add: sample_expiry_def)
  have "Base64_Encode [] = []" by simp
  then have "Open sample_crypto ?cred (Some ''RSA'') = Panicked gcm_nonce_panic"
    by (simp add: Open_def aes_NewCipher_def gcm_NonceSize_def sample_crypto_def Base64_Decode_Nil del: enc_fields.simps)
  moreover have "TrimSpace ''k1'' = ''k1''" by (simp add: TrimSpace_visible visible_def byte_of_def)
  moreover have "Base64_Encode ?env \<noteq> []" by simp
  ultimately have *: "snd (passwordFromRequest sample_cred_env 5 5 5 ?req (sample_cred, [])) = Panicked gcm_nonce_panic"
    using late by (simp add: passwordFromRequest_def zero_request_def TrimSpace_Base64 rotateExpiredCredentialSealKeyLocked_def
        sample_cred_def sample_key_def sample_cred_env_def Let_def del: enc_fields.simps)
  have "cred_ok (ce_crypto sample_cred_env) 5 (fst (sample_cred, []))" "key_codec_ok (ce_crypto sample_cred_env)"
    using sample_cred_ok sample_crypto_ok(2) by (simp_all add: sample_cred_env_def)
  from password_panics_only_on_nonce [OF this _ *] * show ?thesis by blast
qed

section \<open>A padded expiry\<close>

text \<open>C40. A configured key whose \<open>expires_at\<close> is written with surrounding space passes validation and is chosen
  by the rotation, but is installed with the zero time as its expiry: the server then hands out no
  public key and refuses every credential sealed to that key, although it has not expired.\<close>

theorem rotation_loses_padded_expiry:
  assumes "cs_current st = Some current" and "sk_expiresAt current \<le> now" and "0 \<le> now2"
    and "nextCredentialSealKeyConfigLocked (ce_tz ce) now (cs_cfgKeys st) current = Some (newCfg, Some i)"
    and "parse_rfc3339 (key_ExpiresAt newCfg) = None"
    and "rotateExpiredCredentialSealKeyLocked ce now (st, fs) = ((st', fs'), err)" and "st' \<noteq> st"
  shows "\<exists>key. cs_current st' = Some key \<and> sk_id key = key_KeyID newCfg \<and> sk_expiresAt key = 0
    \<and> (\<exists>t. parse_rfc3339 (TrimSpace (key_ExpiresAt newCfg)) = Some t \<and> now < t)
    \<and> map_of (cs_keys st') (key_KeyID newCfg) = Some key \<and> \<not> sk_expiresAt key > now2"
  using assms(6)
proof (cases rule: rotate_cases)
  case keep
  with assms(7) show ?thesis by simp
next
  case (rotate current' newCfg' idx fs1 priv pem key)
  with assms have same: "newCfg' = newCfg" "idx = Some i" by auto
  have "usable_expiry now (sk_id current) newCfg \<noteq> None"
    using assms(4) by (auto simp: nextCredentialSealKeyConfigLocked_def Let_def split: option.splits prod.splits dest!: best_key_Some)
  then have "\<exists>t. parse_rfc3339 (TrimSpace (key_ExpiresAt newCfg)) = Some t \<and> now < t"
    by (auto simp: usable_expiry_def split: if_splits option.splits)
  with rotate same assms(3,5) show ?thesis by (simp add: mustParseRFC3339_def gomap_simps)
qed

definition padded_cred :: "string credState" where
  "padded_cred = \<lparr>cs_configPath = [],
     cs_cfgKeys = [\<lparr>key_KeyID = ''k1'', key_PrivateKeyFile = ''a.key'', key_PublicKeyFile = ''a.pub'',
       key_ExpiresAt = ''2026-07-05T10:11:12Z'', key_Active = True\<rparr>,
       \<lparr>key_KeyID = ''k2'', key_PrivateKeyFile = ''b.key'', key_PublicKeyFile = ''b.pub'',
       key_ExpiresAt = '' 2027-07-05T10:11:12Z'', key_Active = False\<rparr>],
     cs_keys = [(''k1'', sample_key)], cs_current = Some sample_key\<rparr>"

theorem rotation_loses_padded_expiry_witness:
  "validate_keys (cs_cfgKeys padded_cred) [] 0 = Inr 1
   \<and> (\<exists>key. cs_current (fst (fst (rotateExpiredCredentialSealKeyLocked sample_cred_env (sample_expiry + 1) (padded_cred, [])))) = Some key
      \<and> sk_id key = ''k2'' \<and> sk_expiresAt key = 0)"
proof -
  let ?k2 = "cs_cfgKeys padded_cred ! 1"
  have v: "validate_keys (cs_cfgKeys padded_cred) [] 0 = Inr 1" by code_simp
  have n: "nextCredentialSealKeyConfigLocked (ce_tz sample_cred_env) (sample_expiry + 1) (cs_cfgKeys padded_cred) sample_key = Some (?k2, Some 1)"
    by code_simp
  have bad: "parse_rfc3339 (key_ExpiresAt ?k2) = None" by code_simp
  obtain st' fs' err where r: "rotateExpiredCredentialSealKeyLocked sample_cred_env (sample_expiry + 1) (padded_cred, []) = ((st', fs'), err)"
    by (metis prod.exhaust)
  have "cs_current st' \<noteq> cs_current padded_cred"
    using r n by (auto simp: rotateExpiredCredentialSealKeyLocked_def padded_cred_def sample_key_def sample_cred_env_def
        EnsureKeyFiles_def GenerateKeyPair_def sample_crypto_def no_faults_def ReadFile_def writeFileSecure_def MkdirAll_def
        WriteFile_def Let_def split: prod.splits)
  then have "st' \<noteq> padded_cred" by auto
  moreover have "cs_current padded_cred = Some sample_key" "sk_expiresAt sample_key \<le> sample_expiry + 1"
    by (simp_all add: padded_cred_def sample_key_def)
  ultimately have "\<exists>key. cs_current st' = Some key \<and> sk_id key = key_KeyID ?k2 \<and> sk_expiresAt key = 0"
    using rotation_loses_padded_expiry [OF _ _ order_refl n bad r] by blast
  with v r show ?thesis by (simp add: padded_cred_def)
qed

end
