(* ===== verification/Go_Errors.thy ===== *)
theory Go_Errors
  imports Go_Strings
begin

text \<open>
  \<open>err.Error()\<close> and \<open>fmt.Sprintf\<close> for the verbs the code uses: \<open>%s\<close>, \<open>%d\<close>, \<open>%v\<close>, \<open>%w\<close>, \<open>%q\<close>,
  and \<open>errors.Is\<close>. \<open>%q\<close> quotes as \<open>strconv.Quote\<close> does on ASCII text; bytes of a multi-byte
  character are kept, which is what \<open>Quote\<close> does with a printable character.
\<close>

definition hex2 :: "nat \<Rightarrow> string" where
  "hex2 n = [''0123456789abcdef'' ! (n div 16 mod 16), ''0123456789abcdef'' ! (n mod 16)]"

definition quote_char :: "char \<Rightarrow> string" where
  "quote_char c =
     (let n = byte_of c; bs = CHR 0x5C
      in if n = 0x22 \<or> n = 0x5C then [bs, c]
         else if n = 7 then [bs, CHR ''a''] else if n = 8 then [bs, CHR ''b'']
         else if n = 12 then [bs, CHR ''f''] else if n = 10 then [bs, CHR ''n'']
         else if n = 13 then [bs, CHR ''r''] else if n = 9 then [bs, CHR ''t'']
         else if n = 11 then [bs, CHR ''v'']
         else if n < 32 \<or> n = 127 then [bs, CHR ''x''] @ hex2 n
         else [c])"

definition Quote :: "string \<Rightarrow> string" where
  "Quote s = [CHR 0x22] @ concat (map quote_char s) @ [CHR 0x22]"

text \<open>The arguments are given as their texts.\<close>

fun render :: "string \<Rightarrow> string list \<Rightarrow> string" where
  "render (c # v # rest) (a # as) =
     (if c = CHR ''%''
      then (if v = CHR ''q'' then Quote a else a) @ render rest as
      else c # render (v # rest) (a # as))"
| "render s as = s"

primrec error_text :: "go_error \<Rightarrow> string" and arg_text :: "farg \<Rightarrow> string" where
  "error_text (Errorf f args) = render f (map arg_text args)"
| "error_text (Sentinel s) = s"
| "arg_text (FS s) = s"
| "arg_text (FI n) = Itoa n"
| "arg_text (FE e) = error_text e"

primrec errors_Is :: "go_error \<Rightarrow> go_error \<Rightarrow> bool" and arg_is :: "farg \<Rightarrow> go_error \<Rightarrow> bool" where
  "errors_Is (Errorf f args) target = (Errorf f args = target \<or> list_ex (\<lambda>b. b) (map (\<lambda>a. arg_is a target) args))"
| "errors_Is (Sentinel s) target = (Sentinel s = target)"
| "arg_is (FS s) target = False"
| "arg_is (FI n) target = False"
| "arg_is (FE e) target = errors_Is e target"

definition Sprintf :: "string \<Rightarrow> farg list \<Rightarrow> string" where
  "Sprintf f args = error_text (Errorf f args)"

section \<open>Searching text\<close>

lemma HasPrefix_set: "HasPrefix s p \<Longrightarrow> set p \<subseteq> set s"
  by (metis HasPrefix_def set_take_subset)

lemma ContainsStr_set: "ContainsStr s p \<Longrightarrow> set p \<subseteq> set s"
proof (induction s p rule: ContainsStr.induct)
  case (2 c s p)
  then show ?case using HasPrefix_set [of "c # s" p] by auto
qed simp

text \<open>The rest of a text after the first occurrence of a marker.\<close>

fun after_marker :: "string \<Rightarrow> string \<Rightarrow> string option" where
  "after_marker m [] = (if m = [] then Some [] else None)"
| "after_marker m (c # s) = (if HasPrefix (c # s) m then Some (drop (length m) (c # s)) else after_marker m s)"

definition space_byte :: "char \<Rightarrow> bool" where
  \<comment> \<open>the ASCII white space that \<open>strings.Fields\<close> splits at\<close>
  "space_byte c \<longleftrightarrow> byte_of c \<in> {9, 10, 11, 12, 13, 32}"

lemma fields_rest_shorter:
  assumes "dropWhile space_byte s \<noteq> []"
  shows "length (dropWhile (\<lambda>c. \<not> space_byte c) (dropWhile space_byte s)) < length s"
proof -
  from assms obtain c r where d: "dropWhile space_byte s = c # r" by (cases "dropWhile space_byte s") auto
  then have "\<not> space_byte c" by (metis dropWhile_eq_Cons_conv)
  then have "length (dropWhile (\<lambda>c. \<not> space_byte c) (c # r)) < length (c # r)"
    by (simp add: le_imp_less_Suc length_dropWhile_le)
  with d show ?thesis by (metis length_dropWhile_le order_less_le_trans)
qed

function Fields :: "string \<Rightarrow> string list" where
  "Fields s =
     (let s = dropWhile space_byte s
      in if s = [] then [] else takeWhile (\<lambda>c. \<not> space_byte c) s # Fields (dropWhile (\<lambda>c. \<not> space_byte c) s))"
  by pat_completeness auto
termination
  by (relation "measure length") (auto simp: fields_rest_shorter)

declare Fields.simps [simp del]

text \<open>\<open>strconv.ParseUint(s, 10, 32)\<close>.\<close>

definition ParseUint32 :: "string \<Rightarrow> int option" where
  "ParseUint32 s = (if s \<noteq> [] \<and> list_all is_digit s \<and> dec_int s < 2 ^ 32 then Some (dec_int s) else None)"

lemma ParseUint32_Itoa: "0 \<le> n \<Longrightarrow> n < 2 ^ 32 \<Longrightarrow> ParseUint32 (Itoa n) = Some n"
  using nat_digits_digits [of "nat n"] nat_digits_nonempty [of "nat n"]
  by (simp add: ParseUint32_def Itoa_def dec_int_def dec_val_nat_digits)

end
