(* ===== verification/Server_Logs.thy ===== *)
theory Server_Logs
  imports Protocol Go_Errors Go_Files Fail_Tracker Event_Ring
begin

text \<open>
  \<open>server/tunnel/event_logs.go\<close> and \<open>server/tunnel/runtime_events.go\<close>: the log records, the daily JSONL
  files, the texts of the log lines, and what is recorded of an event. The JSON encoder is a
  parameter (\<open>json\<close>); the clock is an argument.
\<close>

section \<open>Records\<close>

record requestLogEntry =
  rle_Time :: string
  rle_RequestID :: string
  rle_RemoteAddr :: string
  rle_RemoteIP :: string
  rle_LocalAddr :: string
  rle_Request :: openRequest
  rle_ReadError :: string
  rle_AuthResult :: string
  rle_Response :: openResponse
  rle_Result :: string
  rle_DurationMS :: int

record businessLogEntry =
  ble_Time :: string
  ble_StartedAt :: string
  ble_EndedAt :: string
  ble_RequestID :: string
  ble_Kind :: string
  ble_Result :: string
  ble_RemoteIP :: string
  ble_Username :: string
  ble_ClientID :: string
  ble_ForwardName :: string
  ble_Direction :: string
  ble_Target :: string
  ble_ListenAddr :: string
  ble_Code :: string
  ble_Message :: string
  ble_DurationMS :: int
  ble_BytesUp :: int
  ble_BytesDown :: int

record entryTrafficLogEntry =
  ete_Time :: string
  ete_RequestID :: string
  ete_Event :: string
  ete_Result :: string
  ete_RemoteAddr :: string
  ete_RemoteIP :: string
  ete_LocalAddr :: string
  ete_Code :: string
  ete_Message :: string
  ete_Abnormal :: bool
  ete_DurationMS :: int
  ete_Limit :: int
  ete_WindowSec :: int
  ete_PermanentBlockCreated :: bool

record flowTrafficLogEntry =
  fte_Time :: string
  fte_RequestID :: string
  fte_Event :: string
  fte_Kind :: string
  fte_Result :: string
  fte_RemoteIP :: string
  fte_Username :: string
  fte_ClientID :: string
  fte_ForwardName :: string
  fte_Direction :: string
  fte_Target :: string
  fte_ListenAddr :: string
  fte_Code :: string
  fte_Message :: string
  fte_Abnormal :: bool
  fte_DurationMS :: int
  fte_BytesUp :: int
  fte_BytesDown :: int
  fte_BytesTotal :: int
  fte_AverageBytesPerSec :: int
  fte_RateLimitBytesPerSec :: int
  fte_MaxConcurrentStreamsUser :: int

definition zero_entry :: entryTrafficLogEntry where
  "zero_entry = \<lparr>ete_Time = [], ete_RequestID = [], ete_Event = [], ete_Result = [], ete_RemoteAddr = [], ete_RemoteIP = [],
     ete_LocalAddr = [], ete_Code = [], ete_Message = [], ete_Abnormal = False, ete_DurationMS = 0, ete_Limit = 0,
     ete_WindowSec = 0, ete_PermanentBlockCreated = False\<rparr>"

definition zero_flow :: flowTrafficLogEntry where
  "zero_flow = \<lparr>fte_Time = [], fte_RequestID = [], fte_Event = [], fte_Kind = [], fte_Result = [], fte_RemoteIP = [],
     fte_Username = [], fte_ClientID = [], fte_ForwardName = [], fte_Direction = [], fte_Target = [], fte_ListenAddr = [],
     fte_Code = [], fte_Message = [], fte_Abnormal = False, fte_DurationMS = 0, fte_BytesUp = 0, fte_BytesDown = 0,
     fte_BytesTotal = 0, fte_AverageBytesPerSec = 0, fte_RateLimitBytesPerSec = 0, fte_MaxConcurrentStreamsUser = 0\<rparr>"

section \<open>Daily JSONL files\<close>

definition datedJSONLPath :: "string \<Rightarrow> string \<Rightarrow> string" where
  "datedJSONLPath basePath date =
     (let ext = ExtPath basePath; name = TrimSuffix (BasePath basePath) ext;
          ext = (if ext = [] then ''.jsonl'' else ext)
      in JoinPath [DirPath basePath, name @ ''-'' @ date @ ext])"

text \<open>An open file is the path it was opened at: appending to it appends to that file.\<close>

record jsonlLog =
  jl_basePath :: string
  jl_currentDate :: string
  jl_file :: "string option"

definition newJSONLLog :: "string \<Rightarrow> jsonlLog option" where
  "newJSONLLog basePath =
     (let basePath = TrimSpace basePath
      in if basePath = [] then None else Some \<lparr>jl_basePath = basePath, jl_currentDate = [], jl_file = None\<rparr>)"

text \<open>\<open>openFile\<close> is the outcome of \<open>os.OpenFile\<close> with \<open>O_CREATE\<close> and \<open>O_APPEND\<close>, which makes a missing file.\<close>

definition rotateLocked ::
    "os_env \<Rightarrow> (string \<Rightarrow> go_error option) \<Rightarrow> jsonlLog \<Rightarrow> files \<Rightarrow> string \<Rightarrow> jsonlLog \<times> files \<times> go_error option" where
  "rotateLocked env openFile l fs date =
     (let l = l\<lparr>jl_file := None\<rparr>; path = datedJSONLPath (jl_basePath l) date
      in case MkdirAll env (DirPath path) of Some err \<Rightarrow> (l, fs, Some err) | None \<Rightarrow>
         (case openFile path of
            Some err \<Rightarrow> (l, fs, Some err)
          | None \<Rightarrow> (l\<lparr>jl_file := Some path, jl_currentDate := date\<rparr>,
                     (case map_of fs path of None \<Rightarrow> AList.update path [] fs | Some d \<Rightarrow> fs), None)))"

definition log_WriteJSON ::
    "os_env \<Rightarrow> (string \<Rightarrow> go_error option) \<Rightarrow> string \<Rightarrow> jsonlLog option \<Rightarrow> files \<Rightarrow> string \<Rightarrow> jsonlLog option \<times> files \<times> go_error option" where
  "log_WriteJSON env openFile date l fs data =
     (case l of None \<Rightarrow> (None, fs, None) | Some l \<Rightarrow>
      if data = [] then (Some l, fs, Some (Errorf ''JSONL entry is empty'' []))
      else if CHR 0x0D \<in> set data \<or> CHR 0x0A \<in> set data
      then (Some l, fs, Some (Errorf ''JSONL entry contains a line break'' []))
      else (case (if jl_file l = None \<or> jl_currentDate l \<noteq> date then rotateLocked env openFile l fs date else (l, fs, None)) of
              (l, fs, Some err) \<Rightarrow> (Some l, fs, Some err)
            | (l, fs, None) \<Rightarrow>
               (case AppendFile env fs (the (jl_file l)) (data @ [CHR 0x0A]) of (fs, err) \<Rightarrow> (Some l, fs, err))))"

definition log_Close :: "jsonlLog option \<Rightarrow> jsonlLog option" where
  "log_Close l = map_option (\<lambda>l. l\<lparr>jl_file := None\<rparr>) l"

definition log_Write ::
    "('e \<Rightarrow> string res) \<Rightarrow> os_env \<Rightarrow> (string \<Rightarrow> go_error option) \<Rightarrow> string \<Rightarrow> jsonlLog option \<Rightarrow> files \<Rightarrow> 'e \<Rightarrow> jsonlLog option \<times> files \<times> go_error option" where
  "log_Write json env openFile date l fs entry =
     (case json entry of Inl err \<Rightarrow> (l, fs, Some err) | Inr data \<Rightarrow> log_WriteJSON env openFile date l fs data)"

section \<open>What is recorded\<close>

definition int_quot :: "int \<Rightarrow> int \<Rightarrow> int" where
  \<comment> \<open>Go's \<open>/\<close>, which rounds towards zero\<close>
  "int_quot a b = sgn a * sgn b * (\<bar>a\<bar> div \<bar>b\<bar>)"

definition averageBytesPerSec :: "int \<Rightarrow> int \<Rightarrow> int" where
  "averageBytesPerSec bytesTotal durationMS =
     (if bytesTotal \<le> 0 \<or> durationMS \<le> 0 then 0 else int_quot (int64 (bytesTotal * 1000)) durationMS)"

text \<open>The fields that \<open>recordFlowTrafficLog\<close> fills in before writing; the other logs fill in the time only.\<close>

definition complete_flow :: "string \<Rightarrow> securityConfig \<Rightarrow> flowTrafficLogEntry \<Rightarrow> flowTrafficLogEntry" where
  "complete_flow stamp sec e =
     (let e = (if fte_Time e = [] then e\<lparr>fte_Time := stamp\<rparr> else e);
          e = (if fte_BytesTotal e = 0 then e\<lparr>fte_BytesTotal := int64 (fte_BytesUp e + fte_BytesDown e)\<rparr> else e);
          e = (if fte_AverageBytesPerSec e = 0
               then e\<lparr>fte_AverageBytesPerSec := averageBytesPerSec (fte_BytesTotal e) (fte_DurationMS e)\<rparr> else e);
          e = (if fte_RateLimitBytesPerSec e = 0 then e\<lparr>fte_RateLimitBytesPerSec := sec_StreamRateLimitBytesPerSec sec\<rparr> else e)
      in if fte_MaxConcurrentStreamsUser e = 0 then e\<lparr>fte_MaxConcurrentStreamsUser := sec_MaxConcurrentStreamsPerUser sec\<rparr> else e)"

definition complete_request :: "string \<Rightarrow> requestLogEntry \<Rightarrow> requestLogEntry" where
  "complete_request stamp e = (if rle_Time e = [] then e\<lparr>rle_Time := stamp\<rparr> else e)"

definition complete_business :: "string \<Rightarrow> businessLogEntry \<Rightarrow> businessLogEntry" where
  "complete_business stamp e = (if ble_Time e = [] then e\<lparr>ble_Time := stamp\<rparr> else e)"

definition complete_entry :: "string \<Rightarrow> entryTrafficLogEntry \<Rightarrow> entryTrafficLogEntry" where
  "complete_entry stamp e = (if ete_Time e = [] then e\<lparr>ete_Time := stamp\<rparr> else e)"

definition complete_event :: "string \<Rightarrow> runtimeEvent \<Rightarrow> runtimeEvent" where
  "complete_event stamp ev = (if ev_Time ev = [] then ev\<lparr>ev_Time := stamp\<rparr> else ev)"

definition isBusinessRuntimeEvent :: "runtimeEvent \<Rightarrow> bool" where
  "isBusinessRuntimeEvent ev \<longleftrightarrow>
     ev_Kind ev \<in> {''auth'', ''login'', ''open'', ''reverse_listen'', ''reverse_stream'', ''reverse_inbound''}"

definition businessLogFromEvent :: "runtimeEvent \<Rightarrow> businessLogEntry option" where
  "businessLogFromEvent ev =
     (if \<not> isBusinessRuntimeEvent ev then None
      else Some \<lparr>ble_Time = ev_Time ev, ble_StartedAt = [], ble_EndedAt = [], ble_RequestID = ev_RequestID ev, ble_Kind = ev_Kind ev,
        ble_Result = ev_Result ev, ble_RemoteIP = ev_RemoteIP ev, ble_Username = ev_Username ev, ble_ClientID = ev_ClientID ev,
        ble_ForwardName = ev_ForwardName ev, ble_Direction = ev_Direction ev, ble_Target = ev_Target ev,
        ble_ListenAddr = ev_ListenAddr ev, ble_Code = ev_Code ev, ble_Message = ev_Message ev, ble_DurationMS = ev_DurationMS ev,
        ble_BytesUp = ev_BytesUp ev, ble_BytesDown = ev_BytesDown ev\<rparr>)"

definition nextRequestID :: "(time \<Rightarrow> int) \<Rightarrow> time \<Rightarrow> nat \<Rightarrow> nat \<times> string" where
  "nextRequestID tz now requestSeq =
     (let seq = Suc requestSeq in (seq, ''req-'' @ compact_text (tz now) now @ ''-'' @ pad 6 (int seq)))"

definition logValue :: "string \<Rightarrow> string" where
  "logValue v =
     (let v = TrimSpace v
      in if v = [] then ''-''
         else if \<exists>c \<in> set v. c = CHR '' '' \<or> c = CHR 0x09 \<or> c = CHR 0x0D \<or> c = CHR 0x0A then Quote v else v)"

text \<open>The line that \<open>recordEvent\<close> logs.\<close>

definition event_line :: "runtimeEvent \<Rightarrow> string" where
  "event_line ev = Sprintf ''event kind=%s result=%s remote_ip=%s user=%s client=%s forward=%s direction=%s target=%s listen=%s code=%s duration_ms=%d message=%s''
     [FS (logValue (ev_Kind ev)), FS (logValue (ev_Result ev)), FS (logValue (ev_RemoteIP ev)), FS (logValue (ev_Username ev)),
      FS (logValue (ev_ClientID ev)), FS (logValue (ev_ForwardName ev)), FS (logValue (ev_Direction ev)), FS (logValue (ev_Target ev)),
      FS (logValue (ev_ListenAddr ev)), FS (logValue (ev_Code ev)), FI (ev_DurationMS ev), FS (logValue (ev_Message ev))]"

section \<open>Requests that protect their address\<close>

definition isSuccessfulRequestForBlockProtection :: "requestLogEntry \<Rightarrow> bool" where
  "isSuccessfulRequestForBlockProtection e \<longleftrightarrow>
     rle_Result e = ''ok'' \<and> rle_AuthResult e = ''ok'' \<and> resp_OK (rle_Response e)
     \<and> canonicalSuccessfulIP (rle_RemoteIP e) \<noteq> None
     \<and> req_Type (rle_Request e) \<in> {''login'', ''health'', ''open'', ''forward_check'', ''reverse'', ''reverse_listen'', ''reverse_stream''}"


section \<open>A log line stays one line\<close>

definition no_break :: "string \<Rightarrow> bool" where
  "no_break s \<longleftrightarrow> CHR 0x0A \<notin> set s \<and> CHR 0x0D \<notin> set s"

lemma no_break_simps [simp]:
  "no_break []" "no_break (c # s) \<longleftrightarrow> c \<noteq> CHR 0x0A \<and> c \<noteq> CHR 0x0D \<and> no_break s"
  "no_break (s @ t) \<longleftrightarrow> no_break s \<and> no_break t"
  by (auto simp: no_break_def)

lemma hex2_no_break: "no_break (hex2 n)"
proof -
  have "list_all (\<lambda>i. no_break [''0123456789abcdef'' ! i]) [0..<16]" by code_simp
  then show ?thesis by (simp add: hex2_def list_all_iff)
qed

lemma quote_char_no_break: "no_break (quote_char c)"
proof -
  have "byte_of c \<noteq> 10 \<Longrightarrow> c \<noteq> CHR 0x0A" "byte_of c \<noteq> 13 \<Longrightarrow> c \<noteq> CHR 0x0D"
    by (auto simp: byte_of_def)
  then show ?thesis by (auto simp: quote_char_def Let_def hex2_no_break)
qed

lemma Quote_no_break: "no_break (Quote s)"
proof -
  have "no_break (concat (map quote_char s))" by (induction s) (simp_all add: quote_char_no_break)
  then show ?thesis by (simp add: Quote_def)
qed

lemma logValue_no_break: "no_break (logValue v)"
proof -
  have "no_break w" if "\<not> (\<exists>c \<in> set w. c = CHR '' '' \<or> c = CHR 0x09 \<or> c = CHR 0x0D \<or> c = CHR 0x0A)" for w
    using that unfolding no_break_def by blast
  then show ?thesis
    unfolding logValue_def Let_def if_split [of no_break]
    using Quote_no_break no_break_simps by blast
qed

lemma Itoa_no_break: "no_break (Itoa n)"
proof -
  have "no_break (nat_digits m)" for m
    using nat_digits_digits [of m] by (auto simp: no_break_def list_all_iff is_digit_def byte_of_def)
  then show ?thesis by (simp add: Itoa_def)
qed

lemma render_no_break: "no_break f \<Longrightarrow> list_all no_break as \<Longrightarrow> no_break (render f as)"
  by (induction f as rule: render.induct) (auto simp: Quote_no_break)

text \<open>The line logged for an event holds no line break, whatever user name, client name, address or message
  a client put into its request: no request can forge a second log line.\<close>

theorem event_line_is_one_line: "CHR 0x0A \<notin> set (event_line ev) \<and> CHR 0x0D \<notin> set (event_line ev)"
proof -
  have "no_break (event_line ev)"
    unfolding event_line_def Sprintf_def error_text.simps
    by (intro render_no_break) (simp_all add: logValue_no_break Itoa_no_break)
  then show ?thesis by (simp add: no_break_def)
qed

section \<open>Daily files\<close>

definition content :: "files \<Rightarrow> string \<Rightarrow> string" where
  "content fs p = (case map_of fs p of None \<Rightarrow> [] | Some d \<Rightarrow> d)"

lemma content_AppendFile:
  "AppendFile env fs q d = (fs', None) \<Longrightarrow> content fs' p = content fs p @ (if p = q then d else [])"
  by (auto simp: AppendFile_def content_def Let_def gomap_simps split: option.splits if_splits)

definition jsonl_ok :: "jsonlLog \<Rightarrow> bool" where
  "jsonl_ok l \<longleftrightarrow> (\<forall>p. jl_file l = Some p \<longrightarrow> p = datedJSONLPath (jl_basePath l) (jl_currentDate l))"

lemma newJSONLLog_ok: "newJSONLLog base = Some l \<Longrightarrow> jsonl_ok l"
  by (auto simp: newJSONLLog_def jsonl_ok_def Let_def split: if_splits)

lemma rotateLocked_ok:
  "rotateLocked env openFile l fs date = (l', fs', err) \<Longrightarrow>
   jsonl_ok l' \<and> jl_basePath l' = jl_basePath l
   \<and> (err = None \<longrightarrow> jl_file l' = Some (datedJSONLPath (jl_basePath l) date)
       \<and> (\<forall>p. content fs' p = content fs p))"
  by (auto simp: rotateLocked_def jsonl_ok_def content_def Let_def gomap_simps split: option.splits if_splits)

text \<open>A record written without error is one new line at the end of the file of the current date, also
  when the day has changed since the last record; no other file changes, and the line cannot
  contain a break.\<close>

theorem jsonl_appends_one_line:
  assumes "log_WriteJSON env openFile date (Some l) fs data = (Some l', fs', None)" and "jsonl_ok l"
  shows "jsonl_ok l' \<and> jl_basePath l' = jl_basePath l \<and> no_break data
    \<and> (\<forall>p. content fs' p =
         content fs p @ (if p = datedJSONLPath (jl_basePath l) date then data @ [CHR 0x0A] else []))"
proof -
  obtain l1 fs1 e1 where r: "(if jl_file l = None \<or> jl_currentDate l \<noteq> date then rotateLocked env openFile l fs date else (l, fs, None)) = (l1, fs1, e1)"
    by (metis prod.exhaust)
  from assms(1) r have data: "data \<noteq> []" "no_break data" and e1: "e1 = None" and l1: "l1 = l'"
    and app: "AppendFile env fs1 (the (jl_file l1)) (data @ [CHR 0x0A]) = (fs', None)"
    by (auto simp: log_WriteJSON_def no_break_def split: if_splits option.splits prod.splits)
  have l': "jsonl_ok l' \<and> jl_basePath l' = jl_basePath l \<and> jl_file l' = Some (datedJSONLPath (jl_basePath l) date)
      \<and> (\<forall>p. content fs1 p = content fs p)"
  proof (cases "jl_file l = None \<or> jl_currentDate l \<noteq> date")
    case True
    with r have "rotateLocked env openFile l fs date = (l1, fs1, e1)" by simp
    from rotateLocked_ok [OF this] e1 l1 show ?thesis by simp
  next
    case False
    with r l1 have "l' = l" "fs1 = fs" by auto
    with False assms(2) show ?thesis by (auto simp: jsonl_ok_def)
  qed
  have "content fs' p = content fs1 p
      @ (if p = datedJSONLPath (jl_basePath l) date then data @ [CHR 0x0A] else [])" for p
    using app l' l1 content_AppendFile by auto
  with l' data(2) show ?thesis by simp
qed

theorem jsonl_appends_one_line_witness:
  "\<exists>l' fs'. log_WriteJSON no_faults (\<lambda>p. None) ''2026-07-05''
      (Some \<lparr>jl_basePath = ''logs/r.jsonl'', jl_currentDate = ''2026-07-04'', jl_file = Some (datedJSONLPath ''logs/r.jsonl'' ''2026-07-04'')\<rparr>) [] ''{}''
      = (Some l', fs', None)
    \<and> content fs' (datedJSONLPath ''logs/r.jsonl'' ''2026-07-05'') = ''{}'' @ [CHR 0x0A]"
proof -
  let ?l = "\<lparr>jl_basePath = ''logs/r.jsonl'', jl_currentDate = ''2026-07-04'', jl_file = Some (datedJSONLPath ''logs/r.jsonl'' ''2026-07-04'')\<rparr>"
  have ok: "jsonl_ok ?l" by (simp add: jsonl_ok_def)
  obtain l' fs' where w: "log_WriteJSON no_faults (\<lambda>p. None) ''2026-07-05'' (Some ?l) [] ''{}'' = (Some l', fs', None)"
    by (simp add: log_WriteJSON_def rotateLocked_def AppendFile_def no_faults_def MkdirAll_def Let_def)
  from jsonl_appends_one_line [OF w ok] w show ?thesis by (auto simp: content_def)
qed

end
