(* ===== verification/Hit_Logs.thy ===== *)
theory Hit_Logs
  imports Server_Logs "HOL-Library.List_Lexorder" "HOL-Library.Char_ord"
begin

text \<open>
  \<open>server/tunnel/permanent_block_hit_logs.go\<close>: counting the connections of permanently blocked
  addresses and the summary entries written for them. The counts are \<open>int64\<close>. The order in which
  \<open>range\<close> visits the counts is the parameter \<open>rng\<close>.
\<close>

section \<open>The aggregator\<close>

definition defaultPermanentBlockHitLogInterval :: duration where
  "defaultPermanentBlockHitLogInterval = 10 * second"

record hitAggregator =
  ha_interval :: duration
  ha_hits :: "(string, int) gomap"

definition newPermanentBlockHitAggregator :: "duration \<Rightarrow> hitAggregator" where
  "newPermanentBlockHitAggregator interval =
     \<lparr>ha_interval = (if interval \<le> 0 then defaultPermanentBlockHitLogInterval else interval), ha_hits = []\<rparr>"

definition hits_of :: "(string, int) gomap \<Rightarrow> string \<Rightarrow> int" where
  "hits_of m ip = (case map_of m ip of None \<Rightarrow> 0 | Some n \<Rightarrow> n)"

definition Observe :: "hitAggregator option \<Rightarrow> string \<Rightarrow> hitAggregator option" where
  "Observe ao ip =
     (case ao of None \<Rightarrow> None
      | Some a \<Rightarrow> Some (if ip = [] then a
          else a\<lparr>ha_hits := AList.update ip (int64 (hits_of (ha_hits a) ip + 1)) (ha_hits a)\<rparr>))"

definition hits_Flush :: "hitAggregator option \<Rightarrow> hitAggregator option \<times> (string, int) gomap" where
  "hits_Flush ao =
     (case ao of None \<Rightarrow> (None, [])
      | Some a \<Rightarrow> if ha_hits a = [] then (Some a, []) else (Some (a\<lparr>ha_hits := []\<rparr>), ha_hits a))"

section \<open>The entries\<close>

definition permanentBlockedHitSummary :: "int \<Rightarrow> duration \<Rightarrow> string" where
  "permanentBlockedHitSummary n interval =
     (if n \<le> 1 then ''permanently blocked ip hit 1 time''
      else let secs = int_quot interval second; secs = (if secs \<le> 0 then 1 else secs)
           in Sprintf ''permanently blocked ip hit %d times in last %ds'' [FI n, FI secs])"

definition hit_entry :: "string \<Rightarrow> string \<Rightarrow> entryTrafficLogEntry" where
  "hit_entry ip message = zero_entry\<lparr>ete_Event := ''connection_rejected'', ete_Result := ''blocked'', ete_RemoteIP := ip,
     ete_Code := ''ip_permanently_blocked'', ete_Message := message, ete_Abnormal := True\<rparr>"

text \<open>What \<open>flushPermanentBlockHitLogs\<close> passes to \<open>recordEntryTrafficLog\<close>, in order. \<open>sort.Strings\<close> is \<open>sort\<close> with the
  byte-wise lexical order of the library.\<close>

definition flush_entries :: "((string \<times> int) list \<Rightarrow> (string \<times> int) list) \<Rightarrow> duration \<Rightarrow> (string, int) gomap \<Rightarrow> entryTrafficLogEntry list" where
  "flush_entries rng interval hits =
     (let ips = sort (map fst (rng hits))
      in List.map_filter (\<lambda>ip. let n = hits_of hits ip
           in if n \<le> 0 then None else Some (hit_entry ip (permanentBlockedHitSummary n interval))) ips)"

definition flushPermanentBlockHitLogs ::
    "((string \<times> int) list \<Rightarrow> (string \<times> int) list) \<Rightarrow> hitAggregator option \<Rightarrow> hitAggregator option \<times> entryTrafficLogEntry list" where
  "flushPermanentBlockHitLogs rng ao =
     (case hits_Flush ao of (ao, hits) \<Rightarrow>
      if hits = [] then (ao, [])
      else (ao, flush_entries rng (case ao of None \<Rightarrow> 0 | Some a \<Rightarrow> ha_interval a) hits))"

section \<open>Every hit is reported once\<close>

definition observe_all :: "string list \<Rightarrow> hitAggregator option \<Rightarrow> hitAggregator option" where
  "observe_all ips ao = fold (\<lambda>ip ao. Observe ao ip) ips ao"

lemma observe_all_hits:
  assumes "int (length ips) < 2 ^ 63"
  shows "\<exists>m. observe_all ips (Some (newPermanentBlockHitAggregator iv)) = Some ((newPermanentBlockHitAggregator iv)\<lparr>ha_hits := m\<rparr>)
    \<and> gmap_ok m \<and> (\<forall>ip. map_of m ip = (if ip \<noteq> [] \<and> ip \<in> set ips then Some (int (count_list ips ip)) else None))"
  using assms
proof (induction ips rule: rev_induct)
  case Nil
  show ?case by (rule exI [of _ "[]"]) (simp add: observe_all_def newPermanentBlockHitAggregator_def)
next
  case (snoc ip ips)
  then obtain m where m: "observe_all ips (Some (newPermanentBlockHitAggregator iv)) = Some ((newPermanentBlockHitAggregator iv)\<lparr>ha_hits := m\<rparr>)"
    "gmap_ok m" "\<forall>ip. map_of m ip = (if ip \<noteq> [] \<and> ip \<in> set ips then Some (int (count_list ips ip)) else None)" by auto
  show ?case
  proof (cases "ip = []")
    case True
    with m show ?thesis
      by (intro exI [of _ m]) (auto simp: observe_all_def Observe_def)
  next
    case False
    have "hits_of m ip = int (count_list ips ip)"
      using m(3) False count_notin [of ip ips] by (auto simp: hits_of_def)
    moreover have "count_list ips ip \<le> length ips" by (rule count_le_length)
    ultimately have "int64 (hits_of m ip + 1) = int (count_list (ips @ [ip]) ip)"
      using snoc.prems by (subst int64_id) auto
    then have "observe_all (ips @ [ip]) (Some (newPermanentBlockHitAggregator iv))
        = Some ((newPermanentBlockHitAggregator iv)\<lparr>ha_hits := AList.update ip (int (count_list (ips @ [ip]) ip)) m\<rparr>)"
      using m(1) False by (simp add: observe_all_def Observe_def)
    then show ?thesis using m(2,3) False
      by (intro exI [of _ "AList.update ip (int (count_list (ips @ [ip]) ip)) m"]) (auto simp: gomap_simps)
  qed
qed

lemma map_filter_Some: "(\<And>x. x \<in> set xs \<Longrightarrow> f x = Some (g x)) \<Longrightarrow> List.map_filter f xs = map g xs"
  by (induction xs) (simp_all add: List.map_filter_def)

lemma sort_range:
  assumes "perm_fn rng" and "gmap_ok m"
  shows "sort (map fst (rng m)) = sorted_list_of_set (dom (map_of m))"
proof -
  have m: "mset (map fst (rng m)) = mset (map fst m)" using assms(1) by (simp add: perm_fn_def)
  then have "distinct (map fst (rng m))" using assms(2) by (metis gmap_ok_def mset_eq_imp_distinct_iff)
  then have "sort (map fst (rng m)) = sorted_list_of_set (set (map fst (rng m)))"
    by (simp only: sorted_list_of_set_sort_remdups distinct_remdups_id)
  also have "set (map fst (rng m)) = dom (map_of m)" using m by (metis dom_map_of_conv_image_fst list.set_map set_mset_mset)
  finally show ?thesis .
qed

text \<open>A flush reports each permanently blocked address that was seen since the last one exactly once, in
  sorted order and with the number of its hits, whatever the order in which the map is visited; it
  leaves the aggregator as new.\<close>

theorem hits_reported_once:
  assumes "perm_fn rng" and "int (length ips) < 2 ^ 63"
  shows "flushPermanentBlockHitLogs rng (observe_all ips (Some (newPermanentBlockHitAggregator iv))) =
    (Some (newPermanentBlockHitAggregator iv),
     map (\<lambda>ip. hit_entry ip (permanentBlockedHitSummary (int (count_list ips ip))
                               (if iv \<le> 0 then defaultPermanentBlockHitLogInterval else iv)))
       (sorted_list_of_set (set ips - {[]})))"
proof -
  obtain m where m: "observe_all ips (Some (newPermanentBlockHitAggregator iv)) = Some ((newPermanentBlockHitAggregator iv)\<lparr>ha_hits := m\<rparr>)"
    "gmap_ok m" "\<forall>ip. map_of m ip = (if ip \<noteq> [] \<and> ip \<in> set ips then Some (int (count_list ips ip)) else None)"
    using observe_all_hits [OF assms(2)] by blast
  have keys: "sort (map fst (rng m)) = sorted_list_of_set (set ips - {[]})"
  proof -
    have "dom (map_of m) = set ips - {[]}" using m(3) by (auto split: if_splits)
    then show ?thesis using sort_range [OF assms(1) m(2)] by simp
  qed
  show ?thesis
  proof (cases "m = []")
    case True
    then have "set ips - {[]} = {}" using m(3) by (auto split: if_splits)
    then show ?thesis using m(1) True
      by (simp add: flushPermanentBlockHitLogs_def hits_Flush_def newPermanentBlockHitAggregator_def)
  next
    case False
    have "List.map_filter (\<lambda>ip. let n = hits_of m ip in if n \<le> 0 then None
              else Some (hit_entry ip (permanentBlockedHitSummary n j))) (sorted_list_of_set (set ips - {[]}))
        = map (\<lambda>ip. hit_entry ip (permanentBlockedHitSummary (int (count_list ips ip)) j)) (sorted_list_of_set (set ips - {[]}))" for j
    proof (rule map_filter_Some)
      fix ip assume "ip \<in> set (sorted_list_of_set (set ips - {[]}))"
      then have "ip \<noteq> []" "ip \<in> set ips" by auto
      moreover have "0 < count_list ips ip" using \<open>ip \<in> set ips\<close> count_list_0_iff [of ips ip] by simp
      ultimately show "(let n = hits_of m ip in if n \<le> 0 then None else Some (hit_entry ip (permanentBlockedHitSummary n j)))
          = Some (hit_entry ip (permanentBlockedHitSummary (int (count_list ips ip)) j))"
        using m(3) by (simp add: hits_of_def)
    qed
    then show ?thesis using m(1) False keys
      by (simp add: flushPermanentBlockHitLogs_def hits_Flush_def newPermanentBlockHitAggregator_def flush_entries_def Let_def)
  qed
qed

theorem hits_reported_once_witness:
  "flushPermanentBlockHitLogs rev (observe_all [''b'', ''a'', ''b''] (Some (newPermanentBlockHitAggregator 0))) =
    (Some (newPermanentBlockHitAggregator 0),
     [hit_entry ''a'' ''permanently blocked ip hit 1 time'',
      hit_entry ''b'' ''permanently blocked ip hit 2 times in last 10s''])"
proof -
  have s: "sorted_list_of_set (set [''b'', ''a'', ''b''] - {[]}) = [''a'', ''b'']"
    by (simp add: sorted_list_of_set_sort_remdups insert_Diff_if)
  have t: "permanentBlockedHitSummary 1 defaultPermanentBlockHitLogInterval = ''permanently blocked ip hit 1 time''"
    "permanentBlockedHitSummary 2 defaultPermanentBlockHitLogInterval = ''permanently blocked ip hit 2 times in last 10s''"
    by code_simp+
  have "int (length [''b'', ''a'', ''b'']) < 2 ^ 63" by simp
  from hits_reported_once [OF perm_fn_rev this, of 0] show ?thesis unfolding s by (simp add: t)
qed

end
