(* ===== verification/Entry_Writer.thy ===== *)
theory Entry_Writer
  imports Go_Prelude "HOL-Library.Word"
begin

text \<open>
  \<open>server/tunnel/entry_traffic_writer.go\<close>: the bounded queue between the paths that reject connections
  and the entry traffic log. \<open>Enqueue\<close> and the first part of \<open>Close\<close> hold the mutex, so each is one
  step; the goroutine \<open>run\<close> is a machine with a program counter, and every one of its channel
  operations and every write is a step of its own. \<open>'e\<close> is an entry and \<open>'w\<close> what the write function
  acts on.
\<close>

section \<open>State\<close>

text \<open>Where the goroutine is: at the outer \<open>select\<close>, in the loop after \<open>stop\<close>, about to write an entry it
  has taken (the flag says from which loop), or returned, with \<open>done\<close> closed.\<close>

datatype 'e writer_pc = Selecting | Draining | Writing 'e bool | Finished

record ('e, 'w) asyncLog =
  aw_capacity :: nat
  aw_queue :: "'e list"
  aw_closed :: bool
  aw_pc :: "'e writer_pc"
  aw_accepted :: "64 word"
  aw_written :: "64 word"
  aw_dropped :: "64 word"
  aw_sink :: 'w

record writerStats =
  ws_Capacity :: nat
  ws_Queued :: nat
  ws_Accepted :: "64 word"
  ws_Written :: "64 word"
  ws_Dropped :: "64 word"

definition newAsyncLog :: "int \<Rightarrow> 'w \<Rightarrow> ('e, 'w) asyncLog" where
  "newAsyncLog capacity sink =
     (let capacity = (if capacity \<le> 0 then 2048 else capacity)
      in \<lparr>aw_capacity = nat capacity, aw_queue = [], aw_closed = False, aw_pc = Selecting,
          aw_accepted = 0, aw_written = 0, aw_dropped = 0, aw_sink = sink\<rparr>)"

section \<open>Operations\<close>

definition has_room :: "('e, 'w) asyncLog \<Rightarrow> bool" where
  \<comment> \<open>a send on the buffered channel is ready\<close>
  "has_room w \<longleftrightarrow> length (aw_queue w) < aw_capacity w"

definition Enqueue :: "('e, 'w) asyncLog option \<Rightarrow> 'e \<Rightarrow> ('e, 'w) asyncLog option" where
  "Enqueue wo entry =
     (case wo of None \<Rightarrow> None
      | Some w \<Rightarrow> Some (if aw_closed w then w
          else if has_room w then w\<lparr>aw_queue := aw_queue w @ [entry], aw_accepted := aw_accepted w + 1\<rparr>
          else w\<lparr>aw_dropped := aw_dropped w + 1\<rparr>))"

text \<open>\<open>Close\<close> up to the wait for \<open>done\<close>: \<open>closed\<close> is set and the channel \<open>stop\<close> closed under one lock. The
  call returns when the goroutine is \<open>Finished\<close>.\<close>

definition writer_Close :: "('e, 'w) asyncLog option \<Rightarrow> ('e, 'w) asyncLog option" where
  "writer_Close wo = map_option (\<lambda>w. w\<lparr>aw_closed := True\<rparr>) wo"

definition writer_stats :: "('e, 'w) asyncLog option \<Rightarrow> writerStats" where
  "writer_stats wo =
     (case wo of None \<Rightarrow> \<lparr>ws_Capacity = 0, ws_Queued = 0, ws_Accepted = 0, ws_Written = 0, ws_Dropped = 0\<rparr>
      | Some w \<Rightarrow> \<lparr>ws_Capacity = aw_capacity w, ws_Queued = length (aw_queue w), ws_Accepted = aw_accepted w,
                   ws_Written = aw_written w, ws_Dropped = aw_dropped w\<rparr>)"

definition writeEntry :: "('e \<Rightarrow> 'w \<Rightarrow> 'w) option \<Rightarrow> 'e \<Rightarrow> ('e, 'w) asyncLog \<Rightarrow> ('e, 'w) asyncLog" where
  "writeEntry wr entry w =
     w\<lparr>aw_sink := (case wr of None \<Rightarrow> aw_sink w | Some f \<Rightarrow> f entry (aw_sink w)),
       aw_written := aw_written w + 1\<rparr>"

text \<open>The steps of \<open>run\<close>. A \<open>select\<close> with several ready cases takes any of them.\<close>

inductive writer_run_step :: "('e \<Rightarrow> 'w \<Rightarrow> 'w) option \<Rightarrow> ('e, 'w) asyncLog \<Rightarrow> ('e, 'w) asyncLog \<Rightarrow> bool"
  for wr where
  receive: "aw_pc w = Selecting \<Longrightarrow> aw_queue w = entry # rest \<Longrightarrow>
    writer_run_step wr w (w\<lparr>aw_queue := rest, aw_pc := Writing entry False\<rparr>)"
| stopped: "aw_pc w = Selecting \<Longrightarrow> aw_closed w \<Longrightarrow> writer_run_step wr w (w\<lparr>aw_pc := Draining\<rparr>)"
| drain: "aw_pc w = Draining \<Longrightarrow> aw_queue w = entry # rest \<Longrightarrow>
    writer_run_step wr w (w\<lparr>aw_queue := rest, aw_pc := Writing entry True\<rparr>)"
| drained: "aw_pc w = Draining \<Longrightarrow> aw_queue w = [] \<Longrightarrow> writer_run_step wr w (w\<lparr>aw_pc := Finished\<rparr>)"
| written: "aw_pc w = Writing entry draining \<Longrightarrow>
    writer_run_step wr w ((writeEntry wr entry w)\<lparr>aw_pc := if draining then Draining else Selecting\<rparr>)"

text \<open>All interleavings of the goroutine with the callers, from a new writer. The two added arguments
  record the entries accepted so far, in order, and how many were dropped.\<close>

inductive writer_reaches :: "('e \<Rightarrow> 'w \<Rightarrow> 'w) option \<Rightarrow> int \<Rightarrow> 'w \<Rightarrow> 'e list \<Rightarrow> nat \<Rightarrow> ('e, 'w) asyncLog \<Rightarrow> bool"
  for wr capacity sink where
  new: "writer_reaches wr capacity sink [] 0 (newAsyncLog capacity sink)"
| run: "writer_reaches wr capacity sink es d w \<Longrightarrow> writer_run_step wr w w' \<Longrightarrow>
    writer_reaches wr capacity sink es d w'"
| accept: "writer_reaches wr capacity sink es d w \<Longrightarrow> \<not> aw_closed w \<Longrightarrow> has_room w \<Longrightarrow>
    Enqueue (Some w) entry = Some w' \<Longrightarrow> writer_reaches wr capacity sink (es @ [entry]) d w'"
| drop: "writer_reaches wr capacity sink es d w \<Longrightarrow> \<not> aw_closed w \<Longrightarrow> \<not> has_room w \<Longrightarrow>
    Enqueue (Some w) entry = Some w' \<Longrightarrow> writer_reaches wr capacity sink es (Suc d) w'"
| late: "writer_reaches wr capacity sink es d w \<Longrightarrow> aw_closed w \<Longrightarrow>
    Enqueue (Some w) entry = Some w' \<Longrightarrow> writer_reaches wr capacity sink es d w'"
| close: "writer_reaches wr capacity sink es d w \<Longrightarrow> writer_Close (Some w) = Some w' \<Longrightarrow>
    writer_reaches wr capacity sink es d w'"

inductive_cases writer_run_stepE: "writer_run_step wr w w'"

section \<open>Nothing accepted is lost\<close>

text \<open>The entry the goroutine holds, and the writes made for a list of entries.\<close>

definition in_hand :: "('e, 'w) asyncLog \<Rightarrow> 'e list" where
  "in_hand w = (case aw_pc w of Writing entry _ \<Rightarrow> [entry] | _ \<Rightarrow> [])"

definition write_all :: "('e \<Rightarrow> 'w \<Rightarrow> 'w) option \<Rightarrow> 'e list \<Rightarrow> 'w \<Rightarrow> 'w" where
  "write_all wr es sink = (case wr of None \<Rightarrow> sink | Some f \<Rightarrow> fold f es sink)"

definition writer_inv :: "('e \<Rightarrow> 'w \<Rightarrow> 'w) option \<Rightarrow> int \<Rightarrow> 'w \<Rightarrow> 'e list \<Rightarrow> nat \<Rightarrow> ('e, 'w) asyncLog \<Rightarrow> bool" where
  "writer_inv wr capacity sink es d w \<longleftrightarrow>
     aw_capacity w = nat (if capacity \<le> 0 then 2048 else capacity) \<and> length (aw_queue w) \<le> aw_capacity w
     \<and> aw_accepted w = of_nat (length es) \<and> aw_dropped w = of_nat d
     \<and> (aw_pc w = Draining \<or> aw_pc w = Finished \<or> (\<exists>entry. aw_pc w = Writing entry True) \<longrightarrow> aw_closed w)
     \<and> (aw_pc w = Finished \<longrightarrow> aw_queue w = [])
     \<and> (\<exists>out. es = out @ in_hand w @ aw_queue w \<and> aw_written w = of_nat (length out)
             \<and> aw_sink w = write_all wr out sink)"

lemma write_all_snoc: "write_all wr (out @ [entry]) sink =
    (case wr of None \<Rightarrow> write_all wr out sink | Some f \<Rightarrow> f entry (write_all wr out sink))"
  by (simp add: write_all_def split: option.splits)

lemma writer_inv_run:
  assumes "writer_run_step wr w w'" and inv: "writer_inv wr capacity sink es d w"
  shows "writer_inv wr capacity sink es d w'"
  using assms(1)
proof (cases rule: writer_run_step.cases)
  case (written entry draining)
  from inv obtain out where "es = out @ in_hand w @ aw_queue w" "aw_written w = of_nat (length out)"
    "aw_sink w = write_all wr out sink" by (auto simp: writer_inv_def)
  then have "\<exists>out. es = out @ in_hand w' @ aw_queue w' \<and> aw_written w' = of_nat (length out) \<and> aw_sink w' = write_all wr out sink"
    using written by (intro exI [of _ "out @ [entry]"]) (auto simp: in_hand_def write_all_snoc writeEntry_def split: option.splits)
  moreover have "aw_capacity w' = aw_capacity w" "aw_queue w' = aw_queue w" "aw_accepted w' = aw_accepted w"
    "aw_dropped w' = aw_dropped w" "aw_closed w' = aw_closed w" "aw_pc w' = (if draining then Draining else Selecting)"
    using written by (simp_all add: writeEntry_def)
  ultimately show ?thesis using inv written(2) unfolding writer_inv_def by (cases draining) simp_all
qed (use inv in \<open>auto simp: writer_inv_def in_hand_def\<close>)

lemma writer_reaches_inv: "writer_reaches wr capacity sink es d w \<Longrightarrow> writer_inv wr capacity sink es d w"
proof (induction rule: writer_reaches.induct)
  case new
  show ?case by (simp add: writer_inv_def newAsyncLog_def in_hand_def write_all_def split: option.splits)
next
  case (run es d w w')
  from run.hyps(2) run.IH show ?case by (rule writer_inv_run)
qed (auto simp: writer_inv_def in_hand_def Enqueue_def writer_Close_def has_room_def split: writer_pc.splits)

section \<open>After Close the queue drains\<close>

text \<open>An upper bound on the steps the goroutine can still take without new entries.\<close>

definition writer_work :: "('e, 'w) asyncLog \<Rightarrow> nat" where
  "writer_work w = 2 * length (aw_queue w) +
     (case aw_pc w of Finished \<Rightarrow> 0 | Draining \<Rightarrow> 1 | Selecting \<Rightarrow> 2 | Writing _ draining \<Rightarrow> if draining then 2 else 3)"

lemma writer_work_decreases: "writer_run_step wr w w' \<Longrightarrow> Suc (writer_work w') \<le> writer_work w"
  by (erule writer_run_stepE) (auto simp: writer_work_def writeEntry_def)

lemma run_keeps_closed: "writer_run_step wr w w' \<Longrightarrow> aw_closed w' = aw_closed w"
  by (erule writer_run_stepE) (auto simp: writeEntry_def)

lemma closed_writer_moves:
  assumes "aw_closed w" and "aw_pc w \<noteq> Finished"
  shows "\<exists>w'. writer_run_step wr w w'"
proof (cases "aw_pc w")
  case Selecting
  then show ?thesis using assms(1) writer_run_step.stopped by blast
next
  case Draining
  then show ?thesis
    by (cases "aw_queue w") (blast intro: writer_run_step.drain writer_run_step.drained)+
next
  case (Writing entry draining)
  show ?thesis by (rule exI, rule writer_run_step.written [OF Writing])
qed (use assms in simp)

lemma run_steps:
  "(writer_run_step wr ^^ n) w w' \<Longrightarrow> writer_reaches wr capacity sink es d w \<Longrightarrow>
   n + writer_work w' \<le> writer_work w \<and> aw_closed w' = aw_closed w \<and> writer_reaches wr capacity sink es d w'"
proof (induction n arbitrary: w')
  case (Suc n)
  then obtain v where v: "(writer_run_step wr ^^ n) w v" "writer_run_step wr v w'" by auto
  from Suc.IH [OF v(1) Suc.prems(2)] writer_work_decreases [OF v(2)] run_keeps_closed [OF v(2)]
    writer_reaches.run [OF _ v(2)] show ?case by fastforce
qed simp

text \<open>C16. Whatever the interleaving of rejected connections, the writing goroutine and shutdown, the log
  has received exactly the accepted entries that are no longer queued or in the goroutine's hand, in
  the order they were accepted; the queue never exceeds its capacity, and the counters count.\<close>

theorem accepted_entries_written_in_order:
  assumes "writer_reaches wr capacity sink es d w"
  shows "\<exists>out. es = out @ in_hand w @ aw_queue w \<and> aw_sink w = write_all wr out sink
    \<and> aw_written w = of_nat (length out) \<and> aw_accepted w = of_nat (length es) \<and> aw_dropped w = of_nat d
    \<and> length (aw_queue w) \<le> aw_capacity w"
  using writer_reaches_inv [OF assms] by (auto simp: writer_inv_def)

text \<open>C30. Once the writer is closed, the goroutine comes to its end: it can take at most twice as many steps
  as entries are queued, and three more; when it can take no step it has finished, and then every
  accepted entry has been written, so \<open>Close\<close> returns with nothing lost.\<close>

theorem closed_writer_finishes:
  assumes "writer_reaches wr capacity sink es d w" and "aw_closed w" and "(writer_run_step wr ^^ n) w w'"
  shows "n \<le> 2 * length (aw_queue w) + 3
    \<and> ((\<exists>w''. writer_run_step wr w' w'')
       \<or> aw_pc w' = Finished \<and> aw_sink w' = write_all wr es sink \<and> aw_written w' = aw_accepted w')"
proof -
  have r: "n + writer_work w' \<le> writer_work w" "aw_closed w'" "writer_inv wr capacity sink es d w'"
    using run_steps [OF assms(3,1)] assms(2) writer_reaches_inv [of wr capacity sink es d w'] by simp_all
  have "writer_work w \<le> 2 * length (aw_queue w) + 3"
    by (simp add: writer_work_def split: writer_pc.split)
  moreover have "aw_sink w' = write_all wr es sink \<and> aw_written w' = aw_accepted w'" if "aw_pc w' = Finished"
    using r(3) that by (auto simp: writer_inv_def in_hand_def)
  ultimately show ?thesis using r(1) closed_writer_moves [OF r(2)] by auto
qed

text \<open>A writer of capacity one that has accepted ''a'', dropped ''b'' and been closed; the log is a list.\<close>

definition sample_writer :: "(string, string list) asyncLog" where
  "sample_writer = \<lparr>aw_capacity = 1, aw_queue = [''a''], aw_closed = True, aw_pc = Selecting,
     aw_accepted = 1, aw_written = 0, aw_dropped = 1, aw_sink = []\<rparr>"

lemma sample_writer_reaches: "writer_reaches (Some (\<lambda>e out. out @ [e])) 1 [] [''a''] 1 sample_writer"
proof -
  let ?f = "Some (\<lambda>e out. out @ [e])"
  have 1: "writer_reaches ?f 1 [] [] 0 (newAsyncLog 1 [])" by (rule writer_reaches.new)
  have 2: "writer_reaches ?f 1 [] ([] @ [''a'']) 0 ((newAsyncLog 1 [])\<lparr>aw_queue := [''a''], aw_accepted := 1\<rparr>)"
    by (rule writer_reaches.accept [OF 1]) (simp_all add: newAsyncLog_def has_room_def Enqueue_def)
  have 3: "writer_reaches ?f 1 [] ([] @ [''a'']) (Suc 0)
      ((newAsyncLog 1 [])\<lparr>aw_queue := [''a''], aw_accepted := 1, aw_dropped := 1\<rparr>)"
    by (rule writer_reaches.drop [OF 2, of "''b''"]) (simp_all add: newAsyncLog_def has_room_def Enqueue_def)
  have "writer_reaches ?f 1 [] ([] @ [''a'']) (Suc 0) sample_writer"
    by (rule writer_reaches.close [OF 3]) (simp add: newAsyncLog_def writer_Close_def sample_writer_def)
  then show ?thesis by simp
qed

theorem accepted_entries_written_in_order_witness:
  "\<exists>out. [''a''] = out @ in_hand sample_writer @ aw_queue sample_writer \<and> aw_dropped sample_writer = of_nat 1"
  using accepted_entries_written_in_order [OF sample_writer_reaches] by auto

theorem closed_writer_finishes_witness:
  "(\<exists>w''. writer_run_step (Some (\<lambda>e out. out @ [e])) (sample_writer\<lparr>aw_pc := Draining\<rparr>) w'')
   \<or> aw_sink (sample_writer\<lparr>aw_pc := Draining\<rparr>) = [''a'']"
proof -
  have s: "writer_run_step (Some (\<lambda>e out. out @ [e])) sample_writer (sample_writer\<lparr>aw_pc := Draining\<rparr>)"
    by (rule writer_run_step.stopped) (simp_all add: sample_writer_def)
  have "(writer_run_step (Some (\<lambda>e out. out @ [e])) ^^ 1) sample_writer (sample_writer\<lparr>aw_pc := Draining\<rparr>)"
    using s by (simp add: eq_OO)
  from closed_writer_finishes [OF sample_writer_reaches _ this] show ?thesis
    by (simp add: sample_writer_def write_all_def)
qed

end
