(* ===== verification/Entry_Security.thy ===== *)
theory Entry_Security
  imports Server_Logs Certificate_Gate
begin

text \<open>
  \<open>server/tunnel/entry_security.go\<close> and the rejection counters of \<open>server/tunnel/maintenance.go\<close>:
  what kind of a probe a failed handshake was, the connection that remembers its first bytes, and
  the counters. A code is the text of its constant. A counter is an \<open>atomic.Int64\<close>: 64 bits that
  wrap.
\<close>

section \<open>Codes\<close>

definition entryCodeHTTPProbe :: string where "entryCodeHTTPProbe = ''http_probe''"
definition entryCodeNonTLSProbe :: string where "entryCodeNonTLSProbe = ''non_tls_probe''"
definition entryCodeUnsupportedTLS :: string where "entryCodeUnsupportedTLS = ''unsupported_tls_version''"
definition entryCodeSlowHandshake :: string where "entryCodeSlowHandshake = ''slow_handshake''"
definition entryCodeClosedHandshake :: string where "entryCodeClosedHandshake = ''handshake_closed''"
definition entryCodeOversizedHandshake :: string where "entryCodeOversizedHandshake = ''oversized_tunnel_handshake''"
definition entryCodeUnsupportedRequest :: string where "entryCodeUnsupportedRequest = ''unsupported_tunnel_request''"
definition entryCodeInvalidHandshake :: string where "entryCodeInvalidHandshake = ''invalid_tunnel_handshake''"

lemmas entry_code_defs = entryCodeHTTPProbe_def entryCodeNonTLSProbe_def entryCodeUnsupportedTLS_def
  entryCodeSlowHandshake_def entryCodeClosedHandshake_def entryCodeOversizedHandshake_def
  entryCodeUnsupportedRequest_def entryCodeInvalidHandshake_def

section \<open>Classification\<close>

text \<open>\<open>strings.ToUpper\<close>, as far as a comparison with ASCII text can tell: besides the ASCII letters, only the
  dotless i (C4 B1) and the long s (C5 BF) have an upper case in ASCII; other bytes are kept.\<close>

fun upper_text :: "string \<Rightarrow> string" where
  "upper_text (c # d # s) =
     (if c = CHR 0xC4 \<and> d = CHR 0xB1 then CHR ''I'' # upper_text s
      else if c = CHR 0xC5 \<and> d = CHR 0xBF then CHR ''S'' # upper_text s
      else upper_char c # upper_text (d # s))"
| "upper_text s = map upper_char s"

definition http_methods :: "string list" where
  \<comment> \<open>the four-byte tokens both HTTP checks list\<close>
  "http_methods = [''GET '', ''POST'', ''HEAD'', ''PUT '', ''DELE'', ''OPTI'', ''CONN'', ''TRAC'', ''PATC'', ''PROP'']"

definition too_large_marker :: string where
  "too_large_marker = ''handshake too large:''"

definition oversizedHandshakeHTTPMethod :: "string \<Rightarrow> string" where
  "oversizedHandshakeHTTPMethod s =
     (case after_marker too_large_marker s of
        None \<Rightarrow> []
      | Some r \<Rightarrow>
         (case Fields (TrimSpace r) of
            [] \<Rightarrow> []
          | field # _ \<Rightarrow>
             (case ParseUint32 field of
                None \<Rightarrow> []
              | Some n \<Rightarrow> (let token = upper_text (PutUint32 (word_of_int n))
                          in if token \<in> set http_methods then TrimSpace token else []))))"

definition entryHTTPMethodFromPrefix :: "string \<Rightarrow> string" where
  "entryHTTPMethodFromPrefix prefix =
     (if prefix = [] then []
      else let token = upper_text prefix
           in case find (\<lambda>m. HasPrefix token m) http_methods of None \<Rightarrow> [] | Some m \<Rightarrow> TrimSpace m)"

definition entryLooksLikeTLSHandshake :: "string \<Rightarrow> bool" where
  "entryLooksLikeTLSHandshake prefix \<longleftrightarrow> prefix \<noteq> [] \<and> hd prefix = CHR 0x16"

definition classifyEntryReadError :: "go_error option \<Rightarrow> string" where
  "classifyEntryReadError err =
     (case err of
        None \<Rightarrow> entryCodeInvalidHandshake
      | Some err \<Rightarrow>
         (let s = error_text err
          in if ContainsStr s ''client sent an HTTP request to an HTTPS server'' then entryCodeHTTPProbe
             else if ContainsStr s ''first record does not look like a TLS handshake'' then entryCodeNonTLSProbe
             else if ContainsStr s ''client offered only unsupported versions'' then entryCodeUnsupportedTLS
             else if ContainsStr s too_large_marker
             then (if oversizedHandshakeHTTPMethod s \<noteq> [] then entryCodeHTTPProbe else entryCodeOversizedHandshake)
             else if ContainsStr s ''i/o timeout'' then entryCodeSlowHandshake
             else if ContainsStr s ''forcibly closed'' \<or> ContainsStr s ''EOF'' then entryCodeClosedHandshake
             else entryCodeInvalidHandshake))"

definition classifyEntryHandshakeError :: "go_error option \<Rightarrow> string \<Rightarrow> string" where
  "classifyEntryHandshakeError err prefix =
     (if entryHTTPMethodFromPrefix prefix \<noteq> [] then entryCodeHTTPProbe
      else case err of
        None \<Rightarrow> entryCodeInvalidHandshake
      | Some err \<Rightarrow>
         (let s = error_text err
          in if ContainsStr s ''client sent an HTTP request to an HTTPS server'' then entryCodeHTTPProbe
             else if ContainsStr s ''first record does not look like a TLS handshake'' then entryCodeNonTLSProbe
             else if ContainsStr s ''client offered only unsupported versions'' then entryCodeUnsupportedTLS
             else if ContainsStr s ''i/o timeout'' then entryCodeSlowHandshake
             else if ContainsStr s ''forcibly closed'' \<or> ContainsStr s ''EOF'' then entryCodeClosedHandshake
             else if prefix \<noteq> [] \<and> \<not> entryLooksLikeTLSHandshake prefix then entryCodeNonTLSProbe
             else entryCodeInvalidHandshake))"

definition classifyEntryCertificateGateError :: "go_error option \<Rightarrow> string \<Rightarrow> string" where
  "classifyEntryCertificateGateError err prefix =
     (if entryHTTPMethodFromPrefix prefix \<noteq> [] then entryCodeHTTPProbe
      else case err of
        None \<Rightarrow> classifyEntryHandshakeError err prefix
      | Some e \<Rightarrow>
          if errors_Is e ErrCertificateGateProtocol \<or> errors_Is e ErrCertificateGateProof then entryCodeInvalidHandshake
          else classifyEntryHandshakeError err prefix)"

section \<open>The connection that remembers its first bytes\<close>

text \<open>The bytes still to arrive, and the prefix. \<open>Read\<close> hands out up to \<open>k\<close> of the next bytes; how many
  of them arrive is the connection's choice \<open>got\<close>, and so is the error.\<close>

record entryPeekConn =
  pc_input :: string
  pc_prefix :: string

definition peek_Read :: "nat \<Rightarrow> nat \<Rightarrow> go_error option \<Rightarrow> entryPeekConn \<Rightarrow> entryPeekConn \<times> string \<times> go_error option" where
  "peek_Read k got err c =
     (let p = take (min k got) (pc_input c); n = length p;
          prefix = (if n > 0 \<and> length (pc_prefix c) < 16
                    then let limit = 16 - length (pc_prefix c); limit = (if n < limit then n else limit)
                         in pc_prefix c @ take limit p
                    else pc_prefix c)
      in (c\<lparr>pc_input := drop n (pc_input c), pc_prefix := prefix\<rparr>, p, err))"

definition peek_Prefix :: "entryPeekConn option \<Rightarrow> string" where
  "peek_Prefix co = (case co of None \<Rightarrow> [] | Some c \<Rightarrow> pc_prefix c)"

definition peek_ResetPrefix :: "entryPeekConn option \<Rightarrow> entryPeekConn option" where
  "peek_ResetPrefix co = map_option (\<lambda>c. c\<lparr>pc_prefix := []\<rparr>) co"

section \<open>Counters\<close>

record entryCounters =
  ec_protocolRejected :: "64 word"
  ec_httpProbe :: "64 word"
  ec_nonTLS :: "64 word"
  ec_unsupportedTLS :: "64 word"
  ec_slowHandshake :: "64 word"
  ec_closedHandshake :: "64 word"
  ec_oversizedHandshake :: "64 word"
  ec_unsupportedRequest :: "64 word"
  ec_invalidHandshake :: "64 word"
  ec_permanentBlocksCreated :: "64 word"
  ec_permanentBlockHits :: "64 word"

record rejectCounters =
  rc_rejected :: "64 word"
  rc_global :: "64 word"
  rc_perIPActive :: "64 word"
  rc_perIPNewRate :: "64 word"
  rc_ipCapacity :: "64 word"

definition zero_entry_counters :: entryCounters where
  "zero_entry_counters = \<lparr>ec_protocolRejected = 0, ec_httpProbe = 0, ec_nonTLS = 0, ec_unsupportedTLS = 0, ec_slowHandshake = 0,
     ec_closedHandshake = 0, ec_oversizedHandshake = 0, ec_unsupportedRequest = 0, ec_invalidHandshake = 0,
     ec_permanentBlocksCreated = 0, ec_permanentBlockHits = 0\<rparr>"

definition countEntryProtocolRejected :: "string \<Rightarrow> entryCounters \<Rightarrow> entryCounters" where
  "countEntryProtocolRejected code s =
     (let s = s\<lparr>ec_protocolRejected := ec_protocolRejected s + 1\<rparr>
      in if code = entryCodeHTTPProbe then s\<lparr>ec_httpProbe := ec_httpProbe s + 1\<rparr>
         else if code = entryCodeNonTLSProbe then s\<lparr>ec_nonTLS := ec_nonTLS s + 1\<rparr>
         else if code = entryCodeUnsupportedTLS then s\<lparr>ec_unsupportedTLS := ec_unsupportedTLS s + 1\<rparr>
         else if code = entryCodeSlowHandshake then s\<lparr>ec_slowHandshake := ec_slowHandshake s + 1\<rparr>
         else if code = entryCodeClosedHandshake then s\<lparr>ec_closedHandshake := ec_closedHandshake s + 1\<rparr>
         else if code = entryCodeOversizedHandshake then s\<lparr>ec_oversizedHandshake := ec_oversizedHandshake s + 1\<rparr>
         else if code = entryCodeUnsupportedRequest then s\<lparr>ec_unsupportedRequest := ec_unsupportedRequest s + 1\<rparr>
         else s\<lparr>ec_invalidHandshake := ec_invalidHandshake s + 1\<rparr>)"

definition countEntryPermanentBlockCreated :: "entryCounters \<Rightarrow> entryCounters" where
  "countEntryPermanentBlockCreated s = s\<lparr>ec_permanentBlocksCreated := ec_permanentBlocksCreated s + 1\<rparr>"

definition countEntryPermanentBlockHit :: "entryCounters \<Rightarrow> entryCounters" where
  "countEntryPermanentBlockHit s = s\<lparr>ec_permanentBlockHits := ec_permanentBlockHits s + 1\<rparr>"

definition recordConnectionRejected :: "string \<Rightarrow> rejectCounters \<Rightarrow> rejectCounters" where
  "recordConnectionRejected reason s =
     (let s = s\<lparr>rc_rejected := rc_rejected s + 1\<rparr>
      in if reason = ''global_concurrent_connections'' then s\<lparr>rc_global := rc_global s + 1\<rparr>
         else if reason = ''per_ip_concurrent_connections'' then s\<lparr>rc_perIPActive := rc_perIPActive s + 1\<rparr>
         else if reason = ''per_ip_new_connection_rate'' then s\<lparr>rc_perIPNewRate := rc_perIPNewRate s + 1\<rparr>
         else if reason = ''tracked_remote_ip_capacity'' then s\<lparr>rc_ipCapacity := rc_ipCapacity s + 1\<rparr>
         else s)"

definition connectionRejectLimit :: "securityConfig \<Rightarrow> string \<Rightarrow> int \<times> int" where
  "connectionRejectLimit sec reason =
     (if reason = ''global_concurrent_connections'' then (sec_MaxConcurrentConnections sec, 0)
      else if reason = ''per_ip_concurrent_connections'' then (sec_MaxConcurrentConnectionsPerIP sec, 0)
      else if reason = ''per_ip_new_connection_rate''
      then (sec_MaxNewConnectionsPerIPWindow sec, sec_ConnectionRateWindowSec sec)
      else if reason = ''tracked_remote_ip_capacity'' then (sec_MaxTrackedConnectionIPs sec, 0)
      else (0, 0))"

section \<open>HTTP probes\<close>

lemma upper_text_ascii:
  "list_all (\<lambda>c. c \<noteq> CHR 0xC4 \<and> c \<noteq> CHR 0xC5) s \<Longrightarrow> upper_text (s @ r) = map upper_char s @ upper_text r"
proof (induction s)
  case (Cons c s)
  then show ?case by (cases "s @ r") auto
qed simp

lemma upper_char_kept: "128 \<le> byte_of c \<Longrightarrow> upper_char c = c"
  by (simp add: upper_char_def)

lemma methods_ascii: "list_all (\<lambda>m. list_all (\<lambda>c. byte_of c < 128) m \<and> length m = 4 \<and> 67 \<le> byte_of (hd m)) http_methods"
  by code_simp

lemma methods_trimmed: "list_all (\<lambda>m. TrimSpace m \<noteq> []) http_methods"
  by code_simp

lemma method_token:
  assumes "map upper_char s \<in> set http_methods"
  shows "length s = 4" "list_all (\<lambda>c. c \<noteq> CHR 0xC4 \<and> c \<noteq> CHR 0xC5) s" "67 \<le> byte_of (hd s)"
    "TrimSpace (map upper_char s) \<noteq> []" "upper_text (s @ r) = map upper_char s @ upper_text r"
proof -
  have m: "list_all (\<lambda>c. byte_of c < 128) (map upper_char s)" "length (map upper_char s) = 4" "67 \<le> byte_of (hd (map upper_char s))"
    using methods_ascii assms by (auto simp: list_all_iff)
  then show l: "length s = 4" by simp
  have hi: "byte_of (CHR 0xC4) = 196" "byte_of (CHR 0xC5) = 197" by code_simp+
  have "c \<noteq> CHR 0xC4 \<and> c \<noteq> CHR 0xC5" if "c \<in> set s" for c
  proof -
    have "byte_of (upper_char c) < 128" using m(1) that by (simp add: list_all_iff)
    then show ?thesis using upper_char_kept [of c] hi by auto
  qed
  then show a: "list_all (\<lambda>c. c \<noteq> CHR 0xC4 \<and> c \<noteq> CHR 0xC5) s" by (simp add: list_all_iff)
  have "s \<noteq> []" using l by auto
  then have "67 \<le> byte_of (upper_char (hd s))" using m(3) by (simp add: hd_map)
  then show "67 \<le> byte_of (hd s)" by (auto simp: upper_char_def split: if_splits)
  show "TrimSpace (map upper_char s) \<noteq> []" using methods_trimmed assms by (auto simp: list_all_iff)
  show "upper_text (s @ r) = map upper_char s @ upper_text r" by (rule upper_text_ascii [OF a])
qed

lemma prefix_method:
  assumes "map upper_char s \<in> set http_methods"
  shows "entryHTTPMethodFromPrefix (s @ r) \<noteq> []"
proof -
  have "HasPrefix (upper_text (s @ r)) (map upper_char s)"
    using method_token(5) [OF assms, of r] by (simp add: HasPrefix_def)
  then obtain m where "find (\<lambda>m. HasPrefix (upper_text (s @ r)) m) http_methods = Some m" "m \<in> set http_methods"
    using assms by (metis (no_types, lifting) find_None_iff find_Some_iff nth_mem option.exhaust)
  moreover have "s @ r \<noteq> []" using method_token(1) [OF assms] by auto
  ultimately show ?thesis
    using methods_trimmed by (auto simp: entryHTTPMethodFromPrefix_def Let_def list_all_iff)
qed

lemma TrimSpace_space: "TrimSpace (CHR '' '' # s) = TrimSpace s"
proof -
  have "find (\<lambda>q. q \<noteq> [] \<and> HasPrefix (CHR '' '' # s) q) space_seqs = Some '' ''"
    by (simp add: space_seqs_def HasPrefix_def)
  then have "strip_seqs space_seqs (CHR '' '' # s) = strip_seqs space_seqs s"
    by (simp add: strip_seqs.simps [of space_seqs "CHR '' '' # s"])
  then show ?thesis by (simp add: TrimSpace_def)
qed

lemma Itoa_digits: "0 \<le> n \<Longrightarrow> list_all is_digit (Itoa n) \<and> Itoa n \<noteq> []"
  using nat_digits_digits [of "nat n"] nat_digits_nonempty [of "nat n"] by (simp add: Itoa_def)

text \<open>The text of the error for an oversized message, and the number read back from it.\<close>

definition too_large_text :: "int \<Rightarrow> string" where
  "too_large_text n = ''handshake too large: '' @ Itoa n @ '' bytes''"

lemma error_text_too_large: "error_text (Errorf ''handshake too large: %d bytes'' [FI n]) = too_large_text n"
  by (simp add: too_large_text_def)

lemma first_field:
  assumes "0 \<le> n"
  shows "Fields (TrimSpace ('' '' @ Itoa n @ '' bytes'')) \<noteq> [] \<and> hd (Fields (TrimSpace ('' '' @ Itoa n @ '' bytes''))) = Itoa n"
proof -
  let ?s = "Itoa n @ '' bytes''"
  have d: "list_all is_digit (Itoa n)" "Itoa n \<noteq> []" using Itoa_digits [OF assms] by auto
  then obtain c cs where c: "Itoa n = c # cs" by (cases "Itoa n") auto
  have nospace: "is_digit x \<Longrightarrow> \<not> space_byte x" for x by (auto simp: is_digit_def space_byte_def)
  have "visible c" using d c by (auto simp: is_digit_def visible_def)
  moreover have "visible (CHR ''s'')" by code_simp
  ultimately have t: "TrimSpace ('' '' @ ?s) = ?s"
    using TrimSpace_space [of ?s] TrimSpace_visible [of ?s] c by simp
  have sp: "space_byte (CHR '' '')" by code_simp
  have "dropWhile space_byte ?s = ?s" using d c nospace by auto
  moreover have "takeWhile (\<lambda>x. \<not> space_byte x) ?s = Itoa n"
    using d(1) nospace sp by (subst takeWhile_append2) (auto simp: list_all_iff)
  ultimately have "Fields ?s \<noteq> [] \<and> hd (Fields ?s) = Itoa n"
    using c by (subst (1 2) Fields.simps) (simp add: Let_def)
  then show ?thesis unfolding t .
qed

lemma too_large_lacks:
  assumes "0 \<le> n" and "c \<in> set p" and "\<not> is_digit c" and "c \<notin> set ''handshake too large:  bytes''"
  shows "\<not> ContainsStr (too_large_text n) p"
proof
  assume "ContainsStr (too_large_text n) p"
  then have "c \<in> set (too_large_text n)" using ContainsStr_set assms(2) by blast
  moreover have "c \<notin> set (Itoa n)" using Itoa_digits [OF assms(1)] assms(3) by (auto simp: list_all_iff)
  ultimately show False using assms(4) by (auto simp: too_large_text_def)
qed

lemma too_large_code:
  assumes "0 \<le> n"
  shows "classifyEntryReadError (Some (Errorf ''handshake too large: %d bytes'' [FI n])) =
    (if oversizedHandshakeHTTPMethod (too_large_text n) \<noteq> [] then entryCodeHTTPProbe else entryCodeOversizedHandshake)"
proof -
  have "\<not> is_digit (CHR ''c'')" "\<not> is_digit (CHR ''f'')" by code_simp+
  then have "\<not> ContainsStr (too_large_text n) ''client sent an HTTP request to an HTTPS server''"
    "\<not> ContainsStr (too_large_text n) ''client offered only unsupported versions''"
    "\<not> ContainsStr (too_large_text n) ''first record does not look like a TLS handshake''"
    by (simp_all add: too_large_lacks [OF assms, of "CHR ''c''"] too_large_lacks [OF assms, of "CHR ''f''"])
  moreover have "ContainsStr (too_large_text n) too_large_marker"
    by (simp add: too_large_text_def too_large_marker_def HasPrefix_def)
  ultimately show ?thesis by (simp only: classifyEntryReadError_def Let_def error_text_too_large option.case if_False if_True)
qed

lemma oversized_method:
  assumes "length h = 4"
  shows "oversizedHandshakeHTTPMethod (too_large_text (uint (Uint32 h))) =
    (if upper_text h \<in> set http_methods then TrimSpace (upper_text h) else [])"
proof -
  let ?n = "uint (Uint32 h)"
  have n: "0 \<le> ?n" "?n < 2 ^ 32" using uint_lt2p [of "Uint32 h"] by auto
  have m: "after_marker too_large_marker (too_large_text ?n) = Some ('' '' @ Itoa ?n @ '' bytes'')"
    by (simp add: too_large_text_def too_large_marker_def HasPrefix_def)
  obtain rest where f: "Fields (TrimSpace ('' '' @ Itoa ?n @ '' bytes'')) = Itoa ?n # rest"
    using first_field [OF n(1)] by (metis list.exhaust_sel)
  show ?thesis
    unfolding oversizedHandshakeHTTPMethod_def m option.case f list.case ParseUint32_Itoa [OF n] Let_def
    by (simp add: PutUint32_Uint32 [OF assms])
qed

text \<open>Reading in pieces: each read has a buffer size, a number of bytes that arrive, and an error.\<close>

fun peek_reads :: "(nat \<times> nat \<times> go_error option) list \<Rightarrow> entryPeekConn \<Rightarrow> entryPeekConn \<times> string" where
  "peek_reads [] c = (c, [])"
| "peek_reads ((k, got, err) # rs) c =
     (case peek_Read k got err c of (c, p, _) \<Rightarrow> (case peek_reads rs c of (c, out) \<Rightarrow> (c, p @ out)))"

lemma take_take_append: "take n (take n u @ v) = take n (u @ v)"
  by (cases "length u \<le> n") auto

lemma peek_reads_prefix:
  "length (pc_prefix c) \<le> 16 \<Longrightarrow>
   pc_prefix (fst (peek_reads rs c)) = take 16 (pc_prefix c @ snd (peek_reads rs c))
   \<and> pc_input c = snd (peek_reads rs c) @ pc_input (fst (peek_reads rs c))"
proof (induction rs arbitrary: c)
  case (Cons r rs)
  obtain k got err where r: "r = (k, got, err)" by (cases r)
  obtain c' p e where p: "peek_Read k got err c = (c', p, e)" by (metis prod.exhaust)
  have p1: "pc_prefix c' = take 16 (pc_prefix c @ p)" "pc_input c = p @ pc_input c'"
    using p Cons.prems by (auto simp: peek_Read_def Let_def min_def split: if_splits)
  have "length (pc_prefix c') \<le> 16" by (simp add: p1)
  note IH = Cons.IH [OF this]
  have "pc_prefix (fst (peek_reads rs c')) = take 16 ((pc_prefix c @ p) @ snd (peek_reads rs c'))"
    using IH take_take_append p1(1) by metis
  then show ?case using IH p1(2) p by (cases "peek_reads rs c'") (simp add: r)
qed simp

lemma length_4: "length xs = 4 \<Longrightarrow> \<exists>a b c d. xs = [a, b, c, d]"
  by (auto simp: numeral_eq_Suc length_Suc_conv)

text \<open>Whoever sends an HTTP request to the tunnel port is counted as an HTTP probe: when the first four
  bytes are taken for a message length, the error for the oversized message is classified by turning
  the number in its text back into the four bytes; and at the certificate gate or in the TLS
  handshake, whatever the error was and however the bytes arrived, as soon as four have been read.\<close>

theorem http_probe_recognised:
  assumes "map upper_char (take 4 s) \<in> set http_methods" and "effective_max maxBytes \<le> 2 ^ 30"
  shows "(\<exists>e. fst (ReadJSON unmarshal s maxBytes) = Inl e \<and> classifyEntryReadError (Some e) = entryCodeHTTPProbe)
    \<and> (length (snd (peek_reads rs \<lparr>pc_input = s, pc_prefix = []\<rparr>)) < 4
       \<or> classifyEntryCertificateGateError err (peek_Prefix (Some (fst (peek_reads rs \<lparr>pc_input = s, pc_prefix = []\<rparr>)))) = entryCodeHTTPProbe
         \<and> classifyEntryHandshakeError err (peek_Prefix (Some (fst (peek_reads rs \<lparr>pc_input = s, pc_prefix = []\<rparr>)))) = entryCodeHTTPProbe)"
proof
  let ?h = "take 4 s"
  note tok = method_token [OF assms(1)]
  obtain a b c d where h: "?h = [a, b, c, d]"
    using tok(1) length_4 by metis
  have "67 \<le> (of_char a :: nat)" using tok(3) h by (simp add: byte_of_def)
  then have n: "1124073472 \<le> unat (Uint32 ?h)" unfolding h unat_Uint32 by simp
  then have nz: "Uint32 ?h \<noteq> 0" by auto
  have "int 1124073472 \<le> int (unat (Uint32 ?h))" using n by (simp only: of_nat_le_iff)
  then have big: "effective_max maxBytes < uint (Uint32 ?h)" using assms(2) by simp
  have "ReadFull s 4 = (Inr ?h, drop 4 s)"
    using ReadFull_append [of ?h 4 "drop 4 s"] tok(1) by simp
  then have r: "fst (ReadJSON unmarshal s maxBytes) = Inl (Errorf ''handshake too large: %d bytes'' [FI (uint (Uint32 ?h))])"
    using big nz by (simp add: ReadJSON_def Let_def)
  have up: "upper_text ?h = map upper_char ?h" using tok(5) [of "[]"] by simp
  have "oversizedHandshakeHTTPMethod (too_large_text (uint (Uint32 ?h))) \<noteq> []"
    unfolding oversized_method [OF tok(1)] up using assms(1) tok(4) by simp
  then show "\<exists>e. fst (ReadJSON unmarshal s maxBytes) = Inl e \<and> classifyEntryReadError (Some e) = entryCodeHTTPProbe"
    using r too_large_code [of "uint (Uint32 ?h)"] by simp
next
  let ?c = "\<lparr>pc_input = s, pc_prefix = []\<rparr>"
  let ?out = "snd (peek_reads rs ?c)" and ?pre = "peek_Prefix (Some (fst (peek_reads rs ?c)))"
  have p: "?pre = take 16 ?out" "s = ?out @ pc_input (fst (peek_reads rs ?c))"
    using peek_reads_prefix [of ?c rs] by (simp_all add: peek_Prefix_def)
  have "entryHTTPMethodFromPrefix ?pre \<noteq> []" if "\<not> length ?out < 4"
  proof -
    have "take 4 s = take 4 ?out" using p(2) that by (metis append_take_drop_id linorder_not_less take_append take_all_iff append_Nil2 diff_is_0_eq take_0)
    moreover have "?pre = take 4 ?out @ take 12 (drop 4 ?out)" unfolding p(1) using take_add [of 4 12 ?out] by simp
    ultimately show ?thesis using prefix_method [OF assms(1)] by simp
  qed
  then show "length ?out < 4 \<or> classifyEntryCertificateGateError err ?pre = entryCodeHTTPProbe
      \<and> classifyEntryHandshakeError err ?pre = entryCodeHTTPProbe"
    by (auto simp: classifyEntryCertificateGateError_def classifyEntryHandshakeError_def)
qed

theorem http_probe_recognised_witness:
  "\<exists>e. fst (ReadJSON (\<lambda>d. Inr d) ''get /index.html'' 4096) = Inl e \<and> classifyEntryReadError (Some e) = entryCodeHTTPProbe"
proof -
  have "map upper_char (take 4 ''get /index.html'') \<in> set http_methods" by code_simp
  moreover have "effective_max 4096 \<le> 2 ^ 30" by (simp add: effective_max_def)
  ultimately show ?thesis using http_probe_recognised by blast
qed

end
