(* ===== verification/Reverse_Listener.thy ===== *)
theory Reverse_Listener
  imports Go_Prelude
begin

text \<open>
  The passive listener of \<open>server/tunnel/reverse.go\<close>: the client that serves it, and the inbound
  connections waiting for that client. Every method holds the listener's mutex, so each is one step.
  A control and a pending connection are objects with identities, here numbers; a pending
  connection's number stands for its \<open>net.Conn\<close> and its channel \<open>done\<close>, a control's for its
  connection and its channel. Closing a channel twice panics: \<open>rw_panic\<close> says that it happened.
\<close>

section \<open>State\<close>

record reverseListener =
  rl_addr :: string
  rl_lnOpen :: bool
  rl_closeOnce :: bool
  rl_controls :: "nat list"
  rl_pending :: "(string, nat) gomap"
  rl_closed :: bool

record rev_world =
  rw_listener :: reverseListener
  rw_pendingDone :: "nat list"
  rw_controlDone :: "nat list"
  rw_connClosed :: "nat list"
  rw_panic :: bool

definition newReverseListener :: "string \<Rightarrow> reverseListener" where
  "newReverseListener addr =
     \<lparr>rl_addr = addr, rl_lnOpen = True, rl_closeOnce = False, rl_controls = [], rl_pending = [], rl_closed = False\<rparr>"

definition new_rev_world :: "string \<Rightarrow> rev_world" where
  "new_rev_world addr = \<lparr>rw_listener = newReverseListener addr, rw_pendingDone = [], rw_controlDone = [],
     rw_connClosed = [], rw_panic = False\<rparr>"

definition with_listener :: "(reverseListener \<Rightarrow> reverseListener) \<Rightarrow> rev_world \<Rightarrow> rev_world" where
  "with_listener f w = w\<lparr>rw_listener := f (rw_listener w)\<rparr>"

definition close_done :: "nat \<Rightarrow> rev_world \<Rightarrow> rev_world" where
  \<comment> \<open>\<open>close(pending.done)\<close>\<close>
  "close_done p w = (if p \<in> set (rw_pendingDone w) then w\<lparr>rw_panic := True\<rparr>
                     else w\<lparr>rw_pendingDone := p # rw_pendingDone w\<rparr>)"

definition close_conn :: "nat \<Rightarrow> rev_world \<Rightarrow> rev_world" where
  "close_conn p w = w\<lparr>rw_connClosed := p # rw_connClosed w\<rparr>"

section \<open>Operations\<close>

definition control_close :: "nat \<Rightarrow> rev_world \<Rightarrow> rev_world" where
  \<comment> \<open>\<open>closeOnce\<close> closes the channel and the connection the first time\<close>
  "control_close c w = (if c \<in> set (rw_controlDone w) then w else w\<lparr>rw_controlDone := c # rw_controlDone w\<rparr>)"

definition addControl :: "nat \<Rightarrow> rev_world \<Rightarrow> rev_world \<times> bool" where
  "addControl c w =
     (let rl = rw_listener w
      in if rl_closed rl \<or> rl_controls rl \<noteq> [] then (w, False)
         else (with_listener (\<lambda>rl. rl\<lparr>rl_controls := c # rl_controls rl\<rparr>) w, True))"

definition removeControl :: "nat \<Rightarrow> rev_world \<Rightarrow> rev_world" where
  "removeControl c w =
     (if c \<in> set (rl_controls (rw_listener w))
      then control_close c (with_listener (\<lambda>rl. rl\<lparr>rl_controls := filter (\<lambda>x. x \<noteq> c) (rl_controls rl)\<rparr>) w)
      else w)"

definition pickControl :: "(nat list \<Rightarrow> nat list) \<Rightarrow> rev_world \<Rightarrow> nat option" where
  \<comment> \<open>the first control that \<open>range\<close> visits\<close>
  "pickControl rng w = (case rng (rl_controls (rw_listener w)) of [] \<Rightarrow> None | c # _ \<Rightarrow> Some c)"

definition addPending :: "string \<Rightarrow> nat \<Rightarrow> rev_world \<Rightarrow> rev_world \<times> bool" where
  "addPending streamID p w =
     (if rl_closed (rw_listener w) then (w, False)
      else (with_listener (\<lambda>rl. rl\<lparr>rl_pending := AList.update streamID p (rl_pending rl)\<rparr>) w, True))"

definition takePending :: "string \<Rightarrow> rev_world \<Rightarrow> rev_world \<times> nat option" where
  "takePending streamID w =
     (case map_of (rl_pending (rw_listener w)) streamID of
        None \<Rightarrow> (w, None)
      | Some p \<Rightarrow> (close_done p (with_listener (\<lambda>rl. rl\<lparr>rl_pending := AList.delete streamID (rl_pending rl)\<rparr>) w), Some p))"

definition drop_pending :: "string \<times> nat \<Rightarrow> rev_world \<Rightarrow> rev_world" where
  \<comment> \<open>the body of the loop over the pending connections\<close>
  "drop_pending e w = with_listener (\<lambda>rl. rl\<lparr>rl_pending := AList.delete (fst e) (rl_pending rl)\<rparr>)
                        (close_done (snd e) (close_conn (snd e) w))"

definition closePending :: "((string \<times> nat) list \<Rightarrow> (string \<times> nat) list) \<Rightarrow> rev_world \<Rightarrow> rev_world" where
  "closePending rng w = fold drop_pending (rng (rl_pending (rw_listener w))) w"

definition isIdle :: "rev_world \<Rightarrow> bool" where
  "isIdle w \<longleftrightarrow> rl_controls (rw_listener w) = [] \<and> rl_pending (rw_listener w) = []"

definition drop_control :: "nat \<Rightarrow> rev_world \<Rightarrow> rev_world" where
  "drop_control c w = with_listener (\<lambda>rl. rl\<lparr>rl_controls := filter (\<lambda>x. x \<noteq> c) (rl_controls rl)\<rparr>) (control_close c w)"

definition rl_close ::
    "(nat list \<Rightarrow> nat list) \<Rightarrow> ((string \<times> nat) list \<Rightarrow> (string \<times> nat) list) \<Rightarrow> rev_world \<Rightarrow> rev_world" where
  "rl_close rngc rng w =
     (if rl_closeOnce (rw_listener w) then w
      else let w = with_listener (\<lambda>rl. rl\<lparr>rl_closeOnce := True, rl_closed := True\<rparr>) w;
               w = fold drop_control (rngc (rl_controls (rw_listener w))) w;
               w = closePending rng w
           in with_listener (\<lambda>rl. rl\<lparr>rl_lnOpen := False\<rparr>) w)"

lemmas rev_op_defs = with_listener_def close_done_def close_conn_def control_close_def addControl_def removeControl_def
  addPending_def takePending_def drop_pending_def drop_control_def

section \<open>Every interleaving of the operations\<close>

datatype rev_op =
  AddControl nat | RemoveControl nat | CloseControl nat | AddPending string nat | TakePending string
| ClosePending | CloseListener

text \<open>The state, the connections handed to a stream so far, and those that were offered and taken in.\<close>

type_synonym rev_trace = "rev_world \<times> nat list \<times> nat list"

definition rev_step :: "(nat list \<Rightarrow> nat list) \<Rightarrow> ((string \<times> nat) list \<Rightarrow> (string \<times> nat) list) \<Rightarrow> rev_op \<Rightarrow> rev_trace \<Rightarrow> rev_trace" where
  "rev_step rngc rng op t =
     (case t of (w, handed, added) \<Rightarrow>
      (case op of
         AddControl c \<Rightarrow> (fst (addControl c w), handed, added)
       | RemoveControl c \<Rightarrow> (removeControl c w, handed, added)
       | CloseControl c \<Rightarrow> (control_close c w, handed, added)
       | AddPending sid p \<Rightarrow> (case addPending sid p w of (w, ok) \<Rightarrow> (w, handed, if ok then p # added else added))
       | TakePending sid \<Rightarrow> (case takePending sid w of (w, None) \<Rightarrow> (w, handed, added) | (w, Some p) \<Rightarrow> (w, p # handed, added))
       | ClosePending \<Rightarrow> (closePending rng w, handed, added)
       | CloseListener \<Rightarrow> (rl_close rngc rng w, handed, added)))"

definition rev_run :: "(nat list \<Rightarrow> nat list) \<Rightarrow> ((string \<times> nat) list \<Rightarrow> (string \<times> nat) list) \<Rightarrow> rev_op list \<Rightarrow> rev_trace \<Rightarrow> rev_trace" where
  "rev_run rngc rng ops t = fold (rev_step rngc rng) ops t"

text \<open>Stream identifiers and connections are used once: the first are 128 random bits, the others objects.\<close>

fun stream_ids :: "rev_op list \<Rightarrow> string list" and inbound_conns :: "rev_op list \<Rightarrow> nat list" where
  "stream_ids [] = []"
| "stream_ids (op # ops) = (case op of AddPending sid p \<Rightarrow> sid # stream_ids ops | _ \<Rightarrow> stream_ids ops)"
| "inbound_conns [] = []"
| "inbound_conns (op # ops) = (case op of AddPending sid p \<Rightarrow> p # inbound_conns ops | _ \<Rightarrow> inbound_conns ops)"

definition fresh_ops :: "rev_op list \<Rightarrow> bool" where
  "fresh_ops ops \<longleftrightarrow> distinct (stream_ids ops) \<and> distinct (inbound_conns ops)"

section \<open>What the operations keep\<close>

abbreviation pending_of :: "rev_world \<Rightarrow> (string, nat) gomap" where
  "pending_of w \<equiv> rl_pending (rw_listener w)"

text \<open>Every connection taken in is waiting, was handed to a stream, or was closed, and only one of these.\<close>

definition pend_ok :: "rev_world \<Rightarrow> nat list \<Rightarrow> nat list \<Rightarrow> bool" where
  "pend_ok w handed added \<longleftrightarrow>
     gmap_ok (pending_of w) \<and> \<not> rw_panic w \<and> distinct added
     \<and> mset added = mset (map snd (pending_of w)) + mset (rw_pendingDone w)
     \<and> mset (rw_pendingDone w) = mset handed + mset (rw_connClosed w)"

definition rev_inv :: "rev_trace \<Rightarrow> bool" where
  "rev_inv t \<longleftrightarrow> (case t of (w, handed, added) \<Rightarrow>
     pend_ok w handed added \<and> length (rl_controls (rw_listener w)) \<le> 1
     \<and> rl_closed (rw_listener w) = rl_closeOnce (rw_listener w) \<and> rl_lnOpen (rw_listener w) = (\<not> rl_closed (rw_listener w))
     \<and> (rl_closed (rw_listener w) \<longrightarrow> isIdle w))"

lemma update_new: "map_of m k = None \<Longrightarrow> AList.update k v m = m @ [(k, v)]"
  by (induction m) (auto split: if_splits)

lemma mset_delete:
  assumes "gmap_ok m" and "map_of m k = Some p"
  shows "mset (map snd m) = add_mset p (mset (map snd (AList.delete k m)))"
  using assms
proof (induction m)
  case (Cons kv m)
  have ok: "gmap_ok m" using Cons.prems(1) by (simp add: gmap_ok_def)
  show ?case
  proof (cases "fst kv = k")
    case True
    then have "AList.delete k m = m" using Cons.prems(1) by (cases kv) (auto simp: gmap_ok_def delete_id)
    with True Cons.prems(2) show ?thesis by (cases kv) simp
  next
    case False
    with Cons.IH [OF ok] Cons.prems(2) show ?thesis by (cases kv) auto
  qed
qed simp

lemma pending_not_done:
  assumes "pend_ok w handed added" and "map_of (pending_of w) k = Some p"
  shows "p \<notin> set (rw_pendingDone w)"
proof -
  have "p \<in> set (map snd (pending_of w))" using assms(2) by (force dest: map_of_SomeD)
  moreover have "distinct (map snd (pending_of w) @ rw_pendingDone w)"
    using assms(1) mset_eq_imp_distinct_iff [of "map snd (pending_of w) @ rw_pendingDone w" added]
    by (simp add: pend_ok_def del: distinct_append)
  ultimately show ?thesis by auto
qed

lemma drop_pending_ok:
  assumes "pend_ok w handed added" and "map_of (pending_of w) k = Some p"
  shows "pend_ok (drop_pending (k, p) w) handed added" and "pending_of (drop_pending (k, p) w) = AList.delete k (pending_of w)"
  using assms pending_not_done [OF assms] mset_delete [of "pending_of w" k p]
  by (auto simp: pend_ok_def rev_op_defs)

lemma takePending_ok:
  assumes "pend_ok w handed added" and "takePending sid w = (w', Some p)"
  shows "pend_ok w' (p # handed) added"
proof -
  have m: "map_of (pending_of w) sid = Some p" using assms(2) by (auto simp: takePending_def split: option.splits)
  then show ?thesis
    using assms pending_not_done [OF assms(1) m] mset_delete [of "pending_of w" sid p]
    by (auto simp: pend_ok_def rev_op_defs split: option.splits)
qed

lemma close_done_listener [simp]: "rw_listener (close_done p w) = rw_listener w"
  by (simp add: close_done_def)

lemma takePending_other:
  "takePending sid w = (w', r) \<Longrightarrow> rl_controls (rw_listener w') = rl_controls (rw_listener w)
   \<and> rl_closed (rw_listener w') = rl_closed (rw_listener w) \<and> rl_closeOnce (rw_listener w') = rl_closeOnce (rw_listener w)
   \<and> rl_lnOpen (rw_listener w') = rl_lnOpen (rw_listener w)"
  by (auto simp: takePending_def with_listener_def split: option.splits)

lemma drop_all_ok:
  "pend_ok w handed added \<Longrightarrow> distinct (map fst es) \<Longrightarrow> list_all (\<lambda>e. map_of (pending_of w) (fst e) = Some (snd e)) es \<Longrightarrow>
   pend_ok (fold drop_pending es w) handed added
   \<and> map_of (pending_of (fold drop_pending es w)) = map_of (pending_of w) |` (- fst ` set es)"
proof (induction es arbitrary: w)
  case (Cons e es)
  obtain k p where e: "e = (k, p)" by (cases e)
  have m: "map_of (pending_of w) k = Some p" using Cons.prems(3) by (simp add: e)
  note d = drop_pending_ok [OF Cons.prems(1) m]
  have "list_all (\<lambda>e'. map_of (pending_of (drop_pending e w)) (fst e') = Some (snd e')) es"
    using Cons.prems(2,3) by (auto simp: e d(2) gomap_simps list_all_iff image_iff)
  from Cons.IH [OF _ _ this] d Cons.prems(2) show ?case
    by (auto simp: e gomap_simps restrict_map_def fun_eq_iff)
qed (simp add: restrict_map_def)

lemma drop_pending_other [simp]:
  "rl_controls (rw_listener (drop_pending e w)) = rl_controls (rw_listener w)"
  "rl_closed (rw_listener (drop_pending e w)) = rl_closed (rw_listener w)"
  "rl_closeOnce (rw_listener (drop_pending e w)) = rl_closeOnce (rw_listener w)"
  "rl_lnOpen (rw_listener (drop_pending e w)) = rl_lnOpen (rw_listener w)"
  by (simp_all add: rev_op_defs)

lemma drop_all_other [simp]:
  "rl_controls (rw_listener (fold drop_pending es w)) = rl_controls (rw_listener w)"
  "rl_closed (rw_listener (fold drop_pending es w)) = rl_closed (rw_listener w)"
  "rl_closeOnce (rw_listener (fold drop_pending es w)) = rl_closeOnce (rw_listener w)"
  "rl_lnOpen (rw_listener (fold drop_pending es w)) = rl_lnOpen (rw_listener w)"
  by (induction es arbitrary: w) simp_all

lemma map_of_empty: "map_of m = Map.empty \<Longrightarrow> m = []"
  by (cases m) (auto simp: fun_eq_iff split: if_splits)

lemma closePending_ok:
  assumes "perm_fn rng" and "pend_ok w handed added"
  shows "pend_ok (closePending rng w) handed added" and "pending_of (closePending rng w) = []"
proof -
  let ?es = "rng (pending_of w)"
  have s: "set ?es = set (pending_of w)" using perm_fn_set [OF assms(1)] .
  have "mset (map fst ?es) = mset (map fst (pending_of w))" using assms(1) by (simp add: perm_fn_def)
  then have "distinct (map fst ?es)" using assms(2) by (metis gmap_ok_def mset_eq_imp_distinct_iff pend_ok_def)
  moreover have "list_all (\<lambda>e. map_of (pending_of w) (fst e) = Some (snd e)) ?es"
    using s assms(2) by (auto simp: list_all_iff pend_ok_def gmap_ok_def)
  ultimately have d: "pend_ok (fold drop_pending ?es w) handed added"
    "map_of (pending_of (fold drop_pending ?es w)) = map_of (pending_of w) |` (- fst ` set ?es)"
    using drop_all_ok [OF assms(2)] by blast+
  then show "pend_ok (closePending rng w) handed added" by (simp add: closePending_def)
  have "map_of (pending_of w) |` (- fst ` set (pending_of w)) = Map.empty"
    by (auto simp: restrict_map_def fun_eq_iff map_of_eq_None_iff)
  then show "pending_of (closePending rng w) = []" using d(2) s map_of_empty by (simp add: closePending_def)
qed

lemma pend_ok_controls [simp]:
  "pend_ok (control_close c w) handed added = pend_ok w handed added"
  "pend_ok (drop_control c w) handed added = pend_ok w handed added"
  by (simp_all add: pend_ok_def rev_op_defs)

lemma drop_control_other [simp]:
  "rl_closed (rw_listener (drop_control e w)) = rl_closed (rw_listener w)"
  "rl_closeOnce (rw_listener (drop_control e w)) = rl_closeOnce (rw_listener w)"
  "rl_lnOpen (rw_listener (drop_control e w)) = rl_lnOpen (rw_listener w)"
  "rl_controls (rw_listener (drop_control e w)) = filter (\<lambda>x. x \<noteq> e) (rl_controls (rw_listener w))"
  by (simp_all add: rev_op_defs)

lemma drop_controls:
  "pend_ok (fold drop_control cs w) handed added = pend_ok w handed added
   \<and> rl_closed (rw_listener (fold drop_control cs w)) = rl_closed (rw_listener w)
   \<and> rl_closeOnce (rw_listener (fold drop_control cs w)) = rl_closeOnce (rw_listener w)
   \<and> rl_lnOpen (rw_listener (fold drop_control cs w)) = rl_lnOpen (rw_listener w)
   \<and> rl_controls (rw_listener (fold drop_control cs w)) = filter (\<lambda>x. x \<notin> set cs) (rl_controls (rw_listener w))"
  by (induction cs arbitrary: w) (auto intro!: filter_cong)

lemma rl_close_inv:
  assumes "perm_fn rngc" and "perm_fn rng" and inv: "rev_inv (w, handed, added)"
  shows "rev_inv (rl_close rngc rng w, handed, added) \<and> rl_closed (rw_listener (rl_close rngc rng w))"
proof (cases "rl_closeOnce (rw_listener w)")
  case True
  with inv show ?thesis by (simp add: rl_close_def rev_inv_def)
next
  case False
  let ?w1 = "with_listener (\<lambda>rl. rl\<lparr>rl_closeOnce := True, rl_closed := True\<rparr>) w"
  let ?w2 = "fold drop_control (rngc (rl_controls (rw_listener ?w1))) ?w1"
  have "pend_ok ?w1 handed added" using inv by (simp add: rev_inv_def pend_ok_def with_listener_def)
  then have "pend_ok ?w2 handed added" by (simp add: drop_controls)
  note c = closePending_ok [OF assms(2) this]
  have "rl_controls (rw_listener ?w2) = []"
    using perm_fn_set [OF assms(1)] by (simp add: drop_controls with_listener_def)
  with c False show ?thesis
    by (simp add: rl_close_def Let_def rev_inv_def pend_ok_def isIdle_def drop_controls closePending_def with_listener_def)
qed

lemma rev_step_inv:
  assumes "perm_fn rngc" and "perm_fn rng" and inv: "rev_inv t"
    and fresh: "\<And>sid p. op = AddPending sid p \<Longrightarrow> sid \<notin> dom (map_of (pending_of (fst t))) \<and> p \<notin> set (snd (snd t))"
  shows "rev_inv (rev_step rngc rng op t)"
proof -
  obtain w handed added where t: "t = (w, handed, added)" by (cases t)
  note inv' = inv [unfolded t]
  show ?thesis
  proof (cases op)
    case (AddControl c)
    with inv' show ?thesis
      by (auto simp: t rev_step_def rev_inv_def addControl_def Let_def with_listener_def pend_ok_def)
  next
    case (RemoveControl c)
    have "length (filter (\<lambda>x. x \<noteq> c) (rl_controls (rw_listener w))) \<le> length (rl_controls (rw_listener w))" by simp
    with RemoveControl inv' show ?thesis
      by (auto intro: order_trans [OF length_filter_le] simp: t rev_step_def rev_inv_def removeControl_def control_close_def with_listener_def pend_ok_def isIdle_def)
  next
    case (CloseControl c)
    with inv' show ?thesis by (auto simp: t rev_step_def rev_inv_def control_close_def pend_ok_def isIdle_def)
  next
    case (AddPending sid p)
    show ?thesis
    proof (cases "rl_closed (rw_listener w)")
      case True
      with AddPending inv' show ?thesis by (simp add: t rev_step_def addPending_def)
    next
      case False
      have f: "map_of (pending_of w) sid = None" "p \<notin> set added" using fresh [OF AddPending] by (auto simp: t)
      then have "AList.update sid p (pending_of w) = pending_of w @ [(sid, p)]"
        by (intro update_new)
      with AddPending False f inv' show ?thesis
        by (simp add: t rev_step_def addPending_def rev_inv_def pend_ok_def with_listener_def)
           (metis gmap_ok_update)
    qed
  next
    case (TakePending sid)
    show ?thesis
    proof (cases "takePending sid w")
      case (Pair w' po)
      show ?thesis
      proof (cases po)
        case None
        with Pair have "w' = w" by (auto simp: takePending_def split: option.splits)
        with TakePending Pair None inv' show ?thesis by (simp add: t rev_step_def)
      next
        case (Some p)
        have "map_of (pending_of w) sid = Some p" using Pair Some by (auto simp: takePending_def split: option.splits)
        then have "\<not> rl_closed (rw_listener w)" using inv' by (auto simp: rev_inv_def isIdle_def)
        with TakePending Pair Some inv' takePending_ok [of w handed added sid w' p] takePending_other [OF Pair] show ?thesis
          by (simp add: t rev_step_def rev_inv_def)
      qed
    qed
  next
    case ClosePending
    with inv' closePending_ok [OF assms(2), of w handed added] show ?thesis
      by (auto simp: t rev_step_def rev_inv_def isIdle_def) (simp_all add: closePending_def)
  next
    case CloseListener
    with rl_close_inv [OF assms(1,2) inv'] show ?thesis by (simp add: t rev_step_def)
  qed
qed

lemma rev_step_names:
  assumes "perm_fn rngc" and "perm_fn rng" and "rev_inv t"
  shows "dom (map_of (pending_of (fst (rev_step rngc rng op t)))) \<subseteq> dom (map_of (pending_of (fst t))) \<union> set (stream_ids [op])
    \<and> set (snd (snd (rev_step rngc rng op t))) \<subseteq> set (snd (snd t)) \<union> set (inbound_conns [op])"
proof -
  obtain w handed added where t: "t = (w, handed, added)" by (cases t)
  have "pend_ok w handed added" using assms(3) by (simp add: t rev_inv_def)
  note close = closePending_ok(2) [OF assms(2) this]
  have listener: "pending_of (rl_close rngc rng w) = [] \<or> pending_of (rl_close rngc rng w) = pending_of w"
    using rl_close_inv [OF assms(1,2)] assms(3) by (auto simp: t rev_inv_def isIdle_def)
  show ?thesis
  proof (cases op)
    case CloseListener
    with listener show ?thesis by (auto simp: t rev_step_def)
  qed (auto simp: t rev_step_def rev_op_defs close gomap_simps Let_def split: option.splits if_splits)
qed

lemma names_append [simp]:
  "stream_ids (ops @ ops') = stream_ids ops @ stream_ids ops'"
  "inbound_conns (ops @ ops') = inbound_conns ops @ inbound_conns ops'"
  by (induction ops) (auto split: rev_op.splits)

lemma rev_run_inv:
  assumes "perm_fn rngc" and "perm_fn rng" and "fresh_ops ops"
  shows "rev_inv (rev_run rngc rng ops (new_rev_world addr, [], []))
    \<and> dom (map_of (pending_of (fst (rev_run rngc rng ops (new_rev_world addr, [], []))))) \<subseteq> set (stream_ids ops)
    \<and> set (snd (snd (rev_run rngc rng ops (new_rev_world addr, [], [])))) \<subseteq> set (inbound_conns ops)"
  using assms(3)
proof (induction ops rule: rev_induct)
  case Nil
  show ?case
    by (simp add: rev_run_def rev_inv_def pend_ok_def new_rev_world_def newReverseListener_def)
next
  case (snoc op ops)
  let ?t = "rev_run rngc rng ops (new_rev_world addr, [], [])"
  have "fresh_ops ops" using snoc.prems by (simp add: fresh_ops_def)
  note IH = snoc.IH [OF this]
  have step: "rev_run rngc rng (ops @ [op]) (new_rev_world addr, [], []) = rev_step rngc rng op ?t"
    by (simp add: rev_run_def)
  have "rev_inv (rev_step rngc rng op ?t)"
  proof (rule rev_step_inv [OF assms(1,2)])
    show "rev_inv ?t" using IH by blast
    fix sid p assume "op = AddPending sid p"
    then have "sid \<notin> set (stream_ids ops)" "p \<notin> set (inbound_conns ops)"
      using snoc.prems by (auto simp: fresh_ops_def)
    then show "sid \<notin> dom (map_of (pending_of (fst ?t))) \<and> p \<notin> set (snd (snd ?t))" using IH by blast
  qed
  with rev_step_names [OF assms(1,2), of ?t op] IH step show ?case by auto
qed

text \<open>C8. Whatever the interleaving of clients, inbound connections and shutdown at a passive listener, a
  channel is never closed twice, so nothing panics; at most one client serves the listener; every
  inbound connection it took in is waiting, was handed to exactly one stream, or was closed, exactly
  one of these; and a closed listener has no client and no waiting connection.\<close>

theorem reverse_streams_accounted:
  assumes "perm_fn rngc" and "perm_fn rng" and "fresh_ops ops"
    and "rev_run rngc rng ops (new_rev_world addr, [], []) = (w, handed, added)"
  shows "\<not> rw_panic w \<and> length (rl_controls (rw_listener w)) \<le> 1 \<and> distinct added
    \<and> mset added = mset (map snd (rl_pending (rw_listener w))) + mset handed + mset (rw_connClosed w)
    \<and> (rl_lnOpen (rw_listener w) \<or> isIdle w)"
  using rev_run_inv [OF assms(1-3), of addr] assms(4) by (auto simp: rev_inv_def pend_ok_def)

theorem reverse_streams_accounted_witness:
  "let (w, handed, added) = rev_run rev rev [AddControl 7, AddControl 8, AddPending ''s1'' 1, AddPending ''s2'' 2,
       TakePending ''s1'', TakePending ''s1'', ClosePending, RemoveControl 7, CloseListener, AddPending ''s3'' 3]
      (new_rev_world ''127.0.0.1:9000'', [], [])
   in \<not> rw_panic w \<and> mset added = mset (map snd (rl_pending (rw_listener w))) + mset handed + mset (rw_connClosed w)
      \<and> handed = [1] \<and> rw_connClosed w = [2] \<and> rw_controlDone w = [7]"
proof -
  let ?ops = "[AddControl 7, AddControl 8, AddPending ''s1'' 1, AddPending ''s2'' 2,
       TakePending ''s1'', TakePending ''s1'', ClosePending, RemoveControl 7, CloseListener, AddPending ''s3'' 3]"
  obtain w handed added where r: "rev_run rev rev ?ops (new_rev_world ''127.0.0.1:9000'', [], []) = (w, handed, added)"
    by (metis prod.exhaust)
  have "fresh_ops ?ops" by code_simp
  note p = reverse_streams_accounted [OF perm_fn_rev perm_fn_rev this r]
  have "snd (rev_run rev rev ?ops (new_rev_world ''127.0.0.1:9000'', [], [])) = ([1], [2, 1])
      \<and> rw_connClosed (fst (rev_run rev rev ?ops (new_rev_world ''127.0.0.1:9000'', [], []))) = [2]
      \<and> rw_controlDone (fst (rev_run rev rev ?ops (new_rev_world ''127.0.0.1:9000'', [], []))) = [7]"
    by code_simp
  with p r show ?thesis by simp
qed

end
