(* ===== verification/Server_State.thy ===== *)
theory Server_State
  imports Hit_Logs Entry_Security Entry_Writer Reverse_Listener Authorization Connection_Limiter Stream_Limiter
    Credential_Keys Passwords Transport
begin

text \<open>
  The \<open>Server\<close> of \<open>server/tunnel/server.go\<close> with its state, and the recording operations that every
  handler uses: logs, events, counters, rejections (\<open>event_logs.go\<close>, \<open>runtime_events.go\<close>,
  \<open>entry_security.go\<close>, \<open>permanent_block_hit_logs.go\<close>). The operations run one after the other here;
  what may happen between the critical sections of different goroutines is the subject of the
  theories of the single components.
\<close>

section \<open>State\<close>

record reverseControl =
  rct_requestID :: string
  rct_username :: string
  rct_clientID :: string
  rct_forwardName :: string
  rct_target :: string

record 'k server =
  sv_cfg :: config
  sv_users :: "(string, userConfig) gomap"
  sv_fails :: failTracker
  sv_files :: files
  sv_cred :: "'k credState"
  sv_listeners :: "(string, nat) gomap option"
  sv_revs :: "rev_world list"
  sv_controls :: "reverseControl list"
  sv_configuredReverse :: "(string, bool) gomap"
  sv_events :: "runtimeEventRing option"
  sv_requestLog :: "jsonlLog option"
  sv_businessLog :: "jsonlLog option"
  sv_entryTrafficLog :: "jsonlLog option"
  sv_flowTrafficLog :: "jsonlLog option"
  sv_writer :: "(entryTrafficLogEntry, unit) asyncLog option"
  sv_requestSeq :: nat
  sv_hits :: "hitAggregator option"
  sv_conns :: "connectionLimiter option"
  sv_streams :: "userStreamLimiter option"
  sv_entry :: entryCounters
  sv_reject :: rejectCounters
  sv_activeStreams :: "64 word"
  sv_totalStreams :: "64 word"
  sv_userStreamLimitRejected :: "64 word"
  sv_authOK :: "64 word"
  sv_authFailed :: "64 word"
  sv_policyRejected :: "64 word"
  sv_dialFailed :: "64 word"
  sv_bytesUp :: int
  sv_bytesDown :: int
  sv_ctxDone :: bool
  sv_closing :: bool
  sv_lines :: "string list option"
  sv_dialled :: "string list"
  sv_listened :: "string list"
  sv_inboundClosed :: "nat list"

text \<open>
  A passive listener and a reverse control are objects: their places in \<open>sv_revs\<close> and \<open>sv_controls\<close>
  stand for the pointers. The last three fields record what the server did to the network: the targets
  it dialled, the addresses it listened on, and the inbound connections it closed after taking them
  from a listener.

  What a handler takes from outside. \<open>se_now i\<close> is the reading of the clock at place \<open>i\<close> of the
  handler; \<open>se_json\<close> are the four uses of \<open>json.Marshal\<close>; \<open>se_dial\<close> and \<open>se_listen\<close> say how the
  network answers; \<open>se_lnAddr\<close> is the address a new listener reports; \<open>se_copied\<close> how many bytes each direction of a proxied stream copied.
\<close>

record ('k, 'p) server_env =
  se_cred :: "('k, 'p) cred_env"
  se_now :: "nat \<Rightarrow> time"
  se_open :: "string \<Rightarrow> go_error option"
  se_encode :: "persisted \<Rightarrow> string"
  se_range :: "(string \<times> failState) list \<Rightarrow> (string \<times> failState) list"
  se_jsonRequest :: "requestLogEntry \<Rightarrow> string res"
  se_jsonBusiness :: "businessLogEntry \<Rightarrow> string res"
  se_jsonEntry :: "entryTrafficLogEntry \<Rightarrow> string res"
  se_jsonFlow :: "flowTrafficLogEntry \<Rightarrow> string res"
  se_marshal :: "openResponse \<Rightarrow> string res"
  se_unmarshal :: "string \<Rightarrow> openRequest res"
  se_kdf :: kdf
  se_sha256 :: "string \<Rightarrow> string"
  se_dial :: "string \<Rightarrow> go_error option"
  se_listen :: "string \<Rightarrow> go_error option"
  se_lnAddr :: "string \<Rightarrow> string"
  se_rangeControls :: "nat list \<Rightarrow> nat list"
  se_rangePending :: "(string \<times> nat) list \<Rightarrow> (string \<times> nat) list"
  se_copied :: "int \<times> int"

text \<open>A connection as a handler sees it.\<close>

record entryConn =
  ec_in :: string
  ec_w :: writer
  ec_remoteAddr :: "string option"
  ec_localAddr :: "string option"
  ec_closed :: bool

definition conn_close :: "entryConn \<Rightarrow> entryConn" where
  "conn_close c = c\<lparr>ec_closed := True\<rparr>"

section \<open>Small pieces\<close>

definition svlog :: "string \<Rightarrow> 'k server \<Rightarrow> 'k server" where
  \<comment> \<open>\<open>s.log\<close>; a nil \<open>logf\<close> drops the line\<close>
  "svlog line s = s\<lparr>sv_lines := map_option (\<lambda>ls. ls @ [line]) (sv_lines s)\<rparr>"

definition fail_env_at :: "('k, 'p) server_env \<Rightarrow> nat \<Rightarrow> fail_env" where
  "fail_env_at env i = \<lparr>fe_now = se_now env i, fe_tz = ce_tz (se_cred env), fe_os = ce_os (se_cred env),
     fe_encode = se_encode env, fe_range = se_range env\<rparr>"

definition on_fails :: "(tracked \<Rightarrow> tracked \<times> 'r) \<Rightarrow> 'k server \<Rightarrow> 'k server \<times> 'r" where
  "on_fails f s = (case f (sv_fails s, sv_files s) of ((t, fs), r) \<Rightarrow> (s\<lparr>sv_fails := t, sv_files := fs\<rparr>, r))"

definition on_cred :: "('k cred \<Rightarrow> 'k cred \<times> 'r) \<Rightarrow> 'k server \<Rightarrow> 'k server \<times> 'r" where
  "on_cred f s = (case f (sv_cred s, sv_files s) of ((c, fs), r) \<Rightarrow> (s\<lparr>sv_cred := c, sv_files := fs\<rparr>, r))"

definition stamp_at :: "('k, 'p) server_env \<Rightarrow> nat \<Rightarrow> string" where
  "stamp_at env i = format_rfc3339 (ce_tz (se_cred env) (se_now env i)) (se_now env i)"

definition date_at :: "('k, 'p) server_env \<Rightarrow> nat \<Rightarrow> string" where
  "date_at env i = date_text (ce_tz (se_cred env) (se_now env i)) (se_now env i)"

definition milliseconds :: "duration \<Rightarrow> int" where
  "milliseconds d = int_quot d 1000000"

section \<open>Logs\<close>

text \<open>The common end of the four log writers: the encoding, the log line, the JSONL file.\<close>

definition write_log ::
    "('k, 'p) server_env \<Rightarrow> nat \<Rightarrow> string \<Rightarrow> string \<Rightarrow> string res \<Rightarrow> jsonlLog option \<Rightarrow> 'k server \<Rightarrow> 'k server \<times> jsonlLog option" where
  "write_log env i label failure data l s =
     (case data of
        Inl err \<Rightarrow> (svlog (Sprintf (failure @ '' failed: %v'') [FE err]) s, l)
      | Inr d \<Rightarrow>
         (let s = svlog (label @ '' '' @ d) s
          in if l = None then (s, l)
             else (case log_WriteJSON (ce_os (se_cred env)) (se_open env) (date_at env i) l (sv_files s) d of
                     (l, fs, err) \<Rightarrow>
                       (let s = s\<lparr>sv_files := fs\<rparr>
                        in (case err of None \<Rightarrow> s | Some err \<Rightarrow> svlog (Sprintf (failure @ '' failed: %v'') [FE err]) s, l)))))"

definition recordRequestLog :: "('k, 'p) server_env \<Rightarrow> nat \<Rightarrow> requestLogEntry \<Rightarrow> 'k server \<Rightarrow> 'k server" where
  "recordRequestLog env i entry s =
     (let entry = complete_request (stamp_at env i) entry;
          s = (if isSuccessfulRequestForBlockProtection entry
               then s\<lparr>sv_fails := fst (markSuccessful (fail_env_at env i) (sv_fails s) (rle_RemoteIP entry))\<rparr> else s)
      in case write_log env i ''request_log'' ''write request log'' (se_jsonRequest env entry) (sv_requestLog s) s of
           (s, l) \<Rightarrow> s\<lparr>sv_requestLog := l\<rparr>)"

definition recordBusinessLog :: "('k, 'p) server_env \<Rightarrow> nat \<Rightarrow> businessLogEntry \<Rightarrow> 'k server \<Rightarrow> 'k server" where
  "recordBusinessLog env i entry s =
     (let entry = complete_business (stamp_at env i) entry
      in case write_log env i ''business_log'' ''write business log'' (se_jsonBusiness env entry) (sv_businessLog s) s of
           (s, l) \<Rightarrow> s\<lparr>sv_businessLog := l\<rparr>)"

definition writeEntryTrafficLog :: "('k, 'p) server_env \<Rightarrow> nat \<Rightarrow> entryTrafficLogEntry \<Rightarrow> 'k server \<Rightarrow> 'k server" where
  "writeEntryTrafficLog env i entry s =
     (case write_log env i ''entry_traffic_log'' ''write entry traffic log'' (se_jsonEntry env entry) (sv_entryTrafficLog s) s of
        (s, l) \<Rightarrow> s\<lparr>sv_entryTrafficLog := l\<rparr>)"

definition recordEntryTrafficLog :: "('k, 'p) server_env \<Rightarrow> nat \<Rightarrow> entryTrafficLogEntry \<Rightarrow> 'k server \<Rightarrow> 'k server" where
  "recordEntryTrafficLog env i entry s =
     (let entry = complete_entry (stamp_at env i) entry
      in if sv_writer s \<noteq> None then s\<lparr>sv_writer := Enqueue (sv_writer s) entry\<rparr>
         else writeEntryTrafficLog env i entry s)"

definition recordFlowTrafficLog :: "('k, 'p) server_env \<Rightarrow> nat \<Rightarrow> flowTrafficLogEntry \<Rightarrow> 'k server \<Rightarrow> 'k server" where
  "recordFlowTrafficLog env i entry s =
     (let entry = complete_flow (stamp_at env i) (cfg_Security (sv_cfg s)) entry
      in case write_log env i ''flow_traffic_log'' ''write flow traffic log'' (se_jsonFlow env entry) (sv_flowTrafficLog s) s of
           (s, l) \<Rightarrow> s\<lparr>sv_flowTrafficLog := l\<rparr>)"

definition recordBusinessLogFromEvent :: "('k, 'p) server_env \<Rightarrow> nat \<Rightarrow> runtimeEvent \<Rightarrow> 'k server \<Rightarrow> 'k server" where
  "recordBusinessLogFromEvent env i ev s =
     (case businessLogFromEvent ev of None \<Rightarrow> s | Some entry \<Rightarrow> recordBusinessLog env i entry s)"

definition eventRing :: "'k server \<Rightarrow> 'k server" where
  \<comment> \<open>\<open>eventsOnce\<close>: a missing ring is made on the first use\<close>
  "eventRing s = (if sv_events s = None then s\<lparr>sv_events := Some (newRuntimeEventRing defaultRecentEvents)\<rparr> else s)"

definition recordEvent :: "('k, 'p) server_env \<Rightarrow> nat \<Rightarrow> runtimeEvent \<Rightarrow> 'k server \<Rightarrow> 'k server" where
  "recordEvent env i ev s =
     (let ev = complete_event (stamp_at env i) ev;
          s = eventRing s;
          s = s\<lparr>sv_events := ringAppend (sv_events s) ev\<rparr>;
          s = recordBusinessLogFromEvent env i ev s
      in svlog (event_line ev) s)"

definition recentEventSnapshot :: "'k server \<Rightarrow> 'k server \<times> runtimeEvent list" where
  "recentEventSnapshot s = (let s = eventRing s in (s, ringSnapshot (sv_events s)))"

section \<open>Rejections\<close>

definition recordPermanentBlockedHit :: "('k, 'p) server_env \<Rightarrow> nat \<Rightarrow> string \<Rightarrow> 'k server \<Rightarrow> 'k server" where
  "recordPermanentBlockedHit env i remoteIP s =
     (if remoteIP = [] then s
      else let s = s\<lparr>sv_entry := countEntryPermanentBlockHit (sv_entry s)\<rparr>
      in if sv_hits s = None
         then recordEntryTrafficLog env i
                (hit_entry remoteIP (permanentBlockedHitSummary 1 defaultPermanentBlockHitLogInterval)) s
         else s\<lparr>sv_hits := Observe (sv_hits s) remoteIP\<rparr>)"

definition rejectEntryProtocol ::
    "('k, 'p) server_env \<Rightarrow> nat \<Rightarrow> entryConn option \<Rightarrow> string \<Rightarrow> string \<Rightarrow> string \<Rightarrow> string \<Rightarrow> bool \<Rightarrow> int \<Rightarrow> 'k server
     \<Rightarrow> 'k server \<times> entryConn option" where
  "rejectEntryProtocol env i conn remoteIP requestID entryCode responseMessage countAuthFailed durationMS s =
     (let s = (if countAuthFailed then s\<lparr>sv_authFailed := sv_authFailed s + 1\<rparr> else s);
          s = s\<lparr>sv_entry := countEntryProtocolRejected entryCode (sv_entry s)\<rparr>;
          (s, created) = on_fails (\<lambda>t. addProtocolFailure (fail_env_at env i) t remoteIP) s;
          s = (if created then s\<lparr>sv_entry := countEntryPermanentBlockCreated (sv_entry s)\<rparr> else s);
          s = recordEntryTrafficLog env i
                (zero_entry\<lparr>ete_RequestID := requestID, ete_Event := ''protocol_rejected'', ete_Result := ''rejected'',
                   ete_RemoteAddr := (case conn of None \<Rightarrow> [] | Some c \<Rightarrow> addrString (ec_remoteAddr c)), ete_RemoteIP := remoteIP,
                   ete_LocalAddr := (case conn of None \<Rightarrow> [] | Some c \<Rightarrow> addrString (ec_localAddr c)), ete_Code := entryCode,
                   ete_Message := responseMessage, ete_Abnormal := True, ete_DurationMS := durationMS,
                   ete_PermanentBlockCreated := created\<rparr>) s
      in (s, case conn of
               None \<Rightarrow> None
             | Some c \<Rightarrow>
                 if responseMessage = [] then Some c
                 else Some (c\<lparr>ec_w := fst (WriteJSON (se_marshal env) (ec_w c)
                        (zero_response\<lparr>resp_Code := ''bad_request'', resp_Message := responseMessage\<rparr>))\<rparr>)))"

end
