(* ===== verification/Server_Handler.thy ===== *)
theory Server_Handler
  imports Server_State
begin

text \<open>
  The request handler \<open>handleConn\<close> of \<open>server/tunnel/server.go\<close> with what it calls, and the part of
  \<open>server/tunnel/reverse.go\<close> that registers reverse controls and streams. \<open>sv_ctxDone\<close> is
  \<open>runContext().Err() != nil\<close>, \<open>sv_closing\<close> makes \<open>startWorker\<close> refuse. Deadlines and keep-alive
  options of connections have no effect here.
\<close>

section \<open>Compatibility\<close>

definition serverVersionResponse :: "openResponse \<Rightarrow> openResponse" where
  "serverVersionResponse resp =
     (if resp_OK resp \<and> TrimSpace (resp_ServerVersion resp) = [] then resp\<lparr>resp_ServerVersion := AppVersion\<rparr> else resp)"

definition unsupported_client :: "string \<Rightarrow> openResponse option" where
  "unsupported_client message = Some (zero_response\<lparr>resp_Code := ''client_version_unsupported'', resp_Message := message\<rparr>)"

text \<open>\<open>None\<close> is an accepted request, \<open>Some resp\<close> a refused one.\<close>

definition checkRequestCompatibility :: "compatibilityConfig \<Rightarrow> openRequest \<Rightarrow> openResponse option" where
  "checkRequestCompatibility cc req =
     (let serverProtocol = (if compat_ProtocolVersion cc = 0 then ProtocolVersion else compat_ProtocolVersion cc);
          requestProtocol = (if req_ProtocolVersion req = 0 then LegacyProtocolVersion else req_ProtocolVersion req)
      in if requestProtocol \<noteq> serverProtocol
         then Some (zero_response\<lparr>resp_Code := ''protocol_version_unsupported'',
           resp_Message := Sprintf ''protocol_version %d is not supported by this server; required protocol_version is %d''
             [FI requestProtocol, FI serverProtocol]\<rparr>)
         else
         (let clientVersion = TrimSpace (req_ClientVersion req);
              clientVersion = (if clientVersion = [] then LegacyClientVersion else clientVersion)
          in if Validate clientVersion \<noteq> None
             then unsupported_client (Sprintf ''client_version %q is invalid'' [FS clientVersion])
             else
             (let minClientVersion = TrimSpace (compat_MinClientVersion cc);
                  maxClientVersion = TrimSpace (compat_MaxClientVersion cc)
              in case (if minClientVersion = [] then Inr False else Less clientVersion minClientVersion) of
                   Inl err \<Rightarrow> unsupported_client (error_text err)
                 | Inr True \<Rightarrow> unsupported_client (Sprintf ''client_version %s is not supported by this server; minimum client_version is %s''
                     [FS clientVersion, FS minClientVersion])
                 | Inr False \<Rightarrow>
                    (case (if maxClientVersion = [] then Inr False else Greater clientVersion maxClientVersion) of
                       Inl err \<Rightarrow> unsupported_client (error_text err)
                     | Inr True \<Rightarrow> unsupported_client (Sprintf ''client_version %s is not supported by this server; maximum client_version is %s''
                         [FS clientVersion, FS maxClientVersion])
                     | Inr False \<Rightarrow> None))))"

section \<open>Entries and replies\<close>

definition flowTrafficEntry :: "string \<Rightarrow> string \<Rightarrow> string \<Rightarrow> string \<Rightarrow> string \<Rightarrow> openRequest \<Rightarrow> flowTrafficLogEntry" where
  "flowTrafficEntry requestID event kind result remoteIP req =
     zero_flow\<lparr>fte_RequestID := requestID, fte_Event := event, fte_Kind := kind, fte_Result := result, fte_RemoteIP := remoteIP,
       fte_Username := req_Username req, fte_ClientID := req_ClientID req, fte_ForwardName := req_ForwardName req,
       fte_Direction := req_Direction req, fte_Target := req_Target req, fte_ListenAddr := req_ListenAddr req\<rparr>"

text \<open>The event of a request without listen address, code and message.\<close>

definition request_event :: "string \<Rightarrow> string \<Rightarrow> string \<Rightarrow> string \<Rightarrow> openRequest \<Rightarrow> runtimeEvent" where
  "request_event requestID kind result remoteIP req =
     zeroEvent\<lparr>ev_RequestID := requestID, ev_Kind := kind, ev_Result := result, ev_RemoteIP := remoteIP,
       ev_Username := req_Username req, ev_ClientID := req_ClientID req, ev_ForwardName := req_ForwardName req,
       ev_Direction := req_Direction req, ev_Target := req_Target req\<rparr>"

definition ErrNetClosed :: go_error where
  "ErrNetClosed = Sentinel ''use of closed network connection''"

definition reply :: "('k, 'p) server_env \<Rightarrow> openResponse \<Rightarrow> entryConn \<Rightarrow> entryConn \<times> go_error option" where
  \<comment> \<open>\<open>protocol.WriteJSON\<close> to the connection; a closed one takes nothing\<close>
  "reply env resp c =
     (if ec_closed c then (c, Some ErrNetClosed)
      else case WriteJSON (se_marshal env) (ec_w c) resp of (w, err) \<Rightarrow> (c\<lparr>ec_w := w\<rparr>, err))"

text \<open>What the closures of a handler capture.\<close>

record handling =
  h_requestID :: string
  h_started :: time
  h_remoteIP :: string
  h_remoteAddr :: string
  h_localAddr :: string

definition recordRequest ::
    "('k, 'p) server_env \<Rightarrow> nat \<Rightarrow> handling \<Rightarrow> openRequest \<Rightarrow> string \<Rightarrow> string \<Rightarrow> openResponse \<Rightarrow> 'k server \<Rightarrow> 'k server" where
  "recordRequest env i h req result authResult resp s =
     recordRequestLog env i \<lparr>rle_Time = [], rle_RequestID = h_requestID h, rle_RemoteAddr = h_remoteAddr h,
       rle_RemoteIP = h_remoteIP h, rle_LocalAddr = h_localAddr h, rle_Request = req, rle_ReadError = [],
       rle_AuthResult = authResult, rle_Response = resp, rle_Result = result,
       rle_DurationMS = milliseconds (se_now env (100 + i) - h_started h)\<rparr> s"

section \<open>Passive listeners of the server\<close>

definition on_rev :: "nat \<Rightarrow> (rev_world \<Rightarrow> rev_world \<times> 'r) \<Rightarrow> 'k server \<Rightarrow> 'k server \<times> 'r" where
  "on_rev rl f s = (case f (sv_revs s ! rl) of (w, r) \<Rightarrow> (s\<lparr>sv_revs := (sv_revs s)[rl := w]\<rparr>, r))"

definition upd_rev :: "nat \<Rightarrow> (rev_world \<Rightarrow> rev_world) \<Rightarrow> 'k server \<Rightarrow> 'k server" where
  "upd_rev rl f s = fst (on_rev rl (\<lambda>w. (f w, ())) s)"

definition ensureReverseListener :: "('k, 'p) server_env \<Rightarrow> string \<Rightarrow> 'k server \<Rightarrow> 'k server \<times> nat res" where
  "ensureReverseListener env addr s =
     (let key = normalizeTarget addr;
          m = (case sv_listeners s of None \<Rightarrow> [] | Some m \<Rightarrow> m);
          s = s\<lparr>sv_listeners := Some m\<rparr>
      in case map_of m key of
           Some rl \<Rightarrow> (s, Inr rl)
         | None \<Rightarrow>
            (case se_listen env addr of
               Some err \<Rightarrow> (svlog (Sprintf ''reverse passive listener %s unavailable: %v'' [FS addr, FE err]) s,
                            Inl (Errorf ''server passive port is unavailable'' []))
             | None \<Rightarrow>
                (let rl = length (sv_revs s);
                     s = s\<lparr>sv_revs := sv_revs s @ [new_rev_world addr], sv_listeners := Some (AList.update key rl m),
                           sv_listened := sv_listened s @ [addr]\<rparr>
                 in if sv_closing s
                    then (upd_rev rl (rl_close (se_rangeControls env) (se_rangePending env))
                            (s\<lparr>sv_listeners := Some (AList.delete key (AList.update key rl m))\<rparr>), Inl ErrNetClosed)
                    else (svlog (Sprintf ''reverse passive listener %s ready'' [FS (se_lnAddr env addr)]) s, Inr rl))))"

definition find_reverseListener :: "string \<Rightarrow> 'k server \<Rightarrow> nat option" where
  "find_reverseListener addr s = (case sv_listeners s of None \<Rightarrow> None | Some m \<Rightarrow> map_of m (normalizeTarget addr))"

definition closeReverseListenerIfIdle :: "('k, 'p) server_env \<Rightarrow> nat \<Rightarrow> 'k server \<Rightarrow> 'k server" where
  "closeReverseListenerIfIdle env rl s =
     (let w = sv_revs s ! rl; addr = rl_addr (rw_listener w)
      in if \<not> isIdle w then s
         else if isConfiguredReverseListener (sv_configuredReverse s) addr then s
         else if find_reverseListener addr s = Some rl \<and> isIdle w
         then (let s = s\<lparr>sv_listeners := map_option (AList.delete (normalizeTarget addr)) (sv_listeners s)\<rparr>;
                   s = upd_rev rl (rl_close (se_rangeControls env) (se_rangePending env)) s
               in svlog (Sprintf ''reverse passive listener %s deactivated'' [FS addr]) s)
         else s)"

definition closeReverseListeners :: "('k, 'p) server_env \<Rightarrow> ((string \<times> nat) list \<Rightarrow> (string \<times> nat) list) \<Rightarrow> 'k server \<Rightarrow> 'k server" where
  "closeReverseListeners env rng s =
     (let m = (case sv_listeners s of None \<Rightarrow> [] | Some m \<Rightarrow> m); s = s\<lparr>sv_listeners := None\<rparr>
      in fold (\<lambda>e. upd_rev (snd e) (rl_close (se_rangeControls env) (se_rangePending env))) (rng m) s)"

section \<open>Registering reverse controls and streams\<close>

definition refuse :: "string \<Rightarrow> go_error option" where
  "refuse message = Some (Errorf message [])"

definition registerReverseControl ::
    "('k, 'p) server_env \<Rightarrow> entryConn \<Rightarrow> openRequest \<Rightarrow> userConfig \<Rightarrow> string \<Rightarrow> 'k server \<Rightarrow> 'k server \<times> entryConn \<times> go_error option" where
  "registerReverseControl env conn req user requestID s =
     (let listenAddr = TrimSpace (req_ListenAddr req)
      in if listenAddr = [] then (s, conn, refuse ''reverse listen address is required'')
         else if TrimSpace (req_Target req) = [] then (s, conn, refuse ''reverse target address is required'')
         else if \<not> isConfiguredReverseListener (sv_configuredReverse s) listenAddr
         then (s, conn, refuse ''reverse listen address is not configured on server'')
         else (case authorizeReverse (cfg_Forwards (sv_cfg s)) (usr_Username user) listenAddr of
           Some err \<Rightarrow> (s, conn, Some err)
         | None \<Rightarrow>
           (case ensureReverseListener env listenAddr s of
              (s, Inl err) \<Rightarrow> (s, conn, Some err)
            | (s, Inr rl) \<Rightarrow>
               (let c = length (sv_controls s);
                    s = s\<lparr>sv_controls := sv_controls s @ [\<lparr>rct_requestID = requestID, rct_username = req_Username req,
                          rct_clientID = req_ClientID req, rct_forwardName = req_ForwardName req, rct_target = req_Target req\<rparr>]\<rparr>
                in case on_rev rl (addControl c) s of
                     (s, False) \<Rightarrow> (s, conn, refuse ''reverse listen address is already activated'')
                   | (s, True) \<Rightarrow>
                      (let (s, credKey) = on_cred (activeCredentialPublicKey (se_cred env) (se_now env 12) (se_now env 13)) s;
                           resp = serverVersionResponse (zero_response\<lparr>resp_OK := True, resp_Code := ''ok'',
                                    resp_Message := ''reverse listen activated'', resp_CredentialKey := credKey\<rparr>)
                       in case reply env resp conn of
                            (conn, Some err) \<Rightarrow> (upd_rev rl (\<lambda>w. removeControl c (control_close c w)) s, conn_close conn, Some err)
                          | (conn, None) \<Rightarrow>
                             if sv_closing s
                             then (upd_rev rl (\<lambda>w. removeControl c (control_close c w)) s, conn_close conn, Some ErrNetClosed)
                             else (recordEvent env 10 ((request_event requestID ''reverse_listen'' ''activated'' [] req)
                                     \<lparr>ev_ListenAddr := listenAddr, ev_Code := ''ok''\<rparr>) s, conn, None))))))"

definition errUserStreamLimit :: go_error where
  "errUserStreamLimit = Sentinel ''too many concurrent streams for account''"

definition releaseLease :: "release_fn \<Rightarrow> 'k server \<Rightarrow> 'k server" where
  "releaseLease f s = (case f of NoopRelease \<Rightarrow> s | ReleaseOf u \<Rightarrow> s\<lparr>sv_streams := streamRelease (sv_streams s) u\<rparr>)"

definition acquireStream :: "string \<Rightarrow> 'k server \<Rightarrow> 'k server \<times> release_fn \<times> bool" where
  "acquireStream user s = (case streamAcquire (sv_streams s) user of (l, f, ok) \<Rightarrow> (s\<lparr>sv_streams := l\<rparr>, f, ok))"

definition close_inbound :: "nat \<Rightarrow> 'k server \<Rightarrow> 'k server" where
  "close_inbound p s = s\<lparr>sv_inboundClosed := p # sv_inboundClosed s\<rparr>"

text \<open>A registered stream is the inbound connection with the closure that gives the user's place back, for the
  worker that proxies it.\<close>

definition registerReverseStream ::
    "('k, 'p) server_env \<Rightarrow> entryConn \<Rightarrow> openRequest \<Rightarrow> userConfig \<Rightarrow> 'k server
     \<Rightarrow> 'k server \<times> entryConn \<times> (nat \<times> release_fn) res" where
  "registerReverseStream env conn req user s =
     (let listenAddr = TrimSpace (req_ListenAddr req); streamID = TrimSpace (req_StreamID req)
      in if listenAddr = [] \<or> streamID = [] then (s, conn, Inl (Errorf ''reverse stream is invalid'' []))
         else if \<not> isConfiguredReverseListener (sv_configuredReverse s) listenAddr
         then (s, conn, Inl (Errorf ''reverse listen address is not configured on server'' []))
         else (case authorizeReverse (cfg_Forwards (sv_cfg s)) (usr_Username user) listenAddr of
           Some err \<Rightarrow> (s, conn, Inl err)
         | None \<Rightarrow>
           (case find_reverseListener listenAddr s of
              None \<Rightarrow> (s, conn, Inl (Errorf ''reverse listen is not active'' []))
            | Some rl \<Rightarrow>
              (case on_rev rl (takePending streamID) s of
                 (s, None) \<Rightarrow> (s, conn, Inl (Errorf ''reverse stream has expired'' []))
               | (s, Some inbound) \<Rightarrow>
                 (case acquireStream (req_Username req) s of
                    (s, _, False) \<Rightarrow>
                      (let s = s\<lparr>sv_userStreamLimitRejected := sv_userStreamLimitRejected s + 1\<rparr>;
                           s = closeReverseListenerIfIdle env rl (close_inbound inbound s)
                       in (s, conn, Inl errUserStreamLimit))
                  | (s, release, True) \<Rightarrow>
                      (let s = closeReverseListenerIfIdle env rl s;
                           resp = serverVersionResponse (zero_response\<lparr>resp_OK := True, resp_Code := ''ok'', resp_Message := ''connected''\<rparr>)
                       in case reply env resp conn of
                            (conn, Some err) \<Rightarrow> (close_inbound inbound (releaseLease release s), conn, Inl err)
                          | (conn, None) \<Rightarrow>
                              if sv_closing s then (close_inbound inbound (releaseLease release s), conn, Inl ErrNetClosed)
                              else (s, conn, Inr (inbound, release))))))))"

text \<open>\<open>ProxyPairWithOptions(left, right, &s.bytesUp, &s.bytesDown, ...)\<close> for the copied bytes of the
  environment, from left to right and from right to left.\<close>

definition proxy_pair :: "('k, 'p) server_env \<Rightarrow> 'k server \<Rightarrow> 'k server \<times> int \<times> int" where
  "proxy_pair env s =
     (case ProxyPairWithOptions True (fst (se_copied env)) (snd (se_copied env)) (Some (sv_bytesUp s)) (Some (sv_bytesDown s)) of
        ((leftToRight, rightToLeft), up, down) \<Rightarrow> (s\<lparr>sv_bytesUp := the up, sv_bytesDown := the down\<rparr>, leftToRight, rightToLeft))"

definition begin_stream :: "'k server \<Rightarrow> 'k server" where
  "begin_stream s = s\<lparr>sv_totalStreams := sv_totalStreams s + 1, sv_activeStreams := sv_activeStreams s + 1\<rparr>"

definition end_stream :: "'k server \<Rightarrow> 'k server" where
  "end_stream s = s\<lparr>sv_activeStreams := sv_activeStreams s - 1\<rparr>"

text \<open>The worker that \<open>registerReverseStream\<close> starts, from the moment it runs to its deferred calls.\<close>

definition reverseStreamWorker ::
    "('k, 'p) server_env \<Rightarrow> string option \<Rightarrow> openRequest \<Rightarrow> string \<Rightarrow> nat \<times> release_fn \<Rightarrow> 'k server \<Rightarrow> 'k server" where
  "reverseStreamWorker env remoteAddr req requestID inbound s =
     (let listenAddr = TrimSpace (req_ListenAddr req); s = begin_stream s;
          ev = (request_event requestID ''reverse_stream'' ''connected'' [] req)\<lparr>ev_ListenAddr := listenAddr, ev_Code := ''ok''\<rparr>;
          s = recordEvent env 16 ev s;
          (s, inboundToClient, clientToInbound) = proxy_pair env s;
          durationMS = milliseconds (se_now env 17 - se_now env 15);
          flow = (flowTrafficEntry requestID ''stream_closed'' ''reverse_stream'' ''closed'' (remoteHost remoteAddr) req)
            \<lparr>fte_ListenAddr := listenAddr, fte_Code := ''closed'', fte_DurationMS := durationMS,
             fte_BytesUp := inboundToClient, fte_BytesDown := clientToInbound\<rparr>;
          s = recordFlowTrafficLog env 18 flow s;
          s = recordEvent env 19 ((request_event requestID ''reverse_stream'' ''closed'' [] req)
            \<lparr>ev_ListenAddr := listenAddr, ev_Code := ''closed'', ev_DurationMS := durationMS,
             ev_BytesUp := inboundToClient, ev_BytesDown := clientToInbound\<rparr>) s
      in releaseLease (snd inbound) (close_inbound (fst inbound) (end_stream s)))"

section \<open>After authentication\<close>

text \<open>How a handler ends: its connection is closed, or belongs to a reverse control or a reverse stream worker.\<close>

datatype handled = Closed | ControlRunning | StreamRunning "nat \<times> release_fn"

definition refused :: "string \<Rightarrow> string \<Rightarrow> openResponse" where
  "refused code message = zero_response\<lparr>resp_Code := code, resp_Message := message\<rparr>"

definition accepted :: "string \<Rightarrow> openResponse" where
  "accepted message = serverVersionResponse (zero_response\<lparr>resp_OK := True, resp_Code := ''ok'', resp_Message := message\<rparr>)"

definition handle_reverse ::
    "('k, 'p) server_env \<Rightarrow> handling \<Rightarrow> userConfig \<Rightarrow> openRequest \<Rightarrow> entryConn \<Rightarrow> 'k server \<Rightarrow> 'k server \<times> entryConn \<times> handled" where
  "handle_reverse env h user req conn s =
     (case registerReverseControl env conn req user (h_requestID h) s of
        (s, conn, Some err) \<Rightarrow>
          (let s = s\<lparr>sv_policyRejected := sv_policyRejected s + 1\<rparr>; message = error_text err; resp = refused ''reverse_failed'' message;
               s = recordEvent env 3 ((request_event (h_requestID h) ''reverse_listen'' ''failed'' (h_remoteIP h) req)
                     \<lparr>ev_ListenAddr := req_ListenAddr req, ev_Code := ''reverse_failed'', ev_Message := message\<rparr>) s;
               s = recordRequest env 4 h req ''failed'' ''ok'' resp s
           in (s, fst (reply env resp conn), Closed))
      | (s, conn, None) \<Rightarrow>
          (let (s, credKey) = on_cred (activeCredentialPublicKey (se_cred env) (se_now env 20) (se_now env 21)) s
           in (recordRequest env 4 h req ''ok'' ''ok'' ((accepted ''reverse listen activated'')\<lparr>resp_CredentialKey := credKey\<rparr>) s,
               conn, ControlRunning)))"

definition handle_reverse_stream ::
    "('k, 'p) server_env \<Rightarrow> handling \<Rightarrow> userConfig \<Rightarrow> openRequest \<Rightarrow> entryConn \<Rightarrow> 'k server \<Rightarrow> 'k server \<times> entryConn \<times> handled" where
  "handle_reverse_stream env h user req conn s =
     (case registerReverseStream env conn req user s of
        (s, conn, Inl err) \<Rightarrow>
          (let (s, code) = (if errors_Is err errUserStreamLimit then (s, ''user_stream_limit'')
                            else (s\<lparr>sv_dialFailed := sv_dialFailed s + 1\<rparr>, ''reverse_failed''));
               message = error_text err; resp = refused code message;
               s = recordFlowTrafficLog env 2 ((flowTrafficEntry (h_requestID h) ''stream_failed'' ''reverse_stream'' ''failed'' (h_remoteIP h) req)
                     \<lparr>fte_Code := code, fte_Message := message, fte_Abnormal := True\<rparr>) s;
               s = recordEvent env 3 ((request_event (h_requestID h) ''reverse_stream'' ''failed'' (h_remoteIP h) req)
                     \<lparr>ev_ListenAddr := req_ListenAddr req, ev_Code := code, ev_Message := message\<rparr>) s;
               s = recordRequest env 4 h req ''failed'' ''ok'' resp s
           in (s, fst (reply env resp conn), Closed))
      | (s, conn, Inr inbound) \<Rightarrow> (recordRequest env 4 h req ''ok'' ''ok'' (accepted ''connected'') s, conn, StreamRunning inbound))"

definition handle_open_refused ::
    "('k, 'p) server_env \<Rightarrow> handling \<Rightarrow> openRequest \<Rightarrow> string \<Rightarrow> string \<Rightarrow> string \<Rightarrow> string \<Rightarrow> entryConn \<Rightarrow> 'k server \<Rightarrow> 'k server \<times> entryConn" where
  \<comment> \<open>the common end of the refusals of an open request that has passed the policy: flow log, event, request log, reply\<close>
  "handle_open_refused env h req event result code message conn s =
     (let resp = refused code message;
          s = recordFlowTrafficLog env 2 ((flowTrafficEntry (h_requestID h) event ''open'' (if result = ''denied'' then ''rejected'' else result) (h_remoteIP h) req)
                \<lparr>fte_Code := code, fte_Message := message, fte_Abnormal := True\<rparr>) s;
          s = recordEvent env 3 ((request_event (h_requestID h) ''open'' result (h_remoteIP h) req)\<lparr>ev_Code := code, ev_Message := message\<rparr>) s;
          s = recordRequest env 4 h req result ''ok'' resp s
      in (s, fst (reply env resp conn)))"

definition handle_stream ::
    "('k, 'p) server_env \<Rightarrow> handling \<Rightarrow> openRequest \<Rightarrow> entryConn \<Rightarrow> 'k server \<Rightarrow> 'k server \<times> entryConn" where
  \<comment> \<open>the open request with its target connected\<close>
  "handle_stream env h req conn s =
     (let (s, credKey) = on_cred (activeCredentialPublicKey (se_cred env) (se_now env 12) (se_now env 13)) s;
          resp = serverVersionResponse (zero_response\<lparr>resp_OK := True, resp_Code := ''ok'', resp_Message := ''connected'', resp_CredentialKey := credKey\<rparr>);
          s = recordRequest env 4 h req ''ok'' ''ok'' resp s
      in case reply env resp conn of
           (conn, Some err) \<Rightarrow> (s, conn)
         | (conn, None) \<Rightarrow>
            (let s = begin_stream s;
                 s = recordEvent env 16 ((request_event (h_requestID h) ''open'' ''connected'' (h_remoteIP h) req)\<lparr>ev_Code := ''ok''\<rparr>) s;
                 (s, targetToClient, clientToTarget) = proxy_pair env s;
                 durationMS = milliseconds (se_now env 17 - se_now env 15);
                 s = recordFlowTrafficLog env 18 ((flowTrafficEntry (h_requestID h) ''stream_closed'' ''open'' ''closed'' (h_remoteIP h) req)
                       \<lparr>fte_Code := ''closed'', fte_DurationMS := durationMS, fte_BytesUp := clientToTarget, fte_BytesDown := targetToClient\<rparr>) s;
                 s = recordEvent env 19 ((request_event (h_requestID h) ''open'' ''closed'' (h_remoteIP h) req)
                       \<lparr>ev_Code := ''closed'', ev_DurationMS := durationMS, ev_BytesUp := clientToTarget, ev_BytesDown := targetToClient\<rparr>) s
             in (end_stream s, conn)))"

definition handle_open ::
    "('k, 'p) server_env \<Rightarrow> handling \<Rightarrow> userConfig \<Rightarrow> openRequest \<Rightarrow> entryConn \<Rightarrow> 'k server \<Rightarrow> 'k server \<times> entryConn" where
  "handle_open env h user req conn s =
     (case authorizeOpen (cfg_Forwards (sv_cfg s)) (usr_Username user) (req_Direction req) (req_Target req) of
        Some err \<Rightarrow>
          (let s = s\<lparr>sv_policyRejected := sv_policyRejected s + 1\<rparr>; message = error_text err; resp = refused ''target_denied'' message;
               s = recordEvent env 3 ((request_event (h_requestID h) ''open'' ''denied'' (h_remoteIP h) req)
                     \<lparr>ev_Code := ''target_denied'', ev_Message := message\<rparr>) s;
               s = recordRequest env 4 h req ''denied'' ''ok'' resp s
           in (s, fst (reply env resp conn)))
      | None \<Rightarrow>
         (case acquireStream (req_Username req) s of
            (s, _, False) \<Rightarrow>
              handle_open_refused env h req ''stream_rejected'' ''denied'' ''user_stream_limit'' (error_text errUserStreamLimit) conn
                (s\<lparr>sv_userStreamLimitRejected := sv_userStreamLimitRejected s + 1\<rparr>)
          | (s, release, True) \<Rightarrow>
             (let s = s\<lparr>sv_dialled := sv_dialled s @ [req_Target req]\<rparr>;
                  (s, conn) = (case se_dial env (req_Target req) of
                      Some err \<Rightarrow>
                        if sv_ctxDone s then (s, conn)
                        else handle_open_refused env h req ''stream_failed'' ''failed'' ''target_unreachable'' ''target service is unreachable'' conn
                               (s\<lparr>sv_dialFailed := sv_dialFailed s + 1\<rparr>)
                    | None \<Rightarrow> handle_stream env h req conn s)
              in (releaseLease release s, conn))))"

definition handle_login ::
    "('k, 'p) server_env \<Rightarrow> handling \<Rightarrow> openRequest \<Rightarrow> entryConn \<Rightarrow> 'k server \<Rightarrow> 'k server \<times> entryConn" where
  "handle_login env h req conn s =
     (let (s, credKey) = on_cred (activeCredentialPublicKey (se_cred env) (se_now env 12) (se_now env 13)) s;
          resp = (accepted ''login verified'')\<lparr>resp_CredentialKey := credKey\<rparr>;
          s = recordEvent env 3 (zeroEvent\<lparr>ev_RequestID := h_requestID h, ev_Kind := ''login'', ev_Result := ''ok'',
                ev_RemoteIP := h_remoteIP h, ev_Username := req_Username req, ev_ClientID := req_ClientID req, ev_Code := ''ok''\<rparr>) s;
          s = recordRequest env 4 h req ''ok'' ''ok'' resp s
      in (s, fst (reply env resp conn)))"

definition handle_forward_check ::
    "('k, 'p) server_env \<Rightarrow> handling \<Rightarrow> userConfig \<Rightarrow> openRequest \<Rightarrow> entryConn \<Rightarrow> 'k server \<Rightarrow> 'k server \<times> entryConn" where
  "handle_forward_check env h user req conn s =
     (case authorizeForwardCheck (cfg_Forwards (sv_cfg s)) (sv_configuredReverse s) (usr_Username user) (req_Direction req)
             (req_Target req) (req_ListenAddr req) of
        Some err \<Rightarrow>
          (let resp = refused ''target_denied'' (error_text err)
           in (recordRequest env 4 h req ''denied'' ''ok'' resp s, fst (reply env resp conn)))
      | None \<Rightarrow> (recordRequest env 4 h req ''ok'' ''ok'' (accepted ''forward allowed'') s, fst (reply env (accepted ''forward allowed'') conn)))"

definition handle_authenticated ::
    "('k, 'p) server_env \<Rightarrow> handling \<Rightarrow> userConfig \<Rightarrow> openRequest \<Rightarrow> entryConn \<Rightarrow> 'k server \<Rightarrow> 'k server \<times> entryConn \<times> handled" where
  "handle_authenticated env h user req conn s =
     (if req_Type req = ''health''
      then (recordRequest env 4 h req ''ok'' ''ok'' (accepted ''server healthy'') s,
            fst (reply env (accepted ''server healthy'') conn), Closed)
      else if req_Type req = ''forward_check''
      then (case handle_forward_check env h user req conn s of (s, conn) \<Rightarrow> (s, conn, Closed))
      else let s = s\<lparr>sv_authOK := sv_authOK s + 1\<rparr>
      in if req_Type req = ''login'' then (case handle_login env h req conn s of (s, conn) \<Rightarrow> (s, conn, Closed))
         else if req_Type req = ''reverse'' \<or> req_Type req = ''reverse_listen'' then handle_reverse env h user req conn s
         else if req_Type req = ''reverse_stream'' then handle_reverse_stream env h user req conn s
         else (case handle_open env h user req conn s of (s, conn) \<Rightarrow> (s, conn, Closed)))"

section \<open>Before authentication\<close>

definition too_many_failures :: string where
  "too_many_failures = ''too many login failures, temporarily blocked; try later''"

definition handle_temporarily_blocked ::
    "('k, 'p) server_env \<Rightarrow> handling \<Rightarrow> entryConn \<Rightarrow> 'k server \<Rightarrow> 'k server \<times> entryConn" where
  "handle_temporarily_blocked env h conn s =
     (let conn = conn\<lparr>ec_in := snd (ReadJSON (se_unmarshal env) (ec_in conn) (sec_MaxHandshakeBytes (cfg_Security (sv_cfg s))))\<rparr>;
          resp = refused ''auth_blocked'' too_many_failures;
          s = recordEvent env 3 (zeroEvent\<lparr>ev_RequestID := h_requestID h, ev_Kind := ''auth'', ev_Result := ''blocked'',
                ev_RemoteIP := h_remoteIP h, ev_Code := ''auth_blocked'', ev_Message := ''too many login failures''\<rparr>) s;
          s = recordRequest env 4 h zero_request ''blocked'' ''blocked'' resp s
      in (s, fst (reply env resp conn)))"

definition handle_auth_failed ::
    "('k, 'p) server_env \<Rightarrow> handling \<Rightarrow> openRequest \<Rightarrow> string \<Rightarrow> string \<Rightarrow> entryConn \<Rightarrow> 'k server \<Rightarrow> 'k server \<times> entryConn" where
  "handle_auth_failed env h req authCode authMessage conn s =
     (let s = s\<lparr>sv_authFailed := sv_authFailed s + 1\<rparr>;
          (s, _) = on_fails (\<lambda>t. (addFailure (fail_env_at env 8) t (h_remoteIP h), ())) s;
          (s, kind) = on_fails (\<lambda>t. blockKind (fail_env_at env 9) t (h_remoteIP h)) s;
          (code, message) = (if kind = BlockedTemporary then (''auth_blocked'', too_many_failures)
                             else if authCode = [] then (''auth_failed'', ''username or password is incorrect'')
                             else (authCode, authMessage));
          result = (if kind = BlockedTemporary then ''blocked'' else ''failed'');
          resp = refused code message;
          s = recordEvent env 3 ((request_event (h_requestID h) ''auth'' result (h_remoteIP h) req)
                \<lparr>ev_ListenAddr := req_ListenAddr req, ev_Code := code, ev_Message := message\<rparr>) s;
          s = recordRequest env 4 h req result result resp s
      in (s, fst (reply env resp conn)))"

definition request_types :: "string list" where
  "request_types = [''open'', ''login'', ''health'', ''forward_check'', ''reverse'', ''reverse_listen'', ''reverse_stream'']"

text \<open>A panic of \<open>passwordFromRequest\<close> ends the process.\<close>

definition handle_request ::
    "('k, 'p) server_env \<Rightarrow> handling \<Rightarrow> openRequest \<Rightarrow> entryConn \<Rightarrow> 'k server \<Rightarrow> ('k server \<times> entryConn \<times> handled) outcome" where
  "handle_request env h req conn s =
     (if req_Type req \<notin> set request_types
      then (case rejectEntryProtocol env 3 (Some conn) (h_remoteIP h) (h_requestID h) entryCodeUnsupportedRequest ''unsupported request'' False
                   (milliseconds (se_now env 103 - h_started h)) s of (s, conn) \<Rightarrow> Returned (s, the conn, Closed))
      else case checkRequestCompatibility (cfg_Compatibility (sv_cfg s)) req of
        Some resp \<Rightarrow>
          (let s = recordEvent env 3 ((request_event (h_requestID h) ''compatibility'' ''rejected'' (h_remoteIP h) req)
                     \<lparr>ev_ListenAddr := req_ListenAddr req, ev_Code := resp_Code resp, ev_Message := resp_Message resp\<rparr>) s;
               s = recordRequest env 4 h req ''rejected'' ''not_attempted'' resp s
           in Returned (s, fst (reply env resp conn), Closed))
      | None \<Rightarrow>
         (case on_cred (passwordFromRequest (se_cred env) (se_now env 5) (se_now env 6) (se_now env 7) req) s of
            (s, Panicked p) \<Rightarrow> Panicked p
          | (s, Returned (password, authCode, authMessage)) \<Rightarrow>
             (case map_of (sv_users s) (req_Username req) of
                None \<Rightarrow> (case handle_auth_failed env h req authCode authMessage conn s of (s, conn) \<Rightarrow> Returned (s, conn, Closed))
              | Some user \<Rightarrow>
                 if usr_Disabled user \<or> authCode \<noteq> []
                    \<or> \<not> VerifyPassword (se_kdf env) (se_sha256 env) password (usr_PasswordHash user)
                 then (case handle_auth_failed env h req authCode authMessage conn s of (s, conn) \<Rightarrow> Returned (s, conn, Closed))
                 else Returned (handle_authenticated env h user req conn s))))"

definition handle_unblocked ::
    "('k, 'p) server_env \<Rightarrow> handling \<Rightarrow> entryConn \<Rightarrow> 'k server \<Rightarrow> ('k server \<times> entryConn \<times> handled) outcome" where
  "handle_unblocked env h conn s =
     (case ReadJSON (se_unmarshal env) (ec_in conn) (sec_MaxHandshakeBytes (cfg_Security (sv_cfg s))) of
        (Inl err, r) \<Rightarrow>
          if sv_ctxDone s then Returned (s, conn\<lparr>ec_in := r\<rparr>, Closed)
          else (case rejectEntryProtocol env 3 (Some (conn\<lparr>ec_in := r\<rparr>)) (h_remoteIP h) (h_requestID h) (classifyEntryReadError (Some err))
                       ''invalid tunnel request'' True (milliseconds (se_now env 103 - h_started h)) s of
                  (s, conn) \<Rightarrow> Returned (s, the conn, Closed))
      | (Inr req, r) \<Rightarrow> handle_request env h req (conn\<lparr>ec_in := r\<rparr>) s)"

definition handling_of :: "('k, 'p) server_env \<Rightarrow> string \<Rightarrow> entryConn \<Rightarrow> handling" where
  "handling_of env requestID conn = \<lparr>h_requestID = requestID, h_started = se_now env 1, h_remoteIP = remoteHost (ec_remoteAddr conn),
     h_remoteAddr = addrString (ec_remoteAddr conn), h_localAddr = addrString (ec_localAddr conn)\<rparr>"

definition finish_conn :: "'k server \<times> entryConn \<times> handled \<Rightarrow> 'k server \<times> entryConn \<times> handled" where
  \<comment> \<open>the deferred close\<close>
  "finish_conn r = (case r of (s, conn, Closed) \<Rightarrow> (s, conn_close conn, Closed) | _ \<Rightarrow> r)"

definition handleConn ::
    "('k, 'p) server_env \<Rightarrow> entryConn \<Rightarrow> 'k server \<Rightarrow> ('k server \<times> entryConn \<times> handled) outcome" where
  "handleConn env conn s =
     (let (seq, requestID) = nextRequestID (ce_tz (se_cred env)) (se_now env 0) (sv_requestSeq s);
          s = s\<lparr>sv_requestSeq := seq\<rparr>; h = handling_of env requestID conn;
          (s, kind) = on_fails (\<lambda>t. blockKind (fail_env_at env 2) t (h_remoteIP h)) s
      in case (case kind of
                 BlockedPermanent \<Rightarrow> Returned (recordPermanentBlockedHit env 3 (h_remoteIP h) s, conn, Closed)
               | BlockedTemporary \<Rightarrow> (case handle_temporarily_blocked env h conn s of (s, conn) \<Rightarrow> Returned (s, conn, Closed))
               | BlockedNone \<Rightarrow> handle_unblocked env h conn s) of
           Panicked p \<Rightarrow> Panicked p
         | Returned r \<Rightarrow> Returned (finish_conn r))"

section \<open>Accepting a connection\<close>

text \<open>
  The part of \<open>acceptLoop\<close> that decides about one connection. The result is the closure that gives
  its place back, or \<open>None\<close> when the connection is closed at once.
\<close>

definition accept_decision ::
    "('k, 'p) server_env \<Rightarrow> ((string \<times> connectionLimitState) list \<Rightarrow> (string \<times> connectionLimitState) list)
     \<Rightarrow> entryConn \<Rightarrow> 'k server \<Rightarrow> 'k server \<times> release_fn option" where
  "accept_decision env rng conn s =
     (let remoteIP = remoteHost (ec_remoteAddr conn);
          (s, kind) = on_fails (\<lambda>t. blockKind (fail_env_at env 30) t remoteIP) s
      in if kind = BlockedPermanent then (recordPermanentBlockedHit env 31 remoteIP s, None)
         else (case connAcquire rng (se_now env 32) (sv_conns s) remoteIP of
           (l, release, ok, reason) \<Rightarrow>
             (let s = s\<lparr>sv_conns := l\<rparr>
              in if ok then (s, Some release)
                 else (let s = s\<lparr>sv_reject := recordConnectionRejected reason (sv_reject s)\<rparr>;
                           (lim, windowSec) = connectionRejectLimit (cfg_Security (sv_cfg s)) reason
                       in (recordEntryTrafficLog env 33 (zero_entry\<lparr>ete_Event := ''connection_rejected'', ete_Result := ''rejected'',
                             ete_RemoteAddr := addrString (ec_remoteAddr conn), ete_RemoteIP := remoteIP,
                             ete_LocalAddr := addrString (ec_localAddr conn), ete_Code := reason,
                             ete_Message := ''entry connection limit reached'', ete_Abnormal := True,
                             ete_Limit := lim, ete_WindowSec := windowSec\<rparr>) s, None)))))"

text \<open>
  \<open>handleAcceptedConn\<close>: the certificate gate on the raw connection, the TLS handshake, then the
  handler on the connection it yields. \<open>gate\<close> is \<open>ServerCertificateGate\<close> with its key, nonce and MAC, here with the
  prefix that the peeking connection has remembered; \<open>tls\<close> is the handshake: an error with the prefix
  seen since the gate, or the connection inside.
\<close>

definition handleAcceptedConn ::
    "('k, 'p) server_env \<Rightarrow> (entryConn \<Rightarrow> entryConn \<times> go_error option \<times> string) \<Rightarrow> (entryConn \<Rightarrow> (go_error \<times> string) + entryConn)
     \<Rightarrow> time \<Rightarrow> entryConn \<Rightarrow> 'k server \<Rightarrow> ('k server \<times> entryConn \<times> handled) outcome" where
  "handleAcceptedConn env gate tls acceptedAt conn s =
     (let remoteIP = remoteHost (ec_remoteAddr conn)
      in case gate conn of
           (conn, Some err, prefix) \<Rightarrow>
             if sv_ctxDone s then Returned (s, conn_close conn, Closed)
             else Returned (fst (rejectEntryProtocol env 34 (Some conn) remoteIP [] (classifyEntryCertificateGateError (Some err) prefix) [] True
                    (milliseconds (se_now env 35 - acceptedAt)) s), conn_close conn, Closed)
         | (conn, None, _) \<Rightarrow>
            (case tls conn of
               Inl (err, prefix) \<Rightarrow>
                 if sv_ctxDone s then Returned (s, conn_close conn, Closed)
                 else Returned (fst (rejectEntryProtocol env 34 (Some conn) remoteIP [] (classifyEntryHandshakeError (Some err) prefix) [] True
                        (milliseconds (se_now env 35 - acceptedAt)) s), conn_close conn, Closed)
             | Inr tlsConn \<Rightarrow> handleConn env tlsConn s))"

text \<open>The gate of the code: what it consumed of the input is what the peeking connection read.\<close>

definition certificate_gate ::
    "(string \<Rightarrow> string \<Rightarrow> string) \<Rightarrow> string res \<Rightarrow> string \<Rightarrow> entryConn \<Rightarrow> entryConn \<times> go_error option \<times> string" where
  "certificate_gate hmac nonce key conn =
     (case ServerCertificateGate hmac nonce key (Some \<lparr>cn_in = ec_in conn, cn_w = ec_w conn\<rparr>) of
        (None, err) \<Rightarrow> (conn, err, [])
      | (Some c, err) \<Rightarrow> (conn\<lparr>ec_in := cn_in c, ec_w := cn_w c\<rparr>, err,
                          take 16 (take (length (ec_in conn) - length (cn_in c)) (ec_in conn))))"

end
