(* ===== verification/Handler_Laws.thy ===== *)
theory Handler_Laws
  imports Server_Handler
begin

text \<open>
  What the request handler of \<open>server/tunnel/server.go\<close> guarantees: no dialling, listening or stream
  without authentication and authorization, balanced leases, at most one answer, and what it counts.
\<close>

section \<open>What recording leaves alone\<close>

text \<open>The part of the server that is not written by logs, events, the failure tracker and the credential keys.\<close>

definition frame :: "'k server \<Rightarrow> _" where
  "frame s = ((sv_cfg s, sv_users s, sv_listeners s, sv_revs s, sv_controls s, sv_configuredReverse s, sv_conns s, sv_streams s),
     (sv_reject s, sv_activeStreams s, sv_totalStreams s, sv_userStreamLimitRejected s, sv_authOK s, sv_authFailed s),
     (sv_policyRejected s, sv_dialFailed s, sv_bytesUp s, sv_bytesDown s, sv_ctxDone s, sv_closing s),
     (sv_dialled s, sv_listened s, sv_inboundClosed s))"

lemma svlog_frame: "frame (svlog l s) = frame s"
  by (simp add: svlog_def frame_def)

lemma on_fails_frame: "frame (fst (on_fails f s)) = frame s"
  by (simp add: on_fails_def frame_def split: prod.splits)

lemma on_cred_frame: "frame (fst (on_cred f s)) = frame s"
  by (simp add: on_cred_def frame_def split: prod.splits)

lemma write_log_frame: "frame (fst (write_log env i label failure data l s)) = frame s"
  by (auto simp: write_log_def Let_def svlog_frame split: sum.splits prod.splits option.splits)
     (auto simp: frame_def svlog_def)

lemma recordRequestLog_frame: "frame (recordRequestLog env i entry s) = frame s"
  using write_log_frame [of env i] by (auto simp: recordRequestLog_def Let_def split_beta frame_def)

lemma recordBusinessLog_frame: "frame (recordBusinessLog env i entry s) = frame s"
  using write_log_frame [of env i] by (auto simp: recordBusinessLog_def Let_def split_beta frame_def)

lemma writeEntryTrafficLog_frame: "frame (writeEntryTrafficLog env i entry s) = frame s"
  using write_log_frame [of env i] by (auto simp: writeEntryTrafficLog_def Let_def split_beta frame_def)

lemma recordEntryTrafficLog_frame: "frame (recordEntryTrafficLog env i entry s) = frame s"
  by (simp add: recordEntryTrafficLog_def Let_def writeEntryTrafficLog_frame) (simp add: frame_def)

lemma recordFlowTrafficLog_frame: "frame (recordFlowTrafficLog env i entry s) = frame s"
  using write_log_frame [of env i] by (auto simp: recordFlowTrafficLog_def Let_def split_beta frame_def)

lemma recordEvent_frame: "frame (recordEvent env i ev s) = frame s"
proof -
  have "frame (recordBusinessLogFromEvent env i ev s) = frame s" for ev and s :: "'a server"
    by (simp add: recordBusinessLogFromEvent_def recordBusinessLog_frame split: option.split)
  moreover have "frame (eventRing s) = frame s" by (simp add: eventRing_def frame_def)
  moreover have "frame (s\<lparr>sv_events := r\<rparr>) = frame s" for r and s :: "'a server" by (simp add: frame_def)
  ultimately show ?thesis by (simp add: recordEvent_def Let_def svlog_frame)
qed

lemma recordRequest_frame: "frame (recordRequest env i h req result auth resp s) = frame s"
  by (simp add: recordRequest_def recordRequestLog_frame)

lemma recordPermanentBlockedHit_frame: "frame (recordPermanentBlockedHit env i ip s) = frame s"
proof -
  have "frame (s\<lparr>sv_entry := c\<rparr>) = frame s" "frame (s\<lparr>sv_hits := a\<rparr>) = frame s" for c a and s :: "'a server"
    by (simp_all add: frame_def)
  then show ?thesis by (simp add: recordPermanentBlockedHit_def Let_def recordEntryTrafficLog_frame)
qed

lemmas recording_frame = svlog_frame on_fails_frame on_cred_frame recordEvent_frame recordRequest_frame
  recordFlowTrafficLog_frame recordEntryTrafficLog_frame recordPermanentBlockedHit_frame

lemmas frame_fields = recording_frame [unfolded frame_def prod.inject]

declare frame_fields [simp]

lemma rejectEntryProtocol_fields:
  "rejectEntryProtocol env i conn ip rid code msg authFailed ms s = (s', conn') \<Longrightarrow>
   sv_dialled s' = sv_dialled s \<and> sv_listened s' = sv_listened s \<and> sv_streams s' = sv_streams s \<and> sv_activeStreams s' = sv_activeStreams s
   \<and> sv_cfg s' = sv_cfg s \<and> sv_users s' = sv_users s"
  by (auto simp: rejectEntryProtocol_def Let_def split_beta)

section \<open>Authorization before action\<close>

text \<open>A request that the server has authenticated: the address is not blocked, the request was read and is
  compatible, its user exists and is enabled, and the password the request yields verifies.\<close>

definition authenticated ::
    "('k, 'p) server_env \<Rightarrow> entryConn \<Rightarrow> 'k server \<Rightarrow> openRequest \<Rightarrow> userConfig \<Rightarrow> bool" where
  "authenticated env conn s req user \<longleftrightarrow>
     snd (blockKind (fail_env_at env 2) (sv_fails s, sv_files s) (remoteHost (ec_remoteAddr conn))) = BlockedNone
     \<and> fst (ReadJSON (se_unmarshal env) (ec_in conn) (sec_MaxHandshakeBytes (cfg_Security (sv_cfg s)))) = Inr req
     \<and> req_Type req \<in> set request_types
     \<and> checkRequestCompatibility (cfg_Compatibility (sv_cfg s)) req = None
     \<and> map_of (sv_users s) (req_Username req) = Some user \<and> \<not> usr_Disabled user
     \<and> (\<exists>password message.
          snd (passwordFromRequest (se_cred env) (se_now env 5) (se_now env 6) (se_now env 7) req
                (sv_cred s, snd (fst (blockKind (fail_env_at env 2) (sv_fails s, sv_files s) (remoteHost (ec_remoteAddr conn))))))
            = Returned (password, [], message)
          \<and> VerifyPassword (se_kdf env) (se_sha256 env) password (usr_PasswordHash user))"

text \<open>What a handler may do to the network.\<close>

definition may_reverse :: "'k server \<Rightarrow> userConfig \<Rightarrow> openRequest \<Rightarrow> bool" where
  "may_reverse s user req \<longleftrightarrow>
     isConfiguredReverseListener (sv_configuredReverse s) (TrimSpace (req_ListenAddr req))
     \<and> authorizeReverse (cfg_Forwards (sv_cfg s)) (usr_Username user) (TrimSpace (req_ListenAddr req)) = None"

definition may_act :: "'k server \<Rightarrow> userConfig \<Rightarrow> openRequest \<Rightarrow> 'k server \<Rightarrow> handled \<Rightarrow> bool" where
  "may_act s user req s' r \<longleftrightarrow>
     (sv_dialled s' = sv_dialled s
      \<or> sv_dialled s' = sv_dialled s @ [req_Target req] \<and> req_Type req = ''open''
        \<and> authorizeOpen (cfg_Forwards (sv_cfg s)) (usr_Username user) (req_Direction req) (req_Target req) = None)
     \<and> (sv_listened s' = sv_listened s
        \<or> sv_listened s' = sv_listened s @ [TrimSpace (req_ListenAddr req)] \<and> req_Type req \<in> {''reverse'', ''reverse_listen''} \<and> may_reverse s user req)
     \<and> (r = Closed \<or> req_Type req \<in> {''reverse'', ''reverse_listen'', ''reverse_stream''} \<and> may_reverse s user req)"

lemma reply_fst [simp]: "ec_in (fst (reply env resp c)) = ec_in c" "ec_closed (fst (reply env resp c)) = ec_closed c"
  by (simp_all add: reply_def split: prod.split)

lemma proxy_pair_fields:
  "proxy_pair env s = (s', a, b) \<Longrightarrow> sv_dialled s' = sv_dialled s \<and> sv_listened s' = sv_listened s \<and> sv_streams s' = sv_streams s
   \<and> sv_activeStreams s' = sv_activeStreams s \<and> sv_cfg s' = sv_cfg s"
  by (auto simp: proxy_pair_def split: prod.splits)

lemma begin_end_fields [simp]:
  "sv_dialled (begin_stream s) = sv_dialled s" "sv_listened (begin_stream s) = sv_listened s" "sv_streams (begin_stream s) = sv_streams s"
  "sv_dialled (end_stream s) = sv_dialled s" "sv_listened (end_stream s) = sv_listened s" "sv_streams (end_stream s) = sv_streams s"
  "sv_dialled (releaseLease f s) = sv_dialled s" "sv_listened (releaseLease f s) = sv_listened s"
  "sv_dialled (close_inbound p s) = sv_dialled s" "sv_listened (close_inbound p s) = sv_listened s"
  "sv_streams (close_inbound p s) = sv_streams s"
  by (simp_all add: begin_stream_def end_stream_def releaseLease_def close_inbound_def split: release_fn.split)

lemma handle_stream_net: "handle_stream env h req conn s = (s', conn') \<Longrightarrow> sv_dialled s' = sv_dialled s \<and> sv_listened s' = sv_listened s"
  by (auto simp: handle_stream_def Let_def split_beta proxy_pair_def split: prod.splits option.splits)

lemma handle_open_refused_net:
  "handle_open_refused env h req ev res code msg conn s = (s', conn') \<Longrightarrow> sv_dialled s' = sv_dialled s \<and> sv_listened s' = sv_listened s"
  by (auto simp: handle_open_refused_def Let_def)

lemma acquireStream_fields [simp]:
  "sv_dialled (fst (acquireStream u s)) = sv_dialled s" "sv_listened (fst (acquireStream u s)) = sv_listened s"
  "sv_cfg (fst (acquireStream u s)) = sv_cfg s" "sv_ctxDone (fst (acquireStream u s)) = sv_ctxDone s"
  by (simp_all add: acquireStream_def split: prod.split)

lemma acquireStream_net: "acquireStream u s = (s', f, ok) \<Longrightarrow> sv_dialled s' = sv_dialled s \<and> sv_listened s' = sv_listened s"
  by (auto simp: acquireStream_def split: prod.splits)

lemma handle_open_net:
  assumes "handle_open env h user req conn s = (s', conn')"
  shows "sv_listened s' = sv_listened s \<and>
    (sv_dialled s' = sv_dialled s \<or> sv_dialled s' = sv_dialled s @ [req_Target req]
      \<and> authorizeOpen (cfg_Forwards (sv_cfg s)) (usr_Username user) (req_Direction req) (req_Target req) = None)"
proof (cases "authorizeOpen (cfg_Forwards (sv_cfg s)) (usr_Username user) (req_Direction req) (req_Target req)")
  case (Some err)
  with assms show ?thesis by (auto simp: handle_open_def Let_def)
next
  case None
  obtain s1 f ok where a: "acquireStream (req_Username req) s = (s1, f, ok)" by (metis prod.exhaust)
  note n = acquireStream_net [OF a]
  show ?thesis
  proof (cases ok)
    case False
    with assms None a n handle_open_refused_net show ?thesis by (fastforce simp: handle_open_def)
  next
    case True
    let ?s2 = "s1\<lparr>sv_dialled := sv_dialled s1 @ [req_Target req]\<rparr>"
    obtain s3 c3 where d: "(case se_dial env (req_Target req) of
                      Some err \<Rightarrow>
                        if sv_ctxDone ?s2 then (?s2, conn)
                        else handle_open_refused env h req ''stream_failed'' ''failed'' ''target_unreachable'' ''target service is unreachable'' conn
                               (?s2\<lparr>sv_dialFailed := sv_dialFailed ?s2 + 1\<rparr>)
                    | None \<Rightarrow> handle_stream env h req conn ?s2) = (s3, c3)"
      by (metis prod.exhaust)
    have "sv_dialled s3 = sv_dialled ?s2 \<and> sv_listened s3 = sv_listened ?s2"
      using d handle_stream_net handle_open_refused_net by (fastforce split: option.splits if_splits)
    moreover have "s' = releaseLease f s3" using assms None a True d by (simp add: handle_open_def)
    ultimately show ?thesis using n None by simp
  qed
qed

lemma upd_rev_fields [simp]:
  "sv_dialled (upd_rev rl f s) = sv_dialled s" "sv_listened (upd_rev rl f s) = sv_listened s"
  "sv_streams (upd_rev rl f s) = sv_streams s" "sv_activeStreams (upd_rev rl f s) = sv_activeStreams s"
  by (simp_all add: upd_rev_def on_rev_def)

lemma on_rev_fields:
  "on_rev rl f s = (s', r) \<Longrightarrow> sv_dialled s' = sv_dialled s \<and> sv_listened s' = sv_listened s \<and> sv_streams s' = sv_streams s
   \<and> sv_activeStreams s' = sv_activeStreams s"
  by (auto simp: on_rev_def split: prod.splits)

lemma closeIdle_fields [simp]:
  "sv_dialled (closeReverseListenerIfIdle env rl s) = sv_dialled s" "sv_listened (closeReverseListenerIfIdle env rl s) = sv_listened s"
  "sv_streams (closeReverseListenerIfIdle env rl s) = sv_streams s"
  "sv_activeStreams (closeReverseListenerIfIdle env rl s) = sv_activeStreams s"
  by (simp_all add: closeReverseListenerIfIdle_def Let_def)

lemma ensureReverseListener_fields:
  "ensureReverseListener env addr s = (s', r) \<Longrightarrow>
   sv_dialled s' = sv_dialled s \<and> (sv_listened s' = sv_listened s \<or> sv_listened s' = sv_listened s @ [addr])
   \<and> sv_streams s' = sv_streams s \<and> sv_activeStreams s' = sv_activeStreams s"
  by (auto simp: ensureReverseListener_def Let_def split: option.splits if_splits)

text \<open>Registering a control: the address is listened on only after the checks.\<close>

lemma registerReverseControl_net:
  assumes "registerReverseControl env conn req user rid s = (s', conn', err)"
  shows "sv_dialled s' = sv_dialled s \<and> sv_streams s' = sv_streams s \<and> sv_activeStreams s' = sv_activeStreams s \<and>
    (sv_listened s' = sv_listened s \<and> (err \<noteq> None \<or> may_reverse s user req)
     \<or> sv_listened s' = sv_listened s @ [TrimSpace (req_ListenAddr req)] \<and> may_reverse s user req)"
proof -
  let ?addr = "TrimSpace (req_ListenAddr req)"
  show ?thesis
  proof (cases "?addr = [] \<or> TrimSpace (req_Target req) = [] \<or> \<not> isConfiguredReverseListener (sv_configuredReverse s) ?addr
      \<or> authorizeReverse (cfg_Forwards (sv_cfg s)) (usr_Username user) ?addr \<noteq> None")
    case True
    with assms show ?thesis
      by (auto simp: registerReverseControl_def Let_def refuse_def split: if_splits option.splits) (metis)
  next
    case False
    then have may: "may_reverse s user req" by (simp add: may_reverse_def)
    obtain s1 r where e: "ensureReverseListener env ?addr s = (s1, r)" by (metis prod.exhaust)
    note f1 = ensureReverseListener_fields [OF e]
    show ?thesis
    proof (cases r)
      case (Inl err)
      with assms False e f1 may show ?thesis by (auto simp: registerReverseControl_def)
    next
      case (Inr rl)
      let ?c = "length (sv_controls s1)"
      let ?s2 = "s1\<lparr>sv_controls := sv_controls s1 @ [\<lparr>rct_requestID = rid, rct_username = req_Username req,
                          rct_clientID = req_ClientID req, rct_forwardName = req_ForwardName req, rct_target = req_Target req\<rparr>]\<rparr>"
      obtain s3 ok where a: "on_rev rl (addControl ?c) ?s2 = (s3, ok)" by (metis prod.exhaust)
      have f3: "sv_dialled s3 = sv_dialled s1" "sv_listened s3 = sv_listened s1" "sv_streams s3 = sv_streams s1"
        "sv_activeStreams s3 = sv_activeStreams s1" using on_rev_fields [OF a] by auto
      obtain s4 k where c: "on_cred (activeCredentialPublicKey (se_cred env) (se_now env 12) (se_now env 13)) s3 = (s4, k)" by (metis prod.exhaust)
      have f4: "sv_dialled s4 = sv_dialled s3" "sv_listened s4 = sv_listened s3" "sv_streams s4 = sv_streams s3"
        "sv_activeStreams s4 = sv_activeStreams s3"
        using on_cred_frame [of "activeCredentialPublicKey (se_cred env) (se_now env 12) (se_now env 13)" s3] by (simp_all add: c frame_def)
      have "sv_dialled s' = sv_dialled s1 \<and> sv_listened s' = sv_listened s1 \<and> sv_streams s' = sv_streams s1 \<and> sv_activeStreams s' = sv_activeStreams s1"
        using assms False e Inr a c f3 f4
        by (auto simp: registerReverseControl_def Let_def split: bool.splits prod.splits option.splits if_splits)
      with f1 may show ?thesis by auto
    qed
  qed
qed

lemma registerReverseStream_net:
  assumes "registerReverseStream env conn req user s = (s', conn', r)"
  shows "sv_dialled s' = sv_dialled s \<and> sv_listened s' = sv_listened s \<and> (\<not> isl r \<longrightarrow> may_reverse s user req)"
proof -
  let ?addr = "TrimSpace (req_ListenAddr req)" and ?id = "TrimSpace (req_StreamID req)"
  show ?thesis
  proof (cases "?addr = [] \<or> ?id = [] \<or> \<not> isConfiguredReverseListener (sv_configuredReverse s) ?addr
      \<or> authorizeReverse (cfg_Forwards (sv_cfg s)) (usr_Username user) ?addr \<noteq> None \<or> find_reverseListener ?addr s = None")
    case True
    with assms show ?thesis
      by (auto simp: registerReverseStream_def Let_def split: if_splits option.splits)
  next
    case False
    then have may: "may_reverse s user req" by (simp add: may_reverse_def)
    from False obtain rl where rl: "find_reverseListener ?addr s = Some rl" by auto
    obtain s1 po where t: "on_rev rl (takePending ?id) s = (s1, po)" by (metis prod.exhaust)
    note f1 = on_rev_fields [OF t]
    show ?thesis
    proof (cases po)
      case None
      with assms False rl t f1 may show ?thesis by (auto simp: registerReverseStream_def Let_def)
    next
      case (Some p)
      obtain s2 f ok where a: "acquireStream (req_Username req) s1 = (s2, f, ok)" by (metis prod.exhaust)
      note f2 = acquireStream_net [OF a]
      have "sv_dialled s' = sv_dialled s2 \<and> sv_listened s' = sv_listened s2"
        using assms False rl t Some a
        by (auto simp: registerReverseStream_def Let_def split: bool.splits prod.splits option.splits if_splits)
      with f1 f2 may show ?thesis by simp
    qed
  qed
qed

lemma handle_authenticated_net:
  assumes "handle_authenticated env h user req conn s = (s', conn', r)" and "req_Type req \<in> set request_types"
  shows "may_act s user req s' r"
proof -
  consider "req_Type req = ''health''" | "req_Type req = ''forward_check''" | "req_Type req = ''login''"
    | "req_Type req \<in> {''reverse'', ''reverse_listen''}" | "req_Type req = ''reverse_stream''" | "req_Type req = ''open''"
    using assms(2) by (auto simp: request_types_def)
  then show ?thesis
  proof cases
    case 1
    with assms(1) show ?thesis by (auto simp: handle_authenticated_def may_act_def)
  next
    case 2
    with assms(1) show ?thesis
      by (auto simp: handle_authenticated_def handle_forward_check_def may_act_def Let_def split: option.splits prod.splits)
  next
    case 3
    with assms(1) show ?thesis
      by (auto simp: handle_authenticated_def handle_login_def may_act_def Let_def split_beta)
  next
    case 4
    let ?s = "s\<lparr>sv_authOK := sv_authOK s + 1\<rparr>"
    obtain s1 c1 err where reg: "registerReverseControl env conn req user (h_requestID h) ?s = (s1, c1, err)" by (metis prod.exhaust)
    have m: "may_reverse ?s user req = may_reverse s user req" by (simp add: may_reverse_def)
    from assms(1) 4 have "handle_reverse env h user req conn ?s = (s', conn', r)"
      by (auto simp: handle_authenticated_def Let_def)
    with reg have "sv_dialled s' = sv_dialled s1 \<and> sv_listened s' = sv_listened s1 \<and> (r = Closed \<or> err = None)"
      by (auto simp: handle_reverse_def Let_def split_beta split: option.splits)
    with registerReverseControl_net [OF reg] 4 m show ?thesis by (auto simp: may_act_def)
  next
    case 5
    let ?s = "s\<lparr>sv_authOK := sv_authOK s + 1\<rparr>"
    obtain s1 c1 e where reg: "registerReverseStream env conn req user ?s = (s1, c1, e)" by (metis prod.exhaust)
    have m: "may_reverse ?s user req = may_reverse s user req" by (simp add: may_reverse_def)
    from assms(1) 5 have "handle_reverse_stream env h user req conn ?s = (s', conn', r)"
      by (auto simp: handle_authenticated_def Let_def)
    with reg have "sv_dialled s' = sv_dialled s1 \<and> sv_listened s' = sv_listened s1 \<and> (r = Closed \<or> \<not> isl e)"
      by (auto simp: handle_reverse_stream_def Let_def split_beta split: sum.splits if_splits)
    with registerReverseStream_net [OF reg] 5 m show ?thesis by (auto simp: may_act_def)
  next
    case 6
    let ?s = "s\<lparr>sv_authOK := sv_authOK s + 1\<rparr>"
    obtain s1 c1 where o: "handle_open env h user req conn ?s = (s1, c1)" by (metis prod.exhaust)
    with assms(1) 6 have "s' = s1" "r = Closed" by (auto simp: handle_authenticated_def Let_def)
    with handle_open_net [OF o] 6 show ?thesis by (auto simp: may_act_def)
  qed
qed

lemma handle_auth_failed_net:
  "handle_auth_failed env h req a m conn s = (s', conn') \<Longrightarrow> sv_dialled s' = sv_dialled s \<and> sv_listened s' = sv_listened s"
  by (auto simp: handle_auth_failed_def Let_def split_beta)

lemma rejectEntryProtocol_net:
  "sv_dialled (fst (rejectEntryProtocol env i conn ip rid code msg af ms s)) = sv_dialled s"
  "sv_listened (fst (rejectEntryProtocol env i conn ip rid code msg af ms s)) = sv_listened s"
  by (simp_all add: rejectEntryProtocol_def Let_def split_beta)

lemma quiet_may_act: "sv_dialled s' = sv_dialled s \<Longrightarrow> sv_listened s' = sv_listened s \<Longrightarrow> may_act s user req s' Closed"
  by (simp add: may_act_def)

lemma may_act_cong:
  "sv_dialled s1 = sv_dialled s \<Longrightarrow> sv_listened s1 = sv_listened s \<Longrightarrow> sv_cfg s1 = sv_cfg s \<Longrightarrow>
   sv_configuredReverse s1 = sv_configuredReverse s \<Longrightarrow> may_act s1 user req s' r = may_act s user req s' r"
  by (simp add: may_act_def may_reverse_def)

text \<open>The request part of \<open>authenticated\<close>, for the state in which the request is handled.\<close>

definition logged_in :: "('k, 'p) server_env \<Rightarrow> 'k server \<Rightarrow> openRequest \<Rightarrow> userConfig \<Rightarrow> bool" where
  "logged_in env s req user \<longleftrightarrow>
     req_Type req \<in> set request_types \<and> checkRequestCompatibility (cfg_Compatibility (sv_cfg s)) req = None
     \<and> map_of (sv_users s) (req_Username req) = Some user \<and> \<not> usr_Disabled user
     \<and> (\<exists>password message.
          snd (passwordFromRequest (se_cred env) (se_now env 5) (se_now env 6) (se_now env 7) req (sv_cred s, sv_files s))
            = Returned (password, [], message)
          \<and> VerifyPassword (se_kdf env) (se_sha256 env) password (usr_PasswordHash user))"

lemma handle_request_net:
  assumes "handle_request env h req conn s = Returned (s', conn', r)"
  shows "sv_dialled s' = sv_dialled s \<and> sv_listened s' = sv_listened s \<and> r = Closed
    \<or> (\<exists>user. logged_in env s req user \<and> may_act s user req s' r)"
proof (cases "req_Type req \<in> set request_types \<and> checkRequestCompatibility (cfg_Compatibility (sv_cfg s)) req = None")
  case False
  show ?thesis
  proof (cases "req_Type req \<in> set request_types")
    case True
    with False assms show ?thesis by (auto simp: handle_request_def Let_def)
  next
    case False
    with assms show ?thesis
      by (auto simp: handle_request_def dest!: rejectEntryProtocol_fields split: prod.splits)
  qed
next
  case True
  let ?pw = "passwordFromRequest (se_cred env) (se_now env 5) (se_now env 6) (se_now env 7) req"
  obtain s1 o1 where c: "on_cred ?pw s = (s1, o1)" by (metis prod.exhaust)
  have f: "frame s1 = frame s" using on_cred_frame [of ?pw s] by (simp add: c)
  then have fs: "sv_dialled s1 = sv_dialled s" "sv_listened s1 = sv_listened s" "sv_cfg s1 = sv_cfg s"
    "sv_configuredReverse s1 = sv_configuredReverse s" "sv_users s1 = sv_users s" by (simp_all add: frame_def)
  have o1: "o1 = snd (?pw (sv_cred s, sv_files s))" using c by (auto simp: on_cred_def split: prod.splits)
  show ?thesis
  proof (cases o1)
    case (Panicked p)
    with assms True c show ?thesis by (auto simp: handle_request_def)
  next
    case (Returned t)
    obtain password authCode message where t: "t = (password, authCode, message)" by (cases t)
    let ?good = "\<lambda>user. \<not> (usr_Disabled user \<or> authCode \<noteq> [] \<or> \<not> VerifyPassword (se_kdf env) (se_sha256 env) password (usr_PasswordHash user))"
    show ?thesis
    proof (cases "\<exists>user. map_of (sv_users s) (req_Username req) = Some user \<and> ?good user")
      case False
      then obtain s2 c2 where "handle_auth_failed env h req authCode message conn s1 = (s2, c2)" "s' = s2" "r = Closed"
        using assms True c Returned t fs by (auto simp: handle_request_def split: option.splits if_splits prod.splits)
      with handle_auth_failed_net [of env h req authCode message conn s1 s2 c2] fs show ?thesis by simp
    next
      case True': True
      then obtain user where u: "map_of (sv_users s) (req_Username req) = Some user" "?good user" by blast
      with assms True c Returned t fs have a: "handle_authenticated env h user req conn s1 = (s', conn', r)"
        by (simp add: handle_request_def)
      have "logged_in env s req user"
        using True u Returned t o1 by (auto simp: logged_in_def)
      moreover have "may_act s user req s' r"
        using handle_authenticated_net [OF a] True may_act_cong [of s1 s user req s' r] fs by simp
      ultimately show ?thesis by blast
    qed
  qed
qed

text \<open>C1. Whatever a connection sends, the server dials a target, listens on an address or keeps the connection
  for a reverse tunnel only if the address of the connection is not blocked, the request was read,
  is of a known type and compatible, names an existing enabled user with a password that verifies,
  and is allowed by the policy: an open request dials exactly its target, which the configuration
  must forward for this user; a reverse request listens on its trimmed address, which the
  configuration must list for this user.\<close>

theorem actions_need_authorization:
  assumes "handleConn env conn s = Returned (s', conn', r)"
  shows "sv_dialled s' = sv_dialled s \<and> sv_listened s' = sv_listened s \<and> r = Closed
    \<or> (\<exists>req user. authenticated env conn s req user \<and> may_act s user req s' r)"
proof -
  let ?ip = "remoteHost (ec_remoteAddr conn)"
  obtain seq rid where n: "nextRequestID (ce_tz (se_cred env)) (se_now env 0) (sv_requestSeq s) = (seq, rid)" by (metis prod.exhaust)
  let ?s0 = "s\<lparr>sv_requestSeq := seq\<rparr>" and ?h = "handling_of env rid conn"
  have ip: "h_remoteIP ?h = ?ip" by (simp add: handling_of_def)
  obtain t fs kind where b: "blockKind (fail_env_at env 2) (sv_fails s, sv_files s) ?ip = ((t, fs), kind)" by (metis prod.exhaust)
  let ?s1 = "?s0\<lparr>sv_fails := t, sv_files := fs\<rparr>"
  have of: "on_fails (\<lambda>t. blockKind (fail_env_at env 2) t ?ip) ?s0 = (?s1, kind)" using b by (simp add: on_fails_def)
  show ?thesis
  proof (cases kind)
    case BlockedPermanent
    with assms n of ip show ?thesis by (auto simp: handleConn_def finish_conn_def)
  next
    case BlockedTemporary
    with assms n of ip show ?thesis
      by (auto simp: handleConn_def finish_conn_def handle_temporarily_blocked_def Let_def split: prod.splits)
  next
    case BlockedNone
    obtain s2 c2 r2 where u: "handle_unblocked env ?h conn ?s1 = Returned (s2, c2, r2)" "finish_conn (s2, c2, r2) = (s', conn', r)"
      using assms n of ip BlockedNone by (auto simp: handleConn_def split: outcome.splits)
    have eq: "s' = s2" "r = r2" using u(2) by (auto simp: finish_conn_def split: handled.splits)
    show ?thesis
    proof (cases "ReadJSON (se_unmarshal env) (ec_in conn) (sec_MaxHandshakeBytes (cfg_Security (sv_cfg s)))")
      case (Pair e rest)
      show ?thesis
      proof (cases e)
        case (Inl err)
        with u(1) Pair eq show ?thesis
          by (auto simp: handle_unblocked_def dest!: rejectEntryProtocol_fields split: if_splits prod.splits)
      next
        case (Inr req)
        with u(1) Pair have q: "handle_request env ?h req (conn\<lparr>ec_in := rest\<rparr>) ?s1 = Returned (s2, c2, r2)"
          by (simp add: handle_unblocked_def)
        have "authenticated env conn s req user" if "logged_in env ?s1 req user" for user
          using that b BlockedNone Pair Inr by (auto simp: authenticated_def logged_in_def)
        moreover have "may_act s user req s' r" if "may_act ?s1 user req s' r" for user
          using that may_act_cong [of ?s1 s user req s' r] by simp
        ultimately show ?thesis using handle_request_net [OF q] eq by auto
      qed
    qed
  qed
qed

section \<open>A sample server\<close>

definition sample_request :: openRequest where
  "sample_request = zero_request\<lparr>req_Type := ''open'', req_Username := ''alice'', req_Password := ''pw'', req_ClientVersion := ''3.1.0'',
     req_ProtocolVersion := 3, req_Target := ''192.168.1.7:3306''\<rparr>"

definition sample_server_env :: "(string, string) server_env" where
  "sample_server_env = \<lparr>se_cred = sample_cred_env, se_now = (\<lambda>i. sample_expiry + int i * second), se_open = (\<lambda>p. None), se_encode = (\<lambda>p. []),
     se_range = (\<lambda>es. es), se_jsonRequest = (\<lambda>e. Inr ''{}''), se_jsonBusiness = (\<lambda>e. Inr ''{}''), se_jsonEntry = (\<lambda>e. Inr ''{}''),
     se_jsonFlow = (\<lambda>e. Inr ''{}''), se_marshal = (\<lambda>r. Inr (resp_Code r)), se_unmarshal = (\<lambda>d. Inr sample_request),
     se_kdf = sample_kdf, se_sha256 = (\<lambda>s. s), se_dial = (\<lambda>t. None), se_listen = (\<lambda>t. None), se_lnAddr = (\<lambda>t. t),
     se_rangeControls = (\<lambda>es. es), se_rangePending = (\<lambda>es. es), se_copied = (3, 5)\<rparr>"

definition sample_conn :: entryConn where
  "sample_conn = \<lparr>ec_in = frame_bytes ''{}'', ec_w = \<lparr>wr_out = [], wr_script = []\<rparr>, ec_remoteAddr = Some ''203.0.113.9:50000'',
     ec_localAddr = Some ''198.51.100.1:3443'', ec_closed = False\<rparr>"

definition sample_server :: "string server" where
  "sample_server = \<lparr>sv_cfg = ApplyDefaults sample_config,
     sv_users = [(''alice'', \<lparr>usr_Username = ''alice'', usr_PasswordHash = ''plain:pw'', usr_Disabled = False\<rparr>)],
     sv_fails = newFailTracker (cfg_Security (ApplyDefaults sample_config)) [] [], sv_files = [], sv_cred = sample_cred, sv_listeners = Some [], sv_revs = [], sv_controls = [],
     sv_configuredReverse = prepareConfiguredForwards (cfg_Forwards (ApplyDefaults sample_config)) [],
     sv_events = Some (newRuntimeEventRing 2), sv_requestLog = None, sv_businessLog = None, sv_entryTrafficLog = None, sv_flowTrafficLog = None,
     sv_writer = Some (newAsyncLog 4 ()), sv_requestSeq = 0, sv_hits = None, sv_conns = None,
     sv_streams = Some (newUserStreamLimiter 2), sv_entry = zero_entry_counters,
     sv_reject = \<lparr>rc_rejected = 0, rc_global = 0, rc_perIPActive = 0, rc_perIPNewRate = 0, rc_ipCapacity = 0\<rparr>,
     sv_activeStreams = 0, sv_totalStreams = 0, sv_userStreamLimitRejected = 0, sv_authOK = 0, sv_authFailed = 0,
     sv_policyRejected = 0, sv_dialFailed = 0, sv_bytesUp = 0, sv_bytesDown = 0, sv_ctxDone = False, sv_closing = False,
     sv_lines = None, sv_dialled = [], sv_listened = [], sv_inboundClosed = []\<rparr>"

section \<open>Places given back\<close>

text \<open>The places held by each user, and the number of running streams.\<close>

definition streams_view :: "'k server \<Rightarrow> (string \<Rightarrow> nat) \<times> 64 word" where
  "streams_view s = (stream_held (sv_streams s), sv_activeStreams s)"

definition streams_fine :: "'k server \<Rightarrow> bool" where
  "streams_fine s \<longleftrightarrow> stream_ok (sv_streams s)"

lemma acquire_held:
  assumes "stream_ok lo" and "streamAcquire lo u = (lo', f, ok)"
  shows "stream_ok lo' \<and> (ok \<or> f = NoopRelease)
    \<and> stream_held lo' = (case f of NoopRelease \<Rightarrow> stream_held lo | ReleaseOf k \<Rightarrow> (stream_held lo)(k := Suc (stream_held lo k)))"
proof -
  have "ok \<or> f = NoopRelease" using assms(2) by (cases lo) (auto simp: Let_def split: if_splits)
  with streamAcquire_law [OF assms] show ?thesis by blast
qed

text \<open>The limiter after a release closure was called once.\<close>

definition lease_back :: "release_fn \<Rightarrow> userStreamLimiter option \<Rightarrow> userStreamLimiter option" where
  "lease_back f lo = (case f of NoopRelease \<Rightarrow> lo | ReleaseOf u \<Rightarrow> streamRelease lo u)"

lemma lease_back_Noop [simp]: "lease_back NoopRelease lo = lo"
  by (simp add: lease_back_def)

lemma releaseLease_streams [simp]: "sv_streams (releaseLease f s) = lease_back f (sv_streams s)"
  by (simp add: releaseLease_def lease_back_def split: release_fn.split)

lemma acquire_release_held:
  assumes "acquireStream u s = (s1, f, ok)" and "streams_fine s"
  shows "streams_fine s1 \<and> stream_held (lease_back f (sv_streams s1)) = stream_held (sv_streams s) \<and> (ok \<or> f = NoopRelease)"
proof -
  obtain lo where a: "streamAcquire (sv_streams s) u = (lo, f, ok)" "sv_streams s1 = lo"
    using assms(1) by (auto simp: acquireStream_def split: prod.splits)
  note h = acquire_held [OF assms(2) [unfolded streams_fine_def] a(1)]
  show ?thesis
  proof (cases f)
    case NoopRelease
    with h a show ?thesis by (simp add: streams_fine_def)
  next
    case (ReleaseOf k)
    with h have "0 < stream_held lo k" by simp
    with h have "stream_held (streamRelease lo k) = (stream_held lo)(k := stream_held lo k - 1)" using streamRelease_law by blast
    with h ReleaseOf a show ?thesis by (auto simp: lease_back_def streams_fine_def fun_eq_iff)
  qed
qed

lemma lease_active [simp]:
  "sv_activeStreams (releaseLease f s) = sv_activeStreams s" "sv_activeStreams (close_inbound p s) = sv_activeStreams s"
  "sv_activeStreams (fst (acquireStream u s)) = sv_activeStreams s"
  by (auto simp: releaseLease_def close_inbound_def acquireStream_def split: release_fn.split prod.split)

lemma proxy_active [simp]:
  "sv_activeStreams (fst (proxy_pair env s)) = sv_activeStreams s" "sv_streams (fst (proxy_pair env s)) = sv_streams s"
  by (simp_all add: proxy_pair_def split: prod.split)

lemma handle_stream_view: "handle_stream env h req conn s = (s', conn') \<Longrightarrow> sv_streams s' = sv_streams s \<and> sv_activeStreams s' = sv_activeStreams s"
  by (auto simp: handle_stream_def Let_def split_beta begin_stream_def end_stream_def split: option.splits)

lemma handle_open_refused_view:
  "handle_open_refused env h req ev res code msg conn s = (s', conn') \<Longrightarrow> sv_streams s' = sv_streams s \<and> sv_activeStreams s' = sv_activeStreams s"
  by (auto simp: handle_open_refused_def Let_def)

lemma handle_open_view:
  assumes "handle_open env h user req conn s = (s', conn')" and "streams_fine s"
  shows "streams_view s' = streams_view s"
proof (cases "authorizeOpen (cfg_Forwards (sv_cfg s)) (usr_Username user) (req_Direction req) (req_Target req)")
  case (Some err)
  with assms(1) show ?thesis by (auto simp: handle_open_def Let_def streams_view_def)
next
  case None
  obtain s1 f ok where a: "acquireStream (req_Username req) s = (s1, f, ok)" by (metis prod.exhaust)
  have act: "sv_activeStreams s1 = sv_activeStreams s" using lease_active(3) [of "req_Username req" s] by (simp add: a)
  show ?thesis
  proof (cases ok)
    case False
    with assms(1) None a obtain s2 where "handle_open_refused env h req ''stream_rejected'' ''denied'' ''user_stream_limit'' (error_text errUserStreamLimit) conn
                (s1\<lparr>sv_userStreamLimitRejected := sv_userStreamLimitRejected s1 + 1\<rparr>) = (s', conn')"
      by (auto simp: handle_open_def)
    note v = handle_open_refused_view [OF this]
    have "f = NoopRelease" using acquire_release_held [OF a assms(2)] False by auto
    with acquire_release_held [OF a assms(2)] v act show ?thesis by (simp add: streams_view_def)
  next
    case True
    let ?s2 = "s1\<lparr>sv_dialled := sv_dialled s1 @ [req_Target req]\<rparr>"
    obtain s3 c3 where d: "(case se_dial env (req_Target req) of
                      Some err \<Rightarrow>
                        if sv_ctxDone ?s2 then (?s2, conn)
                        else handle_open_refused env h req ''stream_failed'' ''failed'' ''target_unreachable'' ''target service is unreachable'' conn
                               (?s2\<lparr>sv_dialFailed := sv_dialFailed ?s2 + 1\<rparr>)
                    | None \<Rightarrow> handle_stream env h req conn ?s2) = (s3, c3)"
      by (metis prod.exhaust)
    have "sv_streams s3 = sv_streams s1 \<and> sv_activeStreams s3 = sv_activeStreams s1"
      using d handle_stream_view handle_open_refused_view by (fastforce split: option.splits if_splits)
    moreover have "s' = releaseLease f s3" using assms(1) None a True d by (simp add: handle_open_def)
    ultimately show ?thesis using acquire_release_held [OF a assms(2)] act by (simp add: streams_view_def)
  qed
qed

lemma registerReverseStream_view:
  assumes "registerReverseStream env conn req user s = (s', conn', r)" and "streams_fine s"
  shows "sv_activeStreams s' = sv_activeStreams s \<and> (case r of Inl err \<Rightarrow> stream_held (sv_streams s') = stream_held (sv_streams s)
    | Inr (p, f) \<Rightarrow> stream_held (lease_back f (sv_streams s')) = stream_held (sv_streams s))"
proof -
  let ?addr = "TrimSpace (req_ListenAddr req)" and ?id = "TrimSpace (req_StreamID req)"
  show ?thesis
  proof (cases "?addr = [] \<or> ?id = [] \<or> \<not> isConfiguredReverseListener (sv_configuredReverse s) ?addr
      \<or> authorizeReverse (cfg_Forwards (sv_cfg s)) (usr_Username user) ?addr \<noteq> None \<or> find_reverseListener ?addr s = None")
    case True
    with assms(1) show ?thesis
      by (auto simp: registerReverseStream_def Let_def split: if_splits option.splits)
  next
    case False
    then obtain rl where rl: "find_reverseListener ?addr s = Some rl" by auto
    obtain s1 po where t: "on_rev rl (takePending ?id) s = (s1, po)" by (metis prod.exhaust)
    note f1 = on_rev_fields [OF t]
    show ?thesis
    proof (cases po)
      case None
      with assms(1) False rl t f1 show ?thesis by (auto simp: registerReverseStream_def Let_def)
    next
      case (Some p)
      obtain s2 f ok where a: "acquireStream (req_Username req) s1 = (s2, f, ok)" by (metis prod.exhaust)
      have fine: "streams_fine s1" using assms(2) f1 by (simp add: streams_fine_def)
      note h = acquire_release_held [OF a fine]
      have act: "sv_activeStreams s2 = sv_activeStreams s1" using lease_active(3) [of "req_Username req" s1] by (simp add: a)
      let ?s3 = "closeReverseListenerIfIdle env rl s2"
      consider "\<not> ok" | "ok" "sv_streams s' = lease_back f (sv_streams s2)" "sv_activeStreams s' = sv_activeStreams s2" "isl r"
        | "ok" "s' = ?s3" "r = Inr (p, f)"
        using assms(1) False rl t Some a
        by (auto simp: registerReverseStream_def Let_def split: bool.splits prod.splits option.splits if_splits)
      then show ?thesis
      proof cases
        case 1
        then have n: "f = NoopRelease" using h by auto
        from 1 assms(1) False rl t Some a have "isl r \<and> sv_streams s' = sv_streams s2 \<and> sv_activeStreams s' = sv_activeStreams s2"
          by (auto simp: registerReverseStream_def Let_def)
        with h n act f1 show ?thesis by (cases r) simp_all
      next
        case 2
        with h act f1 show ?thesis by (cases r) simp_all
      next
        case 3
        with h act f1 show ?thesis by simp
      qed
    qed
  qed
qed

text \<open>The state after a handler whose connection a stream worker has taken over, once that worker is done.\<close>

definition after_worker ::
    "('k, 'p) server_env \<Rightarrow> string option \<Rightarrow> openRequest \<Rightarrow> string \<Rightarrow> handled \<Rightarrow> 'k server \<Rightarrow> 'k server" where
  "after_worker env remoteAddr req rid r s =
     (case r of StreamRunning inbound \<Rightarrow> reverseStreamWorker env remoteAddr req rid inbound s | _ \<Rightarrow> s)"

lemma reverseStreamWorker_view:
  "sv_streams (reverseStreamWorker env remoteAddr req rid (p, f) s) = lease_back f (sv_streams s)
   \<and> sv_activeStreams (reverseStreamWorker env remoteAddr req rid (p, f) s) = sv_activeStreams s"
  by (simp add: reverseStreamWorker_def Let_def split_beta begin_stream_def end_stream_def)

lemma handle_authenticated_view:
  assumes "handle_authenticated env h user req conn s = (s', conn', r)" and "streams_fine s" and "req_Type req \<in> set request_types"
  shows "streams_view (after_worker env' ra req' rid r s') = streams_view s"
proof -
  let ?s = "s\<lparr>sv_authOK := sv_authOK s + 1\<rparr>"
  have v: "streams_view ?s = streams_view s" "streams_fine ?s" using assms(2) by (simp_all add: streams_view_def streams_fine_def)
  consider "req_Type req = ''health''" | "req_Type req = ''forward_check''" | "req_Type req = ''login''"
    | "req_Type req \<in> {''reverse'', ''reverse_listen''}" | "req_Type req = ''reverse_stream''" | "req_Type req = ''open''"
    using assms(3) by (auto simp: request_types_def)
  then show ?thesis
  proof cases
    case 1
    with assms(1) show ?thesis by (auto simp: handle_authenticated_def streams_view_def after_worker_def)
  next
    case 2
    with assms(1) show ?thesis
      by (auto simp: handle_authenticated_def handle_forward_check_def streams_view_def after_worker_def Let_def split: option.splits prod.splits)
  next
    case 3
    with assms(1) show ?thesis
      by (auto simp: handle_authenticated_def handle_login_def streams_view_def after_worker_def Let_def split_beta)
  next
    case 4
    obtain s1 c1 err where reg: "registerReverseControl env conn req user (h_requestID h) ?s = (s1, c1, err)" by (metis prod.exhaust)
    from assms(1) 4 have "handle_reverse env h user req conn ?s = (s', conn', r)"
      by (auto simp: handle_authenticated_def Let_def)
    with reg have "sv_streams s' = sv_streams s1 \<and> sv_activeStreams s' = sv_activeStreams s1 \<and> (r = Closed \<or> r = ControlRunning)"
      by (auto simp: handle_reverse_def Let_def split_beta split: option.splits)
    with registerReverseControl_net [OF reg] show ?thesis by (auto simp: streams_view_def after_worker_def)
  next
    case 5
    obtain s1 c1 e where reg: "registerReverseStream env conn req user ?s = (s1, c1, e)" by (metis prod.exhaust)
    note rv = registerReverseStream_view [OF reg v(2)]
    from assms(1) 5 have hs: "handle_reverse_stream env h user req conn ?s = (s', conn', r)"
      by (auto simp: handle_authenticated_def Let_def)
    show ?thesis
    proof (cases e)
      case (Inl err)
      with reg hs have "sv_streams s' = sv_streams s1 \<and> sv_activeStreams s' = sv_activeStreams s1 \<and> r = Closed"
        by (auto simp: handle_reverse_stream_def Let_def split_beta split: if_splits)
      with rv Inl show ?thesis by (simp add: streams_view_def after_worker_def)
    next
      case (Inr pf)
      obtain p f where pf: "pf = (p, f)" by (cases pf)
      from reg hs Inr have s': "sv_streams s' = sv_streams s1 \<and> sv_activeStreams s' = sv_activeStreams s1 \<and> r = StreamRunning (p, f)"
        by (auto simp: handle_reverse_stream_def pf)
      note w = reverseStreamWorker_view [of env' ra req' rid p f s']
      with s' rv Inr pf show ?thesis by (simp add: streams_view_def after_worker_def)
    qed
  next
    case 6
    obtain s1 c1 where o: "handle_open env h user req conn ?s = (s1, c1)" by (metis prod.exhaust)
    with assms(1) 6 have "s' = s1" "r = Closed" by (auto simp: handle_authenticated_def Let_def)
    with handle_open_view [OF o v(2)] v(1) show ?thesis by (simp add: after_worker_def)
  qed
qed

lemma streams_view_cong:
  "sv_streams s1 = sv_streams s \<Longrightarrow> sv_activeStreams s1 = sv_activeStreams s \<Longrightarrow> streams_view s1 = streams_view s"
  by (simp add: streams_view_def)

lemma handle_request_view:
  assumes "handle_request env h req conn s = Returned (s', conn', r)" and "streams_fine s"
  shows "streams_view (after_worker env' ra req' rid r s') = streams_view s"
proof (cases "req_Type req \<in> set request_types \<and> checkRequestCompatibility (cfg_Compatibility (sv_cfg s)) req = None")
  case False
  show ?thesis
  proof (cases "req_Type req \<in> set request_types")
    case True
    with False assms(1) show ?thesis by (auto simp: handle_request_def Let_def after_worker_def streams_view_def)
  next
    case False
    with assms(1) show ?thesis
      by (auto simp: handle_request_def after_worker_def streams_view_def dest!: rejectEntryProtocol_fields split: prod.splits)
  qed
next
  case True
  let ?pw = "passwordFromRequest (se_cred env) (se_now env 5) (se_now env 6) (se_now env 7) req"
  obtain s1 o1 where c: "on_cred ?pw s = (s1, o1)" by (metis prod.exhaust)
  have f: "frame s1 = frame s" using on_cred_frame [of ?pw s] by (simp add: c)
  then have fs: "sv_streams s1 = sv_streams s" "sv_activeStreams s1 = sv_activeStreams s" "sv_users s1 = sv_users s" by (simp_all add: frame_def)
  have fine: "streams_fine s1" using assms(2) fs by (simp add: streams_fine_def)
  obtain password authCode message where o1: "o1 = Returned (password, authCode, message)"
    using assms(1) True c by (cases o1) (auto simp: handle_request_def)
  show ?thesis
  proof (cases "\<exists>s2 c2. handle_auth_failed env h req authCode message conn s1 = (s2, c2) \<and> s' = s2 \<and> r = Closed")
    case True
    then show ?thesis
      using fs by (auto simp: after_worker_def handle_auth_failed_def streams_view_def Let_def split_beta)
  next
    case False
    with assms(1) True c o1 fs obtain user where "handle_authenticated env h user req conn s1 = (s', conn', r)"
      by (auto simp: handle_request_def split: option.splits if_splits prod.splits)
    from handle_authenticated_view [OF this fine] True fs show ?thesis by (auto simp: streams_view_def)
  qed
qed

text \<open>C15. When a connection has been handled, and a reverse stream worker that took it over is done, every
  account holds exactly as many stream places as before, and the number of active streams is as
  before: no branch of the handler leaks or returns a place twice.\<close>

theorem handler_returns_places:
  assumes "handleConn env conn s = Returned (s', conn', r)" and "stream_ok (sv_streams s)"
  shows "stream_held (sv_streams (after_worker env' ra req' rid r s')) = stream_held (sv_streams s)
    \<and> sv_activeStreams (after_worker env' ra req' rid r s') = sv_activeStreams s"
proof -
  let ?ip = "remoteHost (ec_remoteAddr conn)"
  obtain seq rid0 where n: "nextRequestID (ce_tz (se_cred env)) (se_now env 0) (sv_requestSeq s) = (seq, rid0)" by (metis prod.exhaust)
  let ?s0 = "s\<lparr>sv_requestSeq := seq\<rparr>" and ?h = "handling_of env rid0 conn"
  have ip: "h_remoteIP ?h = ?ip" by (simp add: handling_of_def)
  obtain s1 kind where of: "on_fails (\<lambda>t. blockKind (fail_env_at env 2) t ?ip) ?s0 = (s1, kind)" by (metis prod.exhaust)
  have "frame s1 = frame ?s0" using on_fails_frame [of "\<lambda>t. blockKind (fail_env_at env 2) t ?ip" ?s0] by (simp add: of)
  then have fs: "sv_streams s1 = sv_streams s" "sv_activeStreams s1 = sv_activeStreams s" by (simp_all add: frame_def)
  then have fine: "streams_fine s1" using assms(2) by (simp add: streams_fine_def)
  have "streams_view (after_worker env' ra req' rid r s') = streams_view s"
  proof (cases kind)
    case BlockedPermanent
    with assms(1) n of ip fs show ?thesis by (auto simp: handleConn_def finish_conn_def after_worker_def streams_view_def)
  next
    case BlockedTemporary
    with assms(1) n of ip fs show ?thesis
      by (auto simp: handleConn_def finish_conn_def handle_temporarily_blocked_def after_worker_def streams_view_def Let_def split: prod.splits)
  next
    case BlockedNone
    obtain s2 c2 r2 where u: "handle_unblocked env ?h conn s1 = Returned (s2, c2, r2)" "finish_conn (s2, c2, r2) = (s', conn', r)"
      using assms(1) n of ip BlockedNone by (auto simp: handleConn_def split: outcome.splits)
    have eq: "s' = s2" "r = r2" using u(2) by (auto simp: finish_conn_def split: handled.splits)
    obtain e rest where rd: "ReadJSON (se_unmarshal env) (ec_in conn) (sec_MaxHandshakeBytes (cfg_Security (sv_cfg s1))) = (e, rest)"
      by (metis prod.exhaust)
    show ?thesis
    proof (cases e)
      case (Inl err)
      with u(1) rd eq fs show ?thesis
        by (auto simp: handle_unblocked_def after_worker_def streams_view_def dest!: rejectEntryProtocol_fields split: if_splits prod.splits)
    next
      case (Inr req)
      with u(1) rd have "handle_request env ?h req (conn\<lparr>ec_in := rest\<rparr>) s1 = Returned (s2, c2, r2)"
        by (simp add: handle_unblocked_def)
      from handle_request_view [OF this fine, of env' ra req' rid] eq streams_view_cong [OF fs] show ?thesis by simp
    qed
  qed
  then show ?thesis by (simp add: streams_view_def)
qed

lemma sample_run:
  "case handleConn sample_server_env sample_conn sample_server of
     Returned (s, c, r) \<Rightarrow> sv_dialled s = [''192.168.1.7:3306''] \<and> r = Closed \<and> wr_out (ec_w c) = frame_bytes ''ok'' \<and> sv_totalStreams s = 1
   | Panicked p \<Rightarrow> False"
  by code_simp

lemma sample_run_obtain:
  obtains s c where "handleConn sample_server_env sample_conn sample_server = Returned (s, c, Closed)"
    "sv_dialled s = [''192.168.1.7:3306'']" "wr_out (ec_w c) = frame_bytes ''ok''" "sv_totalStreams s = 1"
  using sample_run by (auto split: outcome.splits)

theorem actions_need_authorization_witness:
  "\<exists>req user s c. handleConn sample_server_env sample_conn sample_server = Returned (s, c, Closed)
     \<and> authenticated sample_server_env sample_conn sample_server req user
     \<and> authorizeOpen (cfg_Forwards (sv_cfg sample_server)) (usr_Username user) (req_Direction req) (req_Target req) = None
     \<and> sv_dialled s = [req_Target req]"
proof -
  obtain s c where r: "handleConn sample_server_env sample_conn sample_server = Returned (s, c, Closed)"
    "sv_dialled s = [''192.168.1.7:3306'']" by (rule sample_run_obtain)
  have "sv_dialled sample_server = []" by (simp add: sample_server_def)
  with actions_need_authorization [OF r(1)] r show ?thesis by (auto simp: may_act_def)
qed

theorem handler_returns_places_witness:
  "\<exists>s c. handleConn sample_server_env sample_conn sample_server = Returned (s, c, Closed) \<and> sv_totalStreams s = 1
     \<and> stream_held (sv_streams s) = stream_held (sv_streams sample_server) \<and> sv_activeStreams s = 0"
proof -
  obtain s c where r: "handleConn sample_server_env sample_conn sample_server = Returned (s, c, Closed)" "sv_totalStreams s = 1"
    by (rule sample_run_obtain)
  have "stream_ok (sv_streams sample_server)" by (simp add: sample_server_def stream_ok_new)
  from handler_returns_places [OF r(1) this, of sample_server_env None zero_request "[]"] r show ?thesis
    by (simp add: after_worker_def sample_server_def)
qed

end
