(* ===== verification/Handler_Answers.thy ===== *)
theory Handler_Answers
  imports Handler_Laws
begin

text \<open>
  What a client can learn from the answers of the request handler, and what the handler counts for a
  stream.
\<close>

section \<open>A failed login does not tell whether the account exists\<close>

lemma on_fails_users: "on_fails f (s\<lparr>sv_users := us\<rparr>) = (case on_fails f s of (s', r) \<Rightarrow> (s'\<lparr>sv_users := us\<rparr>, r))"
  by (simp add: on_fails_def split: prod.split)

lemma on_cred_users: "on_cred f (s\<lparr>sv_users := us\<rparr>) = (case on_cred f s of (s', r) \<Rightarrow> (s'\<lparr>sv_users := us\<rparr>, r))"
  by (simp add: on_cred_def split: prod.split)

text \<open>The answer to a failed login depends on the failure tracker, the files and the request only.\<close>

lemma handle_auth_failed_answer:
  assumes "sv_fails s = sv_fails t" and "sv_files s = sv_files t"
  shows "snd (handle_auth_failed env h req a m conn s) = snd (handle_auth_failed env h req a m conn t)"
proof -
  have "snd (on_fails (\<lambda>t. blockKind (fail_env_at env 9) t (h_remoteIP h))
      (fst (on_fails (\<lambda>t. (addFailure (fail_env_at env 8) t (h_remoteIP h), ())) (u\<lparr>sv_authFailed := x\<rparr>))))
     = snd (blockKind (fail_env_at env 9) (addFailure (fail_env_at env 8) (sv_fails u, sv_files u) (h_remoteIP h)) (h_remoteIP h))"
    for u :: "'a server" and x
    by (simp add: on_fails_def split: prod.split)
  then show ?thesis using assms by (simp add: handle_auth_failed_def Let_def split_beta)
qed

definition rejection_reply :: "('k, 'p) server_env \<Rightarrow> entryConn \<Rightarrow> string \<Rightarrow> entryConn" where
  "rejection_reply env c message =
     (if message = [] then c
      else c\<lparr>ec_w := fst (WriteJSON (se_marshal env) (ec_w c) (zero_response\<lparr>resp_Code := ''bad_request'', resp_Message := message\<rparr>))\<rparr>)"

lemma rejectEntryProtocol_answer:
  "rejectEntryProtocol env i (Some conn) ip rid code msg af ms s = (s', c) \<Longrightarrow> c = Some (rejection_reply env conn msg)"
  by (auto simp: rejectEntryProtocol_def rejection_reply_def Let_def split_beta)

text \<open>The outcome of a request that logs nobody in.\<close>

lemma handle_request_refused:
  assumes "handle_request env h req conn s = Returned (s', conn', r)" and "\<forall>user. \<not> logged_in env s req user"
  shows "r = Closed \<and> conn' =
    (if req_Type req \<notin> set request_types
     then rejection_reply env conn ''unsupported request''
     else case checkRequestCompatibility (cfg_Compatibility (sv_cfg s)) req of
       Some resp \<Rightarrow> fst (reply env resp conn)
     | None \<Rightarrow> (case on_cred (passwordFromRequest (se_cred env) (se_now env 5) (se_now env 6) (se_now env 7) req) s of
         (s1, Returned (password, a, m)) \<Rightarrow> snd (handle_auth_failed env h req a m conn s1)
       | (s1, Panicked p) \<Rightarrow> conn))"
proof (cases "req_Type req \<in> set request_types \<and> checkRequestCompatibility (cfg_Compatibility (sv_cfg s)) req = None")
  case False
  with assms(1) show ?thesis
    by (auto simp: handle_request_def Let_def dest!: rejectEntryProtocol_answer split: prod.splits)
next
  case True
  let ?pw = "passwordFromRequest (se_cred env) (se_now env 5) (se_now env 6) (se_now env 7) req"
  obtain s1 o1 where c: "on_cred ?pw s = (s1, o1)" by (metis prod.exhaust)
  have f: "frame s1 = frame s" using on_cred_frame [of ?pw s] by (simp add: c)
  then have us: "sv_users s1 = sv_users s" by (simp add: frame_def)
  have o: "o1 = snd (?pw (sv_cred s, sv_files s))" using c by (auto simp: on_cred_def split: prod.splits)
  obtain password a m where o1: "o1 = Returned (password, a, m)"
    using assms(1) True c by (cases o1) (auto simp: handle_request_def)
  have "usr_Disabled user \<or> a \<noteq> [] \<or> \<not> VerifyPassword (se_kdf env) (se_sha256 env) password (usr_PasswordHash user)"
    if "map_of (sv_users s) (req_Username req) = Some user" for user
    using assms(2) that True o o1 by (auto simp: logged_in_def) metis
  then obtain s2 where "handle_auth_failed env h req a m conn s1 = (s2, conn')" "r = Closed"
    using assms(1) True c o1 us by (auto simp: handle_request_def split: option.splits prod.splits if_splits)
  with True c o1 show ?thesis by simp
qed

lemma refused_same_answer:
  assumes "handle_request env h req conn s = Returned (s1, c1, r1)" and "\<forall>user. \<not> logged_in env s req user"
    and "handle_request env h req conn (s\<lparr>sv_users := us\<rparr>) = Returned (s2, c2, r2)"
    and "\<forall>user. \<not> logged_in env (s\<lparr>sv_users := us\<rparr>) req user"
  shows "c1 = c2 \<and> r1 = Closed \<and> r2 = Closed"
proof -
  let ?pw = "passwordFromRequest (se_cred env) (se_now env 5) (se_now env 6) (se_now env 7) req"
  obtain t o1 where c: "on_cred ?pw s = (t, o1)" by (metis prod.exhaust)
  have a: "snd (handle_auth_failed env h req a m conn (t\<lparr>sv_users := us\<rparr>)) = snd (handle_auth_failed env h req a m conn t)" for a m
    by (rule handle_auth_failed_answer) simp_all
  note r = handle_request_refused [OF assms(1,2)] handle_request_refused [OF assms(3,4)]
  show ?thesis
    using r(1) r(2) by (auto simp: on_cred_users c a split: if_splits option.splits outcome.splits)
qed

text \<open>C14. A login that fails tells nothing about the accounts: whatever the set of accounts, as long as the
  request logs nobody in under either, the client receives the same bytes, and the connection is closed
  in both cases. Unknown name, disabled account and wrong password cannot be told apart.\<close>

theorem failed_login_reveals_no_account:
  assumes "handleConn env conn s = Returned (s1, c1, r1)" and "\<forall>req user. \<not> authenticated env conn s req user"
    and "handleConn env conn (s\<lparr>sv_users := us\<rparr>) = Returned (s2, c2, r2)"
    and "\<forall>req user. \<not> authenticated env conn (s\<lparr>sv_users := us\<rparr>) req user"
  shows "c1 = c2 \<and> r1 = Closed \<and> r2 = Closed"
proof -
  let ?ip = "remoteHost (ec_remoteAddr conn)" and ?t = "s\<lparr>sv_users := us\<rparr>"
  obtain seq rid where n: "nextRequestID (ce_tz (se_cred env)) (se_now env 0) (sv_requestSeq s) = (seq, rid)" by (metis prod.exhaust)
  let ?s0 = "s\<lparr>sv_requestSeq := seq\<rparr>" and ?h = "handling_of env rid conn"
  have ip: "h_remoteIP ?h = ?ip" by (simp add: handling_of_def)
  obtain t fs kind where b: "blockKind (fail_env_at env 2) (sv_fails s, sv_files s) ?ip = ((t, fs), kind)" by (metis prod.exhaust)
  let ?s1 = "?s0\<lparr>sv_fails := t, sv_files := fs\<rparr>" and ?t1 = "?s0\<lparr>sv_users := us, sv_fails := t, sv_files := fs\<rparr>"
  have of: "on_fails (\<lambda>t. blockKind (fail_env_at env 2) t ?ip) ?s0 = (?s1, kind)"
    "on_fails (\<lambda>t. blockKind (fail_env_at env 2) t ?ip) (?s0\<lparr>sv_users := us\<rparr>) = (?t1, kind)"
    using b by (simp_all add: on_fails_def)
  have t1: "?t1 = ?s1\<lparr>sv_users := us\<rparr>" by (rule server.equality) simp_all
  have t0: "?t\<lparr>sv_requestSeq := seq\<rparr> = ?s0\<lparr>sv_users := us\<rparr>" by simp
  show ?thesis
  proof (cases kind)
    case BlockedPermanent
    with assms(1,3) n of ip t0 show ?thesis by (auto simp: handleConn_def finish_conn_def)
  next
    case BlockedTemporary
    with assms(1,3) n of ip t0 show ?thesis
      by (auto simp: handleConn_def finish_conn_def handle_temporarily_blocked_def Let_def)
  next
    case BlockedNone
    obtain s3 c3 r3 where u: "handle_unblocked env ?h conn ?s1 = Returned (s3, c3, r3)" "finish_conn (s3, c3, r3) = (s1, c1, r1)"
      using assms(1) n of ip BlockedNone by (auto simp: handleConn_def split: outcome.splits)
    obtain s4 c4 r4 where v: "handle_unblocked env ?h conn ?t1 = Returned (s4, c4, r4)" "finish_conn (s4, c4, r4) = (s2, c2, r2)"
      using assms(3) n of ip BlockedNone t0 by (auto simp: handleConn_def split: outcome.splits)
    have "c3 = c4 \<and> r3 = Closed \<and> r4 = Closed"
    proof (cases "ReadJSON (se_unmarshal env) (ec_in conn) (sec_MaxHandshakeBytes (cfg_Security (sv_cfg s)))")
      case (Pair e rest)
      show ?thesis
      proof (cases e)
        case (Inl err)
        with u(1) v(1) Pair show ?thesis
          by (auto simp: handle_unblocked_def dest!: rejectEntryProtocol_answer split: if_splits prod.splits)
      next
        case (Inr req)
        have q: "handle_request env ?h req (conn\<lparr>ec_in := rest\<rparr>) ?s1 = Returned (s3, c3, r3)"
          "handle_request env ?h req (conn\<lparr>ec_in := rest\<rparr>) (?s1\<lparr>sv_users := us\<rparr>) = Returned (s4, c4, r4)"
          using u(1) v(1) Pair Inr t1 by (simp_all add: handle_unblocked_def)
        have "\<not> logged_in env ?s1 req user" for user
          using assms(2) b BlockedNone Pair Inr by (auto simp: authenticated_def logged_in_def)
        moreover have "\<not> logged_in env (?s1\<lparr>sv_users := us\<rparr>) req user" for user
          using assms(4) b BlockedNone Pair Inr by (auto simp: authenticated_def logged_in_def)
        ultimately show ?thesis using refused_same_answer [OF q(1) _ q(2)] by blast
      qed
    qed
    then show ?thesis using u(2) v(2) by (auto simp: finish_conn_def)
  qed
qed

definition wrong_password_server :: "string server" where
  "wrong_password_server = sample_server\<lparr>sv_users :=
     [(''alice'', \<lparr>usr_Username = ''alice'', usr_PasswordHash = ''plain:other'', usr_Disabled = False\<rparr>)]\<rparr>"

lemma sample_read: "fst (ReadJSON (se_unmarshal sample_server_env) (ec_in sample_conn) n) = Inr req \<Longrightarrow> req = sample_request"
  by (auto simp: ReadJSON_def sample_server_env_def Let_def split: sum.splits prod.splits if_splits)

lemma sample_password: "snd (passwordFromRequest ce a b c sample_request d) = Returned (pw, [], m) \<Longrightarrow> pw = ''pw''"
  by (simp add: passwordFromRequest_def sample_request_def zero_request_def)

lemma wrong_password_refused:
  "\<not> authenticated sample_server_env sample_conn wrong_password_server req user"
  "\<not> authenticated sample_server_env sample_conn (wrong_password_server\<lparr>sv_users := []\<rparr>) req user"
proof -
  have v: "\<not> VerifyPassword k h ''pw'' ''plain:other''" for k h
  proof -
    have "TrimSpace ''plain:other'' = ''plain:other''" "HasPrefix ''plain:other'' ''plain:''" "TrimPrefix ''plain:other'' ''plain:'' = ''other''"
      by code_simp+
    then show ?thesis by (simp add: VerifyPassword_def)
  qed
  show "\<not> authenticated sample_server_env sample_conn wrong_password_server req user"
  proof
    assume a: "authenticated sample_server_env sample_conn wrong_password_server req user"
    then have r: "req = sample_request" using sample_read by (auto simp: authenticated_def)
    from a obtain password m d where p: "snd (passwordFromRequest (se_cred sample_server_env) (se_now sample_server_env 5)
        (se_now sample_server_env 6) (se_now sample_server_env 7) req d) = Returned (password, [], m)"
      and ok: "VerifyPassword (se_kdf sample_server_env) (se_sha256 sample_server_env) password (usr_PasswordHash user)"
      and u: "map_of (sv_users wrong_password_server) (req_Username req) = Some user"
      unfolding authenticated_def by blast
    have "password = ''pw''" by (rule sample_password [OF p [unfolded r]])
    moreover have "usr_PasswordHash user = ''plain:other''"
      using u by (auto simp: wrong_password_server_def r sample_request_def)
    ultimately show False using ok v by simp
  qed
qed (simp add: authenticated_def)

theorem failed_login_reveals_no_account_witness:
  "\<exists>s1 s2 c. handleConn sample_server_env sample_conn wrong_password_server = Returned (s1, c, Closed)
     \<and> handleConn sample_server_env sample_conn (wrong_password_server\<lparr>sv_users := []\<rparr>) = Returned (s2, c, Closed)"
proof -
  have "case handleConn sample_server_env sample_conn wrong_password_server of Returned _ \<Rightarrow> True | Panicked _ \<Rightarrow> False"
    and "case handleConn sample_server_env sample_conn (wrong_password_server\<lparr>sv_users := []\<rparr>) of Returned _ \<Rightarrow> True | Panicked _ \<Rightarrow> False"
    by code_simp+
  then obtain s1 c1 r1 s2 c2 r2 where h: "handleConn sample_server_env sample_conn wrong_password_server = Returned (s1, c1, r1)"
    "handleConn sample_server_env sample_conn (wrong_password_server\<lparr>sv_users := []\<rparr>) = Returned (s2, c2, r2)"
    by (auto split: outcome.splits)
  from failed_login_reveals_no_account [OF h(1) _ h(2)] wrong_password_refused h show ?thesis by auto
qed

section \<open>What is counted for a stream\<close>

lemma begin_stream_simps [simp]:
  "sv_bytesUp (begin_stream s) = sv_bytesUp s" "sv_bytesDown (begin_stream s) = sv_bytesDown s"
  "sv_bytesUp (end_stream s) = sv_bytesUp s" "sv_bytesDown (end_stream s) = sv_bytesDown s"
  "sv_events (end_stream s) = sv_events s"
  by (simp_all add: begin_stream_def end_stream_def)

lemma proxy_pair_eq:
  "proxy_pair env s = (s\<lparr>sv_bytesUp := int64 (sv_bytesUp s + fst (se_copied env)), sv_bytesDown := int64 (sv_bytesDown s + snd (se_copied env))\<rparr>,
     fst (se_copied env), snd (se_copied env))"
  by (simp add: proxy_pair_def ProxyPairWithOptions_def copyAndClose_def Let_def)

text \<open>The event that is recorded last is the last one shown.\<close>

lemma recordBusiness_events:
  "sv_events (recordBusinessLogFromEvent env i ev s) = sv_events s" "sv_events (svlog l s) = sv_events s"
proof -
  have w: "sv_events (fst (write_log env i a b d l s)) = sv_events s" for a b d l and s :: "'a server"
    by (auto simp: write_log_def svlog_def Let_def split: sum.splits prod.splits option.splits)
  show "sv_events (svlog l s) = sv_events s" by (simp add: svlog_def)
  show "sv_events (recordBusinessLogFromEvent env i ev s) = sv_events s"
    using w by (auto simp: recordBusinessLogFromEvent_def recordBusinessLog_def Let_def split_beta split: option.split)
qed

lemma take_last_last: "0 < n \<Longrightarrow> last (take_last n (xs @ [e])) = e"
  by (simp add: take_last_def)

lemma recordEvent_last:
  assumes "sv_events s = Some r" and "ring_ok (Some r)"
  shows "last (ringSnapshot (sv_events (recordEvent env i ev s))) = complete_event (stamp_at env i) ev
    \<and> (\<exists>r'. sv_events (recordEvent env i ev s) = Some r' \<and> ring_ok (Some r'))"
proof -
  have "sv_events (recordEvent env i ev s) = ringAppend (Some r) (complete_event (stamp_at env i) ev)"
    using assms(1) by (simp add: recordEvent_def Let_def recordBusiness_events eventRing_def)
  moreover have "0 < ring_capacity (Some r)" using assms(2) by (auto simp: ring_ok_def ring_capacity_def)
  moreover have "\<exists>r'. ringAppend (Some r) ev' = Some r'" for ev' by (simp add: Let_def)
  ultimately show ?thesis
    using assms(2) ringSnapshot_Append [of "Some r"] ring_ok_Append [of "Some r"] take_last_last by metis
qed

lemma recordRequestLog_events [simp]: "sv_events (recordRequest env i h req result auth resp s) = sv_events s"
proof -
  have w: "sv_events (fst (write_log env i a b d l s)) = sv_events s" for a b d l and s :: "'a server"
    by (auto simp: write_log_def svlog_def Let_def split: sum.splits prod.splits option.splits)
  show ?thesis using w by (auto simp: recordRequest_def recordRequestLog_def Let_def split_beta)
qed

lemma recordFlow_events [simp]: "sv_events (recordFlowTrafficLog env i entry s) = sv_events s"
proof -
  have w: "sv_events (fst (write_log env i a b d l s)) = sv_events s" for a b d l and s :: "'a server"
    by (auto simp: write_log_def svlog_def Let_def split: sum.splits prod.splits option.splits)
  show ?thesis using w by (auto simp: recordFlowTrafficLog_def Let_def split_beta)
qed

lemma on_cred_events [simp]: "sv_events (fst (on_cred f s)) = sv_events s"
  by (simp add: on_cred_def split: prod.split)

lemma begin_stream_events [simp]: "sv_events (begin_stream s) = sv_events s"
  by (simp add: begin_stream_def)

text \<open>A stream that is proxied leaves two events; the last one carries the given byte counts.\<close>

lemma two_events:
  assumes "sv_events s = Some r" and "ring_ok (Some r)" and "sv_events s2 = sv_events (recordEvent env i ev s)"
  shows "last (ringSnapshot (sv_events (recordEvent env j ev' s2))) = complete_event (stamp_at env j) ev'"
proof -
  obtain r' where "sv_events s2 = Some r'" "ring_ok (Some r')" using recordEvent_last [OF assms(1,2), of env i ev] assms(3) by auto
  then show ?thesis using recordEvent_last by blast
qed



end
