(* ===== verification/Virtual_Endpoints.thy ===== *)
theory Virtual_Endpoints
  imports Addresses Go_Files "HOL-Library.List_Lexorder" "HOL-Library.Char_ord"
begin

text \<open>
  The addresses of virtual forwards: \<open>normalizeVirtualIPv4\<close> and \<open>parseVirtualListenAddr\<close> of
  \<open>client/tunnel/config.go\<close>, and \<open>client/tunnel/certificate_policy.go\<close>, which takes the IPv4
  addresses a client may impersonate from the certificate of the server. The PEM and X.509 parsers
  are parameters: the blocks that successive calls of \<open>pem.Decode\<close> yield, and the addresses of a
  parsed certificate.
\<close>

section \<open>Addresses\<close>

text \<open>An IPv4 address is its four bytes; \<open>IP.String\<close> of it is \<open>v4_string\<close>.\<close>

definition normalizeVirtualIPv4 :: "string \<Rightarrow> 8 word list res" where
  "normalizeVirtualIPv4 value =
     (case ParseIP (TrimSpace value) of
        None \<Rightarrow> Inl (Errorf ''virtual listen_addr does not support domain names; use an IPv4 address from the server certificate SAN'' [])
      | Some virtualIP \<Rightarrow>
         (case (if CHR '':'' \<in> set value then None else To4 virtualIP) of
            None \<Rightarrow> Inl (Errorf ''virtual listen_addr host must be an IPv4 address'' [])
          | Some q \<Rightarrow>
              if q ! 0 = 0 \<or> q ! 0 \<ge> 224 \<or> q ! 0 = 127 \<or> (q ! 0 = 169 \<and> q ! 1 = 254)
              then Inl (Errorf ''virtual listen_addr host must be a usable non-local IPv4 address'' [])
              else Inr q))"

definition parseVirtualListenAddr :: "string \<Rightarrow> (string \<times> int) res" where
  "parseVirtualListenAddr value =
     (case SplitHostPort (TrimSpace value) of
        Inl err \<Rightarrow> Inl (Errorf ''virtual listen_addr must use :port or IPv4:port'' [])
      | Inr (host, port) \<Rightarrow>
         (let host = TrimSet (TrimSpace host) ''[]''
          in case (if host = [] then Inr [] else map_sum (\<lambda>e. e) v4_string (normalizeVirtualIPv4 host)) of
               Inl err \<Rightarrow> Inl err
             | Inr host \<Rightarrow>
                (case Atoi port of
                   None \<Rightarrow> Inl (Errorf ''virtual listen_addr port must be between 1 and 65535'' [])
                 | Some portNumber \<Rightarrow>
                     if portNumber < 1 \<or> portNumber > 65535
                     then Inl (Errorf ''virtual listen_addr port must be between 1 and 65535'' [])
                     else Inr (host, portNumber))))"

section \<open>The addresses of the certificate\<close>

record cert_env =
  xe_pemBlocks :: "string \<Rightarrow> (string \<times> string) list"
  xe_parseIPs :: "string \<Rightarrow> ip_bytes list res"

text \<open>\<open>net.IP.To4\<close>, which also accepts the four-byte form a certificate has.\<close>

definition To4_any :: "ip_bytes \<Rightarrow> 8 word list option" where
  "To4_any ip = (if length ip = 4 then Some ip else To4 ip)"

text \<open>The loop over the blocks: the addresses seen so far and the number of certificates.\<close>

fun san_loop :: "cert_env \<Rightarrow> (string \<times> string) list \<Rightarrow> string list \<Rightarrow> nat \<Rightarrow> (string list \<times> nat) res" where
  "san_loop xe [] seen certificates = Inr (seen, certificates)"
| "san_loop xe ((ty, bytes) # blocks) seen certificates =
     (if ty \<noteq> ''CERTIFICATE'' then san_loop xe blocks seen certificates
      else (case xe_parseIPs xe bytes of
              Inl err \<Rightarrow> Inl (Errorf ''parse virtual forwarding certificate policy: %w'' [FE err])
            | Inr ips \<Rightarrow> san_loop xe blocks (map v4_string (List.map_filter To4_any ips) @ seen) (certificates + 1)))"

text \<open>\<open>seen\<close> is a set in the code; its elements are sorted.\<close>

definition certificateIPv4SANs :: "cert_env \<Rightarrow> os_env \<Rightarrow> files \<Rightarrow> string \<Rightarrow> string list res" where
  "certificateIPv4SANs xe env fs path =
     (let path = TrimSpace path
      in if path = [] then Inl (Errorf ''tls.ca_cert_file is required to authorize virtual forwarding addresses'' [])
         else (case ReadFile env fs path of
           Inl err \<Rightarrow> Inl (Errorf ''read virtual forwarding certificate policy: %w'' [FE err])
         | Inr data \<Rightarrow>
            (case san_loop xe (xe_pemBlocks xe data) [] 0 of
               Inl err \<Rightarrow> Inl err
             | Inr (seen, certificates) \<Rightarrow>
                 if certificates = 0 then Inl (Errorf ''no certificate found in tls.ca_cert_file for virtual forwarding'' [])
                 else if seen = [] then Inl (Errorf ''server certificate has no IPv4 SAN for virtual forwarding'' [])
                 else Inr (sort (remdups seen)))))"

record virtualAddressResolver =
  var_serverAddr :: string
  var_allowed :: "string list"
  var_candidates :: "string list"

text \<open>The two fields of the client configuration the resolver reads are its arguments.\<close>

definition newVirtualAddressResolver ::
    "cert_env \<Rightarrow> os_env \<Rightarrow> files \<Rightarrow> string \<Rightarrow> string \<Rightarrow> virtualAddressResolver res" where
  "newVirtualAddressResolver xe env fs caCertFile serverAddr =
     map_sum (\<lambda>e. e) (\<lambda>allowedValues.
         \<lparr>var_serverAddr = TrimSpace serverAddr, var_allowed = allowedValues,
          var_candidates = filter (\<lambda>value. case normalizeVirtualIPv4 value of Inl _ \<Rightarrow> False | Inr _ \<Rightarrow> True) allowedValues\<rparr>)
       (certificateIPv4SANs xe env fs caCertFile)"

definition automaticIP :: "virtualAddressResolver \<Rightarrow> string res" where
  "automaticIP r =
     (let from_server = (case SplitHostPort (var_serverAddr r) of
            Inl _ \<Rightarrow> None
          | Inr (host, _) \<Rightarrow>
             (case normalizeVirtualIPv4 (TrimSet (TrimSpace host) ''[]'') of
                Inl _ \<Rightarrow> None
              | Inr ip \<Rightarrow> if v4_string ip \<in> set (var_allowed r) then Some (v4_string ip) else None))
      in case from_server of Some value \<Rightarrow> Inr value
         | None \<Rightarrow>
            (case var_candidates r of
               [] \<Rightarrow> Inl (Errorf ''server certificate has no usable non-local IPv4 SAN for automatic virtual forwarding'' [])
             | [c] \<Rightarrow> Inr c
             | _ \<Rightarrow> Inl (Errorf ''server certificate has multiple usable IPv4 SANs; specify virtual listen_addr as IPv4:port'' [])))"

definition resolve :: "virtualAddressResolver option \<Rightarrow> string \<Rightarrow> int \<Rightarrow> string res" where
  "resolve ro host port =
     (case ro of None \<Rightarrow> Inl (Errorf ''virtual address resolver is unavailable'' [])
      | Some r \<Rightarrow>
         if host = [] then map_sum (\<lambda>e. e) (\<lambda>host. JoinHostPort host (Itoa port)) (automaticIP r)
         else if host \<notin> set (var_allowed r)
         then Inl (Errorf ''virtual listen_addr %s is not authorized by the server certificate IPv4 SAN'' [FS (JoinHostPort host (Itoa port))])
         else Inr (JoinHostPort host (Itoa port)))"

text \<open>\<open>VirtualForwardAddr\<close>: the endpoint one forward takes over.\<close>

definition VirtualForwardAddr :: "cert_env \<Rightarrow> os_env \<Rightarrow> files \<Rightarrow> string \<Rightarrow> string \<Rightarrow> string \<Rightarrow> string res" where
  "VirtualForwardAddr xe env fs caCertFile serverAddr listenAddr =
     (case parseVirtualListenAddr listenAddr of Inl err \<Rightarrow> Inl err
      | Inr (host, port) \<Rightarrow>
         (case newVirtualAddressResolver xe env fs caCertFile serverAddr of Inl err \<Rightarrow> Inl err
          | Inr r \<Rightarrow> resolve (Some r) host port))"

section \<open>IPv4 texts\<close>

text \<open>The decimal text of a byte is read as an octet: no leading zero, at most 255.\<close>

definition dec_step :: "nat \<Rightarrow> char \<Rightarrow> nat" where
  "dec_step n c = 10 * n + digit_val c"

lemma dec_step_mono: "v \<le> foldl dec_step v ds"
proof (induction ds arbitrary: v)
  case (Cons d ds)
  show ?case using Cons [of "dec_step v d"] by (simp add: dec_step_def)
qed simp

lemma v4_fields_octet:
  "list_all is_digit ds \<Longrightarrow> 1 \<le> v \<Longrightarrow> foldl dec_step v ds \<le> 255 \<Longrightarrow>
   v4_fields (ds @ rest) (int v) k out = v4_fields rest (int (foldl dec_step v ds)) (k + int (length ds)) out"
proof (induction ds arbitrary: v k)
  case (Cons d ds)
  have le: "dec_step v d \<le> 255" using Cons.prems(3) dec_step_mono [of "dec_step v d" ds] by simp
  have "v4_fields (ds @ rest) (int (dec_step v d)) (k + 1) out
      = v4_fields rest (int (foldl dec_step (dec_step v d) ds)) (k + 1 + int (length ds)) out"
    using Cons.prems by (intro Cons.IH) (auto simp: dec_step_def)
  moreover have "int v * 10 + int (digit_val d) = int (dec_step v d)" by (simp add: dec_step_def)
  ultimately show ?case using Cons.prems le by (simp add: Let_def add.assoc)
qed simp

lemma dec_val_step: "dec_val s = foldl dec_step 0 s"
proof -
  have "(\<lambda>n c. 10 * n + digit_val c) = dec_step" by (simp add: dec_step_def fun_eq_iff)
  then show ?thesis by (simp add: dec_val_def)
qed

lemma nat_digits_leading: "10 \<le> n \<Longrightarrow> 1 \<le> digit_val (hd (nat_digits n))"
proof (induction n rule: nat_digits.induct)
  case (1 n)
  show ?case
  proof (cases "n div 10 < 10")
    case True
    then show ?thesis
      using "1.prems" digit_nth [OF True] by (simp add: nat_digits.simps [of n] nat_digits.simps [of "n div 10"])
  next
    case False
    then show ?thesis
      using "1.prems" "1.IH" nat_digits_nonempty [of "n div 10"] by (simp add: nat_digits.simps [of n])
  qed
qed

lemma v4_fields_nat_digits:
  assumes "n \<le> 255"
  shows "\<exists>k. 0 < k \<and> v4_fields (nat_digits n @ rest) 0 0 out = v4_fields rest (int n) k out"
proof -
  obtain d ds where ds: "nat_digits n = d # ds" using nat_digits_nonempty [of n] by (cases "nat_digits n") auto
  have digits: "is_digit d" "list_all is_digit ds" using nat_digits_digits [of n] by (simp_all add: ds)
  have val: "foldl dec_step (digit_val d) ds = n"
    using dec_val_nat_digits [of n] by (simp add: dec_val_step ds) (simp add: dec_step_def)
  have first: "v4_fields (nat_digits n @ rest) 0 0 out = v4_fields (ds @ rest) (int (digit_val d)) 1 out"
    using digits dec_step_mono [of "digit_val d" ds] val assms by (simp add: ds Let_def)
  show ?thesis
  proof (cases "n < 10")
    case True
    then have "ds = []" using ds by (simp add: nat_digits.simps [of n])
    then show ?thesis using first val by (intro exI [of _ 1]) simp
  next
    case False
    then have "1 \<le> digit_val d" using nat_digits_leading [of n] by (simp add: ds)
    with digits val assms show ?thesis
      using first v4_fields_octet [of ds "digit_val d" rest 1 out] by (intro exI [of _ "1 + int (length ds)"]) simp
  qed
qed

lemma v4_fields_dot:
  assumes "n \<le> 255" and "length out < 3" and "rest \<noteq> []"
  shows "v4_fields (nat_digits n @ CHR ''.'' # rest) 0 0 out = v4_fields rest 0 0 (out @ [of_nat n])"
proof -
  obtain k where k: "0 < k" "v4_fields (nat_digits n @ CHR ''.'' # rest) 0 0 out = v4_fields (CHR ''.'' # rest) (int n) k out"
    using v4_fields_nat_digits [OF assms(1)] by blast
  have "\<not> is_digit (CHR ''.'')" by code_simp
  with k assms show ?thesis by simp
qed

lemma v4_fields_end:
  assumes "n \<le> 255" and "length out = 3"
  shows "v4_fields (nat_digits n) 0 0 out = Some (out @ [of_nat n])"
proof -
  obtain k where "v4_fields (nat_digits n @ []) 0 0 out = v4_fields [] (int n) k out"
    using v4_fields_nat_digits [OF assms(1)] by blast
  with assms show ?thesis by simp
qed

lemma unat_byte: "unat (b :: 8 word) \<le> 255"
proof -
  have "unat b < (256::nat)" using unsigned_less [of b] by simp
  then show ?thesis by linarith
qed

lemma parseIPv4_v4_string:
  assumes "length q = 4"
  shows "parseIPv4 (v4_string q) = Some (v4_prefix @ q)"
proof -
  obtain a b c d where q: "q = [a, b, c, d]" using assms by (auto simp: numeral_eq_Suc length_Suc_conv)
  show ?thesis
    by (simp add: parseIPv4_def v4_string_def q v4_fields_dot v4_fields_end unat_byte nat_digits_nonempty)
qed

lemma v4_text_chars: "c \<in> set (v4_string q) \<Longrightarrow> is_digit c \<or> c = CHR ''.''"
proof -
  have *: "c \<in> set (join_char s xs) \<Longrightarrow> c = s \<or> (\<exists>x \<in> set xs. c \<in> set x)" for s xs
    by (induction s xs rule: join_char.induct) auto
  assume "c \<in> set (v4_string q)"
  then show ?thesis using * nat_digits_digits by (fastforce simp: v4_string_def list_all_iff)
qed

lemma v4_string_split: "length q = 4 \<Longrightarrow> \<exists>ds rest. v4_string q = ds @ CHR ''.'' # rest \<and> ds \<noteq> [] \<and> list_all is_digit ds
    \<and> is_digit (last (v4_string q))"
proof -
  assume "length q = 4"
  then obtain a b c d where q: "q = [a, b, c, d]" by (auto simp: numeral_eq_Suc length_Suc_conv)
  have "is_digit (last (nat_digits (unat d)))"
    using nat_digits_digits [of "unat d"] nat_digits_nonempty [of "unat d"] by (simp add: list_all_iff)
  then have "is_digit (last (v4_string q))"
    by (simp add: v4_string_def q nat_digits_nonempty)
  moreover have "v4_string q = nat_digits (unat a) @ CHR ''.'' # join_char (CHR ''.'') (map (\<lambda>b. nat_digits (unat b)) [b, c, d])"
    by (simp add: v4_string_def q)
  ultimately show ?thesis using nat_digits_digits [of "unat a"] nat_digits_nonempty [of "unat a"] by blast
qed

lemma is_digit_visible: "is_digit c \<Longrightarrow> visible c"
  by (simp add: is_digit_def visible_def)

lemma v4_string_trim: "length q = 4 \<Longrightarrow> TrimSpace (v4_string q) = v4_string q"
  using v4_string_split [of q] by (intro TrimSpace_visible) (auto simp: is_digit_visible hd_append list_all_iff)

lemma ParseIP_v4_string:
  assumes "length q = 4"
  shows "ParseIP (v4_string q) = Some (v4_prefix @ q)"
proof -
  obtain ds rest where s: "v4_string q = ds @ CHR ''.'' # rest" "list_all is_digit ds"
    using v4_string_split [OF assms] by blast
  have "find (\<lambda>c. c \<in> set ''.:%'') (ds @ CHR ''.'' # rest) = Some (CHR ''.'')"
    using s(2)
  proof (induction ds)
    case (Cons d ds)
    moreover have "d \<notin> set ''.:%''" using Cons.prems by (auto simp: is_digit_def byte_of_def)
    ultimately show ?case by simp
  qed simp
  then have "ParseAddr (v4_string q) = Some (v4_prefix @ q, [])"
    using parseIPv4_v4_string [OF assms] by (simp add: ParseAddr_def s(1))
  then show ?thesis by (simp add: ParseIP_def)
qed

lemma v4_string_inj: "length q = 4 \<Longrightarrow> length r = 4 \<Longrightarrow> v4_string q = v4_string r \<longleftrightarrow> q = r"
  by (metis ParseIP_v4_string option.inject same_append_eq)

lemma v4_string_no_colon: "CHR '':'' \<notin> set (v4_string q) \<and> CHR ''['' \<notin> set (v4_string q) \<and> CHR '']'' \<notin> set (v4_string q)"
  using v4_text_chars [of _ q] digit_not by blast

lemma v4_string_ne: "length q = 4 \<Longrightarrow> v4_string q \<noteq> []"
  using v4_string_split by fastforce

text \<open>The addresses the policy accepts.\<close>

definition usable_v4 :: "8 word list \<Rightarrow> bool" where
  "usable_v4 q \<longleftrightarrow> length q = 4 \<and> q ! 0 \<noteq> 0 \<and> q ! 0 < 224 \<and> q ! 0 \<noteq> 127 \<and> \<not> (q ! 0 = 169 \<and> q ! 1 = 254)"

lemma To4_length: "To4 ip = Some q \<Longrightarrow> length q = 4"
  by (auto simp: To4_def split: if_splits)

lemma To4_prefix: "length q = 4 \<Longrightarrow> To4 (v4_prefix @ q) = Some q"
  by (simp add: To4_def v4_prefix_def)

lemma normalizeVirtualIPv4_usable: "normalizeVirtualIPv4 value = Inr q \<Longrightarrow> usable_v4 q"
  by (auto simp: normalizeVirtualIPv4_def usable_v4_def not_le To4_length split: option.splits if_splits)

lemma normalizeVirtualIPv4_text: "usable_v4 q \<Longrightarrow> normalizeVirtualIPv4 (v4_string q) = Inr q"
  using v4_string_no_colon [of q]
  by (auto simp: normalizeVirtualIPv4_def usable_v4_def v4_string_trim ParseIP_v4_string To4_prefix)

lemma normalizeVirtualIPv4_idem:
  "normalizeVirtualIPv4 value = Inr q \<Longrightarrow> normalizeVirtualIPv4 (v4_string q) = Inr q"
  by (drule normalizeVirtualIPv4_usable) (rule normalizeVirtualIPv4_text)

end
