(* ===== verification/Virtual_Rules.thy ===== *)
theory Virtual_Rules
  imports Virtual_Endpoints Go_Errors Go_Encoding
begin

unbundle bit_operations_syntax

text \<open>
  \<open>client/tunnel/virtual_redirect.go\<close>, the rules: which endpoint is redirected to which local port, the
  normal form of a list of rules, and the filter text of the packet driver. The encoding of the rules
  for the helper process is from \<open>client/tunnel/virtual_redirect_windows.go\<close>; the JSON codec is a
  parameter.
\<close>

section \<open>Rules\<close>

record virtualRedirectRule =
  vr_VirtualIP :: string
  vr_VirtualPort :: "16 word"
  vr_LocalPort :: "16 word"

definition maxVirtualRedirectEndpoints :: nat where
  "maxVirtualRedirectEndpoints = 48"

definition newVirtualRedirectRule :: "string \<Rightarrow> int \<Rightarrow> virtualRedirectRule res" where
  "newVirtualRedirectRule virtualAddr localPort =
     (case SplitHostPort (TrimSpace virtualAddr) of
        Inl err \<Rightarrow> Inl (Errorf ''parse virtual redirect endpoint: %w'' [FE err])
      | Inr (host, portText) \<Rightarrow>
         (case normalizeVirtualIPv4 host of
            Inl err \<Rightarrow> Inl err
          | Inr ip \<Rightarrow>
             (let virtualPort = Atoi portText
              in if virtualPort = None \<or> the virtualPort < 1 \<or> the virtualPort > 65535
                 then Inl (Errorf ''virtual redirect port must be between 1 and 65535'' [])
                 else if localPort < 1 \<or> localPort > 65535
                 then Inl (Errorf ''local virtual redirect port must be between 1 and 65535'' [])
                 else Inr \<lparr>vr_VirtualIP = v4_string ip, vr_VirtualPort = of_int (the virtualPort),
                           vr_LocalPort = of_int localPort\<rparr>)))"

definition rule_key :: "virtualRedirectRule \<Rightarrow> string" where
  "rule_key r = JoinHostPort (vr_VirtualIP r) (Itoa (uint (vr_VirtualPort r)))"

text \<open>The loop of \<open>normalizeVirtualRedirectRules\<close>: the endpoints and local ports seen, the rules so far.\<close>

fun normalize_loop ::
    "virtualRedirectRule list \<Rightarrow> string list \<Rightarrow> 16 word list \<Rightarrow> virtualRedirectRule list \<Rightarrow> virtualRedirectRule list res" where
  "normalize_loop [] targets localPorts rules = Inr rules"
| "normalize_loop (r # rest) targets localPorts rules =
     (case normalizeVirtualIPv4 (vr_VirtualIP r) of
        Inl err \<Rightarrow> Inl err
      | Inr ip \<Rightarrow>
         if vr_VirtualPort r = 0 \<or> vr_LocalPort r = 0
         then Inl (Errorf ''virtual redirect ports must be between 1 and 65535'' [])
         else (let r = r\<lparr>vr_VirtualIP := v4_string ip\<rparr>; key = rule_key r
           in if key \<in> set targets then Inl (Errorf ''duplicate virtual redirect endpoint %s'' [FS key])
              else if vr_LocalPort r \<in> set localPorts
              then Inl (Errorf ''duplicate local virtual redirect port %d'' [FI (uint (vr_LocalPort r))])
              else normalize_loop rest (key # targets) (vr_LocalPort r # localPorts) (rules @ [r])))"

text \<open>\<open>sort.Slice\<close> with the comparison of the code. No two rules have the same address and port, so the
  order that \<open>sort.Slice\<close> leaves open does not arise.\<close>

definition rule_order :: "virtualRedirectRule \<Rightarrow> string \<times> nat" where
  "rule_order r = (vr_VirtualIP r, unat (vr_VirtualPort r))"

definition rule_before :: "virtualRedirectRule \<Rightarrow> virtualRedirectRule \<Rightarrow> bool" where
  "rule_before a b = (if vr_VirtualIP a \<noteq> vr_VirtualIP b then vr_VirtualIP a < vr_VirtualIP b
                      else vr_VirtualPort a < vr_VirtualPort b)"

fun insert_rule :: "virtualRedirectRule \<Rightarrow> virtualRedirectRule list \<Rightarrow> virtualRedirectRule list" where
  "insert_rule r [] = [r]"
| "insert_rule r (x # xs) = (if rule_before x r then x # insert_rule r xs else r # x # xs)"

definition sort_rules :: "virtualRedirectRule list \<Rightarrow> virtualRedirectRule list" where
  "sort_rules rules = foldr insert_rule rules []"

definition normalizeVirtualRedirectRules :: "virtualRedirectRule list \<Rightarrow> virtualRedirectRule list res" where
  "normalizeVirtualRedirectRules values =
     (if length values > maxVirtualRedirectEndpoints
      then Inl (Errorf ''virtual forwarding supports at most %d endpoints'' [FI (int maxVirtualRedirectEndpoints)])
      else map_sum (\<lambda>e. e) sort_rules (normalize_loop values [] [] []))"

fun join_text :: "string \<Rightarrow> string list \<Rightarrow> string" where
  "join_text sep [] = []"
| "join_text sep [s] = s"
| "join_text sep (s # ss) = s @ sep @ join_text sep ss"

definition buildVirtualRedirectFilter :: "virtualRedirectRule list \<Rightarrow> string res" where
  "buildVirtualRedirectFilter rules =
     (case normalizeVirtualRedirectRules rules of
        Inl err \<Rightarrow> Inl err
      | Inr rules \<Rightarrow>
          if rules = [] then Inl (Errorf ''at least one virtual redirect rule is required'' [])
          else (let targets = map (\<lambda>r. Sprintf ''(ip.DstAddr == %s and tcp.DstPort == %d)''
                      [FS (vr_VirtualIP r), FI (uint (vr_VirtualPort r))]) rules;
                    responses = map (\<lambda>r. Sprintf
                      ''(loopback and ip.SrcAddr == 127.0.0.1 and ip.DstAddr == 127.0.0.1 and tcp.SrcPort == %d)''
                      [FI (uint (vr_LocalPort r))]) rules
                in Inr (''ip and tcp and outbound and ('' @ join_text '' or '' (targets @ responses) @ '')'')))"

section \<open>Handing the rules to the helper\<close>

text \<open>\<open>base64.RawURLEncoding\<close> is \<open>RawStdEncoding\<close> with \<open>-\<close> and \<open>_\<close> for \<open>+\<close> and \<open>/\<close>; the
  characters \<open>+\<close> and \<open>/\<close> are then illegal.\<close>

definition url_char :: "char \<Rightarrow> char" where
  "url_char c = (if c = CHR ''+'' then CHR ''-'' else if c = CHR ''/'' then CHR ''_'' else c)"

definition std_char :: "char \<Rightarrow> char" where
  "std_char c = (if c = CHR ''-'' then CHR ''+'' else if c = CHR ''_'' then CHR ''/''
                 else if c = CHR ''+'' \<or> c = CHR ''/'' then CHR ''='' else c)"

definition URL_Encode :: "string \<Rightarrow> string" where
  "URL_Encode s = map url_char (Base64_Encode s)"

definition URL_Decode :: "string \<Rightarrow> string res" where
  "URL_Decode s = Base64_Decode (map std_char s)"

definition encodeVirtualRedirectRules :: "(virtualRedirectRule list \<Rightarrow> string res) \<Rightarrow> virtualRedirectRule list \<Rightarrow> string res" where
  "encodeVirtualRedirectRules marshal rules =
     (case normalizeVirtualRedirectRules rules of Inl err \<Rightarrow> Inl err
      | Inr rules \<Rightarrow> (case marshal rules of Inl err \<Rightarrow> Inl err | Inr data \<Rightarrow> Inr (URL_Encode data)))"

definition decodeVirtualRedirectRules :: "(string \<Rightarrow> virtualRedirectRule list res) \<Rightarrow> string \<Rightarrow> virtualRedirectRule list res" where
  "decodeVirtualRedirectRules unmarshal value =
     (case URL_Decode (TrimSpace value) of
        Inl err \<Rightarrow> Inl (Errorf ''decode virtual redirect rules: %w'' [FE err])
      | Inr data \<Rightarrow>
         (case unmarshal data of
            Inl err \<Rightarrow> Inl (Errorf ''parse virtual redirect rules: %w'' [FE err])
          | Inr rules \<Rightarrow> normalizeVirtualRedirectRules rules))"

section \<open>The normal form\<close>

definition rule_ok :: "virtualRedirectRule \<Rightarrow> bool" where
  "rule_ok r \<longleftrightarrow> (\<exists>q. usable_v4 q \<and> vr_VirtualIP r = v4_string q) \<and> vr_VirtualPort r \<noteq> 0 \<and> vr_LocalPort r \<noteq> 0"

definition rules_ok :: "virtualRedirectRule list \<Rightarrow> bool" where
  "rules_ok rs \<longleftrightarrow> list_all rule_ok rs \<and> distinct (map rule_key rs) \<and> distinct (map vr_LocalPort rs)
     \<and> length rs \<le> maxVirtualRedirectEndpoints"

lemma uint_port: "uint (p :: 16 word) < 2 ^ 63"
proof -
  have "uint p < 65536" using unsigned_less [of p] by simp
  then show ?thesis by (rule less_trans) simp
qed

lemma rule_key_inj:
  assumes "rule_ok a" and "rule_ok b"
  shows "rule_key a = rule_key b \<longleftrightarrow> vr_VirtualIP a = vr_VirtualIP b \<and> vr_VirtualPort a = vr_VirtualPort b"
proof -
  have no: "CHR '':'' \<notin> set (Itoa (uint (p :: 16 word)))" for p
    using nat_digits_digits [of "nat (uint p)"] digit_not by (fastforce simp: Itoa_def list_all_iff)
  have it: "Itoa (uint p) = Itoa (uint r) \<longleftrightarrow> p = r" for p r :: "16 word"
    by (metis Atoi_Itoa option.inject uint_ge_0 uint_port word_of_int_uint)
  show ?thesis using JoinHostPort_inj [OF no no] by (auto simp: rule_key_def it)
qed

lemma normalize_loop_ok:
  "normalize_loop values targets ports rules = Inr rs \<Longrightarrow>
   list_all rule_ok rules \<Longrightarrow> distinct (map rule_key rules) \<Longrightarrow> distinct (map vr_LocalPort rules) \<Longrightarrow>
   set targets = rule_key ` set rules \<Longrightarrow> set ports = vr_LocalPort ` set rules \<Longrightarrow>
   list_all rule_ok rs \<and> distinct (map rule_key rs) \<and> distinct (map vr_LocalPort rs)
     \<and> length rs = length rules + length values"
proof (induction "values" targets ports rules rule: normalize_loop.induct)
  case (2 r rest targets ports rules)
  from "2.prems"(1) obtain ip where ip: "normalizeVirtualIPv4 (vr_VirtualIP r) = Inr ip"
    by (cases "normalizeVirtualIPv4 (vr_VirtualIP r)") auto
  have ports: "vr_VirtualPort r \<noteq> 0" "vr_LocalPort r \<noteq> 0" using "2.prems"(1) ip by (auto split: if_splits)
  let ?r = "r\<lparr>vr_VirtualIP := v4_string ip\<rparr>"
  have ok: "rule_ok ?r" using ip ports normalizeVirtualIPv4_usable [OF ip] by (auto simp: rule_ok_def)
  have new: "rule_key ?r \<notin> set targets" "vr_LocalPort ?r \<notin> set ports"
    and next': "normalize_loop rest (rule_key ?r # targets) (vr_LocalPort ?r # ports) (rules @ [?r]) = Inr rs"
    using "2.prems"(1) ip ports by (auto simp: Let_def split: if_splits)
  have c: "\<not> (vr_VirtualPort r = 0 \<or> vr_LocalPort r = 0)" "rule_key ?r \<notin> set targets" "vr_LocalPort ?r \<notin> set ports"
    using ports new by auto
  show ?case
    using "2.IH" [OF ip c(1) refl refl c(2) c(3) next'] "2.prems" ok new by auto
qed simp

lemma mset_insert_rule [simp]: "mset (insert_rule r xs) = add_mset r (mset xs)"
  by (induction xs) auto

lemma mset_sort_rules [simp]: "mset (sort_rules rs) = mset rs"
  by (induction rs) (simp_all add: sort_rules_def)

lemma set_sort_rules [simp]: "set (sort_rules rs) = set rs"
  by (metis mset_sort_rules set_mset_mset)

lemma distinct_map_mset: "mset xs = mset ys \<Longrightarrow> distinct (map f xs) = distinct (map f ys)"
  by (metis mset_map mset_eq_imp_distinct_iff)

lemma normalize_rules_ok:
  assumes "normalizeVirtualRedirectRules values = Inr rs"
  shows "rules_ok rs"
proof -
  obtain xs where xs: "normalize_loop values [] [] [] = Inr xs" "rs = sort_rules xs"
    and len: "length values \<le> maxVirtualRedirectEndpoints"
    using assms by (cases "normalize_loop values [] [] []") (auto simp: normalizeVirtualRedirectRules_def split: if_splits)
  have m: "mset (sort_rules xs) = mset xs" by simp
  show ?thesis
    using normalize_loop_ok [OF xs(1)] len xs(2) mset_eq_length [OF m]
    by (simp add: rules_ok_def list_all_iff distinct_map_mset [OF m])
qed

lemma rule_before_trans: "rule_before a b \<Longrightarrow> rule_before b c \<Longrightarrow> rule_before a c"
  by (auto simp: rule_before_def split: if_splits)

lemma rule_before_total:
  "vr_VirtualIP a \<noteq> vr_VirtualIP b \<or> vr_VirtualPort a \<noteq> vr_VirtualPort b \<Longrightarrow> \<not> rule_before a b \<Longrightarrow> rule_before b a"
  by (auto simp: rule_before_def split: if_splits)

definition same_endpoint :: "virtualRedirectRule \<Rightarrow> virtualRedirectRule \<Rightarrow> bool" where
  "same_endpoint a b \<longleftrightarrow> vr_VirtualIP a = vr_VirtualIP b \<and> vr_VirtualPort a = vr_VirtualPort b"

lemma sorted_insert_rule:
  "sorted_wrt rule_before xs \<Longrightarrow> \<forall>x \<in> set xs. \<not> same_endpoint r x \<Longrightarrow> sorted_wrt rule_before (insert_rule r xs)"
proof (induction xs)
  case (Cons x xs)
  have set_ins: "set (insert_rule r xs) = insert r (set xs)"
    by (metis mset_insert_rule set_mset_add_mset_insert set_mset_mset)
  show ?case
  proof (cases "rule_before x r")
    case True
    then show ?thesis using Cons by (auto simp: set_ins)
  next
    case False
    then have "rule_before r x" using Cons.prems(2) rule_before_total [of x r] by (auto simp: same_endpoint_def)
    then show ?thesis using Cons.prems(1) False rule_before_trans by auto
  qed
qed simp

lemma insert_rule_first: "\<forall>x \<in> set xs. \<not> rule_before x r \<Longrightarrow> insert_rule r xs = r # xs"
  by (cases xs) auto

lemma rule_before_asym: "rule_before a b \<Longrightarrow> \<not> rule_before b a"
  by (auto simp: rule_before_def split: if_splits)

lemma sort_sorted: "sorted_wrt rule_before xs \<Longrightarrow> sort_rules xs = xs"
  by (induction xs) (auto simp: sort_rules_def insert_rule_first rule_before_asym)

lemma sorted_sort_rules:
  "list_all rule_ok xs \<Longrightarrow> distinct (map rule_key xs) \<Longrightarrow> sorted_wrt rule_before (sort_rules xs)"
proof (induction xs)
  case (Cons x xs)
  have "\<forall>y \<in> set (sort_rules xs). \<not> same_endpoint x y"
    using Cons.prems rule_key_inj by (auto simp: same_endpoint_def list_all_iff)
  then show ?case using Cons sorted_insert_rule by (simp add: sort_rules_def)
qed (simp add: sort_rules_def)

lemma normalize_loop_fixed:
  "list_all rule_ok (rules @ values) \<Longrightarrow> distinct (map rule_key (rules @ values)) \<Longrightarrow>
   distinct (map vr_LocalPort (rules @ values)) \<Longrightarrow> set targets = rule_key ` set rules \<Longrightarrow>
   set ports = vr_LocalPort ` set rules \<Longrightarrow> normalize_loop values targets ports rules = Inr (rules @ values)"
proof (induction "values" arbitrary: targets ports rules)
  case (Cons r rest)
  from Cons.prems(1) have "rule_ok r" by simp
  then obtain q where q: "usable_v4 q" "vr_VirtualIP r = v4_string q" and p: "vr_VirtualPort r \<noteq> 0" "vr_LocalPort r \<noteq> 0"
    by (auto simp: rule_ok_def)
  then have same: "normalizeVirtualIPv4 (vr_VirtualIP r) = Inr q" "r\<lparr>vr_VirtualIP := v4_string q\<rparr> = r"
    by (simp_all add: normalizeVirtualIPv4_text)
  have "normalize_loop rest (rule_key r # targets) (vr_LocalPort r # ports) (rules @ [r]) = Inr ((rules @ [r]) @ rest)"
    using Cons.prems by (intro Cons.IH) auto
  then show ?case using Cons.prems p by (simp add: same Let_def)
qed simp

lemma normalize_rules_sorted:
  assumes "normalizeVirtualRedirectRules values = Inr rs"
  shows "sorted_wrt rule_before rs"
proof -
  obtain xs where xs: "normalize_loop values [] [] [] = Inr xs" "rs = sort_rules xs"
    using assms by (cases "normalize_loop values [] [] []") (auto simp: normalizeVirtualRedirectRules_def split: if_splits)
  show ?thesis using normalize_loop_ok [OF xs(1)] by (simp add: xs(2) sorted_sort_rules)
qed

lemma normalize_rules_fixed:
  assumes "rules_ok rs" and "sorted_wrt rule_before rs"
  shows "normalizeVirtualRedirectRules rs = Inr rs"
proof -
  have "normalize_loop rs [] [] [] = Inr ([] @ rs)"
    using assms(1) by (intro normalize_loop_fixed) (simp_all add: rules_ok_def)
  then show ?thesis using assms by (simp add: normalizeVirtualRedirectRules_def rules_ok_def sort_sorted)
qed

lemma normalize_rules_idem:
  "normalizeVirtualRedirectRules values = Inr rs \<Longrightarrow> normalizeVirtualRedirectRules rs = Inr rs"
  by (intro normalize_rules_fixed normalize_rules_ok normalize_rules_sorted)

section \<open>The helper receives the rules of the client\<close>

lemma base64_chars: "c \<in> set (Base64_Encode s) \<Longrightarrow> c \<in> set base64_alphabet"
proof -
  have codes: "list_all (\<lambda>bs. sextet_char bs \<in> set base64_alphabet) (List.n_lists 6 [True, False])" by code_simp
  assume "c \<in> set (Base64_Encode s)"
  then obtain bs where "bs \<in> set (sextets (concat (map byte_bits s)))" "c = sextet_char bs"
    by (auto simp: Base64_Encode_def)
  moreover from this(1) have "length bs = 6" by (rule sextets_length)
  then have "bs \<in> set (List.n_lists 6 [True, False])" by (auto simp: set_n_lists)
  ultimately show ?thesis using codes by (auto simp: list_all_iff)
qed

lemma std_url_char: "c \<in> set base64_alphabet \<Longrightarrow> std_char (url_char c) = c \<and> visible (url_char c)"
proof -
  have "list_all (\<lambda>c. std_char (url_char c) = c \<and> visible (url_char c)) base64_alphabet" by code_simp
  then show "c \<in> set base64_alphabet \<Longrightarrow> ?thesis" by (simp add: list_all_iff)
qed

lemma URL_Decode_Encode: "URL_Decode (URL_Encode s) = Inr s"
proof -
  have "map (std_char \<circ> url_char) (Base64_Encode s) = Base64_Encode s"
    by (rule map_idI) (simp add: base64_chars std_url_char)
  then show ?thesis by (simp add: URL_Decode_def URL_Encode_def)
qed

lemma URL_Encode_trim: "TrimSpace (URL_Encode s) = URL_Encode s"
proof (rule TrimSpace_visible)
  have "visible c" if "c \<in> set (URL_Encode s)" for c
    using that base64_chars std_url_char by (auto simp: URL_Encode_def)
  then show "URL_Encode s = [] \<or> visible (hd (URL_Encode s)) \<and> visible (last (URL_Encode s))"
    by (cases "URL_Encode s = []") auto
qed

text \<open>The rules the client hands to its elevated helper process arrive as its normalized rules: at most 48,
  sorted, with distinct endpoints and distinct local ports, every address usable and no port zero. The
  JSON text is carried as base64, whatever it is; the codec hypothesis is that \<open>json.Unmarshal\<close> reads back
  what \<open>json.Marshal\<close> wrote.\<close>

theorem helper_receives_rules:
  assumes "normalizeVirtualRedirectRules vals = Inr rs" and "marshal rs = Inr data" and "unmarshal data = Inr rs"
  shows "\<exists>text. encodeVirtualRedirectRules marshal vals = Inr text \<and> decodeVirtualRedirectRules unmarshal text = Inr rs
    \<and> sorted_wrt rule_before rs \<and> distinct (map rule_key rs) \<and> distinct (map vr_LocalPort rs)
    \<and> length rs \<le> 48 \<and> list_all rule_ok rs"
  using assms normalize_rules_ok [OF assms(1)] normalize_rules_sorted [OF assms(1)] normalize_rules_idem [OF assms(1)]
  by (simp add: encodeVirtualRedirectRules_def decodeVirtualRedirectRules_def URL_Encode_trim URL_Decode_Encode
      rules_ok_def maxVirtualRedirectEndpoints_def)

definition sample_rules :: "virtualRedirectRule list" where
  "sample_rules = [\<lparr>vr_VirtualIP = '' 203.0.113.10'', vr_VirtualPort = 443, vr_LocalPort = 45001\<rparr>,
     \<lparr>vr_VirtualIP = ''203.0.113.10'', vr_VirtualPort = 22, vr_LocalPort = 45000\<rparr>]"

definition sample_normal_rules :: "virtualRedirectRule list" where
  "sample_normal_rules = [\<lparr>vr_VirtualIP = ''203.0.113.10'', vr_VirtualPort = 22, vr_LocalPort = 45000\<rparr>,
     \<lparr>vr_VirtualIP = ''203.0.113.10'', vr_VirtualPort = 443, vr_LocalPort = 45001\<rparr>]"

lemma sample_rules_normal: "normalizeVirtualRedirectRules sample_rules = Inr sample_normal_rules"
  by code_simp

theorem helper_receives_rules_witness:
  "\<exists>text. encodeVirtualRedirectRules (\<lambda>_. Inr ''[]'') sample_rules = Inr text
    \<and> decodeVirtualRedirectRules (\<lambda>_. Inr sample_normal_rules) text = Inr sample_normal_rules
    \<and> sorted_wrt rule_before sample_normal_rules \<and> distinct (map rule_key sample_normal_rules)
    \<and> distinct (map vr_LocalPort sample_normal_rules) \<and> length sample_normal_rules \<le> 48 \<and> list_all rule_ok sample_normal_rules"
  by (rule helper_receives_rules [OF sample_rules_normal]) simp_all

end
