(* ===== verification/Virtual_Nat.thy ===== *)
theory Virtual_Nat
  imports Virtual_Rules
begin

text \<open>
  \<open>client/tunnel/virtual_redirect.go\<close>, the packets: the table of redirected connections and the
  rewriting of IPv4 TCP packets. A packet is its list of bytes. The two maps of the table hold
  pointers to the same flows: a pointer is an index into \<open>vt_flows\<close>, which only grows. The clock
  readings and the orders in which \<open>range\<close> visits a map are arguments.
\<close>

section \<open>The table\<close>

definition maxVirtualRedirectFlows :: nat where
  "maxVirtualRedirectFlows = 8192"

definition virtualRedirectEvictSample :: nat where
  "virtualRedirectEvictSample = 32"

definition virtualRedirectFlowIdleTTL :: duration where
  "virtualRedirectFlowIdleTTL = 24 * 60 * minute"

definition virtualRedirectClosingTTL :: duration where
  "virtualRedirectClosingTTL = 10 * minute"

definition virtualRedirectSweepPeriod :: duration where
  "virtualRedirectSweepPeriod = minute"

definition virtualRedirectLoopbackIPv4 :: "32 word" where
  "virtualRedirectLoopbackIPv4 = 0x7f000001"

datatype packet_action = PassPacket | InjectPacket | DropPacket

record endpointKey =
  ek_IP :: "32 word"
  ek_Port :: "16 word"

record targetFlowKey =
  tk_SourceIP :: "32 word"
  tk_SourcePort :: "16 word"
  tk_TargetIP :: "32 word"
  tk_TargetPort :: "16 word"

record responseFlowKey =
  rk_LocalPort :: "16 word"
  rk_NATPort :: "16 word"

record virtualRedirectFlow =
  vf_targetKey :: targetFlowKey
  vf_responseKey :: responseFlowKey
  vf_rule :: virtualRedirectRule
  vf_lastSeen :: time
  vf_closing :: bool
  vf_ifIdx :: "32 word"
  vf_subIfIdx :: "32 word"

record virtualRedirectTable =
  vt_targets :: "(endpointKey, virtualRedirectRule) gomap"
  vt_responses :: "(16 word, virtualRedirectRule) gomap"
  vt_targetFlows :: "(targetFlowKey, nat) gomap"
  vt_responseFlows :: "(responseFlowKey, nat) gomap"
  vt_flows :: "virtualRedirectFlow list"
  vt_nextNATPort :: "16 word"
  vt_lastFlowCleanup :: time

record packet_route =
  pr_Outbound :: bool
  pr_Loopback :: bool
  pr_IfIdx :: "32 word"
  pr_SubIfIdx :: "32 word"

text \<open>Big-endian numbers of a packet.\<close>

definition be16 :: "8 word list \<Rightarrow> nat \<Rightarrow> 16 word" where
  "be16 p i = push_bit 8 (ucast (p ! i)) OR ucast (p ! (i + 1))"

definition be32 :: "8 word list \<Rightarrow> nat \<Rightarrow> 32 word" where
  "be32 p i = push_bit 24 (ucast (p ! i)) OR push_bit 16 (ucast (p ! (i + 1))) OR push_bit 8 (ucast (p ! (i + 2)))
     OR ucast (p ! (i + 3))"

definition put16 :: "nat \<Rightarrow> 16 word \<Rightarrow> 8 word list \<Rightarrow> 8 word list" where
  "put16 i w p = p[i := ucast (drop_bit 8 w), i + 1 := ucast w]"

definition put32 :: "nat \<Rightarrow> 32 word \<Rightarrow> 8 word list \<Rightarrow> 8 word list" where
  "put32 i w p = p[i := ucast (drop_bit 24 w), i + 1 := ucast (drop_bit 16 w), i + 2 := ucast (drop_bit 8 w), i + 3 := ucast w]"

definition rule_ip :: "virtualRedirectRule \<Rightarrow> 32 word" where
  \<comment> \<open>\<open>binary.BigEndian.Uint32(net.ParseIP(rule.VirtualIP).To4())\<close>\<close>
  "rule_ip r = be32 (the (To4 (the (ParseIP (vr_VirtualIP r))))) 0"

definition rule_endpoint :: "virtualRedirectRule \<Rightarrow> endpointKey" where
  "rule_endpoint r = \<lparr>ek_IP = rule_ip r, ek_Port = vr_VirtualPort r\<rparr>"

definition newVirtualRedirectTable :: "time \<Rightarrow> virtualRedirectRule list \<Rightarrow> virtualRedirectTable res" where
  "newVirtualRedirectTable now rules =
     map_sum (\<lambda>e. e) (\<lambda>rules.
        \<lparr>vt_targets = fold (\<lambda>r m. AList.update (rule_endpoint r) r m) rules [],
         vt_responses = fold (\<lambda>r m. AList.update (vr_LocalPort r) r m) rules [],
         vt_targetFlows = [], vt_responseFlows = [], vt_flows = [], vt_nextNATPort = 49152, vt_lastFlowCleanup = now\<rparr>)
       (normalizeVirtualRedirectRules rules)"

section \<open>Flows\<close>

definition removeFlow :: "nat option \<Rightarrow> virtualRedirectTable \<Rightarrow> virtualRedirectTable" where
  "removeFlow fo t =
     (case fo of None \<Rightarrow> t
      | Some f \<Rightarrow> t\<lparr>vt_targetFlows := AList.delete (vf_targetKey (vt_flows t ! f)) (vt_targetFlows t),
                     vt_responseFlows := AList.delete (vf_responseKey (vt_flows t ! f)) (vt_responseFlows t)\<rparr>)"

definition expired_flow :: "time \<Rightarrow> virtualRedirectFlow \<Rightarrow> bool" where
  "expired_flow now flow \<longleftrightarrow>
     now - vf_lastSeen flow \<ge> (if vf_closing flow then virtualRedirectClosingTTL else virtualRedirectFlowIdleTTL)"

definition sweep_flow :: "time \<Rightarrow> targetFlowKey \<times> nat \<Rightarrow> virtualRedirectTable \<Rightarrow> virtualRedirectTable" where
  "sweep_flow now e t = (if expired_flow now (vt_flows t ! snd e) then removeFlow (Some (snd e)) t else t)"

definition cleanupFlows ::
    "((targetFlowKey \<times> nat) list \<Rightarrow> (targetFlowKey \<times> nat) list) \<Rightarrow> time \<Rightarrow> virtualRedirectTable \<Rightarrow> virtualRedirectTable" where
  "cleanupFlows rng now t =
     (if now - vt_lastFlowCleanup t < virtualRedirectSweepPeriod then t
      else fold (sweep_flow now) (rng (vt_targetFlows t)) (t\<lparr>vt_lastFlowCleanup := now\<rparr>))"

text \<open>The scan of \<open>evictStaleFlow\<close> over the first 32 flows: the candidate so far.\<close>

definition older_flow :: "virtualRedirectFlow list \<Rightarrow> (targetFlowKey \<times> nat) \<Rightarrow> nat option \<Rightarrow> nat option" where
  "older_flow flows e candidate =
     (case candidate of None \<Rightarrow> Some (snd e)
      | Some c \<Rightarrow> if vf_lastSeen (flows ! snd e) < vf_lastSeen (flows ! c) then Some (snd e) else Some c)"

definition evictStaleFlow ::
    "((targetFlowKey \<times> nat) list \<Rightarrow> (targetFlowKey \<times> nat) list) \<Rightarrow> virtualRedirectTable \<Rightarrow> virtualRedirectTable" where
  "evictStaleFlow rng t =
     removeFlow (fold (older_flow (vt_flows t)) (take virtualRedirectEvictSample (rng (vt_targetFlows t))) None) t"

text \<open>The loop of \<open>allocateNATPort\<close> with the attempts that are left; the port wraps from 65535 to 0, which the
  code turns into 1024.\<close>

fun nat_port_loop :: "nat \<Rightarrow> (responseFlowKey, nat) gomap \<Rightarrow> 16 word \<Rightarrow> 16 word \<Rightarrow> 16 word option \<times> 16 word" where
  "nat_port_loop 0 flows localPort next = (None, next)"
| "nat_port_loop (Suc attempts) flows localPort next =
     (let port = next; next = next + 1; next = (if next = 0 then 1024 else next)
      in if port = 0 \<or> port = localPort then nat_port_loop attempts flows localPort next
         else if map_of flows \<lparr>rk_LocalPort = localPort, rk_NATPort = port\<rparr> = None then (Some port, next)
         else nat_port_loop attempts flows localPort next)"

definition allocateNATPort :: "16 word \<Rightarrow> 16 word \<Rightarrow> virtualRedirectTable \<Rightarrow> virtualRedirectTable \<times> 16 word option" where
  "allocateNATPort preferred localPort t =
     (if preferred \<noteq> 0 \<and> preferred \<noteq> localPort
         \<and> map_of (vt_responseFlows t) \<lparr>rk_LocalPort = localPort, rk_NATPort = preferred\<rparr> = None
      then (t, Some preferred)
      else case nat_port_loop 65535 (vt_responseFlows t) localPort (vt_nextNATPort t) of
             (port, next) \<Rightarrow> (t\<lparr>vt_nextNATPort := next\<rparr>, port))"

text \<open>The readings and orders one packet uses: \<open>ensureTargetFlow\<close> reads the clock and may visit the flows twice,
  \<open>updateFlowState\<close> reads the clock.\<close>

record nat_env =
  ne_now :: time
  ne_later :: time
  ne_sweep :: "(targetFlowKey \<times> nat) list \<Rightarrow> (targetFlowKey \<times> nat) list"
  ne_evict :: "(targetFlowKey \<times> nat) list \<Rightarrow> (targetFlowKey \<times> nat) list"

definition update_flow :: "nat \<Rightarrow> (virtualRedirectFlow \<Rightarrow> virtualRedirectFlow) \<Rightarrow> virtualRedirectTable \<Rightarrow> virtualRedirectTable" where
  "update_flow f g t = t\<lparr>vt_flows := (vt_flows t)[f := g (vt_flows t ! f)]\<rparr>"

definition ensureTargetFlow ::
    "nat_env \<Rightarrow> targetFlowKey \<Rightarrow> virtualRedirectRule \<Rightarrow> 32 word \<Rightarrow> 32 word \<Rightarrow> virtualRedirectTable \<Rightarrow>
     virtualRedirectTable \<times> nat option" where
  "ensureTargetFlow env key rule ifIdx subIfIdx t =
     (let now = ne_now env; t = cleanupFlows (ne_sweep env) now t
      in case map_of (vt_targetFlows t) key of
           Some f \<Rightarrow> (update_flow f (\<lambda>flow. flow\<lparr>vf_lastSeen := now, vf_ifIdx := ifIdx, vf_subIfIdx := subIfIdx\<rparr>) t, Some f)
         | None \<Rightarrow>
            (let t = (if length (vt_targetFlows t) \<ge> maxVirtualRedirectFlows then evictStaleFlow (ne_evict env) t else t)
             in case allocateNATPort (tk_SourcePort key) (vr_LocalPort rule) t of
                  (t, None) \<Rightarrow> (t, None)
                | (t, Some natPort) \<Rightarrow>
                   (let responseKey = \<lparr>rk_LocalPort = vr_LocalPort rule, rk_NATPort = natPort\<rparr>;
                        flow = \<lparr>vf_targetKey = key, vf_responseKey = responseKey, vf_rule = rule, vf_lastSeen = now,
                                vf_closing = False, vf_ifIdx = ifIdx, vf_subIfIdx = subIfIdx\<rparr>;
                        f = length (vt_flows t)
                    in (t\<lparr>vt_flows := vt_flows t @ [flow],
                          vt_targetFlows := AList.update key f (vt_targetFlows t),
                          vt_responseFlows := AList.update responseKey f (vt_responseFlows t)\<rparr>, Some f))))"

definition updateFlowState :: "time \<Rightarrow> nat \<Rightarrow> 8 word \<Rightarrow> virtualRedirectTable \<Rightarrow> virtualRedirectTable" where
  "updateFlowState now f tcpFlags t =
     (let t = update_flow f (\<lambda>flow. flow\<lparr>vf_lastSeen := now\<rparr>) t;
          t = (if tcpFlags AND 0x02 \<noteq> 0 then update_flow f (\<lambda>flow. flow\<lparr>vf_closing := False\<rparr>) t else t)
      in if tcpFlags AND 0x04 \<noteq> 0 then removeFlow (Some f) t
         else if tcpFlags AND 0x01 \<noteq> 0 then update_flow f (\<lambda>flow. flow\<lparr>vf_closing := True\<rparr>) t
         else t)"

section \<open>Rewriting a packet\<close>

text \<open>The length of the IP header of an IPv4 TCP packet; the addresses are at 12 and 16, the ports at the end
  of the header.\<close>

definition parseVirtualRedirectIPv4TCP :: "8 word list \<Rightarrow> nat option" where
  "parseVirtualRedirectIPv4TCP packet =
     (if length packet < 40 \<or> drop_bit 4 (packet ! 0) \<noteq> 4 \<or> packet ! 9 \<noteq> 6 then None
      else let ihl = unat (packet ! 0 AND 0x0f) * 4
           in if ihl < 20 \<or> length packet < ihl + 20 then None else Some ihl)"

definition rewriteVirtualRedirectPacket ::
    "nat_env \<Rightarrow> 8 word list \<Rightarrow> packet_route \<Rightarrow> virtualRedirectTable option \<Rightarrow>
     8 word list \<times> packet_route \<times> packet_action \<times> virtualRedirectTable option" where
  "rewriteVirtualRedirectPacket env packet route tbl =
     (case tbl of None \<Rightarrow> (packet, route, PassPacket, None)
      | Some t \<Rightarrow>
        (case parseVirtualRedirectIPv4TCP packet of None \<Rightarrow> (packet, route, PassPacket, tbl)
         | Some ihl \<Rightarrow>
           (let tcpFlags = packet ! (ihl + 13);
                srcIP = be32 packet 12; srcPort = be16 packet ihl; dstPort = be16 packet (ihl + 2); dstIP = be32 packet 16
            in if \<not> pr_Outbound route then (packet, route, PassPacket, tbl)
               else case map_of (vt_targets t) \<lparr>ek_IP = dstIP, ek_Port = dstPort\<rparr> of
                 Some rule \<Rightarrow>
                   (case ensureTargetFlow env \<lparr>tk_SourceIP = srcIP, tk_SourcePort = srcPort, tk_TargetIP = dstIP, tk_TargetPort = dstPort\<rparr>
                           rule (pr_IfIdx route) (pr_SubIfIdx route) t of
                      (t, None) \<Rightarrow> (packet, route, DropPacket, Some t)
                    | (t, Some f) \<Rightarrow>
                       (let packet = put32 12 virtualRedirectLoopbackIPv4 packet;
                            packet = put16 ihl (rk_NATPort (vf_responseKey (vt_flows t ! f))) packet;
                            packet = put32 16 virtualRedirectLoopbackIPv4 packet;
                            packet = put16 (ihl + 2) (vr_LocalPort rule) packet;
                            t = updateFlowState (ne_later env) f tcpFlags t
                        in (packet, \<lparr>pr_Outbound = True, pr_Loopback = True, pr_IfIdx = 1, pr_SubIfIdx = 0\<rparr>, InjectPacket, Some t)))
               | None \<Rightarrow>
                   (case (if pr_Loopback route \<and> srcIP = virtualRedirectLoopbackIPv4 \<and> dstIP = virtualRedirectLoopbackIPv4
                          then map_of (vt_responses t) srcPort else None) of
                      None \<Rightarrow> (packet, route, PassPacket, tbl)
                    | Some rule \<Rightarrow>
                       (case map_of (vt_responseFlows t) \<lparr>rk_LocalPort = srcPort, rk_NATPort = dstPort\<rparr> of
                          None \<Rightarrow> (packet, route, PassPacket, tbl)
                        | Some f \<Rightarrow>
                           (let flow = vt_flows t ! f
                            in if vf_rule flow \<noteq> rule then (packet, route, PassPacket, tbl)
                               else (let packet = put32 12 (tk_TargetIP (vf_targetKey flow)) packet;
                                         packet = put16 ihl (vr_VirtualPort rule) packet;
                                         packet = put32 16 (tk_SourceIP (vf_targetKey flow)) packet;
                                         packet = put16 (ihl + 2) (tk_SourcePort (vf_targetKey flow)) packet;
                                         t = updateFlowState (ne_later env) f tcpFlags t
                                     in (packet, \<lparr>pr_Outbound = False, pr_Loopback = False, pr_IfIdx = vf_ifIdx flow,
                                           pr_SubIfIdx = vf_subIfIdx flow\<rparr>, InjectPacket, Some t))))))))"

section \<open>Allocating a port\<close>

definition port_after :: "16 word \<Rightarrow> 16 word" where
  "port_after p = (if p + 1 = 0 then 1024 else p + 1)"

text \<open>The port tried at an attempt: the ports from 1024 to 65535 are visited in a circle.\<close>

definition port_at :: "16 word \<Rightarrow> nat \<Rightarrow> 16 word" where
  "port_at p i = of_nat (1024 + (unat p - 1024 + i) mod 64512)"

lemma unat_port: "unat (p :: 16 word) < 65536"
  using unsigned_less [of p] by simp

lemma unat_of_port: "n < 65536 \<Longrightarrow> unat (of_nat n :: 16 word) = n"
  by (simp add: unat_of_nat take_bit_eq_mod)

lemma unat_port_after: "1024 \<le> unat p \<Longrightarrow> unat (port_after p) = (if unat p = 65535 then 1024 else unat p + 1)"
proof -
  have "unat (p + 1) = (unat p + 1) mod 65536"
    by (simp add: unat_word_ariths)
  moreover have "p + 1 = 0 \<longleftrightarrow> unat (p + 1) = 0" by (simp add: unat_eq_zero)
  ultimately show ?thesis using unat_port [of p] by (auto simp: port_after_def mod_if)
qed

lemma port_at_0: "1024 \<le> unat p \<Longrightarrow> port_at p 0 = p"
proof -
  assume "1024 \<le> unat p"
  then have "1024 + (unat p - 1024 + 0) mod 64512 = unat p" using unat_port [of p] by simp
  then show ?thesis unfolding port_at_def by (simp only:) simp
qed

lemma port_at_Suc: "1024 \<le> unat p \<Longrightarrow> port_at p (Suc i) = port_at (port_after p) i"
proof -
  assume p: "1024 \<le> unat p"
  have "(unat p - 1024 + Suc i) mod 64512 = (unat (port_after p) - 1024 + i) mod 64512"
  proof (cases "unat p = 65535")
    case True
    then have "unat p - 1024 + Suc i = 64512 + i" by simp
    moreover have "unat (port_after p) - 1024 + i = i" using p True by (simp add: unat_port_after)
    ultimately show ?thesis by (simp only: mod_add_self1)
  next
    case False
    then have "unat p - 1024 + Suc i = unat (port_after p) - 1024 + i" using p by (simp add: unat_port_after)
    then show ?thesis by (rule arg_cong)
  qed
  then show ?thesis by (simp only: port_at_def)
qed

lemma port_at_inj: "inj_on (port_at p) {..<64512}"
proof (rule inj_onI)
  fix i j assume i: "i \<in> {..<64512}" and j: "j \<in> {..<64512}" and eq: "port_at p i = port_at p j"
  let ?v = "\<lambda>i. (unat p - 1024 + i) mod 64512"
  have v: "unat (port_at p i) = 1024 + ?v i" for i
  proof -
    have "?v i < 64512" by simp
    then have "1024 + ?v i < 65536" by linarith
    then show ?thesis unfolding port_at_def by (rule unat_of_port)
  qed
  from eq have "?v i = ?v j" using v [of i] v [of j] by simp
  then have *: "64512 dvd (unat p - 1024 + b) - (unat p - 1024 + a)" if "a \<le> b" "{a, b} = {i, j}" for a b
    using that mod_eq_dvd_iff_nat [of "unat p - 1024 + a" "unat p - 1024 + b" 64512] by (auto simp: doubleton_eq_iff)
  have "b - a = 0" if "a \<le> b" "{a, b} = {i, j}" for a b
  proof (rule ccontr)
    assume "b - a \<noteq> 0"
    then have "64512 \<le> b - a" using * [OF that] dvd_imp_le [of 64512 "b - a"] by simp
    moreover have "b < 64512" using that(2) i j by (auto simp: doubleton_eq_iff)
    ultimately show False by linarith
  qed
  then show "i = j" by (metis diff_is_0_eq insert_commute le_antisym nle_le)
qed

lemma nat_port_loop_Some:
  "nat_port_loop n flows lp next = (Some port, next') \<Longrightarrow>
   port \<noteq> 0 \<and> port \<noteq> lp \<and> map_of flows \<lparr>rk_LocalPort = lp, rk_NATPort = port\<rparr> = None"
  by (induction n flows lp "next" rule: nat_port_loop.induct) (auto simp: Let_def split: if_splits)

lemma nat_port_loop_next: "nat_port_loop n flows lp next = (r, next') \<Longrightarrow> 1024 \<le> unat next \<Longrightarrow> 1024 \<le> unat next'"
proof (induction n arbitrary: "next")
  case (Suc n)
  have after: "1024 \<le> unat (port_after next)" using Suc.prems(2) by (simp add: unat_port_after)
  show ?case
    using Suc.prems(1) Suc.IH [OF _ after] after
    by (auto simp: Let_def port_after_def split: if_splits)
qed simp

lemma nat_port_loop_None:
  "nat_port_loop n flows lp next = (None, next') \<Longrightarrow> 1024 \<le> unat next \<Longrightarrow> i < n \<Longrightarrow>
   port_at next i = lp \<or> \<lparr>rk_LocalPort = lp, rk_NATPort = port_at next i\<rparr> \<in> dom (map_of flows)"
proof (induction n arbitrary: "next" i)
  case (Suc n)
  have nz: "next \<noteq> 0" using Suc.prems(2) by auto
  have after: "1024 \<le> unat (port_after next)" using Suc.prems(2) by (simp add: unat_port_after)
  have loop: "nat_port_loop n flows lp (port_after next) = (None, next')"
    and first: "next = lp \<or> \<lparr>rk_LocalPort = lp, rk_NATPort = next\<rparr> \<in> dom (map_of flows)"
    using Suc.prems(1) nz by (auto simp: Let_def port_after_def split: if_splits)
  show ?case
  proof (cases i)
    case 0
    then show ?thesis using first Suc.prems(2) by (simp add: port_at_0)
  next
    case (Suc j)
    then show ?thesis using Suc.IH [OF loop after, of j] Suc.prems(2,3) by (simp add: port_at_Suc)
  qed
qed simp

text \<open>With fewer than 64511 ports in use a free one is found.\<close>

lemma allocateNATPort_finds:
  assumes few: "card (dom (map_of (vt_responseFlows t))) < 64511" and start: "1024 \<le> unat (vt_nextNATPort t)"
  shows "\<exists>t' port. allocateNATPort preferred lp t = (t', Some port)"
proof (rule ccontr)
  assume "\<not> ?thesis"
  then obtain next' where loop: "nat_port_loop 65535 (vt_responseFlows t) lp (vt_nextNATPort t) = (None, next')"
    by (cases "nat_port_loop 65535 (vt_responseFlows t) lp (vt_nextNATPort t)")
       (auto simp: allocateNATPort_def split: if_splits prod.splits)
  let ?D = "dom (map_of (vt_responseFlows t))"
  have fin: "finite ?D" by (rule finite_dom_map_of)
  have "port_at (vt_nextNATPort t) ` {..<64512} \<subseteq> insert lp (rk_NATPort ` ?D)"
  proof
    fix p assume "p \<in> port_at (vt_nextNATPort t) ` {..<64512}"
    then obtain i where i: "i < 64512" "p = port_at (vt_nextNATPort t) i" by auto
    then show "p \<in> insert lp (rk_NATPort ` ?D)"
      using nat_port_loop_None [OF loop start, of i] by (force intro: rev_image_eqI)
  qed
  then have "card (port_at (vt_nextNATPort t) ` {..<64512}) \<le> card (insert lp (rk_NATPort ` ?D))"
    using fin by (intro card_mono) auto
  also have "\<dots> \<le> Suc (card (rk_NATPort ` ?D))" by (rule card_insert_le_m1) simp_all
  also have "\<dots> \<le> Suc (card ?D)" using card_image_le [OF fin] by simp
  finally show False using few by (simp add: card_image [OF port_at_inj])
qed

section \<open>The two maps hold the same flows\<close>

definition flow_ok :: "virtualRedirectTable \<Rightarrow> targetFlowKey \<Rightarrow> nat \<Rightarrow> bool" where
  "flow_ok t k f \<longleftrightarrow> f < length (vt_flows t) \<and> vf_targetKey (vt_flows t ! f) = k
     \<and> map_of (vt_responseFlows t) (vf_responseKey (vt_flows t ! f)) = Some f
     \<and> map_of (vt_targets t) \<lparr>ek_IP = tk_TargetIP k, ek_Port = tk_TargetPort k\<rparr> = Some (vf_rule (vt_flows t ! f))
     \<and> rk_LocalPort (vf_responseKey (vt_flows t ! f)) = vr_LocalPort (vf_rule (vt_flows t ! f))
     \<and> rk_NATPort (vf_responseKey (vt_flows t ! f)) \<noteq> 0
     \<and> rk_NATPort (vf_responseKey (vt_flows t ! f)) \<noteq> vr_LocalPort (vf_rule (vt_flows t ! f))"

definition nat_inv :: "virtualRedirectTable \<Rightarrow> bool" where
  "nat_inv t \<longleftrightarrow> gmap_ok (vt_targetFlows t) \<and> gmap_ok (vt_responseFlows t)
     \<and> (\<forall>k f. map_of (vt_targetFlows t) k = Some f \<longrightarrow> flow_ok t k f)
     \<and> (\<forall>r f. map_of (vt_responseFlows t) r = Some f \<longrightarrow>
          vf_responseKey (vt_flows t ! f) = r \<and> map_of (vt_targetFlows t) (vf_targetKey (vt_flows t ! f)) = Some f)
     \<and> length (vt_targetFlows t) \<le> maxVirtualRedirectFlows \<and> 1024 \<le> unat (vt_nextNATPort t)"

lemma nat_inv_flow: "nat_inv t \<Longrightarrow> map_of (vt_targetFlows t) k = Some f \<Longrightarrow> flow_ok t k f"
  by (simp add: nat_inv_def)

lemma nat_inv_response: "nat_inv t \<Longrightarrow> map_of (vt_responseFlows t) r = Some f \<Longrightarrow>
    vf_responseKey (vt_flows t ! f) = r \<and> map_of (vt_targetFlows t) (vf_targetKey (vt_flows t ! f)) = Some f"
  by (simp add: nat_inv_def)

lemma nat_invI:
  assumes "gmap_ok (vt_targetFlows t)" and "gmap_ok (vt_responseFlows t)"
    and "\<And>k f. map_of (vt_targetFlows t) k = Some f \<Longrightarrow> flow_ok t k f"
    and "\<And>r f. map_of (vt_responseFlows t) r = Some f \<Longrightarrow>
          vf_responseKey (vt_flows t ! f) = r \<and> map_of (vt_targetFlows t) (vf_targetKey (vt_flows t ! f)) = Some f"
    and "length (vt_targetFlows t) \<le> maxVirtualRedirectFlows" and "1024 \<le> unat (vt_nextNATPort t)"
  shows "nat_inv t"
  unfolding nat_inv_def using assms by blast

lemma nat_inv_sizes: "nat_inv t \<Longrightarrow> gmap_ok (vt_targetFlows t) \<and> gmap_ok (vt_responseFlows t)
    \<and> length (vt_targetFlows t) \<le> maxVirtualRedirectFlows \<and> 1024 \<le> unat (vt_nextNATPort t)"
  unfolding nat_inv_def by blast

lemma nat_inv_card:
  assumes "nat_inv t"
  shows "card (dom (map_of (vt_responseFlows t))) \<le> length (vt_targetFlows t)"
proof -
  have "dom (map_of (vt_responseFlows t)) \<subseteq> (\<lambda>e. vf_responseKey (vt_flows t ! snd e)) ` set (vt_targetFlows t)"
  proof
    fix r assume "r \<in> dom (map_of (vt_responseFlows t))"
    then obtain f where f: "map_of (vt_responseFlows t) r = Some f" by auto
    with nat_inv_response [OF assms f] show "r \<in> (\<lambda>e. vf_responseKey (vt_flows t ! snd e)) ` set (vt_targetFlows t)"
      by (force dest: map_of_SomeD intro: rev_image_eqI)
  qed
  then have "card (dom (map_of (vt_responseFlows t))) \<le> card ((\<lambda>e. vf_responseKey (vt_flows t ! snd e)) ` set (vt_targetFlows t))"
    by (intro card_mono) simp_all
  also have "\<dots> \<le> card (set (vt_targetFlows t))" by (rule card_image_le) simp
  also have "\<dots> \<le> length (vt_targetFlows t)" by (rule card_length)
  finally show ?thesis .
qed

text \<open>Two live flows with the same key on either side are the same flow.\<close>

lemma nat_inv_inj:
  assumes "nat_inv t" and "map_of (vt_targetFlows t) k = Some f" and "map_of (vt_targetFlows t) k' = Some f'"
    and "vf_responseKey (vt_flows t ! f) = vf_responseKey (vt_flows t ! f')"
  shows "k = k' \<and> f = f'"
  using assms nat_inv_flow [OF assms(1,2)] nat_inv_flow [OF assms(1,3)] by (auto simp: flow_ok_def)

lemma removeFlow_same [simp]:
  "vt_targets (removeFlow fo t) = vt_targets t" "vt_responses (removeFlow fo t) = vt_responses t"
  "vt_flows (removeFlow fo t) = vt_flows t" "vt_nextNATPort (removeFlow fo t) = vt_nextNATPort t"
  "vt_lastFlowCleanup (removeFlow fo t) = vt_lastFlowCleanup t"
  by (simp_all add: removeFlow_def split: option.split)

lemma removeFlow_inv:
  assumes inv: "nat_inv t" and live: "map_of (vt_targetFlows t) k = Some f"
  shows "nat_inv (removeFlow (Some f) t)
    \<and> map_of (vt_targetFlows (removeFlow (Some f) t)) = (map_of (vt_targetFlows t))(k := None)
    \<and> length (vt_targetFlows (removeFlow (Some f) t)) = length (vt_targetFlows t) - 1"
proof -
  let ?r = "vf_responseKey (vt_flows t ! f)" and ?t = "removeFlow (Some f) t"
  note ok = nat_inv_flow [OF inv live, unfolded flow_ok_def]
  have tf: "vt_targetFlows ?t = AList.delete k (vt_targetFlows t)" and rf: "vt_responseFlows ?t = AList.delete ?r (vt_responseFlows t)"
    using ok by (simp_all add: removeFlow_def)
  note gm = nat_inv_sizes [OF inv]
  have len: "length (vt_targetFlows ?t) = length (vt_targetFlows t) - 1" using live gm by (simp add: tf length_delete_AList)
  have fl: "flow_ok ?t k' f'" if "map_of (vt_targetFlows ?t) k' = Some f'" for k' f'
  proof -
    have l: "map_of (vt_targetFlows t) k' = Some f'" "k' \<noteq> k" using that by (auto simp: tf map_of_delete split: if_splits)
    have "vf_responseKey (vt_flows t ! f') \<noteq> ?r" using nat_inv_inj [OF inv l(1) live] l(2) by auto
    with nat_inv_flow [OF inv l(1)] show ?thesis by (simp add: flow_ok_def rf map_of_delete)
  qed
  have re: "vf_responseKey (vt_flows ?t ! f') = r' \<and> map_of (vt_targetFlows ?t) (vf_targetKey (vt_flows ?t ! f')) = Some f'"
    if "map_of (vt_responseFlows ?t) r' = Some f'" for r' f'
  proof -
    have l: "map_of (vt_responseFlows t) r' = Some f'" "r' \<noteq> ?r" using that by (auto simp: rf map_of_delete split: if_splits)
    note r = nat_inv_response [OF inv l(1)]
    have "vf_targetKey (vt_flows t ! f') \<noteq> k"
    proof
      assume "vf_targetKey (vt_flows t ! f') = k"
      then have "f' = f" using r live by simp
      then show False using r l(2) by simp
    qed
    then show ?thesis using r by (simp add: tf map_of_delete)
  qed
  have "nat_inv ?t"
  proof (rule nat_invI [OF _ _ fl re])
    show "gmap_ok (vt_targetFlows ?t)" "gmap_ok (vt_responseFlows ?t)" using gm by (simp_all add: tf rf)
    show "length (vt_targetFlows ?t) \<le> maxVirtualRedirectFlows" "1024 \<le> unat (vt_nextNATPort ?t)" using gm len by auto
  qed
  then show ?thesis using len by (simp add: tf map_of_delete)
qed

definition shrunk :: "virtualRedirectTable \<Rightarrow> virtualRedirectTable \<Rightarrow> bool" where
  \<comment> \<open>some flows were removed and nothing else changed\<close>
  "shrunk t t' \<longleftrightarrow> nat_inv t' \<and> map_of (vt_targetFlows t') \<subseteq>\<^sub>m map_of (vt_targetFlows t)
     \<and> length (vt_targetFlows t') \<le> length (vt_targetFlows t) \<and> vt_flows t' = vt_flows t
     \<and> vt_targets t' = vt_targets t \<and> vt_responses t' = vt_responses t"

lemma shrunk_refl: "nat_inv t \<Longrightarrow> shrunk t t"
  by (simp add: shrunk_def)

lemma shrunk_trans: "shrunk t u \<Longrightarrow> shrunk u v \<Longrightarrow> shrunk t v"
  unfolding shrunk_def using map_le_trans by auto

lemma removeFlow_shrunk:
  "nat_inv t \<Longrightarrow> map_of (vt_targetFlows t) k = Some f \<Longrightarrow> shrunk t (removeFlow (Some f) t)"
  using removeFlow_inv [of t k f] by (auto simp: shrunk_def map_le_def)

lemma sweep_fold_shrunk:
  assumes "nat_inv t" and "distinct (map fst es)" and "\<forall>(k, f) \<in> set es. map_of (vt_targetFlows t) k = Some f"
  shows "shrunk t (fold (sweep_flow now) es t)"
  using assms
proof (induction es arbitrary: t)
  case (Cons e es)
  obtain k f where e: "e = (k, f)" by (cases e)
  have live: "map_of (vt_targetFlows t) k = Some f" using Cons.prems(3) by (simp add: e)
  have step: "shrunk t (sweep_flow now e t)"
    using removeFlow_shrunk [OF Cons.prems(1) live] Cons.prems(1) by (simp add: sweep_flow_def e shrunk_refl)
  moreover have "\<forall>(k', f') \<in> set es. map_of (vt_targetFlows (sweep_flow now e t)) k' = Some f'"
    using Cons.prems(2,3) removeFlow_inv [OF Cons.prems(1) live] by (force simp: e sweep_flow_def)
  then have "shrunk (sweep_flow now e t) (fold (sweep_flow now) es (sweep_flow now e t))"
    using step Cons.prems(2) by (intro Cons.IH) (auto simp: shrunk_def)
  ultimately show ?case by (simp add: shrunk_trans)
qed (simp add: shrunk_refl)

lemma perm_entries:
  assumes "perm_fn rng" and "gmap_ok m"
  shows "distinct (map fst (rng m)) \<and> (\<forall>(k, f) \<in> set (rng m). map_of m k = Some f)"
proof -
  have "mset (map fst (rng m)) = mset (map fst m)" using assms(1) by (simp add: perm_fn_def)
  then have "distinct (map fst (rng m))" using assms(2) unfolding gmap_ok_def by (metis mset_eq_imp_distinct_iff)
  then show ?thesis using assms by (auto simp: perm_fn_set gmap_ok_def)
qed

lemma cleanupFlows_shrunk:
  assumes "nat_inv t" and "perm_fn rng"
  shows "shrunk t (cleanupFlows rng now t)"
proof (cases "now - vt_lastFlowCleanup t < virtualRedirectSweepPeriod")
  case True
  then show ?thesis using assms by (simp add: cleanupFlows_def shrunk_refl)
next
  case False
  let ?t = "t\<lparr>vt_lastFlowCleanup := now\<rparr>"
  have inv: "nat_inv ?t" using assms(1) by (simp add: nat_inv_def flow_ok_def)
  have "gmap_ok (vt_targetFlows t)" using assms(1) by (simp add: nat_inv_def)
  with perm_entries [OF assms(2), of "vt_targetFlows t"] have "shrunk ?t (fold (sweep_flow now) (rng (vt_targetFlows t)) ?t)"
    by (intro sweep_fold_shrunk [OF inv]) auto
  then show ?thesis using False by (simp add: cleanupFlows_def shrunk_def)
qed

lemma fold_older_flow: "fold (older_flow flows) es c = Some f \<Longrightarrow> c = Some f \<or> f \<in> snd ` set es"
proof (induction es arbitrary: c)
  case (Cons e es)
  from Cons.IH [of "older_flow flows e c"] Cons.prems have "older_flow flows e c = Some f \<or> f \<in> snd ` set es" by simp
  then show ?case by (cases c) (auto simp: older_flow_def split: if_splits)
qed simp

lemma fold_older_flow_Some: "fold (older_flow flows) es (Some c) \<noteq> None"
  by (induction es arbitrary: c) (simp_all add: older_flow_def)

lemma evictStaleFlow_shrunk:
  assumes inv: "nat_inv t" and rng: "perm_fn rng"
  shows "shrunk t (evictStaleFlow rng t) \<and> (vt_targetFlows t \<noteq> [] \<longrightarrow>
    length (vt_targetFlows (evictStaleFlow rng t)) < length (vt_targetFlows t))"
proof (cases "vt_targetFlows t = []")
  case True
  then have "rng (vt_targetFlows t) = []" using perm_fn_set [OF rng, of "[]"] by simp
  then show ?thesis using True inv by (simp add: evictStaleFlow_def removeFlow_def shrunk_refl)
next
  case False
  let ?es = "take virtualRedirectEvictSample (rng (vt_targetFlows t))"
  have gm: "gmap_ok (vt_targetFlows t)" using inv by (simp add: nat_inv_def)
  have "rng (vt_targetFlows t) \<noteq> []" using False perm_fn_set [OF rng, of "vt_targetFlows t"] by auto
  then obtain e es where es: "?es = e # es"
    by (cases "rng (vt_targetFlows t)") (auto simp: virtualRedirectEvictSample_def numeral_eq_Suc)
  then obtain f where f: "fold (older_flow (vt_flows t)) ?es None = Some f"
    using fold_older_flow_Some [of "vt_flows t" es "snd e"] by (auto simp: older_flow_def)
  from fold_older_flow [OF this] obtain k where "(k, f) \<in> set ?es" by auto
  then have live: "map_of (vt_targetFlows t) k = Some f"
    using perm_entries [OF rng gm] by (auto dest: in_set_takeD)
  with removeFlow_inv [OF inv live] removeFlow_shrunk [OF inv live] False f show ?thesis
    by (simp add: evictStaleFlow_def)
qed

text \<open>A change of a flow that keeps its keys and rule.\<close>

lemma update_flow_keys:
  assumes "\<And>flow. vf_targetKey (g flow) = vf_targetKey flow" and "\<And>flow. vf_responseKey (g flow) = vf_responseKey flow"
    and "\<And>flow. vf_rule (g flow) = vf_rule flow"
  shows "vf_targetKey (vt_flows (update_flow f g t) ! i) = vf_targetKey (vt_flows t ! i)"
    "vf_responseKey (vt_flows (update_flow f g t) ! i) = vf_responseKey (vt_flows t ! i)"
    "vf_rule (vt_flows (update_flow f g t) ! i) = vf_rule (vt_flows t ! i)"
  by (cases "i = f \<and> f < length (vt_flows t)"; simp add: update_flow_def nth_list_update assms; auto simp: nth_list_update list_update_beyond)+

lemma update_flow_inv:
  assumes "nat_inv t" and "\<And>flow. vf_targetKey (g flow) = vf_targetKey flow" and "\<And>flow. vf_responseKey (g flow) = vf_responseKey flow"
    and "\<And>flow. vf_rule (g flow) = vf_rule flow"
  shows "nat_inv (update_flow f g t)"
proof -
  note keys = update_flow_keys [of g, OF assms(2-4)]
  have maps: "vt_targetFlows (update_flow f g t) = vt_targetFlows t" "vt_responseFlows (update_flow f g t) = vt_responseFlows t"
    "vt_targets (update_flow f g t) = vt_targets t" "vt_nextNATPort (update_flow f g t) = vt_nextNATPort t"
    "length (vt_flows (update_flow f g t)) = length (vt_flows t)"
    by (simp_all add: update_flow_def)
  show ?thesis using assms(1) by (simp add: nat_inv_def flow_ok_def keys maps)
qed

lemma update_flow_same [simp]:
  "vt_targetFlows (update_flow f g t) = vt_targetFlows t" "vt_responseFlows (update_flow f g t) = vt_responseFlows t"
  "vt_targets (update_flow f g t) = vt_targets t" "vt_responses (update_flow f g t) = vt_responses t"
  "vt_nextNATPort (update_flow f g t) = vt_nextNATPort t" "length (vt_flows (update_flow f g t)) = length (vt_flows t)"
  by (simp_all add: update_flow_def)

lemma update_flow_nth [simp]: "f < length (vt_flows t) \<Longrightarrow> vt_flows (update_flow f g t) ! f = g (vt_flows t ! f)"
  by (simp add: update_flow_def)

definition add_flow :: "virtualRedirectFlow \<Rightarrow> virtualRedirectTable \<Rightarrow> virtualRedirectTable" where
  "add_flow flow t = t\<lparr>vt_flows := vt_flows t @ [flow],
     vt_targetFlows := AList.update (vf_targetKey flow) (length (vt_flows t)) (vt_targetFlows t),
     vt_responseFlows := AList.update (vf_responseKey flow) (length (vt_flows t)) (vt_responseFlows t)\<rparr>"

lemma add_flow_inv:
  assumes inv: "nat_inv t" and room: "length (vt_targetFlows t) < maxVirtualRedirectFlows"
    and new: "map_of (vt_targetFlows t) (vf_targetKey flow) = None" "map_of (vt_responseFlows t) (vf_responseKey flow) = None"
    and rule: "map_of (vt_targets t) \<lparr>ek_IP = tk_TargetIP (vf_targetKey flow), ek_Port = tk_TargetPort (vf_targetKey flow)\<rparr> = Some (vf_rule flow)"
    and port: "rk_LocalPort (vf_responseKey flow) = vr_LocalPort (vf_rule flow)" "rk_NATPort (vf_responseKey flow) \<noteq> 0"
      "rk_NATPort (vf_responseKey flow) \<noteq> vr_LocalPort (vf_rule flow)"
  shows "nat_inv (add_flow flow t)"
proof -
  let ?t = "add_flow flow t"
  note gm = nat_inv_sizes [OF inv]
  have f: "flow_ok ?t k f" if "map_of (vt_targetFlows ?t) k = Some f" for k f
  proof (cases "k = vf_targetKey flow")
    case True
    then have f: "f = length (vt_flows t)" using that by (simp add: add_flow_def map_of_update)
    show ?thesis using rule port by (simp add: f True add_flow_def map_of_update flow_ok_def)
  next
    case False
    then have "map_of (vt_targetFlows t) k = Some f" using that by (simp add: add_flow_def map_of_update)
    from nat_inv_flow [OF inv this] new(2) show ?thesis
      by (auto simp: flow_ok_def add_flow_def map_of_update nth_append)
  qed
  have r: "vf_responseKey (vt_flows ?t ! f) = r \<and> map_of (vt_targetFlows ?t) (vf_targetKey (vt_flows ?t ! f)) = Some f"
    if "map_of (vt_responseFlows ?t) r = Some f" for r f
  proof (cases "r = vf_responseKey flow")
    case True
    then have f: "f = length (vt_flows t)" using that by (simp add: add_flow_def map_of_update)
    show ?thesis by (simp add: f True add_flow_def map_of_update)
  next
    case False
    then have "map_of (vt_responseFlows t) r = Some f" using that by (simp add: add_flow_def map_of_update)
    note old = nat_inv_response [OF inv this]
    have "f < length (vt_flows t)" using old nat_inv_flow [OF inv] by (auto simp: flow_ok_def)
    with old new(1) show ?thesis by (auto simp: add_flow_def map_of_update nth_append)
  qed
  show ?thesis
  proof (rule nat_invI [OF _ _ f r])
    show "gmap_ok (vt_targetFlows ?t)" "gmap_ok (vt_responseFlows ?t)" using gm by (simp_all add: add_flow_def)
    show "length (vt_targetFlows ?t) \<le> maxVirtualRedirectFlows" "1024 \<le> unat (vt_nextNATPort ?t)"
      using gm room new by (simp_all add: add_flow_def length_update_AList)
  qed
qed

lemma allocateNATPort_result:
  assumes "allocateNATPort preferred lp t = (t', Some port)" and "1024 \<le> unat (vt_nextNATPort t)"
  shows "port \<noteq> 0 \<and> port \<noteq> lp \<and> map_of (vt_responseFlows t) \<lparr>rk_LocalPort = lp, rk_NATPort = port\<rparr> = None
    \<and> (\<exists>n. 1024 \<le> unat n \<and> t' = t\<lparr>vt_nextNATPort := n\<rparr>)"
proof (cases "preferred \<noteq> 0 \<and> preferred \<noteq> lp \<and> map_of (vt_responseFlows t) \<lparr>rk_LocalPort = lp, rk_NATPort = preferred\<rparr> = None")
  case True
  then have "t' = t\<lparr>vt_nextNATPort := vt_nextNATPort t\<rparr>" using assms(1) by (auto simp: allocateNATPort_def split: if_splits)
  then show ?thesis using True assms by (auto simp: allocateNATPort_def split: if_splits)
next
  case False
  obtain r n where loop: "nat_port_loop 65535 (vt_responseFlows t) lp (vt_nextNATPort t) = (r, n)" by fastforce
  have "r = Some port" "t' = t\<lparr>vt_nextNATPort := n\<rparr>"
    using assms(1) unfolding allocateNATPort_def if_not_P [OF False] loop by simp_all
  then show ?thesis using nat_port_loop_Some [OF loop [unfolded \<open>r = Some port\<close>]] nat_port_loop_next [OF loop assms(2)] by blast
qed

section \<open>One packet\<close>

text \<open>The keys and the rule of a flow never change, and the rules of a table never change.\<close>

definition same_flows :: "virtualRedirectTable \<Rightarrow> virtualRedirectTable \<Rightarrow> bool" where
  "same_flows t t' \<longleftrightarrow> vt_targets t' = vt_targets t \<and> vt_responses t' = vt_responses t \<and> length (vt_flows t) \<le> length (vt_flows t')
     \<and> (\<forall>f < length (vt_flows t). vf_targetKey (vt_flows t' ! f) = vf_targetKey (vt_flows t ! f)
          \<and> vf_responseKey (vt_flows t' ! f) = vf_responseKey (vt_flows t ! f) \<and> vf_rule (vt_flows t' ! f) = vf_rule (vt_flows t ! f))"

lemma same_flows_refl [simp]: "same_flows t t"
  by (simp add: same_flows_def)

lemma same_flows_trans: "same_flows t u \<Longrightarrow> same_flows u v \<Longrightarrow> same_flows t v"
  unfolding same_flows_def by (metis order_less_le_trans le_trans)

lemma shrunk_same_flows: "shrunk t t' \<Longrightarrow> same_flows t t'"
  by (simp add: shrunk_def same_flows_def)

lemma update_same_flows:
  "(\<And>flow. vf_targetKey (g flow) = vf_targetKey flow) \<Longrightarrow> (\<And>flow. vf_responseKey (g flow) = vf_responseKey flow) \<Longrightarrow>
   (\<And>flow. vf_rule (g flow) = vf_rule flow) \<Longrightarrow> same_flows t (update_flow f g t)"
  by (simp add: same_flows_def update_flow_keys)

lemma add_same_flows: "same_flows t (add_flow flow t)"
  by (simp add: same_flows_def add_flow_def nth_append)

lemma ensureTargetFlow_works:
  assumes inv: "nat_inv t" and rng: "perm_fn (ne_sweep env)" "perm_fn (ne_evict env)"
    and rule: "map_of (vt_targets t) \<lparr>ek_IP = tk_TargetIP key, ek_Port = tk_TargetPort key\<rparr> = Some rule"
  shows "\<exists>t' f. ensureTargetFlow env key rule a b t = (t', Some f) \<and> nat_inv t' \<and> same_flows t t'
    \<and> map_of (vt_targetFlows t') key = Some f \<and> vf_ifIdx (vt_flows t' ! f) = a \<and> vf_subIfIdx (vt_flows t' ! f) = b"
proof -
  let ?c = "cleanupFlows (ne_sweep env) (ne_now env) t"
  have c: "nat_inv ?c" "same_flows t ?c" using cleanupFlows_shrunk [OF inv rng(1)] shrunk_same_flows by (auto simp: shrunk_def)
  show ?thesis
  proof (cases "map_of (vt_targetFlows ?c) key")
    case (Some f)
    let ?g = "\<lambda>flow. flow\<lparr>vf_lastSeen := ne_now env, vf_ifIdx := a, vf_subIfIdx := b\<rparr>"
    have "f < length (vt_flows ?c)" using nat_inv_flow [OF c(1) Some] by (simp add: flow_ok_def)
    then have "ensureTargetFlow env key rule a b t = (update_flow f ?g ?c, Some f)
      \<and> vf_ifIdx (vt_flows (update_flow f ?g ?c) ! f) = a \<and> vf_subIfIdx (vt_flows (update_flow f ?g ?c) ! f) = b"
      by (simp add: ensureTargetFlow_def Let_def Some)
    moreover have "nat_inv (update_flow f ?g ?c)" by (rule update_flow_inv [OF c(1)]) simp_all
    moreover have "same_flows t (update_flow f ?g ?c)" by (rule same_flows_trans [OF c(2)], rule update_same_flows) simp_all
    ultimately show ?thesis using Some by auto
  next
    case None
    let ?e = "if length (vt_targetFlows ?c) \<ge> maxVirtualRedirectFlows then evictStaleFlow (ne_evict env) ?c else ?c"
    have e: "shrunk ?c ?e" using evictStaleFlow_shrunk [OF c(1) rng(2)] c(1) by (simp add: shrunk_refl)
    have room: "length (vt_targetFlows ?e) < maxVirtualRedirectFlows"
      using evictStaleFlow_shrunk [OF c(1) rng(2)] nat_inv_sizes [OF c(1)] by (auto simp: maxVirtualRedirectFlows_def)
    have inv_e: "nat_inv ?e" using e unfolding shrunk_def by blast
    have se: "same_flows t ?e" by (rule same_flows_trans [OF c(2) shrunk_same_flows [OF e]])
    have free: "map_of (vt_targetFlows ?e) key = None" using e None unfolding shrunk_def map_le_def dom_def by fastforce
    have start: "1024 \<le> unat (vt_nextNATPort ?e)" using nat_inv_sizes [OF inv_e] by blast
    have "card (dom (map_of (vt_responseFlows ?e))) < 64511"
      using nat_inv_card [OF inv_e] room by (simp add: maxVirtualRedirectFlows_def)
    then obtain u port where al: "allocateNATPort (tk_SourcePort key) (vr_LocalPort rule) ?e = (u, Some port)"
      using allocateNATPort_finds [OF _ start] by blast
    from allocateNATPort_result [OF al start] obtain n where
      port: "port \<noteq> 0" "port \<noteq> vr_LocalPort rule" "map_of (vt_responseFlows ?e) \<lparr>rk_LocalPort = vr_LocalPort rule, rk_NATPort = port\<rparr> = None"
      and n: "1024 \<le> unat n" "u = ?e\<lparr>vt_nextNATPort := n\<rparr>" by blast
    have u: "nat_inv u" "same_flows ?e u" "vt_targetFlows u = vt_targetFlows ?e" "vt_responseFlows u = vt_responseFlows ?e"
      using inv_e n(1) by (simp_all add: n(2) nat_inv_def flow_ok_def same_flows_def)
    let ?flow = "\<lparr>vf_targetKey = key, vf_responseKey = \<lparr>rk_LocalPort = vr_LocalPort rule, rk_NATPort = port\<rparr>, vf_rule = rule,
      vf_lastSeen = ne_now env, vf_closing = False, vf_ifIdx = a, vf_subIfIdx = b\<rparr>"
    have su: "same_flows t u" using se u(2) by (rule same_flows_trans)
    have "nat_inv (add_flow ?flow u)"
      using su rule room free port u by (intro add_flow_inv) (simp_all add: same_flows_def)
    moreover have "same_flows t (add_flow ?flow u)" by (rule same_flows_trans [OF su add_same_flows])
    moreover have "ensureTargetFlow env key rule a b t = (add_flow ?flow u, Some (length (vt_flows u)))"
      unfolding ensureTargetFlow_def Let_def None option.case al by (simp add: add_flow_def)
    moreover have "map_of (vt_targetFlows (add_flow ?flow u)) key = Some (length (vt_flows u))"
      "vt_flows (add_flow ?flow u) ! length (vt_flows u) = ?flow"
      by (simp_all add: add_flow_def map_of_update)
    ultimately show ?thesis by (metis virtualRedirectFlow.select_convs(6,7))
  qed
qed

definition no_reset :: "8 word \<Rightarrow> bool" where
  "no_reset tcpFlags \<longleftrightarrow> tcpFlags AND 0x04 = 0"

lemma updateFlowState_inv:
  assumes inv: "nat_inv t" and live: "map_of (vt_targetFlows t) k = Some f"
  shows "nat_inv (updateFlowState now f tcpFlags t) \<and> same_flows t (updateFlowState now f tcpFlags t)
    \<and> (no_reset tcpFlags \<longrightarrow> vt_targetFlows (updateFlowState now f tcpFlags t) = vt_targetFlows t
         \<and> vt_responseFlows (updateFlowState now f tcpFlags t) = vt_responseFlows t)"
proof -
  let ?a = "update_flow f (\<lambda>flow. flow\<lparr>vf_lastSeen := now\<rparr>) t"
  let ?b = "if tcpFlags AND 0x02 \<noteq> 0 then update_flow f (\<lambda>flow. flow\<lparr>vf_closing := False\<rparr>) ?a else ?a"
  have a: "nat_inv ?a" by (rule update_flow_inv [OF inv]) simp_all
  have sa: "same_flows t ?a" by (rule update_same_flows) simp_all
  have b: "nat_inv ?b" using a update_flow_inv [OF a, of "\<lambda>flow. flow\<lparr>vf_closing := False\<rparr>"] by simp
  have "same_flows ?a ?b" using update_same_flows [of "\<lambda>flow. flow\<lparr>vf_closing := False\<rparr>"] by simp
  with sa have sb: "same_flows t ?b" by (rule same_flows_trans)
  have live_b: "map_of (vt_targetFlows ?b) k = Some f" using live by simp
  let ?c = "if tcpFlags AND 0x04 \<noteq> 0 then removeFlow (Some f) ?b
    else if tcpFlags AND 0x01 \<noteq> 0 then update_flow f (\<lambda>flow. flow\<lparr>vf_closing := True\<rparr>) ?b else ?b"
  have "updateFlowState now f tcpFlags t = ?c" by (simp add: updateFlowState_def Let_def)
  moreover have "nat_inv ?c"
    using b removeFlow_inv [OF b live_b] update_flow_inv [OF b, of "\<lambda>flow. flow\<lparr>vf_closing := True\<rparr>"] by simp
  moreover have "same_flows ?b ?c"
    using shrunk_same_flows [OF removeFlow_shrunk [OF b live_b]] update_same_flows [of "\<lambda>flow. flow\<lparr>vf_closing := True\<rparr>"] by simp
  with sb have "same_flows t ?c" by (rule same_flows_trans)
  ultimately show ?thesis by (simp add: no_reset_def)
qed

end
