(* ===== verification/Virtual_Nat_Laws.thy ===== *)
theory Virtual_Nat_Laws
  imports Virtual_Nat
begin

unbundle bit_operations_syntax

text \<open>
  What the redirection does to packets: only packets of a configured endpoint, and the replies of
  their local listener, are changed, in their addresses and ports alone; no packet is dropped; and
  a reply goes back to the connection it answers.
\<close>

section \<open>Numbers in packets\<close>

lemma word16_bytes: "push_bit 8 (ucast (ucast (drop_bit 8 w) :: 8 word)) OR ucast (ucast w :: 8 word) = (w :: 16 word)"
  by (rule bit_word_eqI) (auto simp: bit_simps)

lemma word32_bytes: "push_bit 24 (ucast (ucast (drop_bit 24 w) :: 8 word)) OR push_bit 16 (ucast (ucast (drop_bit 16 w) :: 8 word))
    OR push_bit 8 (ucast (ucast (drop_bit 8 w) :: 8 word)) OR ucast (ucast w :: 8 word) = (w :: 32 word)"
proof (rule bit_word_eqI)
  fix n :: nat assume "n < LENGTH(32)"
  then consider "n < 8" | "8 \<le> n" "n < 16" | "16 \<le> n" "n < 24" | "24 \<le> n" "n < 32" by fastforce
  then show "bit (push_bit 24 (ucast (ucast (drop_bit 24 w) :: 8 word)) OR push_bit 16 (ucast (ucast (drop_bit 16 w) :: 8 word))
    OR push_bit 8 (ucast (ucast (drop_bit 8 w) :: 8 word)) OR ucast (ucast w :: 8 word) :: 32 word) n = bit w n"
    by cases (auto simp: bit_simps)
qed

lemma length_put [simp]: "length (put16 i w p) = length p" "length (put32 i v p) = length p"
  by (simp_all add: put16_def put32_def)

lemma nth_put16_other: "j < i \<or> i + 2 \<le> j \<Longrightarrow> put16 i w p ! j = p ! j"
  by (auto simp: put16_def)

lemma nth_put32_other: "j < i \<or> i + 4 \<le> j \<Longrightarrow> put32 i w p ! j = p ! j"
  by (auto simp: put32_def)

lemma be16_put16: "i + 1 < length p \<Longrightarrow> be16 (put16 i w p) i = w"
  by (simp add: be16_def put16_def word16_bytes)

lemma be32_put32: "i + 3 < length p \<Longrightarrow> be32 (put32 i w p) i = w"
  by (simp add: be32_def put32_def word32_bytes)

lemma be16_put16_other: "j + 2 \<le> i \<or> i + 2 \<le> j \<Longrightarrow> be16 (put16 i w p) j = be16 p j"
  by (auto simp: be16_def nth_put16_other)

lemma be16_put32_other: "j + 2 \<le> i \<or> i + 4 \<le> j \<Longrightarrow> be16 (put32 i w p) j = be16 p j"
  by (auto simp: be16_def nth_put32_other)

lemma be32_put16_other: "j + 4 \<le> i \<or> i + 2 \<le> j \<Longrightarrow> be32 (put16 i w p) j = be32 p j"
  by (auto simp: be32_def nth_put16_other)

lemma be32_put32_other: "j + 4 \<le> i \<or> i + 4 \<le> j \<Longrightarrow> be32 (put32 i w p) j = be32 p j"
  by (auto simp: be32_def nth_put32_other)

text \<open>The four fields as one change.\<close>

definition readdress :: "nat \<Rightarrow> 32 word \<Rightarrow> 16 word \<Rightarrow> 32 word \<Rightarrow> 16 word \<Rightarrow> 8 word list \<Rightarrow> 8 word list" where
  "readdress ihl srcIP srcPort dstIP dstPort p =
     put16 (ihl + 2) dstPort (put32 16 dstIP (put16 ihl srcPort (put32 12 srcIP p)))"

definition addressed :: "8 word list \<Rightarrow> nat \<Rightarrow> 32 word \<Rightarrow> 16 word \<Rightarrow> 32 word \<Rightarrow> 16 word \<Rightarrow> bool" where
  "addressed p ihl srcIP srcPort dstIP dstPort \<longleftrightarrow>
     be32 p 12 = srcIP \<and> be16 p ihl = srcPort \<and> be32 p 16 = dstIP \<and> be16 p (ihl + 2) = dstPort"

lemma readdress_fields:
  assumes "20 \<le> ihl" and "ihl + 20 \<le> length p"
  shows "addressed (readdress ihl a b c d p) ihl a b c d"
  using assms by (simp add: addressed_def readdress_def be16_put16 be32_put32 be16_put16_other be16_put32_other
      be32_put16_other be32_put32_other)

lemma readdress_length [simp]: "length (readdress ihl a b c d p) = length p"
  by (simp add: readdress_def)

definition same_payload :: "nat \<Rightarrow> 8 word list \<Rightarrow> 8 word list \<Rightarrow> bool" where
  "same_payload ihl p q \<longleftrightarrow> length p = length q \<and> take 12 p = take 12 q \<and> drop 20 (take ihl p) = drop 20 (take ihl q)
     \<and> drop (ihl + 4) p = drop (ihl + 4) q"

lemma readdress_payload: "20 \<le> ihl \<Longrightarrow> same_payload ihl p (readdress ihl a b c d p)"
  by (auto simp: same_payload_def readdress_def nth_put16_other nth_put32_other less_diff_conv intro!: nth_equalityI)

section \<open>The endpoints of a table\<close>

lemma parse_bounds: "parseVirtualRedirectIPv4TCP p = Some ihl \<Longrightarrow> 20 \<le> ihl \<and> ihl + 20 \<le> length p"
  by (auto simp: parseVirtualRedirectIPv4TCP_def Let_def split: if_splits)

lemma be32_first: "be32 q 0 = be32 r 0 \<Longrightarrow> q ! 0 = r ! 0"
proof -
  assume eq: "be32 q 0 = be32 r 0"
  have first: "ucast (drop_bit 24 (be32 p 0)) = p ! 0" for p
    by (rule bit_word_eqI) (auto simp: be32_def bit_simps dest: bit_imp_le_length)
  show ?thesis using eq first [of q] first [of r] by simp
qed

lemma rule_ip_not_loopback:
  assumes "rule_ok r"
  shows "rule_ip r \<noteq> virtualRedirectLoopbackIPv4"
proof -
  obtain q where q: "usable_v4 q" "vr_VirtualIP r = v4_string q" using assms by (auto simp: rule_ok_def)
  then have len: "length q = 4" by (simp add: usable_v4_def)
  have ip: "rule_ip r = be32 q 0" by (simp add: rule_ip_def q(2) ParseIP_v4_string To4_prefix len)
  have "virtualRedirectLoopbackIPv4 = be32 [127, 0, 0, 1] 0" by (simp add: be32_def virtualRedirectLoopbackIPv4_def)
  then show ?thesis using be32_first [of q "[127, 0, 0, 1]"] q(1) by (auto simp: ip usable_v4_def)
qed

definition table_ok :: "virtualRedirectTable \<Rightarrow> bool" where
  "table_ok t \<longleftrightarrow> (\<forall>e r. map_of (vt_targets t) e = Some r \<longrightarrow> rule_ok r \<and> rule_endpoint r = e
     \<and> map_of (vt_responses t) (vr_LocalPort r) = Some r)"

lemma fold_update_map:
  "map_of (fold (\<lambda>r m. AList.update (k r) r m) rs m) x =
     (case find (\<lambda>r. k r = x) (rev rs) of Some r \<Rightarrow> Some r | None \<Rightarrow> map_of m x)"
proof (induction rs arbitrary: m)
  case (Cons r rs)
  have "find P (xs @ [y]) = (case find P xs of Some z \<Rightarrow> Some z | None \<Rightarrow> if P y then Some y else None)"
    for P :: "'a \<Rightarrow> bool" and xs y by (induction xs) auto
  then show ?case using Cons by (auto simp: map_of_update split: option.split)
qed simp

lemma find_rule_SomeD: "find P xs = Some x \<Longrightarrow> x \<in> set xs \<and> P x"
  by (induction xs) (auto split: if_splits)

lemma newVirtualRedirectTable_ok:
  assumes "newVirtualRedirectTable now rules = Inr t"
  shows "table_ok t \<and> nat_inv t"
proof -
  obtain rs where rs: "normalizeVirtualRedirectRules rules = Inr rs"
    and t: "vt_targets t = fold (\<lambda>r m. AList.update (rule_endpoint r) r m) rs []"
      "vt_responses t = fold (\<lambda>r m. AList.update (vr_LocalPort r) r m) rs []"
      "vt_targetFlows t = []" "vt_responseFlows t = []" "vt_nextNATPort t = 49152"
    using assms by (cases "normalizeVirtualRedirectRules rules") (auto simp: newVirtualRedirectTable_def)
  have ok: "rules_ok rs" by (rule normalize_rules_ok [OF rs])
  have "rule_ok r \<and> rule_endpoint r = e \<and> map_of (vt_responses t) (vr_LocalPort r) = Some r"
    if "map_of (vt_targets t) e = Some r" for e r
  proof -
    have r: "r \<in> set rs" "rule_endpoint r = e"
      using that by (auto simp: t(1) fold_update_map split: option.splits dest!: find_rule_SomeD)
    have "find (\<lambda>x. vr_LocalPort x = vr_LocalPort r) (rev rs) \<noteq> None" using r(1) by (auto simp: find_None_iff)
    then obtain x where x: "find (\<lambda>x. vr_LocalPort x = vr_LocalPort r) (rev rs) = Some x" by auto
    then have "x \<in> set rs" "vr_LocalPort x = vr_LocalPort r"
      by (auto dest!: find_rule_SomeD)
    then have "x = r" using ok r(1) by (auto simp: rules_ok_def distinct_map dest: inj_onD)
    then show ?thesis using r ok x by (auto simp: rules_ok_def list_all_iff t(2) fold_update_map)
  qed
  then have "table_ok t" by (simp add: table_ok_def)
  moreover have "nat_inv t" by (intro nat_invI) (simp_all add: t)
  ultimately show ?thesis ..
qed

section \<open>The three outcomes of a packet\<close>

abbreviation (input) loopback_ip :: "32 word" where
  "loopback_ip \<equiv> virtualRedirectLoopbackIPv4"

definition flow_key :: "8 word list \<Rightarrow> nat \<Rightarrow> targetFlowKey" where
  "flow_key p ihl = \<lparr>tk_SourceIP = be32 p 12, tk_SourcePort = be16 p ihl, tk_TargetIP = be32 p 16, tk_TargetPort = be16 p (ihl + 2)\<rparr>"

definition packet_target :: "virtualRedirectTable \<Rightarrow> 8 word list \<Rightarrow> nat \<Rightarrow> virtualRedirectRule option" where
  "packet_target t p ihl = map_of (vt_targets t) \<lparr>ek_IP = be32 p 16, ek_Port = be16 p (ihl + 2)\<rparr>"

text \<open>A packet to a configured endpoint.\<close>

lemma rewrite_target:
  assumes inv: "nat_inv t" and rng: "perm_fn (ne_sweep env)" "perm_fn (ne_evict env)"
    and p: "parseVirtualRedirectIPv4TCP p = Some ihl" "pr_Outbound route" "packet_target t p ihl = Some rule"
    and rw: "rewriteVirtualRedirectPacket env p route (Some t) = (p', route', act, to)"
  shows "\<exists>t1 f. act = InjectPacket \<and> route' = \<lparr>pr_Outbound = True, pr_Loopback = True, pr_IfIdx = 1, pr_SubIfIdx = 0\<rparr>
    \<and> p' = readdress ihl loopback_ip (rk_NATPort (vf_responseKey (vt_flows t1 ! f))) loopback_ip (vr_LocalPort rule) p
    \<and> to = Some (updateFlowState (ne_later env) f (p ! (ihl + 13)) t1)
    \<and> nat_inv t1 \<and> same_flows t t1 \<and> map_of (vt_targetFlows t1) (flow_key p ihl) = Some f
    \<and> vf_ifIdx (vt_flows t1 ! f) = pr_IfIdx route \<and> vf_subIfIdx (vt_flows t1 ! f) = pr_SubIfIdx route"
proof -
  have rule: "map_of (vt_targets t) \<lparr>ek_IP = tk_TargetIP (flow_key p ihl), ek_Port = tk_TargetPort (flow_key p ihl)\<rparr> = Some rule"
    using p(3) by (simp add: packet_target_def flow_key_def)
  obtain t1 f where e: "ensureTargetFlow env (flow_key p ihl) rule (pr_IfIdx route) (pr_SubIfIdx route) t = (t1, Some f)"
    and t1: "nat_inv t1" "same_flows t t1" "map_of (vt_targetFlows t1) (flow_key p ihl) = Some f"
      "vf_ifIdx (vt_flows t1 ! f) = pr_IfIdx route" "vf_subIfIdx (vt_flows t1 ! f) = pr_SubIfIdx route"
    using ensureTargetFlow_works [OF inv rng rule] by blast
  have "(p', route', act, to) = (readdress ihl loopback_ip (rk_NATPort (vf_responseKey (vt_flows t1 ! f))) loopback_ip (vr_LocalPort rule) p,
      \<lparr>pr_Outbound = True, pr_Loopback = True, pr_IfIdx = 1, pr_SubIfIdx = 0\<rparr>, InjectPacket,
      Some (updateFlowState (ne_later env) f (p ! (ihl + 13)) t1))"
    using p(2) p(3) e unfolding rw [symmetric] packet_target_def flow_key_def
    by (simp add: rewriteVirtualRedirectPacket_def p(1) readdress_def Let_def)
  with t1 show ?thesis by blast
qed

text \<open>A reply of the local listener of a live connection.\<close>

lemma rewrite_response:
  assumes p: "parseVirtualRedirectIPv4TCP p = Some ihl" "pr_Outbound route" "pr_Loopback route" "packet_target t p ihl = None"
    and a: "addressed p ihl loopback_ip lp loopback_ip np"
    and r: "map_of (vt_responses t) lp = Some rule" "map_of (vt_responseFlows t) \<lparr>rk_LocalPort = lp, rk_NATPort = np\<rparr> = Some f"
      "vf_rule (vt_flows t ! f) = rule"
  shows "rewriteVirtualRedirectPacket env p route (Some t) =
    (let flow = vt_flows t ! f
     in (readdress ihl (tk_TargetIP (vf_targetKey flow)) (vr_VirtualPort rule) (tk_SourceIP (vf_targetKey flow))
           (tk_SourcePort (vf_targetKey flow)) p,
         \<lparr>pr_Outbound = False, pr_Loopback = False, pr_IfIdx = vf_ifIdx flow, pr_SubIfIdx = vf_subIfIdx flow\<rparr>, InjectPacket,
         Some (updateFlowState (ne_later env) f (p ! (ihl + 13)) t)))"
  using p a r by (simp add: rewriteVirtualRedirectPacket_def packet_target_def addressed_def readdress_def Let_def)

lemma rewrite_other:
  assumes "rewriteVirtualRedirectPacket env p route (Some t) = (p', route', act, to)"
    and "\<forall>ihl. parseVirtualRedirectIPv4TCP p = Some ihl \<longrightarrow> pr_Outbound route \<longrightarrow> packet_target t p ihl = None"
  shows "(act = PassPacket \<and> p' = p \<and> route' = route \<and> to = Some t)
    \<or> (\<exists>ihl a b c d f r. parseVirtualRedirectIPv4TCP p = Some ihl \<and> act = InjectPacket \<and> p' = readdress ihl a b c d p
        \<and> map_of (vt_responseFlows t) r = Some f \<and> to = Some (updateFlowState (ne_later env) f (p ! (ihl + 13)) t))"
proof (cases "parseVirtualRedirectIPv4TCP p")
  case None
  then show ?thesis using assms(1) by (simp add: rewriteVirtualRedirectPacket_def)
next
  case (Some ihl)
  show ?thesis
  proof (cases "pr_Outbound route")
    case True
    have none: "map_of (vt_targets t) \<lparr>ek_IP = be32 p 16, ek_Port = be16 p (ihl + 2)\<rparr> = None"
      using assms(2) Some True by (simp add: packet_target_def)
    show ?thesis
      using assms(1) unfolding rewriteVirtualRedirectPacket_def option.case Some Let_def none
      by (auto simp: True readdress_def split: option.splits if_splits)
  next
    case False
    then show ?thesis using assms(1) by (simp add: rewriteVirtualRedirectPacket_def Some Let_def)
  qed
qed

section \<open>Every reachable table\<close>

inductive nat_step :: "virtualRedirectTable \<Rightarrow> virtualRedirectTable \<Rightarrow> bool" where
  packet: "perm_fn (ne_sweep env) \<Longrightarrow> perm_fn (ne_evict env) \<Longrightarrow>
    rewriteVirtualRedirectPacket env p route (Some t) = (p', route', act, Some t') \<Longrightarrow> nat_step t t'"

inductive nat_run :: "virtualRedirectTable \<Rightarrow> virtualRedirectTable \<Rightarrow> bool" where
  idle: "nat_run t t"
| more: "nat_run t t' \<Longrightarrow> nat_step t' t'' \<Longrightarrow> nat_run t t''"

lemma rewrite_inv:
  assumes inv: "nat_inv t" and rng: "perm_fn (ne_sweep env)" "perm_fn (ne_evict env)"
    and rw: "rewriteVirtualRedirectPacket env p route (Some t) = (p', route', act, to)"
  shows "\<exists>t'. to = Some t' \<and> nat_inv t' \<and> same_flows t t' \<and> act \<noteq> DropPacket \<and> (act = PassPacket \<longrightarrow> p' = p \<and> route' = route \<and> t' = t)
    \<and> (act = InjectPacket \<longrightarrow> (\<exists>ihl. parseVirtualRedirectIPv4TCP p = Some ihl \<and> same_payload ihl p p'))"
proof (cases "\<exists>ihl rule. parseVirtualRedirectIPv4TCP p = Some ihl \<and> pr_Outbound route \<and> packet_target t p ihl = Some rule")
  case True
  then obtain ihl rule where p: "parseVirtualRedirectIPv4TCP p = Some ihl" "pr_Outbound route" "packet_target t p ihl = Some rule"
    by blast
  obtain t1 f where r: "act = InjectPacket"
      "p' = readdress ihl loopback_ip (rk_NATPort (vf_responseKey (vt_flows t1 ! f))) loopback_ip (vr_LocalPort rule) p"
      "to = Some (updateFlowState (ne_later env) f (p ! (ihl + 13)) t1)"
    and t1: "nat_inv t1" "same_flows t t1" "map_of (vt_targetFlows t1) (flow_key p ihl) = Some f"
    using rewrite_target [OF inv rng p rw] by blast
  have u: "nat_inv (updateFlowState (ne_later env) f (p ! (ihl + 13)) t1)"
    "same_flows t (updateFlowState (ne_later env) f (p ! (ihl + 13)) t1)"
    using updateFlowState_inv [OF t1(1,3)] same_flows_trans [OF t1(2)] by blast+
  show ?thesis using r u p(1) readdress_payload parse_bounds [OF p(1)] by auto
next
  case False
  then have "\<forall>ihl. parseVirtualRedirectIPv4TCP p = Some ihl \<longrightarrow> pr_Outbound route \<longrightarrow> packet_target t p ihl = None" by auto
  from rewrite_other [OF rw this] show ?thesis
  proof (elim disjE exE conjE)
    assume "act = PassPacket" "p' = p" "route' = route" "to = Some t"
    then show ?thesis using inv by simp
  next
    fix ihl a b c d f r
    assume p: "parseVirtualRedirectIPv4TCP p = Some ihl" "act = InjectPacket" "p' = readdress ihl a b c d p"
      and f: "map_of (vt_responseFlows t) r = Some f" and to: "to = Some (updateFlowState (ne_later env) f (p ! (ihl + 13)) t)"
    have live: "map_of (vt_targetFlows t) (vf_targetKey (vt_flows t ! f)) = Some f" using nat_inv_response [OF inv f] by blast
    show ?thesis using p to updateFlowState_inv [OF inv live] readdress_payload parse_bounds [OF p(1)] by auto
  qed
qed

lemma nat_step_inv: "nat_step t t' \<Longrightarrow> nat_inv t \<Longrightarrow> nat_inv t' \<and> same_flows t t'"
  by (induction rule: nat_step.induct) (use rewrite_inv in blast)

lemma nat_run_inv: "nat_run t t' \<Longrightarrow> nat_inv t \<Longrightarrow> nat_inv t' \<and> same_flows t t'"
  by (induction rule: nat_run.induct) (auto dest: nat_step_inv intro: same_flows_trans)

lemma reachable_inv: "newVirtualRedirectTable now rules = Inr t0 \<Longrightarrow> nat_run t0 t \<Longrightarrow> nat_inv t \<and> same_flows t0 t \<and> table_ok t"
  using nat_run_inv [of t0 t] newVirtualRedirectTable_ok [of now rules t0] by (simp add: same_flows_def table_ok_def)

section \<open>A concrete run\<close>

text \<open>A concrete run of the redirection: connections from two hosts to the same endpoint.\<close>

definition tcp_packet :: "8 word list \<Rightarrow> 8 word list \<Rightarrow> 8 word list \<Rightarrow> 8 word list \<Rightarrow> 8 word list" where
  "tcp_packet srcIP srcPort dstIP dstPort =
     [0x45, 0, 0, 40, 0, 0, 0, 0, 64, 6, 0, 0] @ srcIP @ dstIP @ srcPort @ dstPort @ [0, 0, 0, 0, 0, 0, 0, 0, 0x50, 0, 0, 0, 0, 0, 0, 0]"

definition sample_nat_env :: nat_env where
  "sample_nat_env = \<lparr>ne_now = 5, ne_later = 6, ne_sweep = (\<lambda>es. es), ne_evict = (\<lambda>es. es)\<rparr>"

definition sample_outgoing :: packet_route where
  "sample_outgoing = \<lparr>pr_Outbound = True, pr_Loopback = False, pr_IfIdx = 7, pr_SubIfIdx = 2\<rparr>"

definition sample_answer :: packet_route where
  "sample_answer = \<lparr>pr_Outbound = True, pr_Loopback = True, pr_IfIdx = 1, pr_SubIfIdx = 0\<rparr>"

definition sample_table :: virtualRedirectTable where
  "sample_table = projr (newVirtualRedirectTable 0 sample_rules)"

definition sample_packet :: "8 word list" where
  "sample_packet = tcp_packet [192, 168, 10, 20] [199, 56] [203, 0, 113, 10] [0, 22]"

definition sample_packet2 :: "8 word list" where
  "sample_packet2 = tcp_packet [192, 168, 10, 21] [203, 32] [203, 0, 113, 10] [0, 22]"

definition sample_table1 :: virtualRedirectTable where
  "sample_table1 = (case rewriteVirtualRedirectPacket sample_nat_env sample_packet sample_outgoing (Some sample_table) of
     (p, r, a, t) \<Rightarrow> the t)"

definition sample_table2 :: virtualRedirectTable where
  "sample_table2 = (case rewriteVirtualRedirectPacket sample_nat_env sample_packet2 sample_outgoing (Some sample_table1) of
     (p, r, a, t) \<Rightarrow> the t)"

lemma sample_new: "newVirtualRedirectTable 0 sample_rules = Inr sample_table"
  by (simp add: sample_table_def newVirtualRedirectTable_def sample_rules_normal)

lemma sample_step1: "rewriteVirtualRedirectPacket sample_nat_env sample_packet sample_outgoing (Some sample_table) =
   (tcp_packet [127, 0, 0, 1] [199, 56] [127, 0, 0, 1] [175, 200], sample_answer, InjectPacket, Some sample_table1)"
  by code_simp

lemma sample_step2: "rewriteVirtualRedirectPacket sample_nat_env sample_packet2 sample_outgoing (Some sample_table1) =
   (tcp_packet [127, 0, 0, 1] [203, 32] [127, 0, 0, 1] [175, 200], sample_answer, InjectPacket, Some sample_table2)"
  by code_simp

lemma sample_rng: "perm_fn (ne_sweep sample_nat_env)" "perm_fn (ne_evict sample_nat_env)"
  by (simp_all add: sample_nat_env_def)

lemma sample_nat_run: "nat_run sample_table sample_table1" "nat_run sample_table sample_table2"
proof -
  show one: "nat_run sample_table sample_table1"
    by (rule nat_run.more [OF nat_run.idle nat_step.packet [OF sample_rng sample_step1]])
  show "nat_run sample_table sample_table2"
    by (rule nat_run.more [OF one nat_step.packet [OF sample_rng sample_step2]])
qed

section \<open>Properties\<close>

text \<open>Whatever packets have passed before, no packet is dropped; a packet that is passed on is unchanged, with its
  route; a packet that is redirected is an IPv4 TCP packet and only its two addresses and two ports change:
  the rest of the IP header, its options, the rest of the TCP header and the data stay. The table never holds
  more than 8192 connections.\<close>

theorem redirect_changes_addresses_only:
  assumes "newVirtualRedirectTable now rules = Inr t0" and "nat_run t0 t"
    and "perm_fn (ne_sweep env)" and "perm_fn (ne_evict env)"
    and "rewriteVirtualRedirectPacket env p route (Some t) = (p', route', act, to)"
  shows "act \<noteq> DropPacket \<and> (act = PassPacket \<longrightarrow> p' = p \<and> route' = route)
    \<and> (act = InjectPacket \<longrightarrow> (\<exists>ihl. parseVirtualRedirectIPv4TCP p = Some ihl \<and> same_payload ihl p p'))
    \<and> (\<exists>t'. to = Some t' \<and> length (vt_targetFlows t') \<le> 8192)"
proof -
  obtain t' where t': "to = Some t'" "nat_inv t'"
    and r: "act \<noteq> DropPacket" "act = PassPacket \<longrightarrow> p' = p \<and> route' = route"
      "act = InjectPacket \<longrightarrow> (\<exists>ihl. parseVirtualRedirectIPv4TCP p = Some ihl \<and> same_payload ihl p p')"
    using rewrite_inv [OF _ assms(3-5)] reachable_inv [OF assms(1,2)] by blast
  have "length (vt_targetFlows t') \<le> 8192" using nat_inv_sizes [OF t'(2)] by (simp add: maxVirtualRedirectFlows_def)
  with t'(1) r show ?thesis by blast
qed

theorem redirect_changes_addresses_only_witness:
  "InjectPacket \<noteq> DropPacket \<and> (\<exists>t'. Some sample_table2 = Some t' \<and> length (vt_targetFlows t') \<le> 8192)"
  using redirect_changes_addresses_only [OF sample_new sample_nat_run(1) sample_rng sample_step2] by blast

text \<open>C18. Two connections that are redirected at the same time never share a port on the loopback side of the same local
  listener, and no connection has the port of the listener itself or the port zero.\<close>

theorem connections_have_own_ports:
  assumes "newVirtualRedirectTable now rules = Inr t0" and "nat_run t0 t"
    and "map_of (vt_targetFlows t) k = Some f" and "map_of (vt_targetFlows t) k' = Some f'" and "k \<noteq> k'"
  shows "vf_responseKey (vt_flows t ! f) \<noteq> vf_responseKey (vt_flows t ! f')
    \<and> rk_NATPort (vf_responseKey (vt_flows t ! f)) \<notin> {0, rk_LocalPort (vf_responseKey (vt_flows t ! f))}"
proof -
  have inv: "nat_inv t" using reachable_inv [OF assms(1,2)] by blast
  show ?thesis using nat_inv_inj [OF inv assms(3,4)] assms(5) nat_inv_flow [OF inv assms(3)] by (auto simp: flow_ok_def)
qed

theorem connections_have_own_ports_witness:
  "vf_responseKey (vt_flows sample_table2 ! 0) \<noteq> vf_responseKey (vt_flows sample_table2 ! 1)"
proof -
  have "map_of (vt_targetFlows sample_table2) (flow_key sample_packet 20) = Some 0" by code_simp
  moreover have "map_of (vt_targetFlows sample_table2) (flow_key sample_packet2 20) = Some 1" by code_simp
  moreover have "flow_key sample_packet 20 \<noteq> flow_key sample_packet2 20" by code_simp
  ultimately show ?thesis using connections_have_own_ports [OF sample_new sample_nat_run(2)] by blast
qed

text \<open>C7. A packet \<open>p\<close> of an application to a configured endpoint is sent to the local listener; when the listener answers,
  with the addresses of the redirected packet swapped, and whatever other packets have passed in between as long
  as the table still has the connection, the answer is rewritten into one that comes from the endpoint the
  application asked for and goes to the address and port of the application, with its payload unchanged; right
  after the packet it also goes to the network interface of that packet.\<close>

theorem reply_returns_to_connection:
  assumes new: "newVirtualRedirectTable now rules = Inr t0" and run: "nat_run t0 t"
    and rng: "perm_fn (ne_sweep env)" "perm_fn (ne_evict env)"
    and p: "parseVirtualRedirectIPv4TCP p = Some ihl" "pr_Outbound route" "packet_target t p ihl \<noteq> None" "no_reset (p ! (ihl + 13))"
    and rw: "rewriteVirtualRedirectPacket env p route (Some t) = (p', route', act, Some t1)"
    and later: "nat_run t1 t2" "map_of (vt_targetFlows t2) (flow_key p ihl) = map_of (vt_targetFlows t1) (flow_key p ihl)"
    and q: "parseVirtualRedirectIPv4TCP q = Some ihl'" "pr_Outbound qroute" "pr_Loopback qroute"
      "addressed q ihl' (be32 p' 16) (be16 p' (ihl + 2)) (be32 p' 12) (be16 p' ihl)"
  shows "\<exists>q' r t3. rewriteVirtualRedirectPacket env' q qroute (Some t2) = (q', r, InjectPacket, Some t3)
    \<and> addressed q' ihl' (be32 p 16) (be16 p (ihl + 2)) (be32 p 12) (be16 p ihl) \<and> same_payload ihl' q q'
    \<and> (t2 = t1 \<longrightarrow> pr_IfIdx r = pr_IfIdx route \<and> pr_SubIfIdx r = pr_SubIfIdx route)"
proof -
  have t: "nat_inv t" "table_ok t" using reachable_inv [OF new run] by blast+
  obtain rule where rule: "packet_target t p ihl = Some rule" using p(3) by blast
  obtain u f where p': "p' = readdress ihl loopback_ip (rk_NATPort (vf_responseKey (vt_flows u ! f))) loopback_ip (vr_LocalPort rule) p"
    and t1: "t1 = updateFlowState (ne_later env) f (p ! (ihl + 13)) u" and u: "nat_inv u" "same_flows t u"
      "map_of (vt_targetFlows u) (flow_key p ihl) = Some f" "vf_ifIdx (vt_flows u ! f) = pr_IfIdx route"
      "vf_subIfIdx (vt_flows u ! f) = pr_SubIfIdx route"
    using rewrite_target [OF t(1) rng p(1,2) rule rw] by blast
  have s1: "nat_inv t1" "same_flows u t1" "vt_targetFlows t1 = vt_targetFlows u"
    using updateFlowState_inv [OF u(1,3)] p(4) unfolding t1 by blast+
  have s2: "nat_inv t2" "same_flows t1 t2" using nat_run_inv [OF later(1) s1(1)] by blast+
  have su: "same_flows u t2" by (rule same_flows_trans [OF s1(2) s2(2)])
  have live: "map_of (vt_targetFlows t2) (flow_key p ihl) = Some f" using later(2) s1(3) u(3) by simp
  note fu = nat_inv_flow [OF u(1,3), unfolded flow_ok_def] and f2 = nat_inv_flow [OF s2(1) live, unfolded flow_ok_def]
  have same: "vf_responseKey (vt_flows t2 ! f) = vf_responseKey (vt_flows u ! f)" "vf_rule (vt_flows t2 ! f) = vf_rule (vt_flows u ! f)"
    using su fu by (simp_all add: same_flows_def)
  have st: "vt_targets t2 = vt_targets t" "vt_responses t2 = vt_responses t" "vt_targets u = vt_targets t"
    using u(2) su by (simp_all add: same_flows_def)
  have vr: "vf_rule (vt_flows u ! f) = rule" using fu rule st(3) by (simp add: packet_target_def flow_key_def)
  let ?np = "rk_NATPort (vf_responseKey (vt_flows u ! f))"
  have key: "vf_responseKey (vt_flows t2 ! f) = \<lparr>rk_LocalPort = vr_LocalPort rule, rk_NATPort = ?np\<rparr>"
    using fu vr same(1) by simp
  have bounds: "20 \<le> ihl" "ihl + 20 \<le> length p" "20 \<le> ihl'" "ihl' + 20 \<le> length q" using parse_bounds p(1) q(1) by blast+
  have qa: "addressed q ihl' loopback_ip (vr_LocalPort rule) loopback_ip ?np"
    using q(4) readdress_fields [OF bounds(1,2)] unfolding p' by (simp add: addressed_def)
  have target: "packet_target t2 q ihl' = None"
  proof (rule ccontr)
    assume "packet_target t2 q ihl' \<noteq> None"
    then obtain r where "map_of (vt_targets t) \<lparr>ek_IP = loopback_ip, ek_Port = ?np\<rparr> = Some r"
      using qa st(1) by (auto simp: packet_target_def addressed_def)
    then have "rule_ok r" "rule_ip r = loopback_ip" using t(2) by (auto simp: table_ok_def rule_endpoint_def)
    then show False using rule_ip_not_loopback by blast
  qed
  have resp: "map_of (vt_responses t2) (vr_LocalPort rule) = Some rule"
    using rule t(2) st(2) by (simp add: packet_target_def table_ok_def)
  have fl: "map_of (vt_responseFlows t2) \<lparr>rk_LocalPort = vr_LocalPort rule, rk_NATPort = ?np\<rparr> = Some f" "vf_rule (vt_flows t2 ! f) = rule"
    using f2 key same(2) vr by simp_all
  have port: "vr_VirtualPort rule = be16 p (ihl + 2)"
    using rule t(2) by (auto simp: packet_target_def table_ok_def rule_endpoint_def)
  let ?q = "readdress ihl' (be32 p 16) (be16 p (ihl + 2)) (be32 p 12) (be16 p ihl) q"
  have tk: "vf_targetKey (vt_flows t2 ! f) = flow_key p ihl" using f2 by blast
  have res: "rewriteVirtualRedirectPacket env' q qroute (Some t2) = (?q,
      \<lparr>pr_Outbound = False, pr_Loopback = False, pr_IfIdx = vf_ifIdx (vt_flows t2 ! f), pr_SubIfIdx = vf_subIfIdx (vt_flows t2 ! f)\<rparr>,
      InjectPacket, Some (updateFlowState (ne_later env') f (q ! (ihl' + 13)) t2))"
    using rewrite_response [OF q(1-3) target qa resp fl] by (simp add: tk flow_key_def port Let_def)
  have ifs: "vf_ifIdx (vt_flows t1 ! f) = pr_IfIdx route \<and> vf_subIfIdx (vt_flows t1 ! f) = pr_SubIfIdx route"
    using u(4,5) fu by (simp add: t1 updateFlowState_def Let_def update_flow_nth)
  show ?thesis using res readdress_fields [OF bounds(3,4)] readdress_payload [OF bounds(3)] ifs by auto
qed

theorem reply_returns_to_connection_witness:
  "\<exists>q' r t3. rewriteVirtualRedirectPacket sample_nat_env (tcp_packet [127, 0, 0, 1] [175, 200] [127, 0, 0, 1] [199, 56]) sample_answer
      (Some sample_table2) = (q', r, InjectPacket, Some t3)
    \<and> addressed q' 20 (be32 sample_packet 16) (be16 sample_packet 22) (be32 sample_packet 12) (be16 sample_packet 20)"
proof -
  have p: "parseVirtualRedirectIPv4TCP sample_packet = Some 20" "packet_target sample_table sample_packet 20 \<noteq> None"
    "no_reset (sample_packet ! (20 + 13))" by code_simp+
  have out: "pr_Outbound sample_outgoing" "pr_Outbound sample_answer" "pr_Loopback sample_answer"
    by (simp_all add: sample_outgoing_def sample_answer_def)
  have later: "nat_run sample_table1 sample_table2"
    by (rule nat_run.more [OF nat_run.idle nat_step.packet [OF sample_rng sample_step2]])
  have kept: "map_of (vt_targetFlows sample_table2) (flow_key sample_packet 20) = map_of (vt_targetFlows sample_table1) (flow_key sample_packet 20)"
    by code_simp
  have q: "parseVirtualRedirectIPv4TCP (tcp_packet [127, 0, 0, 1] [175, 200] [127, 0, 0, 1] [199, 56]) = Some 20" by code_simp
  let ?p = "tcp_packet [127, 0, 0, 1] [199, 56] [127, 0, 0, 1] [175, 200]"
  have qa: "addressed (tcp_packet [127, 0, 0, 1] [175, 200] [127, 0, 0, 1] [199, 56]) 20 (be32 ?p 16) (be16 ?p (20 + 2)) (be32 ?p 12) (be16 ?p 20)"
    by code_simp
  show ?thesis
    using reply_returns_to_connection [OF sample_new nat_run.idle sample_rng p(1) out(1) p(2,3) sample_step1 later kept q out(2,3) qa,
        of sample_nat_env] by (simp add: numeral_eq_Suc) blast
qed

end
