(* ===== verification/Client_Config.thy ===== *)
theory Client_Config
  imports Virtual_Rules Server_Config Protocol
begin

text \<open>
  \<open>client/tunnel/config.go\<close>: the configuration of a client, its defaults and its validation, and
  \<open>credentialFromConfig\<close> of \<open>credential.go\<close>. The host name, the certificate parser and the files are
  arguments. The direction constants have the same values as those of the server.
\<close>

section \<open>Data\<close>

record clientTLSConfig =
  ct_CACertFile :: string
  ct_ServerName :: string
  ct_MinVersion :: string
  ct_InsecureSkipVerify :: bool

record clientForward =
  cf_Name :: string
  cf_Direction :: string
  cf_ListenAddr :: string
  cf_ServerTarget :: string

text \<open>\<open>requires\<close> and \<open>connection\<close> have one field each.\<close>

record clientConfig =
  cc_ConfigVersion :: int
  cc_MinClientVersion :: string
  cc_ServerAddr :: string
  cc_Remark :: string
  cc_Username :: string
  cc_Password :: string
  cc_PasswordEnv :: string
  cc_PasswordFile :: string
  cc_SavedCredential :: sealedCredential
  cc_ClientID :: string
  cc_LogLevel :: string
  cc_TLS :: clientTLSConfig
  cc_DialTimeoutSec :: int
  cc_Forwards :: "clientForward list"

definition DirectionVirtual :: string where
  "DirectionVirtual = ''virtual''"

definition forwardName :: "clientForward \<Rightarrow> string" where
  "forwardName fwd = (if cf_Name fwd \<noteq> [] then cf_Name fwd else cf_ListenAddr fwd)"

definition credentialFromConfig :: "clientConfig \<Rightarrow> sealedCredential option" where
  "credentialFromConfig cfg =
     (if TrimSpace (sc_Ciphertext (cc_SavedCredential cfg)) = [] then None else Some (cc_SavedCredential cfg))"

section \<open>Defaults\<close>

definition default_client_forward :: "clientForward \<Rightarrow> clientForward" where
  "default_client_forward fwd =
     (let direction = TrimSpace (cf_Direction fwd)
      in fwd\<lparr>cf_Direction := (if direction = [] then DirectionClientToServer else direction)\<rparr>)"

definition client_ApplyDefaults :: "string res \<Rightarrow> clientConfig \<Rightarrow> clientConfig" where
  "client_ApplyDefaults hostname cfg =
     cfg\<lparr>cc_ConfigVersion := (if cc_ConfigVersion cfg = 0 then ClientConfigVersion else cc_ConfigVersion cfg),
         cc_MinClientVersion := (if TrimSpace (cc_MinClientVersion cfg) = [] then ClientConfigRequiresClientVersion
                                 else cc_MinClientVersion cfg),
         cc_ClientID := (if TrimSpace (cc_ClientID cfg) = []
                         then (case hostname of Inl _ \<Rightarrow> cc_ClientID cfg
                               | Inr h \<Rightarrow> if TrimSpace h \<noteq> [] then TrimSpace h else cc_ClientID cfg)
                         else cc_ClientID cfg),
         cc_TLS := (let t = cc_TLS cfg in if ct_MinVersion t = [] then t\<lparr>ct_MinVersion := ''1.3''\<rparr> else t),
         cc_DialTimeoutSec := (if cc_DialTimeoutSec cfg \<le> 0 then 5 else cc_DialTimeoutSec cfg),
         cc_Forwards := map default_client_forward (cc_Forwards cfg)\<rparr>"

section \<open>Validation\<close>

definition client_ValidateConfigVersion :: "clientConfig \<Rightarrow> go_error option" where
  "client_ValidateConfigVersion cfg =
     (let version = cc_ConfigVersion cfg; minimum = TrimSpace (cc_MinClientVersion cfg)
      in if version < 0 then Some (Errorf ''client config_version must be >= 0'' [])
         else if version > ClientConfigVersion
         then Some (Errorf ''client config_version %d requires a newer client; current client supports config_version %d''
                      [FI version, FI ClientConfigVersion])
         else first_error
           [if version < 2 then None
            else if minimum = [] then Some (Errorf ''client config_version %d requires requires.min_client_version'' [FI version])
            else (case Less minimum ClientConfigRequiresClientVersion of
                    Inl err \<Rightarrow> Some (Errorf ''client config requires invalid minimum version %q: %w'' [FS minimum, FE err])
                  | Inr lt \<Rightarrow>
                      if lt then Some (Errorf ''client config_version %d requires min_client_version >= %s''
                                           [FI version, FS ClientConfigRequiresClientVersion])
                      else None),
            CheckMin AppVersion (cc_MinClientVersion cfg) ''client config''])"

definition client_address_checks :: "clientForward \<Rightarrow> go_error option list" where
  "client_address_checks fwd =
     [if TrimSpace (cf_Direction fwd) = DirectionVirtual then None
      else wrap_err ''forward %q listen_addr: %w'' [FS (cf_Name fwd)] (CheckLoopbackEndpoint (cf_ListenAddr fwd)),
      wrap_err ''forward %q server_target: %w'' [FS (cf_Name fwd)] (CheckLoopbackEndpoint (cf_ServerTarget fwd))]"

definition client_validateLoopbackAddresses :: "clientConfig \<Rightarrow> go_error option" where
  "client_validateLoopbackAddresses cfg =
     first_error
       ([wrap_err ''server_addr: %w'' [] (CheckLoopbackEndpoint (cc_ServerAddr cfg)),
         wrap_err ''tls.server_name: %w'' [] (CheckLoopbackHost (ct_ServerName (cc_TLS cfg)))] @
        concat (map client_address_checks (cc_Forwards cfg)))"

definition validateReverseForwardField :: "clientForward \<Rightarrow> go_error option" where
  \<comment> \<open>the body of the loop of \<open>validateReverseForwardFields\<close>\<close>
  "validateReverseForwardField fwd =
     (if TrimSpace (cf_Direction fwd) \<noteq> DirectionServerToClient then None
      else let listenAddr = TrimSpace (cf_ListenAddr fwd); nm = FS (cf_Name fwd)
        in if listenAddr = [] then Some (Errorf ''forward %q server_to_client requires listen_addr'' [nm])
           else (case SplitHostPort listenAddr of
              Inl err \<Rightarrow> Some (Errorf ''forward %q reverse listen_addr must include a loopback host and port (127.0.0.1:port)'' [nm])
            | Inr (host, portText) \<Rightarrow>
                if TrimSet (TrimSpace host) ''[]'' = []
                then Some (Errorf ''forward %q reverse listen_addr must include a loopback host and port (127.0.0.1:port)'' [nm])
                else if Atoi portText = None \<or> the (Atoi portText) < 1 \<or> the (Atoi portText) > 65535
                then Some (Errorf ''forward %q reverse listen_addr port must be between 1 and 65535'' [nm])
                else if host \<noteq> LoopbackIPv4
                then Some (Errorf ''forward %q reverse listen_addr must use a loopback address (127.0.0.1)'' [nm])
                else None))"

definition validateReverseForwardFields :: "clientForward list \<Rightarrow> go_error option" where
  "validateReverseForwardFields forwards = first_error (map validateReverseForwardField forwards)"

text \<open>The port of \<open>server_addr\<close>, 0 when there is none. (\<open>Atoi\<close> returns the largest integer for a port that is too
  long; it is refused like 0.)\<close>

definition server_port :: "clientConfig \<Rightarrow> int" where
  "server_port cfg =
     (case SplitHostPort (TrimSpace (cc_ServerAddr cfg)) of
        Inl err \<Rightarrow> 0
      | Inr (_, portText) \<Rightarrow> (case Atoi portText of None \<Rightarrow> 0 | Some n \<Rightarrow> n))"

text \<open>The checks of the target of a forward; the result is its host.\<close>

definition client_target_host :: "clientForward \<Rightarrow> string res" where
  "client_target_host fwd =
     (let nm = FS (cf_Name fwd)
      in if TrimSpace (cf_ServerTarget fwd) = [] then Inl (Errorf ''forward %q requires server_target'' [nm])
         else (case SplitHostPort (TrimSpace (cf_ServerTarget fwd)) of
            Inl err \<Rightarrow> Inl (Errorf ''forward %q server_target must include a host and port'' [nm])
          | Inr (targetHost, targetPort) \<Rightarrow>
              if TrimSet (TrimSpace targetHost) ''[]'' = []
              then Inl (Errorf ''forward %q server_target must include a host and port'' [nm])
              else if Atoi targetPort = None \<or> the (Atoi targetPort) < 1 \<or> the (Atoi targetPort) > 65535
              then Inl (Errorf ''forward %q server_target port must be between 1 and 65535'' [nm])
              else Inr targetHost))"

text \<open>The checks of the entry of a \<open>client_to_server\<close> forward.\<close>

definition client_listen_check :: "clientForward \<Rightarrow> go_error option" where
  "client_listen_check fwd =
     (let nm = FS (cf_Name fwd)
      in if TrimSpace (cf_ListenAddr fwd) = [] then Some (Errorf ''forward %q requires listen_addr and server_target'' [nm])
         else (case SplitHostPort (TrimSpace (cf_ListenAddr fwd)) of
            Inl err \<Rightarrow> Some (Errorf ''forward %q listen_addr must include a host and port'' [nm])
          | Inr (_, portText) \<Rightarrow>
              if Atoi portText = None \<or> the (Atoi portText) < 0 \<or> the (Atoi portText) > 65535
              then Some (Errorf ''forward %q listen_addr port must be between 0 and 65535'' [nm]) else None))"

record client_files =
  fl_cert :: cert_env
  fl_os :: os_env
  fl_files :: files

text \<open>The endpoint of a virtual forward, with the resolver made for an earlier one.\<close>

definition virtual_endpoint ::
    "client_files \<Rightarrow> clientConfig \<Rightarrow> clientForward \<Rightarrow> virtualAddressResolver option \<Rightarrow> (virtualAddressResolver \<times> string \<times> int) res" where
  "virtual_endpoint fl cfg fwd resolver =
     (let nm = FS (cf_Name fwd); wrap = (\<lambda>err. Errorf ''forward %q: %w'' [nm, FE err])
      in case parseVirtualListenAddr (cf_ListenAddr fwd) of Inl err \<Rightarrow> Inl (wrap err)
         | Inr (virtualHost, virtualPort) \<Rightarrow>
            (case (case resolver of Some r \<Rightarrow> Inr r
                   | None \<Rightarrow> newVirtualAddressResolver (fl_cert fl) (fl_os fl) (fl_files fl) (ct_CACertFile (cc_TLS cfg)) (cc_ServerAddr cfg)) of
               Inl err \<Rightarrow> Inl (wrap err)
             | Inr r \<Rightarrow>
                (case resolve (Some r) virtualHost virtualPort of Inl err \<Rightarrow> Inl (wrap err)
                 | Inr virtualAddr \<Rightarrow> Inr (r, virtualAddr, virtualPort))))"

text \<open>The loop over the forwards: the runtime names seen, the virtual endpoints seen with the name of their
  forward, and the resolver. The result is the list of virtual endpoints.\<close>

fun validate_client_forwards ::
    "client_files \<Rightarrow> clientConfig \<Rightarrow> clientForward list \<Rightarrow> string list \<Rightarrow> (string, string) gomap \<Rightarrow>
     virtualAddressResolver option \<Rightarrow> string list \<Rightarrow> string list res" where
  "validate_client_forwards fl cfg [] seenNames seen resolver endpoints = Inr endpoints"
| "validate_client_forwards fl cfg (fwd # rest) seenNames seen resolver endpoints =
     (let direction = TrimSpace (cf_Direction fwd); nm = FS (cf_Name fwd)
      in if forwardName fwd \<in> set seenNames
         then Inl (Errorf ''forward %q has duplicate runtime name; use unique names within this client'' [FS (forwardName fwd)])
         else if direction \<notin> {DirectionClientToServer, DirectionServerToClient, DirectionVirtual}
         then Inl (Errorf ''forward %q has unsupported direction'' [nm])
         else (case client_target_host fwd of Inl err \<Rightarrow> Inl err
          | Inr targetHost \<Rightarrow>
             if direction = DirectionServerToClient
             then (if targetHost \<noteq> LoopbackIPv4
                   then Inl (Errorf ''forward %q reverse server_target must use a loopback address (127.0.0.1)'' [nm])
                   else validate_client_forwards fl cfg rest (forwardName fwd # seenNames) seen resolver endpoints)
             else if \<not> IsForwardTargetHost targetHost
             then Inl (Errorf ''forward %q server_target must use 127.0.0.1 or a private IP address'' [nm])
             else if direction = DirectionVirtual
             then (case virtual_endpoint fl cfg fwd resolver of Inl err \<Rightarrow> Inl err
               | Inr (r, virtualAddr, virtualPort) \<Rightarrow>
                  if server_port cfg \<le> 0 \<or> server_port cfg > 65535
                  then Inl (Errorf ''server_addr must include a valid port before virtual forwarding is configured'' [])
                  else if virtualPort = server_port cfg
                  then Inl (Errorf ''forward %q virtual listen_addr cannot use the server_addr port'' [nm])
                  else (case map_of seen (ToLower virtualAddr) of
                     Some existing \<Rightarrow> Inl (Errorf ''forward %q virtual endpoint %s duplicates forward %q'' [nm, FS virtualAddr, FS existing])
                   | None \<Rightarrow> validate_client_forwards fl cfg rest (forwardName fwd # seenNames)
                               (AList.update (ToLower virtualAddr) (cf_Name fwd) seen) (Some r) (endpoints @ [virtualAddr])))
             else (case client_listen_check fwd of Some err \<Rightarrow> Inl err
               | None \<Rightarrow> validate_client_forwards fl cfg rest (forwardName fwd # seenNames) seen resolver endpoints)))"

definition client_ValidateConfig :: "client_files \<Rightarrow> clientConfig \<Rightarrow> go_error option" where
  "client_ValidateConfig fl cfg =
     (case first_error
        [client_ValidateConfigVersion cfg,
         client_validateLoopbackAddresses cfg,
         if TrimSpace (cc_ServerAddr cfg) = [] then Some (Errorf ''server_addr is required'' []) else None,
         if TrimSpace (cc_Username cfg) = [] \<or> (cc_Password cfg = [] \<and> TrimSpace (sc_Ciphertext (cc_SavedCredential cfg)) = [])
         then Some (Errorf ''username and password are required'' []) else None,
         if cc_Forwards cfg = [] then Some (Errorf ''at least one forward is required'' []) else None,
         validateReverseForwardFields (cc_Forwards cfg)] of
        Some err \<Rightarrow> Some err
      | None \<Rightarrow>
         (case validate_client_forwards fl cfg (cc_Forwards cfg) [] [] None [] of
            Inl err \<Rightarrow> Some err
          | Inr virtualEndpoints \<Rightarrow>
              if length virtualEndpoints > maxVirtualRedirectEndpoints
              then Some (Errorf ''virtual forwarding supports at most %d endpoints'' [FI (int maxVirtualRedirectEndpoints)])
              else if TrimSpace (ct_CACertFile (cc_TLS cfg)) = []
              then Some (Errorf ''tls.ca_cert_file is required for certificate possession gate and server verification'' [])
              else None))"

definition client_resolveConfigPath :: "string \<Rightarrow> string \<Rightarrow> string" where
  "client_resolveConfigPath base p =
     (let p = TrimSpace p in if p = [] \<or> IsAbs p then p else Clean (JoinPath [base, p]))"

end
