(* ===== verification/Client_Config_Laws.thy ===== *)
theory Client_Config_Laws
  imports Client_Config Virtual_Nat_Laws
begin

text \<open>
  What the validation of a client configuration guarantees, and that the packet redirection can be set
  up for every configuration it accepts.
\<close>

section \<open>The endpoint of a virtual forward\<close>

lemma san_loop_texts:
  "san_loop xe blocks seen n = Inr (sans, m) \<Longrightarrow> \<forall>s \<in> set seen. \<exists>q. length q = 4 \<and> s = v4_string q \<Longrightarrow>
   \<forall>s \<in> set sans. \<exists>q. length q = 4 \<and> s = v4_string q"
proof (induction xe blocks seen n rule: san_loop.induct)
  case (2 xe ty bytes blocks seen n)
  have four: "To4_any ip = Some q \<Longrightarrow> length q = 4" for ip q
    by (auto simp: To4_any_def To4_length split: if_splits)
  show ?case
  proof (cases "ty = ''CERTIFICATE''")
    case True
    then obtain ips where ips: "xe_parseIPs xe bytes = Inr ips" using "2.prems"(1) by (auto split: sum.splits)
    have "\<forall>s \<in> set (map v4_string (List.map_filter To4_any ips) @ seen). \<exists>q. length q = 4 \<and> s = v4_string q"
      using "2.prems"(2) by (fastforce simp: map_filter_def dest: four)
    then show ?thesis using "2.IH"(2) [OF _ ips] "2.prems"(1) True ips by simp
  next
    case False
    then show ?thesis using "2.IH"(1) "2.prems" by simp
  qed
qed simp

lemma sans_texts: "certificateIPv4SANs xe env fs path = Inr sans \<Longrightarrow> s \<in> set sans \<Longrightarrow> \<exists>q. length q = 4 \<and> s = v4_string q"
  by (auto simp: certificateIPv4SANs_def Let_def split: if_splits sum.splits dest!: san_loop_texts)

lemma not_Inl_Inr: "\<forall>x. s \<noteq> Inl x \<Longrightarrow> \<exists>y. s = Inr y"
  by (cases s) auto

lemma map_sum_InrE: "map_sum f g s = Inr y \<Longrightarrow> \<exists>x. s = Inr x \<and> y = g x"
  by (cases s) auto

lemma resolver_fields:
  "newVirtualAddressResolver xe env fs ca addr = Inr r \<Longrightarrow>
   certificateIPv4SANs xe env fs ca = Inr (var_allowed r) \<and>
   (\<forall>c \<in> set (var_candidates r). c \<in> set (var_allowed r) \<and> (\<exists>q. normalizeVirtualIPv4 c = Inr q))"
  by (cases "certificateIPv4SANs xe env fs ca") (auto simp: newVirtualAddressResolver_def split: sum.splits dest: not_Inl_Inr)

definition endpoint_text :: "8 word list \<Rightarrow> int \<Rightarrow> string" where
  "endpoint_text q port = JoinHostPort (v4_string q) (Itoa port)"

lemma parse_listen_port:
  assumes "parseVirtualListenAddr value = Inr (host, port)"
  shows "1 \<le> port \<and> port \<le> 65535 \<and> (host = [] \<or> (\<exists>q. usable_v4 q \<and> host = v4_string q))"
  using assms
  by (auto simp: parseVirtualListenAddr_def Let_def split: sum.splits option.splits if_splits
      dest!: map_sum_InrE normalizeVirtualIPv4_usable)

lemma resolve_endpoint:
  assumes r: "newVirtualAddressResolver xe env fs ca addr = Inr r" and res: "resolve (Some r) host port = Inr a"
    and host: "host = [] \<or> (\<exists>q. usable_v4 q \<and> host = v4_string q)"
  shows "\<exists>q. usable_v4 q \<and> a = endpoint_text q port \<and> v4_string q \<in> set (var_allowed r)"
proof (cases "host = []")
  case False
  then show ?thesis using res host by (auto simp: resolve_def endpoint_text_def split: if_splits)
next
  case True
  then obtain h where h: "automaticIP r = Inr h" "a = JoinHostPort h (Itoa port)"
    using res by (cases "automaticIP r") (auto simp: resolve_def)
  have "\<exists>q. usable_v4 q \<and> h = v4_string q \<and> h \<in> set (var_allowed r)"
  proof (cases "\<exists>q. normalizeVirtualIPv4 h = Inr q \<and> h \<in> set (var_allowed r)")
    case True
    then obtain q where q: "normalizeVirtualIPv4 h = Inr q" "h \<in> set (var_allowed r)" by blast
    obtain b where b: "length b = 4" "h = v4_string b"
      using sans_texts q(2) resolver_fields [OF r] by blast
    then have "q = b" using q(1) v4_string_no_colon [of b]
      by (auto simp: normalizeVirtualIPv4_def v4_string_trim ParseIP_v4_string To4_prefix split: if_splits)
    then show ?thesis using normalizeVirtualIPv4_usable [OF q(1)] q(2) b by blast
  next
    case False
    then have "\<exists>q. normalizeVirtualIPv4 (v4_string q) = Inr q \<and> h = v4_string q \<and> h \<in> set (var_allowed r)"
      using h(1) resolver_fields [OF r]
      by (auto simp: automaticIP_def Let_def normalizeVirtualIPv4_idem split: sum.splits list.splits if_splits)
    then show ?thesis using normalizeVirtualIPv4_usable by blast
  qed
  then show ?thesis by (auto simp: h(2) endpoint_text_def)
qed

definition client_resolver :: "client_files \<Rightarrow> clientConfig \<Rightarrow> virtualAddressResolver res" where
  "client_resolver fl cfg = newVirtualAddressResolver (fl_cert fl) (fl_os fl) (fl_files fl) (ct_CACertFile (cc_TLS cfg)) (cc_ServerAddr cfg)"

definition forward_addr :: "client_files \<Rightarrow> clientConfig \<Rightarrow> clientForward \<Rightarrow> string res" where
  "forward_addr fl cfg fwd =
     VirtualForwardAddr (fl_cert fl) (fl_os fl) (fl_files fl) (ct_CACertFile (cc_TLS cfg)) (cc_ServerAddr cfg) (cf_ListenAddr fwd)"

definition authorized_endpoint :: "client_files \<Rightarrow> clientConfig \<Rightarrow> string \<Rightarrow> bool" where
  "authorized_endpoint fl cfg a \<longleftrightarrow> (\<exists>q port sans. usable_v4 q \<and> a = endpoint_text q port \<and> 1 \<le> port \<and> port \<le> 65535
     \<and> port \<noteq> server_port cfg
     \<and> certificateIPv4SANs (fl_cert fl) (fl_os fl) (fl_files fl) (ct_CACertFile (cc_TLS cfg)) = Inr sans \<and> v4_string q \<in> set sans)"

lemma virtual_endpoint_ok:
  assumes v: "virtual_endpoint fl cfg fwd ro = Inr (r, a, port)" and ro: "ro = None \<or> (\<exists>r. ro = Some r \<and> client_resolver fl cfg = Inr r)"
    and port: "port \<noteq> server_port cfg"
  shows "client_resolver fl cfg = Inr r \<and> forward_addr fl cfg fwd = Inr a \<and> authorized_endpoint fl cfg a"
proof -
  obtain host where p: "parseVirtualListenAddr (cf_ListenAddr fwd) = Inr (host, port)"
    and r: "client_resolver fl cfg = Inr r" and a: "resolve (Some r) host port = Inr a"
    using v ro by (auto simp: virtual_endpoint_def client_resolver_def Let_def split: sum.splits option.splits)
  note r' = r [unfolded client_resolver_def]
  have "forward_addr fl cfg fwd = Inr a" using p r' a by (simp add: forward_addr_def VirtualForwardAddr_def)
  moreover obtain q where "usable_v4 q" "a = endpoint_text q port" "v4_string q \<in> set (var_allowed r)"
    using resolve_endpoint [OF r' a] parse_listen_port [OF p] by blast
  then have "authorized_endpoint fl cfg a"
    using parse_listen_port [OF p] resolver_fields [OF r'] port unfolding authorized_endpoint_def by blast
  ultimately show ?thesis using r by blast
qed

section \<open>The loop over the forwards\<close>

definition is_virtual :: "clientForward \<Rightarrow> bool" where
  "is_virtual fwd \<longleftrightarrow> TrimSpace (cf_Direction fwd) = DirectionVirtual"

definition client_forward_ok :: "client_files \<Rightarrow> clientConfig \<Rightarrow> clientForward \<Rightarrow> bool" where
  "client_forward_ok fl cfg fwd \<longleftrightarrow> (\<exists>h. client_target_host fwd = Inr h \<and>
     (if TrimSpace (cf_Direction fwd) = DirectionServerToClient then h = LoopbackIPv4
      else IsForwardTargetHost h \<and>
        (if is_virtual fwd then \<exists>a. forward_addr fl cfg fwd = Inr a \<and> authorized_endpoint fl cfg a
         else TrimSpace (cf_Direction fwd) = DirectionClientToServer \<and> client_listen_check fwd = None)))"

lemma client_directions_differ [simp]:
  "DirectionVirtual \<noteq> DirectionServerToClient" "DirectionVirtual \<noteq> DirectionClientToServer"
  "DirectionServerToClient \<noteq> DirectionVirtual" "DirectionClientToServer \<noteq> DirectionVirtual"
  "DirectionClientToServer \<noteq> DirectionServerToClient" "DirectionServerToClient \<noteq> DirectionClientToServer"
  by (simp_all add: DirectionVirtual_def DirectionServerToClient_def DirectionClientToServer_def)

lemma validate_forwards_ok:
  assumes "validate_client_forwards fl cfg fwds names seen ro endpoints = Inr es"
    and "ro = None \<or> (\<exists>r. ro = Some r \<and> client_resolver fl cfg = Inr r)"
    and "distinct (map ToLower endpoints)" and "dom (map_of seen) = ToLower ` set endpoints"
  shows "distinct (map forwardName fwds) \<and> forwardName ` set fwds \<inter> set names = {}
    \<and> (\<forall>fwd \<in> set fwds. client_forward_ok fl cfg fwd) \<and> distinct (map ToLower es)
    \<and> map Inr es = map Inr endpoints @ map (forward_addr fl cfg) (filter is_virtual fwds)"
  using assms
proof (induction fl cfg fwds names seen ro endpoints rule: validate_client_forwards.induct)
  case (2 fl cfg fwd rest names seen ro endpoints)
  let ?d = "TrimSpace (cf_Direction fwd)"
  have new: "forwardName fwd \<notin> set names" and d: "?d \<in> {DirectionClientToServer, DirectionServerToClient, DirectionVirtual}"
    using "2.prems"(1) by (auto simp: Let_def split: if_splits)
  obtain h where h: "client_target_host fwd = Inr h"
    using "2.prems"(1) new d by (cases "client_target_host fwd") (auto simp: Let_def split: if_splits)
  have guards: "\<not> forwardName fwd \<in> set names" "\<not> ?d \<notin> {DirectionClientToServer, DirectionServerToClient, DirectionVirtual}"
    using new d by simp_all
  show ?case
  proof (cases "?d = DirectionServerToClient")
    case True
    have l: "\<not> h \<noteq> LoopbackIPv4" using "2.prems"(1) new h True by (auto simp: Let_def split: if_splits)
    have "validate_client_forwards fl cfg rest (forwardName fwd # names) seen ro endpoints = Inr es"
      using "2.prems"(1) new h True l by (simp add: Let_def)
    from "2.IH"(1) [OF refl refl guards h True l this "2.prems"(2-4)] True h l show ?thesis
      by (auto simp: client_forward_ok_def is_virtual_def new)
  next
    case rev: False
    have t: "\<not> \<not> IsForwardTargetHost h" using "2.prems"(1) new d h rev by (auto simp: Let_def split: if_splits)
    show ?thesis
    proof (cases "?d = DirectionVirtual")
      case True
      obtain r a p where v: "virtual_endpoint fl cfg fwd ro = Inr (r, a, p)"
        using "2.prems"(1) new h True t by (cases "virtual_endpoint fl cfg fwd ro") (auto simp: Let_def)
      have sp: "\<not> (server_port cfg \<le> 0 \<or> server_port cfg > 65535)" "p \<noteq> server_port cfg" and free: "map_of seen (ToLower a) = None"
        and next': "validate_client_forwards fl cfg rest (forwardName fwd # names) (AList.update (ToLower a) (cf_Name fwd) seen)
          (Some r) (endpoints @ [a]) = Inr es"
        using "2.prems"(1) new h True t v by (auto simp: Let_def split: if_splits option.splits)
      note ok = virtual_endpoint_ok [OF v "2.prems"(2) sp(2)]
      have fresh: "ToLower a \<notin> ToLower ` set endpoints" using free "2.prems"(4) by (auto simp: domIff)
      have dom': "dom (map_of (AList.update (ToLower a) (cf_Name fwd) seen)) = ToLower ` set (endpoints @ [a])"
        by (simp add: update_conv' "2.prems"(4))
      have dist': "distinct (map ToLower (endpoints @ [a]))" using "2.prems"(3) fresh by auto
      have ro': "Some r = None \<or> (\<exists>r'. Some r = Some r' \<and> client_resolver fl cfg = Inr r')" using ok by simp
      have port': "\<not> p = server_port cfg" using sp(2) by simp
      have "distinct (map forwardName rest) \<and> forwardName ` set rest \<inter> set (forwardName fwd # names) = {}
        \<and> (\<forall>fwd \<in> set rest. client_forward_ok fl cfg fwd) \<and> distinct (map ToLower es)
        \<and> map Inr es = map Inr (endpoints @ [a]) @ map (forward_addr fl cfg) (filter is_virtual rest)"
        by (rule "2.IH"(2) [OF refl refl guards h rev t True v refl refl sp(1) port' free next' ro' dist' dom'])
      then show ?thesis using True h t ok new by (auto simp: client_forward_ok_def is_virtual_def cong: filter_cong)
    next
      case False
      have c: "?d = DirectionClientToServer" using d rev False by simp
      have lc: "client_listen_check fwd = None"
        and next': "validate_client_forwards fl cfg rest (forwardName fwd # names) seen ro endpoints = Inr es"
        using "2.prems"(1) new h c t by (auto simp: Let_def split: option.splits)
      from "2.IH"(3) [OF refl refl guards h rev t False lc next' "2.prems"(2-4)] show ?thesis
        using c h t lc new by (auto simp: client_forward_ok_def is_virtual_def)
    qed
  qed
qed simp

section \<open>A valid configuration\<close>

lemma validate_config_ok:
  assumes "client_ValidateConfig fl cfg = None"
  obtains es where "distinct (map forwardName (cc_Forwards cfg))" "\<forall>fwd \<in> set (cc_Forwards cfg). client_forward_ok fl cfg fwd"
    "distinct (map ToLower es)" "map Inr es = map (forward_addr fl cfg) (filter is_virtual (cc_Forwards cfg))"
    "length es \<le> maxVirtualRedirectEndpoints"
proof -
  obtain es where es: "validate_client_forwards fl cfg (cc_Forwards cfg) [] [] None [] = Inr es"
    and len: "length es \<le> maxVirtualRedirectEndpoints"
    using assms by (auto simp: client_ValidateConfig_def split: option.splits sum.splits if_splits)
  show ?thesis using validate_forwards_ok [OF es] len by (intro that [of es]) simp_all
qed

lemma endpoint_chars:
  assumes "0 \<le> port" and "c \<in> set (endpoint_text q port)"
  shows "visible c" and "lower_char c = c"
proof -
  have "is_digit c \<or> c = CHR ''.'' \<or> c = CHR '':''"
    using assms v4_text_chars [of c q] v4_string_no_colon [of q] nat_digits_digits [of "nat port"]
    by (auto simp: endpoint_text_def JoinHostPort_def Itoa_def list_all_iff)
  moreover have "visible CHR ''.''" "visible CHR '':''" "lower_char CHR ''.'' = CHR ''.''" "lower_char CHR '':'' = CHR '':''"
    by code_simp+
  moreover have "is_digit c \<Longrightarrow> lower_char c = c" by (simp add: is_digit_def lower_char_def)
  ultimately show "visible c" "lower_char c = c" using is_digit_visible by auto
qed

lemma endpoint_text_split:
  assumes "usable_v4 q" and "1 \<le> port" and "port \<le> 65535"
  shows "SplitHostPort (TrimSpace (endpoint_text q port)) = Inr (v4_string q, Itoa port)" "Atoi (Itoa port) = Some port"
    and "ToLower (endpoint_text q port) = endpoint_text q port"
proof -
  note ch = endpoint_chars [of port _ q]
  have "endpoint_text q port \<noteq> []" by (simp add: endpoint_text_def JoinHostPort_def)
  then have "TrimSpace (endpoint_text q port) = endpoint_text q port"
    using ch(1) assms(2) by (intro TrimSpace_visible) auto
  moreover have "list_all is_digit (Itoa port)" using assms(2) by (simp add: Itoa_def nat_digits_digits)
  then have "CHR '':'' \<notin> set (Itoa port)" "CHR ''['' \<notin> set (Itoa port)" "CHR '']'' \<notin> set (Itoa port)"
    using digit_not by (fastforce simp: list_all_iff)+
  ultimately show "SplitHostPort (TrimSpace (endpoint_text q port)) = Inr (v4_string q, Itoa port)"
    using v4_string_no_colon [of q] Split_JoinHostPort [of "v4_string q" "Itoa port"] by (simp add: endpoint_text_def)
  show "Atoi (Itoa port) = Some port" using assms by (intro Atoi_Itoa) auto
  show "ToLower (endpoint_text q port) = endpoint_text q port"
    using ch(2) assms(2) by (simp add: ToLower_def map_idI)
qed

lemma be32_inj:
  assumes "be32 q 0 = be32 r 0" and "length q = 4" and "length r = 4"
  shows "q = r"
proof -
  let ?w = "\<lambda>a b c d :: 8 word. push_bit 24 (ucast a) OR push_bit 16 (ucast b) OR push_bit 8 (ucast c) OR (ucast d :: 32 word)"
  have bytes: "ucast (drop_bit 24 (?w a b c d)) = a" "ucast (drop_bit 16 (?w a b c d)) = b"
    "ucast (drop_bit 8 (?w a b c d)) = c" "ucast (?w a b c d) = d" for a b c d :: "8 word"
    by (rule bit_word_eqI; auto simp: bit_simps dest: bit_imp_le_length)+
  have "be32 p 0 = ?w (p ! 0) (p ! 1) (p ! 2) (p ! 3)" for p by (simp add: be32_def eval_nat_numeral)
  then have "q ! 0 = r ! 0" "q ! 1 = r ! 1" "q ! 2 = r ! 2" "q ! 3 = r ! 3"
    using assms(1) bytes by metis+
  then have "q ! i = r ! i" if "i < 4" for i
    using that by (auto simp: less_Suc_eq numeral_eq_Suc)
  then show ?thesis using assms by (simp add: nth_equalityI)
qed

lemma endpoint_inj:
  assumes "rule_ok a" and "rule_ok b" and "rule_endpoint a = rule_endpoint b"
  shows "rule_key a = rule_key b"
proof -
  obtain q r where q: "usable_v4 q" "vr_VirtualIP a = v4_string q" and r: "usable_v4 r" "vr_VirtualIP b = v4_string r"
    using assms(1,2) by (auto simp: rule_ok_def)
  then have len: "length q = 4" "length r = 4" by (simp_all add: usable_v4_def)
  have "rule_ip a = be32 q 0" "rule_ip b = be32 r 0"
    by (simp_all add: rule_ip_def q(2) r(2) ParseIP_v4_string To4_prefix len)
  then have "q = r" using assms(3) by (intro be32_inj len) (simp add: rule_endpoint_def)
  then show ?thesis using assms(3) by (simp add: rule_key_def q r rule_endpoint_def)
qed

lemma authorized_rule:
  assumes "authorized_endpoint fl cfg a" and "1 \<le> p" and "p \<le> 65535"
  shows "\<exists>r. newVirtualRedirectRule a p = Inr r \<and> rule_ok r \<and> rule_key r = a \<and> ToLower a = a \<and> vr_LocalPort r = of_int p"
proof -
  obtain q port where q: "usable_v4 q" "a = endpoint_text q port" "1 \<le> port" "port \<le> 65535"
    using assms(1) by (auto simp: authorized_endpoint_def)
  note sp = endpoint_text_split [OF q(1) q(3,4)]
  have word: "uint (of_int n :: 16 word) = n" "(of_int n :: 16 word) \<noteq> 0" if "1 \<le> n" "n \<le> 65535" for n
  proof -
    show 1: "uint (of_int n :: 16 word) = n" using that by (simp add: unsigned_of_int take_bit_int_eq_self)
    show "(of_int n :: 16 word) \<noteq> 0" using 1 that by (metis unsigned_0 not_one_le_zero)
  qed
  show ?thesis
    using q sp assms word [of port] word [of p]
    by (auto simp: newVirtualRedirectRule_def normalizeVirtualIPv4_text rule_ok_def rule_key_def endpoint_text_def)
qed

lemma rules_of_endpoints:
  assumes "list_all (authorized_endpoint fl cfg) es" and "list_all (\<lambda>p. 1 \<le> p \<and> p \<le> 65535) ports" and "length ports = length es"
  shows "\<exists>rs. map Inr rs = map2 newVirtualRedirectRule es ports \<and> list_all rule_ok rs \<and> map rule_key rs = es
    \<and> map ToLower es = es \<and> map vr_LocalPort rs = map of_int ports"
  using assms
proof (induction es ports rule: list_induct2')
  case (4 a es p ports)
  then obtain rs where rs: "map Inr rs = map2 newVirtualRedirectRule es ports" "list_all rule_ok rs" "map rule_key rs = es"
    "map ToLower es = es" "map vr_LocalPort rs = map of_int ports" by auto
  obtain r where "newVirtualRedirectRule a p = Inr r" "rule_ok r" "rule_key r = a" "ToLower a = a" "vr_LocalPort r = of_int p"
    using authorized_rule [of fl cfg a p] 4 by auto
  with rs show ?case by (intro exI [of _ "r # rs"]) simp
qed auto

lemma table_of_rules:
  assumes "rules_ok rs"
  shows "\<exists>t. newVirtualRedirectTable now rs = Inr t \<and> (\<forall>r \<in> set rs. map_of (vt_targets t) (rule_endpoint r) = Some r)"
proof -
  have ok: "list_all rule_ok rs" "distinct (map rule_key rs)" "length rs \<le> maxVirtualRedirectEndpoints"
    using assms by (simp_all add: rules_ok_def)
  have "normalize_loop rs [] [] [] = Inr ([] @ rs)"
    using assms by (intro normalize_loop_fixed) (simp_all add: rules_ok_def)
  then have n: "normalizeVirtualRedirectRules rs = Inr (sort_rules rs)"
    using ok(3) by (simp add: normalizeVirtualRedirectRules_def)
  obtain t where t: "newVirtualRedirectTable now rs = Inr t"
    and tg: "vt_targets t = fold (\<lambda>r m. AList.update (rule_endpoint r) r m) (sort_rules rs) []"
    by (auto simp: newVirtualRedirectTable_def n)
  have "map_of (vt_targets t) (rule_endpoint r) = Some r" if r: "r \<in> set rs" for r
  proof -
    have "find (\<lambda>x. rule_endpoint x = rule_endpoint r) (rev (sort_rules rs)) \<noteq> None" using r by (auto simp: find_None_iff)
    then obtain x where x: "find (\<lambda>x. rule_endpoint x = rule_endpoint r) (rev (sort_rules rs)) = Some x" by auto
    then have "x \<in> set rs" "rule_endpoint x = rule_endpoint r" by (auto dest!: find_rule_SomeD)
    then have "x = r" using ok r endpoint_inj [of x r] by (auto simp: list_all_iff distinct_map dest: inj_onD)
    then show ?thesis using x by (simp add: tg fold_update_map)
  qed
  then show ?thesis using t by blast
qed

text \<open>
  A configuration that \<open>ValidateConfig\<close> accepts: the runtime names of the forwards are distinct; a
  reverse forward has its target on 127.0.0.1; the target of any other is 127.0.0.1 or a private address; a
  virtual endpoint is an IPv4 address among the SANs of the CA certificate with a port that is not the port of
  \<open>server_addr\<close>; the virtual endpoints are distinct and at most 48; there is a CA certificate.\<close>

theorem valid_client_config:
  assumes "client_ValidateConfig fl cfg = None"
  shows "cc_Forwards cfg \<noteq> [] \<and> distinct (map forwardName (cc_Forwards cfg))
    \<and> (\<forall>fwd \<in> set (cc_Forwards cfg). client_forward_ok fl cfg fwd)
    \<and> (\<exists>es. map Inr es = map (forward_addr fl cfg) (filter is_virtual (cc_Forwards cfg)) \<and> distinct es \<and> length es \<le> 48)
    \<and> TrimSpace (ct_CACertFile (cc_TLS cfg)) \<noteq> []"
proof -
  obtain es where es: "distinct (map forwardName (cc_Forwards cfg))" "\<forall>fwd \<in> set (cc_Forwards cfg). client_forward_ok fl cfg fwd"
    "distinct (map ToLower es)" "map Inr es = map (forward_addr fl cfg) (filter is_virtual (cc_Forwards cfg))"
    "length es \<le> maxVirtualRedirectEndpoints"
    by (rule validate_config_ok [OF assms])
  have "cc_Forwards cfg \<noteq> []" "TrimSpace (ct_CACertFile (cc_TLS cfg)) \<noteq> []"
    using assms by (auto simp: client_ValidateConfig_def split: option.splits sum.splits if_splits)
  then show ?thesis using es distinct_map [THEN iffD1, OF es(3)] by (auto simp: maxVirtualRedirectEndpoints_def)
qed

text \<open>C11. 
  For a configuration that \<open>ValidateConfig\<close> accepts the packet redirection can be set up: whatever distinct
  local ports the listeners of the virtual forwards got, \<open>newVirtualRedirectRule\<close> and
  \<open>newVirtualRedirectTable\<close> succeed, and the table redirects each endpoint to the port of its own listener.\<close>

theorem validated_endpoints_make_rules:
  assumes "client_ValidateConfig fl cfg = None"
    and "map Inr addrs = map (forward_addr fl cfg) (filter is_virtual (cc_Forwards cfg))"
    and "length ports = length addrs" and "distinct ports" and "list_all (\<lambda>p. 1 \<le> p \<and> p \<le> 65535) ports"
  shows "\<exists>rules t. map Inr rules = map2 newVirtualRedirectRule addrs ports \<and> map rule_key rules = addrs
    \<and> newVirtualRedirectTable now rules = Inr t
    \<and> (\<forall>r \<in> set rules. map_of (vt_targets t) (rule_endpoint r) = Some r)"
proof -
  obtain es where es: "\<forall>fwd \<in> set (cc_Forwards cfg). client_forward_ok fl cfg fwd" "distinct (map ToLower es)"
    "map Inr es = map (forward_addr fl cfg) (filter is_virtual (cc_Forwards cfg))" "length es \<le> maxVirtualRedirectEndpoints"
    by (rule validate_config_ok [OF assms(1)])
  have "map Inr es = (map Inr addrs :: string res list)" using es(3) assms(2) by simp
  then have eq: "addrs = es" by (simp add: inj_map_eq_map)
  have "list_all (\<lambda>x. \<exists>a. x = Inr a \<and> authorized_endpoint fl cfg a) (map (forward_addr fl cfg) (filter is_virtual (cc_Forwards cfg)))"
    using es(1) by (auto simp: list_all_iff client_forward_ok_def is_virtual_def)
  then have auth: "list_all (authorized_endpoint fl cfg) es" by (simp add: es(3) [symmetric] list_all_iff)
  obtain rs where rs: "map Inr rs = map2 newVirtualRedirectRule es ports" "list_all rule_ok rs" "map rule_key rs = es"
    "map ToLower es = es" "map vr_LocalPort rs = map of_int ports"
    using rules_of_endpoints [OF auth assms(5)] assms(3) eq by auto
  have "inj_on (of_int :: int \<Rightarrow> 16 word) (set ports)"
  proof (rule inj_on_inverseI [where g = uint])
    show "uint (of_int p :: 16 word) = p" if "p \<in> set ports" for p
      using that assms(5) by (auto simp: list_all_iff unsigned_of_int take_bit_int_eq_self)
  qed
  then have "rules_ok rs" using rs es(2,4) assms(4) by (simp add: rules_ok_def distinct_map) (metis length_map)
  then show ?thesis using table_of_rules [of rs now] rs eq by blast
qed

section \<open>An example\<close>

definition sample_client_files :: client_files where
  "sample_client_files =
     \<lparr>fl_cert = \<lparr>xe_pemBlocks = (\<lambda>s. [(''CERTIFICATE'', s)]), xe_parseIPs = (\<lambda>s. Inr [[127, 0, 0, 1], [203, 0, 113, 10]])\<rparr>,
      fl_os = no_faults, fl_files = [(''ca.crt'', ''ca'')]\<rparr>"

definition sample_client_config :: clientConfig where
  "sample_client_config =
     \<lparr>cc_ConfigVersion = ClientConfigVersion, cc_MinClientVersion = ClientConfigRequiresClientVersion, cc_ServerAddr = ''127.0.0.1:7443'',
      cc_Remark = [], cc_Username = ''alice'', cc_Password = ''secret'', cc_PasswordEnv = [], cc_PasswordFile = [],
      cc_SavedCredential = \<lparr>sc_Type = [], sc_KeyID = [], sc_ExpiresAt = [], sc_Ciphertext = []\<rparr>, cc_ClientID = ''pc'', cc_LogLevel = [],
      cc_TLS = \<lparr>ct_CACertFile = ''ca.crt'', ct_ServerName = [], ct_MinVersion = ''1.3'', ct_InsecureSkipVerify = False\<rparr>,
      cc_DialTimeoutSec = 5,
      cc_Forwards =
        [\<lparr>cf_Name = ''web'', cf_Direction = DirectionVirtual, cf_ListenAddr = ''203.0.113.10:443'', cf_ServerTarget = ''192.168.1.5:8443''\<rparr>,
         \<lparr>cf_Name = ''ssh'', cf_Direction = DirectionClientToServer, cf_ListenAddr = ''127.0.0.1:2222'', cf_ServerTarget = ''127.0.0.1:22''\<rparr>,
         \<lparr>cf_Name = ''auto'', cf_Direction = DirectionVirtual, cf_ListenAddr = '':22'', cf_ServerTarget = ''127.0.0.1:22''\<rparr>]\<rparr>"

lemma sample_client_valid: "client_ValidateConfig sample_client_files sample_client_config = None"
  by code_simp

theorem valid_client_config_witness:
  "distinct (map forwardName (cc_Forwards sample_client_config))
   \<and> client_forward_ok sample_client_files sample_client_config (cc_Forwards sample_client_config ! 0)"
  using valid_client_config [OF sample_client_valid] by (simp add: sample_client_config_def)

theorem validated_endpoints_make_rules_witness:
  "\<exists>rules t. map Inr rules = map2 newVirtualRedirectRule [''203.0.113.10:443'', ''203.0.113.10:22''] [45001, 45000]
    \<and> map rule_key rules = [''203.0.113.10:443'', ''203.0.113.10:22'']
    \<and> newVirtualRedirectTable 0 rules = Inr t
    \<and> list_all (\<lambda>r. map_of (vt_targets t) (rule_endpoint r) = Some r) rules"
proof -
  have "map Inr [''203.0.113.10:443'', ''203.0.113.10:22''] =
      map (forward_addr sample_client_files sample_client_config) (filter is_virtual (cc_Forwards sample_client_config))"
    by code_simp
  from validated_endpoints_make_rules [OF sample_client_valid this, of "[45001, 45000]" 0] show ?thesis
    by (simp add: list_all_iff)
qed

end
