(* ===== verification/Client_Messages.thy ===== *)
theory Client_Messages
  imports Go_Encoding
begin

text \<open>
  The messages the client shows: string literals of \<open>client/tunnel/status.go\<close>, \<open>virtual_errors.go\<close> and
  \<open>client.go\<close>. A Go string is its UTF-8 bytes; they are given in hexadecimal, and the name of each constant
  says in English what the text tells.
\<close>

definition utf8 :: "string \<Rightarrow> string" where
  "utf8 hex = (case Hex_Decode hex of Inl _ \<Rightarrow> [] | Inr s \<Rightarrow> s)"

definition msg_healthy :: string where
  "msg_healthy = utf8 (''e69c8de58aa1e7abafe8bf9ee68ea5e6ada3e5b8b8'')"

definition msg_reverse_wait :: string where
  "msg_reverse_wait = utf8 (''e7ad89e5be85e69c8de58aa1e7abafe8a2abe58aa8e7abafe58fa3e6bf80e6b4bb'')"

definition msg_check_bad :: string where
  "msg_check_bad = utf8 (''e69c8de58aa1e7abafe8bf9ee68ea5e6ada3e5b8b8efbc8ce5b7b2e6a380e69fa520256420e4b8aae7abafe58fa3efbc'' @
     ''8c256420e4b8aae5bc82e5b8b8'')"

definition msg_check_good :: string where
  "msg_check_good = utf8 (''e69c8de58aa1e7abafe8bf9ee68ea5e6ada3e5b8b8efbc8ce5b7b2e6a380e69fa520256420e4b8aae7abafe58fa3'')"

definition msg_auth_ended :: string where
  "msg_auth_ended = utf8 (''e8aea4e8af81e5bc82e5b8b8efbc8ce5b7b2e58f96e6b688e8bf9ee68ea5e78ab6e68081efbc8ce8afb7e9878de696b0'' @
     ''e8bf9ee68ea5'')"

definition msg_reconnect_ended :: string where
  "msg_reconnect_ended = utf8 (''e5a49ae6aca1e9878de8bf9ee5a4b1e8b4a5efbc8ce5b7b2e58f96e6b688e8bf9ee68ea5e78ab6e68081efbc8ce8afb7'' @
     ''e7a1aee8aea4e69c8de58aa1e7abafe681a2e5a48de5908ee9878de696b0e8bf9ee68ea5'')"

definition msg_version_unsupported :: string where
  "msg_version_unsupported = utf8 (''e5aea2e688b7e7abafe78988e69cace4b88de59ca8e69c8de58aa1e7abafe58581e8aeb8e88c83e59bb4e58685efbc8c'' @
     ''e8afb7e88194e7b3bbe7aea1e79086e59198e7a1aee8aea4e4b8a4e7abafe78988e69cac'')"

definition msg_protocol_mismatch :: string where
  "msg_protocol_mismatch = utf8 (''e5aea2e688b7e7abafe4b88ee69c8de58aa1e7abafe58d8fe8aeaee78988e69cace4b88de4b880e887b4efbc8ce8afb7'' @
     ''e88194e7b3bbe7aea1e79086e59198e58d87e7baa7e5afb9e5ba94e4b880e7abaf'')"

definition msg_login_wrong :: string where
  "msg_login_wrong = utf8 (''e8b4a6e58fb7e68896e5af86e7a081e4b88de6ada3e7a1aeefbc8ce99c80e8a681e9878de696b0e799bbe5bd95'')"

definition msg_credential_old :: string where
  "msg_credential_old = utf8 (''e4bf9de5ad98e79a84e799bbe5bd95e587ade68daee5b7b2e8bf87e69c9fefbc8ce99c80e8a681e9878de696b0e799bb'' @
     ''e5bd95'')"

definition msg_blocked :: string where
  "msg_blocked = utf8 (''e799bbe5bd95e5a4b1e8b4a5e6aca1e695b0e8bf87e5a49aefbc8ce5bd93e5898de69da5e6ba9020495020e5b7b2e8a2'' @
     ''abe4b8b4e697b6e5b081e7a681'')"

definition msg_trust_invalid :: string where
  "msg_trust_invalid = utf8 (''e69c8de58aa1e7abafe4bfa1e4bbbbe8af81e4b9a6e697a0e69588efbc8ce8afb7e88194e7b3bbe7aea1e79086e59198'' @
     ''e9878de696b0e4b88be58f91'')"

definition msg_trust_missing :: string where
  "msg_trust_missing = utf8 (''e7bcbae5b091e69c8de58aa1e7abafe4bfa1e4bbbbe8af81e4b9a6207365727665722e637274efbc8ce8afb7e88194e7'' @
     ''b3bbe7aea1e79086e59198e9878de696b0e4b88be58f91e5aea2e688b7e7abafe5ae89e8a385e58c85'')"

definition msg_cert_address :: string where
  "msg_cert_address = utf8 (''e69c8de58aa1e7abafe8af81e4b9a6e5928ce5bd93e5898de59cb0e59d80e4b88de58cb9e9858defbc8ce8afb7e6a380'' @
     ''e69fa5e69c8de58aa1e7abafe59cb0e59d80e68896e9878de696b0e4b88be58f91e8af81e4b9a6'')"

definition msg_cert_expired :: string where
  "msg_cert_expired = utf8 (''e69c8de58aa1e7abafe8af81e4b9a6e5b7b2e8bf87e69c9fe68896e5b09ae69caae7949fe69588efbc8ce8afb7e88194'' @
     ''e7b3bbe7aea1e79086e59198e9878de696b0e4b88be58f91e69c89e69588e8af81e4b9a6'')"

definition msg_cert_untrusted :: string where
  "msg_cert_untrusted = utf8 (''e69c8de58aa1e7abafe8af81e4b9a6e4b88de58f97e4bfa1e4bbbbefbc8ce8afb7e88194e7b3bbe7aea1e79086e59198'' @
     ''e9878de696b0e4b88be58f91e8af81e4b9a6'')"

definition msg_address_format :: string where
  "msg_address_format = utf8 (''e69c8de58aa1e7abafe59cb0e59d80e6a0bce5bc8fe4b88de6ada3e7a1aeefbc8ce8afb7e5a1abe5869920e59cb0e59d'' @
     ''803ae7abafe58fa3'')"

definition msg_no_such_host :: string where
  "msg_no_such_host = utf8 (''e69c8de58aa1e7abafe59cb0e59d80e697a0e6b395e8a7a3e69e90efbc8ce8afb7e6a380e69fa5e59f9fe5908de68896'' @
     ''e7bd91e7bb9c'')"

definition msg_refused :: string where
  "msg_refused = utf8 (''e8bf9ee68ea5e4b88de4b88ae69c8de58aa1e7abafefbc8ce8afb7e6a380e69fa5e69c8de58aa1e7abafe698afe590a6'' @
     ''e590afe58aa8e68896e59cb0e59d80e7abafe58fa3e698afe590a6e6ada3e7a1ae'')"

definition msg_timed_out :: string where
  "msg_timed_out = utf8 (''e8bf9ee68ea5e8b685e697b6efbc8ce8afb7e6a380e69fa5e7bd91e7bb9ce68896e69c8de58aa1e7abafe998b2e781ab'' @
     ''e5a299'')"

definition msg_unreachable_net :: string where
  "msg_unreachable_net = utf8 (''e7bd91e7bb9ce4b88de58fafe8bebeefbc8ce8afb7e6a380e69fa5e69cace69cbae7bd91e7bb9c'')"

definition msg_reset :: string where
  "msg_reset = utf8 (''e8bf9ee68ea5e8a2abe69c8de58aa1e7abafe696ade5bc80efbc8ce8afb7e7a88de5908ee9878de8af95e68896e88194'' @
     ''e7b3bbe7aea1e79086e59198'')"

definition msg_aborted :: string where
  "msg_aborted = utf8 (''e8bf9ee68ea5e5b7b2e4b8ade696adefbc8ce8afb7e7a88de5908ee9878de8af95e68896e88194e7b3bbe7aea1e79086'' @
     ''e59198'')"

definition msg_cert_failed :: string where
  "msg_cert_failed = utf8 (''e69c8de58aa1e7abafe8af81e4b9a6e6a0a1e9aa8ce5a4b1e8b4a5efbc8ce8afb7e88194e7b3bbe7aea1e79086e59198'' @
     ''e6a380e69fa5e8af81e4b9a6'')"

definition msg_tls_failed :: string where
  "msg_tls_failed = utf8 (''544c5320e68fa1e6898be5a4b1e8b4a5efbc8ce8afb7e6a380e69fa5e69c8de58aa1e7abafe78ab6e68081e58f8ae4b8'' @
     ''a4e7abafe78988e69cac'')"

definition msg_unavailable :: string where
  "msg_unavailable = utf8 (''e69c8de58aa1e7abafe69a82e697b6e4b88de58fafe8bebe'')"

definition msg_login_again :: string where
  "msg_login_again = utf8 (''e8b4a6e58fb7e68896e5af86e7a081e4b88de6ada3e7a1aeefbc8ce8afb7e9878de696b0e799bbe5bd95'')"

definition msg_credential_again :: string where
  "msg_credential_again = utf8 (''e4bf9de5ad98e79a84e799bbe5bd95e587ade68daee5b7b2e8bf87e69c9fefbc8ce8afb7e9878de696b0e8be93e585a5'' @
     ''e5af86e7a081'')"

definition msg_stream_limit :: string where
  "msg_stream_limit = utf8 (''e5bd93e5898de8b4a6e58fb7e5b9b6e58f91e8bf9ee68ea5e695b0e5b7b2e8bebee588b0e4b88ae99990efbc8ce8afb7'' @
     ''e585b3e997ade983a8e58886e8bf9ee68ea5e5908ee9878de8af95'')"

definition msg_blocked_later :: string where
  "msg_blocked_later = utf8 (''e799bbe5bd95e5a4b1e8b4a5e6aca1e695b0e8bf87e5a49aefbc8ce5bd93e5898de69da5e6ba9020495020e5b7b2e8a2'' @
     ''abe4b8b4e697b6e5b081e7a681efbc8ce8afb7e7a88de5908ee5868de8af95'')"

definition msg_reverse_unconfigured :: string where
  "msg_reverse_unconfigured = utf8 (''e58f8de59091e79b91e590ace59cb0e59d80e69caae59ca8e69c8de58aa1e7abafe9858de7bdaeefbc8ce8afb7e88194'' @
     ''e7b3bbe7aea1e79086e59198e6a380e69fa5e4bf9de79599e7abafe58fa3'')"

definition msg_reverse_denied :: string where
  "msg_reverse_denied = utf8 (''e5bd93e5898de8b4a6e58fb7e697a0e69d83e4bdbfe794a8e8afa5e58f8de59091e7abafe58fa3efbc8ce8afb7e88194'' @
     ''e7b3bbe7aea1e79086e59198e6a380e69fa5e7abafe58fa3e68e88e69d83'')"

definition msg_target_denied :: string where
  "msg_target_denied = utf8 (''e5bd93e5898de8b4a6e58fb7e6b2a1e69c89e8aebfe997aee8afa5e7abafe58fa3e79a84e69d83e99990efbc8ce8afb7'' @
     ''e88194e7b3bbe7aea1e79086e59198e6a380e69fa5e7abafe58fa3e68e88e69d83'')"

definition msg_reverse_taken :: string where
  "msg_reverse_taken = utf8 (''e8afa5e8a2abe58aa8e7abafe58fa3e5b7b2e8a2abe585b6e4bb96e5aea2e688b7e7abafe58da0e794a8'')"

definition msg_reverse_unavailable :: string where
  "msg_reverse_unavailable = utf8 (''e69c8de58aa1e7abafe8a2abe58aa8e7abafe58fa3e4b88de58fafe794a8efbc8ce5aea2e688b7e7abafe4bc9ae887aa'' @
     ''e58aa8e9878de8af95efbc8ce8afb7e88194e7b3bbe7aea1e79086e59198e6a380e69fa5e69c8de58aa1e7abafe7abaf'' @
     ''e58fa3e58da0e794a8'')"

definition msg_port_in_use :: string where
  "msg_port_in_use = utf8 (''e69cace59cb0e7abafe58fa3e5b7b2e8a2abe58da0e794a8efbc8ce8afb7e585b3e997ade58da0e794a8e7a88be5ba8f'' @
     ''e68896e8b083e695b4e7abafe58fa3'')"

definition msg_client_target_down :: string where
  "msg_client_target_down = utf8 (''e5aea2e688b7e7abafe79baee6a087e69c8de58aa1e4b88de58fafe8bebeefbc8ce8afb7e7a1aee8aea4e5afb9e5ba94'' @
     ''e69c8de58aa1e5b7b2e590afe58aa8e5b9b6e79b91e590ace9858de7bdaee7abafe58fa3'')"

definition msg_target_down :: string where
  "msg_target_down = utf8 (''e69c8de58aa1e7abafe697a0e6b395e8aebfe997aee79baee6a087e69c8de58aa1efbc8ce8afb7e88194e7b3bbe7aea1'' @
     ''e79086e59198e6a380e69fa5e79baee6a087e69c8de58aa1e68896e998b2e781abe5a299'')"

definition msg_server_retry :: string where
  "msg_server_retry = utf8 (''e69c8de58aa1e7abafe69a82e697b6e4b88de58fafe8bebeefbc8ce5aea2e688b7e7abafe4bc9ae887aae58aa8e9878d'' @
     ''e8af95'')"

definition msg_timeout_retry :: string where
  "msg_timeout_retry = utf8 (''e8bf9ee68ea5e8b685e697b6efbc8ce5aea2e688b7e7abafe4bc9ae887aae58aa8e9878de8af95'')"

definition msg_network_check :: string where
  "msg_network_check = utf8 (''e7bd91e7bb9ce4b88de58fafe8bebeefbc8ce8afb7e6a380e69fa5e69cace69cbae7bd91e7bb9ce68896e69c8de58aa1'' @
     ''e7abafe59cb0e59d80'')"

definition msg_reset_retry :: string where
  "msg_reset_retry = utf8 (''e8bf9ee68ea5e8a2abe696ade5bc80efbc8ce5aea2e688b7e7abafe4bc9ae887aae58aa8e9878de8af95'')"

definition msg_aborted_retry :: string where
  "msg_aborted_retry = utf8 (''e8bf9ee68ea5e5b7b2e4b8ade696adefbc8ce5aea2e688b7e7abafe4bc9ae887aae58aa8e9878de8af95'')"

definition msg_tls_retry :: string where
  "msg_tls_retry = utf8 (''544c5320e68fa1e6898be5a4b1e8b4a5efbc8ce5aea2e688b7e7abafe4bc9ae887aae58aa8e9878de8af95efbc9be88b'' @
     ''a5e68c81e7bbade587bae78eb0e8afb7e7a1aee8aea4e4b8a4e7abafe78988e69cac'')"

definition msg_rule_retry :: string where
  "msg_rule_retry = utf8 (''e8a784e58899e8bf9ee68ea5e5bc82e5b8b8efbc8ce5aea2e688b7e7abafe4bc9ae887aae58aa8e9878de8af95efbc9b'' @
     ''e88ba5e68c81e7bbade587bae78eb0e8afb7e69fa5e79c8be5aea2e688b7e7abafe697a5e5bf97'')"

definition msg_not_found :: string where
  "msg_not_found = utf8 (''e689bee4b88de588b0'')"

definition msg_system_not_found :: string where
  "msg_system_not_found = utf8 (''e7b3bbe7bb9fe689bee4b88de588b0'')"

definition msg_virtual_format :: string where
  "msg_virtual_format = utf8 (''e8999ae68b9fe585a5e58fa3e6a0bce5bc8fe4b88de6ada3e7a1aeefbc8ce8afb7e5a1abe58699203ae7abafe58fa320'' @
     ''e6889620495076343ae7abafe58fa3'')"

definition msg_virtual_port :: string where
  "msg_virtual_port = utf8 (''e8999ae68b9fe585a5e58fa3e7abafe58fa3e5bf85e9a1bbe59ca8203120e588b020363535333520e4b98be997b4'')"

definition msg_virtual_domain :: string where
  "msg_virtual_domain = utf8 (''e8999ae68b9fe585a5e58fa3e4b88de694afe68c81e59f9fe5908defbc8ce8afb7e5a1abe58699203ae7abafe58fa3ef'' @
     ''bc8ce68896e5a1abe58699e69c8de58aa1e7abafe8af81e4b9a6e4b8ade79a8420495076343ae7abafe58fa3'')"

definition msg_virtual_ipv6 :: string where
  "msg_virtual_ipv6 = utf8 (''e8999ae68b9fe585a5e58fa3e4b88de694afe68c812049507636efbc8ce8afb7e5a1abe58699203ae7abafe58fa3efbc'' @
     ''8ce68896e5a1abe58699e69c8de58aa1e7abafe8af81e4b9a6e4b8ade79a8420495076343ae7abafe58fa3'')"

definition msg_virtual_local :: string where
  "msg_virtual_local = utf8 (''e8999ae68b9fe585a5e58fa3e5bf85e9a1bbe4bdbfe794a8e58fafe794a8e79a84e99d9ee69cace59cb02049507634ef'' @
     ''bc8ce4b88de883bde4bdbfe794a8e59b9ee78eafe38081e993bee8b7afe69cace59cb0e68896e4bf9de79599e59cb0e5'' @
     ''9d80'')"

definition msg_virtual_server_addr :: string where
  "msg_virtual_server_addr = utf8 (''e69c8de58aa1e7abafe59cb0e59d80e5bf85e9a1bbe58c85e590abe69c89e69588e7abafe58fa3efbc8ce9858de7bdae'' @
     ''e8999ae68b9fe8bdace58f91e5898de8afb7e58588e4bfaee6ada3207365727665725f61646472'')"

definition msg_virtual_server_port :: string where
  "msg_virtual_server_port = utf8 (''e8999ae68b9fe585a5e58fa3e7abafe58fa3e4b88de883bde4b88ee5aea2e688b7e7abafe8bf9ee68ea5e69c8de58aa1'' @
     ''e7abafe79a84e7abafe58fa3e79bb8e5908cefbc8ce8afb7e69bb4e68da2e4b89ae58aa1e7abafe58fa3'')"

definition msg_virtual_duplicate :: string where
  "msg_virtual_duplicate = utf8 (''e5ad98e59ca8e9878de5a48de79a84e8999ae68b9fe585a5e58fa32049503ae7abafe58fa3efbc8ce8afb7e4b8bae6af'' @
     ''8fe69da1e8999ae68b9fe8bdace58f91e9858de7bdaee4b88de5908ce7abafe782b9'')"

definition msg_virtual_too_many :: string where
  "msg_virtual_too_many = utf8 (''e8999ae68b9fe8bdace58f91e69c80e5a49ae694afe68c8120256420e4b8aae7abafe782b9efbc8ce8afb7e5878fe5b0'' @
     ''91e9858de7bdaee695b0e9878f'')"

definition msg_virtual_many_sans :: string where
  "msg_virtual_many_sans = utf8 (''e69c8de58aa1e7abafe8af81e4b9a6e58c85e590abe5a49ae4b8aae58fafe794a82049507634efbc8ce8afb7e5b086e8'' @
     ''999ae68b9f206c697374656e5f6164647220e5a1abe58699e4b8bae5ae8ce695b4e79a8420495076343ae7abafe58fa3'')"

definition msg_virtual_no_usable_san :: string where
  "msg_virtual_no_usable_san = utf8 (''e69c8de58aa1e7abafe8af81e4b9a6e6b2a1e69c89e58fafe794a8e4ba8ee8999ae68b9fe585a5e58fa3e79a84e99d9e'' @
     ''e69cace59cb020495076342053414eefbc8ce8afb7e9878de696b0e4b88be58f91e8af81e4b9a6'')"

definition msg_virtual_no_san :: string where
  "msg_virtual_no_san = utf8 (''e69c8de58aa1e7abafe8af81e4b9a6e6b2a1e69c8920495076342053414eefbc8ce697a0e6b395e9858de7bdaee8999a'' @
     ''e68b9fe585a5e58fa3efbc8ce8afb7e9878de696b0e4b88be58f91e8af81e4b9a6'')"

definition msg_virtual_not_san :: string where
  "msg_virtual_not_san = utf8 (''e5a1abe58699e79a84e8999ae68b9f20495020e4b88de59ca8e69c8de58aa1e7abafe8af81e4b9a62049507634205341'' @
     ''4e20e4b8adefbc8ce8afb7e4bfaee6ada3206c697374656e5f6164647220e68896e9878de696b0e4b88be58f91e8af81'' @
     ''e4b9a6'')"

definition msg_virtual_ca_missing :: string where
  "msg_virtual_ca_missing = utf8 (''e7bcbae5b091e69c8de58aa1e7abafe4bfa1e4bbbbe8af81e4b9a6efbc8ce697a0e6b395e6a0a1e9aa8ce8999ae68b9f'' @
     ''204950efbc8ce8afb7e9878de696b0e4b88be58f91e5aea2e688b7e7abafe5ae89e8a385e58c85'')"

definition msg_virtual_cert_missing :: string where
  "msg_virtual_cert_missing = utf8 (''e7bcbae5b091e69c8de58aa1e7abafe4bfa1e4bbbbe8af81e4b9a6207365727665722e637274efbc8ce697a0e6b395e6'' @
     ''a0a1e9aa8ce8999ae68b9f204950efbc8ce8afb7e9878de696b0e4b88be58f91e5aea2e688b7e7abafe5ae89e8a385e5'' @
     ''8c85'')"

definition msg_virtual_cert_unreadable :: string where
  "msg_virtual_cert_unreadable = utf8 (''e697a0e6b395e8afbbe58f96e69c8de58aa1e7abafe4bfa1e4bbbbe8af81e4b9a6efbc8ce697a0e6b395e6a0a1e9aa8c'' @
     ''e8999ae68b9f204950efbc8ce8afb7e6a380e69fa5e8af81e4b9a6e69687e4bbb6e5928ce69d83e99990'')"

definition msg_virtual_cert_invalid :: string where
  "msg_virtual_cert_invalid = utf8 (''e69c8de58aa1e7abafe4bfa1e4bbbbe8af81e4b9a6e6a0bce5bc8fe697a0e69588efbc8ce697a0e6b395e6a0a1e9aa8c'' @
     ''e8999ae68b9f204950efbc8ce8afb7e9878de696b0e4b88be58f91e8af81e4b9a6'')"

definition msg_virtual_resolver :: string where
  "msg_virtual_resolver = utf8 (''e8999ae68b9fe585a5e58fa3e59cb0e59d80e8a7a3e69e90e5a4b1e8b4a5efbc8ce8afb7e9878de696b0e8bf9ee68ea5'' @
     ''efbc9be88ba5e68c81e7bbade587bae78eb0e8afb7e9878de696b0e5ae89e8a385e5aea2e688b7e7abaf'')"

definition msg_virtual_unsupported :: string where
  "msg_virtual_unsupported = utf8 (''e8999ae68b9f20495020e68ea5e7aea1e4bb85e694afe68c81e6a087e5878620363420e4bd8d2057696e646f777320e5'' @
     ''aea2e688b7e7abaf'')"

definition msg_virtual_cancelled :: string where
  "msg_virtual_cancelled = utf8 (''495020e68ea5e7aea1e99c80e8a681e7aea1e79086e59198e68e88e69d83efbc8ce69cace6aca1e68e88e69d83e5b7b2'' @
     ''e58f96e6b688'')"

definition msg_virtual_inactive :: string where
  "msg_virtual_inactive = utf8 (''495020e68ea5e7aea1e69caae590afe794a8efbc8ce8afb7e696ade5bc80e5908ee9878de696b0e8bf9ee68ea5e5b9b6'' @
     ''e68e88e69d83'')"

definition msg_divert_missing :: string where
  "msg_divert_missing = utf8 (''e8999ae68b9fe7abafe782b9e68ea5e7aea1e7bb84e4bbb6e7bcbae5a4b1efbc8ce8afb7e4bfaee5a48de68896e9878d'' @
     ''e696b0e5ae89e8a385e6a087e58786e5aea2e688b7e7abaf'')"

definition msg_divert_integrity :: string where
  "msg_divert_integrity = utf8 (''e8999ae68b9fe7abafe782b9e68ea5e7aea1e7bb84e4bbb6e5ae8ce695b4e680a7e6a0a1e9aa8ce5a4b1e8b4a5efbc8c'' @
     ''e8afb7e4bfaee5a48de68896e9878de696b0e5ae89e8a385e6a087e58786e5aea2e688b7e7abaf'')"

definition msg_divert_load :: string where
  "msg_divert_load = utf8 (''e8999ae68b9fe7abafe782b9e68ea5e7aea1e7bb84e4bbb6e58aa0e8bdbde5a4b1e8b4a5efbc8ce8afb7e4bfaee5a48d'' @
     ''e68896e9878de696b0e5ae89e8a385e6a087e58786e5aea2e688b7e7abaf'')"

definition msg_divert_open :: string where
  "msg_divert_open = utf8 (''e697a0e6b395e590afe58aa8e8999ae68b9fe7abafe782b9e68ea5e7aea1efbc8ce8afb7e6a380e69fa5e7aea1e79086'' @
     ''e59198e69d83e99990e38081e5ae89e585a8e8bdafe4bbb6e5928c2057696e44697665727420e9a9b1e58aa8e78ab6e6'' @
     ''8081'')"

definition msg_divert_broken :: string where
  "msg_divert_broken = utf8 (''e8999ae68b9fe6b581e9878fe68ea5e7aea1e5b7b2e4b8ade696adefbc8ce8afb7e9878de696b0e8bf9ee68ea5efbc9b'' @
     ''e88ba5e68c81e7bbade587bae78eb0e8afb7e6a380e69fa52057696e44697665727420e9a9b1e58aa8e78ab6e68081'')"

definition msg_virtual_no_local_port :: string where
  "msg_virtual_no_local_port = utf8 (''e697a0e6b395e58886e9858de8999ae68b9fe8bdace58f91e79a84e69cace59cb0e6a1a5e68ea5e7abafe58fa3efbc8c'' @
     ''e8afb7e585b3e997ade58da0e794a8e5a4a7e9878fe7abafe58fa3e79a84e7a88be5ba8fe5908ee9878de696b0e8bf9e'' @
     ''e68ea5'')"

definition msg_virtual_name_taken :: string where
  "msg_virtual_name_taken = utf8 (''e8999ae68b9fe8bdace58f91e5908de7a7b0e9878de5a48defbc8ce8afb7e4b8bae6af8fe69da1e8bdace58f91e9858d'' @
     ''e7bdaee4b88de5908ce79a84206e616d65'')"

definition msg_virtual_rules_invalid :: string where
  "msg_virtual_rules_invalid = utf8 (''e8999ae68b9fe7abafe782b9e68ea5e7aea1e8a784e58899e697a0e69588efbc8ce8afb7e6a380e69fa5e8999ae68b9f'' @
     ''e8bdace58f91e9858de7bdaee5b9b6e9878de696b0e8bf9ee68ea5'')"

definition msg_virtual_process :: string where
  "msg_virtual_process = utf8 (''e8999ae68b9fe7abafe782b9e68ea5e7aea1e8bf9be7a88be5bc82e5b8b8efbc8ce8afb7e9878de696b0e8bf9ee68ea5'' @
     ''efbc9be88ba5e68c81e7bbade587bae78eb0e8afb7e6a380e69fa5e7aea1e79086e59198e69d83e99990e5928c205769'' @
     ''6e44697665727420e9a9b1e58aa8e78ab6e68081'')"

definition msg_divert_failed :: string where
  "msg_divert_failed = utf8 (''e8999ae68b9fe7abafe782b9e68ea5e7aea1e5bc82e5b8b8efbc8ce8afb7e9878de696b0e8bf9ee68ea5efbc9be88ba5'' @
     ''e68c81e7bbade587bae78eb0e8afb7e6a380e69fa52057696e44697665727420e7bb84e4bbb6e5928ce9a9b1e58aa8e7'' @
     ''8ab6e68081'')"

definition msg_virtual_config :: string where
  "msg_virtual_config = utf8 (''e8999ae68b9fe8bdace58f91e9858de7bdaee697a0e69588efbc8ce8afb7e6a380e69fa5206c697374656e5f61646472'' @
     ''20e5928ce8af81e4b9a6e9858de7bdae'')"

definition msg_health_waiting :: string where
  "msg_health_waiting = utf8 (''e7ad89e5be85e69c8de58aa1e7abafe581a5e5bab7e6a380e69fa5'')"

definition msg_entry_starting :: string where
  "msg_entry_starting = utf8 (''e6ada3e59ca8e79b91e590ace5aea2e688b7e7abafe585a5e58fa3'')"

definition msg_entry_listening :: string where
  "msg_entry_listening = utf8 (''e69cace59cb0e7abafe58fa3e79b91e590ace4b8ad'')"

definition msg_virtual_active :: string where
  "msg_virtual_active = utf8 (''e8999ae68b9fe7abafe782b9e5b7b2e68ea5e7aea1'')"

definition msg_reverse_active :: string where
  "msg_reverse_active = utf8 (''e69c8de58aa1e7abafe8a2abe58aa8e7abafe58fa3e5b7b2e6bf80e6b4bb'')"

end
