(* ===== verification/Client_Errors.thy ===== *)
theory Client_Errors
  imports Client_Messages Virtual_Rules
begin

text \<open>
  How the client sorts errors: \<open>client/tunnel/virtual_errors.go\<close> and the functions of
  \<open>client/tunnel/status.go\<close> that turn an error into a state, a message, and a decision to try again. The code
  searches the text of the error; here the text is \<open>error_text\<close> of the error value.
\<close>

section \<open>Searching the text\<close>

definition containsAny :: "string \<Rightarrow> string list \<Rightarrow> bool" where
  "containsAny text needles = list_ex (ContainsStr text) needles"

definition isTemporaryAuthBlockText :: "string \<Rightarrow> bool" where
  "isTemporaryAuthBlockText text = containsAny text [''auth_blocked'', ''too many login failures'']"

definition isMissingServerCertError :: "string \<Rightarrow> bool" where
  "isMissingServerCertError text =
     (containsAny text [''server.crt'', ''ca_cert_file'']
      \<and> containsAny text [''no such file'', ''cannot find'', msg_not_found, msg_system_not_found])"

definition isVirtualAuthorizationCancelled :: "go_error option \<Rightarrow> bool" where
  "isVirtualAuthorizationCancelled err =
     (case err of None \<Rightarrow> False
      | Some e \<Rightarrow> containsAny (ToLower (error_text e))
          [''administrator authorization for virtual forwarding was cancelled'',
           ''administrator authorization for virtual forwarding was canceled''])"

text \<open>A \<open>switch\<close> without a subject: the first case whose guard holds.\<close>

fun first_case :: "(bool \<times> 'a) list \<Rightarrow> 'a \<Rightarrow> 'a" where
  "first_case [] d = d"
| "first_case ((b, r) # cases) d = (if b then r else first_case cases d)"

section \<open>Classification\<close>

text \<open>The message and whether the error is permanent; \<open>None\<close> for an error unrelated to virtual forwarding.\<close>

definition classifyVirtualForwardError :: "string \<Rightarrow> (string \<times> bool) option" where
  "classifyVirtualForwardError raw =
     (let text = ToLower (TrimSpace raw) in
     first_case [
      (text = [], None),
      (containsAny text [''virtual listen_addr must use :port or ipv4:port''], Some (msg_virtual_format, True)),
      (containsAny text [''virtual listen_addr port must be between 1 and 65535''], Some (msg_virtual_port,
         True)),
      (containsAny text [''virtual listen_addr does not support domain names''], Some (msg_virtual_domain,
         True)),
      (containsAny text [''virtual listen_addr host must be an ipv4 address''], Some (msg_virtual_ipv6, True)),
      (containsAny text [''virtual listen_addr host must be a usable non-local ipv4 address''],
         Some (msg_virtual_local, True)),
      (containsAny text [''server_addr must include a valid port before virtual forwarding''],
         Some (msg_virtual_server_addr, True)),
      (containsAny text [''virtual listen_addr cannot use the server_addr port''],
         Some (msg_virtual_server_port, True)),
      (ContainsStr text ''virtual endpoint'' \<and> ContainsStr text ''duplicates forward'',
         Some (msg_virtual_duplicate, True)),
      (containsAny text [''virtual forwarding supports at most''],
         Some (Sprintf msg_virtual_too_many [FI (int maxVirtualRedirectEndpoints)], True)),
      (containsAny text [''multiple usable ipv4 sans''], Some (msg_virtual_many_sans, True)),
      (containsAny text [''no usable non-local ipv4 san''], Some (msg_virtual_no_usable_san, True)),
      (containsAny text [''no ipv4 san for virtual forwarding''], Some (msg_virtual_no_san, True)),
      (containsAny text [''not authorized by the server certificate ipv4 san''], Some (msg_virtual_not_san,
         True)),
      (containsAny text [''tls.ca_cert_file is required to authorize virtual forwarding''],
         Some (msg_virtual_ca_missing, True)),
      (ContainsStr text ''read virtual forwarding certificate policy'' \<and> containsAny text [''no such file'', ''cannot find'', msg_not_found, msg_system_not_found], Some (msg_virtual_cert_missing, True)),
      (containsAny text [''read virtual forwarding certificate policy''], Some (msg_virtual_cert_unreadable,
         True)),
      (containsAny text [''parse virtual forwarding certificate policy'',
         ''no certificate found in tls.ca_cert_file for virtual forwarding''], Some (msg_virtual_cert_invalid, True)),
      (containsAny text [''virtual address resolver is unavailable''], Some (msg_virtual_resolver, True)),
      (containsAny text [''virtual forwarding is only supported by the standard 64-bit windows client''],
         Some (msg_virtual_unsupported, True)),
      (containsAny text [''administrator authorization for virtual forwarding was cancelled''],
         Some (msg_virtual_cancelled, False)),
      (containsAny text [''virtual redirect is inactive''], Some (msg_virtual_inactive, False)),
      (containsAny text [''windivert.dll is missing'', ''windivert64.sys is missing''],
         Some (msg_divert_missing, True)),
      (containsAny text [''windivert.dll integrity check failed'', ''windivert64.sys integrity check failed''],
         Some (msg_divert_integrity, True)),
      (containsAny text [''unsupported windivert address layout'', ''load windivert.dll'',
         '' from windivert.dll''], Some (msg_divert_load, True)),
      (containsAny text [''windivertopen failed''], Some (msg_divert_open, False)),
      (containsAny text [''windivertrecv failed'', ''windivertsend failed'',
         ''windivert checksum update failed''], Some (msg_divert_broken, False)),
      (containsAny text [''allocate virtual local redirect listener'',
         ''did not allocate a valid local redirect port''], Some (msg_virtual_no_local_port, False)),
      (ContainsStr text ''virtual forward'' \<and> ContainsStr text ''listener already exists'',
         Some (msg_virtual_name_taken, True)),
      (containsAny text [''parse virtual redirect endpoint'', ''virtual redirect port must be between'',
         ''local virtual redirect port must be between'', ''virtual redirect ports must be between'',
         ''duplicate virtual redirect endpoint'', ''duplicate local virtual redirect port'',
         ''at least one virtual redirect rule is required'', ''decode virtual redirect rules'',
         ''parse virtual redirect rules''], Some (msg_virtual_rules_invalid, True)),
      (containsAny text [''virtual redirect''], Some (msg_virtual_process, False)),
      (containsAny text [''windivert''], Some (msg_divert_failed, False)),
      (containsAny text [''virtual listen_addr'', ''virtual endpoint'', ''virtual forwarding'', ''virtual ip'',
         ''virtual-ip''], Some (msg_virtual_config, True))] None)"

definition VirtualForwardErrorText :: "string \<Rightarrow> string \<times> bool" where
  "VirtualForwardErrorText raw =
     (case classifyVirtualForwardError raw of None \<Rightarrow> ([], False) | Some (message, _) \<Rightarrow> (message, True))"

definition HealthChecking :: string where "HealthChecking = ''checking''"
definition HealthOK :: string where "HealthOK = ''ok''"
definition HealthServerUnavailable :: string where "HealthServerUnavailable = ''server_unavailable''"
definition HealthAuthError :: string where "HealthAuthError = ''auth_error''"

definition health_cases :: "string \<Rightarrow> string \<times> string" where
  \<comment> \<open>the \<open>switch\<close> of \<open>classifyHealthError\<close>\<close>
  "health_cases text =
     first_case [
      (containsAny text [''client_version_unsupported''], (HealthAuthError, msg_version_unsupported)),
      (containsAny text [''protocol_version_unsupported'', ''invalid tunnel request'', ''unsupported request'',
         ''bad_request''], (HealthAuthError, msg_protocol_mismatch)),
      (containsAny text [''auth_failed'', ''username or password''], (HealthAuthError, msg_login_wrong)),
      (containsAny text [''credential_expired'', ''saved login has expired''], (HealthAuthError,
         msg_credential_old)),
      (isTemporaryAuthBlockText text, (HealthAuthError, msg_blocked)),
      (containsAny text [''no server tls trust data'', ''appendcertsfrompem''], (HealthAuthError,
         msg_trust_invalid)),
      (isMissingServerCertError text, (HealthAuthError, msg_trust_missing)),
      (containsAny text [''ca_cert_file'', ''server verification''], (HealthAuthError, msg_trust_missing)),
      (containsAny text [''certificate is valid for'', ''cannot validate certificate'',
         ''doesn't contain any ip sans''], (HealthAuthError, msg_cert_address)),
      (containsAny text [''certificate has expired'', ''certificate is not yet valid'',
         ''has expired or is not yet valid''], (HealthAuthError, msg_cert_expired)),
      (containsAny text [''unknown authority'', ''not trusted''], (HealthAuthError, msg_cert_untrusted)),
      (containsAny text [''missing port in address'', ''too many colons in address'', ''unknown port''],
         (HealthAuthError, msg_address_format)),
      (containsAny text [''no such host''], (HealthServerUnavailable, msg_no_such_host)),
      (containsAny text [''connection refused'', ''actively refused'', ''connectex''],
         (HealthServerUnavailable, msg_refused)),
      (containsAny text [''timeout'', ''deadline'', ''i/o timeout''], (HealthServerUnavailable, msg_timed_out)),
      (containsAny text [''network is unreachable'', ''no route to host''], (HealthServerUnavailable,
         msg_unreachable_net)),
      (containsAny text [''connection reset'', ''forcibly closed'', ''wsarecv'', ''eof''],
         (HealthServerUnavailable, msg_reset)),
      (containsAny text [''connection aborted'', ''broken pipe'', ''closed network connection''],
         (HealthServerUnavailable, msg_aborted)),
      (containsAny text [''x509''], (HealthAuthError, msg_cert_failed)),
      (containsAny text [''tls handshake after certificate possession gate''], (HealthServerUnavailable,
         msg_tls_failed)),
      (containsAny text [''certificate''], (HealthAuthError, msg_cert_failed)),
      (containsAny text [''tls''], (HealthServerUnavailable, msg_tls_failed))] (HealthServerUnavailable, msg_unavailable)"

definition classifyHealthError :: "go_error option \<Rightarrow> string \<times> string" where
  "classifyHealthError err =
     (case err of None \<Rightarrow> (HealthOK, msg_healthy) | Some e \<Rightarrow> health_cases (ToLower (error_text e)))"

definition forward_cases :: "string \<Rightarrow> string" where
  \<comment> \<open>the \<open>switch\<close> of \<open>ForwardErrorMessage\<close>\<close>
  "forward_cases text =
     first_case [
      (containsAny text [''client_version_unsupported''], msg_version_unsupported),
      (containsAny text [''protocol_version_unsupported'', ''invalid tunnel request'', ''unsupported request'',
         ''bad_request''], msg_protocol_mismatch),
      (containsAny text [''auth_failed'', ''username or password''], msg_login_again),
      (containsAny text [''credential_expired'', ''saved login has expired''], msg_credential_again),
      (containsAny text [''user_stream_limit'', ''too many concurrent streams''], msg_stream_limit),
      (isTemporaryAuthBlockText text, msg_blocked_later),
      (containsAny text [''certificate has expired'', ''certificate is not yet valid'',
         ''has expired or is not yet valid''], msg_cert_expired),
      (containsAny text [''certificate is valid for'', ''cannot validate certificate'',
         ''doesn't contain any ip sans''], msg_cert_address),
      (containsAny text [''unknown authority'', ''not trusted''], msg_cert_untrusted),
      (containsAny text [''reverse listen address is not configured on server''], msg_reverse_unconfigured),
      (containsAny text [''not allowed to activate this reverse listen address''], msg_reverse_denied),
      (containsAny text [''target_denied'', ''not allowed''], msg_target_denied),
      (containsAny text [''already activated''], msg_reverse_taken),
      (containsAny text [''server passive port is unavailable'', ''listen reverse''], msg_reverse_unavailable),
      (containsAny text [''already in use'', ''only one usage'', ''bind:''], msg_port_in_use),
      (containsAny text [''connect client target''], msg_client_target_down),
      (containsAny text [''target_unreachable'', ''target service is unreachable''], msg_target_down),
      (containsAny text [''connection refused'', ''actively refused'', ''connectex''], msg_server_retry),
      (containsAny text [''timeout'', ''deadline'', ''i/o timeout''], msg_timeout_retry),
      (containsAny text [''network is unreachable'', ''no route to host'', ''no such host''], msg_network_check),
      (containsAny text [''connection reset'', ''forcibly closed'', ''wsarecv'', ''eof''], msg_reset_retry),
      (containsAny text [''connection aborted'', ''broken pipe'', ''closed network connection''],
         msg_aborted_retry),
      (containsAny text [''x509''], msg_cert_failed),
      (containsAny text [''tls handshake after certificate possession gate''], msg_tls_retry),
      (containsAny text [''certificate''], msg_cert_failed),
      (containsAny text [''tls''], msg_tls_retry)] msg_rule_retry"

definition ForwardErrorMessage :: "go_error option \<Rightarrow> string" where
  "ForwardErrorMessage err =
     (case err of None \<Rightarrow> []
      | Some e \<Rightarrow>
          (let text = ToLower (error_text e)
           in case classifyVirtualForwardError text of Some (message, _) \<Rightarrow> message | None \<Rightarrow> forward_cases text))"

definition transient_words :: "string list" where
  "transient_words =
     [''connection refused'', ''actively refused'', ''connectex'', ''timeout'', ''deadline'', ''i/o timeout'',
      ''network is unreachable'', ''no route to host'', ''no such host'', ''connection reset'', ''forcibly closed'',
      ''wsarecv'', ''eof'', ''connection aborted'', ''broken pipe'', ''closed network connection'']"

definition permanent_words :: "string list" where
  "permanent_words =
     [''auth_failed'', ''username or password'', ''credential_expired'', ''saved login has expired'',
      ''client_version_unsupported'', ''protocol_version_unsupported'', ''certificate'', ''x509'',
      ''target_denied'', ''not allowed'', ''not configured on server'']"

definition IsPermanentForwardError :: "go_error option \<Rightarrow> bool" where
  "IsPermanentForwardError err =
     (case err of None \<Rightarrow> False
      | Some e \<Rightarrow>
          (let text = ToLower (error_text e)
           in case classifyVirtualForwardError text of Some (_, permanent) \<Rightarrow> permanent
              | None \<Rightarrow>
                  if containsAny text transient_words then False
                  else if containsAny text [''tls handshake after certificate possession gate''] \<and> \<not> containsAny text [''x509''] then False
                  else containsAny text permanent_words))"

section \<open>Delays\<close>

definition healthOKInterval :: duration where "healthOKInterval = 30 * second"
definition healthReconnectInitialInterval :: duration where "healthReconnectInitialInterval = 2 * second"
definition healthReconnectMaxInterval :: duration where "healthReconnectMaxInterval = 30 * second"

text \<open>The product of durations wraps at 64 bits.\<close>

definition ReverseRetryDelay :: "go_error option \<Rightarrow> int \<Rightarrow> duration" where
  "ReverseRetryDelay err failures =
     (let failures = (if failures < 1 then 1 else failures);
          long = (case err of None \<Rightarrow> False
                  | Some e \<Rightarrow> (let text = ToLower (error_text e)
                              in isTemporaryAuthBlockText text \<or> containsAny text [''already activated'']))
      in if long then 5 * minute
         else (let delay = int64 (int64 (failures * 2) * second)
               in if delay < 2 * second then 2 * second
                  else if delay > 30 * second then 30 * second else delay))"

text \<open>The loop doubles the delay until it reaches the maximum: \<open>n\<close> is \<open>failures - i\<close>.\<close>

fun reconnect_loop :: "nat \<Rightarrow> duration \<Rightarrow> duration" where
  "reconnect_loop 0 delay = (if delay > healthReconnectMaxInterval then healthReconnectMaxInterval else delay)"
| "reconnect_loop (Suc n) delay =
     (let delay = int64 (delay * 2)
      in if delay \<ge> healthReconnectMaxInterval then healthReconnectMaxInterval else reconnect_loop n delay)"

definition ReconnectDelay :: "int \<Rightarrow> duration" where
  "ReconnectDelay failures =
     (let failures = (if failures < 1 then 1 else failures)
      in reconnect_loop (nat (failures - 1)) healthReconnectInitialInterval)"

end
