(* ===== verification/Client_Errors_Laws.thy ===== *)
theory Client_Errors_Laws
  imports Client_Errors
begin

text \<open>
  The two classifications of an error agree, and the delays between two attempts stay within their
  bounds.
\<close>

section \<open>Health and forwards agree\<close>

lemma containsAny_simps [simp]:
  "containsAny text [] = False" "containsAny text (n # ns) = (ContainsStr text n \<or> containsAny text ns)"
  by (simp_all add: containsAny_def)

definition target_words :: "string list" where
  "target_words = [''target_denied'', ''not allowed'', ''not configured on server'']"

lemma health_states: "fst (classifyHealthError (Some e)) \<in> {HealthAuthError, HealthServerUnavailable}"
  by (simp add: classifyHealthError_def health_cases_def)

lemma permanent_auth_cases:
  assumes "\<not> containsAny text transient_words" and "\<not> containsAny text target_words"
    and "containsAny text permanent_words"
    and "\<not> ContainsStr text ''tls handshake after certificate possession gate'' \<or> ContainsStr text ''x509''"
  shows "fst (health_cases text) = HealthAuthError"
  using assms by (auto simp: health_cases_def transient_words_def target_words_def permanent_words_def)

text \<open>
  An error that makes a reverse forward give up for good, and that is neither about virtual forwarding nor
  about the permission for the target, is an authentication error for the health check: the client
  ends the session instead of reconnecting.\<close>

theorem permanent_errors_end_session:
  assumes "IsPermanentForwardError (Some e)" and "VirtualForwardErrorText (ToLower (error_text e)) = ([], False)"
    and "\<not> containsAny (ToLower (error_text e)) [''target_denied'', ''not allowed'', ''not configured on server'']"
  shows "fst (classifyHealthError (Some e)) = HealthAuthError"
  using assms permanent_auth_cases [of "ToLower (error_text e)"]
  by (auto simp: IsPermanentForwardError_def VirtualForwardErrorText_def classifyHealthError_def target_words_def Let_def
      split: option.splits if_splits)

lemma x509_text: "ToLower (error_text (Sentinel ''x509'')) = ''x509''" "ToLower (TrimSpace ''x509'') = ''x509''"
  by code_simp+

lemma x509_not_virtual: "classifyVirtualForwardError ''x509'' = None"
  by (simp add: classifyVirtualForwardError_def x509_text HasPrefix_def)

theorem permanent_errors_end_session_witness:
  "fst (classifyHealthError (Some (Sentinel ''x509''))) = HealthAuthError"
  by (rule permanent_errors_end_session)
    (simp_all only: x509_text,
     simp_all add: IsPermanentForwardError_def VirtualForwardErrorText_def x509_not_virtual x509_text(1) [simplified]
       transient_words_def permanent_words_def HasPrefix_def)

section \<open>Delays\<close>

lemma reconnect_loop_value:
  "0 < d \<Longrightarrow> d \<le> healthReconnectMaxInterval \<Longrightarrow>
   reconnect_loop n d = min healthReconnectMaxInterval (d * 2 ^ n)"
proof (induction n arbitrary: d)
  case (Suc n)
  have i: "int64 (d * 2) = d * 2" using Suc.prems by (intro int64_id) (auto simp: healthReconnectMaxInterval_def second_def)
  have "(1::int) \<le> 2 ^ n" by simp
  then have "d * 2 \<le> d * 2 * 2 ^ n" using Suc.prems(1) by simp
  then have le: "healthReconnectMaxInterval \<le> d * 2 \<Longrightarrow> healthReconnectMaxInterval \<le> d * 2 * 2 ^ n" by linarith
  show ?case using Suc le by (auto simp: Let_def i min_def mult.assoc)
qed simp

text \<open>
  The delay before the next reconnect is 2 seconds doubled for every further failure, at most 30 seconds; the
  delay of a reverse forward is twice the number of failures in seconds within the same bounds, whatever the
  number, and five minutes when the source address is blocked or the port is taken.\<close>

theorem retry_delays:
  "ReconnectDelay n = min (30 * second) (2 * second * 2 ^ nat (n - 1))
   \<and> (if (case err of None \<Rightarrow> False | Some e \<Rightarrow>
            containsAny (ToLower (error_text e)) [''auth_blocked'', ''too many login failures'', ''already activated''])
      then ReverseRetryDelay err n = 5 * minute
      else 2 * second \<le> ReverseRetryDelay err n \<and> ReverseRetryDelay err n \<le> 30 * second
        \<and> (if n \<le> 15 then ReverseRetryDelay err n = 2 * second * max 1 n
           else if n \<le> 2 ^ 31 then ReverseRetryDelay err n = 30 * second else True))"
proof -
  have "ReconnectDelay n = min (30 * second) (2 * second * 2 ^ nat (n - 1))"
    using reconnect_loop_value [of healthReconnectInitialInterval "nat (n - 1)"]
    by (auto simp: ReconnectDelay_def healthReconnectInitialInterval_def healthReconnectMaxInterval_def second_def Let_def)
  moreover have "int64 (int64 (m * 2) * second) = 2 * second * m" if "1 \<le> m" "m \<le> 2 ^ 31" for m
  proof -
    have "int64 (m * 2) = m * 2" using that by (intro int64_id) auto
    moreover have "int64 (m * 2 * second) = m * 2 * second" using that by (intro int64_id) (auto simp: second_def)
    ultimately show ?thesis by simp
  qed
  moreover have "int64 (int64 2 * second) = 2 * second" by (simp add: int64_def second_def)
  ultimately show ?thesis
    by (auto simp: ReverseRetryDelay_def isTemporaryAuthBlockText_def Let_def second_def max_def split: option.split)
qed

end
