(* ===== verification/Client_Status.thy ===== *)
theory Client_Status
  imports Client_Errors Client_Config
begin

text \<open>
  The state of a connected client (\<open>Client\<close> of \<open>client/tunnel/client.go\<close>) and its status half,
  \<open>client/tunnel/status.go\<close>: the runtime record of every forward, the health state machine, and what
  the status page reads. Methods that hold a mutex are steps. The clock reading and the zone offset are
  arguments. Listeners and helper sessions are numbered; \<open>cl_open\<close> and \<open>cl_helpers\<close> are the ones the
  operating system still has open.
\<close>

section \<open>Data\<close>

record healthStatus =
  hs_State :: string
  hs_Message :: string
  hs_LastChecked :: string
  hs_LastOK :: string
  hs_LastError :: string
  hs_ConsecutiveFailures :: int
  hs_RetryDelaySec :: int
  hs_NextRetryAt :: string
  hs_Terminal :: bool

record forwardStatus =
  fs_Name :: string
  fs_Direction :: string
  fs_VirtualIP :: string
  fs_VirtualAddr :: string
  fs_ListenAddr :: string
  fs_ServerTarget :: string
  fs_State :: string
  fs_Message :: string
  fs_Active :: int
  fs_Total :: int
  fs_LastOpen :: string
  fs_LastClose :: string
  fs_LastError :: string

record clientStats =
  cst_Health :: healthStatus
  cst_ServerVersion :: string
  cst_Active :: int
  cst_Total :: int
  cst_Items :: "forwardStatus list"

record forwardCheckSummary =
  sm_Checked :: int
  sm_Allowed :: int
  sm_Rejected :: int
  sm_Failed :: int

record forwardRuntime =
  fr_name :: string
  fr_direction :: string
  fr_virtualIP :: string
  fr_virtualAddr :: string
  fr_listenAddr :: string
  fr_serverTarget :: string
  fr_active :: int
  fr_total :: int
  fr_state :: string
  fr_message :: string
  fr_lastOpen :: string
  fr_lastClose :: string
  fr_lastError :: string

text \<open>\<open>cl_forwards\<close> maps a name to the index of its runtime record in \<open>cl_runtimes\<close>: the closing function of a
  stream keeps a pointer to the record.\<close>

record client =
  cl_cfg :: clientConfig
  cl_listeners :: "(string, nat) gomap"
  cl_virtualAddrs :: "(string, string) gomap"
  cl_resolver :: "virtualAddressResolver option"
  cl_session :: "nat option"
  cl_members :: "string list"
  cl_forwards :: "(string, nat) gomap"
  cl_runtimes :: "forwardRuntime list"
  cl_health :: healthStatus
  cl_serverVersion :: string
  cl_closed :: bool
  cl_active :: int
  cl_total :: int
  cl_open :: "(nat \<times> string) list"
  cl_helpers :: "nat list"
  cl_handles :: nat

definition zero_health :: healthStatus where
  "zero_health = \<lparr>hs_State = [], hs_Message = [], hs_LastChecked = [], hs_LastOK = [], hs_LastError = [],
     hs_ConsecutiveFailures = 0, hs_RetryDelaySec = 0, hs_NextRetryAt = [], hs_Terminal = False\<rparr>"

definition ForwardStarting :: string where "ForwardStarting = ''starting''"
definition ForwardListening :: string where "ForwardListening = ''listening''"
definition ForwardListenFailed :: string where "ForwardListenFailed = ''listen_failed''"
definition ForwardReverseWait :: string where "ForwardReverseWait = ''reverse_waiting''"
definition ForwardReverseActive :: string where "ForwardReverseActive = ''reverse_active''"
definition ForwardRetrying :: string where "ForwardRetrying = ''retrying''"
definition ForwardRejected :: string where "ForwardRejected = ''rejected''"

lemmas forward_state_defs = ForwardStarting_def ForwardListening_def ForwardListenFailed_def ForwardReverseWait_def
  ForwardReverseActive_def ForwardRetrying_def ForwardRejected_def

lemmas health_state_defs = HealthChecking_def HealthOK_def HealthServerUnavailable_def HealthAuthError_def

section \<open>What the status page reads\<close>

definition snapshot :: "forwardRuntime \<Rightarrow> forwardStatus" where
  "snapshot f =
     \<lparr>fs_Name = fr_name f, fs_Direction = fr_direction f, fs_VirtualIP = fr_virtualIP f, fs_VirtualAddr = fr_virtualAddr f,
      fs_ListenAddr = fr_listenAddr f, fs_ServerTarget = fr_serverTarget f, fs_State = fr_state f, fs_Message = fr_message f,
      fs_Active = fr_active f, fs_Total = fr_total f, fs_LastOpen = fr_lastOpen f, fs_LastClose = fr_lastClose f,
      fs_LastError = fr_lastError f\<rparr>"

text \<open>\<open>sort.Slice\<close> by name; \<open>rng\<close> is the order in which \<open>range\<close> visits the map.\<close>

definition Stats :: "((string \<times> nat) list \<Rightarrow> (string \<times> nat) list) \<Rightarrow> client option \<Rightarrow> clientStats" where
  "Stats rng co =
     (case co of
        None \<Rightarrow> \<lparr>cst_Health = zero_health, cst_ServerVersion = [], cst_Active = 0, cst_Total = 0, cst_Items = []\<rparr>
      | Some c \<Rightarrow>
          \<lparr>cst_Health = cl_health c, cst_ServerVersion = cl_serverVersion c, cst_Active = cl_active c, cst_Total = cl_total c,
           cst_Items = sort_key fs_Name (map (\<lambda>(name, i). snapshot (cl_runtimes c ! i)) (rng (cl_forwards c)))\<rparr>)"

definition SetServerVersion :: "string \<Rightarrow> client \<Rightarrow> client" where
  "SetServerVersion version c =
     (let version = TrimSpace version in if version = [] then c else c\<lparr>cl_serverVersion := version\<rparr>)"

definition setServerVersionFromResponse :: "openResponse \<Rightarrow> client \<Rightarrow> client" where
  "setServerVersionFromResponse resp c = SetServerVersion (resp_ServerVersion resp) c"

section \<open>The runtime record of a forward\<close>

definition initForward :: "string \<Rightarrow> clientForward \<Rightarrow> string \<Rightarrow> string \<Rightarrow> client \<Rightarrow> client" where
  "initForward name fwd state message c =
     c\<lparr>cl_runtimes := cl_runtimes c @
         [\<lparr>fr_name = name, fr_direction = cf_Direction fwd, fr_virtualIP = [], fr_virtualAddr = [],
           fr_listenAddr = cf_ListenAddr fwd, fr_serverTarget = cf_ServerTarget fwd, fr_active = 0, fr_total = 0,
           fr_state = state, fr_message = message, fr_lastOpen = [], fr_lastClose = [], fr_lastError = []\<rparr>],
       cl_forwards := AList.update name (length (cl_runtimes c)) (cl_forwards c)\<rparr>"

definition update_runtime :: "nat \<Rightarrow> (forwardRuntime \<Rightarrow> forwardRuntime) \<Rightarrow> client \<Rightarrow> client" where
  "update_runtime i f c = c\<lparr>cl_runtimes := (cl_runtimes c)[i := f (cl_runtimes c ! i)]\<rparr>"

text \<open>\<open>fwd := c.forward(name)\<close>, and nothing when it is nil.\<close>

definition on_forward :: "string \<Rightarrow> (forwardRuntime \<Rightarrow> forwardRuntime) \<Rightarrow> client \<Rightarrow> client" where
  "on_forward name f c = (case map_of (cl_forwards c) name of None \<Rightarrow> c | Some i \<Rightarrow> update_runtime i f c)"

definition setForwardAddresses :: "string \<Rightarrow> string \<Rightarrow> string \<Rightarrow> client \<Rightarrow> client" where
  "setForwardAddresses name listenAddr virtualAddr =
     on_forward name (\<lambda>fwd. fwd\<lparr>fr_listenAddr := listenAddr, fr_virtualAddr := virtualAddr,
       fr_virtualIP := (case SplitHostPort virtualAddr of Inl _ \<Rightarrow> [] | Inr (host, _) \<Rightarrow> TrimSet host ''[]'')\<rparr>)"

definition setForwardState :: "string \<Rightarrow> string \<Rightarrow> string \<Rightarrow> client \<Rightarrow> client" where
  "setForwardState name state message =
     on_forward name (\<lambda>fwd. fwd\<lparr>fr_state := state, fr_message := message,
       fr_lastError := (if state \<in> {ForwardListening, ForwardReverseWait, ForwardReverseActive} then [] else fr_lastError fwd)\<rparr>)"

definition recordForwardError :: "string \<Rightarrow> go_error option \<Rightarrow> client \<Rightarrow> client" where
  "recordForwardError name err c =
     (case err of None \<Rightarrow> c
      | Some e \<Rightarrow> on_forward name (\<lambda>fwd. fwd\<lparr>fr_lastError := error_text e, fr_message := ForwardErrorMessage err\<rparr>) c)"

text \<open>\<open>beginForwardStream\<close> and the function it returns, with the record it captured. The counters are
  \<open>atomic.Int64\<close>.\<close>

definition beginForwardStream :: "int \<Rightarrow> time \<Rightarrow> string \<Rightarrow> client \<Rightarrow> client \<times> nat option" where
  "beginForwardStream off now name c =
     (let fwd = map_of (cl_forwards c) name;
          c = on_forward name (\<lambda>f. f\<lparr>fr_active := int64 (fr_active f + 1), fr_total := int64 (fr_total f + 1),
                fr_lastOpen := format_rfc3339 off now, fr_lastError := []\<rparr>) c
      in (c\<lparr>cl_total := int64 (cl_total c + 1), cl_active := int64 (cl_active c + 1)\<rparr>, fwd))"

definition endForwardStream :: "int \<Rightarrow> time \<Rightarrow> nat option \<Rightarrow> client \<Rightarrow> client" where
  "endForwardStream off now fwd c =
     (let c = (case fwd of None \<Rightarrow> c
           | Some i \<Rightarrow> update_runtime i (\<lambda>f. f\<lparr>fr_active := int64 (fr_active f - 1), fr_lastClose := format_rfc3339 off now\<rparr>) c)
      in c\<lparr>cl_active := int64 (cl_active c - 1)\<rparr>)"

section \<open>Health\<close>

definition setHealth :: "int \<Rightarrow> time \<Rightarrow> string \<Rightarrow> string \<Rightarrow> string \<Rightarrow> bool \<Rightarrow> client \<Rightarrow> client \<times> healthStatus" where
  "setHealth off at state message errText terminal c =
     (let now = format_rfc3339 off at;
          h = (cl_health c)\<lparr>hs_State := state, hs_Message := message, hs_LastChecked := now, hs_Terminal := terminal\<rparr>;
          h = (if state = HealthOK
               then h\<lparr>hs_LastOK := now, hs_LastError := [], hs_ConsecutiveFailures := 0, hs_RetryDelaySec := 0, hs_NextRetryAt := []\<rparr>
               else if state = HealthChecking then h\<lparr>hs_LastError := []\<rparr>
               else h\<lparr>hs_LastError := (if errText \<noteq> [] then errText else hs_LastError h),
                      hs_ConsecutiveFailures := int64 (hs_ConsecutiveFailures h + 1)\<rparr>)
      in (c\<lparr>cl_health := h\<rparr>, h))"

text \<open>\<open>delay.Round(time.Second)\<close> of a delay of whole seconds is the delay; a half second rounds up.\<close>

definition setHealthRetry :: "int \<Rightarrow> time \<Rightarrow> duration \<Rightarrow> client \<Rightarrow> client \<times> healthStatus" where
  "setHealthRetry off now delay c =
     (let h = cl_health c;
          h = (if hs_State h = HealthOK \<or> hs_Terminal h \<or> delay \<le> 0 then h\<lparr>hs_RetryDelaySec := 0, hs_NextRetryAt := []\<rparr>
               else h\<lparr>hs_RetryDelaySec := (delay + second div 2) div second, hs_NextRetryAt := format_rfc3339 off (now + delay)\<rparr>)
      in (c\<lparr>cl_health := h\<rparr>, h))"

definition markHealthTerminal :: "string \<Rightarrow> client \<Rightarrow> client \<times> healthStatus" where
  "markHealthTerminal message c =
     (let h = (cl_health c)\<lparr>hs_Terminal := True, hs_RetryDelaySec := 0, hs_NextRetryAt := []\<rparr>;
          h = (if message \<noteq> [] then h\<lparr>hs_Message := message\<rparr> else h)
      in (c\<lparr>cl_health := h\<rparr>, h))"

definition healthMaxReconnectFailures :: int where
  "healthMaxReconnectFailures = 6"

definition finalizeHealthStatus :: "healthStatus \<Rightarrow> client \<Rightarrow> client \<times> healthStatus" where
  "finalizeHealthStatus status c =
     (if hs_State status = HealthAuthError
      then markHealthTerminal (if hs_Message status = [] then msg_auth_ended else hs_Message status) c
      else if hs_State status = HealthServerUnavailable \<and> hs_ConsecutiveFailures status \<ge> healthMaxReconnectFailures
      then markHealthTerminal msg_reconnect_ended c
      else (c, status))"

definition shouldStopAfterHealth :: "healthStatus \<Rightarrow> client \<Rightarrow> client \<times> bool" where
  "shouldStopAfterHealth status c =
     (if hs_Terminal status then (c, True)
      else (case finalizeHealthStatus status c of (c, status) \<Rightarrow> (c, hs_Terminal status)))"

definition nextHealthDelay :: "client \<Rightarrow> duration" where
  "nextHealthDelay c =
     (if hs_State (cl_health c) = HealthOK then healthOKInterval
      else if hs_State (cl_health c) = HealthServerUnavailable then ReconnectDelay (hs_ConsecutiveFailures (cl_health c))
      else healthReconnectInitialInterval)"

definition ForwardCheckMessage :: "forwardCheckSummary \<Rightarrow> string" where
  "ForwardCheckMessage s =
     (if sm_Checked s = 0 then msg_healthy
      else if sm_Rejected s > 0 \<or> sm_Failed s > 0
      then Sprintf msg_check_bad [FI (sm_Checked s), FI (int64 (sm_Rejected s + sm_Failed s))]
      else Sprintf msg_check_good [FI (sm_Checked s)])"

definition forwardDirection :: "clientForward \<Rightarrow> string" where
  "forwardDirection fwd =
     (let direction = TrimSpace (cf_Direction fwd)
      in if direction = [] \<or> direction = DirectionVirtual then DirectionClientToServer else direction)"

end
