(* ===== verification/Client_Listeners.thy ===== *)
theory Client_Listeners
  imports Client_Status
begin

text \<open>
  The listeners and the redirection session of a client (\<open>client/tunnel/client.go\<close>): opening, closing and
  giving them up. \<open>net.Listen\<close> is an argument, the address it bound or its error; a listener it opens gets
  the next number \<open>cl_handles\<close>, and so does a helper session. A goroutine that a function starts is not part of
  the state here.
\<close>

section \<open>The operating system\<close>

text \<open>What \<open>net.Listen\<close> answers: the text of \<open>Addr()\<close> and its port.\<close>

type_synonym listen_result = "(string \<times> int) res"

definition net_Listen :: "listen_result \<Rightarrow> client \<Rightarrow> client \<times> nat res" where
  "net_Listen lr c =
     (case lr of Inl err \<Rightarrow> (c, Inl err)
      | Inr (addr, port) \<Rightarrow>
          (c\<lparr>cl_open := (cl_handles c, addr) # cl_open c, cl_handles := cl_handles c + 1\<rparr>, Inr (cl_handles c)))"

definition close_listener :: "nat \<Rightarrow> client \<Rightarrow> client" where
  "close_listener h c = c\<lparr>cl_open := filter (\<lambda>(h', _). h' \<noteq> h) (cl_open c)\<rparr>"

definition close_helper :: "nat \<Rightarrow> client \<Rightarrow> client" where
  "close_helper s c = c\<lparr>cl_helpers := removeAll s (cl_helpers c)\<rparr>"

section \<open>Listeners\<close>

definition ForwardAddr :: "string \<Rightarrow> client \<Rightarrow> string" where
  "ForwardAddr name c =
     (let virtualAddr = (case map_of (cl_virtualAddrs c) name of None \<Rightarrow> [] | Some a \<Rightarrow> a)
      in if virtualAddr \<noteq> [] then virtualAddr
         else (case map_of (cl_listeners c) name of None \<Rightarrow> []
               | Some ln \<Rightarrow> (case map_of (cl_open c) ln of None \<Rightarrow> [] | Some a \<Rightarrow> a)))"

text \<open>\<open>ensureForwardListener\<close> holds no lock while it listens. \<open>ensure_check\<close> is what comes before:
  \<open>Some\<close> result when it returns at once. \<open>ensure_register\<close> is what comes after.\<close>

definition ensure_check :: "string \<Rightarrow> client \<Rightarrow> go_error option option" where
  "ensure_check name c =
     (if cl_closed c then Some (Some (Errorf ''client is closed'' []))
      else if map_of (cl_listeners c) name \<noteq> None then Some None else None)"

definition ensure_register :: "string \<Rightarrow> nat res \<Rightarrow> client \<Rightarrow> client \<times> go_error option" where
  "ensure_register name ln c =
     (case ln of
        Inl err \<Rightarrow> (setForwardState name ForwardListenFailed (ForwardErrorMessage (Some err)) c, Some err)
      | Inr h \<Rightarrow>
          if map_of (cl_listeners c) name \<noteq> None then (close_listener h c, None)
          else let c = c\<lparr>cl_listeners := AList.update name h (cl_listeners c)\<rparr>;
                   addr = (case map_of (cl_open c) h of None \<Rightarrow> [] | Some a \<Rightarrow> a);
                   c = setForwardAddresses name addr [] c
               in (setForwardState name ForwardListening msg_entry_listening c, None))"

definition ensureForwardListener :: "listen_result \<Rightarrow> string \<Rightarrow> client \<Rightarrow> client \<times> go_error option" where
  "ensureForwardListener lr name c =
     (case ensure_check name c of
        Some result \<Rightarrow> (c, result)
      | None \<Rightarrow> (case net_Listen lr c of (c, ln) \<Rightarrow> ensure_register name ln c))"

section \<open>The redirection session\<close>

text \<open>A prepared virtual forward: its name, its listener and its rule.\<close>

record preparedVirtualForward =
  pv_name :: string
  pv_fwd :: clientForward
  pv_listener :: nat
  pv_virtualAddr :: string
  pv_rule :: virtualRedirectRule

definition fail_listen :: "string \<Rightarrow> go_error \<Rightarrow> client \<Rightarrow> client \<times> 'a res" where
  \<comment> \<open>\<open>c.setForwardState(name, ForwardListenFailed, ForwardErrorMessage(err))\<close> and return\<close>
  "fail_listen name err c = (setForwardState name ForwardListenFailed (ForwardErrorMessage (Some err)) c, Inl err)"

text \<open>The part after the endpoint is known.\<close>

definition bind_virtual_listener ::
    "listen_result \<Rightarrow> string \<Rightarrow> clientForward \<Rightarrow> string \<Rightarrow> client \<Rightarrow> client \<times> preparedVirtualForward res" where
  "bind_virtual_listener lr name fwd virtualAddr c =
     (case net_Listen lr c of
        (c, Inl err) \<Rightarrow> fail_listen name (Errorf ''allocate virtual local redirect listener: %w'' [FE err]) c
      | (c, Inr h) \<Rightarrow>
          let port = snd (projr lr)
          in if port \<le> 0 \<or> port > 65535
             then fail_listen name (Errorf ''forward %s did not allocate a valid local redirect port'' [FS name]) (close_listener h c)
             else (case newVirtualRedirectRule virtualAddr port of
                Inl err \<Rightarrow> fail_listen name err (close_listener h c)
              | Inr rule \<Rightarrow>
                  if map_of (cl_listeners c) name \<noteq> None
                  then (close_listener h c, Inl (Errorf ''virtual forward %s listener already exists'' [FS name]))
                  else let c = c\<lparr>cl_listeners := AList.update name h (cl_listeners c),
                                cl_virtualAddrs := AList.update name virtualAddr (cl_virtualAddrs c)\<rparr>;
                           c = setForwardAddresses name (fst (projr lr)) virtualAddr c
                       in (c, Inr \<lparr>pv_name = name, pv_fwd = fwd, pv_listener = h, pv_virtualAddr = virtualAddr, pv_rule = rule\<rparr>)))"

definition prepareVirtualForwardListener ::
    "client_files \<Rightarrow> listen_result \<Rightarrow> string \<Rightarrow> clientForward \<Rightarrow> client \<Rightarrow> client \<times> preparedVirtualForward res" where
  "prepareVirtualForwardListener fl lr name fwd c =
     (case parseVirtualListenAddr (cf_ListenAddr fwd) of
        Inl err \<Rightarrow> fail_listen name err c
      | Inr (virtualHost, virtualPort) \<Rightarrow>
         (case (case cl_resolver c of Some r \<Rightarrow> Inr r
                | None \<Rightarrow> newVirtualAddressResolver (fl_cert fl) (fl_os fl) (fl_files fl)
                            (ct_CACertFile (cc_TLS (cl_cfg c))) (cc_ServerAddr (cl_cfg c))) of
            Inl err \<Rightarrow> fail_listen name err c
          | Inr r \<Rightarrow>
              let c = c\<lparr>cl_resolver := Some r\<rparr>
              in (case resolve (Some r) virtualHost virtualPort of
                    Inl err \<Rightarrow> fail_listen name err c
                  | Inr virtualAddr \<Rightarrow> bind_virtual_listener lr name fwd virtualAddr c)))"

definition attachVirtualRedirectSession :: "preparedVirtualForward list \<Rightarrow> nat option \<Rightarrow> client \<Rightarrow> client \<times> bool" where
  "attachVirtualRedirectSession prepared session c =
     (if session = None then (c, False)
      else if cl_session c \<noteq> None then (c, False)
      else if list_ex (\<lambda>p. map_of (cl_listeners c) (pv_name p) \<noteq> Some (pv_listener p)) prepared then (c, False)
      else (c\<lparr>cl_session := session,
              cl_members := remdups (map pv_name prepared @ cl_members c)\<rparr>, True))"

definition detachVirtualRedirectSession :: "(string list \<Rightarrow> string list) \<Rightarrow> nat \<Rightarrow> client \<Rightarrow> client \<times> string list" where
  "detachVirtualRedirectSession rng session c =
     (if cl_session c \<noteq> Some session then (c, [])
      else (c\<lparr>cl_session := None, cl_members := []\<rparr>, rng (cl_members c)))"

definition virtualForwardActive :: "string \<Rightarrow> client \<Rightarrow> bool" where
  "virtualForwardActive name c \<longleftrightarrow> name \<in> set (cl_members c) \<and> cl_session c \<noteq> None
     \<and> map_of (cl_listeners c) name \<noteq> None
     \<and> (case map_of (cl_virtualAddrs c) name of None \<Rightarrow> False | Some a \<Rightarrow> a \<noteq> [])"

definition closeVirtualRedirectSession :: "client \<Rightarrow> client \<times> nat option" where
  "closeVirtualRedirectSession c = (c\<lparr>cl_session := None, cl_members := []\<rparr>, cl_session c)"

definition closeAllListeners :: "((string \<times> nat) list \<Rightarrow> (string \<times> nat) list) \<Rightarrow> client \<Rightarrow> client \<times> nat list" where
  "closeAllListeners rng c = (c\<lparr>cl_listeners := [], cl_virtualAddrs := []\<rparr>, map snd (rng (cl_listeners c)))"

definition stopForwardListener :: "string \<Rightarrow> client \<Rightarrow> client" where
  "stopForwardListener name c =
     (let (c, session) =
        (if name \<in> set (cl_members c)
         then let c = c\<lparr>cl_members := removeAll name (cl_members c)\<rparr>
              in if cl_members c = [] then (c\<lparr>cl_session := None\<rparr>, cl_session c) else (c, None)
         else (c, None));
          ln = map_of (cl_listeners c) name;
          c = c\<lparr>cl_listeners := AList.delete name (cl_listeners c), cl_virtualAddrs := AList.delete name (cl_virtualAddrs c)\<rparr>;
          c = (case session of None \<Rightarrow> c | Some s \<Rightarrow> close_helper s c)
      in case ln of None \<Rightarrow> c | Some h \<Rightarrow> close_listener h c)"

definition forwardListenerActive :: "string \<Rightarrow> nat \<Rightarrow> client \<Rightarrow> bool" where
  "forwardListenerActive name ln c \<longleftrightarrow> map_of (cl_listeners c) name = Some ln"

text \<open>When the helper of a session has ended (\<open>session.Done()\<close>); \<open>err\<close> is \<open>session.Err()\<close>.\<close>

definition watchVirtualRedirectSession ::
    "(string list \<Rightarrow> string list) \<Rightarrow> nat \<Rightarrow> go_error option \<Rightarrow> client \<Rightarrow> client" where
  "watchVirtualRedirectSession rng session err c =
     (if cl_closed c then c
      else (case detachVirtualRedirectSession rng session c of
         (c, names) \<Rightarrow>
            (let err = (case err of None \<Rightarrow> Errorf ''virtual redirect helper stopped unexpectedly'' [] | Some e \<Rightarrow> e)
             in fold (\<lambda>name c. setForwardState name ForwardListenFailed (ForwardErrorMessage (Some err)) (stopForwardListener name c)) names c)))"

section \<open>Close\<close>

text \<open>Closing a session or a listener may fail; the first such error, the session's first, is returned.\<close>

record close_env =
  ce_session :: "go_error option"
  ce_listener :: "nat \<Rightarrow> go_error option"
  ce_order :: "(string \<times> nat) list \<Rightarrow> (string \<times> nat) list"

definition Close :: "close_env \<Rightarrow> client \<Rightarrow> client \<times> go_error option" where
  "Close env c =
     (if cl_closed c then (c, None)
      else let c = c\<lparr>cl_closed := True\<rparr>;
               (c, session) = closeVirtualRedirectSession c;
               (c, err) = (case session of None \<Rightarrow> (c, None) | Some s \<Rightarrow> (close_helper s c, ce_session env));
               (c, lns) = closeAllListeners (ce_order env) c
           in (fold close_listener lns c, first_error (err # map (ce_listener env) lns)))"

end
