(* ===== verification/Client_Exchange.thy ===== *)
theory Client_Exchange
  imports Client_Listeners Certificate_Gate Transport
begin

text \<open>
  What a client says to the server (\<open>client/tunnel/client.go\<close> and \<open>status.go\<close>): the requests, the health
  check, opening a stream for a local connection, keeping a reverse forward registered, and the check of
  the forwards. What the network does is an argument: for the request a connection carries, the record
  \<open>exchange\<close> holds how the TLS materials, the dial, the write and the read of the answer came out.
\<close>

section \<open>TLS materials\<close>

record tls_config =
  tc_MinVersion :: int
  tc_ServerName :: string
  tc_InsecureSkipVerify :: bool
  tc_RootCAs :: string

text \<open>The certificate pool is the text it was read from; \<open>appendCerts\<close> is \<open>AppendCertsFromPEM\<close>, \<open>gateKey\<close> is
  \<open>CertificateGateKeyFromPEM\<close> with its decoders.\<close>

definition clientTLSMaterials ::
    "(string \<Rightarrow> string res) \<Rightarrow> (string \<Rightarrow> bool) \<Rightarrow> os_env \<Rightarrow> files \<Rightarrow> clientConfig \<Rightarrow> (tls_config \<times> string) res" where
  "clientTLSMaterials gateKey appendCerts env fs cfg =
     (let path = ct_CACertFile (cc_TLS cfg)
      in if path = []
         then Inl (Errorf ''tls.ca_cert_file is required for certificate possession gate and server verification'' [])
         else (case ReadFile env fs path of Inl err \<Rightarrow> Inl err
          | Inr pemData \<Rightarrow>
             (case gateKey pemData of Inl err \<Rightarrow> Inl err
              | Inr certificateGateKey \<Rightarrow>
                  if \<not> appendCerts pemData then Inl (Errorf ''no server TLS trust data found in %s'' [FS path])
                  else Inr (\<lparr>tc_MinVersion = TLSMinVersion (ct_MinVersion (cc_TLS cfg)),
                             tc_ServerName = ct_ServerName (cc_TLS cfg),
                             tc_InsecureSkipVerify = ct_InsecureSkipVerify (cc_TLS cfg),
                             tc_RootCAs = pemData\<rparr>, certificateGateKey))))"

section \<open>Requests\<close>

record exchange =
  ex_tls :: "go_error option"
  ex_dial :: "go_error option"
  ex_write :: "go_error option"
  ex_read :: "openResponse \<times> go_error option"

type_synonym network = "openRequest \<Rightarrow> exchange"

definition newOpenRequest :: "clientConfig \<Rightarrow> string \<Rightarrow> openRequest" where
  "newOpenRequest cfg reqType =
     zero_request\<lparr>req_Type := reqType, req_Username := cc_Username cfg, req_Password := cc_Password cfg,
       req_Credential := credentialFromConfig cfg, req_ClientID := cc_ClientID cfg,
       req_ClientVersion := AppVersion, req_ProtocolVersion := ProtocolVersion\<rparr>"

definition responseError :: "openResponse \<Rightarrow> string \<Rightarrow> go_error" where
  "responseError resp fallback =
     (let message = (if resp_Message resp = [] then fallback else resp_Message resp)
      in if resp_Code resp \<noteq> [] then Errorf ''%s: %s'' [FS (resp_Code resp), FS message] else Errorf message [])"

text \<open>Dial, write, read. The answer is zero when it was never read.\<close>

definition ask :: "exchange \<Rightarrow> openResponse \<times> go_error option" where
  "ask ex =
     (case ex_dial ex of Some err \<Rightarrow> (zero_response, Some err)
      | None \<Rightarrow> (case ex_write ex of Some err \<Rightarrow> (zero_response, Some err)
      | None \<Rightarrow> ex_read ex))"

definition checkServerResponseWithTLS :: "network \<Rightarrow> clientConfig \<Rightarrow> string \<Rightarrow> openResponse \<times> go_error option" where
  "checkServerResponseWithTLS net cfg reqType =
     (case ask (net (newOpenRequest cfg reqType)) of
        (resp, Some err) \<Rightarrow> (resp, Some err)
      | (resp, None) \<Rightarrow>
          if resp_OK resp then (resp, None)
          else let resp = (if resp_Message resp = [] then resp\<lparr>resp_Message := reqType @ '' failed''\<rparr> else resp)
               in (resp, Some (if resp_Code resp \<noteq> [] then Errorf ''%s: %s'' [FS (resp_Code resp), FS (resp_Message resp)]
                               else Errorf (resp_Message resp) [])))"

definition checkServerResponse :: "(clientConfig \<Rightarrow> 'm res) \<Rightarrow> string res \<Rightarrow> network \<Rightarrow> clientConfig \<Rightarrow> string \<Rightarrow> openResponse \<times> go_error option" where
  "checkServerResponse materials hostname net cfg reqType =
     (let cfg = client_ApplyDefaults hostname cfg
      in case materials cfg of Inl err \<Rightarrow> (zero_response, Some err)
         | Inr _ \<Rightarrow> checkServerResponseWithTLS net cfg reqType)"

section \<open>The health check\<close>

definition finish_health :: "int \<Rightarrow> time \<Rightarrow> string \<Rightarrow> string \<Rightarrow> string \<Rightarrow> bool \<Rightarrow> client \<Rightarrow> client \<times> healthStatus" where
  \<comment> \<open>\<open>c.finalizeHealthStatus(c.setHealth(..))\<close>\<close>
  "finish_health off now state message errText terminal c =
     (case setHealth off now state message errText terminal c of (c, h) \<Rightarrow> finalizeHealthStatus h c)"

definition health_failed :: "int \<Rightarrow> time \<Rightarrow> go_error \<Rightarrow> client \<Rightarrow> client \<times> healthStatus" where
  "health_failed off now err c =
     (case classifyHealthError (Some err) of (state, message) \<Rightarrow>
        finish_health off now state message (error_text err) (state = HealthAuthError) c)"

definition CheckHealthNow :: "network \<Rightarrow> int \<Rightarrow> time \<Rightarrow> client \<Rightarrow> client \<times> healthStatus" where
  "CheckHealthNow net off now c =
     (case ex_tls (net (newOpenRequest (cl_cfg c) ''health'')) of
        Some err \<Rightarrow> health_failed off now err c
      | None \<Rightarrow>
         (case checkServerResponseWithTLS net (cl_cfg c) ''health'' of
            (resp, Some err) \<Rightarrow> health_failed off now err c
          | (resp, None) \<Rightarrow>
             (let c = setServerVersionFromResponse resp c
              in if \<not> resp_OK resp
                 then (let message = (if resp_Message resp = [] then ''health check failed'' else resp_Message resp)
                       in finish_health off now HealthServerUnavailable message message False c)
                 else finish_health off now HealthOK msg_healthy [] False c)))"

text \<open>One turn of \<open>healthLoop\<close>: the delay until the next one, \<open>None\<close> when the loop closed the client and
  ended. The clock is read for the check and for the retry.\<close>

definition health_turn :: "close_env \<Rightarrow> network \<Rightarrow> int \<Rightarrow> time \<Rightarrow> time \<Rightarrow> client \<Rightarrow> client \<times> duration option" where
  "health_turn env net off now1 now2 c =
     (case CheckHealthNow net off now1 c of (c, status) \<Rightarrow>
        (case shouldStopAfterHealth status c of
           (c, True) \<Rightarrow> (fst (Close env c), None)
         | (c, False) \<Rightarrow>
            (let delay = nextHealthDelay c in (fst (setHealthRetry off now2 delay c), Some delay))))"

text \<open>The loop, over what the network does in each turn. The result says whether the loop ended.\<close>

fun healthLoop :: "close_env \<Rightarrow> int \<Rightarrow> (network \<times> time \<times> time) list \<Rightarrow> client \<Rightarrow> client \<times> bool" where
  "healthLoop env off [] c = (c, False)"
| "healthLoop env off ((net, now1, now2) # turns) c =
     (case health_turn env net off now1 now2 c of
        (c, None) \<Rightarrow> (c, True)
      | (c, Some _) \<Rightarrow> healthLoop env off turns c)"

section \<open>A local connection\<close>

definition forward_request :: "clientConfig \<Rightarrow> string \<Rightarrow> string \<Rightarrow> string \<Rightarrow> string \<Rightarrow> string \<Rightarrow> string \<Rightarrow> openRequest" where
  "forward_request cfg reqType name direction listenAddr streamID target =
     (newOpenRequest cfg reqType)\<lparr>req_ForwardName := name, req_Direction := direction, req_ListenAddr := listenAddr,
        req_StreamID := streamID, req_Target := target\<rparr>"

text \<open>\<open>handleLocal\<close> up to the proxying: \<open>Some\<close> record when the stream runs.\<close>

definition handleLocal :: "network \<Rightarrow> int \<Rightarrow> time \<Rightarrow> string \<Rightarrow> clientForward \<Rightarrow> client \<Rightarrow> client \<times> nat option option" where
  "handleLocal net off now name fwd c =
     (let ex = net (forward_request (cl_cfg c) ''open'' name DirectionClientToServer [] [] (cf_ServerTarget fwd))
      in case ex_tls ex of Some err \<Rightarrow> (recordForwardError name (Some err) c, None)
      | None \<Rightarrow>
         (case ask ex of
            (resp, Some err) \<Rightarrow> (recordForwardError name (Some err) c, None)
          | (resp, None) \<Rightarrow>
             (let c = setServerVersionFromResponse resp c
              in if \<not> resp_OK resp
                 then (let err = Some (responseError resp ''server rejected the connection'');
                           c = recordForwardError name err c
                       in (if IsPermanentForwardError err
                           then stopForwardListener name (setForwardState name ForwardRejected (ForwardErrorMessage err) c)
                           else c, None))
                 else let c = setForwardState name ForwardListening msg_entry_listening c
                      in case beginForwardStream off now name c of (c, rt) \<Rightarrow> (c, Some rt))))"

section \<open>Reverse forwards\<close>

text \<open>What the control connection delivers after the answer: an event, or the error that ends it. The
  exchange of the heartbeat answer is the result of its write.\<close>

fun reverse_events :: "clientConfig \<Rightarrow> string \<Rightarrow> clientForward \<Rightarrow> (openResponse \<times> go_error option) list \<Rightarrow> go_error
     \<Rightarrow> openRequest list \<times> string list \<times> go_error" where
  "reverse_events cfg name fwd [] err = ([], [], Errorf ''reverse listen disconnected: %w'' [FE err])"
| "reverse_events cfg name fwd ((event, write_err) # events) err =
     (if resp_Code event = ''reverse_ping''
      then let req = (forward_request cfg ''reverse_pong'' name DirectionServerToClient (cf_ListenAddr fwd) [] (cf_ServerTarget fwd))
                       \<lparr>req_Password := [], req_Credential := None\<rparr>
           in (case write_err of Some e \<Rightarrow> ([req], [], Errorf ''send reverse heartbeat failed: %w'' [FE e])
               | None \<Rightarrow> (case reverse_events cfg name fwd events err of (reqs, streams, e) \<Rightarrow> (req # reqs, streams, e)))
      else if resp_Code event \<noteq> ''reverse_connect'' \<or> resp_StreamID event = []
      then reverse_events cfg name fwd events err
      else (case reverse_events cfg name fwd events err of (reqs, streams, e) \<Rightarrow> (reqs, resp_StreamID event # streams, e)))"

text \<open>\<open>maintainReverseListen\<close> always ends with an error. The other results are the answers it wrote to
  heartbeats and the streams it started \<open>openReverseStream\<close> for.\<close>

definition maintainReverseListen ::
    "network \<Rightarrow> (openResponse \<times> go_error option) list \<Rightarrow> go_error \<Rightarrow> string \<Rightarrow> clientForward \<Rightarrow> client
     \<Rightarrow> client \<times> openRequest list \<times> string list \<times> go_error" where
  "maintainReverseListen net events ended name fwd c =
     (let ex = net (forward_request (cl_cfg c) ''reverse_listen'' name DirectionServerToClient (cf_ListenAddr fwd) [] (cf_ServerTarget fwd))
      in case ex_tls ex of Some err \<Rightarrow> (c, [], [], err)
      | None \<Rightarrow> (case ex_dial ex of Some err \<Rightarrow> (c, [], [], Errorf ''connect server failed: %w'' [FE err])
      | None \<Rightarrow> (case ex_write ex of Some err \<Rightarrow> (c, [], [], Errorf ''send reverse listen request failed: %w'' [FE err])
      | None \<Rightarrow> (case ex_read ex of
          (resp, Some err) \<Rightarrow> (c, [], [], Errorf ''read reverse listen response failed: %w'' [FE err])
        | (resp, None) \<Rightarrow>
            (let c = setServerVersionFromResponse resp c
             in if \<not> resp_OK resp then (c, [], [], responseError resp ''server rejected reverse forward'')
                else (setForwardState name ForwardReverseActive msg_reverse_active c,
                      reverse_events (cl_cfg c) name fwd events ended))))))"

text \<open>One turn of \<open>reverseLoop\<close> and the delay before the next, \<open>None\<close> when the loop ends.\<close>

definition reverse_turn :: "go_error \<Rightarrow> int \<Rightarrow> string \<Rightarrow> client \<Rightarrow> client \<times> duration option" where
  "reverse_turn err failures name c =
     (let c = recordForwardError name (Some err) c; message = ForwardErrorMessage (Some err)
      in if IsPermanentForwardError (Some err) then (setForwardState name ForwardRejected message c, None)
         else (setForwardState name ForwardRetrying message c, Some (ReverseRetryDelay (Some err) failures)))"

fun reverseLoop ::
    "(network \<times> (openResponse \<times> go_error option) list \<times> go_error) list \<Rightarrow> int \<Rightarrow> string \<Rightarrow> clientForward \<Rightarrow> client
     \<Rightarrow> client \<times> duration list" where
  "reverseLoop [] failures name fwd c = (c, [])"
| "reverseLoop ((net, events, ended) # turns) failures name fwd c =
     (if cl_closed c then (c, [])
      else (case maintainReverseListen net events ended name fwd c of
         (c, _, _, err) \<Rightarrow>
            (case reverse_turn err (int64 (failures + 1)) name c of
               (c, None) \<Rightarrow> (c, [])
             | (c, Some delay) \<Rightarrow>
                (case reverseLoop turns (int64 (failures + 1)) name fwd c of (c, delays) \<Rightarrow> (c, delay # delays)))))"

text \<open>\<open>openReverseStream\<close> up to the proxying; \<open>target\<close> is how the dial of the client's own target came out.\<close>

definition openReverseStream ::
    "network \<Rightarrow> go_error option \<Rightarrow> int \<Rightarrow> time \<Rightarrow> string \<Rightarrow> clientForward \<Rightarrow> string \<Rightarrow> client \<Rightarrow> client \<times> nat option option" where
  "openReverseStream net target off now name fwd streamID c =
     (let ex = net (forward_request (cl_cfg c) ''reverse_stream'' name DirectionServerToClient (cf_ListenAddr fwd) streamID (cf_ServerTarget fwd))
      in case ex_tls ex of Some err \<Rightarrow> (recordForwardError name (Some err) c, None)
      | None \<Rightarrow>
         (case ask ex of
            (resp, Some err) \<Rightarrow> (recordForwardError name (Some err) c, None)
          | (resp, None) \<Rightarrow>
             (let c = setServerVersionFromResponse resp c
              in if \<not> resp_OK resp
                 then (let err = Some (responseError resp ''server rejected reverse stream'');
                           c = recordForwardError name err c
                       in (if IsPermanentForwardError err then setForwardState name ForwardRejected (ForwardErrorMessage err) c else c, None))
                 else (case target of
                    Some e \<Rightarrow> (recordForwardError name (Some (Errorf ''connect client target %s: %w'' [FS (cf_ServerTarget fwd), FE e])) c, None)
                  | None \<Rightarrow> (case beginForwardStream off now name c of (c, rt) \<Rightarrow> (c, Some rt))))))"

section \<open>Checking the forwards\<close>

definition checkForwardResponse :: "network \<Rightarrow> string \<Rightarrow> clientForward \<Rightarrow> client \<Rightarrow> client \<times> openResponse \<times> go_error option" where
  "checkForwardResponse net name fwd c =
     (let direction = forwardDirection fwd;
          ex = net (forward_request (cl_cfg c) ''forward_check'' name direction
                 (if direction = DirectionServerToClient then cf_ListenAddr fwd else []) [] (cf_ServerTarget fwd))
      in case ex_tls ex of Some err \<Rightarrow> (c, zero_response, Some err)
      | None \<Rightarrow>
         (case ask ex of
            (resp, Some err) \<Rightarrow> (c, resp, Some err)
          | (resp, None) \<Rightarrow>
             (let c = setServerVersionFromResponse resp c
              in (c, resp, if resp_OK resp then None else Some (responseError resp ''server rejected forward check'')))))"

text \<open>\<open>restoreCheckedForward\<close>; the flag says that \<open>reverseLoop\<close> was started again.\<close>

definition restoreCheckedForward :: "listen_result \<Rightarrow> string \<Rightarrow> clientForward \<Rightarrow> client \<Rightarrow> client \<times> go_error option \<times> bool" where
  "restoreCheckedForward lr name fwd c =
     (let direction = TrimSpace (cf_Direction fwd)
      in if direction = DirectionVirtual
         then (c, if virtualForwardActive name c then None
                  else Some (Errorf ''virtual redirect is inactive; disconnect and reconnect to request administrator authorization'' []), False)
         else if direction = [] \<or> direction = DirectionClientToServer
         then (case ensureForwardListener lr name c of (c, err) \<Rightarrow> (c, err, False))
         else if direction = DirectionServerToClient
         then (case map_of (cl_forwards c) name of
             None \<Rightarrow> (c, None, False)
           | Some i \<Rightarrow> if fr_state (cl_runtimes c ! i) = ForwardRejected
                       then (setForwardState name ForwardReverseWait msg_reverse_wait c, None, True) else (c, None, False))
         else (c, None, False))"

definition reject_checked :: "string \<Rightarrow> clientForward \<Rightarrow> go_error \<Rightarrow> client \<Rightarrow> client \<times> string" where
  \<comment> \<open>the two error branches of \<open>checkForwardNow\<close>, which are the same\<close>
  "reject_checked name fwd err c =
     (let c = recordForwardError name (Some err) c
      in if IsPermanentForwardError (Some err)
         then (let c = setForwardState name ForwardRejected (ForwardErrorMessage (Some err)) c
               in (if forwardDirection fwd = DirectionClientToServer then stopForwardListener name c else c, ''rejected''))
         else (c, ''failed''))"

definition checkForwardNow :: "network \<Rightarrow> listen_result \<Rightarrow> string \<Rightarrow> clientForward \<Rightarrow> client \<Rightarrow> client \<times> string" where
  "checkForwardNow net lr name fwd c =
     (case checkForwardResponse net name fwd c of
        (c, resp, Some err) \<Rightarrow> reject_checked name fwd err c
      | (c, resp, None) \<Rightarrow>
          if \<not> resp_OK resp then reject_checked name fwd (responseError resp ''server rejected forward check'') c
          else (case restoreCheckedForward lr name fwd c of
             (c, Some err, _) \<Rightarrow>
               (let c = recordForwardError name (Some err) c
                in (if cf_Direction fwd = DirectionVirtual
                    then setForwardState name ForwardListenFailed (ForwardErrorMessage (Some err)) c else c, ''failed''))
           | (c, None, _) \<Rightarrow> (c, ''allowed'')))"

text \<open>The goroutines of \<open>CheckForwardsNow\<close>, here in the order in which they finish; the argument gives for
  each forward what the network and the listening did.\<close>

definition count_result :: "string \<Rightarrow> forwardCheckSummary \<Rightarrow> forwardCheckSummary" where
  "count_result r s =
     (let s = s\<lparr>sm_Checked := int64 (sm_Checked s + 1)\<rparr>
      in if r = ''allowed'' then s\<lparr>sm_Allowed := int64 (sm_Allowed s + 1)\<rparr>
         else if r = ''rejected'' then s\<lparr>sm_Rejected := int64 (sm_Rejected s + 1)\<rparr>
         else s\<lparr>sm_Failed := int64 (sm_Failed s + 1)\<rparr>)"

fun check_forwards :: "(clientForward \<times> network \<times> listen_result) list \<Rightarrow> client \<Rightarrow> forwardCheckSummary \<Rightarrow> client \<times> forwardCheckSummary" where
  "check_forwards [] c s = (c, s)"
| "check_forwards ((fwd, net, lr) # rest) c s =
     (case checkForwardNow net lr (forwardName fwd) fwd c of (c, r) \<Rightarrow> check_forwards rest c (count_result r s))"

definition CheckForwardsNow :: "(clientForward \<times> network \<times> listen_result) list \<Rightarrow> client \<Rightarrow> client \<times> forwardCheckSummary" where
  "CheckForwardsNow runs c = check_forwards runs c \<lparr>sm_Checked = 0, sm_Allowed = 0, sm_Rejected = 0, sm_Failed = 0\<rparr>"

end
