(* ===== verification/Client_Start.thy ===== *)
theory Client_Start
  imports Client_Exchange
begin

text \<open>
  \<open>start\<close> of \<open>client/tunnel/client.go\<close>: the client is built, every forward is prepared, the redirection session is
  started for the virtual ones, and the start fails when no forward is usable. The functions run one after
  the other here; goroutines that \<open>start\<close> itself started may interleave, which the step relation of
  \<open>Client_Laws\<close> covers.
\<close>

text \<open>What the environment does: the TLS materials, the answers to \<open>net.Listen\<close> by the position of the forward,
  the start of the helper (\<open>Inr False\<close> is a nil session without an error), and closing.\<close>

record start_env =
  se_hostname :: "string res"
  se_materials :: "clientConfig \<Rightarrow> (tls_config \<times> string) res"
  se_files :: client_files
  se_listen :: "nat \<Rightarrow> listen_result"
  se_session :: "virtualRedirectRule list \<Rightarrow> bool res"
  se_close :: close_env
  se_off :: int
  se_now :: time

definition new_client :: "clientConfig \<Rightarrow> client" where
  "new_client cfg =
     \<lparr>cl_cfg = cfg, cl_listeners = [], cl_virtualAddrs = [], cl_resolver = None, cl_session = None, cl_members = [],
      cl_forwards = [], cl_runtimes = [], cl_health = zero_health, cl_serverVersion = [], cl_closed = False,
      cl_active = 0, cl_total = 0, cl_open = [], cl_helpers = [], cl_handles = 0\<rparr>"

definition errors_Join :: "go_error option \<Rightarrow> go_error \<Rightarrow> go_error" where
  "errors_Join old err = (case old of None \<Rightarrow> Errorf ''%w'' [FE err] | Some e \<Rightarrow> Errorf (''%w'' @ [CHR 0x0A] @ ''%w'') [FE e, FE err])"

text \<open>The local variables of \<open>start\<close>.\<close>

record start_vars =
  sv_usable :: nat
  sv_blocking :: nat
  sv_cancelled :: bool
  sv_err :: "go_error option"
  sv_virtual :: "preparedVirtualForward list"

definition blocked :: "go_error \<Rightarrow> start_vars \<Rightarrow> start_vars" where
  "blocked err v = v\<lparr>sv_blocking := sv_blocking v + 1, sv_err := Some (errors_Join (sv_err v) err)\<rparr>"

fun start_forwards :: "start_env \<Rightarrow> nat \<Rightarrow> clientForward list \<Rightarrow> client \<Rightarrow> start_vars \<Rightarrow> client \<times> start_vars" where
  "start_forwards env k [] c v = (c, v)"
| "start_forwards env k (fwd # rest) c v =
     (let name = forwardName fwd
      in if cf_Direction fwd = DirectionServerToClient
         then start_forwards env (k + 1) rest (initForward name fwd ForwardReverseWait msg_reverse_wait c) (v\<lparr>sv_usable := sv_usable v + 1\<rparr>)
         else (let c = initForward name fwd ForwardStarting msg_entry_starting c
               in if cf_Direction fwd = DirectionVirtual
                  then (case prepareVirtualForwardListener (se_files env) (se_listen env k) name fwd c of
                     (c, Inl err) \<Rightarrow> start_forwards env (k + 1) rest c (blocked err v)
                   | (c, Inr prepared) \<Rightarrow> start_forwards env (k + 1) rest c (v\<lparr>sv_virtual := sv_virtual v @ [prepared]\<rparr>))
                  else (case ensureForwardListener (se_listen env k) name c of
                     (c, Some err) \<Rightarrow> start_forwards env (k + 1) rest c (blocked err v)
                   | (c, None) \<Rightarrow> start_forwards env (k + 1) rest c (v\<lparr>sv_usable := sv_usable v + 1\<rparr>))))"

definition fail_virtual :: "go_error \<Rightarrow> preparedVirtualForward list \<Rightarrow> client \<Rightarrow> client" where
  "fail_virtual err prepared c =
     fold (\<lambda>p c. setForwardState (pv_name p) ForwardListenFailed (ForwardErrorMessage (Some err)) (stopForwardListener (pv_name p) c)) prepared c"

definition activateVirtualForward :: "preparedVirtualForward \<Rightarrow> client \<Rightarrow> client" where
  "activateVirtualForward p c = setForwardState (pv_name p) ForwardListening msg_virtual_active c"

definition open_helper :: "client \<Rightarrow> client \<times> nat" where
  "open_helper c = (c\<lparr>cl_helpers := cl_handles c # cl_helpers c, cl_handles := cl_handles c + 1\<rparr>, cl_handles c)"

definition start_virtual :: "start_env \<Rightarrow> client \<Rightarrow> start_vars \<Rightarrow> client \<times> start_vars" where
  "start_virtual env c v =
     (if sv_virtual v = [] then (c, v)
      else (case (case se_session env (map pv_rule (sv_virtual v)) of
                    Inl err \<Rightarrow> Inl err
                  | Inr False \<Rightarrow> Inl (Errorf ''virtual redirect helper did not start'' [])
                  | Inr True \<Rightarrow> Inr ()) of
        Inl err \<Rightarrow>
          (fail_virtual err (sv_virtual v) c,
           if isVirtualAuthorizationCancelled (Some err) then v\<lparr>sv_cancelled := True, sv_err := Some (errors_Join (sv_err v) err)\<rparr>
           else blocked err v)
      | Inr _ \<Rightarrow>
          (case open_helper c of (c, session) \<Rightarrow>
            (case attachVirtualRedirectSession (sv_virtual v) (Some session) c of
               (c, False) \<Rightarrow>
                 (let err = Errorf ''virtual forward listeners are no longer active'' []
                  in (fail_virtual err (sv_virtual v) (close_helper session c), blocked err v))
             | (c, True) \<Rightarrow>
                 (fold activateVirtualForward (sv_virtual v) c, v\<lparr>sv_usable := sv_usable v + length (sv_virtual v)\<rparr>)))))"

text \<open>The result is the client and the error; with an error the code returns no client, and this is
  the state it left.\<close>

definition start :: "start_env \<Rightarrow> clientConfig \<Rightarrow> string \<Rightarrow> bool \<Rightarrow> client \<times> go_error option" where
  "start env cfg serverVersion verified =
     (let cfg = client_ApplyDefaults (se_hostname env) cfg
      in case se_materials env cfg of Inl err \<Rightarrow> (new_client cfg, Some err)
      | Inr _ \<Rightarrow>
         (let c = new_client cfg;
              c = (if verified
                   then SetServerVersion serverVersion (fst (setHealth (se_off env) (se_now env) HealthOK msg_healthy [] False c))
                   else fst (setHealth (se_off env) (se_now env) HealthChecking msg_health_waiting [] False c));
              (c, v) = start_forwards env 0 (cc_Forwards cfg) c
                 \<lparr>sv_usable = 0, sv_blocking = 0, sv_cancelled = False, sv_err = None, sv_virtual = []\<rparr>;
              (c, v) = start_virtual env c v
          in if sv_usable v = 0 \<and> \<not> (sv_cancelled v \<and> sv_blocking v = 0)
             then (fst (Close (se_close env) c),
                   Some (case sv_err v of Some err \<Rightarrow> Errorf ''no usable forward is available: %w'' [FE err]
                         | None \<Rightarrow> Errorf ''no usable forward is available'' []))
             else (c, None)))"

end
