(* ===== verification/Client_Laws.thy ===== *)
theory Client_Laws
  imports Client_Start
begin

text \<open>
  What holds of a client at every moment: the listeners and the helper that are open are the ones it
  knows, the status counters count the streams, the states are the declared ones. \<open>client_step\<close> is the
  interleaving of the methods at the granularity of the locks.
\<close>

section \<open>Handles\<close>

definition handles_inv :: "nat list \<Rightarrow> client \<Rightarrow> bool" where
  "handles_inv held c \<longleftrightarrow> gmap_ok (cl_listeners c) \<and> gmap_ok (cl_virtualAddrs c)
     \<and> distinct (map snd (cl_listeners c) @ held)
     \<and> fst ` set (cl_open c) = snd ` set (cl_listeners c) \<union> set held
     \<and> (\<forall>h \<in> set (map snd (cl_listeners c) @ held). h < cl_handles c)
     \<and> fst ` set (cl_virtualAddrs c) \<subseteq> fst ` set (cl_listeners c)
     \<and> set (cl_members c) \<subseteq> fst ` set (cl_listeners c)
     \<and> (cl_session c = None \<longleftrightarrow> cl_members c = [])
     \<and> set (cl_helpers c) \<subseteq> set_option (cl_session c)"

definition handle_part where
  "handle_part c = (cl_listeners c, cl_virtualAddrs c, cl_session c, cl_members c, cl_open c, cl_helpers c, cl_handles c)"

lemma handles_inv_part: "handle_part c = handle_part c' \<Longrightarrow> handles_inv held c = handles_inv held c'"
  by (simp add: handle_part_def handles_inv_def)

lemma on_forward_fields [simp]:
  "cl_listeners (on_forward n f c) = cl_listeners c" "cl_virtualAddrs (on_forward n f c) = cl_virtualAddrs c"
  "cl_session (on_forward n f c) = cl_session c" "cl_members (on_forward n f c) = cl_members c"
  "cl_open (on_forward n f c) = cl_open c" "cl_helpers (on_forward n f c) = cl_helpers c"
  "cl_handles (on_forward n f c) = cl_handles c" "cl_closed (on_forward n f c) = cl_closed c"
  "cl_forwards (on_forward n f c) = cl_forwards c" "cl_health (on_forward n f c) = cl_health c"
  "cl_active (on_forward n f c) = cl_active c" "cl_cfg (on_forward n f c) = cl_cfg c"
  "length (cl_runtimes (on_forward n f c)) = length (cl_runtimes c)"
  by (simp_all add: on_forward_def update_runtime_def split: option.split)

lemma status_keeps_handles [simp]:
  "handle_part (on_forward n f c) = handle_part c"
  "handle_part (setForwardState n s m c) = handle_part c"
  "handle_part (setForwardAddresses n a v c) = handle_part c"
  "handle_part (recordForwardError n err c) = handle_part c"
  "handle_part (initForward n fwd s m c) = handle_part c"
  "handle_part (fst (setHealth off now s m e t c)) = handle_part c"
  "handle_part (fst (setHealthRetry off now d c)) = handle_part c"
  "handle_part (fst (finalizeHealthStatus h c)) = handle_part c"
  "handle_part (SetServerVersion v c) = handle_part c"
  "handle_part (setServerVersionFromResponse resp c) = handle_part c"
  by (simp_all add: handle_part_def setForwardState_def setForwardAddresses_def recordForwardError_def initForward_def
      setHealth_def setHealthRetry_def finalizeHealthStatus_def markHealthTerminal_def SetServerVersion_def
      setServerVersionFromResponse_def Let_def split: option.split)

lemma stream_keeps_handles [simp]:
  "handle_part (fst (beginForwardStream off now n c)) = handle_part c"
  "handle_part (endForwardStream off now rt c) = handle_part c"
  by (simp_all add: handle_part_def beginForwardStream_def endForwardStream_def Let_def update_runtime_def split: option.split)

lemma snd_update: "gmap_ok m \<Longrightarrow> map_of m k = None \<Longrightarrow> AList.update k v m = m @ [(k, v)]"
  by (induction m) (auto simp: gmap_ok_def split: if_splits)

lemma delete_keys: "fst ` set (AList.delete k m) = fst ` set m - {k}"
  by (auto simp: AList.delete_eq)

lemma in_keys: "k \<in> fst ` set m \<longleftrightarrow> map_of m k \<noteq> None"
  by (metis map_of_eq_None_iff)

lemma register_handle:
  assumes "handles_inv (h # held) c" and "map_of (cl_listeners c) name = None"
  shows "handles_inv held (c\<lparr>cl_listeners := AList.update name h (cl_listeners c)\<rparr>)"
proof -
  have "gmap_ok (cl_listeners c @ [(name, h)])"
    using assms by (simp add: handles_inv_def gmap_ok_def map_of_eq_None_iff)
  then show ?thesis using assms by (auto simp: handles_inv_def snd_update)
qed

lemma listen_handle:
  assumes "handles_inv held c" and "net_Listen lr c = (c', Inr h)"
  shows "handles_inv (h # held) c'" and "cl_listeners c' = cl_listeners c" and "h = cl_handles c"
proof -
  obtain a p where lr: "lr = Inr (a, p)" using assms(2) by (cases lr) (auto simp: net_Listen_def)
  then have c': "c' = c\<lparr>cl_open := (cl_handles c, a) # cl_open c, cl_handles := cl_handles c + 1\<rparr>" "h = cl_handles c"
    using assms(2) by (auto simp: net_Listen_def)
  have "cl_handles c \<notin> set (map snd (cl_listeners c) @ held)"
    using assms(1) unfolding handles_inv_def by (metis less_irrefl)
  then show "handles_inv (h # held) c'" using assms(1) by (auto simp: handles_inv_def c' less_Suc_eq)
  show "cl_listeners c' = cl_listeners c" "h = cl_handles c" by (simp_all add: c')
qed

lemma close_open: "fst ` set (cl_open (close_listener h c)) = fst ` set (cl_open c) - {h}"
  by (force simp: close_listener_def)

lemma close_listener_fields [simp]:
  "cl_listeners (close_listener h c) = cl_listeners c" "cl_virtualAddrs (close_listener h c) = cl_virtualAddrs c"
  "cl_session (close_listener h c) = cl_session c" "cl_members (close_listener h c) = cl_members c"
  "cl_helpers (close_listener h c) = cl_helpers c" "cl_handles (close_listener h c) = cl_handles c"
  "cl_closed (close_listener h c) = cl_closed c" "cl_forwards (close_listener h c) = cl_forwards c"
  "cl_runtimes (close_listener h c) = cl_runtimes c" "cl_active (close_listener h c) = cl_active c"
  by (simp_all add: close_listener_def)

lemma close_handle:
  assumes "handles_inv (h # held) c"
  shows "handles_inv held (close_listener h c)"
proof -
  have "fst ` set (cl_open (close_listener h c)) = snd ` set (cl_listeners c) \<union> set held"
    using assms unfolding close_open by (auto simp: handles_inv_def)
  then show ?thesis using assms by (simp add: handles_inv_def)
qed

lemma ensure_register_inv:
  "(case ln of Inl _ \<Rightarrow> handles_inv held c | Inr h \<Rightarrow> handles_inv (h # held) c) \<Longrightarrow>
   handles_inv held (fst (ensure_register name ln c))"
  using handles_inv_part [OF status_keeps_handles(2)] handles_inv_part [OF status_keeps_handles(3)]
  by (auto simp: ensure_register_def Let_def close_handle register_handle split: sum.splits)

lemma net_Listen_inv:
  "handles_inv held c \<Longrightarrow> net_Listen lr c = (c', r) \<Longrightarrow>
   (case r of Inl _ \<Rightarrow> handles_inv held c' | Inr h \<Rightarrow> handles_inv (h # held) c')"
  using listen_handle(1) by (cases r) (auto simp: net_Listen_def split: sum.splits)

lemma ensure_inv: "handles_inv held c \<Longrightarrow> handles_inv held (fst (ensureForwardListener lr name c))"
  using net_Listen_inv ensure_register_inv
  by (fastforce simp: ensureForwardListener_def split: option.splits prod.splits)

lemma status_inv [simp]:
  "handles_inv held (on_forward n f c) = handles_inv held c"
  "handles_inv held (setForwardState n s m c) = handles_inv held c"
  "handles_inv held (setForwardAddresses n a v c) = handles_inv held c"
  "handles_inv held (recordForwardError n err c) = handles_inv held c"
  "handles_inv held (initForward n fwd s m c) = handles_inv held c"
  "handles_inv held (fst (setHealth off now s m e t c)) = handles_inv held c"
  "handles_inv held (fst (setHealthRetry off now d c)) = handles_inv held c"
  "handles_inv held (fst (finalizeHealthStatus h c)) = handles_inv held c"
  "handles_inv held (SetServerVersion v c) = handles_inv held c"
  "handles_inv held (setServerVersionFromResponse resp c) = handles_inv held c"
  "handles_inv held (fst (beginForwardStream off now n c)) = handles_inv held c"
  "handles_inv held (endForwardStream off now rt c) = handles_inv held c"
  by (rule handles_inv_part; simp)+

lemma fail_listen_inv [simp]: "handles_inv held (fst (fail_listen n err c)) = handles_inv held c"
  by (simp add: fail_listen_def)

lemma bind_virtual_inv:
  assumes "handles_inv held c"
  shows "handles_inv held (fst (bind_virtual_listener lr name fwd va c))"
proof (cases "net_Listen lr c")
  case (Pair c1 r)
  show ?thesis
  proof (cases r)
    case (Inr h)
    have inv: "handles_inv (h # held) c1" using net_Listen_inv [OF assms Pair] Inr by simp
    then have "handles_inv held (c1\<lparr>cl_listeners := AList.update name h (cl_listeners c1),
          cl_virtualAddrs := AList.update name va (cl_virtualAddrs c1)\<rparr>)" if "map_of (cl_listeners c1) name = None"
      using register_handle [OF inv that] by (auto simp: handles_inv_def dom_update)
    with close_handle [OF inv] show ?thesis
      by (simp add: bind_virtual_listener_def Pair Inr Let_def split: sum.split)
  qed (use net_Listen_inv [OF assms Pair] in \<open>simp add: bind_virtual_listener_def Pair\<close>)
qed

lemma prepare_inv:
  assumes "handles_inv held c"
  shows "handles_inv held (fst (prepareVirtualForwardListener fl lr name fwd c))"
proof -
  have "handles_inv held (c\<lparr>cl_resolver := r\<rparr>)" for r using assms by (simp add: handles_inv_def)
  then show ?thesis using assms bind_virtual_inv
    by (auto simp: prepareVirtualForwardListener_def Let_def split: sum.split option.split prod.split)
qed

section \<open>Stopping and closing\<close>

definition helper_part where
  "helper_part c = (cl_session c, cl_members c, cl_helpers c)"

lemma entry_split:
  assumes "gmap_ok m" and "distinct (map snd m)" and "map_of m k = Some h"
  shows "snd ` set m = insert h (snd ` set (AList.delete k m))" and "h \<notin> snd ` set (AList.delete k m)"
    and "distinct (map snd (AList.delete k m))"
  using assms by (induction m) (auto simp: gmap_ok_def delete_id split: if_splits dest: map_of_SomeD)

lemma stop_handle:
  assumes "handles_inv held c"
  shows "handles_inv held (stopForwardListener name c)"
proof -
  define d where "d = c\<lparr>cl_listeners := AList.delete name (cl_listeners c), cl_virtualAddrs := AList.delete name (cl_virtualAddrs c),
      cl_members := removeAll name (cl_members c),
      cl_session := (if removeAll name (cl_members c) = [] then None else cl_session c),
      cl_helpers := (if removeAll name (cl_members c) = [] then [] else cl_helpers c)\<rparr>"
  have helpers: "cl_helpers c = [] \<or> cl_session c \<noteq> None" "set (cl_helpers c) \<subseteq> set_option (cl_session c)"
    using assms by (auto simp: handles_inv_def)
  have no_helper: "\<And>s. cl_session c = Some s \<Longrightarrow> removeAll s (cl_helpers c) = []"
    using helpers(2) by (auto simp: filter_empty_conv removeAll_filter_not_eq)
  have same: "stopForwardListener name c = (case map_of (cl_listeners c) name of None \<Rightarrow> d | Some h \<Rightarrow> close_listener h d)"
  proof (cases "name \<in> set (cl_members c)")
    case True
    then obtain s where "cl_session c = Some s" using assms by (cases "cl_session c") (auto simp: handles_inv_def)
    then show ?thesis using True no_helper [of s]
      by (simp add: stopForwardListener_def d_def Let_def close_helper_def close_listener_def split: option.split)
  next
    case False
    have "cl_members c = [] \<Longrightarrow> cl_session c = None \<and> cl_helpers c = []" using assms by (auto simp: handles_inv_def)
    then have "d = c\<lparr>cl_listeners := AList.delete name (cl_listeners c), cl_virtualAddrs := AList.delete name (cl_virtualAddrs c)\<rparr>"
      using False by (cases "cl_members c = []") (simp_all add: d_def removeAll_id)
    then show ?thesis using False by (simp add: stopForwardListener_def Let_def split: option.split)
  qed
  have keys: "gmap_ok (cl_listeners c)" "distinct (map snd (cl_listeners c) @ held)" using assms by (simp_all add: handles_inv_def)
  show ?thesis
  proof (cases "map_of (cl_listeners c) name")
    case None
    then have del: "AList.delete name (cl_listeners c) = cl_listeners c" by (simp add: delete_id map_of_eq_None_iff)
    have "name \<notin> fst ` set (cl_virtualAddrs c)" "name \<notin> set (cl_members c)"
      using assms None by (auto simp: handles_inv_def map_of_eq_None_iff)
    then show ?thesis using assms helpers by (auto simp: same None d_def del handles_inv_def delete_keys)
  next
    case (Some h)
    note e = entry_split [OF keys(1) _ Some]
    have "handles_inv (h # held) d"
      using assms helpers e keys by (auto simp: handles_inv_def d_def delete_keys)
    then show ?thesis by (simp add: same Some close_handle)
  qed
qed

lemma fold_close_open: "fst ` set (cl_open (fold close_listener hs c)) = fst ` set (cl_open c) - set hs"
  by (induction hs arbitrary: c) (auto simp: close_open)

lemma fold_close_fields [simp]:
  "cl_listeners (fold close_listener hs c) = cl_listeners c" "cl_virtualAddrs (fold close_listener hs c) = cl_virtualAddrs c"
  "cl_session (fold close_listener hs c) = cl_session c" "cl_members (fold close_listener hs c) = cl_members c"
  "cl_helpers (fold close_listener hs c) = cl_helpers c" "cl_handles (fold close_listener hs c) = cl_handles c"
  "cl_closed (fold close_listener hs c) = cl_closed c" "cl_forwards (fold close_listener hs c) = cl_forwards c"
  "cl_runtimes (fold close_listener hs c) = cl_runtimes c" "cl_active (fold close_listener hs c) = cl_active c"
  by (induction hs arbitrary: c) simp_all

lemma Close_result:
  assumes inv: "handles_inv held c" and perm: "perm_fn (ce_order env)" and live: "\<not> cl_closed c"
  shows "handles_inv held (fst (Close env c)) \<and> cl_closed (fst (Close env c)) \<and> cl_listeners (fst (Close env c)) = []
    \<and> fst ` set (cl_open (fst (Close env c))) = set held \<and> cl_helpers (fst (Close env c)) = []"
proof -
  have hs: "set (map snd (ce_order env (cl_listeners c))) = snd ` set (cl_listeners c)"
    using perm by (metis list.set_map perm_fn_def set_mset_mset)
  have none: "cl_session c = None \<Longrightarrow> cl_helpers c = []" "\<And>s. cl_session c = Some s \<Longrightarrow> removeAll s (cl_helpers c) = []"
    using inv by (auto simp: handles_inv_def filter_empty_conv removeAll_filter_not_eq)
  let ?d = "fst (Close env c)"
  have f: "cl_listeners ?d = []" "cl_virtualAddrs ?d = []" "cl_session ?d = None" "cl_members ?d = []" "cl_closed ?d"
    "cl_helpers ?d = []" "cl_handles ?d = cl_handles c"
    using none live by (auto simp: Close_def closeVirtualRedirectSession_def closeAllListeners_def close_helper_def Let_def split: option.split)
  have "fst ` set (cl_open ?d) = fst ` set (cl_open c) - snd ` set (cl_listeners c)"
    using live hs by (auto simp: Close_def closeVirtualRedirectSession_def closeAllListeners_def close_helper_def Let_def
        fold_close_open simp del: set_map split: option.split)
  then have o: "fst ` set (cl_open ?d) = set held" using inv by (auto simp: handles_inv_def)
  then show ?thesis using inv by (auto simp: handles_inv_def f o gmap_ok_def)
qed

lemma Close_inv: "handles_inv held c \<Longrightarrow> perm_fn (ce_order env) \<Longrightarrow> handles_inv held (fst (Close env c))"
  using Close_result [of held c env] by (cases "cl_closed c") (simp_all add: Close_def)

lemma watch_inv:
  assumes "handles_inv held c" and "set (cl_helpers c) \<subseteq> - {session}"
  shows "handles_inv held (watchVirtualRedirectSession rng session err c)"
proof -
  have step: "handles_inv held (fold (\<lambda>n c. setForwardState n ForwardListenFailed (m n) (stopForwardListener n c)) ns d)"
    if "handles_inv held d" for m ns d
    using that by (induction ns arbitrary: d) (simp_all add: stop_handle)
  have "cl_helpers c = []" if "cl_session c = Some session"
    using assms that by (cases "cl_helpers c") (auto simp: handles_inv_def)
  then have "handles_inv held (c\<lparr>cl_session := None, cl_members := []\<rparr>)" if "cl_session c = Some session"
    using assms that by (auto simp: handles_inv_def)
  then show ?thesis using assms(1) step
    by (auto simp: watchVirtualRedirectSession_def detachVirtualRedirectSession_def Let_def)
qed

lemma attach_inv:
  assumes "handles_inv held c" and "cl_helpers c = [] \<or> cl_session c \<noteq> None" and "prepared \<noteq> []"
  shows "case attachVirtualRedirectSession prepared (Some s) (c\<lparr>cl_helpers := s # cl_helpers c, cl_handles := Suc (cl_handles c)\<rparr>) of
    (c', ok) \<Rightarrow> if ok then handles_inv held c' else handles_inv held (close_helper s c')"
proof -
  have "set (map pv_name prepared) \<subseteq> fst ` set (cl_listeners c)"
    if "\<forall>p \<in> set prepared. map_of (cl_listeners c) (pv_name p) = Some (pv_listener p)"
    using that by (auto dest!: map_of_SomeD intro: rev_image_eqI)
  moreover have "set (removeAll s (cl_helpers c)) \<subseteq> set (cl_helpers c)" by auto
  ultimately show ?thesis using assms
    by (auto simp: attachVirtualRedirectSession_def handles_inv_def list_ex_iff close_helper_def less_Suc_eq split: option.splits)
qed

section \<open>Runtime records\<close>

definition forward_states :: "string list" where
  "forward_states = [ForwardStarting, ForwardListening, ForwardListenFailed, ForwardReverseWait, ForwardReverseActive,
     ForwardRetrying, ForwardRejected]"

text \<open>\<open>streams\<close> are the records of the streams that run, \<open>None\<close> for a stream without one. Counters are 64-bit.\<close>

definition status_inv :: "nat option list \<Rightarrow> client \<Rightarrow> bool" where
  "status_inv streams c \<longleftrightarrow> gmap_ok (cl_forwards c)
     \<and> (\<forall>p \<in> set (cl_forwards c). snd p < length (cl_runtimes c) \<and> fr_name (cl_runtimes c ! snd p) = fst p)
     \<and> (\<forall>i < length (cl_runtimes c). fr_state (cl_runtimes c ! i) \<in> set forward_states
          \<and> fr_active (cl_runtimes c ! i) = int64 (int (count_list streams (Some i))))
     \<and> (\<forall>i \<ge> length (cl_runtimes c). Some i \<notin> set streams)
     \<and> cl_active c = int64 (int (length streams))"

definition status_part where
  "status_part c = (cl_forwards c, cl_runtimes c, cl_active c)"

lemma status_inv_part: "status_part c = status_part c' \<Longrightarrow> status_inv streams c = status_inv streams c'"
  by (simp add: status_part_def status_inv_def)

lemma int64_add: "int64 (int64 x + 1) = int64 (1 + x)" "int64 (int64 x - 1) = int64 (x - 1)"
  by (simp_all add: int64_def mod_simps algebra_simps)

lemma handles_keep_status [simp]:
  "status_part (fst (net_Listen lr c)) = status_part c" "status_part (close_listener h c) = status_part c"
  "status_part (close_helper s c) = status_part c" "status_part (fst (attachVirtualRedirectSession ps so c)) = status_part c"
  "status_part (fst (detachVirtualRedirectSession rng s c)) = status_part c" "status_part (stopForwardListener n c) = status_part c"
  "status_part (fst (setHealth off now st m e t c)) = status_part c" "status_part (fst (setHealthRetry off now d c)) = status_part c"
  "status_part (fst (finalizeHealthStatus hs c)) = status_part c" "status_part (SetServerVersion v c) = status_part c"
  "status_part (setServerVersionFromResponse resp c) = status_part c" "status_part (fold close_listener lns c) = status_part c"
  by (simp_all add: status_part_def net_Listen_def close_listener_def close_helper_def attachVirtualRedirectSession_def
      detachVirtualRedirectSession_def stopForwardListener_def setHealth_def setHealthRetry_def finalizeHealthStatus_def
      markHealthTerminal_def SetServerVersion_def setServerVersionFromResponse_def Let_def split: sum.split option.split prod.split)

lemma nth_update_any: "j < length xs \<Longrightarrow> xs[i := x] ! j = (if i = j then x else xs ! j)"
  by (cases "i = j") simp_all

lemma update_runtime_inv:
  assumes "status_inv streams c" and "\<And>r. fr_name (f r) = fr_name r" and "\<And>r. fr_active (f r) = fr_active r"
    and "\<And>r. fr_state r \<in> set forward_states \<Longrightarrow> fr_state (f r) \<in> set forward_states"
  shows "status_inv streams (update_runtime i f c)"
  using assms unfolding status_inv_def update_runtime_def by (simp add: nth_update_any)

lemma on_forward_inv:
  assumes "status_inv streams c" and "\<And>r. fr_name (f r) = fr_name r" and "\<And>r. fr_active (f r) = fr_active r"
    and "\<And>r. fr_state r \<in> set forward_states \<Longrightarrow> fr_state (f r) \<in> set forward_states"
  shows "status_inv streams (on_forward n f c)"
  using assms by (auto simp: on_forward_def intro: update_runtime_inv split: option.splits)

lemma set_status_inv [simp]:
  assumes "status_inv streams c"
  shows "s \<in> set forward_states \<Longrightarrow> status_inv streams (setForwardState n s m c)"
    and "status_inv streams (setForwardAddresses n a v c)" and "status_inv streams (recordForwardError n err c)"
  using assms unfolding setForwardState_def setForwardAddresses_def recordForwardError_def
  by (auto intro!: on_forward_inv split: option.split)

lemma count_list_not_in: "x \<notin> set xs \<Longrightarrow> count_list xs x = 0"
  by (induction xs) auto

lemma update_entries: "(n', i) \<in> set (AList.update n k m) \<Longrightarrow> gmap_ok m \<Longrightarrow> n' = n \<and> i = k \<or> (n', i) \<in> set m"
  by (induction m) (auto simp: gmap_ok_def split: if_splits)

lemma init_inv:
  assumes inv: "status_inv streams c" and s: "s \<in> set forward_states"
  shows "status_inv streams (initForward n fwd s m c)"
proof -
  have "count_list streams (Some (length (cl_runtimes c))) = 0"
    using inv by (intro count_list_not_in) (auto simp: status_inv_def)
  moreover have "int64 0 = 0" by (simp add: int64_def)
  moreover have "(n', i) \<in> set (AList.update n (length (cl_runtimes c)) (cl_forwards c)) \<Longrightarrow>
      n' = n \<and> i = length (cl_runtimes c) \<or> (n', i) \<in> set (cl_forwards c)" for n' i
    using inv by (intro update_entries) (auto simp: status_inv_def)
  ultimately show ?thesis
    using inv s unfolding status_inv_def initForward_def
    by (auto simp: nth_append less_Suc_eq simp del: update.simps) fastforce+
qed

lemma begin_inv:
  assumes "status_inv streams c" and "beginForwardStream off now n c = (c', rt)"
  shows "status_inv (rt # streams) c'"
proof (cases "map_of (cl_forwards c) n")
  case None
  have "rt = None" "c' = c\<lparr>cl_total := int64 (cl_total c + 1), cl_active := int64 (cl_active c + 1)\<rparr>"
    using assms(2) None by (simp_all add: beginForwardStream_def on_forward_def Let_def)
  then show ?thesis using assms(1) by (simp add: status_inv_def int64_add)
next
  case (Some i)
  have "i < length (cl_runtimes c)" using assms(1) map_of_SomeD [OF Some] by (auto simp: status_inv_def)
  moreover have "rt = Some i" "cl_forwards c' = cl_forwards c" "cl_active c' = int64 (cl_active c + 1)"
    "\<exists>r. cl_runtimes c' = (cl_runtimes c)[i := (cl_runtimes c ! i)\<lparr>fr_active := int64 (fr_active (cl_runtimes c ! i) + 1),
       fr_total := int64 (fr_total (cl_runtimes c ! i) + 1), fr_lastOpen := r, fr_lastError := []\<rparr>]"
    using assms(2) Some by (auto simp: beginForwardStream_def on_forward_def update_runtime_def Let_def)
  ultimately show ?thesis using assms(1) by (auto simp: status_inv_def int64_add nth_update_any)
qed

lemma end_inv:
  assumes "status_inv streams c" and "rt \<in> set streams"
  shows "status_inv (remove1 rt streams) (endForwardStream off now rt c)"
proof -
  have len: "int (length (remove1 rt streams)) = int (length streams) - 1"
    using length_pos_if_in_set [OF assms(2)] assms(2) by (simp add: length_remove1 int_ops(6))
  have cnt: "int (count_list (remove1 rt streams) x) = int (count_list streams x) - (if x = rt then 1 else 0)" for x
    using assms(2) by (induction streams) auto
  have sub: "set (remove1 rt streams) \<subseteq> set streams" by (rule set_remove1_subset)
  have bound: "i < length (cl_runtimes c)" if "rt = Some i" for i
    using assms that by (auto simp: status_inv_def not_le [symmetric])
  show ?thesis
  proof (cases rt)
    case None
    then show ?thesis using assms(1) sub len cnt
      by (auto simp: endForwardStream_def status_inv_def Let_def int64_add)
  next
    case (Some i)
    moreover have "0 < count_list streams (Some i)" using assms(2) Some by (induction streams) auto
    ultimately show ?thesis using assms(1) sub len cnt bound
      by (auto simp: endForwardStream_def status_inv_def Let_def int64_add update_runtime_def nth_update_any of_nat_diff)
  qed
qed

end
