(* ===== verification/Client_Runs.thy ===== *)
theory Client_Runs
  imports Client_Laws
begin

text \<open>
  A client with everything that runs beside it. The pending work is: a call of \<open>ensureForwardListener\<close>
  before and after it has listened, and the streams that run.
\<close>

datatype pending = Checked string | Listened string nat | Running "nat option"

definition held :: "pending list \<Rightarrow> nat list" where
  "held p = List.map_filter (\<lambda>x. case x of Listened n h \<Rightarrow> Some h | _ \<Rightarrow> None) p"

definition streams :: "pending list \<Rightarrow> nat option list" where
  "streams p = List.map_filter (\<lambda>x. case x of Running rt \<Rightarrow> Some rt | _ \<Rightarrow> None) p"

inductive client_step :: "client \<times> pending list \<Rightarrow> client \<times> pending list \<Rightarrow> bool" where
  ensure_begin: "ensure_check n c = None \<Longrightarrow> client_step (c, p) (c, Checked n # p)"
| ensure_listen: "Checked n \<in> set p \<Longrightarrow> net_Listen lr c = (c', Inr h) \<Longrightarrow>
    client_step (c, p) (c', Listened n h # remove1 (Checked n) p)"
| ensure_fail: "Checked n \<in> set p \<Longrightarrow> net_Listen lr c = (c', Inl err) \<Longrightarrow>
    client_step (c, p) (fst (ensure_register n (Inl err) c'), remove1 (Checked n) p)"
| ensure_end: "Listened n h \<in> set p \<Longrightarrow>
    client_step (c, p) (fst (ensure_register n (Inr h) c), remove1 (Listened n h) p)"
| prepare: "client_step (c, p) (fst (prepareVirtualForwardListener fl lr n fwd c), p)"
| init: "s \<in> set forward_states \<Longrightarrow> client_step (c, p) (initForward n fwd s m c, p)"
| attach: "open_helper c = (c1, s) \<Longrightarrow> prepared \<noteq> [] \<Longrightarrow> attachVirtualRedirectSession prepared (Some s) c1 = (c2, ok) \<Longrightarrow>
    client_step (c, p) (if ok then c2 else close_helper s c2, p)"
| helper_exit: "client_step (c, p) (close_helper s c, p)"
| watch: "s \<notin> set (cl_helpers c) \<Longrightarrow> client_step (c, p) (watchVirtualRedirectSession rng s err c, p)"
| stop: "client_step (c, p) (stopForwardListener n c, p)"
| close: "perm_fn (ce_order env) \<Longrightarrow> client_step (c, p) (fst (Close env c), p)"
| set_state: "s \<in> set forward_states \<Longrightarrow> client_step (c, p) (setForwardState n s m c, p)"
| record_error: "client_step (c, p) (recordForwardError n e c, p)"
| health: "client_step (c, p) (fst (setHealth off now st m e t c), p)"
| retry: "client_step (c, p) (fst (setHealthRetry off now d c), p)"
| finalize: "client_step (c, p) (fst (finalizeHealthStatus hs c), p)"
| version: "client_step (c, p) (SetServerVersion v c, p)"
| stream_open: "beginForwardStream off now n c = (c', rt) \<Longrightarrow> client_step (c, p) (c', Running rt # p)"
| stream_close: "Running rt \<in> set p \<Longrightarrow> client_step (c, p) (endForwardStream off now rt c, remove1 (Running rt) p)"

inductive client_run :: "client \<times> pending list \<Rightarrow> client \<times> pending list \<Rightarrow> bool" where
  none: "client_run s s"
| more: "client_run s t \<Longrightarrow> client_step t u \<Longrightarrow> client_run s u"

section \<open>The invariant of every run\<close>

lemma held_simps [simp]:
  "held [] = []" "held (Checked n # p) = held p" "held (Listened n h # p) = h # held p" "held (Running rt # p) = held p"
  by (simp_all add: held_def map_filter_def)

lemma streams_simps [simp]:
  "streams [] = []" "streams (Checked n # p) = streams p" "streams (Listened n h # p) = streams p"
  "streams (Running rt # p) = rt # streams p"
  by (simp_all add: streams_def map_filter_def)

lemma held_remove1 [simp]:
  "held (remove1 (Checked n) p) = held p" "held (remove1 (Running rt) p) = held p"
  "Listened n h \<in> set p \<Longrightarrow> mset (held p) = add_mset h (mset (held (remove1 (Listened n h) p)))"
proof -
  show "held (remove1 (Checked n) p) = held p" "held (remove1 (Running rt) p) = held p"
    by (induction p; simp; case_tac a; simp)+
  show "Listened n h \<in> set p \<Longrightarrow> mset (held p) = add_mset h (mset (held (remove1 (Listened n h) p)))"
  proof (induction p)
    case (Cons x p)
    then show ?case by (cases x) auto
  qed simp
qed

lemma streams_remove1 [simp]:
  "streams (remove1 (Checked n) p) = streams p" "streams (remove1 (Listened n h) p) = streams p"
proof -
  show "streams (remove1 (Checked n) p) = streams p" "streams (remove1 (Listened n h) p) = streams p"
    by (induction p; simp; case_tac a; simp)+
qed

lemma streams_remove_running: "Running rt \<in> set p \<Longrightarrow> rt \<in> set (streams p) \<and> streams (remove1 (Running rt) p) = remove1 rt (streams p)"
proof (induction p)
  case (Cons x p)
  then show ?case by (cases x) auto
qed simp

lemma handles_inv_mset: "mset xs = mset ys \<Longrightarrow> handles_inv xs c = handles_inv ys c"
proof -
  assume eq: "mset xs = mset ys"
  then have "set xs = set ys" "distinct xs = distinct ys" by (auto dest: mset_eq_setD mset_eq_imp_distinct_iff)
  then show ?thesis by (simp add: handles_inv_def)
qed

lemma fail_listen_status: "status_inv ss c \<Longrightarrow> status_inv ss (fst (fail_listen n err c))"
  by (simp add: fail_listen_def forward_states_def)

lemma prepare_status:
  assumes "status_inv ss c"
  shows "status_inv ss (fst (prepareVirtualForwardListener fl lr n fwd c))"
proof -
  have b: "status_inv ss (fst (bind_virtual_listener lr n fwd va c'))" if "status_inv ss c'" for va c'
  proof (cases "net_Listen lr c'")
    case (Pair c1 r)
    then have "status_inv ss c1" using status_inv_part [OF handles_keep_status(1)] that by (metis fst_conv)
    moreover have "status_inv ss (c2\<lparr>cl_listeners := l, cl_virtualAddrs := v\<rparr>) = status_inv ss c2" for c2 l v
      by (simp add: status_inv_def)
    ultimately show ?thesis
      using status_inv_part [OF handles_keep_status(2)]
      by (cases r) (auto simp: bind_virtual_listener_def Pair Let_def fail_listen_status split: sum.split)
  qed
  have "status_inv ss (c\<lparr>cl_resolver := r\<rparr>)" for r using assms by (simp add: status_inv_def)
  then show ?thesis using b assms
    by (auto simp: prepareVirtualForwardListener_def Let_def fail_listen_status split: sum.split option.split prod.split)
qed

lemma ensure_register_status: "status_inv ss c \<Longrightarrow> status_inv ss (fst (ensure_register n ln c))"
proof -
  assume "status_inv ss c"
  moreover have "status_inv ss (c\<lparr>cl_listeners := l\<rparr>) = status_inv ss c" for l by (simp add: status_inv_def)
  ultimately show ?thesis
    using status_inv_part [OF handles_keep_status(2)]
    by (auto simp: ensure_register_def Let_def forward_states_def split: sum.split)
qed

lemma watch_status: "status_inv ss c \<Longrightarrow> status_inv ss (watchVirtualRedirectSession rng s err c)"
proof -
  assume inv: "status_inv ss c"
  have step: "status_inv ss (fold (\<lambda>n c. setForwardState n ForwardListenFailed (m n) (stopForwardListener n c)) ns d)"
    if "status_inv ss d" for m ns d
    using that
  proof (induction ns arbitrary: d)
    case (Cons n ns)
    have "status_inv ss (stopForwardListener n d)" using Cons.prems status_inv_part [OF handles_keep_status(6)] by blast
    then show ?case using Cons.IH by (simp add: forward_states_def)
  qed simp
  have "status_inv ss (fst (detachVirtualRedirectSession rng s c))"
    using inv status_inv_part [OF handles_keep_status(5)] by blast
  then show ?thesis using inv step by (simp add: watchVirtualRedirectSession_def Let_def split_beta)
qed

lemma Close_status: "status_inv ss c \<Longrightarrow> status_inv ss (fst (Close env c))"
proof -
  have "status_part (fst (Close env c)) = status_part c"
    by (simp add: Close_def closeVirtualRedirectSession_def closeAllListeners_def close_helper_def Let_def split: option.split)
      (simp add: status_part_def)
  then show "status_inv ss c \<Longrightarrow> ?thesis" using status_inv_part by blast
qed

definition run_ok :: "client \<times> pending list \<Rightarrow> bool" where
  "run_ok s \<longleftrightarrow> (case s of (c, p) \<Rightarrow> handles_inv (held p) c \<and> status_inv (streams p) c)"

lemma run_okI: "handles_inv (held p) c \<Longrightarrow> status_inv (streams p) c \<Longrightarrow> run_ok (c, p)"
  by (simp add: run_ok_def)

lemma open_helper_simp: "open_helper c = (c1, s) \<Longrightarrow> s = cl_handles c \<and> c1 = c\<lparr>cl_helpers := s # cl_helpers c, cl_handles := Suc (cl_handles c)\<rparr>"
  by (auto simp: open_helper_def)

lemma close_helper_inv: "handles_inv hs c \<Longrightarrow> handles_inv hs (close_helper s c)"
  by (auto simp: handles_inv_def close_helper_def)

lemma client_step_ok: "client_step s t \<Longrightarrow> run_ok s \<Longrightarrow> run_ok t"
proof (induction rule: client_step.induct)
  case (ensure_begin n c p)
  then show ?case by (simp add: run_ok_def)
next
  case (ensure_listen n p lr c c' h)
  have "status_part c' = status_part c" using handles_keep_status(1) [of lr c] ensure_listen.hyps(2) by simp
  moreover have "status_inv (streams p) c" using ensure_listen.prems by (simp add: run_ok_def)
  ultimately have "status_inv (streams p) c'" using status_inv_part by blast
  then show ?case using ensure_listen listen_handle(1) by (auto simp: run_ok_def)
next
  case (ensure_fail n p lr c c' err)
  then have "c' = c" by (auto simp: net_Listen_def split: sum.splits)
  then show ?case using ensure_fail by (auto simp: run_ok_def intro!: ensure_register_inv ensure_register_status)
next
  case (ensure_end n h p c)
  have "handles_inv (h # held (remove1 (Listened n h) p)) c"
    using ensure_end handles_inv_mset [of "held p" "h # held (remove1 (Listened n h) p)" c] by (simp add: run_ok_def)
  then show ?case using ensure_end by (auto simp: run_ok_def intro!: ensure_register_inv ensure_register_status)
next
  case (prepare c p fl lr n fwd)
  then show ?case by (simp add: run_ok_def prepare_inv prepare_status)
next
  case (init s c p n fwd m)
  then show ?case by (simp add: run_ok_def init_inv)
next
  case (attach c c1 s prepared c2 ok p)
  note o = open_helper_simp [OF attach.hyps(1)]
  have "cl_helpers c = [] \<or> cl_session c \<noteq> None" using attach.prems by (auto simp: run_ok_def handles_inv_def)
  then have "handles_inv (held p) (if ok then c2 else close_helper s c2)"
    using attach_inv [of "held p" c prepared s] attach.prems attach.hyps o by (simp add: run_ok_def split: if_splits)
  moreover have "status_inv (streams p) c1" using attach.prems o by (simp add: run_ok_def status_inv_def)
  then have "status_inv (streams p) c2" using status_inv_part [OF handles_keep_status(4)] attach.hyps(3) by (metis fst_conv)
  then have "status_inv (streams p) (close_helper s c2)" "status_inv (streams p) c2"
    using status_inv_part [OF handles_keep_status(3)] by blast+
  ultimately show ?case by (simp add: run_ok_def)
next
  case (helper_exit c p s)
  then show ?case using status_inv_part [OF handles_keep_status(3)] by (auto simp: run_ok_def close_helper_inv)
next
  case (watch s c p rng err)
  then show ?case by (auto simp: run_ok_def intro!: watch_inv watch_status)
next
  case (stop c p n)
  then show ?case using status_inv_part [OF handles_keep_status(6)] by (auto simp: run_ok_def stop_handle)
next
  case (close env c p)
  then show ?case by (simp add: run_ok_def Close_inv Close_status)
next
  case (set_state s c p n m)
  then show ?case by (simp add: run_ok_def)
next
  case (record_error c p n e)
  then show ?case by (simp add: run_ok_def)
next
  case (health c p off now st m e t)
  then show ?case using status_inv_part [OF handles_keep_status(7)] by (simp add: run_ok_def)
next
  case (retry c p off now d)
  then show ?case using status_inv_part [OF handles_keep_status(8)] by (simp add: run_ok_def)
next
  case (finalize c p hs)
  then show ?case using status_inv_part [OF handles_keep_status(9)] by (simp add: run_ok_def)
next
  case (version c p v)
  then show ?case using status_inv_part [OF handles_keep_status(10)] by (simp add: run_ok_def)
next
  case (stream_open off now n c c' rt p)
  have "handles_inv (held p) (fst (beginForwardStream off now n c))" using stream_open.prems by (simp add: run_ok_def)
  then show ?case using stream_open.prems begin_inv [OF _ stream_open.hyps] stream_open.hyps by (simp add: run_ok_def)
next
  case (stream_close rt p off now c)
  then show ?case using streams_remove_running [OF stream_close.hyps] end_inv by (simp add: run_ok_def)
qed

lemma new_client_ok: "run_ok (new_client cfg, [])"
  by (simp add: run_ok_def handles_inv_def status_inv_def new_client_def gmap_ok_def int64_def)

lemma client_run_ok: "client_run s t \<Longrightarrow> run_ok s \<Longrightarrow> run_ok t"
  by (induction rule: client_run.induct) (auto intro: client_step_ok)

lemma reachable_ok: "client_run (new_client cfg, []) (c, p) \<Longrightarrow> handles_inv (held p) c \<and> status_inv (streams p) c"
  using client_run_ok [OF _ new_client_ok] by (fastforce simp: run_ok_def)

section \<open>Properties\<close>

text \<open>C10. 
  In every state of every run the listeners that are open are exactly the ones registered under a name or
  held by a call of \<open>ensureForwardListener\<close> that has not finished, each once; a helper that runs belongs
  to the current session; a forward that is a member of the session has its listener; and without
  members there is no session.\<close>

theorem open_listeners_known:
  assumes "client_run (new_client cfg, []) (c, p)"
  shows "fst ` set (cl_open c) = snd ` set (cl_listeners c) \<union> set (held p)
    \<and> distinct (map snd (cl_listeners c) @ held p) \<and> set (cl_helpers c) \<subseteq> set_option (cl_session c)
    \<and> set (cl_members c) \<subseteq> dom (map_of (cl_listeners c)) \<and> (cl_session c = None \<longleftrightarrow> cl_members c = [])"
  using reachable_ok [OF assms] by (simp add: handles_inv_def dom_map_of_conv_image_fst)


text \<open>
  \<open>Close\<close> on any client that no call of \<open>ensureForwardListener\<close> is still working on leaves no listener and no
  helper open; at any other moment only the listeners those calls hold stay open.\<close>

theorem close_releases_listeners:
  assumes "client_run (new_client cfg, []) (c, p)" and "\<not> cl_closed c" and "perm_fn (ce_order env)"
  shows "fst ` set (cl_open (fst (Close env c))) = set (held p) \<and> cl_helpers (fst (Close env c)) = []
    \<and> cl_closed (fst (Close env c)) \<and> cl_listeners (fst (Close env c)) = []"
  using Close_result [of "held p" c env] reachable_ok [OF assms(1)] assms(2,3) by simp

section \<open>Starting\<close>

lemma fail_virtual_inv: "handles_inv hs c \<Longrightarrow> handles_inv hs (fail_virtual err ps c)"
  unfolding fail_virtual_def by (induction ps arbitrary: c) (simp_all add: stop_handle)

lemma activate_inv: "handles_inv hs c \<Longrightarrow> handles_inv hs (fold activateVirtualForward ps c)"
  by (induction ps arbitrary: c) (simp_all add: activateVirtualForward_def)

lemma start_forwards_inv: "handles_inv hs c \<Longrightarrow> handles_inv hs (fst (start_forwards env k fwds c v))"
proof (induction env k fwds c v rule: start_forwards.induct)
  case (2 env k fwd rest c v)
  let ?n = "forwardName fwd"
  let ?c = "initForward ?n fwd ForwardStarting msg_entry_starting c"
  have "handles_inv hs (fst (prepareVirtualForwardListener (se_files env) (se_listen env k) ?n fwd ?c))"
    "handles_inv hs (fst (ensureForwardListener (se_listen env k) ?n ?c))"
    using "2.prems" by (simp_all add: prepare_inv ensure_inv)
  then show ?case using 2
    by (auto simp: Let_def split: prod.splits sum.splits option.splits)
qed simp

lemma start_virtual_inv:
  assumes "handles_inv hs c"
  shows "handles_inv hs (fst (start_virtual env c v))"
proof -
  have h: "cl_helpers c = [] \<or> cl_session c \<noteq> None" using assms by (auto simp: handles_inv_def)
  have "handles_inv hs (fst (case attachVirtualRedirectSession (sv_virtual v) (Some (cl_handles c))
          (c\<lparr>cl_helpers := cl_handles c # cl_helpers c, cl_handles := Suc (cl_handles c)\<rparr>) of
        (c', False) \<Rightarrow> (fail_virtual err (sv_virtual v) (close_helper (cl_handles c) c'), w)
      | (c', True) \<Rightarrow> (fold activateVirtualForward (sv_virtual v) c', w')))" if "sv_virtual v \<noteq> []" for err w w'
    using attach_inv [OF assms h that, of "cl_handles c"] by (auto simp: fail_virtual_inv activate_inv split: prod.splits bool.splits)
  then show ?thesis using assms
    by (auto simp: start_virtual_def open_helper_def Let_def fail_virtual_inv split: sum.split bool.split)
qed

lemma closed_simps [simp]:
  "cl_closed (setForwardState n s m c) = cl_closed c" "cl_closed (initForward n fwd s m c) = cl_closed c"
  "cl_closed (setForwardAddresses n a v c) = cl_closed c" "cl_closed (stopForwardListener n c) = cl_closed c"
  "cl_closed (fst (net_Listen lr c)) = cl_closed c" "cl_closed (fst (fail_listen n e c)) = cl_closed c"
  "cl_closed (close_helper h c) = cl_closed c" "cl_closed (fst (attachVirtualRedirectSession ps so c)) = cl_closed c"
  by (simp_all add: setForwardState_def initForward_def setForwardAddresses_def stopForwardListener_def net_Listen_def
      fail_listen_def close_helper_def attachVirtualRedirectSession_def Let_def split: sum.split option.split)

lemma ensure_closed [simp]: "cl_closed (fst (ensureForwardListener lr n c)) = cl_closed c"
  by (simp add: ensureForwardListener_def ensure_register_def Let_def split_beta split: option.split sum.split)

lemma prepare_closed [simp]: "cl_closed (fst (prepareVirtualForwardListener fl lr n fwd c)) = cl_closed c"
proof -
  have "cl_closed (fst (bind_virtual_listener lr n fwd va c')) = cl_closed c'" for va c'
    using closed_simps(5) [of lr c']
    by (cases "net_Listen lr c'"; cases "snd (net_Listen lr c')")
      (auto simp: bind_virtual_listener_def Let_def split: sum.split)
  then show ?thesis
    by (simp add: prepareVirtualForwardListener_def Let_def split: sum.split option.split)
qed

lemma start_forwards_closed: "cl_closed (fst (start_forwards env k fwds c v)) = cl_closed c"
proof (induction env k fwds c v rule: start_forwards.induct)
  case (2 env k fwd rest c v)
  let ?n = "forwardName fwd"
  let ?c = "initForward ?n fwd ForwardStarting msg_entry_starting c"
  obtain c1 r1 where p: "prepareVirtualForwardListener (se_files env) (se_listen env k) ?n fwd ?c = (c1, r1)" by fastforce
  obtain c2 r2 where e: "ensureForwardListener (se_listen env k) ?n ?c = (c2, r2)" by fastforce
  have "cl_closed c1 = cl_closed c" "cl_closed c2 = cl_closed c"
    using arg_cong [OF p, of "\<lambda>x. cl_closed (fst x)"] arg_cong [OF e, of "\<lambda>x. cl_closed (fst x)"] by simp_all
  then show ?case using 2 by (auto simp: Let_def p e split: sum.splits option.splits)
qed simp

lemma start_virtual_closed: "cl_closed (fst (start_virtual env c v)) = cl_closed c"
proof -
  have f: "cl_closed (fail_virtual err ps c') = cl_closed c'" "cl_closed (fold activateVirtualForward ps c') = cl_closed c'" for err ps c'
    unfolding fail_virtual_def by (induction ps arbitrary: c') (simp_all add: activateVirtualForward_def)
  obtain c' ok where a: "attachVirtualRedirectSession (sv_virtual v) (Some (cl_handles c))
      (c\<lparr>cl_helpers := cl_handles c # cl_helpers c, cl_handles := Suc (cl_handles c)\<rparr>) = (c', ok)" by fastforce
  from arg_cong [OF this, of "\<lambda>x. cl_closed (fst x)"] have "cl_closed c' = cl_closed c" by simp
  then show ?thesis
    by (auto simp: start_virtual_def open_helper_def Let_def f a split: sum.split bool.split)
qed

text \<open>
  \<open>start\<close> with its parts running in order: an error leaves no listener and no helper open, and a client
  that it returns has exactly the listeners open that it knows, and a helper only for its session.\<close>

theorem failed_start_leaves_nothing:
  assumes "start env cfg serverVersion verified = (c, err)" and "perm_fn (ce_order (se_close env))"
  shows "if err = None then fst ` set (cl_open c) = snd ` set (cl_listeners c) \<and> set (cl_helpers c) \<subseteq> set_option (cl_session c) \<and> \<not> cl_closed c
    else cl_open c = [] \<and> cl_helpers c = [] \<and> cl_listeners c = []"
proof -
  define cfg' where "cfg' = client_ApplyDefaults (se_hostname env) cfg"
  have new: "handles_inv [] (new_client cfg')" "cl_closed (new_client cfg') = False"
    by (simp_all add: handles_inv_def new_client_def gmap_ok_def)
  define c1 where "c1 = (if verified
      then SetServerVersion serverVersion (fst (setHealth (se_off env) (se_now env) HealthOK msg_healthy [] False (new_client cfg')))
      else fst (setHealth (se_off env) (se_now env) HealthChecking msg_health_waiting [] False (new_client cfg')))"
  have c1: "handles_inv [] c1" using new(1) by (simp add: c1_def)
  define v0 where "v0 = \<lparr>sv_usable = 0, sv_blocking = 0, sv_cancelled = False, sv_err = None, sv_virtual = []\<rparr>"
  obtain c2 v where c2: "start_forwards env 0 (cc_Forwards cfg') c1 v0 = (c2, v)" by fastforce
  obtain c3 w where c3: "start_virtual env c2 v = (c3, w)" by fastforce
  have inv3: "handles_inv [] c3"
    using start_virtual_inv [OF start_forwards_inv [OF c1], of env env 0 "cc_Forwards cfg'" v0 v] c2 c3 by simp
  have "cl_closed c3 = cl_closed c1"
    using start_virtual_closed [of env c2 v] start_forwards_closed [of env 0 "cc_Forwards cfg'" c1 v0] c2 c3 by simp
  then have live: "\<not> cl_closed c3" by (simp add: c1_def setHealth_def SetServerVersion_def Let_def new(2))
  note closed = Close_result [OF inv3 assms(2) live]
  have result: "c = c3 \<and> err = None \<or> c = fst (Close (se_close env) c3) \<and> err \<noteq> None \<or> c = new_client cfg' \<and> err \<noteq> None"
    using assms(1) by (auto simp: start_def Let_def cfg'_def [symmetric] c1_def [symmetric] v0_def [symmetric] c2 c3 split: sum.splits if_splits)
  then show ?thesis using inv3 closed live by (auto simp: handles_inv_def new_client_def)
qed


end
