(* ===== verification/Client_Health.thy ===== *)
theory Client_Health
  imports Client_Runs Client_Errors_Laws Client_Config_Laws
begin

text \<open>
  The health loop of the client ends when the server stays unreachable or refuses the login.
\<close>

definition turn_fails :: "clientConfig \<Rightarrow> network \<Rightarrow> bool" where
  "turn_fails cfg net \<longleftrightarrow> ex_tls (net (newOpenRequest cfg ''health'')) \<noteq> None
     \<or> snd (checkServerResponseWithTLS net cfg ''health'') \<noteq> None"

abbreviation (input) failures :: "client \<Rightarrow> int" where
  "failures c \<equiv> hs_ConsecutiveFailures (cl_health c)"

lemma health_states_differ [simp]:
  "HealthAuthError \<noteq> HealthServerUnavailable" "HealthServerUnavailable \<noteq> HealthAuthError"
  "HealthAuthError \<noteq> HealthOK" "HealthServerUnavailable \<noteq> HealthOK"
  "HealthAuthError \<noteq> HealthChecking" "HealthServerUnavailable \<noteq> HealthChecking"
  "HealthOK \<noteq> HealthAuthError" "HealthOK \<noteq> HealthServerUnavailable"
  by (simp_all add: health_state_defs)

text \<open>A failed check: one more failure; the status is terminal for an authentication error and from the sixth failure on.\<close>

lemma health_failed_result:
  assumes "health_failed off now err c = (c', h)" and "0 \<le> failures c" and "failures c < 2 ^ 62"
  shows "failures c' = failures c + 1" and "cl_closed c' = cl_closed c" and "cl_cfg c' = cl_cfg c" and "cl_health c' = h"
    and "hs_Terminal h \<longleftrightarrow> fst (classifyHealthError (Some err)) = HealthAuthError \<or> failures c + 1 \<ge> 6"
    and "hs_State h = fst (classifyHealthError (Some err))"
proof -
  obtain state message where cl: "classifyHealthError (Some err) = (state, message)" by fastforce
  have st: "state = HealthAuthError \<or> state = HealthServerUnavailable" using health_states [of err] cl by simp
  have i: "int64 (failures c + 1) = failures c + 1" using assms(2,3) by (intro int64_id) auto
  define h1 where "h1 = snd (setHealth off now state message (error_text err) (state = HealthAuthError) c)"
  have h1: "hs_ConsecutiveFailures h1 = failures c + 1" "hs_State h1 = state" "hs_Terminal h1 = (state = HealthAuthError)"
    using st by (auto simp: h1_def setHealth_def Let_def i)
  have set: "setHealth off now state message (error_text err) (state = HealthAuthError) c = (c\<lparr>cl_health := h1\<rparr>, h1)"
    by (simp add: h1_def setHealth_def Let_def)
  have r: "finalizeHealthStatus h1 (c\<lparr>cl_health := h1\<rparr>) = (c', h)"
    using assms(1) by (simp add: health_failed_def finish_health_def cl set)
  consider "state = HealthAuthError" | "state = HealthServerUnavailable" "failures c + 1 \<ge> 6" | "state = HealthServerUnavailable" "failures c + 1 < 6"
    using st by linarith
  then show "failures c' = failures c + 1" "cl_closed c' = cl_closed c" "cl_cfg c' = cl_cfg c" "cl_health c' = h"
    "hs_Terminal h \<longleftrightarrow> fst (classifyHealthError (Some err)) = HealthAuthError \<or> failures c + 1 \<ge> 6"
    "hs_State h = fst (classifyHealthError (Some err))"
    by (cases; use r h1 cl in \<open>auto simp: finalizeHealthStatus_def markHealthTerminal_def healthMaxReconnectFailures_def Let_def\<close>)+
qed

lemma CheckHealthNow_fails:
  assumes "turn_fails (cl_cfg c) net"
  shows "\<exists>err. CheckHealthNow net off now c = health_failed off now err c"
proof (cases "ex_tls (net (newOpenRequest (cl_cfg c) ''health''))")
  case None
  then obtain resp err where "checkServerResponseWithTLS net (cl_cfg c) ''health'' = (resp, Some err)"
    using assms by (cases "checkServerResponseWithTLS net (cl_cfg c) ''health''") (auto simp: turn_fails_def)
  then show ?thesis using None by (auto simp: CheckHealthNow_def)
qed (auto simp: CheckHealthNow_def)

lemma fold_close_health: "cl_health (fold close_listener hs c) = cl_health c"
  by (induction hs arbitrary: c) (simp_all add: close_listener_def)

lemma Close_health: "cl_closed (fst (Close env c)) \<and> cl_health (fst (Close env c)) = cl_health c"
  by (simp add: Close_def closeVirtualRedirectSession_def closeAllListeners_def close_helper_def fold_close_health Let_def
      split: option.split)

lemma retry_keeps [simp]:
  "hs_ConsecutiveFailures (cl_health (fst (setHealthRetry off now d c))) = failures c"
  "cl_cfg (fst (setHealthRetry off now d c)) = cl_cfg c" "cl_closed (fst (setHealthRetry off now d c)) = cl_closed c"
  by (simp_all add: setHealthRetry_def Let_def)

lemma failing_turn:
  assumes "turn_fails (cl_cfg c) net" and "0 \<le> failures c" and "failures c < 2 ^ 62" and "health_turn env net off n1 n2 c = (c', d)"
  shows "(d = None \<and> cl_closed c' \<and> hs_Terminal (cl_health c'))
    \<or> (d \<noteq> None \<and> failures c' = failures c + 1 \<and> failures c + 1 < 6 \<and> cl_cfg c' = cl_cfg c \<and> cl_closed c' = cl_closed c)"
proof -
  obtain err where e: "CheckHealthNow net off n1 c = health_failed off n1 err c" using CheckHealthNow_fails [OF assms(1)] by blast
  obtain c1 h where h: "health_failed off n1 err c = (c1, h)" by fastforce
  note r = health_failed_result [OF h assms(2,3)]
  show ?thesis
  proof (cases "hs_Terminal h")
    case True
    then show ?thesis using assms(4) r Close_health [of env c1] by (auto simp: health_turn_def e h shouldStopAfterHealth_def)
  next
    case False
    have "finalizeHealthStatus h c1 = (c1, h)"
      using False r health_states [of err] by (auto simp: finalizeHealthStatus_def healthMaxReconnectFailures_def)
    then show ?thesis using assms(4) False r
      by (auto simp: health_turn_def e h shouldStopAfterHealth_def Let_def)
  qed
qed

lemma health_loop_ends:
  "list_all (\<lambda>(net, _). turn_fails (cl_cfg c) net) turns \<Longrightarrow> 0 \<le> failures c \<Longrightarrow> failures c < 6 \<Longrightarrow>
   6 \<le> failures c + int (length turns) \<Longrightarrow>
   \<exists>c'. healthLoop env off turns c = (c', True) \<and> cl_closed c' \<and> hs_Terminal (cl_health c')"
proof (induction turns arbitrary: c)
  case (Cons t turns)
  obtain net n1 n2 where t: "t = (net, n1, n2)" by (cases t) auto
  obtain c1 d where turn: "health_turn env net off n1 n2 c = (c1, d)" by fastforce
  have "turn_fails (cl_cfg c) net" "failures c < 2 ^ 62" using Cons.prems t by auto
  from failing_turn [OF this(1) Cons.prems(2) this(2) turn] show ?case
    using Cons.IH [of c1] Cons.prems by (cases d) (auto simp: t turn)
qed simp

text \<open>C19. 
  While every health check fails, the loop ends after at most six turns whatever the errors are, and it ends
  with the client closed and the status terminal.\<close>

theorem health_loop_gives_up:
  assumes "list_all (\<lambda>(net, _). turn_fails (cl_cfg c) net) turns" and "0 \<le> hs_ConsecutiveFailures (cl_health c)"
    and "hs_ConsecutiveFailures (cl_health c) < 6" and "length turns = 6"
  shows "\<exists>c'. healthLoop env off turns c = (c', True) \<and> cl_closed c' \<and> hs_Terminal (cl_health c')"
  using health_loop_ends [of c turns env off] assms by simp

definition sample_network :: network where
  "sample_network = (\<lambda>req. \<lparr>ex_tls = None, ex_dial = Some (Sentinel ''EOF''), ex_write = None, ex_read = (zero_response, None)\<rparr>)"

definition sample_close :: close_env where
  "sample_close = \<lparr>ce_session = None, ce_listener = (\<lambda>_. None), ce_order = (\<lambda>xs. xs)\<rparr>"

theorem health_loop_gives_up_witness:
  "\<exists>c'. healthLoop sample_close 0 (replicate 6 (sample_network, 1, 2)) (new_client sample_client_config) = (c', True)
     \<and> cl_closed c' \<and> hs_Terminal (cl_health c')"
  by (rule health_loop_gives_up)
    (simp_all add: list_all_iff new_client_def zero_health_def turn_fails_def sample_network_def checkServerResponseWithTLS_def ask_def)

theorem close_releases_listeners_witness:
  "cl_open (fst (Close sample_close (new_client sample_client_config))) = []"
proof -
  have "perm_fn (ce_order sample_close)" by (simp add: sample_close_def perm_fn_def)
  from close_releases_listeners [OF client_run.none _ this, of sample_client_config] show ?thesis
    by (simp add: new_client_def)
qed

section \<open>An example\<close>

definition sample_forward :: clientForward where
  "sample_forward = \<lparr>cf_Name = ''ssh'', cf_Direction = DirectionClientToServer, cf_ListenAddr = ''127.0.0.1:2222'', cf_ServerTarget = ''127.0.0.1:22''\<rparr>"

definition sample_start_env :: start_env where
  "sample_start_env =
     \<lparr>se_hostname = Inr ''pc'', se_materials = (\<lambda>_. Inr (\<lparr>tc_MinVersion = 772, tc_ServerName = [], tc_InsecureSkipVerify = False, tc_RootCAs = ''ca''\<rparr>, ''key'')),
      se_files = sample_client_files, se_listen = (\<lambda>_. Inr (''127.0.0.1:2222'', 2222)), se_session = (\<lambda>_. Inr True),
      se_close = sample_close, se_off = 0, se_now = 0\<rparr>"

definition sample_started :: client where
  "sample_started = fst (start sample_start_env (sample_client_config\<lparr>cc_Forwards := [sample_forward]\<rparr>) ''3.1.1'' True)"

lemma sample_start: "start sample_start_env (sample_client_config\<lparr>cc_Forwards := [sample_forward]\<rparr>) ''3.1.1'' True = (sample_started, None)"
  by code_simp

lemma sample_started_open: "cl_open sample_started = [(0, ''127.0.0.1:2222'')]" "cl_listeners sample_started = [(''ssh'', 0)]"
  by code_simp+

theorem failed_start_leaves_nothing_witness:
  "fst ` set (cl_open sample_started) = snd ` set (cl_listeners sample_started) \<and> cl_open sample_started \<noteq> []"
proof -
  have "perm_fn (ce_order (se_close sample_start_env))" by (simp add: sample_start_env_def sample_close_def perm_fn_def)
  from failed_start_leaves_nothing [OF sample_start this] show ?thesis by (simp add: sample_started_open)
qed

definition sample_client0 :: client where
  "sample_client0 = initForward ''ssh'' sample_forward ForwardStarting [] (new_client sample_client_config)"

definition sample_client1 :: client where
  "sample_client1 = fst (net_Listen (Inr (''127.0.0.1:2222'', 2222)) sample_client0)"

definition sample_client2 :: client where
  "sample_client2 = fst (beginForwardStream 0 0 ''ssh'' (fst (ensure_register ''ssh'' (Inr 0) sample_client1)))"

lemma sample_run2: "client_run (new_client sample_client_config, []) (sample_client2, [Running (Some 0)])"
proof -
  have i: "client_step (new_client sample_client_config, []) (sample_client0, [])"
    unfolding sample_client0_def by (rule client_step.init) (simp add: forward_states_def)
  have c: "client_step (sample_client0, []) (sample_client0, [Checked ''ssh''])"
    by (rule client_step.ensure_begin) (simp add: ensure_check_def sample_client0_def initForward_def new_client_def)
  have l: "client_step (sample_client0, [Checked ''ssh'']) (sample_client1, [Listened ''ssh'' 0])"
    using client_step.ensure_listen [of "''ssh''" "[Checked ''ssh'']" "Inr (''127.0.0.1:2222'', 2222)" sample_client0 sample_client1 0]
    by (simp add: sample_client1_def net_Listen_def sample_client0_def initForward_def new_client_def)
  let ?c = "fst (ensure_register ''ssh'' (Inr 0) sample_client1)"
  have e: "client_step (sample_client1, [Listened ''ssh'' 0]) (?c, [])"
    using client_step.ensure_end [of "''ssh''" 0 "[Listened ''ssh'' 0]" sample_client1] by simp
  have rt: "beginForwardStream 0 0 ''ssh'' ?c = (sample_client2, Some 0)" by code_simp
  show ?thesis
    by (rule client_run.more [OF client_run.more [OF client_run.more [OF client_run.more
        [OF client_run.more [OF client_run.none i] c] l] e] client_step.stream_open [OF rt]])
qed

theorem open_listeners_known_witness:
  "fst ` set (cl_open sample_client2) = {0} \<and> distinct (map snd (cl_listeners sample_client2))"
proof -
  have "cl_listeners sample_client2 = [(''ssh'', 0)]" by code_simp
  then show ?thesis using open_listeners_known [OF sample_run2] by simp
qed


end
