(* ===== verification/Go_Yaml.thy ===== *)
theory Go_Yaml
  imports Go_Errors
begin

text \<open>
  What the code uses of \<open>gopkg.in/yaml.v3\<close>'s \<open>yaml.Node\<close>: the kind, the tag, the value and the content of a
  node. Parsing a text into a node and decoding into a struct are arguments of the operations. A pointer
  that may be nil is an option.
\<close>

datatype yaml_kind = ZeroNode | DocumentNode | SequenceNode | MappingNode | ScalarNode | AliasNode

datatype yaml_node = Yaml_Node (node_kind: yaml_kind) (node_tag: string) (node_value: string) (node_content: "yaml_node list")

abbreviation scalar_node :: "string \<Rightarrow> string \<Rightarrow> yaml_node" where
  "scalar_node tag v \<equiv> Yaml_Node ScalarNode tag v []"

definition is_scalar :: "yaml_node \<Rightarrow> bool" where
  \<comment> \<open>not \<open>node.Kind != yaml.ScalarNode || node.Tag == "!!null"\<close>\<close>
  "is_scalar n \<longleftrightarrow> node_kind n = ScalarNode \<and> node_tag n \<noteq> ''!!null''"

text \<open>The content of a mapping: keys and values in turn; a last key without a value is ignored.\<close>

fun mapping_pairs :: "yaml_node list \<Rightarrow> (yaml_node \<times> yaml_node) list" where
  "mapping_pairs (k # v # rest) = (k, v) # mapping_pairs rest"
| "mapping_pairs _ = []"

text \<open>The root mapping of a parsed text; \<open>what\<close> names the file in the messages.\<close>

definition root_mapping :: "string \<Rightarrow> yaml_node res \<Rightarrow> yaml_node res" where
  "root_mapping what parsed =
     (case parsed of Inl err \<Rightarrow> Inl err
      | Inr document \<Rightarrow>
          if node_kind document \<noteq> DocumentNode \<or> length (node_content document) \<noteq> 1
          then Inl (Errorf (what @ '' must contain one YAML document'') [])
          else (let root = node_content document ! 0
                in if node_kind root \<noteq> MappingNode then Inl (Errorf (what @ '' must be a mapping'') []) else Inr root))"

text \<open>The node of a mapping written by \<open>yaml.Marshal\<close> for a struct.\<close>

definition mapping_node :: "(string \<times> yaml_node) list \<Rightarrow> yaml_node" where
  "mapping_node fs = Yaml_Node MappingNode ''!!map'' [] (concat (map (\<lambda>(k, v). [scalar_node ''!!str'' k, v]) fs))"

lemma mapping_pairs_node [simp]:
  "mapping_pairs (concat (map (\<lambda>(k, v). [scalar_node ''!!str'' k, v]) fs)) = map (\<lambda>(k, v). (scalar_node ''!!str'' k, v)) fs"
  by (induction fs) auto

end
