(* ===== verification/Client_Compat.thy ===== *)
theory Client_Compat
  imports Go_Yaml Client_Config
begin

text \<open>
  Loading, checking and saving the client configuration: \<open>client/tunnel/config_compat.go\<close>, and
  \<open>UnmarshalYAML\<close>, \<open>LoadConfig\<close>, \<open>LoadConfigRaw\<close> and \<open>SaveConfig\<close> of \<open>client/tunnel/config.go\<close>. The YAML library is
  the record \<open>client_yaml\<close>.
\<close>

text \<open>\<open>cy_rest\<close> is the second \<open>Decode\<close> of the strict decoder: \<open>None\<close> is \<open>io.EOF\<close>, \<open>Some None\<close> another document.\<close>

record client_yaml =
  cy_parse :: "string \<Rightarrow> yaml_node res"
  cy_int :: "yaml_node \<Rightarrow> int res"
  cy_rawForward :: "yaml_node \<Rightarrow> clientForward res"
  cy_strict :: "(yaml_node option \<Rightarrow> clientForward res) \<Rightarrow> string \<Rightarrow> clientConfig res"
  cy_rest :: "string \<Rightarrow> go_error option option"
  cy_marshal :: "clientConfig \<Rightarrow> string res"

section \<open>Reading a node\<close>

fun clientYAMLfields :: "string \<Rightarrow> (yaml_node \<times> yaml_node) list \<Rightarrow> (string, yaml_node) gomap \<Rightarrow> (string, yaml_node) gomap res" where
  "clientYAMLfields path [] fs = Inr fs"
| "clientYAMLfields path ((key, v) # rest) fs =
     (if node_kind key \<noteq> ScalarNode then Inl (Errorf ''%s contains an invalid key'' [FS path])
      else if map_of fs (node_value key) \<noteq> None
      then Inl (Errorf ''%s contains duplicate field %s'' [FS path, FS (node_value key)])
      else clientYAMLfields path rest (AList.update (node_value key) v fs))"

definition clientYAMLMappingFields :: "yaml_node option \<Rightarrow> string \<Rightarrow> (string, yaml_node) gomap res" where
  "clientYAMLMappingFields node path =
     (case node of None \<Rightarrow> Inl (Errorf ''%s must be a mapping'' [FS path])
      | Some n \<Rightarrow> if node_kind n \<noteq> MappingNode then Inl (Errorf ''%s must be a mapping'' [FS path])
                  else clientYAMLfields path (mapping_pairs (node_content n)) [])"

definition clientYAMLRootMapping :: "client_yaml \<Rightarrow> string \<Rightarrow> yaml_node res" where
  "clientYAMLRootMapping ye data = root_mapping ''client config'' (cy_parse ye data)"

definition clientYAMLRequiredField :: "(string, yaml_node) gomap \<Rightarrow> string \<Rightarrow> string \<Rightarrow> yaml_node res" where
  "clientYAMLRequiredField fs path name =
     (case map_of fs name of None \<Rightarrow> Inl (Errorf ''%s is missing required field %s'' [FS path, FS name]) | Some n \<Rightarrow> Inr n)"

definition clientYAMLRequireScalar :: "(string, yaml_node) gomap \<Rightarrow> string \<Rightarrow> string \<Rightarrow> go_error option" where
  "clientYAMLRequireScalar fs path name =
     (case clientYAMLRequiredField fs path name of Inl err \<Rightarrow> Some err
      | Inr n \<Rightarrow> if \<not> is_scalar n then Some (Errorf ''%s.%s must be a value'' [FS path, FS name]) else None)"

definition clientYAMLRequireOptionalScalar :: "(string, yaml_node) gomap \<Rightarrow> string \<Rightarrow> string \<Rightarrow> go_error option" where
  "clientYAMLRequireOptionalScalar fs path name =
     (case map_of fs name of None \<Rightarrow> None
      | Some n \<Rightarrow> if node_tag n = ''!!null'' then None
                  else if node_kind n \<noteq> ScalarNode then Some (Errorf ''%s.%s must be a value'' [FS path, FS name]) else None)"

section \<open>The structure of a versioned configuration\<close>

definition validateClientScalarMapping :: "yaml_node option \<Rightarrow> string \<Rightarrow> string list \<Rightarrow> go_error option" where
  "validateClientScalarMapping node path names =
     (case clientYAMLMappingFields node path of Inl err \<Rightarrow> Some err
      | Inr fs \<Rightarrow> first_error (map (clientYAMLRequireScalar fs path) names))"

definition validateClientSavedCredentialStructure :: "yaml_node option \<Rightarrow> go_error option" where
  "validateClientSavedCredentialStructure node =
     (let path = ''client config.saved_credential''
      in case clientYAMLMappingFields node path of Inl err \<Rightarrow> Some err
         | Inr fs \<Rightarrow> if fs = [] then None
             else first_error (map (clientYAMLRequireScalar fs path) [''type'', ''key_id'', ''expires_at'', ''ciphertext'']))"

definition client_forward_structure :: "nat \<times> yaml_node \<Rightarrow> go_error option" where
  \<comment> \<open>the body of the loop of \<open>validateClientForwardsStructure\<close>\<close>
  "client_forward_structure = (\<lambda>(index, forward).
     (let path = Sprintf ''client config.forwards[%d]'' [FI (int index)]
      in case clientYAMLMappingFields (Some forward) path of Inl err \<Rightarrow> Some err
         | Inr fs \<Rightarrow> first_error (map (clientYAMLRequireScalar fs path) [''name'', ''direction'', ''listen_addr'', ''server_target''])))"

definition validateClientForwardsStructure :: "yaml_node option \<Rightarrow> go_error option" where
  "validateClientForwardsStructure node =
     (case node of None \<Rightarrow> Some (Errorf ''client config.forwards must be a list'' [])
      | Some n \<Rightarrow> if node_kind n \<noteq> SequenceNode then Some (Errorf ''client config.forwards must be a list'' [])
                  else first_error (map client_forward_structure (zip [0..<length (node_content n)] (node_content n))))"

definition required_client_fields :: "string list" where
  "required_client_fields = [''config_version'', ''requires'', ''server_addr'', ''username'', ''password'', ''password_env'',
     ''password_file'', ''saved_credential'', ''client_id'', ''log_level'', ''tls'', ''connection'', ''forwards'']"

definition scalar_client_fields :: "string list" where
  "scalar_client_fields = [''config_version'', ''server_addr'', ''username'', ''password'', ''password_env'', ''password_file'',
     ''client_id'', ''log_level'']"

definition validateVersionedClientConfigStructure :: "client_yaml \<Rightarrow> string \<Rightarrow> go_error option" where
  "validateVersionedClientConfigStructure ye data =
     (case clientYAMLRootMapping ye data of Inl err \<Rightarrow> Some err
      | Inr root \<Rightarrow>
         (case clientYAMLMappingFields (Some root) ''client config'' of Inl err \<Rightarrow> Some err
          | Inr tops \<Rightarrow>
              first_error
                (map (\<lambda>name. case clientYAMLRequiredField tops ''client config'' name of Inl err \<Rightarrow> Some err | Inr _ \<Rightarrow> None)
                   required_client_fields @
                 map (clientYAMLRequireScalar tops ''client config'') scalar_client_fields @
                 [clientYAMLRequireOptionalScalar tops ''client config'' ''remark'',
                  validateClientScalarMapping (map_of tops ''requires'') ''client config.requires'' [''min_client_version''],
                  validateClientSavedCredentialStructure (map_of tops ''saved_credential''),
                  validateClientScalarMapping (map_of tops ''tls'') ''client config.tls''
                    [''ca_cert_file'', ''server_name'', ''min_version'', ''insecure_skip_verify''],
                  validateClientScalarMapping (map_of tops ''connection'') ''client config.connection'' [''dial_timeout_sec''],
                  validateClientForwardsStructure (map_of tops ''forwards'')])))"

section \<open>Decoding\<close>

definition forward_field_check :: "clientForward \<Rightarrow> string \<Rightarrow> go_error option" where
  \<comment> \<open>the body of the loop of \<open>UnmarshalYAML\<close>\<close>
  "forward_field_check raw field =
     (let name = TrimSpace (cf_Name raw); name = (if name = [] then ''<unnamed>'' else name)
      in if field \<in> {''name'', ''direction'', ''listen_addr'', ''server_target''} then None
         else if field = ''listen_port'' \<and> TrimSpace (cf_Direction raw) = DirectionServerToClient
         then Some (Errorf ''forward %q server_to_client client config must not include listen_port; use listen_addr and server_target'' [FS name])
         else Some (Errorf ''forward %q contains unknown field %q'' [FS name, FS field]))"

definition forward_UnmarshalYAML :: "client_yaml \<Rightarrow> yaml_node option \<Rightarrow> clientForward res" where
  "forward_UnmarshalYAML ye node =
     (case node of None \<Rightarrow> Inl (Errorf ''forward must be a mapping'' [])
      | Some n \<Rightarrow>
          if node_kind n \<noteq> MappingNode then Inl (Errorf ''forward must be a mapping'' [])
          else (case cy_rawForward ye n of Inl err \<Rightarrow> Inl err
           | Inr raw \<Rightarrow>
               (case first_error (map (\<lambda>(k, v). forward_field_check raw (node_value k)) (mapping_pairs (node_content n))) of
                  Some err \<Rightarrow> Inl err | None \<Rightarrow> Inr raw)))"

definition decodeStrictClientYAML :: "client_yaml \<Rightarrow> string \<Rightarrow> clientConfig res" where
  "decodeStrictClientYAML ye data =
     (case cy_strict ye (forward_UnmarshalYAML ye) data of Inl err \<Rightarrow> Inl err
      | Inr cfg \<Rightarrow>
         (case cy_rest ye data of None \<Rightarrow> Inr cfg
          | Some None \<Rightarrow> Inl (Errorf ''client config must contain exactly one YAML document'' [])
          | Some (Some err) \<Rightarrow> Inl err))"

definition clientConfigSchemaVersion :: "client_yaml \<Rightarrow> string \<Rightarrow> int option res" where
  \<comment> \<open>\<open>None\<close> when the field is missing\<close>
  "clientConfigSchemaVersion ye data =
     (case clientYAMLRootMapping ye data of Inl err \<Rightarrow> Inl err
      | Inr root \<Rightarrow>
         (case clientYAMLMappingFields (Some root) ''client config'' of Inl err \<Rightarrow> Inl err
          | Inr fs \<Rightarrow>
             (case map_of fs ''config_version'' of None \<Rightarrow> Inr None
              | Some node \<Rightarrow>
                  if \<not> is_scalar node then Inl (Errorf ''client config config_version must be a number'' [])
                  else (case cy_int ye node of
                      Inl err \<Rightarrow> Inl (Errorf ''client config config_version is invalid: %w'' [FE err])
                    | Inr version \<Rightarrow> Inr (Some version)))))"

definition zero_client_config :: clientConfig where
  "zero_client_config =
     \<lparr>cc_ConfigVersion = 0, cc_MinClientVersion = [], cc_ServerAddr = [], cc_Remark = [], cc_Username = [], cc_Password = [],
      cc_PasswordEnv = [], cc_PasswordFile = [], cc_SavedCredential = \<lparr>sc_Type = [], sc_KeyID = [], sc_ExpiresAt = [], sc_Ciphertext = []\<rparr>,
      cc_ClientID = [], cc_LogLevel = [],
      cc_TLS = \<lparr>ct_CACertFile = [], ct_ServerName = [], ct_MinVersion = [], ct_InsecureSkipVerify = False\<rparr>,
      cc_DialTimeoutSec = 0, cc_Forwards = []\<rparr>"

text \<open>The code returns the configuration and an error that may be nil. An unsupported version returns the error of
  \<open>ValidateConfigVersion\<close>.\<close>

definition decodeClientConfig :: "client_yaml \<Rightarrow> string \<Rightarrow> clientConfig \<times> go_error option" where
  "decodeClientConfig ye data =
     (case clientConfigSchemaVersion ye data of Inl err \<Rightarrow> (zero_client_config, Some err)
      | Inr version \<Rightarrow>
          if version \<noteq> None \<and> the version \<notin> {0, 1, ClientConfigVersion}
          then (zero_client_config, client_ValidateConfigVersion (zero_client_config\<lparr>cc_ConfigVersion := the version\<rparr>))
          else (case decodeStrictClientYAML ye data of Inl err \<Rightarrow> (zero_client_config, Some err)
             | Inr cfg \<Rightarrow>
                 if version \<noteq> None \<and> the version > 0
                 then (case validateVersionedClientConfigStructure ye data of
                         Some err \<Rightarrow> (zero_client_config, Some err) | None \<Rightarrow> (cfg, None))
                 else (cfg, None)))"

section \<open>Loading and saving\<close>

record client_host =
  ch_hostname :: "string res"
  ch_getenv :: "string \<Rightarrow> string"
  ch_yaml :: client_yaml

definition client_LoadConfigRaw :: "client_host \<Rightarrow> client_files \<Rightarrow> string \<Rightarrow> clientConfig \<times> go_error option" where
  "client_LoadConfigRaw host fl path =
     (case ReadFile (fl_os fl) (fl_files fl) path of Inl err \<Rightarrow> (zero_client_config, Some err)
      | Inr data \<Rightarrow>
         (case decodeClientConfig (ch_yaml host) data of
            (cfg, Some err) \<Rightarrow> (cfg, Some err)
          | (cfg, None) \<Rightarrow>
             (let cfg = client_ApplyDefaults (ch_hostname host) cfg in (cfg, client_validateLoopbackAddresses cfg))))"

text \<open>\<open>strings.TrimRight(s, "\r\n")\<close>.\<close>

definition trim_newlines :: "string \<Rightarrow> string" where
  "trim_newlines s = rev (dropWhile (\<lambda>c. c = CHR 0x0D \<or> c = CHR 0x0A) (rev s))"

definition client_LoadConfig :: "client_host \<Rightarrow> client_files \<Rightarrow> string \<Rightarrow> clientConfig \<times> go_error option" where
  "client_LoadConfig host fl path =
     (case client_LoadConfigRaw host fl path of (cfg, Some err) \<Rightarrow> (cfg, Some err)
      | (cfg, None) \<Rightarrow>
         (let base = DirPath path;
              cfg = cfg\<lparr>cc_TLS := (cc_TLS cfg)\<lparr>ct_CACertFile := client_resolveConfigPath base (ct_CACertFile (cc_TLS cfg))\<rparr>,
                        cc_PasswordFile := client_resolveConfigPath base (cc_PasswordFile cfg)\<rparr>;
              cfg = (if cc_Password cfg = [] \<and> TrimSpace (cc_PasswordEnv cfg) \<noteq> []
                     then cfg\<lparr>cc_Password := ch_getenv host (TrimSpace (cc_PasswordEnv cfg))\<rparr> else cfg)
          in if cc_Password cfg = [] \<and> TrimSpace (cc_PasswordFile cfg) \<noteq> []
             then (case ReadFile (fl_os fl) (fl_files fl) (cc_PasswordFile cfg) of
                     Inl err \<Rightarrow> (cfg, Some (Errorf ''read password_file: %w'' [FE err]))
                   | Inr data \<Rightarrow> (let cfg = cfg\<lparr>cc_Password := trim_newlines data\<rparr> in (cfg, client_ValidateConfig fl cfg)))
             else (cfg, client_ValidateConfig fl cfg)))"

definition client_SaveConfig :: "client_host \<Rightarrow> client_files \<Rightarrow> string \<Rightarrow> clientConfig \<Rightarrow> files \<times> go_error option" where
  "client_SaveConfig host fl path cfg =
     (case client_validateLoopbackAddresses cfg of Some err \<Rightarrow> (fl_files fl, Some err)
      | None \<Rightarrow>
         (case cy_marshal (ch_yaml host) (client_ApplyDefaults (ch_hostname host) cfg) of
            Inl err \<Rightarrow> (fl_files fl, Some err)
          | Inr data \<Rightarrow>
             (case MkdirAll (fl_os fl) (DirPath path) of Some err \<Rightarrow> (fl_files fl, Some err)
              | None \<Rightarrow> WriteFile (fl_os fl) (fl_files fl) path data)))"

definition client_checkConfigUpgradeCompatible :: "client_host \<Rightarrow> client_files \<Rightarrow> string \<Rightarrow> string \<Rightarrow> go_error option" where
  "client_checkConfigUpgradeCompatible host fl path caCertFile =
     (case ReadFile (fl_os fl) (fl_files fl) path of
        Inl err \<Rightarrow> Some (Errorf ''read installed client config: %w'' [FE err])
      | Inr data \<Rightarrow>
         (case decodeClientConfig (ch_yaml host) data of
            (cfg, Some err) \<Rightarrow> Some (Errorf ''installed client config is not compatible with this client version: %w'' [FE err])
          | (cfg, None) \<Rightarrow>
             (let cfg = client_ApplyDefaults (ch_hostname host) cfg;
                  ca = (if TrimSpace caCertFile \<noteq> [] then caCertFile else ct_CACertFile (cc_TLS cfg));
                  cfg = cfg\<lparr>cc_TLS := (cc_TLS cfg)\<lparr>ct_CACertFile := client_resolveConfigPath (DirPath path) ca\<rparr>,
                            cc_Username := ''compatibility-check'', cc_Password := ''compatibility-check''\<rparr>
              in wrap_err ''installed client config is not valid for this client version: %w'' [] (client_ValidateConfig fl cfg))))"

definition client_CheckConfigUpgradeCompatible :: "client_host \<Rightarrow> client_files \<Rightarrow> string \<Rightarrow> go_error option" where
  "client_CheckConfigUpgradeCompatible host fl path = client_checkConfigUpgradeCompatible host fl path []"

definition CheckConfigUpgradeCompatibleWithCACert :: "client_host \<Rightarrow> client_files \<Rightarrow> string \<Rightarrow> string \<Rightarrow> go_error option" where
  "CheckConfigUpgradeCompatibleWithCACert host fl path caCertFile =
     (if TrimSpace caCertFile = [] then Some (Errorf ''client config compatibility check requires a CA certificate file'' [])
      else client_checkConfigUpgradeCompatible host fl path caCertFile)"

end
