(* ===== verification/Client_Compat_Laws.thy ===== *)
theory Client_Compat_Laws
  imports Client_Compat
begin

text \<open>
  What \<open>SaveConfig\<close> writes and \<open>LoadConfigRaw\<close> reads back. \<open>config_node\<close> is the document that
  \<open>yaml.Marshal\<close> writes for a configuration, following the tags of the struct (\<open>remark\<close> and the \<open>listen_addr\<close>
  of a forward are omitted when they are empty).
\<close>

section \<open>The document of a configuration\<close>

abbreviation str_node :: "string \<Rightarrow> yaml_node" where
  "str_node s \<equiv> scalar_node ''!!str'' s"

definition int_node :: "int \<Rightarrow> yaml_node" where
  "int_node n = scalar_node ''!!int'' (Itoa n)"

definition bool_node :: "bool \<Rightarrow> yaml_node" where
  "bool_node b = scalar_node ''!!bool'' (if b then ''true'' else ''false'')"

definition forward_node :: "clientForward \<Rightarrow> yaml_node" where
  "forward_node f = mapping_node
     ([(''name'', str_node (cf_Name f)), (''direction'', str_node (cf_Direction f))] @
      (if cf_ListenAddr f = [] then [] else [(''listen_addr'', str_node (cf_ListenAddr f))]) @
      [(''server_target'', str_node (cf_ServerTarget f))])"

definition config_node :: "clientConfig \<Rightarrow> yaml_node" where
  "config_node c = mapping_node
     ([(''config_version'', int_node (cc_ConfigVersion c)),
       (''requires'', mapping_node [(''min_client_version'', str_node (cc_MinClientVersion c))]),
       (''server_addr'', str_node (cc_ServerAddr c))] @
      (if cc_Remark c = [] then [] else [(''remark'', str_node (cc_Remark c))]) @
      [(''username'', str_node (cc_Username c)), (''password'', str_node (cc_Password c)), (''password_env'', str_node (cc_PasswordEnv c)),
       (''password_file'', str_node (cc_PasswordFile c)),
       (''saved_credential'', (let s = cc_SavedCredential c in mapping_node
          [(''type'', str_node (sc_Type s)), (''key_id'', str_node (sc_KeyID s)), (''expires_at'', str_node (sc_ExpiresAt s)),
           (''ciphertext'', str_node (sc_Ciphertext s))])),
       (''client_id'', str_node (cc_ClientID c)), (''log_level'', str_node (cc_LogLevel c)),
       (''tls'', (let t = cc_TLS c in mapping_node
          [(''ca_cert_file'', str_node (ct_CACertFile t)), (''server_name'', str_node (ct_ServerName t)),
           (''min_version'', str_node (ct_MinVersion t)), (''insecure_skip_verify'', bool_node (ct_InsecureSkipVerify t))])),
       (''connection'', mapping_node [(''dial_timeout_sec'', int_node (cc_DialTimeoutSec c))]),
       (''forwards'', Yaml_Node SequenceNode ''!!seq'' [] (map forward_node (cc_Forwards c)))])"

definition config_document :: "clientConfig \<Rightarrow> yaml_node" where
  "config_document c = Yaml_Node DocumentNode [] [] [config_node c]"

lemma node_simps [simp]:
  "is_scalar (str_node s)" "is_scalar (int_node n)" "is_scalar (bool_node b)"
  "node_kind (mapping_node fs) = MappingNode" "node_kind (config_node c) = MappingNode"
  by (simp_all add: is_scalar_def int_node_def bool_node_def mapping_node_def config_node_def)

lemma fields_of_pairs:
  "distinct (map fst fs @ map fst acc) \<Longrightarrow>
   clientYAMLfields path (map (\<lambda>(k, v). (str_node k, v)) fs) acc = Inr (acc @ fs)"
proof (induction fs arbitrary: acc)
  case (Cons p fs)
  obtain k v where p: "p = (k, v)" by (cases p)
  have new: "k \<notin> fst ` set acc" using Cons.prems by (auto simp: p)
  then have "AList.update k v acc = acc @ [(k, v)]" by (induction acc) auto
  then show ?case using Cons.IH [of "acc @ [(k, v)]"] Cons.prems new by (auto simp: p map_of_eq_None_iff)
qed simp

lemma fields_of_mapping:
  "distinct (map fst fs) \<Longrightarrow> clientYAMLMappingFields (Some (mapping_node fs)) path = Inr fs"
  using fields_of_pairs [of fs "[]" path] by (simp add: clientYAMLMappingFields_def mapping_node_def)

lemma require_scalar: "map_of fs name = Some n \<Longrightarrow> is_scalar n \<Longrightarrow> clientYAMLRequireScalar fs path name = None"
  by (simp add: clientYAMLRequireScalar_def clientYAMLRequiredField_def)

section \<open>Which documents have the structure\<close>

lemma forward_structure_node:
  "client_forward_structure (i, forward_node f) = None \<longleftrightarrow> cf_ListenAddr f \<noteq> []"
  by (simp add: client_forward_structure_def forward_node_def fields_of_mapping Let_def clientYAMLRequireScalar_def clientYAMLRequiredField_def)

lemma forwards_structure_node:
  "validateClientForwardsStructure (Some (Yaml_Node SequenceNode ''!!seq'' [] (map forward_node fs))) = None
   \<longleftrightarrow> list_all (\<lambda>f. cf_ListenAddr f \<noteq> []) fs"
proof -
  have "set (zip [0..<length fs] (map forward_node fs)) = {(i, forward_node (fs ! i)) | i. i < length fs}"
    by (force simp: set_zip)
  then show ?thesis
    by (auto simp: validateClientForwardsStructure_def forward_structure_node list_all_length)
qed

lemma config_fields:
  "clientYAMLMappingFields (Some (config_node c)) path = Inr
     ([(''config_version'', int_node (cc_ConfigVersion c)),
       (''requires'', mapping_node [(''min_client_version'', str_node (cc_MinClientVersion c))]),
       (''server_addr'', str_node (cc_ServerAddr c))] @
      (if cc_Remark c = [] then [] else [(''remark'', str_node (cc_Remark c))]) @
      [(''username'', str_node (cc_Username c)), (''password'', str_node (cc_Password c)), (''password_env'', str_node (cc_PasswordEnv c)),
       (''password_file'', str_node (cc_PasswordFile c)),
       (''saved_credential'', (let s = cc_SavedCredential c in mapping_node
          [(''type'', str_node (sc_Type s)), (''key_id'', str_node (sc_KeyID s)), (''expires_at'', str_node (sc_ExpiresAt s)),
           (''ciphertext'', str_node (sc_Ciphertext s))])),
       (''client_id'', str_node (cc_ClientID c)), (''log_level'', str_node (cc_LogLevel c)),
       (''tls'', (let t = cc_TLS c in mapping_node
          [(''ca_cert_file'', str_node (ct_CACertFile t)), (''server_name'', str_node (ct_ServerName t)),
           (''min_version'', str_node (ct_MinVersion t)), (''insecure_skip_verify'', bool_node (ct_InsecureSkipVerify t))])),
       (''connection'', mapping_node [(''dial_timeout_sec'', int_node (cc_DialTimeoutSec c))]),
       (''forwards'', Yaml_Node SequenceNode ''!!seq'' [] (map forward_node (cc_Forwards c)))])"
  unfolding config_node_def by (rule fields_of_mapping) simp

lemma root_of_document: "cy_parse ye data = Inr (config_document c) \<Longrightarrow> clientYAMLRootMapping ye data = Inr (config_node c)"
  by (simp add: clientYAMLRootMapping_def root_mapping_def config_document_def)

lemma structure_of_document:
  assumes "cy_parse ye data = Inr (config_document c)"
  shows "validateVersionedClientConfigStructure ye data = None \<longleftrightarrow> list_all (\<lambda>f. cf_ListenAddr f \<noteq> []) (cc_Forwards c)"
  using forwards_structure_node [of "cc_Forwards c"]
  by (simp add: validateVersionedClientConfigStructure_def root_of_document [OF assms] config_fields required_client_fields_def
      scalar_client_fields_def clientYAMLRequireScalar_def clientYAMLRequiredField_def clientYAMLRequireOptionalScalar_def
      validateClientScalarMapping_def validateClientSavedCredentialStructure_def fields_of_mapping Let_def split: option.split) auto

section \<open>Saving and loading\<close>

lemma unmarshal_forward_node:
  assumes "cy_rawForward ye (forward_node f) = Inr f"
  shows "forward_UnmarshalYAML ye (Some (forward_node f)) = Inr f"
proof -
  have k: "node_kind (forward_node f) = MappingNode" by (simp add: forward_node_def)
  have "map (\<lambda>(k, v). forward_field_check f (node_value k)) (mapping_pairs (node_content (forward_node f))) =
      replicate (if cf_ListenAddr f = [] then 3 else 4) None"
    by (simp add: forward_node_def mapping_node_def forward_field_check_def eval_nat_numeral)
  then have "first_error (map (\<lambda>(k, v). forward_field_check f (node_value k)) (mapping_pairs (node_content (forward_node f)))) = None"
    by (simp only: first_error_None) simp
  from arg_cong [OF this, of "\<lambda>e. case e of None \<Rightarrow> Inr f | Some x \<Rightarrow> Inl x"] show ?thesis
    using assms k by (simp only: forward_UnmarshalYAML_def option.case sum.case if_not_P not_True_eq_False simp_thms)
qed

text \<open>
  What \<open>yaml.v3\<close> does with what it wrote: a marshalled configuration is one document with the node of the
  configuration; decoding gives the configuration back when every forward decodes from its own node,
  which a plain struct does; an integer decodes from its digits.\<close>

definition yaml_reads_back :: "client_yaml \<Rightarrow> clientConfig \<Rightarrow> bool" where
  "yaml_reads_back ye c \<longleftrightarrow>
     (\<forall>data. cy_marshal ye c = Inr data \<longrightarrow> cy_parse ye data = Inr (config_document c) \<and> cy_rest ye data = None
        \<and> (\<forall>u. (\<forall>f \<in> set (cc_Forwards c). u (Some (forward_node f)) = Inr f) \<longrightarrow> cy_strict ye u data = Inr c))
     \<and> cy_int ye (int_node (cc_ConfigVersion c)) = Inr (cc_ConfigVersion c)
     \<and> (\<forall>f \<in> set (cc_Forwards c). cy_rawForward ye (forward_node f) = Inr f)"

lemma decode_of_marshal:
  assumes "yaml_reads_back ye c" and "cy_marshal ye c = Inr data" and "cc_ConfigVersion c \<in> {1, ClientConfigVersion}"
  shows "decodeClientConfig ye data =
    (if list_all (\<lambda>f. cf_ListenAddr f \<noteq> []) (cc_Forwards c) then (c, None)
     else (zero_client_config, validateVersionedClientConfigStructure ye data))"
proof -
  have p: "cy_parse ye data = Inr (config_document c)" "cy_rest ye data = None"
    and dec: "\<And>u. \<forall>f \<in> set (cc_Forwards c). u (Some (forward_node f)) = Inr f \<Longrightarrow> cy_strict ye u data = Inr c"
    and i: "cy_int ye (int_node (cc_ConfigVersion c)) = Inr (cc_ConfigVersion c)"
      "\<And>f. f \<in> set (cc_Forwards c) \<Longrightarrow> cy_rawForward ye (forward_node f) = Inr f"
    using assms(1,2) by (auto simp: yaml_reads_back_def)
  have "decodeStrictClientYAML ye data = Inr c"
    using dec i(2) by (simp add: decodeStrictClientYAML_def p(2) unmarshal_forward_node)
  moreover have "clientConfigSchemaVersion ye data = Inr (Some (cc_ConfigVersion c))"
    by (simp add: clientConfigSchemaVersion_def root_of_document [OF p(1)] config_fields i(1))
  moreover have "cc_ConfigVersion c > 0" using assms(3) by (auto simp: ClientConfigVersion_def)
  ultimately show ?thesis
    using assms(3) structure_of_document [OF p(1)] by (auto simp: decodeClientConfig_def split: option.split)
qed

lemma default_forward_trim: "TrimSpace (cf_Direction (default_client_forward f)) = (if TrimSpace (cf_Direction f) = [] then DirectionClientToServer else TrimSpace (cf_Direction f))"
proof -
  have "TrimSpace DirectionClientToServer = DirectionClientToServer" by code_simp
  then show ?thesis by (simp add: default_client_forward_def Let_def)
qed

lemma client_forward_idem: "default_client_forward (default_client_forward f) = default_client_forward f"
proof -
  have "TrimSpace DirectionClientToServer = DirectionClientToServer" "DirectionClientToServer \<noteq> []" by code_simp+
  then show ?thesis by (simp add: default_client_forward_def Let_def)
qed

lemma client_defaults_idem:
  "client_ApplyDefaults h (client_ApplyDefaults h c) = client_ApplyDefaults h c"
proof -
  have "ClientConfigVersion \<noteq> 0" "TrimSpace ClientConfigRequiresClientVersion \<noteq> []" by code_simp+
  then show ?thesis
    by (simp add: client_ApplyDefaults_def Let_def comp_def client_forward_idem split: sum.split)
qed

lemma loopback_of_defaults:
  "client_validateLoopbackAddresses (client_ApplyDefaults h c) = client_validateLoopbackAddresses c"
proof -
  have d: "DirectionClientToServer \<noteq> DirectionVirtual" "DirectionVirtual \<noteq> []" by code_simp+
  have "client_address_checks (default_client_forward f) = client_address_checks f" for f
    using d by (auto simp: client_address_checks_def default_forward_trim) (simp_all add: default_client_forward_def Let_def)
  then show ?thesis by (simp add: client_validateLoopbackAddresses_def client_ApplyDefaults_def Let_def comp_def split: option.split)
qed

text \<open>C24. 
  A configuration that \<open>SaveConfig\<close> wrote is read back by \<open>LoadConfigRaw\<close> as it was, with its defaults, exactly when
  every forward has a \<open>listen_addr\<close>: an empty one is omitted from the file, and the structure check of a
  versioned configuration then refuses the file.\<close>

theorem saved_client_config_loads:
  assumes "yaml_reads_back (ch_yaml host) (client_ApplyDefaults (ch_hostname host) cfg)" and "client_SaveConfig host fl path cfg = (fs', None)"
    and "os_read_fault (fl_os fl) path = None" and "cc_ConfigVersion cfg \<in> {0, 1, ClientConfigVersion}"
  shows "if list_all (\<lambda>f. cf_ListenAddr f \<noteq> []) (cc_Forwards cfg)
    then client_LoadConfigRaw host (fl\<lparr>fl_files := fs'\<rparr>) path = (client_ApplyDefaults (ch_hostname host) cfg, None)
    else snd (client_LoadConfigRaw host (fl\<lparr>fl_files := fs'\<rparr>) path) \<noteq> None"
proof -
  let ?c = "client_ApplyDefaults (ch_hostname host) cfg"
  obtain data where data: "cy_marshal (ch_yaml host) ?c = Inr data" and v: "client_validateLoopbackAddresses cfg = None"
    and w: "WriteFile (fl_os fl) (fl_files fl) path data = (fs', None)"
    using assms(2) by (auto simp: client_SaveConfig_def split: option.splits sum.splits)
  have r: "ReadFile (fl_os fl) fs' path = Inr data"
    using WriteFile_None [OF w] assms(3) by (intro ReadFile_ok) (simp_all add: map_of_update)
  have ver: "cc_ConfigVersion ?c \<in> {1, ClientConfigVersion}" using assms(4) by (auto simp: client_ApplyDefaults_def)
  have p: "cy_parse (ch_yaml host) data = Inr (config_document ?c)" using assms(1) data by (simp add: yaml_reads_back_def)
  have fw: "list_all (\<lambda>f. cf_ListenAddr f \<noteq> []) (cc_Forwards ?c) = list_all (\<lambda>f. cf_ListenAddr f \<noteq> []) (cc_Forwards cfg)"
    by (simp add: client_ApplyDefaults_def list_all_iff default_client_forward_def Let_def)
  note dec = decode_of_marshal [OF assms(1) data ver]
  show ?thesis
    using structure_of_document [OF p] dec fw v
    by (auto simp: client_LoadConfigRaw_def r client_defaults_idem loopback_of_defaults split: option.split)
qed

text \<open>A YAML library for one configuration: the text is a single letter.\<close>

definition sample_client_yaml :: "clientConfig \<Rightarrow> client_yaml" where
  "sample_client_yaml c =
     \<lparr>cy_parse = (\<lambda>_. Inr (config_document c)),
      cy_int = (\<lambda>n. if n = int_node (cc_ConfigVersion c) then Inr (cc_ConfigVersion c) else Inl (Sentinel ''int'')),
      cy_rawForward = (\<lambda>n. case find (\<lambda>f. forward_node f = n) (cc_Forwards c) of None \<Rightarrow> Inl (Sentinel ''forward'') | Some f \<Rightarrow> Inr f),
      cy_strict = (\<lambda>u _. Inr c), cy_rest = (\<lambda>_. None), cy_marshal = (\<lambda>_. Inr ''y'')\<rparr>"

definition sample_saved_config :: clientConfig where
  "sample_saved_config = zero_client_config\<lparr>cc_ServerAddr := ''203.0.113.10:7443'', cc_Forwards :=
     [\<lparr>cf_Name = ''ssh'', cf_Direction = [], cf_ListenAddr = ''127.0.0.1:2222'', cf_ServerTarget = ''127.0.0.1:22''\<rparr>]\<rparr>"

definition sample_client_host :: client_host where
  "sample_client_host = \<lparr>ch_hostname = Inr ''pc'', ch_getenv = (\<lambda>_. []),
     ch_yaml = sample_client_yaml (client_ApplyDefaults (Inr ''pc'') sample_saved_config)\<rparr>"

definition no_files :: client_files where
  "no_files = \<lparr>fl_cert = \<lparr>xe_pemBlocks = (\<lambda>_. []), xe_parseIPs = (\<lambda>_. Inr [])\<rparr>, fl_os = no_faults, fl_files = []\<rparr>"

lemma sample_reads_back: "yaml_reads_back (ch_yaml sample_client_host) (client_ApplyDefaults (ch_hostname sample_client_host) sample_saved_config)"
  by (simp add: yaml_reads_back_def sample_client_host_def sample_client_yaml_def client_ApplyDefaults_def sample_saved_config_def)

theorem saved_client_config_loads_witness:
  "client_LoadConfigRaw sample_client_host (no_files\<lparr>fl_files := [(''c.yaml'', ''y'')]\<rparr>) ''c.yaml'' =
     (client_ApplyDefaults (Inr ''pc'') sample_saved_config, None)"
proof -
  have save: "client_SaveConfig sample_client_host no_files ''c.yaml'' sample_saved_config = ([(''c.yaml'', ''y'')], None)"
    by code_simp
  have "os_read_fault (fl_os no_files) ''c.yaml'' = None" "cc_ConfigVersion sample_saved_config \<in> {0, 1, ClientConfigVersion}"
    by (simp_all add: no_files_def no_faults_def sample_saved_config_def zero_client_config_def)
  from saved_client_config_loads [OF sample_reads_back save this] show ?thesis
    by (simp add: sample_saved_config_def sample_client_host_def)
qed

end
