(* ===== verification/Server_Compat.thy ===== *)
theory Server_Compat
  imports Go_Yaml Server_Config
begin

text \<open>
  The check of an installed configuration before an upgrade: \<open>server/tunnel/config_compat.go\<close>. It reads the
  schema version from the YAML structure, decodes strictly (the unversioned schema through its own
  record), checks that a current configuration spells out every field, and validates the result.
\<close>

section \<open>The unversioned schema\<close>

record legacyForwardV0 =
  lf_Name :: string
  lf_Direction :: string
  lf_ListenAddr :: string
  lf_ServerTarget :: string
  lf_AllowedUsers :: "string list"

record legacyServerConfigV0 =
  lc_ConfigVersion :: int
  lc_ListenAddr :: string
  lc_MonitorAddr :: string
  lc_LogLevel :: string
  lc_TLS :: tlsConfig
  lc_Users :: "userConfig list"
  lc_Forwards :: "legacyForwardV0 list"
  lc_Security :: securityConfig
  lc_SealKeys :: "credentialSealKeyConfig list"
  lc_Runtime :: runtimeConfig

text \<open>The zero configuration is an argument: its records are those of \<open>Server_Config\<close>. \<open>sy_strict\<close> and
  \<open>sy_legacy\<close> are the strict decoder on the two types, \<open>sy_rest\<close> its second \<open>Decode\<close> (\<open>None\<close> is \<open>io.EOF\<close>).\<close>

record server_yaml =
  sy_parse :: "string \<Rightarrow> yaml_node res"
  sy_int :: "yaml_node \<Rightarrow> int res"
  sy_strict :: "string \<Rightarrow> config res"
  sy_legacy :: "string \<Rightarrow> legacyServerConfigV0 res"
  sy_rest :: "string \<Rightarrow> go_error option option"

definition decodeStrictYAML :: "(string \<Rightarrow> 'a res) \<Rightarrow> (string \<Rightarrow> go_error option option) \<Rightarrow> string \<Rightarrow> 'a res" where
  "decodeStrictYAML decode rest data =
     (case decode data of Inl err \<Rightarrow> Inl err
      | Inr out \<Rightarrow>
         (case rest data of None \<Rightarrow> Inr out
          | Some None \<Rightarrow> Inl (Errorf ''config must contain exactly one YAML document'' [])
          | Some (Some err) \<Rightarrow> Inl err))"

definition legacy_forward :: "legacyForwardV0 \<Rightarrow> forwardConfig" where
  "legacy_forward f = \<lparr>fwd_Name = lf_Name f, fwd_Direction = lf_Direction f, fwd_ListenPort = 0, fwd_ListenAddr = lf_ListenAddr f,
     fwd_ServerTarget = lf_ServerTarget f, fwd_AllowedUsers = lf_AllowedUsers f\<rparr>"

definition decodeLegacyServerConfigV0 :: "server_yaml \<Rightarrow> string \<Rightarrow> config res" where
  "decodeLegacyServerConfigV0 ye data =
     map_sum (\<lambda>e. e) (\<lambda>l.
        \<lparr>cfg_ConfigPath = [], cfg_ConfigVersion = lc_ConfigVersion l, cfg_MinServerVersion = [],
         cfg_Compatibility = \<lparr>compat_MinClientVersion = [], compat_MaxClientVersion = [], compat_ProtocolVersion = 0\<rparr>,
         cfg_ListenAddr = lc_ListenAddr l, cfg_MonitorAddr = lc_MonitorAddr l, cfg_LogLevel = lc_LogLevel l, cfg_TLS = lc_TLS l,
         cfg_Users = lc_Users l, cfg_Forwards = map legacy_forward (lc_Forwards l), cfg_Security = lc_Security l,
         cfg_SealKeys = lc_SealKeys l, cfg_Runtime = lc_Runtime l\<rparr>)
       (decodeStrictYAML (sy_legacy ye) (sy_rest ye) data)"

section \<open>Reading a node\<close>

fun yamlFields :: "string \<Rightarrow> (yaml_node \<times> yaml_node) list \<Rightarrow> (string, yaml_node) gomap \<Rightarrow> (string, yaml_node) gomap res" where
  "yamlFields path [] fs = Inr fs"
| "yamlFields path ((key, v) # rest) fs =
     (if node_kind key \<noteq> ScalarNode then Inl (Errorf ''%s contains an invalid key'' [FS path])
      else yamlFields path rest (AList.update (node_value key) v fs))"

definition yamlMappingFields :: "yaml_node option \<Rightarrow> string \<Rightarrow> (string, yaml_node) gomap res" where
  "yamlMappingFields node path =
     (case node of None \<Rightarrow> Inl (Errorf ''%s must be a mapping'' [FS path])
      | Some n \<Rightarrow> if node_kind n \<noteq> MappingNode then Inl (Errorf ''%s must be a mapping'' [FS path])
                  else yamlFields path (mapping_pairs (node_content n)) [])"

definition yamlRootMapping :: "server_yaml \<Rightarrow> string \<Rightarrow> yaml_node res" where
  "yamlRootMapping ye data = root_mapping ''server config'' (sy_parse ye data)"

definition yamlRequiredField :: "(string, yaml_node) gomap \<Rightarrow> string \<Rightarrow> string \<Rightarrow> yaml_node res" where
  "yamlRequiredField fs path name =
     (case map_of fs name of None \<Rightarrow> Inl (Errorf ''%s is missing required field %s'' [FS path, FS name]) | Some n \<Rightarrow> Inr n)"

definition yamlRequiredScalar :: "(string, yaml_node) gomap \<Rightarrow> string \<Rightarrow> string \<Rightarrow> yaml_node res" where
  "yamlRequiredScalar fs path name =
     (case yamlRequiredField fs path name of Inl err \<Rightarrow> Inl err
      | Inr n \<Rightarrow> if \<not> is_scalar n then Inl (Errorf ''%s.%s must be a value'' [FS path, FS name]) else Inr n)"

definition error_of :: "'a res \<Rightarrow> go_error option" where
  "error_of r = (case r of Inl err \<Rightarrow> Some err | Inr _ \<Rightarrow> None)"

definition yamlRequireScalar :: "(string, yaml_node) gomap \<Rightarrow> string \<Rightarrow> string \<Rightarrow> go_error option" where
  "yamlRequireScalar fs path name = error_of (yamlRequiredScalar fs path name)"

definition yamlRequireSequence :: "(string, yaml_node) gomap \<Rightarrow> string \<Rightarrow> string \<Rightarrow> yaml_node res" where
  "yamlRequireSequence fs path name =
     (case yamlRequiredField fs path name of Inl err \<Rightarrow> Inl err
      | Inr n \<Rightarrow> if node_kind n \<noteq> SequenceNode then Inl (Errorf ''%s.%s must be a list'' [FS path, FS name]) else Inr n)"

section \<open>The structure of a current configuration\<close>

definition indexed :: "yaml_node \<Rightarrow> (nat \<times> yaml_node) list" where
  "indexed n = zip [0..<length (node_content n)] (node_content n)"

definition validateScalarMapping :: "yaml_node option \<Rightarrow> string \<Rightarrow> string list \<Rightarrow> go_error option" where
  "validateScalarMapping node path names =
     (case yamlMappingFields node path of Inl err \<Rightarrow> Some err
      | Inr fs \<Rightarrow> first_error (map (yamlRequireScalar fs path) names))"

definition validateAuthUsers :: "yaml_node option \<Rightarrow> go_error option" where
  "validateAuthUsers node =
     (case yamlMappingFields node ''server config.auth'' of Inl err \<Rightarrow> Some err
      | Inr fs \<Rightarrow>
         (case yamlRequireSequence fs ''server config.auth'' ''users'' of Inl err \<Rightarrow> Some err
          | Inr users \<Rightarrow>
              first_error (map (\<lambda>(i, user). validateScalarMapping (Some user) (Sprintf ''server config.auth.users[%d]'' [FI (int i)])
                                  [''username'', ''password_hash'', ''disabled'']) (indexed users))))"

definition forward_structure :: "nat \<times> yaml_node \<Rightarrow> go_error option" where
  \<comment> \<open>the body of the loop of \<open>validateForwardsV1\<close>\<close>
  "forward_structure = (\<lambda>(i, forward).
     (let path = Sprintf ''server config.forwards[%d]'' [FI (int i)]
      in case yamlMappingFields (Some forward) path of Inl err \<Rightarrow> Some err
         | Inr fs \<Rightarrow>
            (case first_error (map (\<lambda>name. error_of (yamlRequiredField fs path name)) [''name'', ''direction'', ''allowed_users''] @
                     [yamlRequireScalar fs path ''name'']) of
               Some err \<Rightarrow> Some err
             | None \<Rightarrow>
                (case yamlRequiredScalar fs path ''direction'' of Inl err \<Rightarrow> Some err
                 | Inr direction \<Rightarrow>
                    (case yamlRequireSequence fs path ''allowed_users'' of Inl err \<Rightarrow> Some err
                     | Inr users \<Rightarrow>
                        first_error
                          (map (\<lambda>(userIndex, user). if \<not> is_scalar user
                                 then Some (Errorf ''%s.allowed_users[%d] must be a value'' [FS path, FI (int userIndex)]) else None) (indexed users) @
                           [if TrimSpace (node_value direction) = DirectionClientToServer then yamlRequireScalar fs path ''server_target''
                            else if TrimSpace (node_value direction) = DirectionServerToClient
                            then (if map_of fs ''listen_port'' = None then yamlRequireScalar fs path ''listen_addr''
                                  else yamlRequireScalar fs path ''listen_port'')
                            else None]))))))"

definition validateForwardsV1 :: "yaml_node \<Rightarrow> go_error option" where
  "validateForwardsV1 node =
     (if node_kind node \<noteq> SequenceNode then Some (Errorf ''server config.forwards must be a list'' [])
      else first_error (map forward_structure (indexed node)))"

definition validateCredentialSealKeys :: "yaml_node option \<Rightarrow> go_error option" where
  "validateCredentialSealKeys node =
     (case yamlMappingFields node ''server config.credential_seal'' of Inl err \<Rightarrow> Some err
      | Inr fs \<Rightarrow>
         (case yamlRequireSequence fs ''server config.credential_seal'' ''keys'' of Inl err \<Rightarrow> Some err
          | Inr keys \<Rightarrow>
              first_error (map (\<lambda>(i, key). validateScalarMapping (Some key) (Sprintf ''server config.credential_seal.keys[%d]'' [FI (int i)])
                                  [''key_id'', ''private_key_file'', ''public_key_file'', ''expires_at'', ''active'']) (indexed keys))))"

definition required_server_fields :: "string list" where
  "required_server_fields = [''config_version'', ''requires'', ''compatibility'', ''listen_addr'', ''monitor_addr'', ''log_level'',
     ''tls'', ''auth'', ''forwards'', ''security'', ''credential_seal'', ''runtime'']"

definition security_fields :: "string list" where
  "security_fields = [''handshake_timeout_sec'', ''dial_timeout_sec'', ''max_handshake_bytes'',
     ''max_concurrent_connections'', ''max_concurrent_connections_per_ip'',
     ''connection_rate_window_sec'', ''max_new_connections_per_ip_window'',
     ''max_concurrent_streams_per_user'', ''stream_rate_limit_bytes_per_sec'',
     ''auth_fail_window_sec'', ''auth_fail_threshold'', ''auth_fail_block_sec'']"

definition runtime_fields :: "string list" where
  "runtime_fields = [''state_file'', ''permanent_block_file'', ''request_log_file'', ''business_log_file'',
     ''entry_traffic_log_file'', ''flow_traffic_log_file'', ''recent_events'']"

text \<open>\<open>tops["forwards"]\<close> is present when \<open>validateForwardsV1\<close> is reached.\<close>

definition validateServerConfigV1Structure :: "server_yaml \<Rightarrow> string \<Rightarrow> go_error option" where
  "validateServerConfigV1Structure ye data =
     (case yamlRootMapping ye data of Inl err \<Rightarrow> Some err
      | Inr root \<Rightarrow>
         (case yamlMappingFields (Some root) ''server config'' of Inl err \<Rightarrow> Some err
          | Inr tops \<Rightarrow>
             (case first_error (map (\<lambda>name. error_of (yamlRequiredField tops ''server config'' name)) required_server_fields @
                      map (yamlRequireScalar tops ''server config'') [''config_version'', ''listen_addr'', ''monitor_addr'', ''log_level'']) of
                Some err \<Rightarrow> Some err
              | None \<Rightarrow>
                 first_error
                   [validateScalarMapping (map_of tops ''requires'') ''server config.requires'' [''min_server_version''],
                    validateScalarMapping (map_of tops ''compatibility'') ''server config.compatibility''
                      [''min_client_version'', ''max_client_version'', ''protocol_version''],
                    validateScalarMapping (map_of tops ''tls'') ''server config.tls'' [''cert_file'', ''key_file'', ''min_version''],
                    validateAuthUsers (map_of tops ''auth''),
                    validateForwardsV1 (the (map_of tops ''forwards'')),
                    validateScalarMapping (map_of tops ''security'') ''server config.security'' security_fields,
                    validateCredentialSealKeys (map_of tops ''credential_seal''),
                    validateScalarMapping (map_of tops ''runtime'') ''server config.runtime'' runtime_fields])))"

section \<open>The check\<close>

definition serverConfigSchemaVersion :: "server_yaml \<Rightarrow> string \<Rightarrow> int option res" where
  \<comment> \<open>\<open>None\<close> when the field is missing\<close>
  "serverConfigSchemaVersion ye data =
     (case yamlRootMapping ye data of Inl err \<Rightarrow> Inl err
      | Inr root \<Rightarrow>
         (case yamlMappingFields (Some root) ''server config'' of Inl err \<Rightarrow> Inl err
          | Inr fs \<Rightarrow>
             (case map_of fs ''config_version'' of None \<Rightarrow> Inr None
              | Some node \<Rightarrow>
                  if \<not> is_scalar node then Inl (Errorf ''server config config_version must be a number'' [])
                  else (case sy_int ye node of
                      Inl err \<Rightarrow> Inl (Errorf ''server config config_version is invalid: %w'' [FE err])
                    | Inr version \<Rightarrow> Inr (Some version)))))"

text \<open>The configuration of the \<open>switch\<close>; \<open>zero\<close> is the zero value of \<open>Config\<close>.\<close>

definition installed_config :: "server_yaml \<Rightarrow> config \<Rightarrow> string \<Rightarrow> int option \<Rightarrow> config res" where
  "installed_config ye zero data version =
     (if version = None \<or> version = Some 0 then decodeLegacyServerConfigV0 ye data
      else if version = Some ServerConfigVersion
      then (case decodeStrictYAML (sy_strict ye) (sy_rest ye) data of Inl err \<Rightarrow> Inl err
            | Inr cfg \<Rightarrow> (case validateServerConfigV1Structure ye data of Some err \<Rightarrow> Inl err | None \<Rightarrow> Inr cfg))
      else (let cfg = zero\<lparr>cfg_ConfigVersion := the version\<rparr>
            in case ValidateConfigVersion cfg of Some err \<Rightarrow> Inl err | None \<Rightarrow> Inr cfg))"

definition CheckConfigUpgradeCompatible :: "os_env \<Rightarrow> server_yaml \<Rightarrow> config \<Rightarrow> files \<Rightarrow> string \<Rightarrow> go_error option" where
  "CheckConfigUpgradeCompatible env ye zero fs path =
     (case ReadFile env fs path of Inl err \<Rightarrow> Some (Errorf ''read installed server config: %w'' [FE err])
      | Inr data \<Rightarrow>
         (case serverConfigSchemaVersion ye data of
            Inl err \<Rightarrow> Some (Errorf ''parse installed server config structure: %w'' [FE err])
          | Inr version \<Rightarrow>
             (case installed_config ye zero data version of
                Inl err \<Rightarrow> Some (Errorf ''installed server config is not compatible with this server version: %w'' [FE err])
              | Inr cfg \<Rightarrow>
                  wrap_err ''installed server config is not valid for this server version: %w'' [] (ValidateConfig (ApplyDefaults cfg)))))"

end
