(* ===== verification/Server_Compat_Laws.thy ===== *)
theory Server_Compat_Laws
  imports Server_Compat
begin

text \<open>
  What the upgrade check of the server guarantees about the file it accepts.
\<close>

lemma other_versions_refused:
  "v \<noteq> 0 \<Longrightarrow> v \<noteq> ServerConfigVersion \<Longrightarrow> ValidateConfigVersion (cfg\<lparr>cfg_ConfigVersion := v\<rparr>) \<noteq> None"
proof -
  assume "v \<noteq> 0" "v \<noteq> ServerConfigVersion"
  then consider "v < 0" | "v > ServerConfigVersion" by (fastforce simp: ServerConfigVersion_def)
  then show ?thesis by cases (simp_all add: ValidateConfigVersion_def Let_def ServerConfigVersion_def)
qed

lemma required_present: "error_of (yamlRequiredField fs path name) = None \<longleftrightarrow> map_of fs name \<noteq> None"
  by (auto simp: error_of_def yamlRequiredField_def split: option.split)

lemma required_scalar: "yamlRequireScalar fs path name = None \<longleftrightarrow> (\<exists>n. map_of fs name = Some n \<and> is_scalar n)"
  by (auto simp: yamlRequireScalar_def yamlRequiredScalar_def yamlRequiredField_def error_of_def split: option.split)

text \<open>The fields of a mapping node, the last value of a repeated key.\<close>

definition has_scalars :: "yaml_node option \<Rightarrow> string list \<Rightarrow> bool" where
  "has_scalars node names \<longleftrightarrow> (\<exists>fs. yamlMappingFields node [] = Inr fs \<and> (\<forall>name \<in> set names. \<exists>n. map_of fs name = Some n \<and> is_scalar n))"

lemma yamlFields_path: "yamlFields path ps acc = Inr fs \<Longrightarrow> yamlFields path' ps acc = Inr fs"
  by (induction path ps acc rule: yamlFields.induct) (auto split: if_splits)

lemma mapping_path: "yamlMappingFields node path = Inr fs \<Longrightarrow> yamlMappingFields node path' = Inr fs"
  by (auto simp: yamlMappingFields_def split: option.splits if_splits intro: yamlFields_path)

lemma scalar_mapping_ok:
  assumes "validateScalarMapping node path names = None"
  shows "has_scalars node names"
proof -
  obtain fs where fs: "yamlMappingFields node path = Inr fs" "\<forall>name \<in> set names. yamlRequireScalar fs path name = None"
    using assms by (auto simp: validateScalarMapping_def split: sum.splits)
  from fs(1) have "yamlMappingFields node [] = Inr fs" by (rule mapping_path)
  with fs(2) show ?thesis by (auto simp: has_scalars_def required_scalar)
qed

text \<open>
  A configuration file that the upgrade check accepts has no version, version 0 or the current one, decodes
  strictly, and is valid once the defaults are filled in. A current one spells out every section, and the
  fields of the sections that the check names are values.\<close>

theorem upgrade_check_sound:
  assumes "CheckConfigUpgradeCompatible env ye zero fs path = None"
  shows "\<exists>data version cfg. ReadFile env fs path = Inr data \<and> serverConfigSchemaVersion ye data = Inr version
    \<and> ValidateConfig (ApplyDefaults cfg) = None
    \<and> (if version = Some ServerConfigVersion
       then sy_strict ye data = Inr cfg
         \<and> (\<exists>root tops. yamlRootMapping ye data = Inr root \<and> yamlMappingFields (Some root) ''server config'' = Inr tops
              \<and> list_all (\<lambda>name. map_of tops name \<noteq> None) required_server_fields
              \<and> has_scalars (map_of tops ''security'') security_fields \<and> has_scalars (map_of tops ''runtime'') runtime_fields
              \<and> has_scalars (map_of tops ''tls'') [''cert_file'', ''key_file'', ''min_version''])
       else (version = None \<or> version = Some 0) \<and> decodeLegacyServerConfigV0 ye data = Inr cfg)"
proof -
  obtain data version cfg where d: "ReadFile env fs path = Inr data" "serverConfigSchemaVersion ye data = Inr version"
    and cfg: "installed_config ye zero data version = Inr cfg" and v: "ValidateConfig (ApplyDefaults cfg) = None"
    using assms by (auto simp: CheckConfigUpgradeCompatible_def wrap_err_def split: sum.splits)
  show ?thesis
  proof (cases "version = Some ServerConfigVersion")
    case True
    have "ServerConfigVersion \<noteq> 0" by (simp add: ServerConfigVersion_def)
    then have s: "decodeStrictYAML (sy_strict ye) (sy_rest ye) data = Inr cfg" "validateServerConfigV1Structure ye data = None"
      using cfg True by (auto simp: installed_config_def split: sum.splits option.splits)
    have "sy_strict ye data = Inr cfg"
      using s(1) by (auto simp: decodeStrictYAML_def split: sum.splits option.splits)
    moreover obtain root tops where "yamlRootMapping ye data = Inr root" "yamlMappingFields (Some root) ''server config'' = Inr tops"
      "list_all (\<lambda>name. map_of tops name \<noteq> None) required_server_fields"
      "validateScalarMapping (map_of tops ''security'') ''server config.security'' security_fields = None"
      "validateScalarMapping (map_of tops ''runtime'') ''server config.runtime'' runtime_fields = None"
      "validateScalarMapping (map_of tops ''tls'') ''server config.tls'' [''cert_file'', ''key_file'', ''min_version''] = None"
      using s(2) by (auto simp: validateServerConfigV1Structure_def required_present list_all_iff split: sum.splits option.splits)
    ultimately show ?thesis using d v True scalar_mapping_ok by (intro exI [of _ data] exI [of _ version] exI [of _ cfg]) auto
  next
    case False
    have "version = None \<or> version = Some 0"
    proof (rule ccontr)
      assume "\<not> (version = None \<or> version = Some 0)"
      then obtain n where "version = Some n" "n \<noteq> 0" "n \<noteq> ServerConfigVersion" using False by auto
      then show False using cfg other_versions_refused [of n zero]
        by (auto simp: installed_config_def Let_def split: option.splits)
    qed
    then have "decodeLegacyServerConfigV0 ye data = Inr cfg" using cfg by (auto simp: installed_config_def)
    with \<open>version = None \<or> version = Some 0\<close> show ?thesis using d v False by auto
  qed
qed

text \<open>A file of the current version with every section spelled out.\<close>

definition sample_section :: "string list \<Rightarrow> yaml_node" where
  "sample_section names = mapping_node (map (\<lambda>name. (name, scalar_node ''!!str'' ''v'')) names)"

definition sample_document :: yaml_node where
  "sample_document = Yaml_Node DocumentNode [] [] [mapping_node
     [(''config_version'', scalar_node ''!!int'' ''1''), (''requires'', sample_section [''min_server_version'']),
      (''compatibility'', sample_section [''min_client_version'', ''max_client_version'', ''protocol_version'']),
      (''listen_addr'', scalar_node ''!!str'' ''v''), (''monitor_addr'', scalar_node ''!!str'' ''v''), (''log_level'', scalar_node ''!!str'' ''v''),
      (''tls'', sample_section [''cert_file'', ''key_file'', ''min_version'']),
      (''auth'', mapping_node [(''users'', Yaml_Node SequenceNode ''!!seq'' [] [])]),
      (''forwards'', Yaml_Node SequenceNode ''!!seq'' [] []), (''security'', sample_section security_fields),
      (''credential_seal'', mapping_node [(''keys'', Yaml_Node SequenceNode ''!!seq'' [] [])]),
      (''runtime'', sample_section runtime_fields)]]"

definition sample_server_yaml :: server_yaml where
  "sample_server_yaml = \<lparr>sy_parse = (\<lambda>_. Inr sample_document), sy_int = (\<lambda>_. Inr 1), sy_strict = (\<lambda>_. Inr sample_config),
     sy_legacy = (\<lambda>_. Inl (Errorf ''unused'' [])), sy_rest = (\<lambda>_. None)\<rparr>"

definition sample_installed :: files where
  "sample_installed = [(''server.yaml'', ''y'')]"

lemma sample_compatible: "CheckConfigUpgradeCompatible no_faults sample_server_yaml sample_config sample_installed ''server.yaml'' = None"
  by code_simp

theorem upgrade_check_sound_witness:
  "ValidateConfig (ApplyDefaults sample_config) = None \<and> serverConfigSchemaVersion sample_server_yaml ''y'' = Inr (Some 1)"
proof -
  have v: "serverConfigSchemaVersion sample_server_yaml ''y'' = Inr (Some 1)" by code_simp
  have d: "ReadFile no_faults sample_installed ''server.yaml'' = Inr ''y''" by code_simp
  have s: "sy_strict sample_server_yaml ''y'' = Inr sample_config" by (simp add: sample_server_yaml_def)
  from upgrade_check_sound [OF sample_compatible] show ?thesis
    using v by (auto simp: d s ServerConfigVersion_def)
qed

end
