(* ===== verification/Mobile_Profile.thy ===== *)
theory Mobile_Profile
  imports Client_Compat
begin

text \<open>
  \<open>client/mobileprofile\<close>: the \<open>.lsylprofile\<close> package that carries a client configuration to a phone. \<open>export.go\<close>
  makes the profile and writes the package, \<open>import.go\<close> reads it back. JSON, the archive format, the
  certificate parser and the operating system are arguments.
\<close>

section \<open>Data\<close>

record mobileTLS =
  mt_CACertFile :: string
  mt_ServerName :: string
  mt_MinVersion :: string
  mt_InsecureSkipVerify :: bool

record mobileForward =
  mf_Name :: string
  mf_Direction :: string
  mf_ListenAddr :: string
  mf_ServerTarget :: string

text \<open>\<open>connection\<close> has one field.\<close>

record profileFile =
  pf_Version :: int
  pf_ProfileID :: string
  pf_ServerAddr :: string
  pf_Username :: string
  pf_ClientID :: string
  pf_SavedCredential :: sealedCredential
  pf_TLS :: mobileTLS
  pf_DialTimeoutSec :: int
  pf_Forwards :: "mobileForward list"

record importedProfile =
  ip_Config :: clientConfig
  ip_CertPEM :: string
  ip_ExpiresAt :: time
  ip_ProfileID :: string

record exportResult =
  er_Path :: string
  er_FileName :: string
  er_ExpiresAt :: time

section \<open>Helpers\<close>

definition mobile_splitHostPort :: "string \<Rightarrow> (string \<times> int) res" where
  "mobile_splitHostPort value =
     (case SplitHostPort (TrimSpace value) of Inl err \<Rightarrow> Inl err
      | Inr (host, portText) \<Rightarrow>
         (case CheckLoopbackHost host of Some err \<Rightarrow> Inl err
          | None \<Rightarrow>
             (case Atoi portText of None \<Rightarrow> Inl (Errorf ''invalid port'' [])
              | Some port \<Rightarrow> if port \<le> 0 \<or> port > 65535 then Inl (Errorf ''invalid port'' []) else Inr (TrimSet host ''[]'', port))))"

definition tls13 :: "string \<Rightarrow> bool" where
  "tls13 version \<longleftrightarrow> TrimSpace (ToLower version) \<in> {[], ''1.3'', ''tls1.3''}"

text \<open>The length of the UTF-8 sequence a text starts with, 0 when its first byte starts none.\<close>

definition tail_byte :: "nat \<Rightarrow> nat \<Rightarrow> string \<Rightarrow> nat \<Rightarrow> bool" where
  "tail_byte lo hi s i \<longleftrightarrow> i < length s \<and> lo \<le> byte_of (s ! i) \<and> byte_of (s ! i) \<le> hi"

definition rune_len :: "string \<Rightarrow> nat" where
  "rune_len s =
     (let b = byte_of (s ! 0); more = tail_byte 128 191 s
      in if b < 128 then 1
         else if 194 \<le> b \<and> b \<le> 223 \<and> more 1 then 2
         else if b = 224 \<and> tail_byte 160 191 s 1 \<and> more 2 then 3
         else if b = 237 \<and> tail_byte 128 159 s 1 \<and> more 2 then 3
         else if 225 \<le> b \<and> b \<le> 239 \<and> b \<noteq> 237 \<and> more 1 \<and> more 2 then 3
         else if b = 240 \<and> tail_byte 144 191 s 1 \<and> more 2 \<and> more 3 then 4
         else if b = 244 \<and> tail_byte 128 143 s 1 \<and> more 2 \<and> more 3 then 4
         else if 241 \<le> b \<and> b \<le> 243 \<and> more 1 \<and> more 2 \<and> more 3 then 4
         else 0)"

text \<open>The runes of a text as byte sequences; a byte that is no UTF-8 is \<open>utf8.RuneError\<close>.\<close>

function runes :: "string \<Rightarrow> string list" where
  "runes s =
     (if s = [] then []
      else if rune_len s = 0 then [CHR 0xEF, CHR 0xBF, CHR 0xBD] # runes (tl s)
      else take (rune_len s) s # runes (drop (rune_len s) s))"
  by pat_completeness auto
termination by (relation "measure length") auto

declare runes.simps [simp del]

definition bad_file_char :: "char \<Rightarrow> bool" where
  "bad_file_char c \<longleftrightarrow> byte_of c < 32 \<or> c \<in> {CHR ''<'', CHR ''>'', CHR '':'', CHR 0x22, CHR ''/'', CHR 0x5C, CHR ''|'', CHR ''?'', CHR ''*''}"

fun sanitize_loop :: "string list \<Rightarrow> bool \<Rightarrow> string" where
  "sanitize_loop [] lastDash = []"
| "sanitize_loop (r # rs) lastDash =
     (if r \<noteq> [] \<and> tl r = [] \<and> bad_file_char (hd r) then (if lastDash then [] else ''-'') @ sanitize_loop rs True
      else r @ sanitize_loop rs False)"

definition sanitizeFilePart :: "string \<Rightarrow> string" where
  "sanitizeFilePart value =
     (let value = TrimSpace value
      in if value = [] then ''client''
         else let clean = TrimSet (sanitize_loop (runes value) False) '' .-''
           in if clean = [] then ''client'' else clean)"

definition profileID :: "clientConfig \<Rightarrow> string" where
  "profileID cfg =
     (let clientid = TrimSpace (cc_ClientID cfg)
      in ''mobile-'' @ sanitizeFilePart (if clientid = [] then TrimSpace (cc_Username cfg) else clientid))"

definition credentialExpiry :: "time \<Rightarrow> sealedCredential \<Rightarrow> time res" where
  "credentialExpiry now c =
     (if TrimSpace (sc_Ciphertext c) = []
      then Inl (Errorf ''saved_credential is required; connect successfully in the client once before exporting'' [])
      else if TrimSpace (sc_Type c) \<noteq> ''server_sealed'' then Inl (Errorf ''saved_credential.type must be server_sealed'' [])
      else if TrimSpace (sc_KeyID c) = [] then Inl (Errorf ''saved_credential.key_id is required'' [])
      else if TrimSpace (sc_ExpiresAt c) = [] then Inl (Errorf ''saved_credential.expires_at is required'' [])
      else (case parse_rfc3339 (TrimSpace (sc_ExpiresAt c)) of
              None \<Rightarrow> Inl (Errorf ''saved_credential.expires_at must be RFC3339: %w''
                             [FE (Errorf ''parsing time %q'' [FS (TrimSpace (sc_ExpiresAt c))])])
            | Some expiresAt \<Rightarrow>
                if expiresAt \<le> now then Inl (Errorf ''saved_credential has expired; reconnect in the client before exporting'' [])
                else Inr expiresAt))"

text \<open>The result of \<open>time.Parse\<close> keeps the offset of the text; its year, month and day are those of the text.\<close>

definition FileNameFromConfig :: "time \<Rightarrow> clientConfig \<Rightarrow> string res" where
  "FileNameFromConfig now cfg =
     (if TrimSpace (cc_Username cfg) = [] then Inl (Errorf ''username is required'' [])
      else (case credentialExpiry now (cc_SavedCredential cfg) of Inl err \<Rightarrow> Inl err
       | Inr _ \<Rightarrow> Inr (sanitizeFilePart (cc_Username cfg) @ ''_'' @ take 10 (TrimSpace (sc_ExpiresAt (cc_SavedCredential cfg))) @ ''.lsylprofile'')))"

section \<open>From a configuration to a profile\<close>

definition forwardNameForError :: "clientForward \<Rightarrow> string" where
  "forwardNameForError fwd =
     (if TrimSpace (cf_Name fwd) \<noteq> [] then TrimSpace (cf_Name fwd)
      else if TrimSpace (cf_ListenAddr fwd) \<noteq> [] then TrimSpace (cf_ListenAddr fwd)
      else TrimSpace (cf_ServerTarget fwd))"

definition forwardFromConfig :: "clientForward \<Rightarrow> mobileForward res" where
  "forwardFromConfig fwd =
     (let direction = (if TrimSpace (cf_Direction fwd) = [] then DirectionClientToServer else TrimSpace (cf_Direction fwd));
          nm = FS (forwardNameForError fwd)
      in if direction \<noteq> DirectionClientToServer
         then Inl (Errorf ''forward %q is %s; mobile export only supports client_to_server'' [nm, FS direction])
         else (case mobile_splitHostPort (cf_ListenAddr fwd) of
            Inl err \<Rightarrow> Inl (Errorf ''forward %q listen_addr is invalid: %w'' [nm, FE err])
          | Inr (host, port) \<Rightarrow>
              if host \<noteq> LoopbackIPv4 then Inl (Errorf ''forward %q listen_addr must use 127.0.0.1 for mobile'' [nm])
              else if port < 1024
              then Inl (Errorf ''forward %q listen port %d is below 1024 and cannot be used by Android'' [nm, FI port])
              else (case mobile_splitHostPort (cf_ServerTarget fwd) of
                 Inl err \<Rightarrow> Inl (Errorf ''forward %q server_target is invalid: %w'' [nm, FE err])
               | Inr (targetHost, _) \<Rightarrow>
                   if \<not> IsForwardTargetHost targetHost
                   then Inl (Errorf ''forward %q server_target must use 127.0.0.1 or a private IP address'' [nm])
                   else let listenAddr = JoinHostPort ''127.0.0.1'' (Itoa port)
                     in Inr \<lparr>mf_Name = (if TrimSpace (cf_Name fwd) = [] then listenAddr else TrimSpace (cf_Name fwd)),
                          mf_Direction = DirectionClientToServer, mf_ListenAddr = listenAddr,
                          mf_ServerTarget = TrimSpace (cf_ServerTarget fwd)\<rparr>)))"

fun profile_forwards :: "clientForward list \<Rightarrow> string list \<Rightarrow> string list \<Rightarrow> mobileForward list res" where
  "profile_forwards [] seenNames seenListens = Inr []"
| "profile_forwards (fwd # rest) seenNames seenListens =
     (case forwardFromConfig fwd of Inl err \<Rightarrow> Inl err
      | Inr m \<Rightarrow>
          if mf_Name m \<in> set seenNames then Inl (Errorf ''duplicate forward name: %s'' [FS (mf_Name m)])
          else if mf_ListenAddr m \<in> set seenListens
          then Inl (Errorf ''duplicate mobile listen address: %s'' [FS (mf_ListenAddr m)])
          else map_sum (\<lambda>e. e) (\<lambda>ms. m # ms)
                 (profile_forwards rest (mf_Name m # seenNames) (mf_ListenAddr m # seenListens)))"

definition ProfileFromConfig :: "string res \<Rightarrow> time \<Rightarrow> clientConfig \<Rightarrow> (profileFile \<times> time) res" where
  "ProfileFromConfig hostname now cfg0 =
     (let cfg = client_ApplyDefaults hostname cfg0
      in case CheckLoopbackHost (ct_ServerName (cc_TLS cfg)) of Some err \<Rightarrow> Inl (Errorf ''tls.server_name: %w'' [FE err])
      | None \<Rightarrow>
     (case mobile_splitHostPort (cc_ServerAddr cfg) of Inl err \<Rightarrow> Inl (Errorf ''server_addr is invalid: %w'' [FE err])
      | Inr _ \<Rightarrow>
      if TrimSpace (cc_Username cfg) = [] then Inl (Errorf ''username is required'' [])
      else (case credentialExpiry now (cc_SavedCredential cfg) of Inl err \<Rightarrow> Inl err
       | Inr expiresAt \<Rightarrow>
      if ct_InsecureSkipVerify (cc_TLS cfg) then Inl (Errorf ''mobile profile cannot use tls.insecure_skip_verify'' [])
      else if \<not> tls13 (ct_MinVersion (cc_TLS cfg)) then Inl (Errorf ''mobile profile requires tls.min_version 1.3'' [])
      else (case profile_forwards (cc_Forwards cfg) [] [] of Inl err \<Rightarrow> Inl err
       | Inr forwards \<Rightarrow>
      if forwards = [] then Inl (Errorf ''at least one client_to_server forward is required'' [])
      else Inr (\<lparr>pf_Version = 1, pf_ProfileID = profileID cfg, pf_ServerAddr = TrimSpace (cc_ServerAddr cfg),
             pf_Username = TrimSpace (cc_Username cfg), pf_ClientID = TrimSpace (cc_ClientID cfg),
             pf_SavedCredential = cc_SavedCredential cfg,
             pf_TLS = \<lparr>mt_CACertFile = ''server.crt'', mt_ServerName = TrimSpace (ct_ServerName (cc_TLS cfg)),
               mt_MinVersion = ''1.3'', mt_InsecureSkipVerify = False\<rparr>,
             pf_DialTimeoutSec = (if cc_DialTimeoutSec cfg \<le> 0 then 5 else cc_DialTimeoutSec cfg),
             pf_Forwards = forwards\<rparr>, expiresAt)))))"

end
