(* ===== verification/Mobile_Import.thy ===== *)
theory Mobile_Import
  imports Mobile_Profile
begin

text \<open>
  The package: reading a profile back (\<open>import.go\<close>) and writing one (\<open>Export\<close> and \<open>writeZip\<close> of \<open>export.go\<close>).
\<close>

section \<open>From a profile to a configuration\<close>

definition normalizeProfileHost :: "string \<Rightarrow> string" where
  "normalizeProfileHost host = ToLower (TrimSet (TrimSpace host) ''[]'')"

definition profileForwardNameForError :: "mobileForward \<Rightarrow> string" where
  "profileForwardNameForError fwd =
     (if TrimSpace (mf_Name fwd) \<noteq> [] then TrimSpace (mf_Name fwd)
      else if TrimSpace (mf_ListenAddr fwd) \<noteq> [] then TrimSpace (mf_ListenAddr fwd)
      else TrimSpace (mf_ServerTarget fwd))"

definition configForwardFromProfile :: "mobileForward \<Rightarrow> clientForward res" where
  "configForwardFromProfile fwd =
     (let direction = (if TrimSpace (mf_Direction fwd) = [] then DirectionClientToServer else TrimSpace (mf_Direction fwd));
          nm = FS (profileForwardNameForError fwd)
      in if direction \<noteq> DirectionClientToServer
         then Inl (Errorf ''forward %q is %s; mobile profile only supports client_to_server'' [nm, FS direction])
         else (case mobile_splitHostPort (mf_ListenAddr fwd) of
            Inl err \<Rightarrow> Inl (Errorf ''forward %q listen_addr is invalid: %w'' [nm, FE err])
          | Inr (host, port) \<Rightarrow>
              if normalizeProfileHost host \<noteq> ''127.0.0.1''
              then Inl (Errorf ''forward %q listen_addr must use 127.0.0.1 for mobile'' [nm])
              else if port < 1024
              then Inl (Errorf ''forward %q listen port %d is below 1024 and cannot be used by Android'' [nm, FI port])
              else (case mobile_splitHostPort (mf_ServerTarget fwd) of
                 Inl err \<Rightarrow> Inl (Errorf ''forward %q server_target is invalid: %w'' [nm, FE err])
               | Inr _ \<Rightarrow>
                   (let listenAddr = JoinHostPort ''127.0.0.1'' (Itoa port)
                    in Inr \<lparr>cf_Name = (if TrimSpace (mf_Name fwd) = [] then listenAddr else TrimSpace (mf_Name fwd)),
                         cf_Direction = DirectionClientToServer, cf_ListenAddr = listenAddr,
                         cf_ServerTarget = TrimSpace (mf_ServerTarget fwd)\<rparr>))))"

fun config_forwards :: "mobileForward list \<Rightarrow> string list \<Rightarrow> string list \<Rightarrow> clientForward list res" where
  "config_forwards [] seenNames seenListens = Inr []"
| "config_forwards (fwd # rest) seenNames seenListens =
     (case configForwardFromProfile fwd of Inl err \<Rightarrow> Inl err
      | Inr c \<Rightarrow>
          if cf_Name c \<in> set seenNames then Inl (Errorf ''duplicate forward name: %s'' [FS (cf_Name c)])
          else if cf_ListenAddr c \<in> set seenListens
          then Inl (Errorf ''duplicate mobile listen address: %s'' [FS (cf_ListenAddr c)])
          else map_sum (\<lambda>e. e) (\<lambda>cs. c # cs)
                 (config_forwards rest (cf_Name c # seenNames) (cf_ListenAddr c # seenListens)))"

text \<open>\<open>readFirstCert\<close>: the first PEM block, which must be a certificate that parses.\<close>

definition readFirstCert :: "cert_env \<Rightarrow> string \<Rightarrow> go_error option" where
  "readFirstCert xe data =
     (case xe_pemBlocks xe data of
        [] \<Rightarrow> Some (Errorf ''no PEM certificate found'' [])
      | (kind, body) # _ \<Rightarrow>
          if kind \<noteq> ''CERTIFICATE'' then Some (Errorf ''no PEM certificate found'' [])
          else (case xe_parseIPs xe body of Inl err \<Rightarrow> Some err | Inr _ \<Rightarrow> None))"

text \<open>The configuration that \<open>profileToConfig\<close> builds, before the defaults.\<close>

definition profile_config :: "profileFile \<Rightarrow> clientForward list \<Rightarrow> clientConfig" where
  "profile_config profile forwards =
     zero_client_config\<lparr>cc_ServerAddr := TrimSpace (pf_ServerAddr profile), cc_Username := TrimSpace (pf_Username profile),
       cc_LogLevel := ''info'',
       cc_TLS := \<lparr>ct_CACertFile = (if TrimSpace (mt_CACertFile (pf_TLS profile)) = [] then ''server.crt'' else TrimSpace (mt_CACertFile (pf_TLS profile))),
         ct_ServerName = TrimSpace (mt_ServerName (pf_TLS profile)), ct_MinVersion = ''1.3'', ct_InsecureSkipVerify = False\<rparr>,
       cc_DialTimeoutSec := (if pf_DialTimeoutSec profile \<le> 0 then 5 else pf_DialTimeoutSec profile),
       cc_SavedCredential := pf_SavedCredential profile, cc_Forwards := forwards\<rparr>"

definition profileToConfig :: "client_host \<Rightarrow> client_files \<Rightarrow> time \<Rightarrow> profileFile \<Rightarrow> string \<Rightarrow> importedProfile res" where
  "profileToConfig host fl now profile certPEM =
     (let version = (if pf_Version profile = 0 then 1 else pf_Version profile);
          minVersion = (if TrimSpace (mt_MinVersion (pf_TLS profile)) = [] then ''1.3'' else TrimSpace (mt_MinVersion (pf_TLS profile)))
      in if version \<noteq> 1 then Inl (Errorf ''unsupported profile version: %d'' [FI version])
      else (case mobile_splitHostPort (pf_ServerAddr profile) of Inl err \<Rightarrow> Inl (Errorf ''server_addr is invalid: %w'' [FE err])
      | Inr _ \<Rightarrow>
      if TrimSpace (pf_Username profile) = [] then Inl (Errorf ''username is required'' [])
      else (case credentialExpiry now (pf_SavedCredential profile) of Inl err \<Rightarrow> Inl err
      | Inr expiresAt \<Rightarrow>
      if mt_InsecureSkipVerify (pf_TLS profile) then Inl (Errorf ''mobile profile cannot use tls.insecure_skip_verify'' [])
      else if \<not> tls13 minVersion then Inl (Errorf ''mobile profile requires tls.min_version 1.3'' [])
      else (case readFirstCert (fl_cert fl) certPEM of Some err \<Rightarrow> Inl (Errorf ''server certificate is not valid PEM: %w'' [FE err])
      | None \<Rightarrow>
      (case config_forwards (pf_Forwards profile) [] [] of Inl err \<Rightarrow> Inl err
      | Inr forwards \<Rightarrow>
      if forwards = [] then Inl (Errorf ''at least one client_to_server forward is required'' [])
      else (let cfg = client_ApplyDefaults (ch_hostname host) (profile_config profile forwards)
        in case client_ValidateConfig fl cfg of Some err \<Rightarrow> Inl err
           | None \<Rightarrow> Inr \<lparr>ip_Config = cfg, ip_CertPEM = certPEM, ip_ExpiresAt = expiresAt,
                         ip_ProfileID = TrimSpace (pf_ProfileID profile)\<rparr>))))))"

section \<open>Reading the package\<close>

text \<open>An entry of the archive: its name, whether it is a directory, and what opening and reading it gives.\<close>

record zip_entry =
  ze_Name :: string
  ze_IsDir :: bool
  ze_open :: "go_error option"
  ze_read :: "string res"

text \<open>\<open>me_profile\<close> is \<open>json.Unmarshal\<close> into a \<open>profileFile\<close>, \<open>me_keys\<close> the keys of the object.\<close>

record mobile_codec =
  me_zip :: "string \<Rightarrow> zip_entry list res"
  me_keys :: "string \<Rightarrow> string list res"
  me_profile :: "string \<Rightarrow> profileFile res"
  me_marshal :: "profileFile \<Rightarrow> string res"

definition normalizedZipEntryName :: "string \<Rightarrow> string" where
  "normalizedZipEntryName name =
     (let name = map (\<lambda>c. if c = CHR 0x5C then CHR ''/'' else c) name
      in case last_index (CHR ''/'') name of None \<Rightarrow> name | Some i \<Rightarrow> drop (i + 1) name)"

definition entry_limit :: nat where
  "entry_limit = 8 * 1024 * 1024"

definition readZipEntryBytes :: "zip_entry \<Rightarrow> string res" where
  "readZipEntryBytes f =
     (case ze_open f of Some err \<Rightarrow> Inl (Errorf ''open zip entry %s: %w'' [FS (ze_Name f), FE err])
      | None \<Rightarrow>
         (case ze_read f of Inl err \<Rightarrow> Inl (Errorf ''read zip entry %s: %w'' [FS (ze_Name f), FE err])
          | Inr data \<Rightarrow> Inr (if length data \<le> entry_limit then data else take entry_limit data)))"

fun zip_loop :: "zip_entry list \<Rightarrow> string \<times> string \<Rightarrow> (string \<times> string) res" where
  "zip_loop [] got = Inr got"
| "zip_loop (f # rest) got =
     (let name = normalizedZipEntryName (ze_Name f)
      in if ze_IsDir f \<or> name \<notin> {''profile.json'', ''server.crt''} then zip_loop rest got
         else (case readZipEntryBytes f of Inl err \<Rightarrow> Inl err
          | Inr data \<Rightarrow> zip_loop rest (if name = ''profile.json'' then (data, snd got) else (fst got, data))))"

definition readProfileZip :: "mobile_codec \<Rightarrow> string \<Rightarrow> (string \<times> string) res" where
  "readProfileZip me data =
     (case me_zip me data of Inl err \<Rightarrow> Inl (Errorf ''open .lsylprofile: %w'' [FE err])
      | Inr entries \<Rightarrow>
         (case zip_loop entries ([], []) of Inl err \<Rightarrow> Inl err
          | Inr (profileJSON, certPEM) \<Rightarrow>
              if profileJSON = [] then Inl (Errorf ''profile package is missing profile.json'' [])
              else if certPEM = [] then Inl (Errorf ''profile package is missing server.crt'' [])
              else Inr (profileJSON, certPEM)))"

definition secret_fields :: "string list" where
  "secret_fields = [''password'', ''password_env'', ''password_file'']"

definition rejectSecretProfileFields :: "mobile_codec \<Rightarrow> string \<Rightarrow> go_error option" where
  "rejectSecretProfileFields me profileJSON =
     (case me_keys me profileJSON of Inl err \<Rightarrow> Some (Errorf ''parse profile.json: %w'' [FE err])
      | Inr ks \<Rightarrow> first_error (map (\<lambda>key. if key \<in> set ks then Some (Errorf ''mobile profile must not contain %s'' [FS key]) else None)
                                secret_fields))"

definition ImportBytes :: "mobile_codec \<Rightarrow> client_host \<Rightarrow> client_files \<Rightarrow> time \<Rightarrow> string \<Rightarrow> importedProfile res" where
  "ImportBytes me host fl now data =
     (case readProfileZip me data of Inl err \<Rightarrow> Inl err
      | Inr (profileJSON, certPEM) \<Rightarrow>
         (case rejectSecretProfileFields me profileJSON of Some err \<Rightarrow> Inl err
          | None \<Rightarrow>
             (case me_profile me profileJSON of Inl err \<Rightarrow> Inl (Errorf ''parse profile.json: %w'' [FE err])
              | Inr profile \<Rightarrow> profileToConfig host fl now profile certPEM)))"

section \<open>Writing the package\<close>

text \<open>
  The operating system for an export: directories, faults of \<open>Stat\<close>, the absolute path, the name of the temporary
  file, what writing the archive gives, closing it, removing and renaming a file.\<close>

record export_env =
  ee_isdir :: "string \<Rightarrow> bool"
  ee_stat :: "string \<Rightarrow> go_error option"
  ee_abs :: "string \<Rightarrow> string res"
  ee_temp :: "string \<Rightarrow> string \<Rightarrow> string res"
  ee_archive :: "string \<Rightarrow> string \<Rightarrow> string \<times> go_error option"
  ee_close :: "go_error option"
  ee_removes :: "string \<Rightarrow> bool"
  ee_rename :: "go_error option"

definition stat_file :: "export_env \<Rightarrow> files \<Rightarrow> string \<Rightarrow> bool res" where
  \<comment> \<open>whether a path that exists is a directory\<close>
  "stat_file ee fs path =
     (case ee_stat ee path of Some err \<Rightarrow> Inl err
      | None \<Rightarrow> if ee_isdir ee path then Inr True else if map_of fs path = None then Inl ErrNotExist else Inr False)"

definition requireFile :: "export_env \<Rightarrow> files \<Rightarrow> string \<Rightarrow> go_error option" where
  "requireFile ee fs path =
     (case stat_file ee fs path of Inl err \<Rightarrow> Some err
      | Inr isdir \<Rightarrow> if isdir then Some (Errorf ''is a directory'' []) else None)"

definition remove_file :: "export_env \<Rightarrow> files \<Rightarrow> string \<Rightarrow> files" where
  "remove_file ee fs path = (if ee_removes ee path then AList.delete path fs else fs)"

definition rename_file :: "export_env \<Rightarrow> files \<Rightarrow> string \<Rightarrow> string \<Rightarrow> files \<times> go_error option" where
  "rename_file ee fs old_path new_path =
     (case ee_rename ee of Some err \<Rightarrow> (fs, Some err)
      | None \<Rightarrow> (AList.update new_path (the (map_of fs old_path)) (AList.delete old_path fs), None))"

text \<open>\<open>defer os.Remove(tmpName)\<close> runs on every path after the temporary file was made.\<close>

definition writeZip :: "export_env \<Rightarrow> os_env \<Rightarrow> files \<Rightarrow> string \<Rightarrow> string \<Rightarrow> string \<Rightarrow> bool \<Rightarrow> files \<times> go_error option" where
  "writeZip ee os fs target profileJSON certPEM force =
     (case (case stat_file ee fs target of
              Inr _ \<Rightarrow> if force then None else Some (Errorf ''output already exists: %s'' [FS target])
            | Inl err \<Rightarrow> if errors_Is err ErrNotExist then None else Some err) of
        Some err \<Rightarrow> (fs, Some err)
      | None \<Rightarrow>
         (case MkdirAll os (DirPath target) of Some err \<Rightarrow> (fs, Some err)
          | None \<Rightarrow>
             (case ee_temp ee (DirPath target) (BasePath target @ ''.tmp-*'') of Inl err \<Rightarrow> (fs, Some err)
              | Inr tmp \<Rightarrow>
                 (let (body, failed) = ee_archive ee profileJSON certPEM; fs1 = AList.update tmp body fs
                  in case failed of Some err \<Rightarrow> (remove_file ee fs1 tmp, Some err)
                     | None \<Rightarrow>
                        (case ee_close ee of Some err \<Rightarrow> (remove_file ee fs1 tmp, Some err)
                         | None \<Rightarrow>
                            (let fs2 = (if force then remove_file ee fs1 target else fs1);
                                 (fs3, err) = rename_file ee fs2 tmp target
                             in (remove_file ee fs3 tmp, err)))))))"

definition mobile_Export ::
    "mobile_codec \<Rightarrow> export_env \<Rightarrow> client_host \<Rightarrow> client_files \<Rightarrow> time \<Rightarrow> string \<Rightarrow> string \<Rightarrow> string \<Rightarrow> bool \<Rightarrow> files \<times> exportResult res" where
  "mobile_Export me ee host fl now configFile certFile target force =
     (let fs = fl_files fl
      in case requireFile ee fs configFile of Some err \<Rightarrow> (fs, Inl (Errorf ''invalid client config: %w'' [FE err]))
      | None \<Rightarrow>
      (case requireFile ee fs certFile of Some err \<Rightarrow> (fs, Inl (Errorf ''invalid server certificate: %w'' [FE err]))
      | None \<Rightarrow>
      (case client_LoadConfigRaw host fl configFile of (_, Some err) \<Rightarrow> (fs, Inl (Errorf ''read client config: %w'' [FE err]))
      | (cfg, None) \<Rightarrow>
      (case ReadFile (fl_os fl) fs certFile of Inl err \<Rightarrow> (fs, Inl (Errorf ''read server certificate: %w'' [FE err]))
      | Inr certPEM \<Rightarrow>
      (case readFirstCert (fl_cert fl) certPEM of Some err \<Rightarrow> (fs, Inl (Errorf ''server certificate is not valid PEM: %w'' [FE err]))
      | None \<Rightarrow>
      (case ProfileFromConfig (ch_hostname host) now cfg of Inl err \<Rightarrow> (fs, Inl err)
      | Inr (profile, expiresAt) \<Rightarrow>
      (case me_marshal me profile of Inl err \<Rightarrow> (fs, Inl err)
      | Inr body \<Rightarrow>
      (case ee_abs ee target of Inl err \<Rightarrow> (fs, Inl err)
      | Inr targetAbs \<Rightarrow>
      (case writeZip ee (fl_os fl) fs targetAbs body certPEM force of
         (fs', Some err) \<Rightarrow> (fs', Inl err)
       | (fs', None) \<Rightarrow> (fs', Inr \<lparr>er_Path = targetAbs, er_FileName = BasePath targetAbs, er_ExpiresAt = expiresAt\<rparr>))))))))))"

definition ImportFile :: "mobile_codec \<Rightarrow> export_env \<Rightarrow> client_host \<Rightarrow> client_files \<Rightarrow> time \<Rightarrow> string \<Rightarrow> importedProfile res" where
  "ImportFile me ee host fl now path =
     (case requireFile ee (fl_files fl) path of Some err \<Rightarrow> Inl (Errorf ''invalid profile file: %w'' [FE err])
      | None \<Rightarrow>
         (case ReadFile (fl_os fl) (fl_files fl) path of Inl err \<Rightarrow> Inl (Errorf ''read profile file: %w'' [FE err])
          | Inr data \<Rightarrow> ImportBytes me host fl now data))"

end
