(* ===== verification/Mobile_Laws.thy ===== *)
theory Mobile_Laws
  imports Mobile_Import Client_Config_Laws Client_Compat_Laws
begin

text \<open>
  What the package is for: a profile that the exporter made is accepted by the importer, and the client on the phone
  gets the account, the credential and the forwards of the client it came from.
\<close>

section \<open>Addresses\<close>

text \<open>The host that \<open>net.SplitHostPort\<close> returns has no brackets.\<close>

lemma SplitHostPort_host:
  assumes "SplitHostPort hp = Inr (host, port)"
  shows "CHR ''['' \<notin> set host" "CHR '']'' \<notin> set host"
proof -
  obtain i where i: "last_index (CHR '':'') hp = Some i"
    using assms by (auto simp: SplitHostPort_def split: option.splits)
  have "CHR ''['' \<notin> set host \<and> CHR '']'' \<notin> set host"
  proof (cases "hp ! 0 = CHR ''[''")
    case True
    then obtain e where e: "index_of (CHR '']'') hp = Some e" and host: "host = take (e - 1) (drop 1 hp)"
      and open': "CHR ''['' \<notin> set (drop 1 hp)"
      using assms i by (auto simp: SplitHostPort_def Let_def split: option.splits if_splits)
    have sub: "set host \<subseteq> set (drop 1 (take e hp))"
      using index_of_SomeD [OF e] by (simp add: host drop_take)
    then have "set host \<subseteq> set (take e hp)" using set_drop_subset [of 1 "take e hp"] by blast
    moreover have "set host \<subseteq> set (drop 1 hp)" by (simp add: host set_take_subset)
    ultimately show ?thesis using index_of_SomeD [OF e] open' by auto
  next
    case False
    then have "host = take i hp" "CHR ''['' \<notin> set hp" "CHR '']'' \<notin> set hp"
      using assms i by (auto simp: SplitHostPort_def Let_def split: if_splits)
    then show ?thesis by (auto dest: in_set_takeD)
  qed
  then show "CHR ''['' \<notin> set host" "CHR '']'' \<notin> set host" by simp_all
qed

lemma trim_brackets: "SplitHostPort hp = Inr (host, port) \<Longrightarrow> TrimSet host ''[]'' = host"
  using SplitHostPort_host [of hp host port] hd_in_set [of host] last_in_set [of host]
  by (cases "host = []") (auto intro!: TrimSet_none simp del: hd_in_set last_in_set)

lemma mobile_splitD:
  "mobile_splitHostPort a = Inr (host, port) \<Longrightarrow>
     \<exists>pt. SplitHostPort (TrimSpace a) = Inr (host, pt) \<and> Atoi pt = Some port \<and> 1 \<le> port \<and> port \<le> 65535
       \<and> CheckLoopbackHost host = None"
  by (auto simp: mobile_splitHostPort_def trim_brackets split: sum.splits option.splits if_splits prod.splits)

lemma loopback_host_ok [simp]: "CheckLoopbackHost LoopbackIPv4 = None" "IsForwardTargetHost LoopbackIPv4"
  using forward_target_not_alias [of LoopbackIPv4] by (simp_all add: IsForwardTargetHost_def)

lemma loopback_addr:
  assumes "1 \<le> p" "p \<le> 65535"
  shows "SplitHostPort (TrimSpace (JoinHostPort ''127.0.0.1'' (Itoa p))) = Inr (LoopbackIPv4, Itoa p)"
    and "Atoi (Itoa p) = Some p"
    and "TrimSpace (JoinHostPort ''127.0.0.1'' (Itoa p)) = JoinHostPort ''127.0.0.1'' (Itoa p)"
    and "JoinHostPort ''127.0.0.1'' (Itoa p) \<noteq> []"
proof -
  show at: "Atoi (Itoa p) = Some p" using assms by (intro Atoi_Itoa) auto
  obtain host pt where sp: "SplitHostPort (TrimSpace (JoinHostPort ''127.0.0.1'' (Itoa p))) = Inr (host, pt)" "Atoi pt = Some p"
    using split_host_port_InrD [OF split_join_loopback [OF assms]] by blast
  show ne: "JoinHostPort ''127.0.0.1'' (Itoa p) \<noteq> []" by (simp add: JoinHostPort_def)
  have d: "Itoa p = nat_digits (nat p)" using assms by (simp add: Itoa_def)
  have vis: "list_all visible (JoinHostPort ''127.0.0.1'' (Itoa p))"
    using nat_digits_digits [of "nat p"] by (auto simp: d JoinHostPort_def list_all_iff is_digit_visible) (simp_all add: visible_def byte_of_def)
  then have "visible (hd (JoinHostPort ''127.0.0.1'' (Itoa p)))" "visible (last (JoinHostPort ''127.0.0.1'' (Itoa p)))"
    using ne by (auto simp: list_all_iff)
  then show tr: "TrimSpace (JoinHostPort ''127.0.0.1'' (Itoa p)) = JoinHostPort ''127.0.0.1'' (Itoa p)"
    by (simp add: TrimSpace_visible)
  have "CHR '':'' \<notin> set (Itoa p)" "CHR ''['' \<notin> set (Itoa p)" "CHR '']'' \<notin> set (Itoa p)"
    using digits_no_sep [of _ "nat p"] digit_not by (auto simp: d)
  then show "SplitHostPort (TrimSpace (JoinHostPort ''127.0.0.1'' (Itoa p))) = Inr (LoopbackIPv4, Itoa p)"
    unfolding tr LoopbackIPv4_def by (intro Split_JoinHostPort) auto
qed

section \<open>Forwards\<close>

text \<open>A forward as the exporter writes it.\<close>

definition phone_forward :: "mobileForward \<Rightarrow> bool" where
  "phone_forward m \<longleftrightarrow> mf_Direction m = DirectionClientToServer \<and> mf_Name m \<noteq> [] \<and> TrimSpace (mf_Name m) = mf_Name m
     \<and> TrimSpace (mf_ServerTarget m) = mf_ServerTarget m
     \<and> (\<exists>p. 1024 \<le> p \<and> p \<le> 65535 \<and> mf_ListenAddr m = JoinHostPort ''127.0.0.1'' (Itoa p))
     \<and> (\<exists>h p. mobile_splitHostPort (mf_ServerTarget m) = Inr (h, p) \<and> IsForwardTargetHost h)"

definition client_of_phone :: "mobileForward \<Rightarrow> clientForward" where
  "client_of_phone m = \<lparr>cf_Name = mf_Name m, cf_Direction = mf_Direction m, cf_ListenAddr = mf_ListenAddr m,
                        cf_ServerTarget = mf_ServerTarget m\<rparr>"

lemma mobile_split_trim [simp]: "mobile_splitHostPort (TrimSpace a) = mobile_splitHostPort a"
  by (simp add: mobile_splitHostPort_def)

lemma forwardFromConfig_ok:
  assumes "forwardFromConfig f = Inr m"
  shows "phone_forward m \<and> mf_ServerTarget m = TrimSpace (cf_ServerTarget f)
    \<and> (TrimSpace (cf_Name f) \<noteq> [] \<longrightarrow> mf_Name m = TrimSpace (cf_Name f))"
proof -
  obtain host p th tp where l: "mobile_splitHostPort (cf_ListenAddr f) = Inr (host, p)" "1024 \<le> p"
    and t: "mobile_splitHostPort (cf_ServerTarget f) = Inr (th, tp)" "IsForwardTargetHost th"
    and m: "m = \<lparr>mf_Name = (if TrimSpace (cf_Name f) = [] then JoinHostPort ''127.0.0.1'' (Itoa p) else TrimSpace (cf_Name f)),
      mf_Direction = DirectionClientToServer, mf_ListenAddr = JoinHostPort ''127.0.0.1'' (Itoa p), mf_ServerTarget = TrimSpace (cf_ServerTarget f)\<rparr>"
    using assms by (auto simp: forwardFromConfig_def Let_def split: sum.splits if_splits)
  have p: "1 \<le> p" "p \<le> 65535" using mobile_splitD [OF l(1)] by auto
  show ?thesis using l(2) p t loopback_addr(3,4) [OF p] by (auto simp: phone_forward_def m)
qed

lemma configForward_ok:
  assumes "phone_forward m"
  shows "configForwardFromProfile m = Inr (client_of_phone m)"
proof -
  obtain p h tp where p: "1024 \<le> p" "p \<le> 65535" "mf_ListenAddr m = JoinHostPort ''127.0.0.1'' (Itoa p)"
    and t: "mobile_splitHostPort (mf_ServerTarget m) = Inr (h, tp)" and n: "TrimSpace (mf_Name m) = mf_Name m" "mf_Name m \<noteq> []"
    "TrimSpace (mf_ServerTarget m) = mf_ServerTarget m" "mf_Direction m = DirectionClientToServer"
    using assms by (auto simp: phone_forward_def)
  have p1: "1 \<le> p" using p(1) by simp
  have d: "DirectionClientToServer \<noteq> []" by (simp add: DirectionClientToServer_def)
  have "mobile_splitHostPort (mf_ListenAddr m) = Inr (LoopbackIPv4, p)"
    using p loopback_addr(1,2) [OF p1 p(2)] by (simp add: mobile_splitHostPort_def) (simp add: LoopbackIPv4_def TrimSet_def)
  moreover have "normalizeProfileHost LoopbackIPv4 = ''127.0.0.1''" by code_simp
  ultimately show ?thesis using p t n d
    by (simp add: configForwardFromProfile_def trim_client_to_server client_of_phone_def)
qed

lemma profile_names: "profile_forwards fs ns ls = Inr ms \<Longrightarrow> set ns \<inter> mf_Name ` set ms = {}"
proof (induction fs arbitrary: ns ls ms)
  case (Cons f fs)
  then obtain m ms' where "mf_Name m \<notin> set ns" "ms = m # ms'" "profile_forwards fs (mf_Name m # ns) (mf_ListenAddr m # ls) = Inr ms'"
    by (auto split: sum.splits if_splits dest!: map_sum_InrE)
  then show ?case using Cons.IH by fastforce
qed simp

lemma profile_forwards_ok:
  "profile_forwards fs ns ls = Inr ms \<Longrightarrow>
     list_all phone_forward ms \<and> map mf_ServerTarget ms = map (\<lambda>f. TrimSpace (cf_ServerTarget f)) fs
     \<and> distinct (map mf_Name ms) \<and> config_forwards ms ns ls = Inr (map client_of_phone ms)"
proof (induction fs arbitrary: ns ls ms)
  case (Cons f fs)
  obtain m ms' where m: "forwardFromConfig f = Inr m" "mf_Name m \<notin> set ns" "mf_ListenAddr m \<notin> set ls" "ms = m # ms'"
    and rest: "profile_forwards fs (mf_Name m # ns) (mf_ListenAddr m # ls) = Inr ms'"
    using Cons.prems by (auto split: sum.splits if_splits dest!: map_sum_InrE)
  note ok = forwardFromConfig_ok [OF m(1)]
  have names: "mf_Name m \<notin> mf_Name ` set ms'" using profile_names [OF rest] by auto
  from Cons.IH [OF rest] ok configForward_ok [of m] m names show ?case by (simp add: client_of_phone_def)
qed simp

section \<open>The configuration on the phone\<close>

lemma target_of_phone:
  assumes "phone_forward m"
  shows "\<exists>h. client_target_host (client_of_phone m) = Inr h \<and> IsForwardTargetHost h"
proof -
  obtain h p where sp: "mobile_splitHostPort (mf_ServerTarget m) = Inr (h, p)" "IsForwardTargetHost h"
    using assms by (auto simp: phone_forward_def)
  obtain pt where pt: "SplitHostPort (TrimSpace (mf_ServerTarget m)) = Inr (h, pt)" "Atoi pt = Some p" "1 \<le> p" "p \<le> 65535"
    using mobile_splitD [OF sp(1)] by auto
  have "h \<noteq> []" "ParseIP h \<noteq> None" using forward_target_not_alias [OF sp(2)] by auto
  then have chars: "list_all addr_char h" using ParseIP_chars by blast
  then have "addr_char (hd h)" "addr_char (last h)" using \<open>h \<noteq> []\<close> by (auto simp: list_all_iff)
  then have "TrimSpace h = h" by (intro TrimSpace_visible) (simp add: addr_char_visible)
  moreover have "TrimSpace (mf_ServerTarget m) \<noteq> []" using pt(1) by (auto simp: SplitHostPort_def last_index_def)
  ultimately show ?thesis using pt sp(2) \<open>h \<noteq> []\<close>
    by (simp add: client_target_host_def client_of_phone_def trim_brackets)
qed

lemma listen_of_phone: "phone_forward m \<Longrightarrow> client_listen_check (client_of_phone m) = None"
  using loopback_addr by (fastforce simp: phone_forward_def client_listen_check_def client_of_phone_def)

lemma addresses_of_phone:
  assumes "phone_forward m"
  shows "first_error (client_address_checks (client_of_phone m)) = None"
proof -
  obtain h p q where sp: "mobile_splitHostPort (mf_ServerTarget m) = Inr (h, p)" and
    q: "1024 \<le> q" "q \<le> 65535" "mf_ListenAddr m = JoinHostPort ''127.0.0.1'' (Itoa q)"
    using assms by (auto simp: phone_forward_def)
  have q1: "1 \<le> q" using q(1) by simp
  have "CheckLoopbackEndpoint (mf_ServerTarget m) = None" using mobile_splitD [OF sp] by (auto simp: CheckLoopbackEndpoint_def)
  moreover have "CheckLoopbackEndpoint (mf_ListenAddr m) = None"
    unfolding q(3) CheckLoopbackEndpoint_def loopback_addr(1) [OF q1 q(2)] by simp
  ultimately show ?thesis by (simp add: client_address_checks_def client_of_phone_def wrap_err_def)
qed

lemma validate_phone_forwards:
  "list_all phone_forward ms \<Longrightarrow> distinct (map mf_Name ms) \<Longrightarrow> mf_Name ` set ms \<inter> set names = {} \<Longrightarrow>
     validate_client_forwards fl cfg (map client_of_phone ms) names seen ro es = Inr es"
proof (induction ms arbitrary: names)
  case (Cons m ms)
  obtain h where h: "client_target_host (client_of_phone m) = Inr h" "IsForwardTargetHost h"
    using target_of_phone Cons.prems(1) by auto
  have n: "forwardName (client_of_phone m) = mf_Name m"
    and d: "TrimSpace (cf_Direction (client_of_phone m)) = DirectionClientToServer"
    using Cons.prems(1) by (simp_all add: forwardName_def client_of_phone_def phone_forward_def trim_client_to_server)
  have "mf_Name m \<notin> set names" using Cons.prems(3) by auto
  moreover have "validate_client_forwards fl cfg (map client_of_phone ms) (mf_Name m # names) seen ro es = Inr es"
    using Cons.prems by (intro Cons.IH) auto
  ultimately show ?case using h n d listen_of_phone [of m] Cons.prems(1) by (simp add: Let_def)
qed simp

text \<open>Everything the importer checks holds of a profile the exporter made.\<close>

lemma defaults_loopback:
  "cc_ServerAddr (client_ApplyDefaults h c) = cc_ServerAddr c" "cc_Username (client_ApplyDefaults h c) = cc_Username c"
  "cc_SavedCredential (client_ApplyDefaults h c) = cc_SavedCredential c" "cc_Password (client_ApplyDefaults h c) = cc_Password c"
  "ct_ServerName (cc_TLS (client_ApplyDefaults h c)) = ct_ServerName (cc_TLS c)"
  "ct_CACertFile (cc_TLS (client_ApplyDefaults h c)) = ct_CACertFile (cc_TLS c)"
  "cc_Forwards (client_ApplyDefaults h c) = map default_client_forward (cc_Forwards c)"
  by (simp_all add: client_ApplyDefaults_def Let_def)

lemma phone_default: "phone_forward m \<Longrightarrow> default_client_forward (client_of_phone m) = client_of_phone m"
proof -
  assume "phone_forward m"
  moreover have "DirectionClientToServer \<noteq> []" by (simp add: DirectionClientToServer_def)
  ultimately show ?thesis by (simp add: phone_forward_def client_of_phone_def default_client_forward_def trim_client_to_server)
qed

lemma version_of_defaults:
  assumes "cc_ConfigVersion c = 0" and "cc_MinClientVersion c = []"
  shows "client_ValidateConfigVersion (client_ApplyDefaults h c) = None"
proof -
  have e: "client_ValidateConfigVersion (client_ApplyDefaults h c) =
      client_ValidateConfigVersion (zero_client_config\<lparr>cc_ConfigVersion := ClientConfigVersion, cc_MinClientVersion := ClientConfigRequiresClientVersion\<rparr>)"
    using assms by (simp add: client_ValidateConfigVersion_def client_ApplyDefaults_def Let_def)
  show ?thesis unfolding e by code_simp
qed

lemma CheckLoopbackHost_trim [simp]: "CheckLoopbackHost (TrimSpace a) = CheckLoopbackHost a"
  by (simp add: CheckLoopbackHost_def Let_def)

lemma server_crt: "TrimSpace ''server.crt'' \<noteq> []"
  by code_simp

lemma phone_config_valid:
  assumes "list_all phone_forward ms" and "ms \<noteq> []" and "distinct (map mf_Name ms)"
    and "mobile_splitHostPort (pf_ServerAddr profile) = Inr hp" and "CheckLoopbackHost (mt_ServerName (pf_TLS profile)) = None"
    and "TrimSpace (pf_Username profile) \<noteq> []" and "TrimSpace (sc_Ciphertext (pf_SavedCredential profile)) \<noteq> []"
  shows "client_ValidateConfig fl (client_ApplyDefaults h (profile_config profile (map client_of_phone ms))) = None"
proof -
  let ?c = "client_ApplyDefaults h (profile_config profile (map client_of_phone ms))"
  have fw: "cc_Forwards ?c = map client_of_phone ms"
    using assms(1) by (simp add: defaults_loopback profile_config_def phone_default list_all_iff)
  obtain host pt where sp: "SplitHostPort (TrimSpace (pf_ServerAddr profile)) = Inr (host, pt)" "CheckLoopbackHost host = None"
    using assms(4) mobile_splitD by (cases hp) blast
  have addr: "TrimSpace (pf_ServerAddr profile) \<noteq> []" using sp(1) by (auto simp: SplitHostPort_def last_index_def)
  have ends: "CheckLoopbackEndpoint (TrimSpace (pf_ServerAddr profile)) = None"
    using sp by (simp add: CheckLoopbackEndpoint_def)
  have "e = None" if "m \<in> set ms" "e \<in> set (client_address_checks (client_of_phone m))" for m e
    using addresses_of_phone [of m] assms(1) that by (auto simp: list_all_iff)
  then have loop: "client_validateLoopbackAddresses ?c = None"
    using ends assms(5) unfolding client_validateLoopbackAddresses_def fw
    by (auto simp: defaults_loopback profile_config_def wrap_err_def)
  have rev: "validateReverseForwardFields (map client_of_phone ms) = None"
    using assms(1) by (auto simp: validateReverseForwardFields_def validateReverseForwardField_def client_of_phone_def
        phone_forward_def trim_client_to_server list_all_iff)
  have fwds: "validate_client_forwards fl ?c (map client_of_phone ms) [] [] None [] = Inr []"
    using validate_phone_forwards [OF assms(1,3)] by simp
  have ver: "client_ValidateConfigVersion ?c = None"
    by (rule version_of_defaults) (simp_all add: profile_config_def zero_client_config_def)
  have ca: "TrimSpace (ct_CACertFile (cc_TLS ?c)) \<noteq> []"
    using server_crt by (simp add: defaults_loopback profile_config_def)
  show ?thesis using ver loop rev fwds addr ca assms(2,6,7)
    by (simp add: client_ValidateConfig_def fw) (simp add: defaults_loopback profile_config_def)
qed


text \<open>What the phone keeps of the configuration the profile was made from.\<close>

definition same_client :: "clientConfig \<Rightarrow> clientConfig \<Rightarrow> bool" where
  "same_client cfg phone \<longleftrightarrow> cc_ServerAddr phone = TrimSpace (cc_ServerAddr cfg) \<and> cc_Username phone = TrimSpace (cc_Username cfg)
     \<and> cc_SavedCredential phone = cc_SavedCredential cfg \<and> cc_Password phone = []
     \<and> map cf_ServerTarget (cc_Forwards phone) = map (\<lambda>f. TrimSpace (cf_ServerTarget f)) (cc_Forwards cfg)
     \<and> list_all (\<lambda>f. cf_Direction f = DirectionClientToServer) (cc_Forwards phone)"

lemma profile_imports:
  assumes exp: "ProfileFromConfig hostname now cfg = Inr (profile, expires)"
    and now: "now' < expires" and cert: "readFirstCert (fl_cert fl) certPEM = None"
  shows "\<exists>ip. profileToConfig host fl now' profile certPEM = Inr ip \<and> same_client cfg (ip_Config ip)
    \<and> client_ValidateConfig fl (ip_Config ip) = None \<and> ip_ExpiresAt ip = expires \<and> ip_CertPEM ip = certPEM"
proof -
  let ?c = "client_ApplyDefaults hostname cfg"
  obtain hp ms where p: "CheckLoopbackHost (ct_ServerName (cc_TLS ?c)) = None" "mobile_splitHostPort (cc_ServerAddr ?c) = Inr hp"
    "TrimSpace (cc_Username ?c) \<noteq> []" "credentialExpiry now (cc_SavedCredential ?c) = Inr expires"
    "profile_forwards (cc_Forwards ?c) [] [] = Inr ms" "ms \<noteq> []"
    and prof: "profile = \<lparr>pf_Version = 1, pf_ProfileID = profileID ?c, pf_ServerAddr = TrimSpace (cc_ServerAddr ?c),
             pf_Username = TrimSpace (cc_Username ?c), pf_ClientID = TrimSpace (cc_ClientID ?c),
             pf_SavedCredential = cc_SavedCredential ?c,
             pf_TLS = \<lparr>mt_CACertFile = ''server.crt'', mt_ServerName = TrimSpace (ct_ServerName (cc_TLS ?c)),
               mt_MinVersion = ''1.3'', mt_InsecureSkipVerify = False\<rparr>,
             pf_DialTimeoutSec = (if cc_DialTimeoutSec ?c \<le> 0 then 5 else cc_DialTimeoutSec ?c),
             pf_Forwards = ms\<rparr>"
    using exp unfolding ProfileFromConfig_def Let_def by (auto split: option.splits sum.splits if_splits prod.splits)
  note fo = profile_forwards_ok [OF p(5)]
  have cred: "credentialExpiry now' (pf_SavedCredential profile) = Inr expires" "TrimSpace (sc_Ciphertext (pf_SavedCredential profile)) \<noteq> []"
    using p(4) now by (auto simp: prof credentialExpiry_def split: if_splits option.splits)
  have valid: "client_ValidateConfig fl (client_ApplyDefaults (ch_hostname host) (profile_config profile (map client_of_phone ms))) = None"
    using fo p(1-3,6) cred(2) by (intro phone_config_valid [where hp = hp]) (simp_all add: prof)
  have v13: "tls13 ''1.3''" "TrimSpace ''1.3'' = ''1.3''" by code_simp+
  have imp: "profileToConfig host fl now' profile certPEM =
      Inr \<lparr>ip_Config = client_ApplyDefaults (ch_hostname host) (profile_config profile (map client_of_phone ms)), ip_CertPEM = certPEM,
        ip_ExpiresAt = expires, ip_ProfileID = TrimSpace (pf_ProfileID profile)\<rparr>"
    using fo p cred(1) cert valid v13 by (simp add: profileToConfig_def prof Let_def)
  have trim: "(\<lambda>f. TrimSpace (cf_ServerTarget f)) \<circ> default_client_forward = (\<lambda>f. TrimSpace (cf_ServerTarget f))"
    by (rule ext) (simp add: default_client_forward_def Let_def)
  have fw: "cc_Forwards (client_ApplyDefaults (ch_hostname host) (profile_config profile (map client_of_phone ms))) = map client_of_phone ms"
    using fo by (auto simp: defaults_loopback profile_config_def phone_default list_all_iff)
  have "map (cf_ServerTarget \<circ> client_of_phone) ms = map mf_ServerTarget ms" by (simp add: client_of_phone_def)
  moreover have "list_all (\<lambda>f. cf_Direction f = DirectionClientToServer) (map client_of_phone ms)"
    using fo by (simp add: list_all_iff client_of_phone_def phone_forward_def)
  ultimately have "same_client cfg (client_ApplyDefaults (ch_hostname host) (profile_config profile (map client_of_phone ms)))"
    using fo trim by (simp add: same_client_def fw) (simp add: defaults_loopback profile_config_def prof zero_client_config_def)
  with imp valid show ?thesis by simp
qed


section \<open>The file\<close>

lemma writeZip_ok:
  assumes "writeZip ee os fs target body cert force = (fs', None)"
    and fresh: "\<And>dir pat tmp. ee_temp ee dir pat = Inr tmp \<Longrightarrow> map_of fs tmp = None \<and> tmp \<noteq> target"
  shows "snd (ee_archive ee body cert) = None \<and> map_of fs' = (map_of fs)(target \<mapsto> fst (ee_archive ee body cert))
    \<and> (force \<or> map_of fs target = None \<or> ee_stat ee target \<noteq> None)"
proof -
  obtain tmp where t: "ee_temp ee (DirPath target) (BasePath target @ ''.tmp-*'') = Inr tmp"
    and rest: "(let (b, failed) = ee_archive ee body cert; fs1 = AList.update tmp b fs
                  in case failed of Some err \<Rightarrow> (remove_file ee fs1 tmp, Some err)
                     | None \<Rightarrow>
                        (case ee_close ee of Some err \<Rightarrow> (remove_file ee fs1 tmp, Some err)
                         | None \<Rightarrow>
                            (let fs2 = (if force then remove_file ee fs1 target else fs1);
                                 (fs3, err) = rename_file ee fs2 tmp target
                             in (remove_file ee fs3 tmp, err)))) = (fs', None)"
    and st: "(case stat_file ee fs target of
              Inr _ \<Rightarrow> if force then None else Some (Errorf ''output already exists: %s'' [FS target])
            | Inl err \<Rightarrow> if errors_Is err ErrNotExist then None else Some err) = None"
    using assms(1) by (auto simp: writeZip_def split: option.splits sum.splits)
  obtain b where b: "ee_archive ee body cert = (b, None)" using rest by (auto simp: Let_def split: prod.splits option.splits)
  have tmp: "map_of fs tmp = None" "tmp \<noteq> target" using fresh [OF t] by auto
  have fs': "map_of fs' = (map_of fs)(target \<mapsto> b)"
    using rest b tmp by (auto simp: Let_def remove_file_def rename_file_def update_conv' delete_conv' fun_eq_iff map_add_def
        split: option.splits if_splits prod.splits)
  have "force \<or> map_of fs target = None \<or> ee_stat ee target \<noteq> None"
    using st by (cases "map_of fs target") (auto simp: stat_file_def split: option.splits if_splits)
  with b fs' show ?thesis by simp
qed


text \<open>
  The laws of the libraries: the archive reader gives back the two entries that were written, and JSON gives back a
  profile, with the keys of the object the ones of its fields.\<close>

definition zip_file :: "string \<Rightarrow> string \<Rightarrow> zip_entry" where
  "zip_file name data = \<lparr>ze_Name = name, ze_IsDir = False, ze_open = None, ze_read = Inr data\<rparr>"

definition package_reads_back :: "mobile_codec \<Rightarrow> export_env \<Rightarrow> bool" where
  "package_reads_back me ee \<longleftrightarrow> (\<forall>body cert package. ee_archive ee body cert = (package, None) \<longrightarrow>
     me_zip me package = Inr [zip_file ''profile.json'' body, zip_file ''server.crt'' cert])"

definition profile_keys :: "string list" where
  "profile_keys = [''version'', ''profile_id'', ''server_addr'', ''username'', ''client_id'', ''saved_credential'', ''tls'',
                   ''connection'', ''forwards'']"

definition profile_reads_back :: "mobile_codec \<Rightarrow> profileFile \<Rightarrow> bool" where
  "profile_reads_back me p \<longleftrightarrow> (\<forall>body. me_marshal me p = Inr body \<longrightarrow> body \<noteq> [] \<and> length body \<le> entry_limit
     \<and> me_profile me body = Inr p \<and> (\<exists>ks. me_keys me body = Inr ks \<and> set ks \<subseteq> set profile_keys))"

lemma no_secret_key: "set profile_keys \<inter> set secret_fields = {}"
  by code_simp

lemma secrets_absent:
  assumes "me_keys me body = Inr ks" and "set ks \<subseteq> set profile_keys"
  shows "rejectSecretProfileFields me body = None"
proof -
  have "key \<notin> set ks" if "key \<in> set secret_fields" for key
    using that assms(2) no_secret_key by blast
  then show ?thesis using assms(1) by (auto simp: rejectSecretProfileFields_def)
qed

lemma read_package:
  assumes "me_zip me package = Inr [zip_file ''profile.json'' body, zip_file ''server.crt'' cert]"
    and "body \<noteq> []" "length body \<le> entry_limit" "cert \<noteq> []" "length cert \<le> entry_limit"
  shows "readProfileZip me package = Inr (body, cert)"
proof -
  have n: "normalizedZipEntryName ''profile.json'' = ''profile.json''" "normalizedZipEntryName ''server.crt'' = ''server.crt''"
    by code_simp+
  show ?thesis using assms by (simp add: readProfileZip_def zip_file_def readZipEntryBytes_def Let_def n)
qed

section \<open>The round trip\<close>


section \<open>An example\<close>

text \<open>A client with one forward, and libraries for its profile.\<close>

definition sample_phone_config :: clientConfig where
  "sample_phone_config = zero_client_config\<lparr>cc_ServerAddr := ''203.0.113.10:7443'', cc_Username := ''alice'', cc_ClientID := ''pc'',
     cc_SavedCredential := \<lparr>sc_Type = ''server_sealed'', sc_KeyID = ''k'', sc_ExpiresAt = ''2026-01-01T00:00:00Z'', sc_Ciphertext = ''x''\<rparr>,
     cc_TLS := (cc_TLS zero_client_config)\<lparr>ct_MinVersion := ''1.3''\<rparr>,
     cc_Forwards := [\<lparr>cf_Name = ''ssh'', cf_Direction = DirectionClientToServer, cf_ListenAddr = ''127.0.0.1:2222'', cf_ServerTarget = ''127.0.0.1:22''\<rparr>]\<rparr>"

definition sample_profile :: profileFile where
  "sample_profile = \<lparr>pf_Version = 1, pf_ProfileID = ''mobile-pc'', pf_ServerAddr = ''203.0.113.10:7443'', pf_Username = ''alice'',
     pf_ClientID = ''pc'', pf_SavedCredential = cc_SavedCredential sample_phone_config,
     pf_TLS = \<lparr>mt_CACertFile = ''server.crt'', mt_ServerName = [], mt_MinVersion = ''1.3'', mt_InsecureSkipVerify = False\<rparr>,
     pf_DialTimeoutSec = 5,
     pf_Forwards = [\<lparr>mf_Name = ''ssh'', mf_Direction = DirectionClientToServer, mf_ListenAddr = ''127.0.0.1:2222'', mf_ServerTarget = ''127.0.0.1:22''\<rparr>]\<rparr>"

text \<open>An archive format: the length of the first entry in unary, then both entries.\<close>

definition unary_pack :: "string \<Rightarrow> string \<Rightarrow> string" where
  "unary_pack body cert = replicate (length body) CHR ''1'' @ ''0'' @ body @ cert"

definition unary_unpack :: "string \<Rightarrow> string \<times> string" where
  "unary_unpack d = (let n = length (takeWhile (\<lambda>c. c = CHR ''1'') d); r = drop (n + 1) d in (take n r, drop n r))"

lemma unary_unpack_pack: "unary_unpack (unary_pack body cert) = (body, cert)"
proof -
  have "takeWhile (\<lambda>c. c = CHR ''1'') (replicate n CHR ''1'' @ CHR ''0'' # s) = replicate n CHR ''1''" for n s
    by (induction n) simp_all
  then show ?thesis by (simp add: unary_unpack_def unary_pack_def Let_def)
qed

definition sample_codec :: mobile_codec where
  "sample_codec = \<lparr>me_zip = (\<lambda>d. Inr [zip_file ''profile.json'' (fst (unary_unpack d)), zip_file ''server.crt'' (snd (unary_unpack d))]),
     me_keys = (\<lambda>_. Inr profile_keys), me_profile = (\<lambda>_. Inr sample_profile), me_marshal = (\<lambda>_. Inr ''j'')\<rparr>"

definition sample_export_env :: export_env where
  "sample_export_env = \<lparr>ee_isdir = (\<lambda>_. False), ee_stat = (\<lambda>_. None), ee_abs = Inr, ee_temp = (\<lambda>_ _. Inr ''tmp''),
     ee_archive = (\<lambda>body cert. (unary_pack body cert, None)), ee_close = None, ee_removes = (\<lambda>_. True), ee_rename = None\<rparr>"

definition sample_phone_files :: client_files where
  "sample_phone_files = sample_client_files\<lparr>fl_files := [(''c.yaml'', ''y''), (''ca.crt'', ''ca'')]\<rparr>"

definition sample_phone_host :: client_host where
  "sample_phone_host = \<lparr>ch_hostname = Inr ''pc'', ch_getenv = (\<lambda>_. []), ch_yaml = sample_client_yaml sample_phone_config\<rparr>"


end
