(* ===== verification/Server_Lifecycle.thy ===== *)
theory Server_Lifecycle
  imports Connection_Limiter
begin

text \<open>
  \<open>server/tunnel/lifecycle.go\<close> with the accept loop of \<open>server.go\<close>: which connections the server holds, who will
  close them, and how \<open>Close\<close> ends them. The place of a connection in the connection limiter belongs to the
  connection: it is given back when the connection is closed, once.

  A tracked connection is an object; its number is its place in \<open>lc_entries\<close>. \<open>conn.Close\<close>, the release and the
  \<open>delete\<close> of \<open>entryConn.Close\<close> happen under its \<open>sync.Once\<close>, in one step here. The worker group is a counter.
\<close>

section \<open>State\<close>

record entry_conn =
  en_release :: release_fn
  en_closed :: bool

record lifecycle =
  lc_closing :: bool
  lc_conns :: "nat list"
  lc_workers :: int
  lc_closeOnce :: bool
  lc_cancelled :: bool
  lc_listening :: bool
  lc_entries :: "entry_conn list"
  lc_limiter :: "connectionLimiter option"

definition new_lifecycle :: "connectionLimiter option \<Rightarrow> lifecycle" where
  "new_lifecycle limiter = \<lparr>lc_closing = False, lc_conns = [], lc_workers = 0, lc_closeOnce = False, lc_cancelled = False,
     lc_listening = True, lc_entries = [], lc_limiter = limiter\<rparr>"

section \<open>Operations\<close>

definition beginWorker :: "lifecycle \<Rightarrow> lifecycle \<times> bool" where
  "beginWorker l = (if lc_closing l then (l, False) else (l\<lparr>lc_workers := lc_workers l + 1\<rparr>, True))"

definition workerDone :: "lifecycle \<Rightarrow> lifecycle" where
  "workerDone l = l\<lparr>lc_workers := lc_workers l - 1\<rparr>"

definition call_release :: "conn_env \<Rightarrow> release_fn \<Rightarrow> connectionLimiter option \<Rightarrow> connectionLimiter option" where
  "call_release env f lo = (case f of NoopRelease \<Rightarrow> lo | ReleaseOf ip \<Rightarrow> conn_release env ip lo)"

definition entry_Close :: "conn_env \<Rightarrow> nat \<Rightarrow> lifecycle \<Rightarrow> lifecycle" where
  "entry_Close env i l =
     (let c = lc_entries l ! i
      in if en_closed c then l
         else l\<lparr>lc_entries := (lc_entries l)[i := c\<lparr>en_closed := True\<rparr>],
                lc_limiter := call_release env (en_release c) (lc_limiter l),
                lc_conns := remove1 i (lc_conns l)\<rparr>)"

text \<open>A connection that comes while the server is closing is closed at once; the result is then \<open>None\<close>.\<close>

definition trackEntryConn :: "conn_env \<Rightarrow> release_fn \<Rightarrow> lifecycle \<Rightarrow> lifecycle \<times> nat option" where
  "trackEntryConn env release l =
     (let i = length (lc_entries l); l = l\<lparr>lc_entries := lc_entries l @ [\<lparr>en_release = release, en_closed = False\<rparr>]\<rparr>
      in if lc_closing l then (entry_Close env i l, None) else (l\<lparr>lc_conns := i # lc_conns l\<rparr>, Some i))"

text \<open>The first critical section of \<open>Close\<close>, with the snapshot of the connections, and what follows it up to the
  first connection that is closed. A second call does nothing.\<close>

definition begin_Close :: "lifecycle \<Rightarrow> lifecycle \<times> nat list option" where
  "begin_Close l =
     (if lc_closeOnce l then (l, None)
      else (l\<lparr>lc_closeOnce := True, lc_closing := True, lc_cancelled := True, lc_listening := False\<rparr>, Some (lc_conns l)))"

section \<open>Every interleaving\<close>

text \<open>
  Where the accept loop is: waiting for a connection, with a connection that has its place in the limiter, with a
  tracked one that has no worker yet, or at its end. Where \<open>Close\<close> is: not called, with connections of the
  snapshot still to close, waiting for the workers, or past \<open>Wait\<close>. A worker has a connection, and whether it is the
  one that closes it: a handler that registered a reverse connection has left that to another worker.\<close>

datatype accept_pc = Accepting | Leased release_fn | Tracked nat | Ended
datatype close_pc = Open | Closing "nat list" | Waiting | Closed

record procs =
  pr_accept :: accept_pc
  pr_close :: close_pc
  pr_handlers :: "(nat \<times> bool) list"

type_synonym running = "lifecycle \<times> procs"

inductive life_step :: "running \<Rightarrow> running \<Rightarrow> bool" where
  AcceptRefused: "life_step (l, p) (l\<lparr>lc_limiter := lo'\<rparr>, p)"
    if "pr_accept p = Accepting" and "conn_acquire env ip (lc_limiter l) = (lo', f, False)" and "perm_fn (fst env)"
| AcceptGranted: "life_step (l, p) (l\<lparr>lc_limiter := lo'\<rparr>, p\<lparr>pr_accept := Leased f\<rparr>)"
    if "pr_accept p = Accepting" and "conn_acquire env ip (lc_limiter l) = (lo', f, True)" and "perm_fn (fst env)"
| AcceptEnds: "life_step (l, p) (workerDone l, p\<lparr>pr_accept := Ended\<rparr>)"
    if "pr_accept p = Accepting" and "lc_cancelled l \<or> \<not> lc_listening l"
| Track: "life_step (l, p)
     (case trackEntryConn env f l of (l', Some i) \<Rightarrow> (l', p\<lparr>pr_accept := Tracked i\<rparr>) | (l', None) \<Rightarrow> (workerDone l', p\<lparr>pr_accept := Ended\<rparr>))"
    if "pr_accept p = Leased f"
| StartHandler: "life_step (l, p)
     (case beginWorker l of (l', True) \<Rightarrow> (l', p\<lparr>pr_accept := Accepting, pr_handlers := pr_handlers p @ [(i, True)]\<rparr>)
      | (l', False) \<Rightarrow> (workerDone (entry_Close env i l'), p\<lparr>pr_accept := Ended\<rparr>))"
    if "pr_accept p = Tracked i"
| Handoff: "life_step (l, p)
     (case beginWorker l of (l', True) \<Rightarrow> (l', p\<lparr>pr_handlers := (pr_handlers p)[k := (i, False)] @ [(i, True)]\<rparr>) | (l', False) \<Rightarrow> (l', p))"
    if "k < length (pr_handlers p)" and "pr_handlers p ! k = (i, True)"
| HandlerEnds: "life_step (l, p)
     (workerDone (if closes then entry_Close env i l else l), p\<lparr>pr_handlers := take k (pr_handlers p) @ drop (Suc k) (pr_handlers p)\<rparr>)"
    if "k < length (pr_handlers p)" and "pr_handlers p ! k = (i, closes)"
| CloseConn: "life_step (l, p) (entry_Close env i l, p)"
    if "i < length (lc_entries l)"
| Sweep: "life_step (l, p) (l\<lparr>lc_limiter := conn_sweep env (lc_limiter l)\<rparr>, p)"
| BeginClose: "life_step (l, p) (fst (begin_Close l), p\<lparr>pr_close := Closing conns\<rparr>)"
    if "snd (begin_Close l) = Some conns"
| CloseNext: "life_step (l, p) (entry_Close env i l, p\<lparr>pr_close := Closing conns\<rparr>)"
    if "pr_close p = Closing (i # conns)"
| AllClosed: "life_step (l, p) (l, p\<lparr>pr_close := Waiting\<rparr>)"
    if "pr_close p = Closing []"
| WaitEnds: "life_step (l, p) (l, p\<lparr>pr_close := Closed\<rparr>)"
    if "pr_close p = Waiting" and "lc_workers l = 0"

text \<open>The start: the accept loop is the first worker.\<close>

definition first_running :: "connectionLimiter option \<Rightarrow> running" where
  "first_running limiter = (fst (beginWorker (new_lifecycle limiter)), \<lparr>pr_accept = Accepting, pr_close = Open, pr_handlers = []\<rparr>)"

abbreviation life_run :: "running \<Rightarrow> running \<Rightarrow> bool" where
  "life_run \<equiv> life_step\<^sup>*\<^sup>*"

section \<open>What every step keeps\<close>

definition open_entries :: "lifecycle \<Rightarrow> nat set" where
  "open_entries l = {i. i < length (lc_entries l) \<and> \<not> en_closed (lc_entries l ! i)}"

text \<open>The places of an address that open connections hold, and the one the accept loop is about to attach.\<close>

definition entry_places :: "entry_conn list \<Rightarrow> string \<Rightarrow> nat" where
  "entry_places es ip = length (filter (\<lambda>c. en_release c = ReleaseOf ip \<and> \<not> en_closed c) es)"

definition leased_place :: "accept_pc \<Rightarrow> string \<Rightarrow> nat" where
  "leased_place pc ip = (if pc = Leased (ReleaseOf ip) then 1 else 0)"

definition handled_by :: "procs \<Rightarrow> nat set" where
  "handled_by p = {i. (i, True) \<in> set (pr_handlers p)} \<union> (case pr_accept p of Tracked i \<Rightarrow> {i} | _ \<Rightarrow> {})"

definition life_inv :: "int \<times> int \<times> int \<times> duration \<times> int \<Rightarrow> running \<Rightarrow> bool" where
  "life_inv cfg = (\<lambda>(l, p).
     conn_ok cfg (lc_limiter l)
     \<and> conn_held (lc_limiter l) = (\<lambda>ip. entry_places (lc_entries l) ip + leased_place (pr_accept p) ip)
     \<and> distinct (lc_conns l) \<and> set (lc_conns l) = open_entries l \<and> open_entries l \<subseteq> handled_by p
     \<and> handled_by p \<subseteq> {..<length (lc_entries l)} \<and> fst ` set (pr_handlers p) \<subseteq> {..<length (lc_entries l)}
     \<and> lc_workers l = (if pr_accept p = Ended then 0 else 1) + int (length (pr_handlers p))
     \<and> (lc_closing l \<longleftrightarrow> pr_close p \<noteq> Open) \<and> lc_closeOnce l = lc_closing l
     \<and> (case pr_close p of Open \<Rightarrow> True | Closing conns \<Rightarrow> open_entries l \<subseteq> set conns \<and> set conns \<subseteq> {..<length (lc_entries l)}
        | Waiting \<Rightarrow> open_entries l = {}
        | Closed \<Rightarrow> open_entries l = {} \<and> pr_accept p = Ended \<and> pr_handlers p = []))"


lemmas life_defs = beginWorker_def workerDone_def begin_Close_def handled_by_def leased_place_def

lemma places_snoc [simp]:
  "entry_places (es @ [c]) ip = entry_places es ip + (if en_release c = ReleaseOf ip \<and> \<not> en_closed c then 1 else 0)"
  by (simp add: entry_places_def)

lemma places_close:
  assumes "i < length es" and "\<not> en_closed (es ! i)"
  shows "entry_places (es[i := (es ! i)\<lparr>en_closed := True\<rparr>]) ip + (if en_release (es ! i) = ReleaseOf ip then 1 else 0) = entry_places es ip"
  using assms
proof (induction es arbitrary: i)
  case (Cons e es)
  show ?case
  proof (cases i)
    case 0
    with Cons.prems show ?thesis by (auto simp: entry_places_def)
  next
    case (Suc j)
    with Cons.prems Cons.IH [of j] show ?thesis by (auto simp: entry_places_def split: if_splits)
  qed
qed simp

text \<open>Closing one connection: the places, the open connections and the table stay in step.\<close>

lemma entry_Close_law:
  assumes ok: "conn_ok cfg (lc_limiter l)" and held: "conn_held (lc_limiter l) = (\<lambda>ip. entry_places (lc_entries l) ip + extra ip)"
    and conns: "distinct (lc_conns l)" "set (lc_conns l) = open_entries l" and i: "i < length (lc_entries l)"
    and l'_def: "l' = entry_Close env i l"
  shows "conn_ok cfg (lc_limiter l') \<and> conn_held (lc_limiter l') = (\<lambda>ip. entry_places (lc_entries l') ip + extra ip)
    \<and> distinct (lc_conns l') \<and> set (lc_conns l') = open_entries l' \<and> open_entries l' = open_entries l - {i}
    \<and> length (lc_entries l') = length (lc_entries l) \<and> lc_workers l' = lc_workers l \<and> lc_closing l' = lc_closing l
    \<and> lc_closeOnce l' = lc_closeOnce l"
proof (cases "en_closed (lc_entries l ! i)")
  case True
  then have "l' = l" "i \<notin> open_entries l" by (auto simp: l'_def entry_Close_def open_entries_def Let_def)
  then show ?thesis using assms by auto
next
  case False
  let ?c = "lc_entries l ! i"
  let ?es = "(lc_entries l)[i := ?c\<lparr>en_closed := True\<rparr>]"
  have l': "lc_entries l' = ?es" "lc_limiter l' = call_release env (en_release ?c) (lc_limiter l)" "lc_conns l' = remove1 i (lc_conns l)"
    "lc_workers l' = lc_workers l" "lc_closing l' = lc_closing l" "lc_closeOnce l' = lc_closeOnce l"
    using False by (simp_all add: l'_def entry_Close_def Let_def)
  have op: "open_entries l' = open_entries l - {i}"
    using i False by (auto simp: open_entries_def l' nth_list_update)
  have lim: "conn_ok cfg (lc_limiter l') \<and> conn_held (lc_limiter l') = (\<lambda>ip. entry_places ?es ip + extra ip)"
  proof (cases "en_release ?c")
    case NoopRelease
    then show ?thesis using ok held places_close [OF i False] by (simp add: l' call_release_def)
  next
    case (ReleaseOf ip)
    have one: "entry_places ?es ip + 1 = entry_places (lc_entries l) ip"
      using places_close [OF i False, of ip] ReleaseOf by simp
    have other: "ip' \<noteq> ip \<Longrightarrow> entry_places ?es ip' = entry_places (lc_entries l) ip'" for ip'
      using places_close [OF i False, of ip'] ReleaseOf by simp
    from one have "0 < conn_held (lc_limiter l) ip" by (simp add: held)
    from conn_release_law [OF ok this] show ?thesis
      using one other by (auto simp: l' ReleaseOf call_release_def conn_release_def held fun_eq_iff)
  qed
  show ?thesis using lim conns op by (auto simp: l' set_remove1_eq)
qed

lemma places_empty: "open_entries l = {} \<Longrightarrow> entry_places (lc_entries l) ip = 0"
  by (auto simp: open_entries_def entry_places_def filter_empty_conv in_set_conv_nth)

end
