(* ===== verification/Server_Lifecycle_Laws.thy ===== *)
theory Server_Lifecycle_Laws
  imports Server_Lifecycle
begin

text \<open>What holds in every state of every run of the server's lifecycle.\<close>

lemma open_entries_simps [simp]:
  "open_entries (l\<lparr>lc_workers := n\<rparr>) = open_entries l" "open_entries (l\<lparr>lc_limiter := lo\<rparr>) = open_entries l"
  "open_entries (l\<lparr>lc_conns := cs\<rparr>) = open_entries l" "open_entries (workerDone l) = open_entries l"
  by (simp_all add: open_entries_def workerDone_def)

lemma entry_Close_closing [simp]: "lc_closing (entry_Close env i l) = lc_closing l"
  by (simp add: entry_Close_def Let_def)

lemma denied_noop: "connAcquire rng t lo ip = (lo', f, False, reason) \<Longrightarrow> f = NoopRelease"
  by (cases lo) (auto simp: admitLocked_def Let_def split: if_splits option.splits prod.splits)

lemma acquire_denied: "conn_acquire env ip lo = (lo', f, False) \<Longrightarrow> conn_ok cfg lo \<Longrightarrow> perm_fn (fst env) \<Longrightarrow>
    conn_ok cfg lo' \<and> conn_held lo' = conn_held lo"
  using conn_acquire_law [of cfg lo env ip lo' f False] denied_noop
  by (fastforce simp: conn_acquire_def split: release_fn.splits prod.splits)

lemma close_inv:
  assumes "life_inv cfg (l, p)" and "i < length (lc_entries l)"
  shows "life_inv cfg (entry_Close env i l, p) \<and> open_entries (entry_Close env i l) = open_entries l - {i}"
  using entry_Close_law [OF _ _ _ _ _ refl, of cfg l "leased_place (pr_accept p)" i env] assms
  by (auto simp: life_inv_def split: close_pc.splits)

lemma release_leased:
  assumes "conn_ok cfg lo" and held: "conn_held lo = (\<lambda>ip. e ip + leased_place (Leased f) ip)"
  shows "conn_ok cfg (call_release env f lo) \<and> conn_held (call_release env f lo) = e"
proof (cases f)
  case NoopRelease
  then show ?thesis using assms by (simp add: call_release_def leased_place_def)
next
  case (ReleaseOf ip)
  then have "0 < conn_held lo ip" by (simp add: held leased_place_def)
  from conn_release_law [OF assms(1) this] ReleaseOf show ?thesis
    by (auto simp: call_release_def conn_release_def held leased_place_def fun_eq_iff)
qed

lemma life_step_inv: "life_step r r' \<Longrightarrow> life_inv cfg r \<Longrightarrow> life_inv cfg r'"
proof (induction r r' rule: life_step.induct)
  case (AcceptRefused p env ip l lo' f)
  then show ?case using acquire_denied [of env ip "lc_limiter l" lo' f cfg]
    by (auto simp: life_inv_def open_entries_def split: close_pc.splits)
next
  case (AcceptGranted p env ip l lo' f)
  have "conn_ok cfg (lc_limiter l)" using AcceptGranted.prems by (simp add: life_inv_def)
  from conn_acquire_law [OF this AcceptGranted(3,2)] AcceptGranted show ?case
    by (auto simp: life_inv_def open_entries_def handled_by_def leased_place_def fun_eq_iff split: close_pc.splits release_fn.splits)
next
  case (AcceptEnds p l)
  then show ?case
    by (auto simp: life_inv_def life_defs open_entries_def fun_eq_iff split: close_pc.splits)
next
  case (Track p f l env)
  show ?case
  proof (cases "lc_closing l")
    case True
    have inv: "conn_ok cfg (lc_limiter l)" "conn_held (lc_limiter l) = (\<lambda>ip. entry_places (lc_entries l) ip + leased_place (Leased f) ip)"
      using Track by (auto simp: life_inv_def)
    have new: "remove1 (length (lc_entries l)) (lc_conns l) = lc_conns l"
      using Track.prems by (auto simp: life_inv_def open_entries_def intro!: remove1_idem)
    show ?thesis using Track True release_leased [OF inv, of env] new
      by (auto simp: life_inv_def trackEntryConn_def entry_Close_def Let_def open_entries_def life_defs
          nth_append nth_list_update less_Suc_eq list_update_append split: close_pc.splits)
  next
    case False
    then show ?thesis using Track by (auto simp: life_inv_def trackEntryConn_def Let_def open_entries_def handled_by_def leased_place_def fun_eq_iff
       nth_append less_Suc_eq split: close_pc.splits)
  qed
next
  case (StartHandler p i l env)
  show ?case
  proof (cases "lc_closing l")
    case True
    have i: "i < length (lc_entries l)" using StartHandler by (auto simp: life_inv_def handled_by_def)
    define l' where "l' = entry_Close env i l"
    have l': "life_inv cfg (l', p)" "open_entries l' = open_entries l - {i}" "lc_closing l'"
      using close_inv [OF StartHandler.prems i, of env] True by (auto simp: l'_def life_inv_def)
    then show ?thesis using True StartHandler.hyps unfolding l'_def [symmetric]
      by (auto simp: life_inv_def beginWorker_def l'_def [symmetric] workerDone_def handled_by_def leased_place_def fun_eq_iff split: close_pc.splits)
  next
    case False
    with StartHandler show ?thesis
      by (auto simp: life_inv_def life_defs open_entries_def fun_eq_iff split: close_pc.splits)
  qed
next
  case (Handoff k p i l)
  let ?hs = "(pr_handlers p)[k := (i, False)] @ [(i, True)]"
  obtain xs ys where hs: "pr_handlers p = xs @ (i, True) # ys" "length xs = k"
    using Handoff.hyps id_take_nth_drop [of k "pr_handlers p"] by (metis length_take min.absorb4)
  have "{j. (j, True) \<in> set ?hs} = {j. (j, True) \<in> set (pr_handlers p)}" "fst ` set ?hs = fst ` set (pr_handlers p)"
    using hs(2) by (auto simp: hs(1) list_update_append)
  then show ?case using Handoff
    by (auto simp: life_inv_def beginWorker_def handled_by_def leased_place_def split: close_pc.splits)
next
  case (HandlerEnds k p i closes l env)
  let ?hs = "take k (pr_handlers p) @ drop (Suc k) (pr_handlers p)"
  obtain xs ys where hs: "pr_handlers p = xs @ (i, closes) # ys" "length xs = k"
    using HandlerEnds.hyps id_take_nth_drop [of k "pr_handlers p"] by (metis length_take min.absorb4)
  then have hs': "?hs = xs @ ys" by simp
  have i: "i < length (lc_entries l)" using HandlerEnds.prems by (simp add: life_inv_def hs)
  define p' where "p' = p\<lparr>pr_handlers := xs @ ys\<rparr>"
  have p': "pr_accept p' = pr_accept p" "pr_close p' = pr_close p" "length (pr_handlers p) = Suc (length (pr_handlers p'))"
    "set (pr_handlers p') \<subseteq> set (pr_handlers p)" "handled_by p = handled_by p' \<union> (if closes then {i} else {})"
    by (simp_all add: p'_def hs handled_by_def) auto
  define l' where "l' = (if closes then entry_Close env i l else l)"
  have l': "life_inv cfg (l', p)" "open_entries l' = (if closes then open_entries l - {i} else open_entries l)"
    using close_inv [OF HandlerEnds.prems i, of env] HandlerEnds.prems by (auto simp: l'_def)
  have op: "open_entries l' \<subseteq> handled_by p'" "handled_by p' \<subseteq> {..<length (lc_entries l')}" "fst ` set (pr_handlers p') \<subseteq> {..<length (lc_entries l')}"
  proof -
    have a: "open_entries l' \<subseteq> handled_by p" "handled_by p \<subseteq> {..<length (lc_entries l')}" "fst ` set (pr_handlers p) \<subseteq> {..<length (lc_entries l')}"
      using l'(1) by (simp_all add: life_inv_def)
    have "closes \<Longrightarrow> i \<notin> open_entries l'" using l'(2) by simp
    with a p'(5) show "open_entries l' \<subseteq> handled_by p'" "handled_by p' \<subseteq> {..<length (lc_entries l')}" by (auto split: if_splits)
    show "fst ` set (pr_handlers p') \<subseteq> {..<length (lc_entries l')}" using a(3) p'(4) by (meson image_mono subset_trans)
  qed
  have "pr_close p \<noteq> Closed" using l'(1) p'(3) by (auto simp: life_inv_def)
  then have "life_inv cfg (workerDone l', p')"
    using l'(1) op p'(1-3) by (cases "pr_close p") (auto simp: life_inv_def workerDone_def)
  then show ?case by (simp only: l'_def p'_def hs')
next
  case (CloseConn i l p env)
  then show ?case using close_inv by blast
next
  case (Sweep l p env)
  then show ?case using conn_cleanup_law [of cfg "lc_limiter l" "snd env"]
    by (auto simp: life_inv_def conn_sweep_def open_entries_def split: close_pc.splits)
next
  case (BeginClose l conns p)
  then show ?case
    by (auto simp: life_inv_def begin_Close_def open_entries_def handled_by_def split: if_splits close_pc.splits)
next
  case (CloseNext p i conns l env)
  have i: "i < length (lc_entries l)" using CloseNext by (simp add: life_inv_def)
  from close_inv [OF CloseNext.prems i] CloseNext show ?case
    by (auto simp: life_inv_def handled_by_def)
next
  case (AllClosed p l)
  then show ?case by (auto simp: life_inv_def handled_by_def)
next
  case (WaitEnds p l)
  then have "pr_accept p = Ended \<and> pr_handlers p = []" by (simp add: life_inv_def split: if_splits)
  with WaitEnds show ?case by (simp add: life_inv_def handled_by_def)
qed


lemma first_running_inv:
  "life_inv (conn_cfg (newConnectionLimiter m i w r t c)) (first_running (Some (newConnectionLimiter m i w r t c)))"
proof -
  let ?new = "newConnectionLimiter m i w r t c"
  have "conn_held (Some ?new) = (\<lambda>_. 0)"
    by (simp add: conn_held_def newConnectionLimiter_def held_in_def fun_eq_iff Let_def)
  then show ?thesis using new_conn_inv
    by (auto simp: life_inv_def first_running_def new_lifecycle_def beginWorker_def conn_ok_def open_entries_def handled_by_def
        entry_places_def leased_place_def)
qed

lemma life_reachable_inv:
  assumes "life_run (first_running (Some (newConnectionLimiter m i w r t c))) s"
  shows "life_inv (conn_cfg (newConnectionLimiter m i w r t c)) s"
  using assms by (induction rule: rtranclp_induct) (auto intro: first_running_inv life_step_inv)

text \<open>C6. 
  In every state of every run: the table of connections is exactly the open ones, and the places taken in the
  connection limiter are exactly those of the open connections, with the one the accept loop is about to
  attach. Once \<open>Close\<close> has closed the connections it found, none is open, even when the accept loop was in the
  middle of taking one in; and when \<open>Close\<close> has waited for the workers, the accept loop and all handlers have
  ended and no place is taken.\<close>

theorem shutdown_leaves_nothing_open:
  assumes "life_run (first_running (Some (newConnectionLimiter m i w r t c))) (l, p)"
  shows "set (lc_conns l) = open_entries l
    \<and> conn_held (lc_limiter l) = (\<lambda>ip. entry_places (lc_entries l) ip + leased_place (pr_accept p) ip)
    \<and> (pr_close p \<in> {Waiting, Closed} \<longrightarrow> open_entries l = {})
    \<and> (pr_close p = Closed \<longrightarrow> pr_accept p = Ended \<and> pr_handlers p = [] \<and> lc_workers l = 0 \<and> conn_held (lc_limiter l) = (\<lambda>_. 0))"
  using life_reachable_inv [OF assms] places_empty [of l]
  by (auto simp: life_inv_def leased_place_def fun_eq_iff)

text \<open>A connection is taken in while \<open>Close\<close> begins.\<close>

definition sample_limiter :: connectionLimiter where
  "sample_limiter = newConnectionLimiter 10 2 60 5 100 60"

definition sample_conn_env :: conn_env where
  "sample_conn_env = (\<lambda>xs. xs, 0)"

definition sample_leased :: running where
  "sample_leased = (let (l, p) = first_running (Some sample_limiter)
     in (l\<lparr>lc_limiter := fst (conn_acquire sample_conn_env ''10.0.0.9'' (lc_limiter l))\<rparr>, p\<lparr>pr_accept := Leased (ReleaseOf ''10.0.0.9'')\<rparr>))"

definition sample_closing :: running where
  "sample_closing = (fst (begin_Close (fst sample_leased)), (snd sample_leased)\<lparr>pr_close := Closing []\<rparr>)"

definition sample_closed :: running where
  "sample_closed = (workerDone (fst (trackEntryConn sample_conn_env (ReleaseOf ''10.0.0.9'') (fst sample_closing))),
     (snd sample_closing)\<lparr>pr_accept := Ended, pr_close := Closed\<rparr>)"

lemma sample_life_run: "life_run (first_running (Some sample_limiter)) sample_closed"
proof -
  let ?p1 = "\<lparr>pr_accept = Leased (ReleaseOf ''10.0.0.9''), pr_close = Closing [], pr_handlers = []\<rparr>"
  have "conn_acquire sample_conn_env ''10.0.0.9'' (lc_limiter (fst (first_running (Some sample_limiter)))) =
      (lc_limiter (fst sample_leased), ReleaseOf ''10.0.0.9'', True)"
    by code_simp
  then have "life_step (first_running (Some sample_limiter)) sample_leased"
    using AcceptGranted [of "snd (first_running (Some sample_limiter))" sample_conn_env "''10.0.0.9''" "fst (first_running (Some sample_limiter))"]
    by (simp add: sample_leased_def first_running_def sample_conn_env_def Let_def split_beta)
  moreover have "life_step sample_leased sample_closing"
  proof -
    have "snd (begin_Close (fst sample_leased)) = Some []" by code_simp
    then show ?thesis using BeginClose [of "fst sample_leased" "[]" "snd sample_leased"] by (simp add: sample_closing_def)
  qed
  moreover have "life_step sample_closing (workerDone (fst (trackEntryConn sample_conn_env (ReleaseOf ''10.0.0.9'') (fst sample_closing))),
      (snd sample_closing)\<lparr>pr_accept := Ended\<rparr>)" (is "life_step _ ?s")
  proof -
    have "pr_accept (snd sample_closing) = Leased (ReleaseOf ''10.0.0.9'')" "lc_closing (fst sample_closing)" by code_simp+
    then show ?thesis using Track [of "snd sample_closing" "ReleaseOf ''10.0.0.9''" "fst sample_closing" sample_conn_env]
      by (simp add: trackEntryConn_def Let_def)
  qed
  moreover have "life_step ?s (fst ?s, (snd ?s)\<lparr>pr_close := Waiting\<rparr>)"
    using AllClosed [of "snd ?s" "fst ?s"] by (simp add: sample_closing_def)
  moreover have "life_step (fst ?s, (snd ?s)\<lparr>pr_close := Waiting\<rparr>) sample_closed"
  proof -
    have "lc_workers (fst ?s) = 0" by code_simp
    then show ?thesis using WaitEnds [of "(snd ?s)\<lparr>pr_close := Waiting\<rparr>" "fst ?s"] by (simp add: sample_closed_def)
  qed
  ultimately show ?thesis by (meson rtranclp.rtrancl_into_rtrancl rtranclp.rtrancl_refl)
qed

theorem shutdown_leaves_nothing_open_witness:
  "length (lc_entries (fst sample_closed)) = 1 \<and> open_entries (fst sample_closed) = {}
   \<and> conn_held (lc_limiter (fst sample_closed)) = (\<lambda>_. 0)"
proof -
  have "pr_close (snd sample_closed) = Closed" "length (lc_entries (fst sample_closed)) = 1" by code_simp+
  moreover have "life_run (first_running (Some (newConnectionLimiter 10 2 60 5 100 60))) (fst sample_closed, snd sample_closed)"
    using sample_life_run by (simp add: sample_limiter_def)
  ultimately show ?thesis using shutdown_leaves_nothing_open by blast
qed

end
