(* ===== verification/Server_Workers.thy ===== *)
theory Server_Workers
  imports Server_Handler
begin

text \<open>
  The workers behind a passive listener (\<open>server/tunnel/reverse.go\<close>): what happens to an inbound connection until the
  client takes it, fails to, or the server stops, and the connection that a reverse client keeps open.

  A worker waits in a \<open>select\<close>. How the \<open>select\<close> ends is an argument, and so is what the other goroutines have done to
  the server while the worker waited.
\<close>

section \<open>An inbound connection\<close>

datatype offer_end = OfferSent | OfferControlGone | OfferStopped | OfferExpired
datatype wait_end = PendingDone | WaitControlGone | WaitStopped | WaitExpired

record 'k inbound_env =
  ie_rng :: "nat list \<Rightarrow> nat list"
  ie_streamID :: "string res"
  ie_offer :: offer_end
  ie_offering :: "'k server \<Rightarrow> 'k server"
  ie_wait :: wait_end
  ie_waiting :: "'k server \<Rightarrow> 'k server"
  ie_remote :: "string option"

definition failed_flow :: "string \<Rightarrow> string \<Rightarrow> string \<Rightarrow> string option \<Rightarrow> flowTrafficLogEntry" where
  "failed_flow addr code message remote =
     zero_flow\<lparr>fte_Event := ''reverse_inbound_failed'', fte_Kind := ''reverse_inbound'', fte_Result := ''failed'',
       fte_RemoteIP := remoteHost remote, fte_ListenAddr := addr, fte_Code := code, fte_Message := message, fte_Abnormal := True\<rparr>"

definition failed_event :: "string \<Rightarrow> string \<Rightarrow> string \<Rightarrow> runtimeEvent" where
  "failed_event addr code message =
     zeroEvent\<lparr>ev_Kind := ''reverse_inbound'', ev_Result := ''failed'', ev_ListenAddr := addr, ev_Code := code, ev_Message := message\<rparr>"

definition record_inbound_failure ::
    "('k, 'p) server_env \<Rightarrow> nat \<Rightarrow> string \<Rightarrow> string \<Rightarrow> string \<Rightarrow> string option \<Rightarrow> 'k server \<Rightarrow> 'k server" where
  "record_inbound_failure env i addr code message remote s =
     recordEvent env (i + 1) (failed_event addr code message)
       (recordFlowTrafficLog env i (failed_flow addr code message remote) (s\<lparr>sv_dialFailed := sv_dialFailed s + 1\<rparr>))"

definition listener_addr :: "nat \<Rightarrow> 'k server \<Rightarrow> string" where
  "listener_addr rl s = rl_addr (rw_listener (sv_revs s ! rl))"

text \<open>The connection is closed by a \<open>defer\<close>, after the records.\<close>

definition expireReversePending :: "('k, 'p) server_env \<Rightarrow> nat \<Rightarrow> string \<Rightarrow> string option \<Rightarrow> 'k server \<Rightarrow> 'k server" where
  "expireReversePending env rl streamID remote s =
     (case on_rev rl (takePending streamID) s of (s, None) \<Rightarrow> s
      | (s, Some p) \<Rightarrow>
          close_inbound p
            (if sv_ctxDone s then s
             else record_inbound_failure env 40 (listener_addr rl s) ''client_stream_timeout'' ''timed out waiting for client stream'' remote s))"

definition finish_inbound :: "('k, 'p) server_env \<Rightarrow> nat \<Rightarrow> string \<Rightarrow> 'k server \<Rightarrow> 'k server" where
  \<comment> \<open>the \<open>defer\<close> of \<open>handleReverseInbound\<close>\<close>
  "finish_inbound env rl streamID s =
     closeReverseListenerIfIdle env rl
       (case on_rev rl (takePending streamID) s of (s, None) \<Rightarrow> s | (s, Some p) \<Rightarrow> close_inbound p s)"

text \<open>The two waits; the second begins when the request was handed to the control.\<close>

definition await_client :: "('k, 'p) server_env \<Rightarrow> 'k inbound_env \<Rightarrow> nat \<Rightarrow> string \<Rightarrow> 'k server \<Rightarrow> 'k server" where
  "await_client env ie rl streamID s =
     (let s = ie_offering ie s
      in case ie_offer ie of
           OfferControlGone \<Rightarrow> s
         | OfferStopped \<Rightarrow> s
         | OfferExpired \<Rightarrow> expireReversePending env rl streamID (ie_remote ie) s
         | OfferSent \<Rightarrow>
             (let s = ie_waiting ie s
              in if ie_wait ie = WaitExpired then expireReversePending env rl streamID (ie_remote ie) s else s))"

definition handleReverseInbound :: "('k, 'p) server_env \<Rightarrow> 'k inbound_env \<Rightarrow> nat \<Rightarrow> nat \<Rightarrow> 'k server \<Rightarrow> 'k server" where
  "handleReverseInbound env ie rl inbound s =
     (case pickControl (ie_rng ie) (sv_revs s ! rl) of
        None \<Rightarrow>
          (let s = record_inbound_failure env 42 (listener_addr rl s) ''no_active_client'' ''reverse stream has no active client'' (ie_remote ie) s
           in closeReverseListenerIfIdle env rl (close_inbound inbound s))
      | Some control \<Rightarrow>
         (case ie_streamID ie of Inl err \<Rightarrow> close_inbound inbound s
          | Inr streamID \<Rightarrow>
             (case on_rev rl (addPending streamID inbound) s of
                (s, False) \<Rightarrow> close_inbound inbound s
              | (s, True) \<Rightarrow> finish_inbound env rl streamID (await_client env ie rl streamID s))))"

definition reverse_wait_timeout :: "securityConfig \<Rightarrow> duration" where
  "reverse_wait_timeout sec =
     (if seconds (sec_DialTimeoutSec sec) \<le> 0 then 5 * second else seconds (sec_DialTimeoutSec sec))"

section \<open>The connection of a reverse client\<close>

definition writeReverseControlResponse :: "('k, 'p) server_env \<Rightarrow> openResponse \<Rightarrow> entryConn \<Rightarrow> entryConn \<times> go_error option" where
  "writeReverseControlResponse env resp conn = reply env (serverVersionResponse resp) conn"

text \<open>What the writing goroutine wakes up for, until the control is closed.\<close>

datatype control_wake = ConnectRequest string | HeartbeatTick

definition wake_response :: "control_wake \<Rightarrow> openResponse" where
  "wake_response w =
     (case w of
        ConnectRequest streamID \<Rightarrow> zero_response\<lparr>resp_OK := True, resp_Code := ''reverse_connect'', resp_Message := ''open reverse stream'',
                                     resp_StreamID := streamID\<rparr>
      | HeartbeatTick \<Rightarrow> zero_response\<lparr>resp_OK := True, resp_Code := ''reverse_ping'', resp_Message := ''keepalive''\<rparr>)"

definition wake_failure :: "control_wake \<Rightarrow> string" where
  "wake_failure w = (case w of ConnectRequest _ \<Rightarrow> ''reverse control %s write failed: %v'' | HeartbeatTick \<Rightarrow> ''reverse control %s heartbeat failed: %v'')"

fun control_writer ::
    "('k, 'p) server_env \<Rightarrow> nat \<Rightarrow> nat \<Rightarrow> control_wake list \<Rightarrow> entryConn \<Rightarrow> 'k server \<Rightarrow> 'k server \<times> entryConn" where
  "control_writer env rl c [] conn s = (s, conn)"
| "control_writer env rl c (w # ws) conn s =
     (case writeReverseControlResponse env (wake_response w) conn of
        (conn, Some err) \<Rightarrow>
          (upd_rev rl (control_close c) (svlog (Sprintf (wake_failure w) [FS (rct_forwardName (sv_controls s ! c)), FE err]) s), conn_close conn)
      | (conn, None) \<Rightarrow> control_writer env rl c ws conn s)"

text \<open>How a read of the control failed; a read that succeeds only keeps the connection alive.\<close>

datatype read_failure = ReadClosed | ReadTimeout go_error | ReadFailed go_error

definition close_reason :: "read_failure \<Rightarrow> string \<times> string" where
  "close_reason r =
     (case r of
        ReadClosed \<Rightarrow> (''closed'', [])
      | ReadTimeout _ \<Rightarrow> (''heartbeat_timeout'', ''reverse control heartbeat timed out'')
      | ReadFailed _ \<Rightarrow> (''control_read_failed'', ''reverse control connection was interrupted''))"

definition read_failure_line :: "string \<Rightarrow> read_failure \<Rightarrow> 'k server \<Rightarrow> 'k server" where
  "read_failure_line name r s =
     (case r of
        ReadClosed \<Rightarrow> s
      | ReadTimeout _ \<Rightarrow> svlog (Sprintf ''reverse control %s heartbeat timeout'' [FS name]) s
      | ReadFailed err \<Rightarrow> svlog (Sprintf ''reverse control %s read failed: %v'' [FS name, FE err]) s)"

text \<open>What follows the failed read: the control and the connections that wait for it are closed.\<close>

definition end_reverse_control ::
    "('k, 'p) server_env \<Rightarrow> nat \<Rightarrow> nat \<Rightarrow> read_failure \<Rightarrow> 'k server \<Rightarrow> 'k server" where
  "end_reverse_control env rl c r s =
     (let ctl = sv_controls s ! c; (closeCode, closeMessage) = close_reason r; addr = listener_addr rl s;
          s = read_failure_line (rct_forwardName ctl) r s;
          s = upd_rev rl (\<lambda>w. closePending (se_rangePending env) (removeControl c (control_close c w))) s;
          s = closeReverseListenerIfIdle env rl s
      in recordEvent env 44 (zeroEvent\<lparr>ev_RequestID := rct_requestID ctl, ev_Kind := ''reverse_listen'', ev_Result := ''closed'',
             ev_Username := rct_username ctl, ev_ClientID := rct_clientID ctl, ev_ForwardName := rct_forwardName ctl,
             ev_Target := rct_target ctl, ev_ListenAddr := addr, ev_Code := closeCode, ev_Message := closeMessage\<rparr>) s)"

text \<open>\<open>runReverseControl\<close>: the writer wakes for \<open>ws\<close> before the read of the client fails with \<open>r\<close>; \<open>meanwhile\<close> is what the
  rest of the server does in that time.\<close>

definition runReverseControl ::
    "('k, 'p) server_env \<Rightarrow> ('k server \<Rightarrow> 'k server) \<Rightarrow> nat \<Rightarrow> nat \<Rightarrow> control_wake list \<Rightarrow> read_failure \<Rightarrow> entryConn \<Rightarrow> 'k server
     \<Rightarrow> 'k server \<times> entryConn" where
  "runReverseControl env meanwhile rl c ws r conn s =
     (case control_writer env rl c ws conn s of (s, conn) \<Rightarrow> (end_reverse_control env rl c r (meanwhile s), conn_close conn))"

definition newReverseStreamID :: "string res \<Rightarrow> string res" where
  "newReverseStreamID random = map_sum (\<lambda>e. e) Hex_Encode random"

end
