(* ===== verification/Server_Workers_Laws.thy ===== *)
theory Server_Workers_Laws
  imports Server_Workers Handler_Laws
begin

text \<open>What becomes of an inbound connection of a passive listener.\<close>

abbreviation waiting :: "nat \<Rightarrow> 'k server \<Rightarrow> string \<Rightarrow> nat option" where
  "waiting rl s sid \<equiv> map_of (pending_of (sv_revs s ! rl)) sid"

lemma fold_drop_pending: "map_of (pending_of w) sid = None \<Longrightarrow> map_of (pending_of (fold drop_pending es w)) sid = None"
proof (induction es arbitrary: w)
  case (Cons e es)
  have "pending_of (drop_pending e w) = AList.delete (fst e) (pending_of w)" by (simp add: rev_op_defs)
  with Cons show ?case by (simp add: delete_conv)
qed simp

lemma fold_drop_control: "pending_of (fold drop_control cs w) = pending_of w"
  by (induction cs arbitrary: w) (auto simp: rev_op_defs)

lemma rl_close_pending: "map_of (pending_of w) sid = None \<Longrightarrow> map_of (pending_of (rl_close rngc rng w)) sid = None"
  by (simp add: rl_close_def Let_def closePending_def with_listener_def fold_drop_control fold_drop_pending)

lemma close_idle_fields:
  "length (sv_revs (closeReverseListenerIfIdle env rl s)) = length (sv_revs s)
   \<and> sv_inboundClosed (closeReverseListenerIfIdle env rl s) = sv_inboundClosed s"
  by (simp add: closeReverseListenerIfIdle_def upd_rev_def on_rev_def Let_def)

lemma close_idle_waiting:
  assumes "rl < length (sv_revs s)" and "waiting rl s sid = None"
  shows "waiting rl (closeReverseListenerIfIdle env rl s) sid = None"
  using assms by (simp add: closeReverseListenerIfIdle_def upd_rev_def on_rev_def Let_def rl_close_pending)

lemma take_fields:
  assumes "rl < length (sv_revs s)" and "on_rev rl (takePending sid) s = (s', r)"
  shows "r = waiting rl s sid \<and> waiting rl s' sid = None \<and> length (sv_revs s') = length (sv_revs s)
    \<and> sv_inboundClosed s' = sv_inboundClosed s"
  using assms by (auto simp: on_rev_def takePending_def rev_op_defs delete_conv' split: option.splits if_splits)

lemma record_inbound_fields:
  "sv_revs (record_inbound_failure env i addr code message remote s) = sv_revs s"
  "sv_inboundClosed (record_inbound_failure env i addr code message remote s) = sv_inboundClosed s"
  by (simp_all add: record_inbound_failure_def)

lemma expire_fields:
  assumes "rl < length (sv_revs s)"
    and s'_def: "s' = expireReversePending env rl sid remote s"
  shows "waiting rl s' sid = None \<and> length (sv_revs s') = length (sv_revs s)
    \<and> set (sv_inboundClosed s') = set_option (waiting rl s sid) \<union> set (sv_inboundClosed s)"
proof -
  obtain t r where t: "on_rev rl (takePending sid) s = (t, r)" by fastforce
  have w: "waiting rl s sid = r" "waiting rl t sid = None" "length (sv_revs t) = length (sv_revs s)" "sv_inboundClosed t = sv_inboundClosed s"
    using take_fields [OF assms(1) t] by simp_all
  show ?thesis
    by (cases r) (simp_all add: s'_def expireReversePending_def t w close_inbound_def record_inbound_fields)
qed

lemma finish_fields:
  assumes "rl < length (sv_revs s)"
    and s'_def: "s' = finish_inbound env rl sid s"
  shows "waiting rl s' sid = None \<and> set (sv_inboundClosed s') = set_option (waiting rl s sid) \<union> set (sv_inboundClosed s)"
proof -
  obtain t r where t: "on_rev rl (takePending sid) s = (t, r)" by fastforce
  define u where "u = (case r of None \<Rightarrow> t | Some p \<Rightarrow> close_inbound p t)"
  have u: "waiting rl u sid = None" "rl < length (sv_revs u)"
    "set (sv_inboundClosed u) = set_option (waiting rl s sid) \<union> set (sv_inboundClosed s)"
  proof -
    have w: "waiting rl s sid = r" "waiting rl t sid = None" "length (sv_revs t) = length (sv_revs s)" "sv_inboundClosed t = sv_inboundClosed s"
      using take_fields [OF assms(1) t] by simp_all
    then show "waiting rl u sid = None" "rl < length (sv_revs u)"
      "set (sv_inboundClosed u) = set_option (waiting rl s sid) \<union> set (sv_inboundClosed s)"
      using assms(1) by (cases r; simp add: u_def close_inbound_def)+
  qed
  have "s' = closeReverseListenerIfIdle env rl u" by (simp add: s'_def finish_inbound_def t u_def)
  with u close_idle_waiting [OF u(2,1)] close_idle_fields [of env rl u] show ?thesis by simp
qed

text \<open>
  The worker of an inbound connection never leaves it waiting: when it returns, the identifier of its stream is
  not pending any more, whatever the other goroutines did in between; and when none of them took the connection,
  the worker has closed it.\<close>

theorem inbound_connection_settled:
  assumes rl: "rl < length (sv_revs s)" and sid: "ie_streamID ie = Inr sid" and fresh: "waiting rl s sid = None"
    and others: "\<forall>t. rl < length (sv_revs t) \<longrightarrow> rl < length (sv_revs (ie_offering ie t)) \<and> rl < length (sv_revs (ie_waiting ie t))"
  shows "waiting rl (handleReverseInbound env ie rl p s) sid = None
    \<and> ((\<forall>t. waiting rl (ie_offering ie t) sid = waiting rl t sid \<and> waiting rl (ie_waiting ie t) sid = waiting rl t sid)
       \<longrightarrow> p \<in> set (sv_inboundClosed (handleReverseInbound env ie rl p s)))"
proof (cases "pickControl (ie_rng ie) (sv_revs s ! rl)")
  case None
  let ?t = "close_inbound p (record_inbound_failure env 42 (listener_addr rl s) ''no_active_client'' ''reverse stream has no active client'' (ie_remote ie) s)"
  have t: "rl < length (sv_revs ?t)" "waiting rl ?t sid = None" "p \<in> set (sv_inboundClosed ?t)"
    using rl fresh by (simp_all add: close_inbound_def record_inbound_fields)
  show ?thesis using close_idle_waiting [OF t(1,2)] close_idle_fields [of env rl ?t] t(3)
    by (simp add: handleReverseInbound_def None Let_def)
next
  case (Some control)
  show ?thesis
  proof (cases "rl_closed (rw_listener (sv_revs s ! rl))")
    case True
    then show ?thesis using Some sid fresh rl
      by (simp add: handleReverseInbound_def on_rev_def addPending_def close_inbound_def)
  next
    case False
    define t where "t = fst (on_rev rl (addPending sid p) s)"
    define u where "u = await_client env ie rl sid t"
    have h: "handleReverseInbound env ie rl p s = finish_inbound env rl sid u"
      using Some sid False by (simp add: handleReverseInbound_def on_rev_def addPending_def t_def u_def)
    have t: "rl < length (sv_revs t)" "waiting rl t sid = Some p"
      using rl False by (simp_all add: t_def on_rev_def addPending_def with_listener_def gomap_simps)
    have u: "rl < length (sv_revs u)" using t(1) others expire_fields [OF _ refl, of rl _ env sid "ie_remote ie"]
      by (auto simp: u_def await_client_def Let_def split: offer_end.split)
    have kept: "waiting rl u sid = Some p \<or> p \<in> set (sv_inboundClosed u)"
      if "\<forall>t. waiting rl (ie_offering ie t) sid = waiting rl t sid \<and> waiting rl (ie_waiting ie t) sid = waiting rl t sid"
    proof -
      have o: "rl < length (sv_revs (ie_offering ie t))" "waiting rl (ie_offering ie t) sid = Some p"
        and w: "rl < length (sv_revs (ie_waiting ie (ie_offering ie t)))" "waiting rl (ie_waiting ie (ie_offering ie t)) sid = Some p"
        using t others that by auto
      show ?thesis using o w expire_fields [OF o(1) refl, of env sid "ie_remote ie"] expire_fields [OF w(1) refl, of env sid "ie_remote ie"]
        by (auto simp: u_def await_client_def Let_def split: offer_end.split)
    qed
    from finish_fields [OF u refl, of env sid] kept show ?thesis by (auto simp: h)
  qed
qed

definition sample_reverse_server :: "string server" where
  "sample_reverse_server = sample_server\<lparr>sv_revs := [fst (addControl 0 (new_rev_world ''127.0.0.1:9022''))]\<rparr>"

definition sample_inbound :: "string inbound_env" where
  "sample_inbound = \<lparr>ie_rng = (\<lambda>cs. cs), ie_streamID = Inr ''0a'', ie_offer = OfferSent, ie_offering = (\<lambda>s. s),
     ie_wait = WaitExpired, ie_waiting = (\<lambda>s. s), ie_remote = None\<rparr>"

theorem inbound_connection_settled_witness:
  "waiting 0 (handleReverseInbound sample_server_env sample_inbound 0 7 sample_reverse_server) ''0a'' = None
   \<and> 7 \<in> set (sv_inboundClosed (handleReverseInbound sample_server_env sample_inbound 0 7 sample_reverse_server))"
  using inbound_connection_settled [of 0 sample_reverse_server sample_inbound "''0a''" sample_server_env 7]
  by (simp add: sample_reverse_server_def sample_inbound_def addControl_def new_rev_world_def newReverseListener_def with_listener_def)

end
