(* ===== verification/Success_History.thy ===== *)
theory Success_History
  imports Server_Logs Fail_Laws
begin

text \<open>
  \<open>server/tunnel/successful_ip_history.go\<close>: at the start the server reads the request log of the last seven days. An
  address that logged in today is protected from protocol blocks for the day, and a permanent block of an address
  with a successful request in these days is taken back.
\<close>

definition successfulIPHistoryDays :: int where
  "successfulIPHistoryDays = 7"

definition successfulIPHistoryMaxLineBytes :: nat where
  "successfulIPHistoryMaxLineBytes = 1024 * 1024"

record history_env =
  he_fail :: fail_env
  he_json :: "string \<Rightarrow> requestLogEntry res"

definition he_tz :: "history_env \<Rightarrow> time \<Rightarrow> int" where
  "he_tz he = fe_tz (he_fail he)"

section \<open>Reading the log\<close>

text \<open>What one line gives: the address and the time of a successful request inside the window.\<close>

definition line_visit :: "history_env \<Rightarrow> time \<Rightarrow> time \<Rightarrow> string \<Rightarrow> (string \<times> time) option" where
  "line_visit he start_at end_at line =
     (let line = TrimSpace line
      in if line = [] then None
         else (case he_json he line of Inl _ \<Rightarrow> None
          | Inr entry \<Rightarrow>
              if \<not> isSuccessfulRequestForBlockProtection entry then None
              else (case parse_rfc3339 (rle_Time entry) of None \<Rightarrow> None
               | Some occurredAt \<Rightarrow>
                   if occurredAt < start_at \<or> \<not> occurredAt < end_at then None
                   else map_option (\<lambda>ip. (ip, occurredAt)) (canonicalSuccessfulIP (rle_RemoteIP entry)))))"

definition scanSuccessfulRequestFile ::
    "history_env \<Rightarrow> files \<Rightarrow> string \<Rightarrow> time \<Rightarrow> time \<Rightarrow> (string \<times> time) list \<times> go_error option" where
  "scanSuccessfulRequestFile he fs path start_at end_at =
     (case ReadFile (fe_os (he_fail he)) fs path of
        Inl err \<Rightarrow> ([], if IsNotExist err then None else Some err)
      | Inr data \<Rightarrow>
         (case scan_buffer successfulIPHistoryMaxLineBytes data of
            (lines, err) \<Rightarrow> (List.map_filter (line_visit he start_at end_at) lines, err)))"

definition join_error :: "go_error option \<Rightarrow> go_error option \<Rightarrow> go_error option" where
  \<comment> \<open>\<open>errors.Join\<close> of two errors that may be nil\<close>
  "join_error a b =
     (case a of None \<Rightarrow> map_option (\<lambda>e. Errorf ''%w'' [FE e]) b
      | Some e \<Rightarrow> Some (case b of None \<Rightarrow> Errorf ''%w'' [FE e] | Some e' \<Rightarrow> Errorf (''%w'' @ newline @ ''%w'') [FE e, FE e']))"

fun scan_candidates ::
    "history_env \<Rightarrow> files \<Rightarrow> time \<Rightarrow> time \<Rightarrow> string list \<Rightarrow> string list \<Rightarrow> go_error option \<Rightarrow> (string \<times> time) list \<times> go_error option" where
  "scan_candidates he fs start_at end_at [] seen err = ([], err)"
| "scan_candidates he fs start_at end_at (candidate # rest) seen err =
     (let candidate = Clean candidate
      in if candidate \<in> set seen then scan_candidates he fs start_at end_at rest seen err
         else (case scanSuccessfulRequestFile he fs candidate start_at end_at of
                 (visits, e) \<Rightarrow>
                   (let err = (case e of None \<Rightarrow> err
                       | Some e \<Rightarrow> join_error err (Some (Errorf ''scan successful request history %s: %w'' [FS candidate, FE e])))
                    in case scan_candidates he fs start_at end_at rest (candidate # seen) err of (vs, err) \<Rightarrow> (visits @ vs, err))))"

text \<open>The files of the last days, today first, and the base file.\<close>

definition history_files :: "history_env \<Rightarrow> string \<Rightarrow> time \<Rightarrow> int \<Rightarrow> string list" where
  "history_files he basePath today days =
     map (\<lambda>offset. datedJSONLPath basePath
            (let day = AddDate (he_tz he) today 0 0 (- int offset) in date_text (he_tz he day) day)) [0..<nat days]
     @ [basePath]"

definition scanRecentSuccessfulRequestIPs ::
    "history_env \<Rightarrow> files \<Rightarrow> string \<Rightarrow> time \<Rightarrow> int \<Rightarrow> (string \<times> time) list \<times> go_error option" where
  "scanRecentSuccessfulRequestIPs he fs basePath now days =
     (let basePath = TrimSpace basePath
      in if basePath = [] \<or> days \<le> 0 then ([], None)
         else let basePath = Clean basePath; today = local_midnight (he_tz he) now
           in scan_candidates he fs (AddDate (he_tz he) today 0 0 (- (days - 1))) (AddDate (he_tz he) today 0 0 1)
                (history_files he basePath today days) [] None)"

section \<open>Taking blocks back\<close>

text \<open>The visitor of \<open>reconcileSuccessfulIPHistory\<close> with the addresses it has collected.\<close>

definition reconcile_visit :: "history_env \<Rightarrow> time \<Rightarrow> string \<times> time \<Rightarrow> failTracker \<times> string list \<Rightarrow> failTracker \<times> string list" where
  "reconcile_visit he today v st =
     (case v of (ip, occurredAt) \<Rightarrow> case st of (f, found) \<Rightarrow>
        (let f = (if \<not> occurredAt < today then fst (markSuccessful (he_fail he) f ip) else f)
         in (f, if hasPermanent f ip then List.insert ip found else found)))"

definition reconcileSuccessfulIPHistory :: "history_env \<Rightarrow> tracked \<Rightarrow> string \<Rightarrow> time \<Rightarrow> tracked \<times> go_error option" where
  "reconcileSuccessfulIPHistory he s requestLogPath now =
     (case s of (f, fs) \<Rightarrow>
        (let today = local_midnight (he_tz he) now;
             (visits, scanErr) = scanRecentSuccessfulRequestIPs he fs requestLogPath now successfulIPHistoryDays;
             (f, found) = fold (reconcile_visit he today) visits (f, [])
         in case removePermanentSuccessful (he_fail he) (f, fs) found of
              (s, Inl removeErr) \<Rightarrow> (s, join_error scanErr (Some removeErr))
            | (s, Inr _) \<Rightarrow> (s, join_error scanErr None)))"

section \<open>Only addresses with a recent success are unblocked\<close>

lemma mark_permanent: "ft_permanent (fst (markSuccessful env f key)) = ft_permanent f"
  by (auto simp: markSuccessful_def rotateSuccessfulIPsLocked_def Let_def split: option.split)

lemma mark_files: "ft_permanentFile (fst (markSuccessful env f key)) = ft_permanentFile f"
  by (auto simp: markSuccessful_def rotateSuccessfulIPsLocked_def Let_def split: option.split)

lemma fold_visits:
  "fold (reconcile_visit he today) vs (f, found) = (f', found') \<Longrightarrow>
   ft_permanent f' = ft_permanent f \<and> ft_permanentFile f' = ft_permanentFile f
   \<and> set found' = set found \<union> {ip \<in> fst ` set vs. ip \<in> set (ft_permanent f)}"
proof (induction vs arbitrary: f found)
  case (Cons v vs)
  obtain ip t where v: "v = (ip, t)" by fastforce
  obtain g got where g: "reconcile_visit he today v (f, found) = (g, got)" by fastforce
  have keep: "ft_permanent g = ft_permanent f" "ft_permanentFile g = ft_permanentFile f"
    "set got = set found \<union> (if ip \<in> set (ft_permanent f) then {ip} else {})"
    using g by (auto simp: v reconcile_visit_def Let_def mark_permanent mark_files hasPermanent_def split: if_splits)
  from Cons.prems g have "fold (reconcile_visit he today) vs (g, got) = (f', found')" by simp
  from Cons.IH [OF this] keep show ?case by (auto simp: v)
qed auto

lemma line_visit_window:
  "line_visit he a b line = Some (ip, t) \<Longrightarrow>
   a \<le> t \<and> t < b \<and> (\<exists>entry. he_json he (TrimSpace line) = Inr entry \<and> isSuccessfulRequestForBlockProtection entry
     \<and> canonicalSuccessfulIP (rle_RemoteIP entry) = Some ip \<and> parse_rfc3339 (rle_Time entry) = Some t)"
  by (auto simp: line_visit_def Let_def split: if_splits sum.splits option.splits)

text \<open>A line of one of the files that the scan reads.\<close>

definition logged_line :: "history_env \<Rightarrow> files \<Rightarrow> string list \<Rightarrow> string \<Rightarrow> bool" where
  "logged_line he fs paths line \<longleftrightarrow> (\<exists>path data. path \<in> set paths \<and> ReadFile (fe_os (he_fail he)) fs (Clean path) = Inr data
     \<and> line \<in> set (fst (scan_buffer successfulIPHistoryMaxLineBytes data)))"

lemma scan_file_visits:
  "(ip, t) \<in> set (fst (scanSuccessfulRequestFile he fs (Clean path) a b)) \<Longrightarrow> path \<in> set paths \<Longrightarrow>
   \<exists>line. logged_line he fs paths line \<and> line_visit he a b line = Some (ip, t)"
  by (auto simp: scanSuccessfulRequestFile_def logged_line_def List.map_filter_def split: sum.splits prod.splits) (metis fst_conv)

lemma scan_visits:
  "(ip, t) \<in> set (fst (scan_candidates he fs a b ps seen err)) \<Longrightarrow> set ps \<subseteq> set paths \<Longrightarrow>
   \<exists>line. logged_line he fs paths line \<and> line_visit he a b line = Some (ip, t)"
proof (induction ps arbitrary: seen err)
  case (Cons p ps)
  show ?case
  proof (cases "Clean p \<in> set seen")
    case True
    with Cons show ?thesis by (simp add: Let_def)
  next
    case False
    obtain vs e where f: "scanSuccessfulRequestFile he fs (Clean p) a b = (vs, e)" by fastforce
    have "(ip, t) \<in> set vs \<or> (\<exists>seen err. (ip, t) \<in> set (fst (scan_candidates he fs a b ps seen err)))"
      using Cons.prems(1) False by (auto simp: Let_def f split: prod.splits) (metis fst_conv)
    then show ?thesis using scan_file_visits [of ip t he fs p a b paths] Cons.IH Cons.prems(2) f by auto
  qed
qed simp

lemma removed_targets: "removePermanentBlockedIPs env fs path ips = (fs', Inr removed) \<Longrightarrow> set removed \<subseteq> permanentBlockIPKey ` set ips"
  by (auto simp: removePermanentBlockedIPs_def Let_def split: if_splits sum.splits option.splits prod.splits)

text \<open>C22. 
  The reconciliation takes back no other block: an address that is not blocked permanently any more has a line in the
  request log, readable as a successful request from that very address, inside the window of seven days that
  ends with the end of today.\<close>

theorem only_recent_successes_unblocked:
  assumes "reconcileSuccessfulIPHistory he (f, fs) path now = ((f', fs'), err)"
    and "ip \<in> set (ft_permanent f)" and "ip \<notin> set (ft_permanent f')"
  shows "\<exists>key line entry t. permanentBlockIPKey key = ip \<and> logged_line he fs (history_files he (Clean (TrimSpace path)) (local_midnight (he_tz he) now) 7) line \<and> he_json he (TrimSpace line) = Inr entry
    \<and> isSuccessfulRequestForBlockProtection entry \<and> canonicalSuccessfulIP (rle_RemoteIP entry) = Some key
    \<and> parse_rfc3339 (rle_Time entry) = Some t
    \<and> AddDate (he_tz he) (local_midnight (he_tz he) now) 0 0 (- 6) \<le> t \<and> t < AddDate (he_tz he) (local_midnight (he_tz he) now) 0 0 1"
proof -
  define today where "today = local_midnight (he_tz he) now"
  obtain visits scanErr where scan: "scanRecentSuccessfulRequestIPs he fs path now successfulIPHistoryDays = (visits, scanErr)" by fastforce
  obtain g found where fold: "fold (reconcile_visit he today) visits (f, []) = (g, found)" by fastforce
  have g: "ft_permanent g = ft_permanent f" "set found \<subseteq> fst ` set visits" using fold_visits [OF fold] by auto
  have "\<exists>key \<in> set found. permanentBlockIPKey key = ip"
  proof -
    obtain fs2 removed where r: "removePermanentBlockedIPs (fe_os (he_fail he)) fs (ft_permanentFile g) found = (fs2, Inr removed)" "ip \<in> set removed"
      using assms g(1) scan fold
      by (auto simp: reconcileSuccessfulIPHistory_def today_def [symmetric] Let_def removePermanentSuccessful_def split: prod.splits sum.splits if_splits)
    then show ?thesis using removed_targets by fastforce
  qed
  then obtain key t where key: "permanentBlockIPKey key = ip" "(key, t) \<in> set visits" using g(2) by fastforce
  then have "(key, t) \<in> set (fst (scan_candidates he fs (AddDate (he_tz he) today 0 0 (- 6)) (AddDate (he_tz he) today 0 0 1)
      (history_files he (Clean (TrimSpace path)) today successfulIPHistoryDays) [] None))"
    using scan by (auto simp: scanRecentSuccessfulRequestIPs_def Let_def today_def successfulIPHistoryDays_def split: if_splits)
  from scan_visits [OF this subset_refl] obtain line where
    line: "logged_line he fs (history_files he (Clean (TrimSpace path)) today successfulIPHistoryDays) line"
    "line_visit he (AddDate (he_tz he) today 0 0 (- 6)) (AddDate (he_tz he) today 0 0 1) line = Some (key, t)" by blast
  with line_visit_window [OF line(2)] key(1) show ?thesis by (auto simp: today_def successfulIPHistoryDays_def)
qed

definition sample_history_env :: history_env where
  "sample_history_env = \<lparr>he_fail = \<lparr>fe_now = 865000 * second, fe_tz = (\<lambda>t. 0), fe_os = no_faults, fe_encode = (\<lambda>_. []), fe_range = (\<lambda>xs. xs)\<rparr>,
     he_json = (\<lambda>_. Inr \<lparr>rle_Time = ''0001-01-10T10:00:00Z'', rle_RequestID = [], rle_RemoteAddr = [], rle_RemoteIP = ''10.0.0.9'', rle_LocalAddr = [],
       rle_Request = zero_request\<lparr>req_Type := ''login''\<rparr>, rle_ReadError = [], rle_AuthResult = ''ok'', rle_Response = zero_response\<lparr>resp_OK := True\<rparr>,
       rle_Result = ''ok'', rle_DurationMS = 0\<rparr>)\<rparr>"

definition sample_blocked :: failTracker where
  "sample_blocked = \<lparr>ft_window = 60 * second, ft_limit = 3, ft_blockFor = 60 * second, ft_maxItems = 10, ft_cleanupEvery = 60 * second,
     ft_successfulDate = [], ft_successfulIPs = [], ft_items = [], ft_permanent = [''10.0.0.9'', ''10.0.0.8''],
     ft_stateFile = [], ft_permanentFile = ''block.txt'', ft_evicted = 0, ft_capacityDrop = 0\<rparr>"

definition sample_log_files :: files where
  "sample_log_files = [(''request-0001-01-10.jsonl'', ''{}''), (''block.txt'', ''10.0.0.9'')]"

definition sample_today :: time where
  "sample_today = 864000 * second"

lemma sample_midnight: "local_midnight (he_tz sample_history_env) (865000 * second) = sample_today"
  by code_simp

lemma sample_history_files:
  "history_files sample_history_env ''request.jsonl'' sample_today 7 =
     [''request-0001-01-11.jsonl'',
      ''request-0001-01-10.jsonl'',
      ''request-0001-01-09.jsonl'',
      ''request-0001-01-08.jsonl'',
      ''request-0001-01-07.jsonl'',
      ''request-0001-01-06.jsonl'',
      ''request-0001-01-05.jsonl'',
      ''request.jsonl'']"
  by code_simp

lemma sample_clean: "list_all (\<lambda>p. Clean p = p) (history_files sample_history_env ''request.jsonl'' sample_today 7)"
  by code_simp

lemma sample_scan:
  "scanRecentSuccessfulRequestIPs sample_history_env sample_log_files ''request.jsonl'' (865000 * second) 7 = ([(''10.0.0.9'', 813600 * second)], None)"
proof -
  have base: "Clean (TrimSpace ''request.jsonl'') = ''request.jsonl''" "TrimSpace ''request.jsonl'' = ''request.jsonl''" by code_simp+
  have scan: "scan_buffer successfulIPHistoryMaxLineBytes ''{}'' = ([''{}''], None)"
    by (simp add: scan_buffer_def successfulIPHistoryMaxLineBytes_def drop_cr_def)
  have visit: "line_visit sample_history_env (AddDate (he_tz sample_history_env) sample_today 0 0 (- 6)) (AddDate (he_tz sample_history_env) sample_today 0 0 1) ''{}''
      = Some (''10.0.0.9'', 813600 * second)"
    by code_simp
  have os: "ReadFile (fe_os (he_fail sample_history_env)) sample_log_files p =
      (if p = ''request-0001-01-10.jsonl'' then Inr ''{}'' else if p = ''block.txt'' then Inr ''10.0.0.9'' else Inl ErrNotExist)" for p
    by (simp add: ReadFile_def sample_history_env_def no_faults_def sample_log_files_def)
  show ?thesis
    using sample_clean
    by (simp add: scanRecentSuccessfulRequestIPs_def base(1) Let_def sample_midnight sample_history_files scanSuccessfulRequestFile_def os IsNotExist_def scan visit List.map_filter_simps base(2))
qed

lemma sample_reconciled:
  "ft_permanent (fst (fst (reconcileSuccessfulIPHistory sample_history_env (sample_blocked, sample_log_files) ''request.jsonl'' (865000 * second)))) = [''10.0.0.8'']"
proof -
  have rest: "ft_permanent (fst (fst (removePermanentSuccessful (he_fail sample_history_env)
      (fst (fold (reconcile_visit sample_history_env sample_today) [(''10.0.0.9'', 813600 * second)] (sample_blocked, [])), sample_log_files)
      (snd (fold (reconcile_visit sample_history_env sample_today) [(''10.0.0.9'', 813600 * second)] (sample_blocked, [])))))) = [''10.0.0.8'']"
    by code_simp
  then show ?thesis
    by (simp add: reconcileSuccessfulIPHistory_def successfulIPHistoryDays_def sample_scan sample_midnight Let_def split_beta split: sum.split)
qed

theorem only_recent_successes_unblocked_witness:
  "\<exists>key line. permanentBlockIPKey key = ''10.0.0.9'' \<and> logged_line sample_history_env sample_log_files
     (history_files sample_history_env ''request.jsonl'' sample_today 7) line"
proof -
  obtain f' fs' err where r: "reconcileSuccessfulIPHistory sample_history_env (sample_blocked, sample_log_files) ''request.jsonl'' (865000 * second) = ((f', fs'), err)"
    by (metis prod.exhaust)
  have d: "Clean (TrimSpace ''request.jsonl'') = ''request.jsonl''" by code_simp
  have "''10.0.0.9'' \<in> set (ft_permanent sample_blocked)" "''10.0.0.9'' \<notin> set (ft_permanent f')"
    using sample_reconciled r by (simp_all add: sample_blocked_def)
  from only_recent_successes_unblocked [OF r this] show ?thesis unfolding d sample_midnight by blast
qed

end
