(* ===== verification/Server_Start.thy ===== *)
theory Server_Start
  imports Server_Workers Success_History
begin

text \<open>
  \<open>Start\<close> and the rest of \<open>Close\<close> of the server (\<open>server/tunnel/server.go\<close>, \<open>lifecycle.go\<close>), the loops that run
  beside the accept loop (\<open>maintenance.go\<close>, \<open>credential_seal.go\<close>, \<open>permanent_block_hit_logs.go\<close>), and the accept loop of a
  passive listener (\<open>reverse.go\<close>). The certificate files, the sockets and the clock are arguments; a loop takes the
  places of its ticks, up to the end of the context. The log lines of \<open>prepareConfiguredForwards\<close> are left out.
\<close>

section \<open>Start\<close>

text \<open>The outside of \<open>Start\<close>: loading the key pair gives the chain of certificates; \<open>st_logf\<close> is whether there is a log
  function.\<close>

record start_env =
  st_identity :: "string list res"
  st_parseCertificate :: "string \<Rightarrow> string res"
  st_listen :: "string \<Rightarrow> go_error option"
  st_lnAddr :: string
  st_decode :: "string \<Rightarrow> persisted res"
  st_history :: "string \<Rightarrow> requestLogEntry res"
  st_rangePermanent :: "string list \<Rightarrow> string list"
  st_logf :: bool

datatype server_worker = AcceptLoop | SealRotationLoop | HitLogLoop | FailureCleanupLoop | LimiterCleanupLoop | MonitorLoop | ForwardAudit

record 'k start_result =
  sr_files :: files
  sr_listening :: bool
  sr_server :: "('k server \<times> string \<times> server_worker list) res"

definition default_permanent_file :: "runtimeConfig \<Rightarrow> runtimeConfig" where
  "default_permanent_file rt =
     (if TrimSpace (rt_PermanentBlockFile rt) = [] \<and> TrimSpace (rt_StateFile rt) \<noteq> []
      then rt\<lparr>rt_PermanentBlockFile := JoinPath [DirPath (rt_StateFile rt), ''server-permanent-block.txt'']\<rparr> else rt)"

definition limiter_of :: "securityConfig \<Rightarrow> connectionLimiter" where
  "limiter_of sec = newConnectionLimiter (sec_MaxConcurrentConnections sec) (sec_MaxConcurrentConnectionsPerIP sec)
     (sec_ConnectionRateWindowSec sec) (sec_MaxNewConnectionsPerIPWindow sec) (sec_MaxTrackedConnectionIPs sec)
     (sec_ConnectionLimiterCleanupSec sec)"

definition users_by_name :: "userConfig list \<Rightarrow> (string, userConfig) gomap" where
  "users_by_name users = fold (\<lambda>user m. AList.update (usr_Username user) user m) users []"

definition new_server :: "bool \<Rightarrow> config \<Rightarrow> failTracker \<Rightarrow> files \<Rightarrow> string list \<Rightarrow> 'k server" where
  "new_server logf cfg fails fs early_lines =
     (let sec = cfg_Security cfg; rt = cfg_Runtime cfg
      in \<lparr>sv_cfg = cfg, sv_users = users_by_name (cfg_Users cfg), sv_fails = fails, sv_files = fs,
          sv_cred = \<lparr>cs_configPath = cfg_ConfigPath cfg, cs_cfgKeys = cfg_SealKeys cfg, cs_keys = [], cs_current = None\<rparr>,
          sv_listeners = Some [], sv_revs = [], sv_controls = [], sv_configuredReverse = [],
          sv_events = Some (newRuntimeEventRing (rt_RecentEvents rt)),
          sv_requestLog = newJSONLLog (rt_RequestLogFile rt), sv_businessLog = newJSONLLog (rt_BusinessLogFile rt),
          sv_entryTrafficLog = newJSONLLog (rt_EntryTrafficLogFile rt), sv_flowTrafficLog = newJSONLLog (rt_FlowTrafficLogFile rt),
          sv_writer = Some (newAsyncLog (sec_EntryTrafficLogQueueSize sec) ()), sv_requestSeq = 0,
          sv_hits = Some (newPermanentBlockHitAggregator defaultPermanentBlockHitLogInterval),
          sv_conns = Some (limiter_of sec), sv_streams = Some (newUserStreamLimiter (sec_MaxConcurrentStreamsPerUser sec)),
          sv_entry = zero_entry_counters, sv_reject = \<lparr>rc_rejected = 0, rc_global = 0, rc_perIPActive = 0, rc_perIPNewRate = 0, rc_ipCapacity = 0\<rparr>,
          sv_activeStreams = 0, sv_totalStreams = 0, sv_userStreamLimitRejected = 0, sv_authOK = 0, sv_authFailed = 0,
          sv_policyRejected = 0, sv_dialFailed = 0, sv_bytesUp = 0, sv_bytesDown = 0, sv_ctxDone = False, sv_closing = False,
          sv_lines = (if logf then Some early_lines else None), sv_dialled = [], sv_listened = [], sv_inboundClosed = []\<rparr>)"

text \<open>The tracker of the new server: the saved blocks, then the history of the request log. Errors are only logged.\<close>

definition start_tracker :: "('k, 'p) server_env \<Rightarrow> start_env \<Rightarrow> config \<Rightarrow> files \<Rightarrow> tracked \<times> string list" where
  "start_tracker env se cfg fs =
     (let f = newFailTracker (cfg_Security cfg) (rt_StateFile (cfg_Runtime cfg)) (rt_PermanentBlockFile (cfg_Runtime cfg));
          (t, err) = load_tracker (fail_env_at env 70) (st_decode se) (st_rangePermanent se) (f, fs);
          lines1 = (case err of None \<Rightarrow> [] | Some err \<Rightarrow> [Sprintf ''load runtime state failed: %v'' [FE err]]);
          (t, err) = reconcileSuccessfulIPHistory \<lparr>he_fail = fail_env_at env 71, he_json = st_history se\<rparr> t
                       (rt_RequestLogFile (cfg_Runtime cfg)) (se_now env 71);
          lines2 = (case err of None \<Rightarrow> [] | Some err \<Rightarrow> [Sprintf ''reconcile successful IP history failed: %v'' [FE err]])
      in (t, lines1 @ lines2))"

definition start_workers :: "config \<Rightarrow> server_worker list" where
  "start_workers cfg =
     [AcceptLoop, SealRotationLoop, HitLogLoop, FailureCleanupLoop, LimiterCleanupLoop]
     @ (if TrimSpace (cfg_MonitorAddr cfg) \<noteq> [] then [MonitorLoop] else []) @ [ForwardAudit]"

definition Start :: "('k, 'p) server_env \<Rightarrow> start_env \<Rightarrow> config \<Rightarrow> files \<Rightarrow> 'k start_result" where
  "Start env se cfg0 fs =
     (let cfg = ApplyDefaults cfg0;
          fail = (\<lambda>err. \<lparr>sr_files = fs, sr_listening = False, sr_server = Inl err\<rparr>)
      in case ValidateConfig cfg of Some err \<Rightarrow> fail err
      | None \<Rightarrow>
      (case st_identity se of Inl err \<Rightarrow> fail (Errorf ''load server TLS identity files: %w'' [FE err])
      | Inr [] \<Rightarrow> fail (Errorf ''load server TLS identity files: certificate chain is empty'' [])
      | Inr (der # _) \<Rightarrow>
      (case CertificateGateKeyFromDER (st_parseCertificate se) (se_sha256 env) der of Inl err \<Rightarrow> fail err
      | Inr gateKey \<Rightarrow>
      (case st_listen se (cfg_ListenAddr cfg) of Some err \<Rightarrow> fail err
      | None \<Rightarrow>
         (let cfg = cfg\<lparr>cfg_Runtime := default_permanent_file (cfg_Runtime cfg)\<rparr>;
              ((fails, fs1), early) = start_tracker env se cfg fs;
              s = new_server (st_logf se) cfg fails fs1 early
          in case on_cred (loadCredentialSealKeys (se_cred env) (se_now env 72)) s of
               (s, Some err) \<Rightarrow> \<lparr>sr_files = sv_files s, sr_listening = False, sr_server = Inl err\<rparr>
             | (s, None) \<Rightarrow>
                 (let s = s\<lparr>sv_configuredReverse := prepareConfiguredForwards (cfg_Forwards cfg) (sv_configuredReverse s)\<rparr>;
                      s = svlog (Sprintf ''server listening on %s'' [FS (st_lnAddr se)]) s
                  in \<lparr>sr_files = sv_files s, sr_listening = True, sr_server = Inr (s, gateKey, start_workers cfg)\<rparr>))))))"

section \<open>Loops\<close>

fun acceptReverseLoop :: "(nat \<times> ('k server \<Rightarrow> 'k server)) list \<Rightarrow> 'k server \<Rightarrow> 'k server \<times> nat list" where
  \<comment> \<open>the connections that come with what happened before each; the result are the ones that got a worker\<close>
  "acceptReverseLoop [] s = (s, [])"
| "acceptReverseLoop ((conn, meanwhile) # rest) s =
     (let s = meanwhile s
      in if sv_closing s then (close_inbound conn s, [])
         else map_prod id ((#) conn) (acceptReverseLoop rest s))"

definition cleanup_tick :: "('k, 'p) server_env \<Rightarrow> nat \<Rightarrow> 'k server \<Rightarrow> 'k server" where
  "cleanup_tick env i s =
     (case on_fails (failCleanup (fail_env_at env i)) s of
        (s, None) \<Rightarrow> s
      | (s, Some err) \<Rightarrow> svlog (Sprintf ''failure tracker cleanup failed: %v'' [FE err]) s)"

definition failureTrackerCleanupLoop :: "('k, 'p) server_env \<Rightarrow> nat list \<Rightarrow> 'k server \<Rightarrow> 'k server" where
  "failureTrackerCleanupLoop env ticks s = fold (cleanup_tick env) ticks s"

definition connectionLimiterCleanupLoop :: "('k, 'p) server_env \<Rightarrow> nat list \<Rightarrow> 'k server \<Rightarrow> 'k server" where
  "connectionLimiterCleanupLoop env ticks s = fold (\<lambda>i s. s\<lparr>sv_conns := connCleanup (se_now env i) (sv_conns s)\<rparr>) ticks s"

definition rotation_tick :: "('k, 'p) server_env \<Rightarrow> nat \<Rightarrow> 'k server \<Rightarrow> 'k server" where
  "rotation_tick env i s =
     (case on_cred (rotateExpiredCredentialSealKeyLocked (se_cred env) (se_now env i)) s of
        (s, None) \<Rightarrow> s
      | (s, Some err) \<Rightarrow> svlog (Sprintf ''credential seal key rotation failed: %v'' [FE err]) s)"

definition credentialSealRotationLoop :: "('k, 'p) server_env \<Rightarrow> nat list \<Rightarrow> 'k server \<Rightarrow> 'k server" where
  "credentialSealRotationLoop env ticks s = fold (rotation_tick env) ticks s"

text \<open>What the writing goroutine does next: it writes the entry it holds, or the first of the queue.\<close>

definition pending_entries :: "'k server \<Rightarrow> entryTrafficLogEntry list" where
  "pending_entries s = (case sv_writer s of None \<Rightarrow> [] | Some w \<Rightarrow> in_hand w @ aw_queue w)"

definition write_next :: "('k, 'p) server_env \<Rightarrow> nat \<Rightarrow> 'k server \<Rightarrow> 'k server" where
  "write_next env i s =
     (case (sv_writer s, pending_entries s) of
        (Some w, e # rest) \<Rightarrow>
          (writeEntryTrafficLog env i e s)\<lparr>sv_writer := Some (w\<lparr>aw_queue := rest, aw_written := aw_written w + 1,
             aw_pc := if aw_closed w then Draining else Selecting\<rparr>)\<rparr>
      | _ \<Rightarrow> s)"

text \<open>The flush: \<open>takes k\<close> is how many entries the writing goroutine has written before the record of the entry \<open>k\<close>.\<close>

definition record_hit :: "('k, 'p) server_env \<Rightarrow> (nat \<Rightarrow> nat) \<Rightarrow> nat \<times> entryTrafficLogEntry \<Rightarrow> 'k server \<Rightarrow> 'k server" where
  "record_hit env takes e s = recordEntryTrafficLog env (80 + fst e) (snd e) ((write_next env (80 + fst e) ^^ takes (fst e)) s)"

definition flush_hits ::
    "('k, 'p) server_env \<Rightarrow> ((string \<times> int) list \<Rightarrow> (string \<times> int) list) \<Rightarrow> (nat \<Rightarrow> nat) \<Rightarrow> 'k server \<Rightarrow> 'k server" where
  "flush_hits env rng takes s =
     (case flushPermanentBlockHitLogs rng (sv_hits s) of
        (hits, entries) \<Rightarrow> fold (record_hit env takes) (enumerate 0 entries) (s\<lparr>sv_hits := hits\<rparr>))"

definition permanentBlockHitLogLoop ::
    "('k, 'p) server_env \<Rightarrow> ((string \<times> int) list \<Rightarrow> (string \<times> int) list) \<Rightarrow> (nat \<Rightarrow> nat) list \<Rightarrow> (nat \<Rightarrow> nat) \<Rightarrow> 'k server \<Rightarrow> 'k server" where
  \<comment> \<open>a flush for each tick and one at the end\<close>
  "permanentBlockHitLogLoop env rng ticks last_takes s = flush_hits env rng last_takes (fold (flush_hits env rng) ticks s)"

section \<open>Close\<close>

text \<open>
  \<open>Close\<close> from \<open>closeReverseListeners\<close> on; \<open>settle\<close> is what the workers do until \<open>Wait\<close> returns. Then the queue of the
  entry log is written out before any file is closed.\<close>

definition drain_writer :: "('k, 'p) server_env \<Rightarrow> nat \<Rightarrow> 'k server \<Rightarrow> 'k server" where
  "drain_writer env i s =
     (let s = s\<lparr>sv_writer := writer_Close (sv_writer s)\<rparr>; s = (write_next env i ^^ length (pending_entries s)) s
      in s\<lparr>sv_writer := map_option (\<lambda>w. w\<lparr>aw_pc := Finished\<rparr>) (sv_writer s)\<rparr>)"

definition close_logs :: "'k server \<Rightarrow> 'k server" where
  "close_logs s = s\<lparr>sv_requestLog := log_Close (sv_requestLog s), sv_businessLog := log_Close (sv_businessLog s),
     sv_entryTrafficLog := log_Close (sv_entryTrafficLog s), sv_flowTrafficLog := log_Close (sv_flowTrafficLog s)\<rparr>"

definition finish_Close ::
    "('k, 'p) server_env \<Rightarrow> ((string \<times> nat) list \<Rightarrow> (string \<times> nat) list) \<Rightarrow> ((string \<times> int) list \<Rightarrow> (string \<times> int) list)
     \<Rightarrow> (nat \<Rightarrow> nat) \<Rightarrow> ('k server \<Rightarrow> 'k server) \<Rightarrow> 'k server \<Rightarrow> 'k server" where
  "finish_Close env rngListeners rngHits takes settle s =
     (let s = closeReverseListeners env rngListeners (s\<lparr>sv_closing := True, sv_ctxDone := True\<rparr>);
          s = settle s;
          s = (if sv_hits s = None then s else flush_hits env rngHits takes s);
          s = (if sv_writer s = None then s else drain_writer env 90 s)
      in close_logs s)"

end
