(* ===== verification/Server_Monitor.thy ===== *)
theory Server_Monitor
  imports Server_Handler
begin

text \<open>
  The monitor of the server (\<open>server/tunnel/monitor.go\<close>): the status report and the two requests that lift a block. A
  request is its path, its method and what decoding the body gives; an answer is a status code and a JSON value. The
  conversion of the uptime to seconds, which goes through a float, is an argument.
\<close>

section \<open>Requests and answers\<close>

datatype mon_value =
  MInt int
| MText string
| MBool bool
| MCounts "(string, int) gomap"
| MBlocks "blockedIPState list"
| MEvents "runtimeEvent list"
| MObject "(string \<times> mon_value) list"

record monitor_request =
  mq_path :: string
  mq_method :: string
  mq_ip :: "string res"

record monitor_answer =
  ma_code :: int
  ma_body :: mon_value

definition answer :: "int \<Rightarrow> bool \<Rightarrow> string \<Rightarrow> (string \<times> mon_value) list \<Rightarrow> monitor_answer" where
  "answer code ok message extra = \<lparr>ma_code = code, ma_body = MObject ([(''ok'', MBool ok), (''message'', MText message)] @ extra)\<rparr>"

section \<open>Lifting a block\<close>

text \<open>The two handlers differ in the operation of the tracker and in a message.\<close>

definition lift_handler ::
    "(string \<Rightarrow> tracked \<Rightarrow> tracked \<times> bool res) \<Rightarrow> string \<Rightarrow> monitor_request \<Rightarrow> 'k server \<Rightarrow> 'k server \<times> monitor_answer" where
  "lift_handler lift success rq s =
     (if mq_method rq \<noteq> ''POST'' then (s, answer 405 False ''method not allowed'' [])
      else (case mq_ip rq of Inl err \<Rightarrow> (s, answer 400 False ''invalid request'' [])
       | Inr ip \<Rightarrow>
          (let ip = TrimSpace ip
           in if ParseIP ip = None then (s, answer 400 False ''invalid ip'' [])
              else (case on_fails (lift ip) s of
                      (s, Inl err) \<Rightarrow> (s, answer 500 False (error_text err) [])
                    | (s, Inr removed) \<Rightarrow> (s, answer 200 True success [(''removed'', MBool removed)])))))"

definition unblock_handler :: "('k, 'p) server_env \<Rightarrow> monitor_request \<Rightarrow> 'k server \<Rightarrow> 'k server \<times> monitor_answer" where
  "unblock_handler env =
     lift_handler (\<lambda>ip t. case unblock (fail_env_at env 50) t ip of (t, removed, None) \<Rightarrow> (t, Inr removed) | (t, removed, Some err) \<Rightarrow> (t, Inl err))
       ''unblocked''"

definition permanent_delete_handler :: "('k, 'p) server_env \<Rightarrow> monitor_request \<Rightarrow> 'k server \<Rightarrow> 'k server \<times> monitor_answer" where
  "permanent_delete_handler env = lift_handler (\<lambda>ip t. unblockPermanent (fail_env_at env 51) t ip) ''permanent block deleted''"

section \<open>The status report\<close>

definition MCount :: "64 word \<Rightarrow> mon_value" where
  "MCount n = MInt (sint n)"

definition limit_of :: "string \<Rightarrow> (string, int) gomap \<Rightarrow> mon_value" where
  "limit_of key m = MInt (case map_of m key of None \<Rightarrow> 0 | Some n \<Rightarrow> n)"

definition connection_report :: "'k server \<Rightarrow> (string \<times> mon_value) list" where
  "connection_report s =
     (let m = connSnapshot (sv_conns s); sec = cfg_Security (sv_cfg s); rc = sv_reject s
      in [(''active_connections'', limit_of ''active'' m), (''tracked_remote_ips'', limit_of ''tracked_ips'' m),
          (''connections_rejected'', MCount (rc_rejected rc)),
          (''connection_limits'', MObject
             [(''active'', limit_of ''active'' m), (''tracked_remote_ips'', limit_of ''tracked_ips'' m),
              (''max_tracked_remote_ips'', limit_of ''max_tracked_ips'' m), (''tracked_remote_ip_evictions'', limit_of ''evicted_ips'' m),
              (''tracked_remote_ip_capacity_rejected'', limit_of ''capacity_rejected'' m),
              (''max_concurrent_connections'', MInt (sec_MaxConcurrentConnections sec)),
              (''max_concurrent_connections_per_ip'', MInt (sec_MaxConcurrentConnectionsPerIP sec)),
              (''new_connection_rate_window_sec'', MInt (sec_ConnectionRateWindowSec sec)),
              (''max_new_connections_per_ip_window'', MInt (sec_MaxNewConnectionsPerIPWindow sec))]),
          (''connection_rejections'', MObject
             [(''total'', MCount (rc_rejected rc)), (''global_concurrent'', MCount (rc_global rc)),
              (''per_ip_concurrent'', MCount (rc_perIPActive rc)), (''per_ip_new_connection_rate'', MCount (rc_perIPNewRate rc)),
              (''tracked_remote_ip_capacity'', MCount (rc_ipCapacity rc))])])"

definition entry_report :: "entryCounters \<Rightarrow> mon_value" where
  "entry_report ec = MObject
     [(''protocol_rejected_total'', MCount (ec_protocolRejected ec)), (''http_probe_rejected'', MCount (ec_httpProbe ec)),
      (''non_tls_rejected'', MCount (ec_nonTLS ec)), (''unsupported_tls_rejected'', MCount (ec_unsupportedTLS ec)),
      (''slow_handshake_rejected'', MCount (ec_slowHandshake ec)), (''closed_handshake_rejected'', MCount (ec_closedHandshake ec)),
      (''oversized_handshake_rejected'', MCount (ec_oversizedHandshake ec)), (''unsupported_request_rejected'', MCount (ec_unsupportedRequest ec)),
      (''invalid_handshake_rejected'', MCount (ec_invalidHandshake ec)), (''permanent_blocks_created'', MCount (ec_permanentBlocksCreated ec)),
      (''permanent_block_hits_observed'', MCount (ec_permanentBlockHits ec))]"

definition failure_report :: "failTrackerStats \<Rightarrow> mon_value" where
  "failure_report st = MObject
     [(''tracked_ips'', MInt (fts_TrackedIPs st)), (''max_tracked_ips'', MInt (fts_MaxTrackedIPs st)),
      (''evicted_ips'', MInt (int (fts_EvictedIPs st))), (''capacity_drops'', MInt (int (fts_CapacityDrops st)))]"

definition writer_report :: "writerStats \<Rightarrow> mon_value" where
  "writer_report st = MObject
     [(''queue_capacity'', MInt (int (ws_Capacity st))), (''queue_pending'', MInt (int (ws_Queued st))),
      (''accepted'', MInt (uint (ws_Accepted st))), (''written'', MInt (uint (ws_Written st))), (''dropped'', MInt (uint (ws_Dropped st)))]"

definition stream_report :: "'k server \<Rightarrow> mon_value" where
  "stream_report s =
     (let snap = streamSnapshot (sv_streams s) in MObject
     [(''active'', MInt (snap_Active snap)), (''tracked_users'', MInt (snap_TrackedUsers snap)), (''active_by_user'', MCounts (snap_ActiveByUser snap)),
      (''max_concurrent_streams_per_user'', MInt (snap_MaxPerUser snap)),
      (''stream_rate_limit_bytes_per_sec'', MInt (sec_StreamRateLimitBytesPerSec (cfg_Security (sv_cfg s)))),
      (''user_stream_limit_rejections_total'', MCount (sv_userStreamLimitRejected s))])"

definition status_report :: "('k, 'p) server_env \<Rightarrow> (duration \<Rightarrow> int) \<Rightarrow> time \<Rightarrow> string \<Rightarrow> 'k server \<Rightarrow> 'k server \<times> mon_value" where
  "status_report env whole_seconds started addr s =
     (case recentEventSnapshot s of (s', events) \<Rightarrow>
       (s', MObject
         ([(''service'', MText ''lsyl-tunnel-server''), (''listen_addr'', MText addr),
           (''uptime_sec'', MInt (whole_seconds (se_now env 52 - started)))]
          @ connection_report s
          @ [(''entry_security'', entry_report (sv_entry s)), (''failure_tracker'', failure_report (failStats (Some (sv_fails s)))),
             (''entry_traffic_log'', writer_report (writer_stats (sv_writer s))), (''user_stream_limits'', stream_report s),
             (''user_stream_limit_rejected'', MCount (sv_userStreamLimitRejected s)), (''active_streams'', MCount (sv_activeStreams s)),
             (''total_streams'', MCount (sv_totalStreams s)), (''auth_ok'', MCount (sv_authOK s)), (''auth_failed'', MCount (sv_authFailed s)),
             (''policy_rejected'', MCount (sv_policyRejected s)), (''dial_failed'', MCount (sv_dialFailed s)),
             (''bytes_up'', MInt (sv_bytesUp s)), (''bytes_down'', MInt (sv_bytesDown s)),
             (''blocked_ips'', MBlocks (snapshotBlocked (fail_env_at env 53) (Some (sv_fails s)))), (''recent_events'', MEvents events)])))"

section \<open>The handler\<close>

text \<open>A request that comes while the server is closing gets no worker.\<close>

definition monitor :: "('k, 'p) server_env \<Rightarrow> (duration \<Rightarrow> int) \<Rightarrow> time \<Rightarrow> string \<Rightarrow> monitor_request \<Rightarrow> 'k server \<Rightarrow> 'k server \<times> monitor_answer" where
  "monitor env whole_seconds started addr rq s =
     (if sv_closing s then (s, \<lparr>ma_code = 503, ma_body = MText ''server is shutting down''\<rparr>)
      else if mq_path rq = ''/status''
      then (case status_report env whole_seconds started addr s of (s, body) \<Rightarrow> (s, \<lparr>ma_code = 200, ma_body = body\<rparr>))
      else if mq_path rq = ''/security/unblock'' then unblock_handler env rq s
      else if mq_path rq = ''/security/permanent-block/delete'' then permanent_delete_handler env rq s
      else (s, \<lparr>ma_code = 404, ma_body = MText ''404 page not found''\<rparr>))"

end
