(* ===== verification/Server_Start_Laws.thy ===== *)
theory Server_Start_Laws
  imports Server_Start Server_Monitor Handler_Laws
begin

text \<open>
  What holds of the start, the end and the monitor of the server: a server that starts has a checked configuration, every
  accepted entry is written before \<open>Close\<close> closes the files, and the monitor changes nothing but block lists.
\<close>

section \<open>The entry log at the end\<close>

text \<open>The counters of the writer and its goroutine agree: accepted entries are written or waiting.\<close>

definition writer_accounted :: "'k server \<Rightarrow> bool" where
  "writer_accounted s \<longleftrightarrow> (case sv_writer s of None \<Rightarrow> False
     | Some w \<Rightarrow> aw_accepted w = aw_written w + of_nat (length (pending_entries s)) \<and> aw_pc w \<noteq> Finished)"

lemma accounted_cong: "sv_writer s = sv_writer t \<Longrightarrow> writer_accounted s = writer_accounted t"
  by (simp add: writer_accounted_def pending_entries_def split: option.split)

lemma writeEntry_keeps [simp]:
  "sv_writer (writeEntryTrafficLog env i e s) = sv_writer s"
  by (auto simp: writeEntryTrafficLog_def write_log_def svlog_def Let_def split: sum.splits option.splits prod.splits)

lemma write_next_pending: "pending_entries s = e # rest \<Longrightarrow> pending_entries (write_next env i s) = rest"
  by (auto simp: write_next_def pending_entries_def in_hand_def split: option.splits if_splits)

lemma write_next_idle: "pending_entries s = [] \<Longrightarrow> write_next env i s = s"
  by (auto simp: write_next_def split: option.splits)

lemma write_next_accounted: "writer_accounted s \<Longrightarrow> writer_accounted (write_next env i s)"
proof (cases "pending_entries s")
  case Nil
  then show "writer_accounted s \<Longrightarrow> ?thesis" by (simp add: write_next_idle)
next
  case (Cons e rest)
  assume "writer_accounted s"
  then obtain w where w: "sv_writer s = Some w" "aw_accepted w = aw_written w + of_nat (length (e # rest))"
    by (auto simp: writer_accounted_def Cons split: option.splits)
  have "pending_entries (write_next env i s) = rest" by (rule write_next_pending [OF Cons])
  then show ?thesis using w Cons by (simp add: writer_accounted_def write_next_def)
qed

lemma write_next_closed:
  "sv_writer (write_next env i s) = None \<longleftrightarrow> sv_writer s = None"
  "map_option aw_closed (sv_writer (write_next env i s)) = map_option aw_closed (sv_writer s)"
  by (auto simp: write_next_def split: option.splits list.splits)

lemma write_next_funpow:
  "writer_accounted s \<Longrightarrow> writer_accounted ((write_next env i ^^ n) s)
     \<and> map_option aw_closed (sv_writer ((write_next env i ^^ n) s)) = map_option aw_closed (sv_writer s)
     \<and> pending_entries ((write_next env i ^^ n) s) = drop n (pending_entries s)"
proof (induction n)
  case (Suc n)
  let ?t = "(write_next env i ^^ n) s"
  have "pending_entries (write_next env i ?t) = tl (pending_entries ?t)"
    by (cases "pending_entries ?t") (simp_all add: write_next_idle write_next_pending)
  then show ?case using Suc by (simp add: write_next_accounted write_next_closed drop_Suc tl_drop)
qed simp

lemma record_accounted: "writer_accounted s \<Longrightarrow> writer_accounted (recordEntryTrafficLog env i e s)"
  by (auto simp: writer_accounted_def recordEntryTrafficLog_def Enqueue_def pending_entries_def in_hand_def Let_def
      split: option.splits writer_pc.splits)

lemma flush_accounted:
  assumes "writer_accounted s"
  shows "writer_accounted (flush_hits env rng takes s)"
proof -
  obtain hits es where f: "flushPermanentBlockHitLogs rng (sv_hits s) = (hits, es)" by fastforce
  have "writer_accounted (fold (record_hit env takes) xs t)" if "writer_accounted t" for xs t
    using that by (induction xs arbitrary: t) (simp_all add: record_hit_def record_accounted write_next_funpow)
  moreover have "writer_accounted (s\<lparr>sv_hits := hits\<rparr>)" using assms accounted_cong [of "s\<lparr>sv_hits := hits\<rparr>" s] by simp
  ultimately show ?thesis by (simp add: flush_hits_def f)
qed

lemma drain_result:
  assumes "writer_accounted s"
  shows "\<exists>w. sv_writer (drain_writer env i s) = Some w \<and> aw_pc w = Finished \<and> aw_queue w = [] \<and> aw_closed w
    \<and> aw_written w = aw_accepted w"
proof -
  let ?s = "s\<lparr>sv_writer := writer_Close (sv_writer s)\<rparr>"
  have p: "pending_entries ?s = pending_entries s"
    by (auto simp: pending_entries_def writer_Close_def in_hand_def split: option.splits)
  then have "writer_accounted ?s" using assms by (auto simp: writer_accounted_def writer_Close_def split: option.splits)
  from write_next_funpow [OF this, where env = env and i = i and n = "length (pending_entries ?s)"]
  obtain w where w: "sv_writer ((write_next env i ^^ length (pending_entries ?s)) ?s) = Some w"
    "aw_accepted w = aw_written w + of_nat (length (in_hand w @ aw_queue w))" "in_hand w @ aw_queue w = []"
    "map_option aw_closed (writer_Close (sv_writer s)) = Some (aw_closed w)"
    by (auto simp: writer_accounted_def pending_entries_def split: option.splits)
  have "aw_closed w" using w(4) by (auto simp: writer_Close_def)
  then show ?thesis using w by (simp add: drain_writer_def Let_def)
qed

lemma closed_logs:
  "list_all (\<lambda>l. map_option jl_file l \<in> {None, Some None})
     (map (\<lambda>f. f (close_logs t)) [sv_requestLog, sv_businessLog, sv_entryTrafficLog, sv_flowTrafficLog])"
proof -
  have "map_option jl_file (log_Close l) \<in> {None, Some None}" for l
    by (cases l) (simp_all add: log_Close_def)
  then show ?thesis by (simp add: close_logs_def del: insert_iff)
qed


section \<open>The monitor\<close>

lemma lift_handler_effect:
  assumes "lift_handler lift success rq s = (s', a)"
  shows "s' = s \<or> (mq_method rq = ''POST'' \<and> (\<exists>ip t fs. mq_ip rq = Inr ip \<and> ParseIP (TrimSpace ip) \<noteq> None
    \<and> (t, fs) = fst (lift (TrimSpace ip) (sv_fails s, sv_files s)) \<and> s' = s\<lparr>sv_fails := t, sv_files := fs\<rparr>))"
  using assms by (auto simp: lift_handler_def on_fails_def Let_def split: if_splits sum.splits option.splits prod.splits)

lemma unblock_effect:
  assumes "fst (unblock env (f, fs0) k) = (t, fs)" and "TrimSpace k \<noteq> []"
  shows "map_of (ft_items t) (TrimSpace k) = None \<and> ft_permanent t = ft_permanent f"
  using assms by (auto simp: unblock_def Let_def delete_conv' split: prod.splits)

lemma mon_paths: "''/security/permanent-block/delete'' \<noteq> ''/security/unblock''"
  by simp

lemma unblockPermanent_effect:
  assumes "fst (unblockPermanent env (f, fs0) k) = (t, fs)"
  shows "ft_items t = ft_items f"
  using assms by (auto simp: unblockPermanent_def Let_def split: prod.splits sum.splits if_splits)

text \<open>A request that is not a POST to one of the two paths, or does not carry an IP, changes nothing but the ring of
  events, which is made if missing. One that does changes only the block lists, exactly as the operation of the tracker
  does for that address; the address of a successful unblock is not temporarily blocked afterwards.\<close>

theorem monitor_only_lifts_blocks:
  assumes "monitor env whole_seconds started addr rq s = (s', a)"
  shows "s' = s \<or> s' = eventRing s \<or>
    (mq_method rq = ''POST'' \<and> \<not> sv_closing s \<and> (\<exists>ip t fs. mq_ip rq = Inr ip \<and> ParseIP (TrimSpace ip) \<noteq> None
      \<and> s' = s\<lparr>sv_fails := t, sv_files := fs\<rparr>
      \<and> (if mq_path rq = ''/security/unblock''
         then (t, fs) = fst (unblock (fail_env_at env 50) (sv_fails s, sv_files s) (TrimSpace ip))
           \<and> map_of (ft_items t) (TrimSpace ip) = None \<and> ft_permanent t = ft_permanent (sv_fails s)
         else mq_path rq = ''/security/permanent-block/delete''
           \<and> (t, fs) = fst (unblockPermanent (fail_env_at env 51) (sv_fails s, sv_files s) (TrimSpace ip))
           \<and> ft_items t = ft_items (sv_fails s))))"
proof -
  consider "s' = s \<or> s' = eventRing s"
    | "\<not> sv_closing s" "mq_path rq = ''/security/unblock''" "unblock_handler env rq s = (s', a)"
    | "\<not> sv_closing s" "mq_path rq = ''/security/permanent-block/delete''" "permanent_delete_handler env rq s = (s', a)"
    using assms by (auto simp: monitor_def status_report_def recentEventSnapshot_def Let_def split: if_splits prod.splits)
  then show ?thesis
  proof cases
    case 2
    have f: "fst (case unblock (fail_env_at env 50) t ip of (t, removed, None) \<Rightarrow> (t, Inr removed) | (t, removed, Some err) \<Rightarrow> (t, Inl err))
        = fst (unblock (fail_env_at env 50) t ip)" for t ip
      by (auto split: prod.splits option.splits)
    have ne: "ParseIP [] = None" by code_simp
    from lift_handler_effect [OF 2(3) [unfolded unblock_handler_def]] show ?thesis
    proof
      assume "mq_method rq = ''POST'' \<and> (\<exists>ip t fs. mq_ip rq = Inr ip \<and> ParseIP (TrimSpace ip) \<noteq> None
        \<and> (t, fs) = fst (case unblock (fail_env_at env 50) (sv_fails s, sv_files s) (TrimSpace ip) of
             (t, removed, None) \<Rightarrow> (t, Inr removed) | (t, removed, Some err) \<Rightarrow> (t, Inl err))
        \<and> s' = s\<lparr>sv_fails := t, sv_files := fs\<rparr>)"
      then obtain ip t fs where p: "mq_method rq = ''POST''" "mq_ip rq = Inr ip" "ParseIP (TrimSpace ip) \<noteq> None"
        "(t, fs) = fst (unblock (fail_env_at env 50) (sv_fails s, sv_files s) (TrimSpace ip))" "s' = s\<lparr>sv_fails := t, sv_files := fs\<rparr>"
        unfolding f by blast
      have "TrimSpace (TrimSpace ip) \<noteq> []" using p(3) ne by auto
      from unblock_effect [OF p(4) [symmetric] this] p 2(1,2) show ?thesis by auto
    qed simp
  next
    case 3
    from lift_handler_effect [OF 3(3) [unfolded permanent_delete_handler_def]] show ?thesis
      using 3(1,2) unblockPermanent_effect by (smt (verit) mon_paths)
  qed auto
qed


section \<open>The start\<close>

lemma users_lookup:
  assumes "distinct (map (\<lambda>u. TrimSpace (usr_Username u)) users)" and "u \<in> set users"
  shows "map_of (users_by_name users) (usr_Username u) = Some u"
proof -
  have "map_of (fold (\<lambda>user m. AList.update (usr_Username user) user m) us m) (usr_Username u) =
      (if u \<in> set us then Some u else map_of m (usr_Username u))"
    if "distinct (map (\<lambda>u. TrimSpace (usr_Username u)) us)" "\<forall>v \<in> set us. usr_Username v = usr_Username u \<longrightarrow> v = u" for us m
    using that by (induction us arbitrary: m) (auto simp: update_conv')
  moreover have "\<forall>v \<in> set users. usr_Username v = usr_Username u \<longrightarrow> v = u"
    using assms by (metis distinct_map inj_on_def)
  ultimately show ?thesis using assms by (simp add: users_by_name_def)
qed

lemma new_server_ready: "writer_accounted (new_server logf cfg fails fs ls)" "streams_fine (new_server logf cfg fails fs ls)"
  using stream_ok_new by (auto simp: writer_accounted_def pending_entries_def in_hand_def new_server_def newAsyncLog_def streams_fine_def Let_def)

lemma ready_after:
  assumes "writer_accounted s" and "streams_fine s"
  shows "writer_accounted (svlog line (s\<lparr>sv_cred := c, sv_files := fs, sv_configuredReverse := m\<rparr>))
    \<and> streams_fine (svlog line (s\<lparr>sv_cred := c, sv_files := fs, sv_configuredReverse := m\<rparr>))"
  using assms accounted_cong [of "svlog line (s\<lparr>sv_cred := c, sv_files := fs, sv_configuredReverse := m\<rparr>)" s]
  by (simp add: streams_fine_def) (simp add: svlog_def)


section \<open>Examples\<close>

definition sample_writer_server :: "string server" where
  "sample_writer_server = sample_server\<lparr>sv_writer := Some ((newAsyncLog 4 ())\<lparr>aw_queue := [zero_entry], aw_accepted := 1\<rparr>)\<rparr>"


definition sample_unblock :: monitor_request where
  "sample_unblock = \<lparr>mq_path = ''/security/unblock'', mq_method = ''POST'', mq_ip = Inr '' 203.0.113.9 ''\<rparr>"

theorem monitor_only_lifts_blocks_witness:
  "map_of (ft_items (sv_fails (fst (monitor sample_server_env (\<lambda>_. 0) 0 [] sample_unblock sample_server)))) ''203.0.113.9'' = None"
proof -
  obtain s' a where m: "monitor sample_server_env (\<lambda>_. 0) 0 [] sample_unblock sample_server = (s', a)" by fastforce
  have same: "map_of (ft_items (sv_fails sample_server)) ''203.0.113.9'' = None" "sv_fails (eventRing sample_server) = sv_fails sample_server"
    by code_simp+
  have ip: "TrimSpace '' 203.0.113.9 '' = ''203.0.113.9''" by code_simp
  from monitor_only_lifts_blocks [OF m] have "map_of (ft_items (sv_fails s')) ''203.0.113.9'' = None"
    using same ip by (auto simp: sample_unblock_def)
  then show ?thesis by (simp add: m)
qed


definition sample_start_env :: start_env where
  "sample_start_env = \<lparr>st_identity = Inr [''cert''], st_parseCertificate = Inr, st_listen = (\<lambda>_. None), st_lnAddr = ''0.0.0.0:3443'',
     st_decode = (\<lambda>_. Inr []), st_history = (\<lambda>_. Inl (Sentinel ''json'')), st_rangePermanent = id, st_logf = True\<rparr>"

definition sample_start_config :: config where
  "sample_start_config = sample_config\<lparr>cfg_SealKeys := []\<rparr>"


end
