(* ===== verification/Business_Flow.thy ===== *)
theory Business_Flow
  imports Server_Logs "HOL-Library.List_Lexorder" "HOL-Library.Char_ord"
begin

text \<open>
  \<open>server/gui/admin_log_reader_windows.go\<close>, the table of connections that the administration page shows: the entries of
  the business log and of the request log (newest first) become one row per request and kind of connection, with
  the most final result seen for it. The zone of the host is the argument \<open>tz\<close>; \<open>sort.SliceStable\<close> is the argument \<open>srt\<close>
  with the law \<open>sorts_rows\<close>, because the comparison of the code is no ordering when only some of the
  time texts can be parsed.
\<close>

section \<open>Times as texts\<close>

definition businessTimeAfter :: "string \<Rightarrow> string \<Rightarrow> bool" where
  "businessTimeAfter a b =
     (case (parse_rfc3339 a, parse_rfc3339 b) of (Some ta, Some tb) \<Rightarrow> tb < ta | _ \<Rightarrow> b < a)"

definition businessTimeBefore :: "string \<Rightarrow> string \<Rightarrow> bool" where
  "businessTimeBefore a b =
     (case (parse_rfc3339 a, parse_rfc3339 b) of (Some ta, Some tb) \<Rightarrow> ta < tb | _ \<Rightarrow> a < b)"

text \<open>
  The offset that a parsed time carries when it is moved to \<open>t'\<close>: UTC after \<open>Z\<close>, the local zone if the offset of
  the text is the local one at that time, else the fixed offset of the text.\<close>

definition moved_offset :: "(time \<Rightarrow> int) \<Rightarrow> string \<Rightarrow> time \<Rightarrow> time \<Rightarrow> int" where
  "moved_offset tz s t t' =
     (if HasSuffix s ''Z'' then 0
      else (case zone_secs (drop (length s - 6) s) of None \<Rightarrow> 0
       | Some off \<Rightarrow> if tz t = off then tz t' else off))"

definition businessStartFromDuration :: "(time \<Rightarrow> int) \<Rightarrow> string \<Rightarrow> int \<Rightarrow> string" where
  "businessStartFromDuration tz end_at durationMS =
     (if end_at = [] \<or> durationMS \<le> 0 then []
      else (case parse_rfc3339 end_at of None \<Rightarrow> []
       | Some t \<Rightarrow> (let t' = t + int64 (- durationMS * 1000000) in format_rfc3339 (moved_offset tz end_at t t') t')))"

section \<open>Kinds and results\<close>

definition normalizeBusinessKind :: "string \<Rightarrow> string" where
  "normalizeBusinessKind kind = (let kind = TrimSpace kind in if kind = ''reverse'' then ''reverse_listen'' else kind)"

definition normalizeBusinessResult :: "string \<Rightarrow> string" where
  "normalizeBusinessResult result = TrimSpace result"

definition isBusinessLifecycleKind :: "string \<Rightarrow> bool" where
  "isBusinessLifecycleKind kind \<longleftrightarrow> kind \<in> {''open'', ''reverse_stream'', ''reverse_listen''}"

definition businessKindFromRequestType :: "string \<Rightarrow> string" where
  "businessKindFromRequestType kind =
     (let normalized = normalizeBusinessKind kind
      in if normalized = [] then ''request''
         else if normalized = ''health'' then ''health''
         else if normalized \<in> {''login'', ''open'', ''reverse_listen'', ''reverse_stream'', ''forward_check''} then normalized
         else ''request'')"

definition businessResultPriority :: "string \<Rightarrow> int" where
  "businessResultPriority result =
     (if result \<in> {''closed'', ''failed'', ''denied'', ''blocked'', ''error''} then 4
      else if result \<in> {''connected'', ''activated''} then 3
      else if result = ''ok'' then 2
      else if result = [] then 0 else 1)"

definition businessLifecycleKey :: "businessLogEntry \<Rightarrow> string" where
  "businessLifecycleKey entry =
     (if ble_RequestID entry = [] \<or> \<not> isBusinessLifecycleKind (ble_Kind entry) then []
      else ble_RequestID entry @ [CHR 0x00] @ ble_Kind entry)"

definition businessRowKey :: "businessLogEntry \<Rightarrow> string" where
  "businessRowKey entry =
     (if ble_RequestID entry \<noteq> [] then ble_RequestID entry @ [CHR 0x00] @ ble_Kind entry @ [CHR 0x00] @ ble_Result entry
      else ble_Time entry @ [CHR 0x00] @ ble_Kind entry @ [CHR 0x00] @ ble_Result entry @ [CHR 0x00] @ ble_RemoteIP entry
           @ [CHR 0x00] @ ble_Code entry @ [CHR 0x00] @ ble_Message entry)"

definition prepareBusinessFlowEntry :: "(time \<Rightarrow> int) \<Rightarrow> businessLogEntry \<Rightarrow> businessLogEntry" where
  "prepareBusinessFlowEntry tz entry =
     (let entry = entry\<lparr>ble_Kind := normalizeBusinessKind (ble_Kind entry), ble_Result := normalizeBusinessResult (ble_Result entry)\<rparr>;
          started = (\<lambda>e. if ble_StartedAt e = [] then e\<lparr>ble_StartedAt := ble_Time e\<rparr> else e)
      in if \<not> isBusinessLifecycleKind (ble_Kind entry) then entry
         else if ble_Result entry \<in> {''connected'', ''activated'', ''ok''} then started entry
         else if ble_Result entry \<in> {''closed'', ''failed'', ''denied'', ''blocked'', ''error''}
         then (let entry = (if ble_EndedAt entry = [] then entry\<lparr>ble_EndedAt := ble_Time entry\<rparr> else entry)
               in if ble_StartedAt entry = [] \<and> 0 < ble_DurationMS entry
                  then entry\<lparr>ble_StartedAt := businessStartFromDuration tz (ble_EndedAt entry) (ble_DurationMS entry)\<rparr>
                  else entry)
         else started entry)"

section \<open>Rows from the request log\<close>

definition businessResultFromRequest :: "requestLogEntry \<Rightarrow> string \<Rightarrow> string" where
  "businessResultFromRequest entry kind =
     (let result = normalizeBusinessResult (rle_Result entry); code = TrimSpace (resp_Code (rle_Response entry))
      in if result = ''blocked'' \<or> ContainsStr code ''blocked'' then ''blocked''
         else if result = ''denied'' \<or> ContainsStr code ''denied'' then ''denied''
         else if result = ''failed'' \<or> result = ''error'' \<or> rle_ReadError entry \<noteq> []
           \<or> \<not> resp_OK (rle_Response entry) \<and> code \<noteq> [] then ''failed''
         else if result = ''ok'' \<or> resp_OK (rle_Response entry)
         then (if kind \<in> {''open'', ''reverse_stream''} then ''connected''
               else if kind = ''reverse_listen'' then ''activated'' else ''ok'')
         else if result \<noteq> [] then result else ''failed'')"

definition requestRemoteIP :: "requestLogEntry \<Rightarrow> string" where
  "requestRemoteIP entry =
     (if TrimSpace (rle_RemoteIP entry) \<noteq> [] then rle_RemoteIP entry
      else (case SplitHostPort (rle_RemoteAddr entry) of Inr (host, _) \<Rightarrow> host | Inl _ \<Rightarrow> rle_RemoteAddr entry))"

definition businessFlowFromRequest :: "requestLogEntry \<Rightarrow> businessLogEntry option" where
  "businessFlowFromRequest entry =
     (let req = rle_Request entry; kind = businessKindFromRequestType (req_Type req)
      in if kind = ''health'' then None
         else let result = businessResultFromRequest entry kind
         in if kind = ''request'' \<and> result = ''ok'' then None
         else let kind = (if kind = ''login'' \<and> result \<noteq> ''ok'' then ''auth'' else kind);
                  code = TrimSpace (resp_Code (rle_Response entry));
                  message = TrimSpace (resp_Message (rle_Response entry));
                  message = (if TrimSpace (rle_ReadError entry) = [] then message
                    else if message = [] then rle_ReadError entry else message @ '' / '' @ rle_ReadError entry)
         in Some \<lparr>ble_Time = rle_Time entry, ble_StartedAt = rle_Time entry, ble_EndedAt = [], ble_RequestID = rle_RequestID entry,
              ble_Kind = kind, ble_Result = result, ble_RemoteIP = requestRemoteIP entry, ble_Username = req_Username req,
              ble_ClientID = req_ClientID req, ble_ForwardName = req_ForwardName req, ble_Direction = req_Direction req,
              ble_Target = req_Target req, ble_ListenAddr = req_ListenAddr req, ble_Code = code, ble_Message = message,
              ble_DurationMS = rle_DurationMS entry, ble_BytesUp = 0, ble_BytesDown = 0\<rparr>)"

section \<open>Two entries of one connection\<close>

definition carry :: "string \<Rightarrow> string \<Rightarrow> string" where
  "carry d s = (if d = [] then s else d)"

definition carry_int :: "int \<Rightarrow> int \<Rightarrow> int" where
  "carry_int d s = (if d = 0 then s else d)"

definition carryBusinessFields :: "businessLogEntry \<Rightarrow> businessLogEntry \<Rightarrow> businessLogEntry" where
  "carryBusinessFields dst src =
     \<lparr>ble_Time = carry (ble_Time dst) (ble_Time src),
      ble_StartedAt = (if ble_StartedAt dst = [] \<or> ble_StartedAt src \<noteq> [] \<and> businessTimeBefore (ble_StartedAt src) (ble_StartedAt dst)
        then ble_StartedAt src else ble_StartedAt dst),
      ble_EndedAt = (if ble_EndedAt dst = [] \<or> ble_EndedAt src \<noteq> [] \<and> businessTimeAfter (ble_EndedAt src) (ble_EndedAt dst)
        then ble_EndedAt src else ble_EndedAt dst),
      ble_RequestID = carry (ble_RequestID dst) (ble_RequestID src), ble_Kind = carry (ble_Kind dst) (ble_Kind src),
      ble_Result = carry (ble_Result dst) (ble_Result src), ble_RemoteIP = carry (ble_RemoteIP dst) (ble_RemoteIP src),
      ble_Username = carry (ble_Username dst) (ble_Username src), ble_ClientID = carry (ble_ClientID dst) (ble_ClientID src),
      ble_ForwardName = carry (ble_ForwardName dst) (ble_ForwardName src), ble_Direction = carry (ble_Direction dst) (ble_Direction src),
      ble_Target = carry (ble_Target dst) (ble_Target src), ble_ListenAddr = carry (ble_ListenAddr dst) (ble_ListenAddr src),
      ble_Code = carry (ble_Code dst) (ble_Code src), ble_Message = carry (ble_Message dst) (ble_Message src),
      ble_DurationMS = carry_int (ble_DurationMS dst) (ble_DurationMS src), ble_BytesUp = carry_int (ble_BytesUp dst) (ble_BytesUp src),
      ble_BytesDown = carry_int (ble_BytesDown dst) (ble_BytesDown src)\<rparr>"

definition mergeBusinessLifecycle :: "businessLogEntry \<Rightarrow> businessLogEntry \<Rightarrow> businessLogEntry" where
  "mergeBusinessLifecycle dst src =
     (let srcPriority = businessResultPriority (ble_Result src); dstPriority = businessResultPriority (ble_Result dst)
      in if dstPriority < srcPriority \<or> srcPriority = dstPriority \<and> businessTimeAfter (ble_Time src) (ble_Time dst)
         then carryBusinessFields src dst else carryBusinessFields dst src)"

section \<open>The set of rows\<close>

record businessFlowSet =
  bf_rows :: "businessLogEntry list"
  bf_lifecycleIndex :: "string \<rightharpoonup> nat"
  bf_businessRequestIDs :: "string set"
  bf_seenRows :: "string set"
  bf_seenRequests :: "string set"

definition addBusinessEvent :: "(time \<Rightarrow> int) \<Rightarrow> businessLogEntry \<Rightarrow> businessFlowSet \<Rightarrow> businessFlowSet" where
  "addBusinessEvent tz entry s =
     (let entry = prepareBusinessFlowEntry tz entry
      in if TrimSpace (ble_Kind entry) = [] then s
         else let s = (if ble_RequestID entry \<noteq> [] then s\<lparr>bf_businessRequestIDs := insert (ble_RequestID entry) (bf_businessRequestIDs s)\<rparr> else s);
                  key = businessLifecycleKey entry
         in if key \<noteq> []
            then (case bf_lifecycleIndex s key of
                    Some idx \<Rightarrow> s\<lparr>bf_rows := (bf_rows s)[idx := mergeBusinessLifecycle (bf_rows s ! idx) entry]\<rparr>
                  | None \<Rightarrow> s\<lparr>bf_lifecycleIndex := (bf_lifecycleIndex s)(key \<mapsto> length (bf_rows s)), bf_rows := bf_rows s @ [entry]\<rparr>)
            else let key = businessRowKey entry
            in if key \<in> bf_seenRows s then s
               else s\<lparr>bf_seenRows := insert key (bf_seenRows s), bf_rows := bf_rows s @ [entry]\<rparr>)"

definition addRequestLog :: "(time \<Rightarrow> int) \<Rightarrow> requestLogEntry \<Rightarrow> businessFlowSet \<Rightarrow> businessFlowSet" where
  "addRequestLog tz entry s =
     (if TrimSpace (req_Type (rle_Request entry)) = ''health'' then s
      else if rle_RequestID entry \<noteq> []
        \<and> (rle_RequestID entry \<in> bf_seenRequests s \<or> rle_RequestID entry \<in> bf_businessRequestIDs s) then s
      else (case businessFlowFromRequest entry of None \<Rightarrow> s
       | Some flow \<Rightarrow>
           addBusinessEvent tz flow
             (if rle_RequestID entry \<noteq> [] then s\<lparr>bf_seenRequests := insert (rle_RequestID entry) (bf_seenRequests s)\<rparr> else s)))"

definition empty_flow_set :: businessFlowSet where
  "empty_flow_set = \<lparr>bf_rows = [], bf_lifecycleIndex = Map.empty, bf_businessRequestIDs = {}, bf_seenRows = {}, bf_seenRequests = {}\<rparr>"

type_synonym row_sorter = "(businessLogEntry \<Rightarrow> businessLogEntry \<Rightarrow> bool) \<Rightarrow> businessLogEntry list \<Rightarrow> businessLogEntry list"

definition row_limit :: "int \<Rightarrow> nat" where
  "row_limit n = nat (if n \<le> 0 then 120 else n)"

definition buildBusinessFlow ::
    "(time \<Rightarrow> int) \<Rightarrow> row_sorter \<Rightarrow> businessLogEntry list \<Rightarrow> requestLogEntry list \<Rightarrow> int \<Rightarrow> businessLogEntry list" where
  "buildBusinessFlow tz srt events requests n =
     (let s = fold (addRequestLog tz) requests (fold (addBusinessEvent tz) events empty_flow_set)
      in take (row_limit n) (srt (\<lambda>a b. businessTimeAfter (ble_Time a) (ble_Time b)) (bf_rows s)))"

section \<open>The files of the log\<close>

text \<open>\<open>lastLines\<close> of \<open>logging_windows.go\<close>: the last \<open>n\<close> lines that are not blank.\<close>

fun unify_crlf :: "string \<Rightarrow> string" where
  "unify_crlf (c # d # s) = (if c = CHR 0x0D \<and> d = CHR 0x0A then CHR 0x0A # unify_crlf s else c # unify_crlf (d # s))"
| "unify_crlf s = s"

definition lastLines :: "string \<Rightarrow> nat \<Rightarrow> string list" where
  "lastLines data n =
     fold (\<lambda>line kept. let line = TrimRight line [CHR 0x0D]
                       in if TrimSpace line = [] then kept
                          else if n < length (kept @ [line]) then drop (length (kept @ [line]) - n) (kept @ [line]) else kept @ [line])
       (SplitChar (CHR 0x0A) (unify_crlf data)) []"

definition initialWindow :: nat where
  "initialWindow = 64 * 1024"

definition maxWindow :: nat where
  "maxWindow = 4 * 1024 * 1024"

text \<open>The end of the file is read in windows that double until they hold \<open>n\<close> lines; a window is never empty.\<close>

function window_loop :: "string \<Rightarrow> nat \<Rightarrow> nat \<Rightarrow> string list" where
  "window_loop data n window =
     (let start_at = length data - window; lines = lastLines (take window (drop start_at data)) n
      in if n \<le> length lines \<or> start_at = 0 \<or> maxWindow \<le> window \<or> window = 0 then lines
         else window_loop data n (min (min (window * 2) maxWindow) (length data)))"
  by auto
termination
  by (relation "measure (\<lambda>(data, n, window). maxWindow - window)") auto

definition recentFileLines :: "os_env \<Rightarrow> files \<Rightarrow> string \<Rightarrow> nat \<Rightarrow> string list res" where
  "recentFileLines os fs path n =
     (case ReadFile os fs path of Inl err \<Rightarrow> Inl err
      | Inr data \<Rightarrow> if data = [] then Inr [] else Inr (window_loop data n (min initialWindow (length data))))"

fun collect_entries :: "(string \<Rightarrow> 'a option) \<Rightarrow> nat \<Rightarrow> string list \<Rightarrow> 'a list \<Rightarrow> 'a list" where
  "collect_entries decode n [] out = out"
| "collect_entries decode n (line # lines) out =
     (if n \<le> length out then out
      else collect_entries decode n lines (case decode line of Some entry \<Rightarrow> out @ [entry] | None \<Rightarrow> out))"

fun collect_files :: "os_env \<Rightarrow> files \<Rightarrow> (string \<Rightarrow> 'a option) \<Rightarrow> nat \<Rightarrow> string list \<Rightarrow> 'a list \<Rightarrow> 'a list" where
  "collect_files os fs decode n [] out = out"
| "collect_files os fs decode n (candidate # candidates) out =
     (if n \<le> length out then out
      else collect_files os fs decode n candidates
        (case recentFileLines os fs candidate n of Inl _ \<Rightarrow> out | Inr lines \<Rightarrow> collect_entries decode n (rev lines) out))"

text \<open>The candidates (the dated files, newest first, and the base file) come from the directory.\<close>

definition readJSONLRecent :: "os_env \<Rightarrow> files \<Rightarrow> string list \<Rightarrow> int \<Rightarrow> (string \<Rightarrow> 'a option) \<Rightarrow> 'a list" where
  "readJSONLRecent os fs candidates n decode = collect_files os fs decode (row_limit n) candidates []"

definition loadBusinessLogs ::
    "(time \<Rightarrow> int) \<Rightarrow> row_sorter \<Rightarrow> os_env \<Rightarrow> files \<Rightarrow> string list \<Rightarrow> (string \<Rightarrow> businessLogEntry option)
     \<Rightarrow> string list \<Rightarrow> (string \<Rightarrow> requestLogEntry option) \<Rightarrow> int \<Rightarrow> businessLogEntry list" where
  "loadBusinessLogs tz srt os fs businessFiles decodeB requestFiles decodeR n =
     (let n = int (row_limit n)
      in buildBusinessFlow tz srt (readJSONLRecent os fs businessFiles (n * 4) decodeB)
           (readJSONLRecent os fs requestFiles (n * 8) decodeR) n)"

end
