(* ===== verification/Business_Flow_Laws.thy ===== *)
theory Business_Flow_Laws
  imports Business_Flow "HOL-Library.Multiset"
begin

text \<open>
  The table of connections: one row per connection, with its most final result, newest first.
\<close>

section \<open>Entries\<close>

lemma prepare_keeps [simp]:
  "ble_Time (prepareBusinessFlowEntry tz e) = ble_Time e"
  "ble_RequestID (prepareBusinessFlowEntry tz e) = ble_RequestID e"
  by (auto simp: prepareBusinessFlowEntry_def Let_def)

lemma key_nonempty: "businessLifecycleKey e \<noteq> [] \<longleftrightarrow> ble_RequestID e \<noteq> [] \<and> isBusinessLifecycleKind (ble_Kind e)"
  by (simp add: businessLifecycleKey_def)

lemma lifecycle_kind_nonblank: "isBusinessLifecycleKind kind \<Longrightarrow> TrimSpace kind \<noteq> [] \<and> kind \<noteq> []"
proof -
  have "TrimSpace ''open'' \<noteq> []" "TrimSpace ''reverse_stream'' \<noteq> []" "TrimSpace ''reverse_listen'' \<noteq> []" by code_simp+
  then show "isBusinessLifecycleKind kind \<Longrightarrow> ?thesis" by (auto simp: isBusinessLifecycleKind_def)
qed

lemma priority_zero: "businessResultPriority r \<le> 0 \<longleftrightarrow> r = []"
  by (simp add: businessResultPriority_def)

lemma priority_nonneg: "0 \<le> businessResultPriority r"
  by (simp add: businessResultPriority_def)

lemma carry_key: "businessLifecycleKey d \<noteq> [] \<Longrightarrow> businessLifecycleKey (carryBusinessFields d s) = businessLifecycleKey d"
  using lifecycle_kind_nonblank [of "ble_Kind d"]
  by (simp add: key_nonempty) (simp add: businessLifecycleKey_def carryBusinessFields_def carry_def)

lemma carry_result:
  assumes "businessResultPriority (ble_Result s) \<le> businessResultPriority (ble_Result d)"
  shows "businessResultPriority (ble_Result (carryBusinessFields d s)) = businessResultPriority (ble_Result d)"
proof (cases "ble_Result d = []")
  case True
  then have "ble_Result s = []" using assms priority_zero [of "ble_Result s"] by (simp add: businessResultPriority_def)
  with True show ?thesis by (simp add: carryBusinessFields_def carry_def)
qed (simp add: carryBusinessFields_def carry_def)

lemma merged_row:
  assumes "businessLifecycleKey d = businessLifecycleKey s" "businessLifecycleKey s \<noteq> []"
  shows "businessLifecycleKey (mergeBusinessLifecycle d s) = businessLifecycleKey s"
    "businessResultPriority (ble_Result (mergeBusinessLifecycle d s))
     = max (businessResultPriority (ble_Result d)) (businessResultPriority (ble_Result s))"
    "ble_Time (mergeBusinessLifecycle d s) \<in> {ble_Time d, ble_Time s}"
  using assms by (auto simp: mergeBusinessLifecycle_def Let_def carry_key carry_result)
    (auto simp: carryBusinessFields_def carry_def)

section \<open>The rows and their index\<close>

definition flow_set_ok :: "businessLogEntry set \<Rightarrow> string set \<Rightarrow> businessFlowSet \<Rightarrow> bool" where
  "flow_set_ok evs ts s \<longleftrightarrow>
     (\<forall>k i. bf_lifecycleIndex s k = Some i \<longrightarrow> i < length (bf_rows s) \<and> businessLifecycleKey (bf_rows s ! i) = k \<and> k \<noteq> []) \<and>
     (\<forall>i < length (bf_rows s). businessLifecycleKey (bf_rows s ! i) \<noteq> [] \<longrightarrow>
        bf_lifecycleIndex s (businessLifecycleKey (bf_rows s ! i)) = Some i) \<and>
     (\<forall>e \<in> evs. businessLifecycleKey e \<noteq> [] \<longrightarrow> (\<exists>i. bf_lifecycleIndex s (businessLifecycleKey e) = Some i \<and>
        businessResultPriority (ble_Result e) \<le> businessResultPriority (ble_Result (bf_rows s ! i)))) \<and>
     ble_Time ` set (bf_rows s) \<subseteq> ts"

lemma flow_set_okD:
  assumes "flow_set_ok evs ts s"
  shows "bf_lifecycleIndex s k = Some i \<Longrightarrow> i < length (bf_rows s) \<and> businessLifecycleKey (bf_rows s ! i) = k \<and> k \<noteq> []"
    "i < length (bf_rows s) \<Longrightarrow> businessLifecycleKey (bf_rows s ! i) \<noteq> [] \<Longrightarrow> bf_lifecycleIndex s (businessLifecycleKey (bf_rows s ! i)) = Some i"
    "e \<in> evs \<Longrightarrow> businessLifecycleKey e \<noteq> [] \<Longrightarrow> \<exists>i. bf_lifecycleIndex s (businessLifecycleKey e) = Some i \<and>
        businessResultPriority (ble_Result e) \<le> businessResultPriority (ble_Result (bf_rows s ! i))"
    "ble_Time ` set (bf_rows s) \<subseteq> ts"
  using assms by (auto simp: flow_set_ok_def)

lemma flow_set_ok_weaken: "flow_set_ok evs ts s \<Longrightarrow> evs' \<subseteq> evs \<Longrightarrow> ts \<subseteq> ts' \<Longrightarrow> flow_set_ok evs' ts' s"
  unfolding flow_set_ok_def by blast

lemma flow_set_ok_sets [simp]:
  "flow_set_ok evs ts (s\<lparr>bf_businessRequestIDs := a\<rparr>) = flow_set_ok evs ts s"
  "flow_set_ok evs ts (s\<lparr>bf_seenRequests := a\<rparr>) = flow_set_ok evs ts s"
  "flow_set_ok evs ts (s\<lparr>bf_seenRows := a\<rparr>) = flow_set_ok evs ts s"
  "flow_set_ok evs ts (s\<lparr>bf_businessRequestIDs := a, bf_rows := r\<rparr>) = flow_set_ok evs ts (s\<lparr>bf_rows := r\<rparr>)"
  "flow_set_ok evs ts (s\<lparr>bf_seenRows := a, bf_rows := r\<rparr>) = flow_set_ok evs ts (s\<lparr>bf_rows := r\<rparr>)"
  "flow_set_ok evs ts (s\<lparr>bf_businessRequestIDs := a, bf_seenRows := b, bf_rows := r\<rparr>) = flow_set_ok evs ts (s\<lparr>bf_rows := r\<rparr>)"
  "flow_set_ok evs ts (s\<lparr>bf_businessRequestIDs := a, bf_lifecycleIndex := i, bf_rows := r\<rparr>) = flow_set_ok evs ts (s\<lparr>bf_lifecycleIndex := i, bf_rows := r\<rparr>)"
  by (simp_all add: flow_set_ok_def)

lemma flow_set_ok_plain:
  assumes "flow_set_ok evs ts s" "businessLifecycleKey e = []"
  shows "flow_set_ok (insert e evs) (insert (ble_Time e) ts) (s\<lparr>bf_rows := bf_rows s @ [e]\<rparr>)"
proof -
  note d = flow_set_okD [OF assms(1)]
  have "\<exists>i. bf_lifecycleIndex s (businessLifecycleKey x) = Some i \<and>
      businessResultPriority (ble_Result x) \<le> businessResultPriority (ble_Result ((bf_rows s @ [e]) ! i))"
    if "x \<in> insert e evs" "businessLifecycleKey x \<noteq> []" for x
  proof -
    have "x \<in> evs" using that assms(2) by auto
    with d(3) [of x] that(2) obtain i where i: "bf_lifecycleIndex s (businessLifecycleKey x) = Some i"
      "businessResultPriority (ble_Result x) \<le> businessResultPriority (ble_Result (bf_rows s ! i))" by blast
    with d(1) [OF i(1)] show ?thesis by (auto simp: nth_append)
  qed
  moreover have "\<forall>k i. bf_lifecycleIndex s k = Some i \<longrightarrow> i < length (bf_rows s @ [e]) \<and>
      businessLifecycleKey ((bf_rows s @ [e]) ! i) = k \<and> k \<noteq> []"
    using d(1) by (auto simp: nth_append dest: less_SucI)
  moreover have "\<forall>i < length (bf_rows s @ [e]). businessLifecycleKey ((bf_rows s @ [e]) ! i) \<noteq> [] \<longrightarrow>
      bf_lifecycleIndex s (businessLifecycleKey ((bf_rows s @ [e]) ! i)) = Some i"
    using d(2) assms(2) by (auto simp: nth_append less_Suc_eq)
  ultimately show ?thesis using d(4) by (auto simp: flow_set_ok_def)
qed

lemma flow_set_ok_fresh:
  assumes ok: "flow_set_ok evs ts s" and k: "businessLifecycleKey e \<noteq> []" "bf_lifecycleIndex s (businessLifecycleKey e) = None"
  shows "flow_set_ok (insert e evs) (insert (ble_Time e) ts)
    (s\<lparr>bf_lifecycleIndex := (bf_lifecycleIndex s)(businessLifecycleKey e \<mapsto> length (bf_rows s)), bf_rows := bf_rows s @ [e]\<rparr>)"
proof -
  note d = flow_set_okD [OF ok]
  have new: "businessLifecycleKey (bf_rows s ! i) \<noteq> businessLifecycleKey e" if "i < length (bf_rows s)" for i
    using d(2) [OF that] k by auto
  have "\<exists>i. ((bf_lifecycleIndex s)(businessLifecycleKey e \<mapsto> length (bf_rows s))) (businessLifecycleKey x) = Some i \<and>
      businessResultPriority (ble_Result x) \<le> businessResultPriority (ble_Result ((bf_rows s @ [e]) ! i))"
    if x: "x \<in> insert e evs" and key: "businessLifecycleKey x \<noteq> []" for x
  proof (cases "x = e")
    case False
    obtain i where i: "bf_lifecycleIndex s (businessLifecycleKey x) = Some i"
      "businessResultPriority (ble_Result x) \<le> businessResultPriority (ble_Result (bf_rows s ! i))"
      using d(3) [of x] x key False by blast
    with d(1) [OF i(1)] k(2) show ?thesis by (intro exI [of _ i]) (auto simp: nth_append)
  qed auto
  moreover have "\<forall>j i. ((bf_lifecycleIndex s)(businessLifecycleKey e \<mapsto> length (bf_rows s))) j = Some i \<longrightarrow>
      i < length (bf_rows s @ [e]) \<and> businessLifecycleKey ((bf_rows s @ [e]) ! i) = j \<and> j \<noteq> []"
    using d(1) k(1) by (auto simp: nth_append dest: less_SucI)
  moreover have "\<forall>i < length (bf_rows s @ [e]). businessLifecycleKey ((bf_rows s @ [e]) ! i) \<noteq> [] \<longrightarrow>
      ((bf_lifecycleIndex s)(businessLifecycleKey e \<mapsto> length (bf_rows s))) (businessLifecycleKey ((bf_rows s @ [e]) ! i)) = Some i"
    using d(2) new by (auto simp: nth_append less_Suc_eq)
  ultimately show ?thesis using d(4) by (auto simp: flow_set_ok_def)
qed

lemma flow_set_ok_merge:
  assumes ok: "flow_set_ok evs ts s" and k: "bf_lifecycleIndex s (businessLifecycleKey e) = Some i"
  shows "flow_set_ok (insert e evs) (insert (ble_Time e) ts)
    (s\<lparr>bf_rows := (bf_rows s)[i := mergeBusinessLifecycle (bf_rows s ! i) e]\<rparr>)"
proof -
  note d = flow_set_okD [OF ok]
  have i: "i < length (bf_rows s)" "businessLifecycleKey (bf_rows s ! i) = businessLifecycleKey e" "businessLifecycleKey e \<noteq> []"
    using d(1) [OF k] by auto
  note m = merged_row [OF i(2,3)]
  have best: "\<exists>j. bf_lifecycleIndex s (businessLifecycleKey x) = Some j \<and> businessResultPriority (ble_Result x)
      \<le> businessResultPriority (ble_Result ((bf_rows s)[i := mergeBusinessLifecycle (bf_rows s ! i) e] ! j))"
    if x: "x \<in> insert e evs" and key: "businessLifecycleKey x \<noteq> []" for x
  proof (cases "x = e")
    case True
    with k i m show ?thesis by auto
  next
    case False
    obtain j where j: "bf_lifecycleIndex s (businessLifecycleKey x) = Some j"
      "businessResultPriority (ble_Result x) \<le> businessResultPriority (ble_Result (bf_rows s ! j))"
      using d(3) [of x] x key False by blast
    show ?thesis using j i m by (intro exI [of _ j]) (cases "j = i", auto)
  qed
  have ts: "ble_Time ` set ((bf_rows s)[i := mergeBusinessLifecycle (bf_rows s ! i) e]) \<subseteq> insert (ble_Time e) ts"
    using d(4) m(3) nth_mem [OF i(1)] set_update_subset_insert [of "bf_rows s" i "mergeBusinessLifecycle (bf_rows s ! i) e"] by auto
  have "businessLifecycleKey ((bf_rows s)[i := mergeBusinessLifecycle (bf_rows s ! i) e] ! j) = businessLifecycleKey (bf_rows s ! j)"
    if "j < length (bf_rows s)" for j using that i m(1) by (cases "j = i") auto
  then show ?thesis using d(1,2) best ts by (auto simp: flow_set_ok_def)
qed

lemma addBusinessEvent_ok:
  assumes "flow_set_ok evs ts s"
  shows "flow_set_ok (insert (prepareBusinessFlowEntry tz e) evs) (insert (ble_Time e) ts) (addBusinessEvent tz e s)"
proof -
  let ?e = "prepareBusinessFlowEntry tz e"
  have blank: "businessLifecycleKey ?e = []" if "TrimSpace (ble_Kind ?e) = []"
    using that lifecycle_kind_nonblank [of "ble_Kind ?e"] key_nonempty [of ?e] by auto
  have skip: "flow_set_ok (insert ?e evs) (insert (ble_Time e) ts) s" if "businessLifecycleKey ?e = []"
    using assms that unfolding flow_set_ok_def by auto
  show ?thesis
    using assms skip blank flow_set_ok_plain [OF assms, of ?e] flow_set_ok_fresh [OF assms, of ?e] flow_set_ok_merge [OF assms, of ?e]
    by (auto simp: addBusinessEvent_def Let_def split: option.split)
qed

lemma addRequestLog_ok: "flow_set_ok evs ts s \<Longrightarrow> flow_set_ok evs (insert (rle_Time r) ts) (addRequestLog tz r s)"
proof -
  assume ok: "flow_set_ok evs ts s"
  have t: "ble_Time flow = rle_Time r" if "businessFlowFromRequest r = Some flow" for flow
    using that by (auto simp: businessFlowFromRequest_def Let_def split: if_splits)
  have "flow_set_ok evs (insert (rle_Time r) ts) (addBusinessEvent tz flow s')"
    if "businessFlowFromRequest r = Some flow" "flow_set_ok evs ts s'" for flow s'
    using flow_set_ok_weaken [OF addBusinessEvent_ok [OF that(2), of tz flow], of evs] t [OF that(1)] by auto
  with ok show ?thesis
    by (auto simp: addRequestLog_def split: option.split intro: flow_set_ok_weaken)
qed

lemma flow_rows:
  "flow_set_ok (prepareBusinessFlowEntry tz ` set events) (ble_Time ` set events \<union> rle_Time ` set requests)
     (fold (addRequestLog tz) requests (fold (addBusinessEvent tz) events empty_flow_set))"
proof -
  have "flow_set_ok (prepareBusinessFlowEntry tz ` set events \<union> evs) (ble_Time ` set events \<union> ts) (fold (addBusinessEvent tz) events s)"
    if "flow_set_ok evs ts s" for evs ts s using that
  proof (induction events arbitrary: evs ts s)
    case (Cons e events)
    from Cons.IH [OF addBusinessEvent_ok [OF Cons.prems, of tz e]] show ?case by simp
  qed simp
  from this [of "{}" "{}" empty_flow_set]
  have 1: "flow_set_ok (prepareBusinessFlowEntry tz ` set events) (ble_Time ` set events) (fold (addBusinessEvent tz) events empty_flow_set)"
    by (simp add: flow_set_ok_def empty_flow_set_def)
  have "flow_set_ok evs (ts \<union> rle_Time ` set requests) (fold (addRequestLog tz) requests s)"
    if "flow_set_ok evs ts s" for evs ts s using that
  proof (induction requests arbitrary: ts s)
    case (Cons r requests)
    from Cons.IH [OF addRequestLog_ok [OF Cons.prems, of r]] show ?case by simp
  qed simp
  from this [OF 1] show ?thesis by simp
qed

section \<open>The table\<close>

text \<open>What \<open>sort.SliceStable\<close> promises: a permutation, and for a comparison that orders the elements, a sorted one.\<close>

definition sorts_rows :: "row_sorter \<Rightarrow> bool" where
  "sorts_rows srt \<longleftrightarrow> (\<forall>before xs. mset (srt before xs) = mset xs \<and>
     ((\<exists>f :: businessLogEntry \<Rightarrow> int. \<forall>a \<in> set xs. \<forall>b \<in> set xs. before a b \<longleftrightarrow> f a < f b) \<longrightarrow> sorted_wrt (\<lambda>a b. \<not> before b a) (srt before xs)))"

lemma sorts_rowsD:
  fixes f :: "businessLogEntry \<Rightarrow> int"
  assumes "sorts_rows srt" "\<forall>a \<in> set xs. \<forall>b \<in> set xs. before a b \<longleftrightarrow> f a < f b"
  shows "sorted_wrt (\<lambda>a b. \<not> before b a) (srt before xs)"
  using assms unfolding sorts_rows_def by blast

lemma distinct_keys:
  assumes "flow_set_ok evs ts s"
  shows "distinct (filter (\<lambda>k. k \<noteq> []) (map businessLifecycleKey (bf_rows s)))"
proof -
  have "distinct (filter (\<lambda>k. k \<noteq> []) (map f xs))"
    if "\<forall>i < length xs. \<forall>j < length xs. f (xs ! i) \<noteq> [] \<longrightarrow> f (xs ! i) = f (xs ! j) \<longrightarrow> i = j" for f :: "businessLogEntry \<Rightarrow> string" and xs
    using that
  proof (induction xs)
    case (Cons x xs)
    have "f y \<noteq> f x" if "y \<in> set xs" "f x \<noteq> []" for y
      using Cons.prems [rule_format, of 0] that by (auto simp: in_set_conv_nth) (metis Suc_less_eq Zero_not_Suc nth_Cons_Suc)
    moreover have "distinct (filter (\<lambda>k. k \<noteq> []) (map f xs))"
      by (rule Cons.IH) (use Cons.prems in \<open>auto, metis Suc_less_eq nat.inject nth_Cons_Suc\<close>)
    moreover have "f x \<notin> set (filter (\<lambda>k. k \<noteq> []) (map f xs))" if "f x \<noteq> []" using calculation(1) that by force
    ultimately show ?case by simp
  qed simp
  moreover have "\<forall>i < length (bf_rows s). \<forall>j < length (bf_rows s). businessLifecycleKey (bf_rows s ! i) \<noteq> [] \<longrightarrow>
      businessLifecycleKey (bf_rows s ! i) = businessLifecycleKey (bf_rows s ! j) \<longrightarrow> i = j"
    using flow_set_okD(2) [OF assms] by (metis option.inject)
  ultimately show ?thesis by blast
qed


section \<open>An example\<close>

fun insert_row :: "(businessLogEntry \<Rightarrow> businessLogEntry \<Rightarrow> bool) \<Rightarrow> businessLogEntry \<Rightarrow> businessLogEntry list \<Rightarrow> businessLogEntry list" where
  "insert_row before x [] = [x]"
| "insert_row before x (y # ys) = (if before y x then y # insert_row before x ys else x # y # ys)"

definition sort_rows :: row_sorter where
  "sort_rows before xs = foldr (insert_row before) xs []"

lemma insert_row_mset: "mset (insert_row before x ys) = add_mset x (mset ys)"
  by (induction ys) auto

lemma insert_row_set: "set (insert_row before x ys) = insert x (set ys)"
  by (induction ys) auto

lemma insert_row_sorted:
  assumes "\<forall>a \<in> insert x (set ys). \<forall>b \<in> insert x (set ys). before a b \<longleftrightarrow> f a < (f b :: int)"
  shows "sorted_wrt (\<lambda>a b. \<not> before b a) ys \<Longrightarrow> sorted_wrt (\<lambda>a b. \<not> before b a) (insert_row before x ys)"
  using assms
proof (induction ys)
  case (Cons y ys)
  have "\<forall>a \<in> set ys. f y \<le> f a" using Cons.prems by (auto simp: not_less)
  moreover have "sorted_wrt (\<lambda>a b. \<not> before b a) (insert_row before x ys)"
    by (rule Cons.IH) (use Cons.prems in auto)
  ultimately show ?case using Cons.prems by (auto simp: insert_row_set not_less)
qed simp

lemma sort_rows_stable: "sorts_rows sort_rows"
proof -
  have m: "mset (sort_rows before xs) = mset xs" for before xs
    by (induction xs) (simp_all add: sort_rows_def insert_row_mset)
  have "sorted_wrt (\<lambda>a b. \<not> before b a) (sort_rows before xs)"
    if "\<forall>a \<in> set xs. \<forall>b \<in> set xs. before a b \<longleftrightarrow> f a < (f b :: int)" for before xs f using that
  proof (induction xs)
    case (Cons x xs)
    have "set (sort_rows before xs) = set xs" using m mset_eq_setD by blast
    with Cons show ?case by (simp add: sort_rows_def) (rule insert_row_sorted [where f=f], auto)
  qed (simp add: sort_rows_def)
  with m show ?thesis unfolding sorts_rows_def by blast
qed

definition sample_entry_of :: "string \<Rightarrow> string \<Rightarrow> businessLogEntry" where
  "sample_entry_of time result = \<lparr>ble_Time = time, ble_StartedAt = [], ble_EndedAt = [], ble_RequestID = ''r1'', ble_Kind = '' open'',
     ble_Result = result, ble_RemoteIP = ''10.0.0.9'', ble_Username = ''alice'', ble_ClientID = [], ble_ForwardName = ''web'',
     ble_Direction = [], ble_Target = [], ble_ListenAddr = [], ble_Code = [], ble_Message = [], ble_DurationMS = 2000,
     ble_BytesUp = 0, ble_BytesDown = 0\<rparr>"

definition sample_rows :: "businessLogEntry list" where
  "sample_rows = buildBusinessFlow (\<lambda>_. 0) sort_rows
     [sample_entry_of ''2026-07-01T10:00:07Z'' ''closed'', sample_entry_of ''2026-07-01T10:00:05Z'' ''connected''] [] 5"

lemma sample_rows_shown:
  "map (\<lambda>r. (ble_Time r, ble_Result r, ble_StartedAt r, ble_EndedAt r)) sample_rows
   = [(''2026-07-01T10:00:07Z'', ''closed'', ''2026-07-01T10:00:05Z'', ''2026-07-01T10:00:07Z'')]"
  by code_simp


end
