(* ===== verification/Admin_Forms.thy ===== *)
theory Admin_Forms
  imports Server_Config Client_Messages Go_Errors
begin

text \<open>
  The configuration page of the server: \<open>server/gui/admin_config_mapping_windows.go\<close>,
  \<open>admin_forward_mapping_windows.go\<close> and \<open>admin_forward_validation_windows.go\<close>. A form is made from a configuration and
  back, and its forwards are checked before they are saved. The probes of the network (can this address be
  listened on, does this target answer) are arguments, one answer per forward.
\<close>

section \<open>Forms\<close>

record adminForward =
  af_Name :: string
  af_Direction :: string
  af_Port :: string
  af_ListenAddr :: string
  af_ServerTarget :: string
  af_Owner :: string
  af_AllowedUsers :: "string list"

record adminUser =
  au_Username :: string
  au_PasswordHash :: string
  au_Disabled :: bool

record adminCredential =
  ac_KeyID :: string
  ac_PrivateKeyFile :: string
  ac_PublicKeyFile :: string
  ac_ExpiresAt :: string
  ac_Active :: bool

text \<open>\<open>adminTLS\<close> and \<open>adminSecurity\<close> have the fields of \<open>TLSConfig\<close> and \<open>SecurityConfig\<close>.\<close>

record adminConfig =
  adm_ListenAddr :: string
  adm_MonitorAddr :: string
  adm_LogLevel :: string
  adm_TLS :: tlsConfig
  adm_Users :: "adminUser list"
  adm_Forwards :: "adminForward list"
  adm_Security :: securityConfig
  adm_CredentialSeal :: adminCredential

section \<open>Lists of users\<close>

fun split_by :: "(char \<Rightarrow> bool) \<Rightarrow> string \<Rightarrow> string list" where
  "split_by p [] = [[]]"
| "split_by p (c # s) = (if p c then [] # split_by p s else (case split_by p s of [] \<Rightarrow> [[c]] | f # fs \<Rightarrow> (c # f) # fs))"

definition FieldsFunc :: "(char \<Rightarrow> bool) \<Rightarrow> string \<Rightarrow> string list" where
  "FieldsFunc p s = filter (\<lambda>f. f \<noteq> []) (split_by p s)"

definition list_separator :: "char \<Rightarrow> bool" where
  "list_separator c \<longleftrightarrow> c \<in> {CHR '','', CHR '';'', CHR 0x0A, CHR 0x0D, CHR 0x09, CHR '' ''}"

definition splitList :: "string \<Rightarrow> string list" where
  "splitList s =
     foldl (\<lambda>out field. let item = TrimSpace field in if item = [] \<or> item \<in> set out then out else out @ [item])
       [] (FieldsFunc list_separator s)"

definition cleanAllowedUsers :: "string list \<Rightarrow> string list" where
  "cleanAllowedUsers items =
     foldl (\<lambda>out item. foldl (\<lambda>out user. if user \<in> set out then out else out @ [user]) out (splitList item)) [] items"

definition firstAllowedUser :: "string list \<Rightarrow> string" where
  "firstAllowedUser users = (case find (\<lambda>user. user \<noteq> []) (map TrimSpace users) of Some user \<Rightarrow> user | None \<Rightarrow> [])"

section \<open>Forwards of the form\<close>

definition serverLocalForwardHost :: string where
  "serverLocalForwardHost = ''127.0.0.1''"

definition forwardDirectionOrDefault :: "string \<Rightarrow> string" where
  "forwardDirectionOrDefault direction =
     (if TrimSpace direction = DirectionServerToClient then DirectionServerToClient else DirectionClientToServer)"

definition parseForwardPort :: "string \<Rightarrow> int res" where
  "parseForwardPort portText =
     (if portText = [] then Inl (Errorf ''empty port'' [])
      else if \<not> list_all is_digit portText then Inl (Errorf ''port must be numeric'' [])
      else (case Atoi portText of None \<Rightarrow> Inl (Errorf ''port out of range'' [])
       | Some port \<Rightarrow> if port \<le> 0 \<or> port > 65535 then Inl (Errorf ''port out of range'' []) else Inr port))"

definition adminForwardAddress :: "string \<Rightarrow> string \<Rightarrow> string res" where
  "adminForwardAddress addr portText =
     (let addr = TrimSpace addr
      in if addr \<noteq> []
         then (case SplitHostPort addr of Inl _ \<Rightarrow> Inl (Errorf ''invalid address'' [])
          | Inr (host, port) \<Rightarrow>
              if TrimSet host ''[]'' = [] then Inl (Errorf ''invalid address'' [])
              else (case parseForwardPort port of Inl err \<Rightarrow> Inl err | Inr _ \<Rightarrow> Inr addr))
         else (case parseForwardPort portText of Inl err \<Rightarrow> Inl err
          | Inr _ \<Rightarrow> Inr (JoinHostPort serverLocalForwardHost portText)))"

definition msg_unnamed_forward :: string where
  "msg_unnamed_forward = utf8 (''e69caae591bde5908de8bdace58f91'')"

definition admin_forwardDisplayName :: "adminForward \<Rightarrow> string" where
  "admin_forwardDisplayName fwd =
     (if TrimSpace (af_Name fwd) \<noteq> [] then TrimSpace (af_Name fwd)
      else if TrimSpace (af_ListenAddr fwd) \<noteq> [] then TrimSpace (af_ListenAddr fwd)
      else if TrimSpace (af_ServerTarget fwd) \<noteq> [] then TrimSpace (af_ServerTarget fwd)
      else msg_unnamed_forward)"

definition zero_forward :: forwardConfig where
  "zero_forward = \<lparr>fwd_Name = [], fwd_Direction = [], fwd_ListenPort = 0, fwd_ListenAddr = [], fwd_ServerTarget = [], fwd_AllowedUsers = []\<rparr>"

definition adminForwardToTunnel :: "adminForward \<Rightarrow> (forwardConfig \<times> bool) res" where
  "adminForwardToTunnel item =
     (let name = TrimSpace (af_Name item); direction = forwardDirectionOrDefault (af_Direction item); portText = TrimSpace (af_Port item)
      in if name = [] \<and> portText = [] \<and> TrimSpace (af_ListenAddr item) = [] \<and> TrimSpace (af_ServerTarget item) = []
         then Inr (zero_forward, True)
         else let fwd = zero_forward\<lparr>fwd_Name := name, fwd_Direction := direction\<rparr>
         in if direction = DirectionServerToClient
            then (case adminForwardAddress (TrimSpace (af_ListenAddr item)) portText of
                    Inl _ \<Rightarrow> Inl (Errorf ''forward %q listen address is invalid'' [FS (admin_forwardDisplayName item)])
                  | Inr addr \<Rightarrow>
                     (let port = (case SplitHostPort addr of Inl _ \<Rightarrow> [] | Inr (_, port) \<Rightarrow> port);
                          listenPort = (case Atoi port of None \<Rightarrow> 0 | Some n \<Rightarrow> n)
                      in Inr (fwd\<lparr>fwd_ListenPort := listenPort, fwd_ListenAddr := addr\<rparr>, False)))
            else (case adminForwardAddress (TrimSpace (af_ServerTarget item)) portText of
                    Inl _ \<Rightarrow> Inl (Errorf ''forward %q target address is invalid'' [FS (admin_forwardDisplayName item)])
                  | Inr addr \<Rightarrow> Inr (fwd\<lparr>fwd_ServerTarget := addr\<rparr>, False)))"

definition forwardPortText :: "forwardConfig \<Rightarrow> string" where
  "forwardPortText fwd =
     (let reverse = forwardDirectionOrDefault (fwd_Direction fwd) = DirectionServerToClient
      in if reverse \<and> 0 < fwd_ListenPort fwd then Itoa (fwd_ListenPort fwd)
         else let target = (if reverse then TrimSpace (fwd_ListenAddr fwd) else TrimSpace (fwd_ServerTarget fwd))
         in if target = [] then []
            else (case SplitHostPort target of Inl _ \<Rightarrow> [] | Inr (_, portText) \<Rightarrow> portText))"

section \<open>Checking the forwards\<close>

record adminConfigIssue =
  iss_Level :: string
  iss_Field :: string
  iss_Message :: string

definition adminIssueError :: string where
  "adminIssueError = ''error''"

definition add_error :: "string \<Rightarrow> string \<Rightarrow> adminConfigIssue" where
  "add_error field message = \<lparr>iss_Level = adminIssueError, iss_Field = field, iss_Message = message\<rparr>"

definition hasErrors :: "adminConfigIssue list \<Rightarrow> bool" where
  "hasErrors issues \<longleftrightarrow> list_ex (\<lambda>issue. iss_Level issue = adminIssueError) issues"

definition issue_text :: "adminConfigIssue \<Rightarrow> string" where
  "issue_text issue = (if iss_Field issue \<noteq> [] then iss_Field issue @ '': '' @ iss_Message issue else iss_Message issue)"

definition summary :: "adminConfigIssue list \<Rightarrow> string" where
  "summary issues =
     (case find (\<lambda>issue. iss_Level issue = adminIssueError) issues of Some issue \<Rightarrow> issue_text issue
      | None \<Rightarrow> if issues = [] then [] else issue_text (hd issues))"

record validation_options =
  vo_Existing :: config
  vo_ServiceRunning :: bool
  vo_CheckForwardTargetReachability :: bool
  vo_CheckPassivePortAvailability :: bool
  vo_DialTimeout :: int

record admin_probe =
  ap_listen :: "nat \<Rightarrow> string \<Rightarrow> go_error option"
  ap_connect :: "nat \<Rightarrow> string \<Rightarrow> int \<Rightarrow> go_error option"

definition adminUserSet :: "adminUser list \<Rightarrow> string list" where
  "adminUserSet users = filter (\<lambda>username. username \<noteq> []) (map (\<lambda>user. TrimSpace (au_Username user)) users)"

definition adminForwardIsEmpty :: "adminForward \<Rightarrow> bool" where
  "adminForwardIsEmpty item \<longleftrightarrow>
     TrimSpace (af_Name item) = [] \<and> TrimSpace (af_Port item) = [] \<and> TrimSpace (af_ListenAddr item) = []
     \<and> TrimSpace (af_ServerTarget item) = [] \<and> cleanAllowedUsers (af_AllowedUsers item @ [af_Owner item]) = []"

definition adminForwardTargetAddrForValidation :: "adminForward \<Rightarrow> string" where
  "adminForwardTargetAddrForValidation item =
     (if TrimSpace (af_ServerTarget item) \<noteq> [] then TrimSpace (af_ServerTarget item)
      else if TrimSpace (af_Port item) \<noteq> [] then JoinHostPort serverLocalForwardHost (TrimSpace (af_Port item))
      else TrimSpace (af_ServerTarget item))"

definition adminForwardListenAddrForValidation :: "adminForward \<Rightarrow> string" where
  "adminForwardListenAddrForValidation item =
     (if TrimSpace (af_ListenAddr item) \<noteq> [] then TrimSpace (af_ListenAddr item)
      else if TrimSpace (af_Port item) \<noteq> [] then JoinHostPort serverLocalForwardHost (TrimSpace (af_Port item))
      else TrimSpace (af_ListenAddr item))"

definition adminForwardAddressHost :: "string \<Rightarrow> string res" where
  "adminForwardAddressHost addr =
     (case SplitHostPort (TrimSpace addr) of Inl _ \<Rightarrow> Inl (Errorf ''invalid address'' [])
      | Inr (host, port) \<Rightarrow>
          if TrimSet host ''[]'' = [] then Inl (Errorf ''invalid address'' [])
          else (case parseForwardPort port of Inl err \<Rightarrow> Inl err | Inr _ \<Rightarrow> Inr (TrimSet host ''[]'')))"

definition isAdminLoopbackHost :: "string \<Rightarrow> bool" where
  "isAdminLoopbackHost host \<longleftrightarrow> host = ''127.0.0.1''"

definition normalizeAdminHostPort :: "string \<Rightarrow> string" where
  "normalizeAdminHostPort addr =
     (case SplitHostPort (TrimSpace addr) of Inl _ \<Rightarrow> ToLower (TrimSpace addr)
      | Inr (host, port) \<Rightarrow> JoinHostPort (ToLower (TrimSet host ''[]'')) port)"

definition existingPassiveForwardPorts :: "config \<Rightarrow> string list" where
  "existingPassiveForwardPorts cfg =
     map (\<lambda>fwd. normalizeAdminHostPort (TrimSpace (fwd_ListenAddr fwd)))
       (filter (\<lambda>fwd. forwardDirectionOrDefault (fwd_Direction fwd) = DirectionServerToClient \<and> TrimSpace (fwd_ListenAddr fwd) \<noteq> [])
         (cfg_Forwards cfg))"

definition shouldSkipPassivePortProbe :: "validation_options \<Rightarrow> string list \<Rightarrow> string \<Rightarrow> bool" where
  "shouldSkipPassivePortProbe opts existingPassivePorts listenAddr \<longleftrightarrow>
     vo_ServiceRunning opts \<and> normalizeAdminHostPort listenAddr \<in> set existingPassivePorts"

definition msg_passive_address :: string where
  "msg_passive_address = utf8 (''e58f8de59091e79b91e590ace59cb0e59d80e5bf85e9a1bbe5a1abe58699e4b8ba203132372e302e302e313ae7abafe58fa3'')"

definition msg_target_host :: string where
  "msg_target_host = utf8 (''e79baee6a087e59cb0e59d80e5bf85e9a1bbe4bdbfe794a8203132372e302e302e3120e68896e7a781e69c89204950'')"

definition claim_passive_port :: "string \<Rightarrow> string list \<Rightarrow> string \<Rightarrow> (string, string) gomap \<Rightarrow> adminConfigIssue list \<times> (string, string) gomap" where
  \<comment> \<open>the owner of a passive port, from \<open>len(allowedUsers) != 1\<close> on\<close>
  "claim_passive_port fieldPrefix allowedUsers listenAddr passiveOwners =
     (if length allowedUsers \<noteq> 1
      then ([add_error (fieldPrefix @ ''.allowed_users'') ''passive ports must belong to exactly one allowed user''], passiveOwners)
      else let owner = hd allowedUsers; normalized = normalizeAdminHostPort listenAddr
      in case map_of passiveOwners normalized of
           Some previousOwner \<Rightarrow>
             if previousOwner \<noteq> owner
             then ([add_error (fieldPrefix @ ''.allowed_users'') (''passive port is already assigned to '' @ previousOwner)], passiveOwners)
             else ([], AList.update normalized owner passiveOwners)
         | None \<Rightarrow> ([], AList.update normalized owner passiveOwners))"

definition validate_item ::
    "admin_probe \<Rightarrow> validation_options \<Rightarrow> string list \<Rightarrow> nat \<Rightarrow> adminForward \<Rightarrow> (string, string) gomap
     \<Rightarrow> adminConfigIssue list \<times> (string, string) gomap" where
  \<comment> \<open>one turn of the loop of \<open>validateAdminForwardsForSaveWithOptions\<close>\<close>
  "validate_item probe opts users i item passiveOwners =
     (if adminForwardIsEmpty item then ([], passiveOwners)
      else let fieldPrefix = ''forwards['' @ Itoa (int i) @ '']'';
          direction = (if TrimSpace (af_Direction item) = [] then DirectionClientToServer else TrimSpace (af_Direction item));
          directionIssues = (if direction \<noteq> DirectionClientToServer \<and> direction \<noteq> DirectionServerToClient
            then [add_error (fieldPrefix @ ''.direction'') ''direction must be client_to_server or server_to_client''] else []);
          allowedUsers = cleanAllowedUsers (af_AllowedUsers item @ [af_Owner item])
      in if allowedUsers = []
         then (directionIssues @ [add_error (fieldPrefix @ ''.allowed_users'') ''at least one allowed user is required''], passiveOwners)
         else let issues = directionIssues @ map (\<lambda>username. add_error (fieldPrefix @ ''.allowed_users'')
                             (''allowed user '' @ username @ '' does not exist'')) (filter (\<lambda>username. username \<notin> set users) allowedUsers)
         in if direction = DirectionServerToClient
            then let listenAddr = adminForwardListenAddrForValidation item
              in (if (case adminForwardAddressHost listenAddr of Inl _ \<Rightarrow> True | Inr host \<Rightarrow> \<not> isAdminLoopbackHost host)
                  then (issues @ [add_error (fieldPrefix @ ''.listen_addr'') msg_passive_address], passiveOwners)
                  else let (claim, passiveOwners) = claim_passive_port fieldPrefix allowedUsers listenAddr passiveOwners;
                           probeIssues = (if vo_CheckPassivePortAvailability opts
                               \<and> \<not> shouldSkipPassivePortProbe opts (existingPassiveForwardPorts (vo_Existing opts)) listenAddr
                             then (case ap_listen probe i listenAddr of None \<Rightarrow> []
                               | Some err \<Rightarrow> [add_error (fieldPrefix @ ''.port'') (''passive port is already in use: '' @ error_text err)])
                             else [])
                  in (issues @ claim @ probeIssues, passiveOwners))
            else let target = adminForwardTargetAddrForValidation item
              in (case adminForwardAddressHost target of
                    Inl _ \<Rightarrow> (issues @ [add_error (fieldPrefix @ ''.server_target'') ''target address must include a host and port''], passiveOwners)
                  | Inr host \<Rightarrow>
                      if \<not> IsForwardTargetHost host
                      then (issues @ [add_error (fieldPrefix @ ''.server_target'') msg_target_host], passiveOwners)
                      else if direction = DirectionClientToServer \<and> vo_CheckForwardTargetReachability opts
                      then (issues @ (case ap_connect probe i target
                              (if vo_DialTimeout opts \<le> 0 then 800 * (second div 1000) else vo_DialTimeout opts) of
                              None \<Rightarrow> [] | Some err \<Rightarrow> [add_error (fieldPrefix @ ''.server_target'') (''forward target is not reachable: '' @ error_text err)]),
                            passiveOwners)
                      else (issues, passiveOwners)))"

fun validate_items ::
    "admin_probe \<Rightarrow> validation_options \<Rightarrow> string list \<Rightarrow> nat \<Rightarrow> adminForward list \<Rightarrow> (string, string) gomap \<Rightarrow> adminConfigIssue list" where
  "validate_items probe opts users i [] passiveOwners = []"
| "validate_items probe opts users i (item # items) passiveOwners =
     (case validate_item probe opts users i item passiveOwners of
        (issues, passiveOwners) \<Rightarrow> issues @ validate_items probe opts users (i + 1) items passiveOwners)"

definition validateAdminForwardsForSaveWithOptions :: "admin_probe \<Rightarrow> adminConfig \<Rightarrow> validation_options \<Rightarrow> adminConfigIssue list" where
  "validateAdminForwardsForSaveWithOptions probe form opts =
     validate_items probe opts (adminUserSet (adm_Users form)) 0 (adm_Forwards form) []"

section \<open>From a configuration to a form and back\<close>

definition activeCredential :: "credentialSealKeyConfig list \<Rightarrow> adminCredential" where
  "activeCredential keys =
     (if keys = [] then \<lparr>ac_KeyID = [], ac_PrivateKeyFile = [], ac_PublicKeyFile = [], ac_ExpiresAt = [], ac_Active = False\<rparr>
      else let selected = (case find key_Active keys of Some item \<Rightarrow> item | None \<Rightarrow> hd keys)
      in \<lparr>ac_KeyID = key_KeyID selected, ac_PrivateKeyFile = key_PrivateKeyFile selected,
          ac_PublicKeyFile = key_PublicKeyFile selected, ac_ExpiresAt = key_ExpiresAt selected, ac_Active = key_Active selected\<rparr>)"

definition admin_forward :: "forwardConfig \<Rightarrow> adminForward" where
  "admin_forward fwd =
     (let allowedUsers = cleanAllowedUsers (fwd_AllowedUsers fwd)
      in \<lparr>af_Name = fwd_Name fwd, af_Direction = forwardDirectionOrDefault (fwd_Direction fwd), af_Port = forwardPortText fwd,
          af_ListenAddr = fwd_ListenAddr fwd, af_ServerTarget = fwd_ServerTarget fwd, af_Owner = firstAllowedUser allowedUsers,
          af_AllowedUsers = allowedUsers\<rparr>)"

definition adminConfigFromTunnel :: "config \<Rightarrow> adminConfig" where
  "adminConfigFromTunnel cfg =
     (let cfg = ApplyDefaults cfg
      in \<lparr>adm_ListenAddr = cfg_ListenAddr cfg, adm_MonitorAddr = cfg_MonitorAddr cfg, adm_LogLevel = cfg_LogLevel cfg, adm_TLS = cfg_TLS cfg,
          adm_Users = map (\<lambda>user. \<lparr>au_Username = usr_Username user, au_PasswordHash = usr_PasswordHash user, au_Disabled = usr_Disabled user\<rparr>)
            (cfg_Users cfg),
          adm_Forwards = map admin_forward (cfg_Forwards cfg),
          adm_Security = (cfg_Security cfg)\<lparr>sec_MaxConnectionsPerIPPerWindow := 0\<rparr>,
          adm_CredentialSeal = activeCredential (cfg_SealKeys cfg)\<rparr>)"

definition msg_seal_incomplete :: string where
  "msg_seal_incomplete = utf8 (''e5af86e5b081e587ade68daee9858de7bdaee4b88de5ae8ce695b4efbc8ce8afb7e5a1abe58699e5af86e992a54944e38081e7a781e992a5e38081e585ace992a5e5928ce8bf87e69c9fe697b6e997b4'')"

definition msg_seal_expiry :: string where
  "msg_seal_expiry = utf8 (''e5af86e5b081e587ade68daee8bf87e69c9fe697b6e997b4e6a0bce5bc8fe4b88de6ada3e7a1aeefbc8ce8afb7e4bdbfe794a82052464333333339'')"

definition credentialSealFromAdmin :: "adminCredential \<Rightarrow> credentialSealKeyConfig list \<Rightarrow> credentialSealKeyConfig list res" where
  "credentialSealFromAdmin form existing =
     (let keyID = TrimSpace (ac_KeyID form); privateFile = TrimSpace (ac_PrivateKeyFile form);
          publicFile = TrimSpace (ac_PublicKeyFile form); expiresAt = TrimSpace (ac_ExpiresAt form)
      in if keyID = [] \<and> privateFile = [] \<and> publicFile = [] \<and> expiresAt = [] then Inr []
         else if keyID = [] \<or> privateFile = [] \<or> publicFile = [] \<or> expiresAt = [] then Inl (Errorf msg_seal_incomplete [])
         else if parse_rfc3339 expiresAt = None then Inl (Errorf msg_seal_expiry [])
         else Inr (map (\<lambda>key. key\<lparr>key_Active := False\<rparr>) (filter (\<lambda>key. TrimSpace (key_KeyID key) \<noteq> keyID) existing)
                @ [\<lparr>key_KeyID = keyID, key_PrivateKeyFile = privateFile, key_PublicKeyFile = publicFile,
                    key_ExpiresAt = expiresAt, key_Active = True\<rparr>]))"

definition tunnel_users :: "adminUser list \<Rightarrow> userConfig list" where
  "tunnel_users users =
     map (\<lambda>item. \<lparr>usr_Username = TrimSpace (au_Username item), usr_PasswordHash = TrimSpace (au_PasswordHash item),
                  usr_Disabled = au_Disabled item\<rparr>)
       (filter (\<lambda>item. \<not> (TrimSpace (au_Username item) = [] \<and> TrimSpace (au_PasswordHash item) = [])) users)"

fun tunnel_forwards :: "adminForward list \<Rightarrow> forwardConfig list res" where
  "tunnel_forwards [] = Inr []"
| "tunnel_forwards (item # items) =
     (case adminForwardToTunnel item of Inl err \<Rightarrow> Inl err
      | Inr (fwd, blank) \<Rightarrow>
         (case tunnel_forwards items of Inl err \<Rightarrow> Inl err
          | Inr fwds \<Rightarrow> Inr (if blank then fwds
              else fwd\<lparr>fwd_AllowedUsers := cleanAllowedUsers (af_AllowedUsers item @ [af_Owner item])\<rparr> # fwds)))"

text \<open>The caller does not use the configuration that comes with an error.\<close>

definition adminConfigToTunnel :: "adminConfig \<Rightarrow> config \<Rightarrow> config res" where
  "adminConfigToTunnel form existing =
     (case tunnel_forwards (adm_Forwards form) of Inl err \<Rightarrow> Inl err
      | Inr fwds \<Rightarrow>
         (case credentialSealFromAdmin (adm_CredentialSeal form) (cfg_SealKeys existing) of Inl err \<Rightarrow> Inl err
          | Inr keys \<Rightarrow>
              Inr (ApplyDefaults (existing\<lparr>
                cfg_ListenAddr := TrimSpace (adm_ListenAddr form), cfg_MonitorAddr := TrimSpace (adm_MonitorAddr form),
                cfg_LogLevel := TrimSpace (adm_LogLevel form),
                cfg_TLS := \<lparr>tls_CertFile = TrimSpace (tls_CertFile (adm_TLS form)), tls_KeyFile = TrimSpace (tls_KeyFile (adm_TLS form)),
                            tls_MinVersion = TrimSpace (tls_MinVersion (adm_TLS form))\<rparr>,
                cfg_Users := tunnel_users (adm_Users form), cfg_Forwards := fwds, cfg_Security := adm_Security form,
                cfg_SealKeys := keys\<rparr>))))"

end
