(* ===== verification/Admin_Forms_Laws.thy ===== *)
theory Admin_Forms_Laws
  imports Admin_Forms
begin

text \<open>
  What the checks of the page promise to the server that will load the saved configuration, and what they miss.
\<close>

section \<open>Lists of users\<close>

definition user_list :: "string list \<Rightarrow> bool" where
  "user_list us \<longleftrightarrow> distinct us \<and> (\<forall>u \<in> set us. u \<noteq> [] \<and> TrimSpace u = u)"

lemma user_list_snoc: "user_list (us @ [u]) \<longleftrightarrow> user_list us \<and> u \<notin> set us \<and> u \<noteq> [] \<and> TrimSpace u = u"
  unfolding user_list_def distinct_append set_append by (simp only: ball_Un) auto

lemma user_list_Nil: "user_list []"
  by (simp add: user_list_def)

lemma splitList_user_list: "user_list (splitList s)"
proof -
  have "user_list (foldl (\<lambda>out field. let item = TrimSpace field in if item = [] \<or> item \<in> set out then out else out @ [item]) out fields)"
    if "user_list out" for out fields
    using that by (induction fields arbitrary: out) (simp_all add: Let_def user_list_snoc)
  from this [OF user_list_Nil] show ?thesis by (simp only: splitList_def)
qed

lemma cleanAllowedUsers_user_list: "user_list (cleanAllowedUsers items)"
proof -
  have inner: "user_list (foldl (\<lambda>out user. if user \<in> set out then out else out @ [user]) out us)"
    if "user_list out" "\<forall>u \<in> set us. u \<noteq> [] \<and> TrimSpace u = u" for out us
    using that
  proof (induction us arbitrary: out)
    case (Cons u us)
    have "user_list (if u \<in> set out then out else out @ [u])" using Cons.prems by (simp add: user_list_snoc)
    from Cons.IH [OF this] Cons.prems(2) show ?case by simp
  qed simp
  have "user_list (foldl (\<lambda>out item. foldl (\<lambda>out user. if user \<in> set out then out else out @ [user]) out (splitList item)) out items)"
    if "user_list out" for out
    using that
  proof (induction items arbitrary: out)
    case (Cons item items)
    have "\<forall>u \<in> set (splitList item). u \<noteq> [] \<and> TrimSpace u = u" using splitList_user_list [of item] unfolding user_list_def by (rule conjunct2)
    from Cons.IH [OF inner [OF Cons.prems this]] show ?case by simp
  qed simp
  from this [OF user_list_Nil] show ?thesis by (simp only: cleanAllowedUsers_def)
qed

lemma validate_allowed_complete:
  assumes "user_list us" "set us \<subseteq> set known" "set us \<inter> set acc = {}"
  shows "validate_allowed nm known us acc = Inr (rev us @ acc)"
  using assms
proof (induction us arbitrary: acc)
  case (Cons u us)
  then have u: "u \<noteq> []" "TrimSpace u = u" "u \<notin> set us" "user_list us" by (simp_all add: user_list_def)
  have "validate_allowed nm known us (u # acc) = Inr (rev us @ u # acc)"
    using Cons.prems u by (intro Cons.IH) auto
  with u Cons.prems show ?case by (simp add: Let_def)
qed simp

section \<open>Addresses\<close>

lemma address_host_split:
  assumes "adminForwardAddressHost a = Inr h"
  shows "\<exists>p. split_host_port a = Inr (h, p) \<and> 1 \<le> p \<and> p \<le> 65535
    \<and> (\<exists>pt. SplitHostPort (TrimSpace a) = Inr (fst (projr (SplitHostPort (TrimSpace a))), pt) \<and> Atoi pt = Some p)"
proof -
  obtain host port where s: "SplitHostPort (TrimSpace a) = Inr (host, port)" and h: "h = TrimSet host ''[]''"
    and p: "\<exists>n. parseForwardPort port = Inr n"
    using assms by (auto simp: adminForwardAddressHost_def split: sum.splits if_splits)
  from p obtain n where "Atoi port = Some n" "1 \<le> n" "n \<le> 65535"
    by (auto simp: parseForwardPort_def split: if_splits option.splits)
  with s h show ?thesis by (auto simp: split_host_port_def)
qed

lemma adminForwardAddress_cases:
  assumes "adminForwardAddress (TrimSpace a) (TrimSpace p) = Inr addr"
  shows "TrimSpace a \<noteq> [] \<and> addr = TrimSpace a \<or> TrimSpace a = [] \<and> TrimSpace p \<noteq> [] \<and> addr = JoinHostPort serverLocalForwardHost (TrimSpace p)"
  using assms by (auto simp: adminForwardAddress_def parseForwardPort_def Let_def split: sum.splits if_splits)

section \<open>One forward\<close>

lemma directions_trimmed [simp]: "TrimSpace DirectionClientToServer = DirectionClientToServer"
  "TrimSpace DirectionServerToClient = DirectionServerToClient"
  by code_simp+

definition only_errors :: "adminConfigIssue list \<Rightarrow> bool" where
  "only_errors issues \<longleftrightarrow> list_all (\<lambda>issue. iss_Level issue = adminIssueError) issues"

lemma only_errors_simps [simp]:
  "only_errors []" "only_errors (xs @ ys) \<longleftrightarrow> only_errors xs \<and> only_errors ys" "only_errors [add_error a b]"
  "only_errors (map (\<lambda>u. add_error (g u) (h u)) us)"
  by (auto simp: only_errors_def add_error_def list_all_iff)

lemma only_errors_if: "only_errors (if c then xs else ys) \<longleftrightarrow> (if c then only_errors xs else only_errors ys)"
  by simp

lemma only_errors_probe: "only_errors (case e of None \<Rightarrow> [] | Some err \<Rightarrow> [add_error a (b @ error_text err)])"
  by (cases e) simp_all

lemma only_errors_claim: "only_errors (fst (claim_passive_port p us a owners))"
  by (simp add: claim_passive_port_def Let_def split: option.split)

lemma issues_are_errors: "only_errors (fst (validate_item probe opts users i item owners))"
  unfolding validate_item_def
  by (simp only: Let_def if_distrib [of fst] if_distrib [of only_errors] only_errors_simps only_errors_probe only_errors_if fst_conv
      split_beta only_errors_claim sum.case_distrib [of fst] sum.case_distrib [of only_errors] simp_thms if_cancel)
    (simp add: split: sum.split)

lemma no_errors_no_issues:
  "\<not> hasErrors (fst (validate_item probe opts users i item owners)) \<Longrightarrow> fst (validate_item probe opts users i item owners) = []"
  using issues_are_errors [of probe opts users i item owners]
  by (cases "fst (validate_item probe opts users i item owners)") (auto simp: hasErrors_def only_errors_def)

lemma items_without_errors:
  "\<not> hasErrors (validate_items probe opts users i items owners) \<Longrightarrow> item \<in> set items \<Longrightarrow>
   \<exists>j owners'. \<not> hasErrors (fst (validate_item probe opts users j item owners'))"
proof (induction items arbitrary: i owners)
  case (Cons x items)
  obtain iss ow where v: "validate_item probe opts users i x owners = (iss, ow)" by fastforce
  with Cons.prems(1) have "\<not> hasErrors iss" "\<not> hasErrors (validate_items probe opts users (i + 1) items ow)"
    by (auto simp: hasErrors_def)
  with Cons v show ?case by (metis fst_conv set_ConsD)
qed simp

definition item_ok :: "string list \<Rightarrow> adminForward \<Rightarrow> bool" where
  "item_ok users item \<longleftrightarrow>
     (let allowed = cleanAllowedUsers (af_AllowedUsers item @ [af_Owner item]) in
      allowed \<noteq> [] \<and> set allowed \<subseteq> set users \<and>
      (if forwardDirectionOrDefault (af_Direction item) = DirectionServerToClient
       then length allowed = 1 \<and> adminForwardAddressHost (adminForwardListenAddrForValidation item) = Inr ''127.0.0.1''
       else (\<exists>h. adminForwardAddressHost (adminForwardTargetAddrForValidation item) = Inr h \<and> IsForwardTargetHost h)))"

lemma checked_item:
  assumes "\<not> hasErrors (fst (validate_item probe opts users i item owners))" "\<not> adminForwardIsEmpty item"
  shows "item_ok users item"
proof -
  have v: "fst (validate_item probe opts users i item owners) = []" by (rule no_errors_no_issues [OF assms(1)])
  let ?allowed = "cleanAllowedUsers (af_AllowedUsers item @ [af_Owner item])"
  have ne: "?allowed \<noteq> []" using v assms(2) by (auto simp: validate_item_def Let_def split: if_splits)
  have sub: "set ?allowed \<subseteq> set users"
    using v assms(2) ne by (auto simp: validate_item_def Let_def filter_empty_conv split: if_splits option.splits sum.splits prod.splits)
  have dir: "TrimSpace (af_Direction item) \<in> {[], DirectionClientToServer, DirectionServerToClient}"
    using v assms(2) ne by (auto simp: validate_item_def Let_def split: if_splits option.splits sum.splits prod.splits)
  show ?thesis
  proof (cases "TrimSpace (af_Direction item) = DirectionServerToClient")
    case True
    then show ?thesis using v assms(2) ne sub
      by (auto simp: item_ok_def validate_item_def claim_passive_port_def isAdminLoopbackHost_def forwardDirectionOrDefault_def Let_def
          split: if_splits option.splits sum.splits prod.splits)
  next
    case False
    then show ?thesis using v assms(2) ne sub dir
      by (auto simp: item_ok_def validate_item_def forwardDirectionOrDefault_def Let_def split: if_splits option.splits sum.splits prod.splits)
  qed
qed

text \<open>What the configuration gets from such an item.\<close>

definition ready_forward :: "string list \<Rightarrow> forwardConfig \<Rightarrow> bool" where
  "ready_forward known f \<longleftrightarrow> user_list (fwd_AllowedUsers f) \<and> fwd_AllowedUsers f \<noteq> [] \<and> set (fwd_AllowedUsers f) \<subseteq> set known \<and>
     (if is_reverse f then length (fwd_AllowedUsers f) = 1 else True) \<and>
     validate_direction f = Inr (if is_reverse f then reverse_port f else 0)"

lemma ready_target:
  assumes "adminForwardAddressHost a = Inr h" "IsForwardTargetHost h" "fwd_Direction f = DirectionClientToServer" "fwd_ServerTarget f = a"
  shows "\<not> is_reverse (default_forward f) \<and> validate_direction (default_forward f) = Inr 0"
proof -
  have "default_forward f = f" using assms(3) by (simp add: default_forward_def normalizeReverseListenPort_def Let_def)
  moreover have "effective_direction DirectionClientToServer = DirectionClientToServer" by (simp add: effective_direction_def)
  ultimately show ?thesis using address_host_split [OF assms(1)] assms(2,3,4)
    by (auto simp: is_reverse_def validate_direction_def Let_def)
qed

lemma ready_listen:
  assumes a: "adminForwardAddressHost a = Inr ''127.0.0.1''" "TrimSpace a = a"
    and f: "fwd_Direction f = DirectionServerToClient" "fwd_ListenAddr f = a"
      "fwd_ListenPort f = (case Atoi (case SplitHostPort a of Inl _ \<Rightarrow> [] | Inr (_, port) \<Rightarrow> port) of None \<Rightarrow> 0 | Some n \<Rightarrow> n)"
  shows "is_reverse (default_forward f) \<and> validate_direction (default_forward f) = Inr (reverse_port (default_forward f))"
proof -
  obtain p pt where p: "split_host_port a = Inr (''127.0.0.1'', p)" "1 \<le> p" "p \<le> 65535"
    and "SplitHostPort (TrimSpace a) = Inr (fst (projr (SplitHostPort (TrimSpace a))), pt)" "Atoi pt = Some p"
    using address_host_split [OF a(1)] by blast
  then have port: "fwd_ListenPort f = p" using f(3) a(2) by (auto split: sum.splits)
  have d: "effective_direction DirectionServerToClient = DirectionServerToClient" by (simp add: effective_direction_def)
  have "validateReverseListenFields f = None"
    using p port f by (simp add: validateReverseListenFields_def LoopbackIPv4_def)
  moreover have "trimmed_direction f = f" using f(1) d by (cases f) (simp add: trimmed_direction_def)
  ultimately have g: "default_forward f = f\<lparr>fwd_ListenAddr := JoinHostPort ''127.0.0.1'' (Itoa p)\<rparr>"
    using f(1) port p default_forward_normalize [of f] by (simp add: normalizeReverseListenPort_def Let_def)
  note s = split_join_loopback [OF p(2,3)]
  have "validateReverseListenFields (default_forward f) = None"
    using f(1) port p s by (simp add: g validateReverseListenFields_def)
  then show ?thesis
    using f(1) port p s d by (simp add: g is_reverse_def validate_direction_def reverse_port_def Let_def LoopbackIPv4_def)
qed

lemma ready_item:
  assumes ok: "item_ok users item" and map: "adminForwardToTunnel item = Inr (f, False)" and known: "set users \<subseteq> set known"
  shows "ready_forward known (default_forward (f\<lparr>fwd_AllowedUsers := cleanAllowedUsers (af_AllowedUsers item @ [af_Owner item])\<rparr>))"
proof -
  let ?allowed = "cleanAllowedUsers (af_AllowedUsers item @ [af_Owner item])"
  let ?f = "f\<lparr>fwd_AllowedUsers := ?allowed\<rparr>"
  have users: "fwd_AllowedUsers (default_forward ?f) = ?allowed"
    by (auto simp: default_forward_def normalizeReverseListenPort_def Let_def)
  show ?thesis
  proof (cases "forwardDirectionOrDefault (af_Direction item) = DirectionServerToClient")
    case True
    then obtain addr where addr: "adminForwardAddress (TrimSpace (af_ListenAddr item)) (TrimSpace (af_Port item)) = Inr addr"
      and f: "fwd_Direction f = DirectionServerToClient" "fwd_ListenAddr f = addr"
        "fwd_ListenPort f = (case Atoi (case SplitHostPort addr of Inl _ \<Rightarrow> [] | Inr (_, port) \<Rightarrow> port) of None \<Rightarrow> 0 | Some n \<Rightarrow> n)"
      using map by (auto simp: adminForwardToTunnel_def zero_forward_def Let_def split: if_splits sum.splits)
    have addr': "addr = adminForwardListenAddrForValidation item"
      using adminForwardAddress_cases [OF addr] by (auto simp: adminForwardListenAddrForValidation_def)
    have trim: "TrimSpace addr = addr"
    proof (cases "TrimSpace (af_ListenAddr item) = []")
      case False
      then show ?thesis using adminForwardAddress_cases [OF addr] by auto
    next
      case True
      then have j: "addr = JoinHostPort serverLocalForwardHost (TrimSpace (af_Port item))" "TrimSpace (af_Port item) \<noteq> []"
        using adminForwardAddress_cases [OF addr] by auto
      moreover have "list_all is_digit (TrimSpace (af_Port item))"
        using addr True by (auto simp: adminForwardAddress_def parseForwardPort_def Let_def split: if_splits sum.splits)
      then have "is_digit (last (TrimSpace (af_Port item)))" using j(2) by (simp add: list_all_iff)
      then have "visible (last addr)" "visible (hd addr)" using j
        by (simp_all add: JoinHostPort_def serverLocalForwardHost_def visible_def is_digit_def byte_of_def)
      then show ?thesis by (intro TrimSpace_visible) simp
    qed
    have host: "adminForwardAddressHost addr = Inr ''127.0.0.1''" and one: "length ?allowed = 1" "?allowed \<noteq> []" "set ?allowed \<subseteq> set users"
      using ok True by (auto simp: item_ok_def addr' Let_def)
    have "is_reverse (default_forward ?f) \<and> validate_direction (default_forward ?f) = Inr (reverse_port (default_forward ?f))"
      by (rule ready_listen [OF host trim]) (simp_all add: f)
    with one known users cleanAllowedUsers_user_list show ?thesis by (auto simp: ready_forward_def)
  next
    case False
    then have dir: "forwardDirectionOrDefault (af_Direction item) = DirectionClientToServer"
      by (auto simp: forwardDirectionOrDefault_def split: if_splits)
    then obtain addr where addr: "adminForwardAddress (TrimSpace (af_ServerTarget item)) (TrimSpace (af_Port item)) = Inr addr"
      and f: "fwd_Direction f = DirectionClientToServer" "fwd_ServerTarget f = addr"
      using map by (auto simp: adminForwardToTunnel_def zero_forward_def Let_def split: if_splits sum.splits)
    have addr': "addr = adminForwardTargetAddrForValidation item"
      using adminForwardAddress_cases [OF addr] by (auto simp: adminForwardTargetAddrForValidation_def)
    obtain h where h: "adminForwardAddressHost addr = Inr h" "IsForwardTargetHost h" and allowed: "?allowed \<noteq> []" "set ?allowed \<subseteq> set users"
      using ok False by (auto simp: item_ok_def addr' Let_def)
    have "\<not> is_reverse (default_forward ?f) \<and> validate_direction (default_forward ?f) = Inr 0"
      by (rule ready_target [OF h]) (simp_all add: f)
    with allowed known users cleanAllowedUsers_user_list show ?thesis by (auto simp: ready_forward_def)
  qed
qed

section \<open>All forwards\<close>

lemma validate_forwards_complete:
  assumes "\<forall>f \<in> set fs. ready_forward known f" "distinct (map reverse_port (filter is_reverse fs))"
    "\<forall>f \<in> set fs. is_reverse f \<longrightarrow> map_of seen (reverse_port f) = None"
  shows "validate_forwards known fs seen = None"
  using assms
proof (induction fs arbitrary: seen)
  case (Cons f fs)
  have r: "ready_forward known f" using Cons.prems by simp
  then have allowed: "validate_allowed (fwd_Name f) known (fwd_AllowedUsers f) [] = Inr (rev (fwd_AllowedUsers f))"
    using validate_allowed_complete [of "fwd_AllowedUsers f" known "[]"] by (simp add: ready_forward_def)
  show ?case
  proof (cases "is_reverse f")
    case True
    have "validate_forwards known fs (AList.update (reverse_port f) (fwd_Name f) seen) = None"
    proof (rule Cons.IH)
      have "reverse_port g \<noteq> reverse_port f" if "g \<in> set fs" "is_reverse g" for g
        using Cons.prems(2) True that by (auto simp: image_iff)
      then show "\<forall>g \<in> set fs. is_reverse g \<longrightarrow> map_of (AList.update (reverse_port f) (fwd_Name f) seen) (reverse_port g) = None"
        using Cons.prems(3) by (simp add: gomap_simps)
    qed (use Cons.prems in \<open>auto split: if_splits\<close>)
    moreover have "map_of seen (reverse_port f) = None" using Cons.prems(3) True by simp
    ultimately show ?thesis using r allowed True by (simp add: ready_forward_def is_reverse_def)
  next
    case False
    have "validate_forwards known fs seen = None" using Cons.prems False by (intro Cons.IH) auto
    then show ?thesis using r allowed False by (simp add: ready_forward_def is_reverse_def)
  qed
qed simp

lemma tunnel_forwards_ready:
  assumes "tunnel_forwards items = Inr fwds" "\<forall>item \<in> set items. \<not> adminForwardIsEmpty item \<longrightarrow> item_ok users item" "set users \<subseteq> set known"
  shows "\<forall>f \<in> set fwds. ready_forward known (default_forward f)"
  using assms
proof (induction items arbitrary: fwds)
  case (Cons item items)
  obtain f blank rest where m: "adminForwardToTunnel item = Inr (f, blank)" "tunnel_forwards items = Inr rest"
    and fwds: "fwds = (if blank then rest else f\<lparr>fwd_AllowedUsers := cleanAllowedUsers (af_AllowedUsers item @ [af_Owner item])\<rparr> # rest)"
    using Cons.prems(1) by (auto split: sum.splits prod.splits)
  have IH: "\<forall>f \<in> set rest. ready_forward known (default_forward f)" using Cons m by auto
  show ?case
  proof (cases blank)
    case False
    then have "\<not> adminForwardIsEmpty item"
      using m(1) by (auto simp: adminForwardToTunnel_def adminForwardIsEmpty_def Let_def split: if_splits)
    then have "item_ok users item" using Cons.prems(2) by simp
    from ready_item [OF this _ assms(3)] m(1) False IH fwds show ?thesis by auto
  qed (use IH fwds in simp)
qed simp

text \<open>C12. 
  A form that the page accepts gives a configuration whose forwards the server accepts, provided that no two
  passive forwards share a port: the users exist, the targets are 127.0.0.1 or private addresses, the passive
  ports are on 127.0.0.1 with a single owner, whatever the spelling of the addresses.\<close>

theorem checked_form_gives_valid_forwards:
  assumes "\<not> hasErrors (validateAdminForwardsForSaveWithOptions probe form opts)"
    and "adminConfigToTunnel form existing = Inr cfg"
    and "validate_users (cfg_Users cfg) [] = Inr known"
    and "distinct (map reverse_port (filter is_reverse (cfg_Forwards cfg)))"
  shows "validate_forwards known (cfg_Forwards cfg) [] = None"
proof -
  obtain fwds where fwds: "tunnel_forwards (adm_Forwards form) = Inr fwds"
    and cfg: "cfg_Forwards cfg = map default_forward fwds" "cfg_Users cfg = tunnel_users (adm_Users form)"
    using assms(2) by (auto simp: adminConfigToTunnel_def ApplyDefaults_def split: sum.splits)
  have "known = rev (map (\<lambda>u. TrimSpace (usr_Username u)) (cfg_Users cfg))"
    using validate_users_sound [OF assms(3)] by simp
  then have known: "set (adminUserSet (adm_Users form)) \<subseteq> set known"
    by (auto simp: cfg(2) adminUserSet_def tunnel_users_def)
  have "\<forall>item \<in> set (adm_Forwards form). \<not> adminForwardIsEmpty item \<longrightarrow> item_ok (adminUserSet (adm_Users form)) item"
    using items_without_errors [OF assms(1) [unfolded validateAdminForwardsForSaveWithOptions_def]] checked_item by blast
  from tunnel_forwards_ready [OF fwds this known] show ?thesis
    using assms(4) by (intro validate_forwards_complete) (auto simp: cfg(1))
qed

section \<open>Examples\<close>

definition calm_probe :: admin_probe where
  "calm_probe = \<lparr>ap_listen = \<lambda>_ _. None, ap_connect = \<lambda>_ _ _. None\<rparr>"

definition sample_options :: validation_options where
  "sample_options = \<lparr>vo_Existing = sample_config, vo_ServiceRunning = False, vo_CheckForwardTargetReachability = False,
     vo_CheckPassivePortAvailability = True, vo_DialTimeout = 0\<rparr>"

definition passive_item :: "string \<Rightarrow> adminForward" where
  "passive_item name = \<lparr>af_Name = name, af_Direction = ''server_to_client'', af_Port = '' 9022'', af_ListenAddr = [],
     af_ServerTarget = [], af_Owner = ''alice'', af_AllowedUsers = []\<rparr>"

definition sample_form :: "adminForward list \<Rightarrow> adminConfig" where
  "sample_form items = (adminConfigFromTunnel sample_config)\<lparr>adm_Forwards := items\<rparr>"

definition saved_config :: "adminConfig \<Rightarrow> config" where
  "saved_config form = projr (adminConfigToTunnel form sample_config)"

definition one_passive :: adminConfig where
  "one_passive = sample_form [passive_item ''ssh'']"

definition two_passive :: adminConfig where
  "two_passive = sample_form [passive_item ''ssh'', passive_item ''rdp'']"

lemma accepted_forms:
  "\<not> hasErrors (validateAdminForwardsForSaveWithOptions calm_probe one_passive sample_options)"
  "\<not> hasErrors (validateAdminForwardsForSaveWithOptions calm_probe two_passive sample_options)"
  by code_simp+

lemma saved_forms:
  "adminConfigToTunnel one_passive sample_config = Inr (saved_config one_passive)"
  "adminConfigToTunnel two_passive sample_config = Inr (saved_config two_passive)"
proof -
  have "\<not> isl (adminConfigToTunnel one_passive sample_config)" "\<not> isl (adminConfigToTunnel two_passive sample_config)"
    by code_simp+
  then show "adminConfigToTunnel one_passive sample_config = Inr (saved_config one_passive)"
    "adminConfigToTunnel two_passive sample_config = Inr (saved_config two_passive)"
    by (simp_all add: saved_config_def)
qed

lemma checked_form_gives_valid_forwards_witness:
  "validate_forwards [''alice''] (cfg_Forwards (saved_config one_passive)) [] = None"
proof (rule checked_form_gives_valid_forwards [OF accepted_forms(1) saved_forms(1)])
  show "validate_users (cfg_Users (saved_config one_passive)) [] = Inr [''alice'']" by code_simp
  show "distinct (map reverse_port (filter is_reverse (cfg_Forwards (saved_config one_passive))))" by code_simp
qed


end
