(* ===== verification/Profile_Tool.thy ===== *)
theory Profile_Tool
  imports Credential_Keys Client_Config Go_Errors "HOL-Library.List_Lexorder" "HOL-Library.Char_ord"
begin

text \<open>
  The profile manager of the client, \<open>cmd/lsyl-tunnel-profile\<close>, on a system with slash paths and symbolic links: it keeps
  sets of configuration and certificate under a directory of profiles and switches the \<open>conf\<close> and \<open>cert\<close> directories
  of the installation to one of them. The file system is an argument: its state is of any type \<open>'d\<close>, and the calls
  of \<open>os\<close>, with \<open>tunnel.LoadConfigRaw\<close>, the summary of a certificate and \<open>mobileprofile.Export\<close> on that state, are the
  fields of \<open>profile_os\<close>.
\<close>

section \<open>Data\<close>

datatype path_kind = SymLink | Directory | OtherFile

record 'd profile_os =
  po_wd :: "string option"
  po_stat :: "'d \<Rightarrow> string \<Rightarrow> bool res"
  po_lstat :: "'d \<Rightarrow> string \<Rightarrow> path_kind res"
  po_readlink :: "'d \<Rightarrow> string \<Rightarrow> string res"
  po_evalsymlinks :: "'d \<Rightarrow> string \<Rightarrow> string res"
  po_readdir :: "'d \<Rightarrow> string \<Rightarrow> (string \<times> bool) list res"
  po_read :: "'d \<Rightarrow> string \<Rightarrow> string res"
  po_write :: "'d \<Rightarrow> string \<Rightarrow> string \<Rightarrow> 'd \<times> go_error option"
  po_mkdirall :: "'d \<Rightarrow> string \<Rightarrow> 'd \<times> go_error option"
  po_remove :: "'d \<Rightarrow> string \<Rightarrow> 'd \<times> go_error option"
  po_removeall :: "'d \<Rightarrow> string \<Rightarrow> 'd \<times> go_error option"
  po_rename :: "'d \<Rightarrow> string \<Rightarrow> string \<Rightarrow> 'd \<times> go_error option"
  po_symlink :: "'d \<Rightarrow> string \<Rightarrow> string \<Rightarrow> 'd \<times> go_error option"
  po_load :: "'d \<Rightarrow> string \<Rightarrow> clientConfig \<times> go_error option"
  po_cert :: "'d \<Rightarrow> string \<Rightarrow> string"
  po_export :: "'d \<Rightarrow> string \<Rightarrow> string \<Rightarrow> string \<Rightarrow> bool \<Rightarrow> 'd \<times> go_error option"

record tool_options =
  opt_installDir :: string
  opt_profilesDir :: string

record profileInfo =
  pr_Name :: string
  pr_Path :: string
  pr_ConfFile :: string
  pr_CertFile :: string
  pr_Valid :: bool
  pr_Active :: bool

record pathInfo =
  pi_Path :: string
  pi_Exists :: bool
  pi_Kind :: string
  pi_Effective :: string

record switchChange =
  sw_Path :: string
  sw_Backup :: string
  sw_OldTarget :: string
  sw_Created :: bool

section \<open>Paths\<close>

definition getwd_error :: go_error where
  "getwd_error = Sentinel ''getwd''"

definition tool_fileExists :: "'d profile_os \<Rightarrow> 'd \<Rightarrow> string \<Rightarrow> bool" where
  "tool_fileExists po d path \<longleftrightarrow> po_stat po d path = Inr False"

definition tool_requireFile :: "'d profile_os \<Rightarrow> 'd \<Rightarrow> string \<Rightarrow> go_error option" where
  "tool_requireFile po d path =
     (case po_stat po d path of Inl err \<Rightarrow> Some err
      | Inr isDir \<Rightarrow> if isDir then Some (Errorf ''is a directory'' []) else None)"

definition samePath :: "'d profile_os \<Rightarrow> string \<Rightarrow> string \<Rightarrow> bool" where
  "samePath po a b \<longleftrightarrow>
     (let full = (\<lambda>p. case AbsPath (po_wd po) p of Some q \<Rightarrow> q | None \<Rightarrow> p) in Clean (full a) = Clean (full b))"

definition ensureChild :: "'d profile_os \<Rightarrow> string \<Rightarrow> string \<Rightarrow> go_error option" where
  "ensureChild po root child =
     (case AbsPath (po_wd po) root of None \<Rightarrow> Some getwd_error
      | Some rootAbs \<Rightarrow>
         (case AbsPath (po_wd po) child of None \<Rightarrow> Some getwd_error
          | Some childAbs \<Rightarrow>
             (case RelPath rootAbs childAbs of None \<Rightarrow> Some (Errorf ''Rel: can't make path relative'' [])
              | Some rel \<Rightarrow>
                  if rel = ''.'' \<or> HasPrefix rel ''../'' \<or> rel = ''..'' \<or> IsAbs rel
                  then Some (Errorf ''path escapes root: %s'' [FS child]) else None)))"

definition bad_name_chars :: "char list" where
  "bad_name_chars = [CHR 0x5C, CHR ''/'', CHR '':'', CHR ''*'', CHR ''?'', CHR 0x22, CHR ''<'', CHR ''>'', CHR ''|'']"

definition profilePath :: "'d profile_os \<Rightarrow> tool_options \<Rightarrow> string \<Rightarrow> string res" where
  "profilePath po opts name =
     (let name = TrimSpace name
      in if name = [] \<or> name = ''.'' \<or> name = ''..'' \<or> list_ex (\<lambda>c. c \<in> set bad_name_chars) name
         then Inl (Errorf ''invalid profile name %q'' [FS name])
         else (case AbsPath (po_wd po) (opt_profilesDir opts) of None \<Rightarrow> Inl getwd_error
          | Some root \<Rightarrow>
             (let path = JoinPath [root, name]
              in case ensureChild po root path of Some err \<Rightarrow> Inl err | None \<Rightarrow> Inr path)))"

definition inspectPath :: "'d profile_os \<Rightarrow> 'd \<Rightarrow> string \<Rightarrow> pathInfo" where
  "inspectPath po d path =
     (let clean = Clean path; info = \<lparr>pi_Path = clean, pi_Exists = True, pi_Kind = [], pi_Effective = clean\<rparr>
      in case po_lstat po d clean of
           Inl _ \<Rightarrow> info\<lparr>pi_Exists := False, pi_Kind := ''missing''\<rparr>
         | Inr kind \<Rightarrow>
            (let info = info\<lparr>pi_Kind := (case kind of SymLink \<Rightarrow> ''link'' | Directory \<Rightarrow> ''dir'' | OtherFile \<Rightarrow> ''file'')\<rparr>;
                 target = (case po_readlink po d clean of Inl _ \<Rightarrow> [] | Inr target \<Rightarrow> target)
             in if TrimSpace target \<noteq> []
                then info\<lparr>pi_Kind := ''link'',
                  pi_Effective := (if IsAbs target then Clean target else Clean (JoinPath [DirPath clean, target]))\<rparr>
                else (case po_evalsymlinks po d clean of Inl _ \<Rightarrow> info
                 | Inr effective \<Rightarrow>
                    (let info = info\<lparr>pi_Effective := Clean effective\<rparr>
                     in if \<not> samePath po (pi_Effective info) clean then info\<lparr>pi_Kind := ''link''\<rparr> else info))))"

definition describePath :: "pathInfo \<Rightarrow> string" where
  "describePath info =
     (if \<not> pi_Exists info then pi_Path info @ '' (missing)''
      else if pi_Kind info = ''link'' then Sprintf ''%s -> %s'' [FS (pi_Path info), FS (pi_Effective info)]
      else Sprintf ''%s (%s)'' [FS (pi_Path info), FS (pi_Kind info)])"

text \<open>The first free name for a backup; \<open>stamp\<close> is the local time as \<open>20060102-150405\<close>.\<close>

fun backup_loop :: "'d profile_os \<Rightarrow> 'd \<Rightarrow> string \<Rightarrow> string \<Rightarrow> nat list \<Rightarrow> string res" where
  "backup_loop po d path base [] = Inl (Errorf ''cannot allocate backup path for %s'' [FS path])"
| "backup_loop po d path base (i # is) =
     (let candidate = (if 0 < i then base @ ''-'' @ pad 2 (int i) else base)
      in case po_lstat po d candidate of
           Inl err \<Rightarrow> if IsNotExist err then Inr candidate else Inl err
         | Inr _ \<Rightarrow> backup_loop po d path base is)"

definition nextBackupPath :: "'d profile_os \<Rightarrow> 'd \<Rightarrow> string \<Rightarrow> string \<Rightarrow> string res" where
  "nextBackupPath po d stamp path = backup_loop po d path (Clean path @ ''.profile-backup-'' @ stamp) [0..<100]"

section \<open>Profiles\<close>

definition activeProfileName :: "'d profile_os \<Rightarrow> tool_options \<Rightarrow> 'd \<Rightarrow> string option" where
  "activeProfileName po opts d =
     (let confTarget = pi_Effective (inspectPath po d (JoinPath [opt_installDir opts, ''conf'']));
          certTarget = pi_Effective (inspectPath po d (JoinPath [opt_installDir opts, ''cert'']))
      in case po_readdir po d (opt_profilesDir opts) of Inl _ \<Rightarrow> None
         | Inr entries \<Rightarrow>
            map_option fst (find (\<lambda>(name, isDir). isDir \<and>
               (let profileDir = JoinPath [opt_profilesDir opts, name]
                in samePath po confTarget (JoinPath [profileDir, ''conf'']) \<and> samePath po certTarget (JoinPath [profileDir, ''cert'']))) entries))"

definition getProfile :: "'d profile_os \<Rightarrow> tool_options \<Rightarrow> 'd \<Rightarrow> string \<Rightarrow> profileInfo res" where
  "getProfile po opts d name =
     (case profilePath po opts name of Inl err \<Rightarrow> Inl err
      | Inr profileDir \<Rightarrow>
         (let conf = JoinPath [profileDir, ''conf'', ''client.yaml'']; cert = JoinPath [profileDir, ''cert'', ''server.crt''];
              p = \<lparr>pr_Name = TrimSpace name, pr_Path = profileDir, pr_ConfFile = conf, pr_CertFile = cert,
                   pr_Valid = (tool_fileExists po d conf \<and> tool_fileExists po d cert),
                   pr_Active = (activeProfileName po opts d = Some (TrimSpace name))\<rparr>
          in case po_stat po d profileDir of
               Inl err \<Rightarrow> if IsNotExist err then Inl (Errorf ''profile %s does not exist'' [FS name]) else Inl err
             | Inr _ \<Rightarrow> Inr p))"

text \<open>\<open>sort.Slice\<close> leaves the order of names that differ in case only open; here it is the one of the directory.\<close>

definition listProfiles :: "'d profile_os \<Rightarrow> tool_options \<Rightarrow> 'd \<Rightarrow> profileInfo list res" where
  "listProfiles po opts d =
     (case po_readdir po d (opt_profilesDir opts) of
        Inl err \<Rightarrow> if IsNotExist err then Inr [] else Inl err
      | Inr entries \<Rightarrow>
         (let active = activeProfileName po opts d
          in Inr (sort_key (\<lambda>p. ToLower (pr_Name p))
               (List.map_filter (\<lambda>(name, isDir). if \<not> isDir then None
                  else (case getProfile po opts d name of Inl _ \<Rightarrow> None
                   | Inr p \<Rightarrow> Some (p\<lparr>pr_Active := (active = Some (pr_Name p))\<rparr>))) entries))))"

text \<open>The first \<open>po_read\<close> stands for opening the source, the empty \<open>po_write\<close> for truncating the target.\<close>

definition copyFile :: "'d profile_os \<Rightarrow> 'd \<Rightarrow> string \<Rightarrow> string \<Rightarrow> 'd \<times> go_error option" where
  "copyFile po d src dst =
     (case po_read po d src of Inl err \<Rightarrow> (d, Some err)
      | Inr _ \<Rightarrow>
         (case po_mkdirall po d (DirPath dst) of (d, Some err) \<Rightarrow> (d, Some err)
          | (d, None) \<Rightarrow>
             (case po_write po d dst [] of (d, Some err) \<Rightarrow> (d, Some err)
              | (d, None) \<Rightarrow> (case po_read po d src of Inl err \<Rightarrow> (d, Some err) | Inr data \<Rightarrow> po_write po d dst data))))"

definition install_files :: "'d profile_os \<Rightarrow> 'd \<Rightarrow> string \<Rightarrow> string \<Rightarrow> string \<Rightarrow> 'd \<times> go_error option" where
  \<comment> \<open>\<open>importProfile\<close> from the checks of the sources on\<close>
  "install_files po d profileDir confSource certSource =
     (case tool_requireFile po d confSource of Some err \<Rightarrow> (d, Some (Errorf ''invalid conf source: %w'' [FE err])) | None \<Rightarrow>
     (case tool_requireFile po d certSource of Some err \<Rightarrow> (d, Some (Errorf ''invalid cert source: %w'' [FE err])) | None \<Rightarrow>
       (let confDir = JoinPath [profileDir, ''conf'']; certDir = JoinPath [profileDir, ''cert'']
        in case po_mkdirall po d confDir of (d, Some err) \<Rightarrow> (d, Some err) | (d, None) \<Rightarrow>
          (case po_mkdirall po d certDir of (d, Some err) \<Rightarrow> (d, Some err) | (d, None) \<Rightarrow>
          (case copyFile po d confSource (JoinPath [confDir, ''client.yaml'']) of (d, Some err) \<Rightarrow> (d, Some err) | (d, None) \<Rightarrow>
             copyFile po d certSource (JoinPath [certDir, ''server.crt'']))))))"

definition importProfile :: "'d profile_os \<Rightarrow> tool_options \<Rightarrow> 'd \<Rightarrow> string \<Rightarrow> string \<Rightarrow> string \<Rightarrow> bool \<Rightarrow> 'd \<times> go_error option" where
  "importProfile po opts d name confSource certSource force =
     (case profilePath po opts name of Inl err \<Rightarrow> (d, Some err)
      | Inr profileDir \<Rightarrow>
         (case po_stat po d profileDir of
            Inr _ \<Rightarrow>
              if \<not> force then (d, Some (Errorf ''profile %s already exists; pass -force to overwrite'' [FS name]))
              else (case ensureChild po (opt_profilesDir opts) profileDir of Some err \<Rightarrow> (d, Some err)
               | None \<Rightarrow> (case po_removeall po d profileDir of (d, Some err) \<Rightarrow> (d, Some err)
                  | (d, None) \<Rightarrow> install_files po d profileDir confSource certSource))
          | Inl err \<Rightarrow>
              if \<not> IsNotExist err then (d, Some err) else install_files po d profileDir confSource certSource))"

definition currentClientFiles :: "'d profile_os \<Rightarrow> tool_options \<Rightarrow> 'd \<Rightarrow> string \<times> string" where
  "currentClientFiles po opts d =
     (JoinPath [pi_Effective (inspectPath po d (JoinPath [opt_installDir opts, ''conf''])), ''client.yaml''],
      JoinPath [pi_Effective (inspectPath po d (JoinPath [opt_installDir opts, ''cert''])), ''server.crt''])"

definition removeProfile :: "'d profile_os \<Rightarrow> tool_options \<Rightarrow> 'd \<Rightarrow> string \<Rightarrow> 'd \<times> go_error option" where
  "removeProfile po opts d name =
     (case profilePath po opts name of Inl err \<Rightarrow> (d, Some err)
      | Inr profileDir \<Rightarrow>
         (case ensureChild po (opt_profilesDir opts) profileDir of Some err \<Rightarrow> (d, Some err)
          | None \<Rightarrow> po_removeall po d profileDir))"

section \<open>Switching\<close>

definition if_missing :: "'d profile_os \<Rightarrow> string \<Rightarrow> ('d \<Rightarrow> 'd) \<Rightarrow> 'd \<Rightarrow> 'd" where
  \<comment> \<open>\<open>if _, err := os.Stat(path); errors.Is(err, os.ErrNotExist)\<close>\<close>
  "if_missing po path g d = (case po_stat po d path of Inl err \<Rightarrow> if IsNotExist err then g d else d | Inr _ \<Rightarrow> d)"

definition createDirectoryLink :: "'d profile_os \<Rightarrow> 'd \<Rightarrow> string \<Rightarrow> string \<Rightarrow> 'd \<times> go_error option" where
  "createDirectoryLink po d linkPath targetPath = po_symlink po d targetPath linkPath"

definition restoreChange :: "'d profile_os \<Rightarrow> switchChange \<Rightarrow> 'd \<Rightarrow> 'd" where
  "restoreChange po change d =
     (let d = (if sw_Created change then fst (po_remove po d (sw_Path change)) else d)
      in if sw_Backup change \<noteq> [] then if_missing po (sw_Path change) (\<lambda>d. fst (po_rename po d (sw_Backup change) (sw_Path change))) d
         else if sw_OldTarget change \<noteq> []
         then if_missing po (sw_Path change) (\<lambda>d. fst (createDirectoryLink po d (sw_Path change) (sw_OldTarget change))) d
         else d)"

definition rollbackSwitch :: "'d profile_os \<Rightarrow> switchChange list \<Rightarrow> 'd \<Rightarrow> 'd" where
  "rollbackSwitch po changes d = fold (restoreChange po) (rev changes) d"

definition clear_place :: "'d profile_os \<Rightarrow> 'd \<Rightarrow> string \<Rightarrow> string \<Rightarrow> switchChange \<Rightarrow> 'd \<times> switchChange \<times> go_error option" where
  \<comment> \<open>the block \<open>if info.Exists\<close> of \<open>switchDirectoryToLink\<close>\<close>
  "clear_place po d stamp path change =
     (let info = inspectPath po d path
      in if \<not> pi_Exists info then (d, change, None)
         else if pi_Kind info = ''link''
         then (let change = change\<lparr>sw_OldTarget := pi_Effective info\<rparr>
               in case po_remove po d path of
                    (d, Some err) \<Rightarrow> (d, change, Some (Errorf ''remove existing link %s: %w'' [FS path, FE err]))
                  | (d, None) \<Rightarrow> (d, change, None))
         else (case nextBackupPath po d stamp path of Inl err \<Rightarrow> (d, change, Some err)
          | Inr backup \<Rightarrow>
             (case po_rename po d path backup of
                (d, Some err) \<Rightarrow> (d, change, Some (Errorf ''backup existing %s to %s: %w'' [FS path, FS backup, FE err]))
              | (d, None) \<Rightarrow> (d, change\<lparr>sw_Backup := backup\<rparr>, None))))"

definition switchDirectoryToLink :: "'d profile_os \<Rightarrow> 'd \<Rightarrow> string \<Rightarrow> string \<Rightarrow> string \<Rightarrow> 'd \<times> switchChange \<times> go_error option" where
  "switchDirectoryToLink po d stamp path target =
     (let change = \<lparr>sw_Path = [], sw_Backup = [], sw_OldTarget = [], sw_Created = False\<rparr>; path = Clean path; target = Clean target
      in case po_stat po d target of
           Inl err \<Rightarrow> (d, change, Some (Errorf ''link target not accessible %s: %w'' [FS target, FE err]))
         | Inr isDir \<Rightarrow>
            if \<not> isDir then (d, change, Some (Errorf ''link target is not a directory: %s'' [FS target]))
            else (case clear_place po d stamp path (change\<lparr>sw_Path := path\<rparr>) of
                    (d, change, Some err) \<Rightarrow> (d, change, Some err)
                  | (d, change, None) \<Rightarrow>
                     (case po_mkdirall po d (DirPath path) of
                        (d, Some err) \<Rightarrow> (restoreChange po change d, change, Some err)
                      | (d, None) \<Rightarrow>
                         (case createDirectoryLink po d path target of
                            (d, Some err) \<Rightarrow> (restoreChange po change d, change, Some err)
                          | (d, None) \<Rightarrow> (d, change\<lparr>sw_Created := True\<rparr>, None)))))"

definition useProfile :: "'d profile_os \<Rightarrow> tool_options \<Rightarrow> 'd \<Rightarrow> string \<Rightarrow> string \<Rightarrow> string \<Rightarrow> 'd \<times> go_error option" where
  "useProfile po opts d stamp stamp' name =
     (case getProfile po opts d name of Inl err \<Rightarrow> (d, Some err)
      | Inr p \<Rightarrow>
         (case switchDirectoryToLink po d stamp (JoinPath [opt_installDir opts, ''conf'']) (JoinPath [pr_Path p, ''conf'']) of
            (d, change, Some err) \<Rightarrow> (rollbackSwitch po [] d, Some err)
          | (d, change, None) \<Rightarrow>
             (case switchDirectoryToLink po d stamp' (JoinPath [opt_installDir opts, ''cert'']) (JoinPath [pr_Path p, ''cert'']) of
                (d, _, Some err) \<Rightarrow> (rollbackSwitch po [change] d, Some err)
              | (d, _, None) \<Rightarrow> (d, None))))"

end
