(* ===== verification/Profile_Commands.thy ===== *)
theory Profile_Commands
  imports Profile_Tool Fail_Tracker
begin

text \<open>
  The commands of the profile manager: \<open>commands.go\<close>, the summary of a configuration in \<open>inspect.go\<close> and \<open>options.go\<close>. A
  command gives the text it prints, the new state of the file system and its error.
\<close>

section \<open>Options\<close>

record tool_env =
  te_Getenv :: "string \<Rightarrow> string"
  te_Executable :: "string option"

definition defaultInstallDirName :: string where
  "defaultInstallDirName = ''LSYL Tunnel Client''"

definition looksLikeClientInstall :: "'d profile_os \<Rightarrow> 'd \<Rightarrow> string \<Rightarrow> bool" where
  "looksLikeClientInstall po d path \<longleftrightarrow>
     tool_fileExists po d (JoinPath [path, ''conf'', ''client.yaml'']) \<and> tool_fileExists po d (JoinPath [path, ''cert'', ''server.crt''])"

definition defaultInstallDir :: "tool_env \<Rightarrow> 'd profile_os \<Rightarrow> 'd \<Rightarrow> string" where
  "defaultInstallDir te po d =
     (let v = TrimSpace (te_Getenv te ''LSYL_TUNNEL_CLIENT_HOME'')
      in if v \<noteq> [] then v
         else let beside = (case te_Executable te of None \<Rightarrow> None
             | Some exe \<Rightarrow>
                (let dir = DirPath exe; candidate = DirPath dir
                 in if EqualFold (BasePath dir) ''bin''
                      \<and> (EqualFold (BasePath candidate) defaultInstallDirName \<or> looksLikeClientInstall po d candidate)
                    then Some candidate else None))
         in case beside of Some candidate \<Rightarrow> candidate
            | None \<Rightarrow>
               (let pf = te_Getenv te ''ProgramFiles''
                in if pf \<noteq> [] then JoinPath [pf, defaultInstallDirName]
                   else JoinPath [''C:'' @ [CHR 0x5C] @ ''Program Files'', defaultInstallDirName]))"

definition defaultProfilesDir :: "tool_env \<Rightarrow> 'd profile_os \<Rightarrow> 'd \<Rightarrow> string" where
  "defaultProfilesDir te po d =
     (let v = TrimSpace (te_Getenv te ''LSYL_TUNNEL_PROFILE_ROOT''); pd = te_Getenv te ''ProgramData''
      in if v \<noteq> [] then v
         else if pd \<noteq> [] then JoinPath [pd, ''LSYL Tunnel Profiles'']
         else JoinPath [defaultInstallDir te po d, ''profiles''])"

definition resolveOptions :: "tool_env \<Rightarrow> 'd profile_os \<Rightarrow> 'd \<Rightarrow> string \<Rightarrow> string \<Rightarrow> tool_options res" where
  "resolveOptions te po d installDir profilesDir =
     (let installDir = (if TrimSpace installDir = [] then defaultInstallDir te po d else installDir);
          profilesDir = (if TrimSpace profilesDir = [] then defaultProfilesDir te po d else profilesDir)
      in case AbsPath (po_wd po) installDir of None \<Rightarrow> Inl getwd_error
         | Some installAbs \<Rightarrow>
            (case AbsPath (po_wd po) profilesDir of None \<Rightarrow> Inl getwd_error
             | Some profilesAbs \<Rightarrow> Inr \<lparr>opt_installDir = Clean installAbs, opt_profilesDir = Clean profilesAbs\<rparr>))"

section \<open>Arguments\<close>

definition is_option :: "string \<Rightarrow> string \<Rightarrow> bool" where
  "is_option name arg \<longleftrightarrow> arg = ''-'' @ name \<or> arg = ''--'' @ name"

record import_args =
  ia_name :: string
  ia_conf :: string
  ia_cert :: string
  ia_force :: bool

fun import_loop :: "string list \<Rightarrow> import_args \<Rightarrow> import_args res" where
  "import_loop [] a = Inr a"
| "import_loop (arg # args) a =
     (if is_option ''force'' arg then import_loop args (a\<lparr>ia_force := True\<rparr>)
      else if is_option ''conf'' arg
      then (case args of [] \<Rightarrow> Inl (Errorf ''missing value after -conf'' []) | v # rest \<Rightarrow> import_loop rest (a\<lparr>ia_conf := v\<rparr>))
      else if is_option ''cert'' arg
      then (case args of [] \<Rightarrow> Inl (Errorf ''missing value after -cert'' []) | v # rest \<Rightarrow> import_loop rest (a\<lparr>ia_cert := v\<rparr>))
      else if HasPrefix arg ''-'' then Inl (Errorf ''unknown import option %s'' [FS arg])
      else if ia_name a \<noteq> [] then Inl (Errorf ''import accepts exactly one NAME'' [])
      else import_loop args (a\<lparr>ia_name := arg\<rparr>))"

definition parseImportArgs :: "string list \<Rightarrow> import_args res" where
  "parseImportArgs args =
     (case import_loop args \<lparr>ia_name = [], ia_conf = [], ia_cert = [], ia_force = False\<rparr> of Inl err \<Rightarrow> Inl err
      | Inr a \<Rightarrow> if ia_name a = [] then Inl (Errorf ''import requires NAME'' []) else Inr a)"

record export_args =
  ea_profile :: string
  ea_target :: string
  ea_force :: bool

fun export_loop :: "string list \<Rightarrow> export_args \<Rightarrow> export_args res" where
  "export_loop [] a = Inr a"
| "export_loop (arg # args) a =
     (if is_option ''force'' arg then export_loop args (a\<lparr>ea_force := True\<rparr>)
      else if is_option ''profile'' arg
      then (case args of [] \<Rightarrow> Inl (Errorf ''missing value after -profile'' [])
        | v # rest \<Rightarrow> export_loop rest (a\<lparr>ea_profile := TrimSpace v\<rparr>))
      else if is_option ''out'' arg
      then (case args of [] \<Rightarrow> Inl (Errorf ''missing value after -out'' [])
        | v # rest \<Rightarrow> export_loop rest (a\<lparr>ea_target := TrimSpace v\<rparr>))
      else if HasPrefix arg ''-'' then Inl (Errorf ''unknown export-mobile option %s'' [FS arg])
      else Inl (Errorf ''unexpected export-mobile argument %q'' [FS arg]))"

definition parseExportMobileArgs :: "string list \<Rightarrow> export_args res" where
  "parseExportMobileArgs args =
     (case export_loop args \<lparr>ea_profile = [], ea_target = [], ea_force = False\<rparr> of Inl err \<Rightarrow> Inl err
      | Inr a \<Rightarrow> if ea_target a = [] then Inl (Errorf ''export-mobile requires -out'' []) else Inr a)"

fun name_force_loop :: "string \<Rightarrow> string list \<Rightarrow> string \<Rightarrow> bool \<Rightarrow> (string \<times> bool) res" where
  "name_force_loop command [] name force = Inr (name, force)"
| "name_force_loop command (arg # args) name force =
     (if is_option ''force'' arg then name_force_loop command args name True
      else if HasPrefix arg ''-'' then Inl (Errorf ''unknown %s option %s'' [FS command, FS arg])
      else if name \<noteq> [] then Inl (Errorf ''%s accepts exactly one NAME'' [FS command])
      else name_force_loop command args arg force)"

definition parseNameForceArgs :: "string \<Rightarrow> string list \<Rightarrow> (string \<times> bool) res" where
  "parseNameForceArgs command args =
     (case name_force_loop command args [] False of Inl err \<Rightarrow> Inl err
      | Inr (name, force) \<Rightarrow> if name = [] then Inl (Errorf ''%s requires NAME'' [FS command]) else Inr (name, force))"

fun delete_loop :: "string list \<Rightarrow> string \<Rightarrow> bool \<Rightarrow> bool \<Rightarrow> (string \<times> bool \<times> bool) res" where
  "delete_loop [] name yes force = Inr (name, yes, force)"
| "delete_loop (arg # args) name yes force =
     (if is_option ''yes'' arg \<or> arg = ''/yes'' then delete_loop args name True force
      else if is_option ''force'' arg then delete_loop args name yes True
      else if HasPrefix arg ''-'' \<or> HasPrefix arg ''/'' then Inl (Errorf ''unknown delete option %s'' [FS arg])
      else if name \<noteq> [] then Inl (Errorf ''delete accepts exactly one NAME'' [])
      else delete_loop args arg yes force)"

definition parseDeleteArgs :: "string list \<Rightarrow> (string \<times> bool \<times> bool) res" where
  "parseDeleteArgs args =
     (case delete_loop args [] False False of Inl err \<Rightarrow> Inl err
      | Inr (name, yes, force) \<Rightarrow> if name = [] then Inl (Errorf ''delete requires NAME'' []) else Inr (name, yes, force))"

section \<open>Summaries\<close>

definition println :: "string \<Rightarrow> string" where
  "println s = s @ newline"

definition credentialState :: "clientConfig \<Rightarrow> string" where
  "credentialState cfg =
     (if TrimSpace (sc_Ciphertext (cc_SavedCredential cfg)) \<noteq> [] then ''saved_credential''
      else if TrimSpace (cc_PasswordFile cfg) \<noteq> [] then ''password_file''
      else if TrimSpace (cc_PasswordEnv cfg) \<noteq> [] then ''password_env''
      else if cc_Password cfg \<noteq> [] then ''inline_password'' else ''none'')"

definition forward_summary :: "clientForward \<Rightarrow> string" where
  "forward_summary fwd =
     println (''  - '' @ (if TrimSpace (cf_Name fwd) = [] then ''forward'' else TrimSpace (cf_Name fwd)) @ '' '' @ cf_Direction fwd @ '' ''
       @ cf_ListenAddr fwd @ '' -> '' @ cf_ServerTarget fwd)"

definition printConfigSummary :: "'d profile_os \<Rightarrow> 'd \<Rightarrow> string \<Rightarrow> string" where
  "printConfigSummary po d configFile =
     println (''Config file: '' @ configFile) @
     (case po_load po d configFile of
        (_, Some err) \<Rightarrow> println (''Config:      not readable: '' @ error_text err)
      | (cfg, None) \<Rightarrow>
          println (''Server:      '' @ cc_ServerAddr cfg) @ println (''Username:    '' @ cc_Username cfg) @
          println (''TLS name:    '' @ ct_ServerName (cc_TLS cfg)) @ println (''Credential:  '' @ credentialState cfg) @
          println (''Forwards:    '' @ Itoa (int (length (cc_Forwards cfg)))) @ concat (map forward_summary (cc_Forwards cfg)))"

section \<open>Commands\<close>

type_synonym 'd command = "string \<times> 'd \<times> go_error option"

definition failed :: "'d \<Rightarrow> go_error \<Rightarrow> 'd command" where
  "failed d err = ([], d, Some err)"

definition commandCurrent :: "'d profile_os \<Rightarrow> tool_options \<Rightarrow> 'd \<Rightarrow> 'd command" where
  "commandCurrent po opts d =
     (let conf = inspectPath po d (JoinPath [opt_installDir opts, ''conf'']); cert = inspectPath po d (JoinPath [opt_installDir opts, ''cert''])
      in (println (''Install:  '' @ opt_installDir opts) @ println (''Profiles: '' @ opt_profilesDir opts) @ println [] @
          println (''Active conf dir: '' @ describePath conf) @ println (''Active cert dir: '' @ describePath cert) @
          println (''Active profile: '' @ (case activeProfileName po opts d of Some name \<Rightarrow> name | None \<Rightarrow> ''<direct install files>'')) @
          println [] @ printConfigSummary po d (JoinPath [pi_Effective conf, ''client.yaml'']) @ println [] @
          po_cert po d (JoinPath [pi_Effective cert, ''server.crt'']), d, None))"

definition list_line :: "profileInfo \<Rightarrow> string" where
  \<comment> \<open>\<open>%s %-24s %s\<close>; the padding counts characters, here bytes\<close>
  "list_line p = println ((if pr_Active p then ''*'' else '' '') @ '' '' @ pr_Name p @ replicate (24 - length (pr_Name p)) (CHR '' '') @ '' ''
     @ (if pr_Valid p then ''ok'' else ''incomplete''))"

definition commandList :: "'d profile_os \<Rightarrow> tool_options \<Rightarrow> 'd \<Rightarrow> 'd command" where
  "commandList po opts d =
     (case listProfiles po opts d of Inl err \<Rightarrow> failed d err
      | Inr profiles \<Rightarrow>
          (if profiles = [] then println (''No profiles found under '' @ opt_profilesDir opts) else concat (map list_line profiles), d, None))"

definition commandShow :: "'d profile_os \<Rightarrow> tool_options \<Rightarrow> 'd \<Rightarrow> string list \<Rightarrow> 'd command" where
  "commandShow po opts d args =
     (if length args \<noteq> 1 then failed d (Errorf ''show requires NAME'' [])
      else (case getProfile po opts d (hd args) of Inl err \<Rightarrow> failed d err
       | Inr p \<Rightarrow>
           (println (''Profile: '' @ pr_Name p) @ println (''Path:    '' @ pr_Path p) @
            println (''Active:  '' @ (if pr_Active p then ''true'' else ''false'')) @ println [] @
            printConfigSummary po d (pr_ConfFile p) @ println [] @ po_cert po d (pr_CertFile p), d, None)))"

definition done_with :: "string \<Rightarrow> 'd \<times> go_error option \<Rightarrow> 'd command" where
  "done_with message r = (case r of (d, Some err) \<Rightarrow> failed d err | (d, None) \<Rightarrow> (println message, d, None))"

definition commandImport :: "'d profile_os \<Rightarrow> tool_options \<Rightarrow> 'd \<Rightarrow> string list \<Rightarrow> 'd command" where
  "commandImport po opts d args =
     (case parseImportArgs args of Inl err \<Rightarrow> failed d err
      | Inr a \<Rightarrow>
          if TrimSpace (ia_conf a) = [] \<or> TrimSpace (ia_cert a) = [] then failed d (Errorf ''import requires -conf and -cert'' [])
          else done_with (''Imported profile '' @ ia_name a) (importProfile po opts d (ia_name a) (ia_conf a) (ia_cert a) (ia_force a)))"

definition commandImportCurrent :: "'d profile_os \<Rightarrow> tool_options \<Rightarrow> 'd \<Rightarrow> string list \<Rightarrow> 'd command" where
  "commandImportCurrent po opts d args =
     (case parseNameForceArgs ''import-current'' args of Inl err \<Rightarrow> failed d err
      | Inr (name, force) \<Rightarrow>
         (case currentClientFiles po opts d of (conf, cert) \<Rightarrow>
            done_with (''Imported current install files as profile '' @ name) (importProfile po opts d name conf cert force)))"

definition incomplete_error :: "string \<Rightarrow> go_error" where
  "incomplete_error name = Errorf ''profile %s is incomplete; expected conf/client.yaml and cert/server.crt'' [FS name]"

definition commandExportMobile :: "'d profile_os \<Rightarrow> tool_options \<Rightarrow> 'd \<Rightarrow> string list \<Rightarrow> 'd command" where
  "commandExportMobile po opts d args =
     (case parseExportMobileArgs args of Inl err \<Rightarrow> failed d err
      | Inr a \<Rightarrow>
         (let export = (\<lambda>(conf, cert). done_with (''Exported mobile profile: '' @ ea_target a) (po_export po d conf cert (ea_target a) (ea_force a)))
          in if ea_profile a = [] then export (currentClientFiles po opts d)
             else (case getProfile po opts d (ea_profile a) of Inl err \<Rightarrow> failed d err
              | Inr p \<Rightarrow> if \<not> pr_Valid p then failed d (incomplete_error (pr_Name p)) else export (pr_ConfFile p, pr_CertFile p))))"

definition commandUse :: "'d profile_os \<Rightarrow> tool_options \<Rightarrow> 'd \<Rightarrow> string \<Rightarrow> string \<Rightarrow> string list \<Rightarrow> 'd command" where
  "commandUse po opts d stamp stamp' args =
     (if length args \<noteq> 1 then failed d (Errorf ''use requires NAME'' [])
      else (case getProfile po opts d (hd args) of Inl err \<Rightarrow> failed d err
       | Inr p \<Rightarrow>
           if \<not> pr_Valid p then failed d (incomplete_error (pr_Name p))
           else done_with (''Active profile switched to '' @ pr_Name p @ newline
             @ ''Restart LSYL Tunnel Client for the new config and certificate to take effect.'')
             (useProfile po opts d stamp stamp' (pr_Name p))))"

definition commandDelete :: "'d profile_os \<Rightarrow> tool_options \<Rightarrow> 'd \<Rightarrow> string list \<Rightarrow> 'd command" where
  "commandDelete po opts d args =
     (case parseDeleteArgs args of Inl err \<Rightarrow> failed d err
      | Inr (name, yes, force) \<Rightarrow>
          if \<not> yes then failed d (Errorf ''delete requires -yes'' [])
          else (case getProfile po opts d name of Inl err \<Rightarrow> failed d err
           | Inr p \<Rightarrow>
               if pr_Active p \<and> \<not> force
               then failed d (Errorf ''profile %s is active; switch away before deleting or pass -force'' [FS name])
               else done_with (''Deleted profile '' @ name) (removeProfile po opts d name)))"

end
