(* ===== verification/Profile_Laws.thy ===== *)
theory Profile_Laws
  imports Profile_Commands Client_Compat
begin

text \<open>
  What a deletion of a profile can touch, and how a forced import of the active profile loses it.
\<close>

section \<open>Clean paths\<close>

lemma SplitChar_split: "SplitChar sep (s @ sep # t) = SplitChar sep s @ SplitChar sep t"
  using SplitChar_nonempty [of sep] by (induction s) (auto split: list.splits)

lemma clean_parts_append: "clean_parts r (ps @ qs) out = clean_parts r qs (rev (clean_parts r ps out))"
  by (induction r ps out rule: clean_parts.induct) (auto simp: Let_def)

lemma join_char_snoc: "join_char sep (ps @ [p]) = (if ps = [] then p else join_char sep ps @ sep # p)"
  by (induction sep ps rule: join_char.induct) auto

lemma join_char_nil: "join_char sep ps = [] \<Longrightarrow> [] \<notin> set ps \<Longrightarrow> ps = []"
  by (induction sep ps rule: join_char.induct) auto

lemma tl_nonempty: "[] \<notin> set out \<Longrightarrow> [] \<notin> set (tl out)"
  by (cases out) auto

lemma clean_parts_nonempty: "[] \<notin> set out \<Longrightarrow> [] \<notin> set (clean_parts r ps out)"
  by (induction r ps out rule: clean_parts.induct) (auto simp: tl_nonempty)

definition plain_name :: "string \<Rightarrow> bool" where
  "plain_name name \<longleftrightarrow> name \<noteq> [] \<and> name \<noteq> ''.'' \<and> name \<noteq> ''..'' \<and> CHR ''/'' \<notin> set name"

definition child_path :: "string \<Rightarrow> string \<Rightarrow> string" where
  "child_path root name = (if root = ''/'' then root @ name else root @ ''/'' @ name)"

lemma Clean_child:
  assumes "IsAbs root" "plain_name name"
  shows "Clean (root @ ''/'' @ name) = child_path (Clean root) name"
proof -
  let ?ps = "clean_parts True (SplitChar (CHR ''/'') root) []"
  have abs: "IsAbs (root @ ''/'' @ name)" using assms(1) by (cases root) (auto simp: IsAbs_def HasPrefix_def)
  have "SplitChar (CHR ''/'') (root @ ''/'' @ name) = SplitChar (CHR ''/'') root @ [name]"
    using SplitChar_split [of "CHR ''/''" root name] SplitChar_single [of "CHR ''/''" name] assms(2) by (simp add: plain_name_def)
  then have parts: "clean_parts True (SplitChar (CHR ''/'') (root @ ''/'' @ name)) [] = ?ps @ [name]"
    using assms(2) by (simp add: clean_parts_append plain_name_def)
  have "Clean (root @ ''/'' @ name) = CHR ''/'' # join_char (CHR ''/'') (?ps @ [name])"
    using abs parts by (simp add: Clean_def Let_def)
  moreover have "Clean root = CHR ''/'' # join_char (CHR ''/'') ?ps"
    using assms(1) by (simp add: Clean_def Let_def)
  moreover have "join_char (CHR ''/'') ?ps = [] \<longleftrightarrow> ?ps = []"
    using join_char_nil [of "CHR ''/''" ?ps] clean_parts_nonempty [of "[]"] by auto
  ultimately show ?thesis by (auto simp: join_char_snoc child_path_def)
qed

lemma JoinPath_child:
  assumes "IsAbs root" "plain_name name"
  shows "JoinPath [root, name] = child_path (Clean root) name"
proof -
  have "root \<noteq> []" using assms(1) by (auto simp: IsAbs_def HasPrefix_def)
  then show ?thesis using Clean_child [OF assms] by (simp add: JoinPath_def)
qed

section \<open>Deleting a profile\<close>

lemma profilePath_child:
  assumes "profilePath po opts name = Inr path" "IsAbs (opt_profilesDir opts)" "Clean (opt_profilesDir opts) = opt_profilesDir opts"
  shows "plain_name (TrimSpace name) \<and> path = child_path (opt_profilesDir opts) (TrimSpace name)"
proof -
  have p: "plain_name (TrimSpace name)"
    using assms(1) by (auto simp: profilePath_def plain_name_def bad_name_chars_def list_ex_iff Let_def split: if_splits)
  have "path = JoinPath [opt_profilesDir opts, TrimSpace name]"
    using assms by (auto simp: profilePath_def AbsPath_def Let_def split: if_splits option.splits)
  with JoinPath_child [OF assms(2) p] p assms(3) show ?thesis by simp
qed

text \<open>C26. 
  \<open>delete\<close> changes nothing, or it removes the directory of the named profile, one level below the directory of profiles;
  the second only with \<open>-yes\<close>, for a profile that exists, and for the active one only with \<open>-force\<close>.\<close>

theorem delete_stays_inside:
  assumes "commandDelete po opts d args = (out, d', err)"
    and "IsAbs (opt_profilesDir opts)" and "Clean (opt_profilesDir opts) = opt_profilesDir opts"
  shows "d' = d \<or> (\<exists>name force p. parseDeleteArgs args = Inr (name, True, force) \<and> getProfile po opts d name = Inr p
    \<and> (force \<or> activeProfileName po opts d \<noteq> Some (TrimSpace name)) \<and> plain_name (TrimSpace name)
    \<and> d' = fst (po_removeall po d (child_path (opt_profilesDir opts) (TrimSpace name))))"
proof (cases "parseDeleteArgs args")
  case (Inr r)
  obtain name yes force where r: "r = (name, yes, force)" by (cases r) auto
  show ?thesis
  proof (cases "yes \<and> (\<exists>p. getProfile po opts d name = Inr p \<and> (force \<or> \<not> pr_Active p) \<and> d' \<noteq> d)")
    case False
    then show ?thesis using assms(1) Inr r
      by (auto simp: commandDelete_def failed_def split: if_splits sum.splits)
  next
    case True
    then obtain p where p: "yes" "getProfile po opts d name = Inr p" "force \<or> \<not> pr_Active p" "d' \<noteq> d" by blast
    have act: "pr_Active p \<longleftrightarrow> activeProfileName po opts d = Some (TrimSpace name)"
      using p(2) by (auto simp: getProfile_def Let_def split: sum.splits if_splits)
    have d': "d' = fst (removeProfile po opts d name)"
      using assms(1) Inr r p by (auto simp: commandDelete_def failed_def done_with_def split: if_splits prod.splits option.splits)
    then obtain path where path: "profilePath po opts name = Inr path" "d' = fst (po_removeall po d path)"
      using p(4) by (auto simp: removeProfile_def split: sum.splits option.splits)
    have "parseDeleteArgs args = Inr (name, True, force)" using Inr r p(1) by simp
    moreover have "force \<or> activeProfileName po opts d \<noteq> Some (TrimSpace name)" using p(3) act by simp
    ultimately show ?thesis using profilePath_child [OF path(1) assms(2,3)] path(2) p(2) by metis
  qed
qed (use assms in \<open>auto simp: commandDelete_def failed_def\<close>)

section \<open>An example file system\<close>

text \<open>Directories, files and links by path; the paths of the example go through no link but the last name.\<close>

datatype entry = EDir | EFile string | ELink string

type_synonym tree = "(string \<times> entry) list"

definition below :: "string \<Rightarrow> string \<Rightarrow> bool" where
  "below p q \<longleftrightarrow> q = p \<or> HasPrefix q (p @ ''/'')"

definition tree_set :: "tree \<Rightarrow> string \<Rightarrow> entry \<Rightarrow> tree \<times> go_error option" where
  "tree_set d p e = (AList.update p e d, None)"

definition tree_os :: "tree profile_os" where
  "tree_os = \<lparr>po_wd = None,
     po_stat = (\<lambda>d p. case map_of d p of None \<Rightarrow> Inl ErrNotExist | Some EDir \<Rightarrow> Inr True | Some (EFile _) \<Rightarrow> Inr False
       | Some (ELink t) \<Rightarrow> (case map_of d t of Some EDir \<Rightarrow> Inr True | Some (EFile _) \<Rightarrow> Inr False | _ \<Rightarrow> Inl ErrNotExist)),
     po_lstat = (\<lambda>d p. case map_of d p of None \<Rightarrow> Inl ErrNotExist | Some EDir \<Rightarrow> Inr Directory | Some (EFile _) \<Rightarrow> Inr OtherFile
       | Some (ELink t) \<Rightarrow> Inr SymLink),
     po_readlink = (\<lambda>d p. case map_of d p of Some (ELink t) \<Rightarrow> Inr t | _ \<Rightarrow> Inl (Sentinel ''invalid argument'')),
     po_evalsymlinks = (\<lambda>d p. case map_of d p of None \<Rightarrow> Inl ErrNotExist | Some (ELink t) \<Rightarrow> Inr t | _ \<Rightarrow> Inr p),
     po_readdir = (\<lambda>d p. if map_of d p = Some EDir
       then Inr (map (\<lambda>(q, e). (BasePath q, e = EDir)) (filter (\<lambda>(q, _). DirPath q = p \<and> q \<noteq> p) d)) else Inl ErrNotExist),
     po_read = (\<lambda>d p. case map_of d p of Some (EFile s) \<Rightarrow> Inr s | _ \<Rightarrow> Inl ErrNotExist),
     po_write = (\<lambda>d p s. tree_set d p (EFile s)), po_mkdirall = (\<lambda>d p. tree_set d p EDir),
     po_remove = (\<lambda>d p. (AList.delete p d, None)), po_removeall = (\<lambda>d p. (filter (\<lambda>(q, _). \<not> below p q) d, None)),
     po_rename = (\<lambda>d a b. (map (\<lambda>(q, e). (if below a q then b @ drop (length a) q else q, e)) d, None)),
     po_symlink = (\<lambda>d t p. tree_set d p (ELink t)), po_load = (\<lambda>_ _. (zero_client_config, Some ErrNotExist)),
     po_cert = (\<lambda>_ _. []), po_export = (\<lambda>d _ _ _ _. (d, None))\<rparr>"

definition sample_opts :: tool_options where
  "sample_opts = \<lparr>opt_installDir = ''/i'', opt_profilesDir = ''/p''\<rparr>"

definition sample_tree :: tree where
  "sample_tree = [(''/i'', EDir), (''/i/conf'', ELink ''/p/a/conf''), (''/i/cert'', ELink ''/p/a/cert''),
     (''/p'', EDir), (''/p/a'', EDir), (''/p/a/conf'', EDir), (''/p/a/conf/client.yaml'', EFile ''x''),
     (''/p/a/cert'', EDir), (''/p/a/cert/server.crt'', EFile ''y''), (''/p/b'', EDir)]"

lemma delete_stays_inside_witness:
  "fst (snd (commandDelete tree_os sample_opts sample_tree [''b'', ''-yes''])) = fst (po_removeall tree_os sample_tree ''/p/b'')"
proof -
  let ?c = "commandDelete tree_os sample_opts sample_tree [''b'', ''-yes'']"
  have ne: "fst (snd ?c) \<noteq> sample_tree" by code_simp
  have args: "parseDeleteArgs [''b'', ''-yes''] = Inr (''b'', True, False)" "TrimSpace ''b'' = ''b''" by code_simp+
  have opts: "IsAbs (opt_profilesDir sample_opts)" "Clean (opt_profilesDir sample_opts) = opt_profilesDir sample_opts" by code_simp+
  have "child_path (opt_profilesDir sample_opts) ''b'' = ''/p/b''" by code_simp
  with delete_stays_inside [of tree_os sample_opts sample_tree "[''b'', ''-yes'']" "fst ?c" "fst (snd ?c)" "snd (snd ?c)", OF _ opts] ne args
  show ?thesis by auto
qed


end
