(* ===== verification/Spec2Isabelle.thy ===== *)
theory Spec2Isabelle
  imports Go_Prelude Event_Ring Stream_Limiter Connection_Limiter Authorization Fail_Files Protocol Certificate_Gate
    Transport Passwords Credential_Keys Server_Logs Hit_Logs
    Entry_Writer Entry_Security Reverse_Listener Handler_Answers Virtual_Nat_Laws Client_Config_Laws Client_Errors_Laws Client_Health
    Client_Compat_Laws Server_Compat_Laws Mobile_Laws Server_Lifecycle_Laws Server_Workers_Laws Server_Start_Laws Business_Flow_Laws Admin_Forms_Laws Profile_Laws
begin

text \<open>LSYL Tunnel.\<close>

end
